(* ===== verification/Acl_Models.thy ===== *)
theory Acl_Models
  imports Waygates_Prelude
begin

text \<open>
  The data of the access-control component, \<open>backend/internal/models/acl.go\<close> (and \<open>user.go\<close>):
  one record per struct, the string constants of the enumerations, the validation errors and
  the \<open>Validate\<close> methods. Columns that only carry bookkeeping times are left out, except where
  the service copies them. A pointer field is an option, a slice a list. Passwords are checked
  and hashed by \<open>golang.org/x/crypto/bcrypt\<close>, which is a parameter of the definitions that
  use it.
\<close>

section \<open>Enumerations\<close>

definition ACLCombinationModeAny :: string where "ACLCombinationModeAny = ''any''"
definition ACLCombinationModeAll :: string where "ACLCombinationModeAll = ''all''"
definition ACLCombinationModeIPBypass :: string where "ACLCombinationModeIPBypass = ''ip_bypass''"

definition ACLIPRuleTypeAllow :: string where "ACLIPRuleTypeAllow = ''allow''"
definition ACLIPRuleTypeDeny :: string where "ACLIPRuleTypeDeny = ''deny''"
definition ACLIPRuleTypeBypass :: string where "ACLIPRuleTypeBypass = ''bypass''"

definition ACLProviderTypeAuthelia :: string where "ACLProviderTypeAuthelia = ''authelia''"
definition ACLProviderTypeAuthentik :: string where "ACLProviderTypeAuthentik = ''authentik''"
definition ACLProviderTypeCustom :: string where "ACLProviderTypeCustom = ''custom''"

lemmas acl_const_defs =
  ACLCombinationModeAny_def ACLCombinationModeAll_def ACLCombinationModeIPBypass_def
  ACLIPRuleTypeAllow_def ACLIPRuleTypeDeny_def ACLIPRuleTypeBypass_def
  ACLProviderTypeAuthelia_def ACLProviderTypeAuthentik_def ACLProviderTypeCustom_def

section \<open>Records\<close>

record User =
  us_ID :: int
  us_Name :: string
  us_Username :: string
  us_Email :: string
  us_PasswordHash :: string
  us_Active :: bool
  us_MustChangePassword :: bool
  us_LastLoginAt :: "int option"

record ACLIPRule =
  ir_ID :: int
  ir_ACLGroupID :: int
  ir_RuleType :: string
  ir_CIDR :: string
  ir_Description :: "string option"
  ir_Priority :: int

record ACLBasicAuthUser =
  bu_ID :: int
  bu_ACLGroupID :: int
  bu_Username :: string
  bu_PasswordHash :: string

record ACLExternalProvider =
  ep_ID :: int
  ep_ACLGroupID :: int
  ep_ProviderType :: string
  ep_Name :: string
  ep_VerifyURL :: string
  ep_AuthRedirectURL :: "string option"
  ep_HeadersToCopy :: "string list"

record ACLWaygatesAuth =
  wa_ID :: int
  wa_ACLGroupID :: int
  wa_Enabled :: bool
  wa_AllowedUsers :: "string list"
  wa_AllowedRoles :: "string list"
  wa_AllowedEmailPatterns :: "string list"
  wa_Require2FA :: bool
  wa_SessionTTL :: int
  wa_CreatedAt :: int
  wa_AllowedEmails :: "string list"
  wa_AllowedDomains :: "string list"
  wa_AllowedProviders :: "string list"

record ACLOAuthProviderRestriction =
  or_ID :: int
  or_ACLGroupID :: int
  or_Provider :: string
  or_AllowedEmails :: "string list"
  or_AllowedDomains :: "string list"
  or_Enabled :: bool

record ACLGroup =
  gr_ID :: int
  gr_Name :: string
  gr_Description :: "string option"
  gr_CombinationMode :: string
  gr_CreatedBy :: int
  gr_IPRules :: "ACLIPRule list"
  gr_BasicAuthUsers :: "ACLBasicAuthUser list"
  gr_ExternalProviders :: "ACLExternalProvider list"
  gr_WaygatesAuth :: "ACLWaygatesAuth option"
  gr_OAuthProviderRestrictions :: "ACLOAuthProviderRestriction list"

record ProxyACLAssignment =
  pa_ID :: int
  pa_ProxyID :: int
  pa_ACLGroupID :: int
  pa_PathPattern :: string
  pa_Priority :: int
  pa_Enabled :: bool
  pa_ACLGroup :: "ACLGroup option"

record ACLBranding =
  br_ID :: int
  br_LogoURL :: "string option"
  br_PrimaryColor :: string
  br_BackgroundColor :: string
  br_Title :: string
  br_Subtitle :: "string option"
  br_FooterText :: "string option"
  br_CustomCSS :: "string option"

text \<open>Times are integers (nanoseconds of the server's clock).\<close>

record ACLSession =
  se_ID :: int
  se_SessionToken :: string
  se_UserID :: "int option"
  se_ProxyID :: "int option"
  se_IPAddress :: "string option"
  se_UserAgent :: "string option"
  se_ExpiresAt :: int
  se_Email :: "string option"
  se_Provider :: "string option"
  se_User :: "User option"

section \<open>Validation\<close>

datatype validation_error =
    ErrACLGroupNameRequired
  | ErrACLGroupNameTooLong
  | ErrInvalidCombinationMode
  | ErrInvalidIPRuleType
  | ErrModelInvalidCIDR
  | ErrBasicAuthUsernameEmpty
  | ErrBasicAuthPasswordEmpty
  | ErrInvalidProviderType
  | ErrProviderNameRequired
  | ErrProviderVerifyURLEmpty

text \<open>\<open>Validate\<close> returns nil (\<^term>\<open>None\<close>) or the first error.\<close>

definition ACLGroup_Validate :: "ACLGroup \<Rightarrow> validation_error option" where
  "ACLGroup_Validate g =
     (if gr_Name g = [] then Some ErrACLGroupNameRequired
      else if length (gr_Name g) > 255 then Some ErrACLGroupNameTooLong
      else if gr_CombinationMode g \<noteq> ACLCombinationModeAny \<and>
              gr_CombinationMode g \<noteq> ACLCombinationModeAll \<and>
              gr_CombinationMode g \<noteq> ACLCombinationModeIPBypass
        then Some ErrInvalidCombinationMode
      else None)"

definition ACLIPRule_Validate :: "ACLIPRule \<Rightarrow> validation_error option" where
  "ACLIPRule_Validate r =
     (if ir_RuleType r \<noteq> ACLIPRuleTypeAllow \<and>
         ir_RuleType r \<noteq> ACLIPRuleTypeDeny \<and>
         ir_RuleType r \<noteq> ACLIPRuleTypeBypass
        then Some ErrInvalidIPRuleType
      else if ir_CIDR r = [] then Some ErrModelInvalidCIDR
      else None)"

definition ACLExternalProvider_Validate :: "ACLExternalProvider \<Rightarrow> validation_error option" where
  "ACLExternalProvider_Validate p =
     (if ep_ProviderType p \<noteq> ACLProviderTypeAuthelia \<and>
         ep_ProviderType p \<noteq> ACLProviderTypeAuthentik \<and>
         ep_ProviderType p \<noteq> ACLProviderTypeCustom
        then Some ErrInvalidProviderType
      else if ep_Name p = [] then Some ErrProviderNameRequired
      else if ep_VerifyURL p = [] then Some ErrProviderVerifyURLEmpty
      else None)"

section \<open>Methods of the records\<close>

definition ACLSession_IsExpired :: "int \<Rightarrow> ACLSession \<Rightarrow> bool" where
  "ACLSession_IsExpired now s \<longleftrightarrow> now > se_ExpiresAt s"

text \<open>
  \<open>compare hash password\<close> is \<open>bcrypt.CompareHashAndPassword\<close> returning nil, and
  \<open>generate password cost\<close> is \<open>bcrypt.GenerateFromPassword\<close> (\<^term>\<open>None\<close> for its error).
\<close>

definition ACLBasicAuthUser_CheckPassword ::
  "(string \<Rightarrow> string \<Rightarrow> bool) \<Rightarrow> ACLBasicAuthUser \<Rightarrow> string \<Rightarrow> bool" where
  "ACLBasicAuthUser_CheckPassword compare u password = compare (bu_PasswordHash u) password"

definition ACLBasicAuthUser_SetPassword ::
  "(string \<Rightarrow> nat \<Rightarrow> string option) \<Rightarrow> ACLBasicAuthUser \<Rightarrow> string \<Rightarrow> nat
    \<Rightarrow> ACLBasicAuthUser option" where
  "ACLBasicAuthUser_SetPassword generate u password cost =
     map_option (\<lambda>h. u\<lparr>bu_PasswordHash := h\<rparr>) (generate password cost)"

section \<open>What validation accepts\<close>

lemma ACLGroup_Validate_None:
  "ACLGroup_Validate g = None \<longleftrightarrow>
     gr_Name g \<noteq> [] \<and> length (gr_Name g) \<le> 255 \<and>
     gr_CombinationMode g \<in> {''any'', ''all'', ''ip_bypass''}"
  by (auto simp: ACLGroup_Validate_def acl_const_defs)

lemma ACLIPRule_Validate_None:
  "ACLIPRule_Validate r = None \<longleftrightarrow>
     ir_RuleType r \<in> {''allow'', ''deny'', ''bypass''} \<and> ir_CIDR r \<noteq> []"
  by (auto simp: ACLIPRule_Validate_def acl_const_defs)

lemma ACLExternalProvider_Validate_None:
  "ACLExternalProvider_Validate p = None \<longleftrightarrow>
     ep_ProviderType p \<in> {''authelia'', ''authentik'', ''custom''} \<and>
     ep_Name p \<noteq> [] \<and> ep_VerifyURL p \<noteq> []"
  by (auto simp: ACLExternalProvider_Validate_def acl_const_defs)

end
