(* ===== verification/Proxy_Model.thy ===== *)
theory Proxy_Model
  imports Complex_Main Waygates_Prelude
begin

text \<open>
  The HTTP proxy of \<open>backend/internal/models/proxy.go\<close> with its validation, and the host name
  rule of \<open>backend/internal/validation/validation.go\<close>. Untyped configuration
  (\<open>interface{}\<close>, \<open>JSONField\<close>) is the type of decoded JSON values; a JSON object is an
  association list and the nil map is the empty one. Numbers are \<open>float64\<close> in Go and rationals
  here.
\<close>

datatype json =
    JNull
  | JBool bool
  | JNum rat
  | JStr string
  | JArr "json list"
  | JObj "(string \<times> json) list"

type_synonym JSONField = "(string \<times> json) list"

record CustomHeaders =
  ch_Request :: "(string \<times> string) list"
  ch_Response :: "(string \<times> string) list"

definition CustomHeaders_IsEmpty :: "CustomHeaders \<Rightarrow> bool" where
  "CustomHeaders_IsEmpty c \<longleftrightarrow> ch_Request c = [] \<and> ch_Response c = []"

text \<open>\<open>px_Upstreams = None\<close> is the nil interface.\<close>

record Proxy =
  px_ID :: int
  px_Type :: string
  px_Name :: string
  px_Hostname :: string
  px_Description :: "string option"
  px_SSLEnabled :: bool
  px_SSLForced :: bool
  px_IsActive :: bool
  px_CreatedBy :: int
  px_CreatedAt :: int
  px_Upstreams :: "json option"
  px_LoadBalancing :: JSONField
  px_BlockExploits :: bool
  px_TLSInsecureSkipVerify :: bool
  px_CustomHeaders :: CustomHeaders
  px_RedirectConfig :: JSONField
  px_StaticConfig :: JSONField

definition ProxyTypeReverseProxy :: string where "ProxyTypeReverseProxy = ''reverse_proxy''"
definition ProxyTypeRedirect :: string where "ProxyTypeRedirect = ''redirect''"
definition ProxyTypeStatic :: string where "ProxyTypeStatic = ''static''"

lemmas proxy_type_defs = ProxyTypeReverseProxy_def ProxyTypeRedirect_def ProxyTypeStatic_def

datatype proxy_validation_error =
    ErrInvalidProxyType
  | ErrProxyNameRequired
  | ErrProxyNameTooLong
  | ErrProxyHostnameRequired
  | ErrHostnameTooLong
  | ErrHostnameHasScheme
  | ErrHostnameHasPort
  | ErrHostnameHasPath
  | ErrHostnameEmptyLabel
  | ErrHostnameLabelTooLong
  | ErrUpstreamsRequired
  | ErrRedirectConfigRequired
  | ErrStaticConfigRequired

section \<open>Host names\<close>

fun check_labels :: "string list \<Rightarrow> proxy_validation_error option" where
  "check_labels [] = None"
| "check_labels (label # labels) =
     (if label = [] then Some ErrHostnameEmptyLabel
      else if length label > 63 then Some ErrHostnameLabelTooLong
      else check_labels labels)"

definition models_validateHostname :: "string \<Rightarrow> proxy_validation_error option" where
  "models_validateHostname hostname0 =
     (let hostname = TrimSpace hostname0 in
      if length hostname > 253 then Some ErrHostnameTooLong
      else if Contains hostname ''://'' then Some ErrHostnameHasScheme
      else if Contains hostname '':'' then Some ErrHostnameHasPort
      else if Contains hostname ''/'' then Some ErrHostnameHasPath
      else check_labels (Split (CHR ''.'') hostname))"

text \<open>The custom validator registered under the tag \<open>hostname\<close>.\<close>

definition validation_validateHostname :: "string \<Rightarrow> bool" where
  "validation_validateHostname hostname =
     (if Contains hostname ''://'' then False
      else if Contains hostname '':'' then False
      else if Contains hostname ''/'' then False
      else if length hostname > 253 then False
      else list_all (\<lambda>label. \<not> (label = [] \<or> length label > 63)) (Split (CHR ''.'') hostname))"

section \<open>Validate\<close>

definition Proxy_Validate :: "Proxy \<Rightarrow> proxy_validation_error option" where
  "Proxy_Validate p =
     (if px_Type p \<noteq> ProxyTypeReverseProxy \<and> px_Type p \<noteq> ProxyTypeRedirect \<and>
         px_Type p \<noteq> ProxyTypeStatic then Some ErrInvalidProxyType
      else if px_Name p = [] then Some ErrProxyNameRequired
      else if length (px_Name p) > 255 then Some ErrProxyNameTooLong
      else if px_Hostname p = [] then Some ErrProxyHostnameRequired
      else case models_validateHostname (px_Hostname p) of
          Some e \<Rightarrow> Some e
        | None \<Rightarrow>
            if px_Type p = ProxyTypeReverseProxy then
              (case px_Upstreams p of
                 None \<Rightarrow> Some ErrUpstreamsRequired
               | Some (JArr us) \<Rightarrow> if us = [] then Some ErrUpstreamsRequired else None
               | Some _ \<Rightarrow> None)
            else if px_Type p = ProxyTypeRedirect then
              (if px_RedirectConfig p = [] then Some ErrRedirectConfigRequired else None)
            else if px_StaticConfig p = [] then Some ErrStaticConfigRequired
            else None)"

section \<open>Lemmas\<close>

lemma check_labels_None:
  "check_labels ls = None \<longleftrightarrow> list_all (\<lambda>l. \<not> (l = [] \<or> length l > 63)) ls"
  by (induction ls) auto

lemma models_hostname_accepts:
  "models_validateHostname h = None \<longleftrightarrow>
     length (TrimSpace h) \<le> 253 \<and>
     CHR '':'' \<notin> set (TrimSpace h) \<and> CHR ''/'' \<notin> set (TrimSpace h) \<and>
     (\<forall>l \<in> set (Split (CHR ''.'') (TrimSpace h)). l \<noteq> [] \<and> length l \<le> 63)"
proof -
  have "Contains (TrimSpace h) ''://'' \<Longrightarrow> CHR '':'' \<in> set (TrimSpace h)"
    using Contains_char_of[of "TrimSpace h" "''://''" "CHR '':''"] by simp
  then show ?thesis
    by (auto simp: models_validateHostname_def Let_def check_labels_None list_all_iff not_less)
qed

text \<open>
  The two host name checks of the program agree up to surrounding white space: the model's
  \<open>validateHostname\<close> accepts a name exactly when the request validator accepts the trimmed name.
\<close>

theorem hostname_validators_agree:
  "models_validateHostname h = None \<longleftrightarrow> validation_validateHostname (TrimSpace h)"
proof -
  have "Contains (TrimSpace h) ''://'' \<Longrightarrow> CHR '':'' \<in> set (TrimSpace h)"
    using Contains_char_of[of "TrimSpace h" "''://''" "CHR '':''"] by simp
  then show ?thesis
    by (auto simp: models_hostname_accepts validation_validateHostname_def list_all_iff not_less)
qed

end
