(* ===== verification/Gorm_Table.thy ===== *)
theory Gorm_Table
  imports Waygates_Prelude
begin

text \<open>
  Database tables as the repositories use them. A table is the list of its rows in primary-key
  order together with the next value of its serial sequence. The operations are the GORM calls
  the repositories make: \<open>First\<close> (the lowest key that satisfies the condition), \<open>Find\<close>,
  \<open>Create\<close> (the sequence supplies the key), \<open>Save\<close> (the row with the same key is replaced, or
  added when there is none) and \<open>Delete\<close> with a condition. The locale \<open>row_table\<close> is the
  interface: a row type with a readable and writable key. Its lemmas say that every operation
  keeps the keys unique and below the sequence, and what a lookup returns after an operation;
  they are interpreted for every row type of the model.
\<close>

record 'r table =
  tb_rows :: "'r list"
  tb_next :: int

datatype db_error = RecordNotFound | DuplicateKey | ForeignKey | DBFault

definition empty_table :: "'r table" where
  "empty_table = \<lparr>tb_rows = [], tb_next = 1\<rparr>"

definition tb_First :: "('r \<Rightarrow> bool) \<Rightarrow> 'r table \<Rightarrow> 'r option" where
  "tb_First P t = List.find P (tb_rows t)"

definition tb_Find :: "('r \<Rightarrow> bool) \<Rightarrow> 'r table \<Rightarrow> 'r list" where
  "tb_Find P t = filter P (tb_rows t)"

definition tb_Create :: "(int \<Rightarrow> 'r \<Rightarrow> 'r) \<Rightarrow> 'r \<Rightarrow> 'r table \<Rightarrow> 'r table" where
  "tb_Create set_key r t =
     \<lparr>tb_rows = tb_rows t @ [set_key (tb_next t) r], tb_next = tb_next t + 1\<rparr>"

definition tb_Save :: "('r \<Rightarrow> int) \<Rightarrow> 'r \<Rightarrow> 'r table \<Rightarrow> 'r table" where
  "tb_Save key r t =
     (if list_ex (\<lambda>x. key x = key r) (tb_rows t)
      then t\<lparr>tb_rows := map (\<lambda>x. if key x = key r then r else x) (tb_rows t)\<rparr>
      else t\<lparr>tb_rows := tb_rows t @ [r]\<rparr>)"

definition tb_Delete :: "('r \<Rightarrow> bool) \<Rightarrow> 'r table \<Rightarrow> 'r table" where
  "tb_Delete P t = t\<lparr>tb_rows := filter (\<lambda>x. \<not> P x) (tb_rows t)\<rparr>"

definition tb_wf :: "('r \<Rightarrow> int) \<Rightarrow> 'r table \<Rightarrow> bool" where
  "tb_wf key t \<longleftrightarrow> sorted_wrt (<) (map key (tb_rows t)) \<and> list_all (\<lambda>x. key x < tb_next t) (tb_rows t)"

section \<open>Facts that need no key\<close>

lemma rows_empty [simp]: "tb_rows empty_table = []"
  by (simp add: empty_table_def)

lemma tb_First_Some: "tb_First P t = Some r \<Longrightarrow> r \<in> set (tb_rows t) \<and> P r"
  by (simp add: tb_First_def find_Some_set)

lemma tb_First_None: "tb_First P t = None \<longleftrightarrow> (\<forall>r \<in> set (tb_rows t). \<not> P r)"
  by (simp add: tb_First_def find_None_set)

lemma set_tb_Find [simp]: "set (tb_Find P t) = {r \<in> set (tb_rows t). P r}"
  by (auto simp: tb_Find_def)

lemma set_tb_Create [simp]:
  "set (tb_rows (tb_Create sk r t)) = insert (sk (tb_next t) r) (set (tb_rows t))"
  by (simp add: tb_Create_def)

lemma set_tb_Delete [simp]: "set (tb_rows (tb_Delete P t)) = {r \<in> set (tb_rows t). \<not> P r}"
  by (auto simp: tb_Delete_def)

lemma next_tb_Create [simp]: "tb_next (tb_Create sk r t) = tb_next t + 1"
  by (simp add: tb_Create_def)

lemma next_tb_Delete [simp]: "tb_next (tb_Delete P t) = tb_next t"
  by (simp add: tb_Delete_def)

lemma next_tb_Save [simp]: "tb_next (tb_Save key r t) = tb_next t"
  by (simp add: tb_Save_def)

lemma tb_First_Delete: "tb_First P (tb_Delete Q t) = List.find P (filter (\<lambda>x. \<not> Q x) (tb_rows t))"
  by (simp add: tb_First_def tb_Delete_def)

lemma set_tb_Save:
  assumes "\<exists>x \<in> set (tb_rows t). key x = key r"
  shows "set (tb_rows (tb_Save key r t)) = insert r {x \<in> set (tb_rows t). key x \<noteq> key r}"
  using assms by (auto simp: tb_Save_def list_ex_iff)

lemma find_append_last:
  "List.find P (xs @ [x]) =
     (case List.find P xs of Some y \<Rightarrow> Some y | None \<Rightarrow> if P x then Some x else None)"
  by (induction xs) auto

section \<open>The table interface\<close>

locale row_table =
  fixes key :: "'r \<Rightarrow> int" and set_key :: "int \<Rightarrow> 'r \<Rightarrow> 'r"
  assumes key_set_key: "key (set_key i r) = i"
begin

lemma wf_empty: "tb_wf key empty_table"
  by (simp add: tb_wf_def empty_table_def)

lemma wf_Create: "tb_wf key t \<Longrightarrow> tb_wf key (tb_Create set_key r t)"
  by (fastforce simp: tb_wf_def tb_Create_def key_set_key sorted_wrt_append list_all_iff)

lemma wf_Delete: "tb_wf key t \<Longrightarrow> tb_wf key (tb_Delete P t)"
  by (auto simp: tb_wf_def tb_Delete_def list_all_iff sorted_wrt_map intro: sorted_wrt_filter)

lemma wf_Save:
  assumes "tb_wf key t" and "\<exists>x \<in> set (tb_rows t). key x = key r"
  shows "tb_wf key (tb_Save key r t)"
proof -
  have "key \<circ> (\<lambda>x. if key x = key r then r else x) = key"
    by (auto simp: fun_eq_iff)
  with assms show ?thesis by (auto simp: tb_wf_def tb_Save_def list_ex_iff list_all_iff)
qed

lemma key_unique:
  assumes "tb_wf key t" "x \<in> set (tb_rows t)" "y \<in> set (tb_rows t)" "key x = key y"
  shows "x = y"
proof -
  from assms(1) have "distinct (map key (tb_rows t))"
    by (simp add: tb_wf_def strict_sorted_iff)
  with assms(2-) show ?thesis by (auto simp: distinct_map inj_on_def)
qed

text \<open>A lookup by key finds exactly the row with that key.\<close>

lemma First_key:
  assumes "tb_wf key t" "r \<in> set (tb_rows t)"
  shows "tb_First (\<lambda>x. key x = key r) t = Some r"
proof (cases "tb_First (\<lambda>x. key x = key r) t")
  case None
  with assms(2) show ?thesis by (auto simp: tb_First_None)
next
  case (Some x)
  with assms show ?thesis by (auto dest!: tb_First_Some intro: key_unique)
qed

lemma fresh_key: "tb_wf key t \<Longrightarrow> r \<in> set (tb_rows t) \<Longrightarrow> key r \<noteq> tb_next t"
  by (auto simp: tb_wf_def list_all_iff)

lemma First_Create:
  assumes "tb_wf key t"
  shows "tb_First (\<lambda>x. key x = tb_next t) (tb_Create set_key r t) = Some (set_key (tb_next t) r)"
proof -
  have "set_key (tb_next t) r \<in> set (tb_rows (tb_Create set_key r t))" by simp
  from First_key[OF wf_Create[OF assms] this] show ?thesis by (simp add: key_set_key)
qed

lemma First_Create_other:
  "i \<noteq> tb_next t \<Longrightarrow>
   tb_First (\<lambda>x. key x = i) (tb_Create set_key r t) = tb_First (\<lambda>x. key x = i) t"
  by (auto simp: tb_First_def tb_Create_def key_set_key find_append_last split: option.splits)

lemma First_Save:
  assumes "tb_wf key t" and "\<exists>x \<in> set (tb_rows t). key x = key r"
  shows "tb_First (\<lambda>x. key x = key r) (tb_Save key r t) = Some r"
  by (rule First_key[OF wf_Save[OF assms]]) (simp add: set_tb_Save[OF assms(2)])

lemma First_Save_other:
  assumes "i \<noteq> key r" and "\<exists>x \<in> set (tb_rows t). key x = key r"
  shows "tb_First (\<lambda>x. key x = i) (tb_Save key r t) = tb_First (\<lambda>x. key x = i) t"
proof -
  have "List.find (\<lambda>x. key x = i) (map (\<lambda>x. if key x = key r then r else x) xs) =
      List.find (\<lambda>x. key x = i) xs" for xs
    using assms(1) by (induction xs) auto
  with assms(2) show ?thesis by (auto simp: tb_First_def tb_Save_def list_ex_iff)
qed

lemma First_Delete_key: "tb_First (\<lambda>x. key x = i) (tb_Delete (\<lambda>x. key x = i) t) = None"
  by (simp add: tb_First_None)

lemma First_Delete_other:
  assumes "tb_wf key t" "tb_First (\<lambda>x. key x = i) t = Some r" "\<not> P r"
  shows "tb_First (\<lambda>x. key x = i) (tb_Delete P t) = Some r"
proof -
  from assms(2) have r: "r \<in> set (tb_rows t)" "key r = i" by (auto dest: tb_First_Some)
  with assms(3) have "r \<in> set (tb_rows (tb_Delete P t))" by simp
  from First_key[OF wf_Delete[OF assms(1)] this] r(2) show ?thesis by simp
qed

end

text \<open>
  Tables with constraints. On top of \<open>row_table\<close> the locale \<open>constrained_table\<close> adds what the
  migrations declare for a table: a unique index, given as the relation \<open>clash\<close> between rows that
  must not coexist, and a row condition \<open>ok\<close> that may refer to the rest of the database through
  an environment (the keys a foreign key may name). \<open>table_ok\<close> collects the constraints, and the
  locale's lemmas say under which conditions each write keeps them.
\<close>

definition table_ok ::
  "('r \<Rightarrow> int) \<Rightarrow> ('r \<Rightarrow> 'r \<Rightarrow> bool) \<Rightarrow> ('g \<Rightarrow> 'r \<Rightarrow> bool) \<Rightarrow> 'g \<Rightarrow> 'r table \<Rightarrow> bool" where
  "table_ok key clash ok G t \<longleftrightarrow>
     tb_wf key t \<and>
     (\<forall>r \<in> set (tb_rows t). ok G r) \<and>
     (\<forall>x \<in> set (tb_rows t). \<forall>y \<in> set (tb_rows t). clash x y \<longrightarrow> x = y)"

lemma table_okI:
  assumes "tb_wf key t" "\<And>r. r \<in> set (tb_rows t) \<Longrightarrow> ok G r"
    and "\<And>x y. x \<in> set (tb_rows t) \<Longrightarrow> y \<in> set (tb_rows t) \<Longrightarrow> clash x y \<Longrightarrow> x = y"
  shows "table_ok key clash ok G t"
  using assms by (auto simp: table_ok_def)

lemma table_ok_wf: "table_ok key clash ok G t \<Longrightarrow> tb_wf key t"
  by (simp add: table_ok_def)

lemma table_ok_row: "table_ok key clash ok G t \<Longrightarrow> r \<in> set (tb_rows t) \<Longrightarrow> ok G r"
  by (simp add: table_ok_def)

lemma table_ok_unique:
  "table_ok key clash ok G t \<Longrightarrow> x \<in> set (tb_rows t) \<Longrightarrow> y \<in> set (tb_rows t) \<Longrightarrow> clash x y \<Longrightarrow> x = y"
  by (simp add: table_ok_def)

locale constrained_table = row_table key set_key
  for key :: "'r \<Rightarrow> int" and set_key :: "int \<Rightarrow> 'r \<Rightarrow> 'r" +
  fixes clash :: "'r \<Rightarrow> 'r \<Rightarrow> bool" and ok :: "'g \<Rightarrow> 'r \<Rightarrow> bool"
  assumes clash_sym: "clash x y \<Longrightarrow> clash y x"
    and clash_set_key: "clash x (set_key i r) \<longleftrightarrow> clash x r"
    and ok_set_key: "ok G (set_key i r) \<longleftrightarrow> ok G r"
begin

lemma ok_empty: "table_ok key clash ok G empty_table"
  using wf_empty by (simp add: table_ok_def)

lemma ok_Create:
  assumes t: "table_ok key clash ok G t" and "ok G r" "\<And>x. x \<in> set (tb_rows t) \<Longrightarrow> \<not> clash x r"
  shows "table_ok key clash ok G (tb_Create set_key r t)"
proof (rule table_okI)
  show "tb_wf key (tb_Create set_key r t)" using t by (intro wf_Create) (rule table_ok_wf)
  show "ok G x" if "x \<in> set (tb_rows (tb_Create set_key r t))" for x
    using that assms by (auto simp: ok_set_key table_ok_def)
  show "x = y" if "x \<in> set (tb_rows (tb_Create set_key r t))"
    "y \<in> set (tb_rows (tb_Create set_key r t))" "clash x y" for x y
    using that assms by (auto simp: table_ok_def clash_set_key dest: clash_sym)
qed

lemma ok_Save:
  assumes t: "table_ok key clash ok G t" and "ok G r"
    and ex: "\<exists>x \<in> set (tb_rows t). key x = key r"
    and "\<And>x. x \<in> set (tb_rows t) \<Longrightarrow> clash x r \<Longrightarrow> key x = key r"
  shows "table_ok key clash ok G (tb_Save key r t)"
proof (rule table_okI)
  show "tb_wf key (tb_Save key r t)" using t ex by (intro wf_Save) (auto intro: table_ok_wf)
  show "ok G x" if "x \<in> set (tb_rows (tb_Save key r t))" for x
    using that assms by (auto simp: set_tb_Save[OF ex] table_ok_def)
  show "x = y" if "x \<in> set (tb_rows (tb_Save key r t))" "y \<in> set (tb_rows (tb_Save key r t))"
    "clash x y" for x y
    using that assms by (auto simp: set_tb_Save[OF ex] table_ok_def dest: clash_sym)
qed

lemma ok_Delete:
  assumes "table_ok key clash ok G t"
    and "\<And>r. r \<in> set (tb_rows t) \<Longrightarrow> ok G r \<Longrightarrow> \<not> P r \<Longrightarrow> ok G' r"
  shows "table_ok key clash ok G' (tb_Delete P t)"
proof (rule table_okI)
  show "tb_wf key (tb_Delete P t)" using assms(1) by (intro wf_Delete) (rule table_ok_wf)
qed (use assms in \<open>auto simp: table_ok_def\<close>)

lemma ok_Delete_same: "table_ok key clash ok G t \<Longrightarrow> table_ok key clash ok G (tb_Delete P t)"
  by (rule ok_Delete)

lemma ok_mono:
  assumes "table_ok key clash ok G t"
    and "\<And>r. r \<in> set (tb_rows t) \<Longrightarrow> ok G r \<Longrightarrow> ok G' r"
  shows "table_ok key clash ok G' t"
  using assms by (auto simp: table_ok_def)

text \<open>The row that a lookup returned can be looked up again under its own key.\<close>

lemma lookup_row:
  assumes "table_ok key clash ok G t" "tb_First (\<lambda>r. key r = i) t = Some r"
  shows "r \<in> set (tb_rows t)" "key r = i" "ok G r"
  using assms tb_First_Some[OF assms(2)] by (auto simp: table_ok_def)

end

end
