(* ===== verification/Acl_Store.thy ===== *)
theory Acl_Store
  imports Acl_Models Proxy_Model Gorm_Table
begin

text \<open>
  The ACL tables and \<open>backend/internal/repository/acl_repository.go\<close>, one definition per method.
  The store holds the tables the repository queries, with the constraints the migrations give
  them: unique group names, one Waygates configuration per group, unique (group, user name),
  (group, provider) and (proxy, group) pairs, unique session tokens, and foreign keys to groups,
  proxies and users. A write that breaks a constraint returns its error and leaves the store
  unchanged. Relations are columns of the child tables; \<open>preload_group\<close> assembles the struct
  GORM returns.

  \<open>flt\<close> says which repository calls fail with a database error in the run at hand, so that
  every error branch of the callers is a branch of the model. GORM replaces the zero value of a
  column that has a \<open>default\<close> tag by the default when it creates a row (the comment on
  \<open>Proxy.SSLEnabled\<close> in \<open>models/proxy.go\<close> explains this); the \<open>*_defaults\<close> functions are those
  substitutions.
\<close>

type_synonym faults = "string \<Rightarrow> bool"

definition no_faults :: faults where
  "no_faults c = False"

record acl_store =
  st_groups :: "ACLGroup table"
  st_ip_rules :: "ACLIPRule table"
  st_basic_users :: "ACLBasicAuthUser table"
  st_providers :: "ACLExternalProvider table"
  st_waygates :: "ACLWaygatesAuth table"
  st_restrictions :: "ACLOAuthProviderRestriction table"
  st_assignments :: "ProxyACLAssignment table"
  st_sessions :: "ACLSession table"
  st_branding :: "ACLBranding option"
  st_proxies :: "Proxy table"
  st_users :: "User table"

definition empty_store :: acl_store where
  "empty_store =
     \<lparr>st_groups = empty_table, st_ip_rules = empty_table, st_basic_users = empty_table,
      st_providers = empty_table, st_waygates = empty_table, st_restrictions = empty_table,
      st_assignments = empty_table, st_sessions = empty_table, st_branding = None,
      st_proxies = empty_table, st_users = empty_table\<rparr>"

section \<open>The tables are row tables\<close>

definition set_gr_ID :: "int \<Rightarrow> ACLGroup \<Rightarrow> ACLGroup" where "set_gr_ID i r = r\<lparr>gr_ID := i\<rparr>"
definition set_ir_ID :: "int \<Rightarrow> ACLIPRule \<Rightarrow> ACLIPRule" where "set_ir_ID i r = r\<lparr>ir_ID := i\<rparr>"
definition set_bu_ID :: "int \<Rightarrow> ACLBasicAuthUser \<Rightarrow> ACLBasicAuthUser" where
  "set_bu_ID i r = r\<lparr>bu_ID := i\<rparr>"
definition set_ep_ID :: "int \<Rightarrow> ACLExternalProvider \<Rightarrow> ACLExternalProvider" where
  "set_ep_ID i r = r\<lparr>ep_ID := i\<rparr>"
definition set_wa_ID :: "int \<Rightarrow> ACLWaygatesAuth \<Rightarrow> ACLWaygatesAuth" where
  "set_wa_ID i r = r\<lparr>wa_ID := i\<rparr>"
definition set_or_ID :: "int \<Rightarrow> ACLOAuthProviderRestriction \<Rightarrow> ACLOAuthProviderRestriction" where
  "set_or_ID i r = r\<lparr>or_ID := i\<rparr>"
definition set_pa_ID :: "int \<Rightarrow> ProxyACLAssignment \<Rightarrow> ProxyACLAssignment" where
  "set_pa_ID i r = r\<lparr>pa_ID := i\<rparr>"
definition set_se_ID :: "int \<Rightarrow> ACLSession \<Rightarrow> ACLSession" where "set_se_ID i r = r\<lparr>se_ID := i\<rparr>"

lemmas set_ID_defs =
  set_gr_ID_def set_ir_ID_def set_bu_ID_def set_ep_ID_def set_wa_ID_def set_or_ID_def
  set_pa_ID_def set_se_ID_def

interpretation groups_tb: row_table gr_ID set_gr_ID
  by unfold_locales (simp add: set_ID_defs)

interpretation rules_tb: row_table ir_ID set_ir_ID
  by unfold_locales (simp add: set_ID_defs)

interpretation basic_tb: row_table bu_ID set_bu_ID
  by unfold_locales (simp add: set_ID_defs)

interpretation providers_tb: row_table ep_ID set_ep_ID
  by unfold_locales (simp add: set_ID_defs)

interpretation waygates_tb: row_table wa_ID set_wa_ID
  by unfold_locales (simp add: set_ID_defs)

interpretation restrictions_tb: row_table or_ID set_or_ID
  by unfold_locales (simp add: set_ID_defs)

interpretation assignments_tb: row_table pa_ID set_pa_ID
  by unfold_locales (simp add: set_ID_defs)

interpretation sessions_tb: row_table se_ID set_se_ID
  by unfold_locales (simp add: set_ID_defs)

section \<open>Reads\<close>

definition read_first :: "bool \<Rightarrow> ('r \<Rightarrow> bool) \<Rightarrow> 'r table \<Rightarrow> (db_error, 'r) result" where
  "read_first fault P t =
     (if fault then Err DBFault
      else case tb_First P t of None \<Rightarrow> Err RecordNotFound | Some r \<Rightarrow> Ok r)"

definition preload_group :: "acl_store \<Rightarrow> ACLGroup \<Rightarrow> ACLGroup" where
  "preload_group st g =
     g\<lparr>gr_IPRules := tb_Find (\<lambda>r. ir_ACLGroupID r = gr_ID g) (st_ip_rules st),
       gr_BasicAuthUsers := tb_Find (\<lambda>r. bu_ACLGroupID r = gr_ID g) (st_basic_users st),
       gr_ExternalProviders := tb_Find (\<lambda>r. ep_ACLGroupID r = gr_ID g) (st_providers st),
       gr_WaygatesAuth := tb_First (\<lambda>r. wa_ACLGroupID r = gr_ID g) (st_waygates st),
       gr_OAuthProviderRestrictions := tb_Find (\<lambda>r. or_ACLGroupID r = gr_ID g) (st_restrictions st)\<rparr>"

definition group_row :: "ACLGroup \<Rightarrow> ACLGroup" where
  "group_row g =
     g\<lparr>gr_IPRules := [], gr_BasicAuthUsers := [], gr_ExternalProviders := [],
       gr_WaygatesAuth := None, gr_OAuthProviderRestrictions := []\<rparr>"

definition GetGroupByID :: "faults \<Rightarrow> int \<Rightarrow> acl_store \<Rightarrow> (db_error, ACLGroup) result" where
  "GetGroupByID flt rid st =
     map_sum (\<lambda>e. e) (preload_group st)
       (read_first (flt ''GetGroupByID'') (\<lambda>g. gr_ID g = rid) (st_groups st))"

definition GetGroupByName :: "faults \<Rightarrow> string \<Rightarrow> acl_store \<Rightarrow> (db_error, ACLGroup) result" where
  "GetGroupByName flt name st =
     read_first (flt ''GetGroupByName'') (\<lambda>g. gr_Name g = name) (st_groups st)"

definition GetIPRuleByID :: "faults \<Rightarrow> int \<Rightarrow> acl_store \<Rightarrow> (db_error, ACLIPRule) result" where
  "GetIPRuleByID flt rid st = read_first (flt ''GetIPRuleByID'') (\<lambda>r. ir_ID r = rid) (st_ip_rules st)"

definition ListIPRules :: "faults \<Rightarrow> int \<Rightarrow> acl_store \<Rightarrow> (db_error, ACLIPRule list) result" where
  "ListIPRules flt groupID st =
     (if flt ''ListIPRules'' then Err DBFault
      else Ok (sort_key ir_Priority (tb_Find (\<lambda>r. ir_ACLGroupID r = groupID) (st_ip_rules st))))"

definition GetBasicAuthUserByID ::
  "faults \<Rightarrow> int \<Rightarrow> acl_store \<Rightarrow> (db_error, ACLBasicAuthUser) result" where
  "GetBasicAuthUserByID flt rid st =
     read_first (flt ''GetBasicAuthUserByID'') (\<lambda>r. bu_ID r = rid) (st_basic_users st)"

definition GetBasicAuthUser ::
  "faults \<Rightarrow> int \<Rightarrow> string \<Rightarrow> acl_store \<Rightarrow> (db_error, ACLBasicAuthUser) result" where
  "GetBasicAuthUser flt groupID username st =
     read_first (flt ''GetBasicAuthUser'')
       (\<lambda>r. bu_ACLGroupID r = groupID \<and> bu_Username r = username) (st_basic_users st)"

definition GetExternalProviderByID ::
  "faults \<Rightarrow> int \<Rightarrow> acl_store \<Rightarrow> (db_error, ACLExternalProvider) result" where
  "GetExternalProviderByID flt rid st =
     read_first (flt ''GetExternalProviderByID'') (\<lambda>r. ep_ID r = rid) (st_providers st)"

definition GetWaygatesAuth :: "faults \<Rightarrow> int \<Rightarrow> acl_store \<Rightarrow> (db_error, ACLWaygatesAuth) result" where
  "GetWaygatesAuth flt groupID st =
     read_first (flt ''GetWaygatesAuth'') (\<lambda>r. wa_ACLGroupID r = groupID) (st_waygates st)"

definition GetOAuthProviderRestriction ::
  "faults \<Rightarrow> int \<Rightarrow> string \<Rightarrow> acl_store \<Rightarrow> (db_error, ACLOAuthProviderRestriction) result" where
  "GetOAuthProviderRestriction flt groupID provider st =
     read_first (flt ''GetOAuthProviderRestriction'')
       (\<lambda>r. or_ACLGroupID r = groupID \<and> or_Provider r = provider) (st_restrictions st)"

definition GetProxyACLAssignmentByID ::
  "faults \<Rightarrow> int \<Rightarrow> acl_store \<Rightarrow> (db_error, ProxyACLAssignment) result" where
  "GetProxyACLAssignmentByID flt rid st =
     read_first (flt ''GetProxyACLAssignmentByID'') (\<lambda>r. pa_ID r = rid) (st_assignments st)"

definition preload_assignment :: "acl_store \<Rightarrow> ProxyACLAssignment \<Rightarrow> ProxyACLAssignment" where
  "preload_assignment st a =
     a\<lparr>pa_ACLGroup :=
         map_option (preload_group st) (tb_First (\<lambda>g. gr_ID g = pa_ACLGroupID a) (st_groups st))\<rparr>"

definition GetProxyACLAssignments ::
  "faults \<Rightarrow> int \<Rightarrow> acl_store \<Rightarrow> (db_error, ProxyACLAssignment list) result" where
  "GetProxyACLAssignments flt proxyID st =
     (if flt ''GetProxyACLAssignments'' then Err DBFault
      else Ok (map (preload_assignment st)
        (sort_key pa_Priority (tb_Find (\<lambda>a. pa_ProxyID a = proxyID) (st_assignments st)))))"

definition GetProxyACLAssignmentsByGroup ::
  "faults \<Rightarrow> int \<Rightarrow> acl_store \<Rightarrow> (db_error, ProxyACLAssignment list) result" where
  "GetProxyACLAssignmentsByGroup flt groupID st =
     (if flt ''GetProxyACLAssignmentsByGroup'' then Err DBFault
      else Ok (sort_key pa_Priority (tb_Find (\<lambda>a. pa_ACLGroupID a = groupID) (st_assignments st))))"

definition GetSessionByToken :: "faults \<Rightarrow> string \<Rightarrow> acl_store \<Rightarrow> (db_error, ACLSession) result" where
  "GetSessionByToken flt token st =
     map_sum (\<lambda>e. e)
       (\<lambda>s. s\<lparr>se_User := (case se_UserID s of None \<Rightarrow> None
                          | Some u \<Rightarrow> tb_First (\<lambda>x. us_ID x = u) (st_users st))\<rparr>)
       (read_first (flt ''GetSessionByToken'') (\<lambda>s. se_SessionToken s = token) (st_sessions st))"

definition Proxy_GetByHostname :: "faults \<Rightarrow> string \<Rightarrow> acl_store \<Rightarrow> (db_error, Proxy) result" where
  "Proxy_GetByHostname flt hostname st =
     read_first (flt ''GetByHostname'') (\<lambda>p. px_Hostname p = hostname) (st_proxies st)"

definition Proxy_GetByID :: "faults \<Rightarrow> int \<Rightarrow> acl_store \<Rightarrow> (db_error, Proxy) result" where
  "Proxy_GetByID flt rid st = read_first (flt ''GetByID'') (\<lambda>p. px_ID p = rid) (st_proxies st)"

lemmas repo_read_defs =
  GetGroupByID_def GetGroupByName_def GetIPRuleByID_def GetBasicAuthUserByID_def
  GetBasicAuthUser_def GetExternalProviderByID_def GetWaygatesAuth_def
  GetOAuthProviderRestriction_def GetProxyACLAssignmentByID_def GetSessionByToken_def
  Proxy_GetByHostname_def Proxy_GetByID_def

section \<open>Writes\<close>

text \<open>A write returns the new store, or the store unchanged with the error.\<close>

type_synonym write_result = "acl_store \<times> db_error option"

definition group_exists :: "acl_store \<Rightarrow> int \<Rightarrow> bool" where
  "group_exists st i \<longleftrightarrow> list_ex (\<lambda>g. gr_ID g = i) (tb_rows (st_groups st))"

definition proxy_exists :: "acl_store \<Rightarrow> int \<Rightarrow> bool" where
  "proxy_exists st i \<longleftrightarrow> list_ex (\<lambda>p. px_ID p = i) (tb_rows (st_proxies st))"

definition user_exists :: "acl_store \<Rightarrow> int \<Rightarrow> bool" where
  "user_exists st i \<longleftrightarrow> list_ex (\<lambda>u. us_ID u = i) (tb_rows (st_users st))"

definition str_default :: "string \<Rightarrow> string \<Rightarrow> string" where
  "str_default d s = (if s = [] then d else s)"

definition group_defaults :: "ACLGroup \<Rightarrow> ACLGroup" where
  "group_defaults g = g\<lparr>gr_CombinationMode := str_default ''any'' (gr_CombinationMode g)\<rparr>"

definition waygates_defaults :: "ACLWaygatesAuth \<Rightarrow> ACLWaygatesAuth" where
  "waygates_defaults w =
     w\<lparr>wa_Enabled := True,
       wa_SessionTTL := (if wa_SessionTTL w = 0 then 86400 else wa_SessionTTL w)\<rparr>"

definition restriction_defaults :: "ACLOAuthProviderRestriction \<Rightarrow> ACLOAuthProviderRestriction" where
  "restriction_defaults r = r\<lparr>or_Enabled := True\<rparr>"

definition assignment_defaults :: "ProxyACLAssignment \<Rightarrow> ProxyACLAssignment" where
  "assignment_defaults a =
     a\<lparr>pa_PathPattern := str_default ''/*'' (pa_PathPattern a), pa_Enabled := True,
       pa_ACLGroup := None\<rparr>"

definition CreateGroup_repo :: "faults \<Rightarrow> ACLGroup \<Rightarrow> acl_store \<Rightarrow> write_result" where
  "CreateGroup_repo flt g st =
     (if flt ''CreateGroup'' then (st, Some DBFault)
      else if list_ex (\<lambda>x. gr_Name x = gr_Name g) (tb_rows (st_groups st)) then (st, Some DuplicateKey)
      else if \<not> user_exists st (gr_CreatedBy g) then (st, Some ForeignKey)
      else (st\<lparr>st_groups := tb_Create set_gr_ID (group_row (group_defaults g)) (st_groups st)\<rparr>, None))"

definition UpdateGroup_repo :: "faults \<Rightarrow> ACLGroup \<Rightarrow> acl_store \<Rightarrow> write_result" where
  "UpdateGroup_repo flt g st =
     (if flt ''UpdateGroup'' then (st, Some DBFault)
      else if list_ex (\<lambda>x. gr_Name x = gr_Name g \<and> gr_ID x \<noteq> gr_ID g) (tb_rows (st_groups st))
        then (st, Some DuplicateKey)
      else (st\<lparr>st_groups := tb_Save gr_ID (group_row g) (st_groups st)\<rparr>, None))"

text \<open>
  The body of the deleting transaction (\<open>DeleteGroup\<close> and \<open>DeleteGroupWithTx\<close> share it):
  children first, then the group. A failing statement rolls the transaction back.
\<close>

definition delete_group_rows :: "int \<Rightarrow> acl_store \<Rightarrow> acl_store" where
  "delete_group_rows rid st =
     st\<lparr>st_ip_rules := tb_Delete (\<lambda>r. ir_ACLGroupID r = rid) (st_ip_rules st),
        st_basic_users := tb_Delete (\<lambda>r. bu_ACLGroupID r = rid) (st_basic_users st),
        st_providers := tb_Delete (\<lambda>r. ep_ACLGroupID r = rid) (st_providers st),
        st_waygates := tb_Delete (\<lambda>r. wa_ACLGroupID r = rid) (st_waygates st),
        st_restrictions := tb_Delete (\<lambda>r. or_ACLGroupID r = rid) (st_restrictions st),
        st_assignments := tb_Delete (\<lambda>a. pa_ACLGroupID a = rid) (st_assignments st),
        st_groups := tb_Delete (\<lambda>g. gr_ID g = rid) (st_groups st)\<rparr>"

definition DeleteGroup_repo :: "faults \<Rightarrow> int \<Rightarrow> acl_store \<Rightarrow> write_result" where
  "DeleteGroup_repo flt rid st =
     (if flt ''DeleteGroup'' then (st, Some DBFault) else (delete_group_rows rid st, None))"

definition DeleteGroupWithTx :: "faults \<Rightarrow> int \<Rightarrow> acl_store \<Rightarrow> write_result" where
  "DeleteGroupWithTx flt rid st =
     (if flt ''DeleteGroupWithTx'' then (st, Some DBFault) else (delete_group_rows rid st, None))"

definition CreateIPRule_repo :: "faults \<Rightarrow> ACLIPRule \<Rightarrow> acl_store \<Rightarrow> write_result" where
  "CreateIPRule_repo flt r st =
     (if flt ''CreateIPRule'' then (st, Some DBFault)
      else if \<not> group_exists st (ir_ACLGroupID r) then (st, Some ForeignKey)
      else (st\<lparr>st_ip_rules := tb_Create set_ir_ID r (st_ip_rules st)\<rparr>, None))"

definition UpdateIPRule_repo :: "faults \<Rightarrow> ACLIPRule \<Rightarrow> acl_store \<Rightarrow> write_result" where
  "UpdateIPRule_repo flt r st =
     (if flt ''UpdateIPRule'' then (st, Some DBFault)
      else if \<not> group_exists st (ir_ACLGroupID r) then (st, Some ForeignKey)
      else (st\<lparr>st_ip_rules := tb_Save ir_ID r (st_ip_rules st)\<rparr>, None))"

definition DeleteIPRule_repo :: "faults \<Rightarrow> int \<Rightarrow> acl_store \<Rightarrow> write_result" where
  "DeleteIPRule_repo flt rid st =
     (if flt ''DeleteIPRule'' then (st, Some DBFault)
      else (st\<lparr>st_ip_rules := tb_Delete (\<lambda>r. ir_ID r = rid) (st_ip_rules st)\<rparr>, None))"

definition CreateBasicAuthUser_repo :: "faults \<Rightarrow> ACLBasicAuthUser \<Rightarrow> acl_store \<Rightarrow> write_result" where
  "CreateBasicAuthUser_repo flt u st =
     (if flt ''CreateBasicAuthUser'' then (st, Some DBFault)
      else if \<not> group_exists st (bu_ACLGroupID u) then (st, Some ForeignKey)
      else if list_ex (\<lambda>x. bu_ACLGroupID x = bu_ACLGroupID u \<and> bu_Username x = bu_Username u)
                (tb_rows (st_basic_users st)) then (st, Some DuplicateKey)
      else (st\<lparr>st_basic_users := tb_Create set_bu_ID u (st_basic_users st)\<rparr>, None))"

definition UpdateBasicAuthUser_repo :: "faults \<Rightarrow> ACLBasicAuthUser \<Rightarrow> acl_store \<Rightarrow> write_result" where
  "UpdateBasicAuthUser_repo flt u st =
     (if flt ''UpdateBasicAuthUser'' then (st, Some DBFault)
      else if list_ex (\<lambda>x. bu_ACLGroupID x = bu_ACLGroupID u \<and> bu_Username x = bu_Username u \<and>
                 bu_ID x \<noteq> bu_ID u) (tb_rows (st_basic_users st)) then (st, Some DuplicateKey)
      else if \<not> group_exists st (bu_ACLGroupID u) then (st, Some ForeignKey)
      else (st\<lparr>st_basic_users := tb_Save bu_ID u (st_basic_users st)\<rparr>, None))"

definition DeleteBasicAuthUser_repo :: "faults \<Rightarrow> int \<Rightarrow> acl_store \<Rightarrow> write_result" where
  "DeleteBasicAuthUser_repo flt rid st =
     (if flt ''DeleteBasicAuthUser'' then (st, Some DBFault)
      else (st\<lparr>st_basic_users := tb_Delete (\<lambda>r. bu_ID r = rid) (st_basic_users st)\<rparr>, None))"

definition CreateExternalProvider_repo :: "faults \<Rightarrow> ACLExternalProvider \<Rightarrow> acl_store \<Rightarrow> write_result" where
  "CreateExternalProvider_repo flt p st =
     (if flt ''CreateExternalProvider'' then (st, Some DBFault)
      else if \<not> group_exists st (ep_ACLGroupID p) then (st, Some ForeignKey)
      else (st\<lparr>st_providers := tb_Create set_ep_ID p (st_providers st)\<rparr>, None))"

definition UpdateExternalProvider_repo :: "faults \<Rightarrow> ACLExternalProvider \<Rightarrow> acl_store \<Rightarrow> write_result" where
  "UpdateExternalProvider_repo flt p st =
     (if flt ''UpdateExternalProvider'' then (st, Some DBFault)
      else if \<not> group_exists st (ep_ACLGroupID p) then (st, Some ForeignKey)
      else (st\<lparr>st_providers := tb_Save ep_ID p (st_providers st)\<rparr>, None))"

definition DeleteExternalProvider_repo :: "faults \<Rightarrow> int \<Rightarrow> acl_store \<Rightarrow> write_result" where
  "DeleteExternalProvider_repo flt rid st =
     (if flt ''DeleteExternalProvider'' then (st, Some DBFault)
      else (st\<lparr>st_providers := tb_Delete (\<lambda>r. ep_ID r = rid) (st_providers st)\<rparr>, None))"

definition CreateWaygatesAuth_repo :: "faults \<Rightarrow> ACLWaygatesAuth \<Rightarrow> acl_store \<Rightarrow> write_result" where
  "CreateWaygatesAuth_repo flt w st =
     (if flt ''CreateWaygatesAuth'' then (st, Some DBFault)
      else if \<not> group_exists st (wa_ACLGroupID w) then (st, Some ForeignKey)
      else if list_ex (\<lambda>x. wa_ACLGroupID x = wa_ACLGroupID w) (tb_rows (st_waygates st))
        then (st, Some DuplicateKey)
      else (st\<lparr>st_waygates := tb_Create set_wa_ID (waygates_defaults w) (st_waygates st)\<rparr>, None))"

definition UpdateWaygatesAuth_repo :: "faults \<Rightarrow> ACLWaygatesAuth \<Rightarrow> acl_store \<Rightarrow> write_result" where
  "UpdateWaygatesAuth_repo flt w st =
     (if flt ''UpdateWaygatesAuth'' then (st, Some DBFault)
      else if list_ex (\<lambda>x. wa_ACLGroupID x = wa_ACLGroupID w \<and> wa_ID x \<noteq> wa_ID w)
                (tb_rows (st_waygates st)) then (st, Some DuplicateKey)
      else if \<not> group_exists st (wa_ACLGroupID w) then (st, Some ForeignKey)
      else (st\<lparr>st_waygates := tb_Save wa_ID w (st_waygates st)\<rparr>, None))"

definition CreateOAuthProviderRestriction_repo ::
  "faults \<Rightarrow> ACLOAuthProviderRestriction \<Rightarrow> acl_store \<Rightarrow> write_result" where
  "CreateOAuthProviderRestriction_repo flt r st =
     (if flt ''CreateOAuthProviderRestriction'' then (st, Some DBFault)
      else if \<not> group_exists st (or_ACLGroupID r) then (st, Some ForeignKey)
      else if list_ex (\<lambda>x. or_ACLGroupID x = or_ACLGroupID r \<and> or_Provider x = or_Provider r)
                (tb_rows (st_restrictions st)) then (st, Some DuplicateKey)
      else (st\<lparr>st_restrictions :=
                tb_Create set_or_ID (restriction_defaults r) (st_restrictions st)\<rparr>, None))"

definition UpdateOAuthProviderRestriction_repo ::
  "faults \<Rightarrow> ACLOAuthProviderRestriction \<Rightarrow> acl_store \<Rightarrow> write_result" where
  "UpdateOAuthProviderRestriction_repo flt r st =
     (if flt ''UpdateOAuthProviderRestriction'' then (st, Some DBFault)
      else if list_ex (\<lambda>x. or_ACLGroupID x = or_ACLGroupID r \<and> or_Provider x = or_Provider r \<and>
                 or_ID x \<noteq> or_ID r) (tb_rows (st_restrictions st)) then (st, Some DuplicateKey)
      else if \<not> group_exists st (or_ACLGroupID r) then (st, Some ForeignKey)
      else (st\<lparr>st_restrictions := tb_Save or_ID r (st_restrictions st)\<rparr>, None))"

definition DeleteOAuthProviderRestriction_repo ::
  "faults \<Rightarrow> int \<Rightarrow> string \<Rightarrow> acl_store \<Rightarrow> write_result" where
  "DeleteOAuthProviderRestriction_repo flt groupID provider st =
     (if flt ''DeleteOAuthProviderRestriction'' then (st, Some DBFault)
      else (st\<lparr>st_restrictions :=
               tb_Delete (\<lambda>r. or_ACLGroupID r = groupID \<and> or_Provider r = provider)
                 (st_restrictions st)\<rparr>, None))"

definition CreateProxyACLAssignment_repo :: "faults \<Rightarrow> ProxyACLAssignment \<Rightarrow> acl_store \<Rightarrow> write_result" where
  "CreateProxyACLAssignment_repo flt a st =
     (if flt ''CreateProxyACLAssignment'' then (st, Some DBFault)
      else if \<not> proxy_exists st (pa_ProxyID a) \<or> \<not> group_exists st (pa_ACLGroupID a)
        then (st, Some ForeignKey)
      else if list_ex (\<lambda>x. pa_ProxyID x = pa_ProxyID a \<and> pa_ACLGroupID x = pa_ACLGroupID a)
                (tb_rows (st_assignments st)) then (st, Some DuplicateKey)
      else (st\<lparr>st_assignments :=
                tb_Create set_pa_ID (assignment_defaults a) (st_assignments st)\<rparr>, None))"

definition UpdateProxyACLAssignment_repo :: "faults \<Rightarrow> ProxyACLAssignment \<Rightarrow> acl_store \<Rightarrow> write_result" where
  "UpdateProxyACLAssignment_repo flt a st =
     (if flt ''UpdateProxyACLAssignment'' then (st, Some DBFault)
      else if list_ex (\<lambda>x. pa_ProxyID x = pa_ProxyID a \<and> pa_ACLGroupID x = pa_ACLGroupID a \<and>
                 pa_ID x \<noteq> pa_ID a) (tb_rows (st_assignments st)) then (st, Some DuplicateKey)
      else if \<not> proxy_exists st (pa_ProxyID a) \<or> \<not> group_exists st (pa_ACLGroupID a)
        then (st, Some ForeignKey)
      else (st\<lparr>st_assignments := tb_Save pa_ID a (st_assignments st)\<rparr>, None))"

definition DeleteProxyACLAssignmentByProxyAndGroup ::
  "faults \<Rightarrow> int \<Rightarrow> int \<Rightarrow> acl_store \<Rightarrow> write_result" where
  "DeleteProxyACLAssignmentByProxyAndGroup flt proxyID groupID st =
     (if flt ''DeleteProxyACLAssignmentByProxyAndGroup'' then (st, Some DBFault)
      else (st\<lparr>st_assignments :=
               tb_Delete (\<lambda>a. pa_ProxyID a = proxyID \<and> pa_ACLGroupID a = groupID)
                 (st_assignments st)\<rparr>, None))"

definition default_branding :: ACLBranding where
  "default_branding =
     \<lparr>br_ID = 1, br_LogoURL = None, br_PrimaryColor = ''#3b82f6'', br_BackgroundColor = ''#ffffff'',
      br_Title = ''Login Required'', br_Subtitle = None, br_FooterText = None, br_CustomCSS = None\<rparr>"

text \<open>\<open>GetBranding\<close> creates the singleton row when it is missing.\<close>

definition GetBranding_repo ::
  "faults \<Rightarrow> acl_store \<Rightarrow> acl_store \<times> (db_error, ACLBranding) result" where
  "GetBranding_repo flt st =
     (if flt ''GetBranding'' then (st, Err DBFault)
      else case st_branding st of
          Some b \<Rightarrow> (st, Ok b)
        | None \<Rightarrow>
            if flt ''CreateBranding'' then (st, Err DBFault)
            else (st\<lparr>st_branding := Some default_branding\<rparr>, Ok default_branding))"

definition UpdateBranding_repo :: "faults \<Rightarrow> ACLBranding \<Rightarrow> acl_store \<Rightarrow> write_result" where
  "UpdateBranding_repo flt b st =
     (if flt ''UpdateBranding'' then (st, Some DBFault)
      else (st\<lparr>st_branding := Some (b\<lparr>br_ID := 1\<rparr>)\<rparr>, None))"

definition CreateSession_repo :: "faults \<Rightarrow> ACLSession \<Rightarrow> acl_store \<Rightarrow> write_result" where
  "CreateSession_repo flt s st =
     (if flt ''CreateSession'' then (st, Some DBFault)
      else if list_ex (\<lambda>x. se_SessionToken x = se_SessionToken s) (tb_rows (st_sessions st))
        then (st, Some DuplicateKey)
      else if (case se_UserID s of None \<Rightarrow> False | Some u \<Rightarrow> \<not> user_exists st u) \<or>
              (case se_ProxyID s of None \<Rightarrow> False | Some p \<Rightarrow> \<not> proxy_exists st p)
        then (st, Some ForeignKey)
      else (st\<lparr>st_sessions := tb_Create set_se_ID s (st_sessions st)\<rparr>, None))"

definition DeleteSession_repo :: "faults \<Rightarrow> string \<Rightarrow> acl_store \<Rightarrow> write_result" where
  "DeleteSession_repo flt token st =
     (if flt ''DeleteSession'' then (st, Some DBFault)
      else (st\<lparr>st_sessions := tb_Delete (\<lambda>s. se_SessionToken s = token) (st_sessions st)\<rparr>, None))"

definition DeleteExpiredSessions_repo ::
  "faults \<Rightarrow> int \<Rightarrow> acl_store \<Rightarrow> acl_store \<times> (db_error, nat) result" where
  "DeleteExpiredSessions_repo flt now st =
     (if flt ''DeleteExpiredSessions'' then (st, Err DBFault)
      else (st\<lparr>st_sessions := tb_Delete (\<lambda>s. se_ExpiresAt s < now) (st_sessions st)\<rparr>,
            Ok (length (tb_Find (\<lambda>s. se_ExpiresAt s < now) (st_sessions st)))))"

definition DeleteUserSessions_repo :: "faults \<Rightarrow> int \<Rightarrow> acl_store \<Rightarrow> write_result" where
  "DeleteUserSessions_repo flt userID st =
     (if flt ''DeleteUserSessions'' then (st, Some DBFault)
      else (st\<lparr>st_sessions := tb_Delete (\<lambda>s. se_UserID s = Some userID) (st_sessions st)\<rparr>, None))"

definition DeleteProxySessions_repo :: "faults \<Rightarrow> int \<Rightarrow> acl_store \<Rightarrow> write_result" where
  "DeleteProxySessions_repo flt proxyID st =
     (if flt ''DeleteProxySessions'' then (st, Some DBFault)
      else (st\<lparr>st_sessions := tb_Delete (\<lambda>s. se_ProxyID s = Some proxyID) (st_sessions st)\<rparr>, None))"

lemmas repo_write_defs =
  CreateGroup_repo_def UpdateGroup_repo_def DeleteGroup_repo_def DeleteGroupWithTx_def
  CreateIPRule_repo_def UpdateIPRule_repo_def DeleteIPRule_repo_def
  CreateBasicAuthUser_repo_def UpdateBasicAuthUser_repo_def DeleteBasicAuthUser_repo_def
  CreateExternalProvider_repo_def UpdateExternalProvider_repo_def DeleteExternalProvider_repo_def
  CreateWaygatesAuth_repo_def UpdateWaygatesAuth_repo_def
  CreateOAuthProviderRestriction_repo_def UpdateOAuthProviderRestriction_repo_def
  DeleteOAuthProviderRestriction_repo_def
  CreateProxyACLAssignment_repo_def UpdateProxyACLAssignment_repo_def
  DeleteProxyACLAssignmentByProxyAndGroup_def
  UpdateBranding_repo_def CreateSession_repo_def DeleteSession_repo_def
  DeleteUserSessions_repo_def DeleteProxySessions_repo_def

end
