(* ===== verification/Go_Net.thy ===== *)
theory Go_Net
  imports Waygates_Prelude "HOL-Library.Word"
begin

text \<open>
  The part of Go's standard package \<open>net\<close> that the ACL service decides with: \<open>ParseIP\<close>,
  \<open>ParseCIDR\<close>, \<open>CIDRMask\<close>, \<open>IPNet.Contains\<close> and \<open>SplitHostPort\<close>. Addresses and masks are
  byte slices in Go, of length 4 or 16; here they are machine words of 32 or 128 bits, and
  the length tests of the package are the constructor tests of \<open>go_ip\<close>. A parsed address
  always has 16 bytes (an IPv4 address is stored IPv4-mapped), as in Go.
\<close>

unbundle bit_operations_syntax

datatype go_ip = IP4 "32 word" | IP16 "128 word"

record IPNet =
  net_IP :: go_ip
  net_Mask :: go_ip

section \<open>Numbers\<close>

definition digit_val :: "char \<Rightarrow> int option" where
  "digit_val c =
     (let n = (of_char c :: int) in if 48 \<le> n \<and> n \<le> 57 then Some (n - 48) else None)"

definition hex_val :: "char \<Rightarrow> int option" where
  "hex_val c =
     (let n = (of_char c :: int)
      in if 48 \<le> n \<and> n \<le> 57 then Some (n - 48)
         else if 97 \<le> n \<and> n \<le> 102 then Some (n - 87)
         else if 65 \<le> n \<and> n \<le> 70 then Some (n - 55) else None)"

fun dec_acc :: "int \<Rightarrow> string \<Rightarrow> int option" where
  "dec_acc acc [] = Some acc"
| "dec_acc acc (c # cs) =
     (case digit_val c of None \<Rightarrow> None | Some d \<Rightarrow> dec_acc (acc * 10 + d) cs)"

text \<open>\<open>dtoi\<close> on the whole string: at least one digit and nothing else.\<close>

definition dtoi :: "string \<Rightarrow> int option" where
  "dtoi s = (if s = [] then None else dec_acc 0 s)"

section \<open>ParseIP\<close>

text \<open>
  \<open>parseIPv4Fields\<close>: four decimal fields separated by dots, each at most 255 and without a
  leading zero.
\<close>

definition ipv4_field :: "string \<Rightarrow> int option" where
  "ipv4_field f =
     (if 1 < length f \<and> take 1 f = ''0'' then None
      else case dtoi f of None \<Rightarrow> None | Some n \<Rightarrow> if n \<le> 255 then Some n else None)"

fun ipv4_fields :: "string list \<Rightarrow> int list option" where
  "ipv4_fields [] = Some []"
| "ipv4_fields (f # fs) =
     (case ipv4_field f of None \<Rightarrow> None
      | Some n \<Rightarrow> map_option ((#) n) (ipv4_fields fs))"

definition parseIPv4Fields :: "string \<Rightarrow> int list option" where
  "parseIPv4Fields s =
     (let fs = Split (CHR ''.'') s in if length fs = 4 then ipv4_fields fs else None)"

text \<open>The digits of an address in base \<open>b\<close> (256 for bytes, 65536 for groups), as one number.\<close>

definition join_digits :: "int \<Rightarrow> int list \<Rightarrow> int" where
  "join_digits b ds = foldl (\<lambda>acc d. acc * b + d) 0 ds"

text \<open>A run of hexadecimal digits, at most four: the value, the digits read, the rest.\<close>

fun hex_run :: "int \<Rightarrow> nat \<Rightarrow> string \<Rightarrow> (int \<times> nat \<times> string) option" where
  "hex_run acc off [] = Some (acc, off, [])"
| "hex_run acc off (c # cs) =
     (case hex_val c of None \<Rightarrow> Some (acc, off, c # cs)
      | Some d \<Rightarrow> if 3 < off then None else hex_run (acc * 16 + d) (Suc off) cs)"

text \<open>
  The loop of \<open>parseIPv6\<close>. The first argument counts the 16-bit groups still free (the loop
  runs while \<open>i < 16\<close> and each turn fills at least one group); \<open>gs\<close> are the groups read so
  far and \<open>ell\<close> the position of the ellipsis. The result is the groups, the ellipsis and the
  unread rest.
\<close>

fun parse6_loop ::
  "nat \<Rightarrow> int list \<Rightarrow> nat option \<Rightarrow> string \<Rightarrow> (int list \<times> nat option \<times> string) option" where
  "parse6_loop 0 gs ell s = Some (gs, ell, s)"
| "parse6_loop (Suc free) gs ell s =
     (case hex_run 0 0 s of None \<Rightarrow> None
      | Some (acc, off, rest) \<Rightarrow>
          if off = 0 then None
          else if take 1 rest = ''.'' then
            (if ell = None \<and> length gs \<noteq> 6 then None
             else if 8 < length gs + 2 then None
             else case parseIPv4Fields s of
                 Some [a, b, c, d] \<Rightarrow> Some (gs @ [a * 256 + b, c * 256 + d], ell, [])
               | _ \<Rightarrow> None)
          else
            let gs' = gs @ [acc] in
            (case rest of
               [] \<Rightarrow> Some (gs', ell, [])
             | c # rest' \<Rightarrow>
                 if c \<noteq> CHR '':'' then None
                 else if rest' = [] then None
                 else if take 1 rest' = '':'' then
                   (if ell \<noteq> None then None
                    else if tl rest' = [] then Some (gs', Some (length gs'), [])
                    else parse6_loop free gs' (Some (length gs')) (tl rest'))
                 else parse6_loop free gs' ell rest'))"

definition parse6_finish :: "int list \<times> nat option \<times> string \<Rightarrow> int list option" where
  "parse6_finish r =
     (case r of (gs, ell, s) \<Rightarrow>
        if s \<noteq> [] then None
        else if length gs < 8 then
          (case ell of None \<Rightarrow> None
           | Some e \<Rightarrow> Some (take e gs @ replicate (8 - length gs) 0 @ drop e gs))
        else if ell \<noteq> None then None
        else Some gs)"

definition parseIPv6 :: "string \<Rightarrow> 128 word option" where
  "parseIPv6 s =
     (let r = (if take 2 s = ''::'' then
                 (if drop 2 s = [] then Some ([], Some 0, [])
                  else parse6_loop 8 [] (Some 0) (drop 2 s))
               else parse6_loop 8 [] None s)
      in case r of None \<Rightarrow> None
         | Some t \<Rightarrow> map_option (\<lambda>gs. word_of_int (join_digits 65536 gs)) (parse6_finish t))"

definition v4_prefix :: "128 word" where
  "v4_prefix = 0xffff"

definition map4in6 :: "32 word \<Rightarrow> 128 word" where
  "map4in6 v = push_bit 32 v4_prefix OR ucast v"

definition parseIPv4 :: "string \<Rightarrow> 32 word option" where
  "parseIPv4 s = map_option (\<lambda>bs. word_of_int (join_digits 256 bs)) (parseIPv4Fields s)"

text \<open>
  \<open>netip.ParseAddr\<close> dispatches on the first dot or colon. The bit length is 32 or 128. An
  address with a zone (a percent sign) is no result for \<open>ParseIP\<close> or \<open>ParseCIDR\<close>.
\<close>

datatype addr = Addr4 "32 word" | Addr6 "128 word"

definition ParseAddr :: "string \<Rightarrow> addr option" where
  "ParseAddr s =
     (if CHR ''%'' \<in> set s then None
      else case dropWhile (\<lambda>c. c \<noteq> CHR ''.'' \<and> c \<noteq> CHR '':'') s of
          [] \<Rightarrow> None
        | c # _ \<Rightarrow> if c = CHR ''.'' then map_option Addr4 (parseIPv4 s)
                  else map_option Addr6 (parseIPv6 s))"

fun As16 :: "addr \<Rightarrow> 128 word" where
  "As16 (Addr4 v) = map4in6 v"
| "As16 (Addr6 v) = v"

fun BitLen :: "addr \<Rightarrow> int" where
  "BitLen (Addr4 v) = 32"
| "BitLen (Addr6 v) = 128"

definition ParseIP :: "string \<Rightarrow> go_ip option" where
  "ParseIP s = map_option (\<lambda>a. IP16 (As16 a)) (ParseAddr s)"

fun To4 :: "go_ip \<Rightarrow> 32 word option" where
  "To4 (IP4 v) = Some v"
| "To4 (IP16 w) = (if drop_bit 32 w = v4_prefix then Some (ucast w) else None)"

section \<open>ParseCIDR and Contains\<close>

definition mask4 :: "nat \<Rightarrow> 32 word" where
  "mask4 n = push_bit (32 - n) (mask n)"

definition mask16 :: "nat \<Rightarrow> 128 word" where
  "mask16 n = push_bit (128 - n) (mask n)"

text \<open>\<open>CIDRMask(ones, bits)\<close>: \<^term>\<open>None\<close> where Go returns nil.\<close>

definition CIDRMask :: "int \<Rightarrow> int \<Rightarrow> go_ip option" where
  "CIDRMask ones bits =
     (if 0 \<le> ones \<and> ones \<le> bits then
        (if bits = 32 then Some (IP4 (mask4 (nat ones)))
         else if bits = 128 then Some (IP16 (mask16 (nat ones))) else None)
      else None)"

text \<open>\<open>IP.Mask\<close> of a 16-byte address.\<close>

definition ip_mask :: "128 word \<Rightarrow> go_ip \<Rightarrow> go_ip option" where
  "ip_mask ip m =
     (case m of
        IP4 m4 \<Rightarrow> map_option (\<lambda>v. IP4 (v AND m4)) (To4 (IP16 ip))
      | IP16 m16 \<Rightarrow> Some (IP16 (ip AND m16)))"

definition Cut :: "char \<Rightarrow> string \<Rightarrow> (string \<times> string) option" where
  "Cut sep s =
     (if sep \<in> set s then Some (takeWhile (\<lambda>c. c \<noteq> sep) s, tl (dropWhile (\<lambda>c. c \<noteq> sep) s))
      else None)"

definition ParseCIDR :: "string \<Rightarrow> IPNet option" where
  "ParseCIDR s =
     (case Cut (CHR ''/'') s of None \<Rightarrow> None
      | Some (a, m) \<Rightarrow>
        (case ParseAddr a of None \<Rightarrow> None
         | Some ip \<Rightarrow>
           (case dtoi m of None \<Rightarrow> None
            | Some n \<Rightarrow>
              (case CIDRMask n (BitLen ip) of None \<Rightarrow> None
               | Some msk \<Rightarrow>
                   map_option (\<lambda>i. \<lparr>net_IP = i, net_Mask = msk\<rparr>) (ip_mask (As16 ip) msk)))))"

definition networkNumberAndMask :: "IPNet \<Rightarrow> (go_ip \<times> go_ip) option" where
  "networkNumberAndMask n =
     (let ip = (case To4 (net_IP n) of Some v \<Rightarrow> IP4 v | None \<Rightarrow> net_IP n) in
      case (ip, net_Mask n) of
        (IP4 v, IP4 m) \<Rightarrow> Some (IP4 v, IP4 m)
      | (IP4 v, IP16 m) \<Rightarrow> Some (IP4 v, IP4 (ucast m))
      | (IP16 w, IP16 m) \<Rightarrow> Some (IP16 w, IP16 m)
      | (IP16 w, IP4 m) \<Rightarrow> None)"

definition IPNet_Contains :: "IPNet \<Rightarrow> go_ip \<Rightarrow> bool" where
  "IPNet_Contains n ip =
     (let x = (case To4 ip of Some v \<Rightarrow> IP4 v | None \<Rightarrow> ip) in
      case networkNumberAndMask n of
        None \<Rightarrow> False
      | Some (nn, m) \<Rightarrow>
          (case (nn, m, x) of
             (IP4 a, IP4 k, IP4 b) \<Rightarrow> a AND k = b AND k
           | (IP16 a, IP16 k, IP16 b) \<Rightarrow> a AND k = b AND k
           | _ \<Rightarrow> False))"

section \<open>SplitHostPort\<close>

definition index_char :: "char \<Rightarrow> string \<Rightarrow> nat option" where
  "index_char c s = (if c \<in> set s then Some (length (takeWhile (\<lambda>d. d \<noteq> c) s)) else None)"

definition last_index_char :: "char \<Rightarrow> string \<Rightarrow> nat option" where
  "last_index_char c s = map_option (\<lambda>k. length s - 1 - k) (index_char c (rev s))"

text \<open>The host part; \<^term>\<open>None\<close> for every error of \<open>SplitHostPort\<close>.\<close>

definition SplitHostPort_host :: "string \<Rightarrow> string option" where
  "SplitHostPort_host hp =
     (case last_index_char (CHR '':'') hp of None \<Rightarrow> None
      | Some i \<Rightarrow>
          if take 1 hp = ''['' then
            (case index_char (CHR '']'') hp of None \<Rightarrow> None
             | Some e \<Rightarrow>
                 if Suc e \<noteq> i then None
                 else if CHR ''['' \<in> set (drop 1 hp) then None
                 else if CHR '']'' \<in> set (drop (Suc e) hp) then None
                 else Some (take (e - 1) (drop 1 hp)))
          else if CHR '':'' \<in> set (take i hp) then None
          else if CHR ''['' \<in> set hp \<or> CHR '']'' \<in> set hp then None
          else Some (take i hp))"

section \<open>What Contains decides\<close>

lemma and_high_mask_eq_iff:
  fixes a b :: "'a::len word"
  assumes "n \<le> LENGTH('a)"
  shows "a AND push_bit (LENGTH('a) - n) (mask n) = b AND push_bit (LENGTH('a) - n) (mask n)
    \<longleftrightarrow> drop_bit (LENGTH('a) - n) a = drop_bit (LENGTH('a) - n) b"
    (is "?L \<longleftrightarrow> ?R")
proof -
  let ?k = "LENGTH('a) - n"
  have "?L \<longleftrightarrow> (\<forall>i < LENGTH('a). ?k \<le> i \<longrightarrow> bit a i = bit b i)"
    using assms
    by (auto simp: bit_eq_iff bit_simps less_diff_conv2)
  also have "\<dots> \<longleftrightarrow> ?R"
  proof
    assume all: "\<forall>i < LENGTH('a). ?k \<le> i \<longrightarrow> bit a i = bit b i"
    show ?R
    proof (rule bit_eqI)
      fix j
      show "bit (drop_bit ?k a) j \<longleftrightarrow> bit (drop_bit ?k b) j"
        using all by (cases "?k + j < LENGTH('a)") (auto simp: bit_simps dest: bit_imp_le_length)
    qed
  next
    assume r: ?R
    have "bit a i = bit b i" if "?k \<le> i" for i
      using arg_cong[OF r, of "\<lambda>w. bit w (i - ?k)"] that by (simp add: bit_simps)
    then show "\<forall>i < LENGTH('a). ?k \<le> i \<longrightarrow> bit a i = bit b i" by blast
  qed
  finally show ?thesis .
qed

lemma To4_map4in6 [simp]: "To4 (IP16 (map4in6 v)) = Some v"
proof -
  have p: "drop_bit 32 (map4in6 v) = v4_prefix"
    by (rule bit_word_eqI)
       (auto simp: map4in6_def v4_prefix_def bit_simps dest: bit_imp_le_length)
  have l: "(ucast (map4in6 v) :: 32 word) = v"
    by (rule bit_word_eqI) (simp add: map4in6_def bit_simps)
  from p l show ?thesis by simp
qed

lemma mask4_full [simp]: "mask4 32 = -1"
  by (simp add: mask4_def mask_eq_exp_minus_1)

lemma mask16_full [simp]: "mask16 128 = -1"
  by (simp add: mask16_def mask_eq_exp_minus_1)

lemma ParseIP_IP16: "ParseIP s = Some ip \<Longrightarrow> \<exists>w. ip = IP16 w"
  by (auto simp: ParseIP_def)

lemma To4_None_IP16: "To4 (IP16 w) = None \<longleftrightarrow> drop_bit 32 w \<noteq> v4_prefix"
  by simp

lemma To4_IP16_eq_iff: "To4 (IP16 w) = Some v \<Longrightarrow> w = map4in6 v"
proof -
  assume a: "To4 (IP16 w) = Some v"
  then have p: "drop_bit 32 w = v4_prefix" and u: "v = ucast w"
    by (auto split: if_splits)
  show "w = map4in6 v"
  proof (rule bit_word_eqI)
    fix i :: nat
    assume "i < LENGTH(128)"
    show "bit w i \<longleftrightarrow> bit (map4in6 v) i"
    proof (cases "i < 32")
      case True
      then show ?thesis by (simp add: map4in6_def u bit_simps)
    next
      case False
      have "bit w i = bit (drop_bit 32 w) (i - 32)" using False by (simp add: bit_simps)
      then show ?thesis using False p \<open>i < LENGTH(128)\<close>
        by (auto simp: map4in6_def u bit_simps)
    qed
  qed
qed

end
