(* ===== verification/Path_Match.thy ===== *)
theory Path_Match
  imports Waygates_Prelude
begin

text \<open>
  Path patterns of ACL assignments and the patterns of allowed mail addresses:
  \<open>matchPath\<close>, \<open>validatePathPattern\<close>, \<open>matchEmailPattern\<close> of
  \<open>backend/internal/service/acl_service.go\<close>. The specification is \<open>glob\<close>, the language of a
  pattern whose star stands for any string; the lemmas show where the greedy scan of the code
  decides exactly that language and what it decides elsewhere.
\<close>

datatype path_error = ErrInvalidPathPattern

section \<open>matchPath\<close>

text \<open>
  The loop over the literals between the stars: \<open>i\<close> is the index of the current literal,
  \<open>lastIdx\<close> the index of the last, \<open>remaining\<close> the unmatched rest of the path.
\<close>

fun match_parts :: "nat \<Rightarrow> nat \<Rightarrow> string list \<Rightarrow> string \<Rightarrow> bool" where
  "match_parts i lastIdx [] remaining = True"
| "match_parts i lastIdx (part # parts) remaining =
     (if part = [] then match_parts (Suc i) lastIdx parts remaining
      else if i = 0 then
        (if \<not> HasPrefix remaining part then False
         else match_parts (Suc i) lastIdx parts (drop (length part) remaining))
      else if i = lastIdx then
        (if \<not> HasSuffix remaining part then False
         else match_parts (Suc i) lastIdx parts [])
      else
        (case Index remaining part of
           None \<Rightarrow> False
         | Some idx \<Rightarrow> match_parts (Suc i) lastIdx parts (drop (idx + length part) remaining)))"

definition matchPath :: "string \<Rightarrow> string \<Rightarrow> bool" where
  "matchPath pattern path =
     (if pattern = path then True
      else if pattern = ''/*'' \<or> pattern = ''*'' then True
      else if HasSuffix pattern ''/*'' then
        (let prefix = TrimSuffix pattern ''/*''
         in path = prefix \<or> HasPrefix path (prefix @ ''/''))
      else if Contains pattern ''*'' then
        (let parts = Split (CHR ''*'') pattern
         in match_parts 0 (length parts - 1) parts path)
      else False)"

section \<open>validatePathPattern and matchEmailPattern\<close>

definition invalidPathChars :: string where
  "invalidPathChars = ''?#'' @ map char_of [10, 13, 9 :: nat] @ ''{}`;'' @ [char_of (34 :: nat), char_of (39 :: nat)] @ ''<>''"

definition validatePathPattern :: "string \<Rightarrow> path_error option" where
  "validatePathPattern pattern =
     (if pattern = [] then None
      else if \<not> HasPrefix pattern ''/'' \<and> pattern \<noteq> ''*'' then Some ErrInvalidPathPattern
      else if Contains pattern ''..'' then Some ErrInvalidPathPattern
      else if ContainsAny pattern invalidPathChars then Some ErrInvalidPathPattern
      else if list_ex (\<lambda>c. (of_char c :: nat) < 32 \<or> (of_char c :: nat) = 127) pattern
        then Some ErrInvalidPathPattern
      else None)"

definition matchEmailPattern :: "string \<Rightarrow> string \<Rightarrow> bool" where
  "matchEmailPattern email pattern =
     (if pattern = ''*'' then True
      else if HasPrefix pattern ''*@'' then
        (let domain = TrimPrefix pattern ''*@'' in HasSuffix email (''@'' @ domain))
      else email = pattern)"

section \<open>The language of a pattern\<close>

text \<open>
  \<open>glob\<close> is the specification: a star matches any string, every other character itself.
\<close>

inductive glob :: "string \<Rightarrow> string \<Rightarrow> bool" where
  glob_nil: "glob [] []"
| glob_char: "c \<noteq> CHR ''*'' \<Longrightarrow> glob p s \<Longrightarrow> glob (c # p) (c # s)"
| glob_star: "glob p s \<Longrightarrow> glob (CHR ''*'' # p) (u @ s)"

inductive_cases glob_NilE [elim!]: "glob [] s"
inductive_cases glob_ConsE: "glob (c # p) s"


abbreviation star :: char where "star \<equiv> CHR ''*''"

lemma glob_Nil_iff [simp]: "glob [] s \<longleftrightarrow> s = []"
  by (auto intro: glob_nil)

lemma glob_star_iff: "glob (star # p) s \<longleftrightarrow> (\<exists>u t. s = u @ t \<and> glob p t)"
proof
  assume "glob (star # p) s"
  then show "\<exists>u t. s = u @ t \<and> glob p t" by (rule glob_ConsE) auto
qed (auto intro: glob_star)

lemma glob_literal:
  "star \<notin> set p \<Longrightarrow> glob (p @ q) s \<longleftrightarrow> (\<exists>t. s = p @ t \<and> glob q t)"
proof (induction p arbitrary: s)
  case (Cons c p)
  then have c: "c \<noteq> star" and p: "star \<notin> set p" by auto
  have "glob (c # p @ q) s \<longleftrightarrow> (\<exists>s'. s = c # s' \<and> glob (p @ q) s')"
    using c by (auto elim: glob_ConsE intro: glob_char)
  also have "\<dots> \<longleftrightarrow> (\<exists>t. s = c # p @ t \<and> glob q t)"
    using Cons.IH[OF p] by auto
  finally show ?case by simp
qed simp

lemma glob_refl: "glob p p"
proof (induction p)
  case (Cons c p)
  then show ?case
  proof (cases "c = star")
    case True
    have "p = [] @ p" by simp
    with Cons True show ?thesis using glob_star[of p p "[star]"] by simp
  qed (simp add: glob_char)
qed (simp add: glob_nil)

text \<open>A leading star absorbs any prefix, so a match survives lengthening the text on the left.\<close>

lemma glob_star_absorb: "glob (star # p) s \<Longrightarrow> glob (star # p) (w @ s)"
proof -
  assume "glob (star # p) s"
  then obtain u t where "s = u @ t" "glob p t" by (auto simp: glob_star_iff)
  then show ?thesis using glob_star[of p t "w @ u"] by simp
qed

lemma glob_star_only [simp]: "glob [star] s"
  using glob_star[OF glob_nil, of s] by simp

lemma glob_star_star: "glob (star # star # p) s \<longleftrightarrow> glob (star # p) s"
proof
  assume "glob (star # star # p) s"
  then obtain u t where "s = u @ t" "glob (star # p) t" by (auto simp: glob_star_iff)
  then show "glob (star # p) s" using glob_star_absorb by simp
next
  assume "glob (star # p) s"
  then show "glob (star # star # p) s" using glob_star[of "star # p" s "[]"] by simp
qed

lemma glob_suffix: "star \<notin> set p \<Longrightarrow> glob (star # p) s \<longleftrightarrow> HasSuffix s p"
  using glob_literal[of p "[]"] by (auto simp: glob_star_iff HasSuffix_iff)

text \<open>Taking the leftmost occurrence of a middle literal loses no match.\<close>

lemma glob_leftmost:
  assumes "star \<notin> set p"
  shows "glob (star # p @ star # q) s \<longleftrightarrow>
    (case Index s p of None \<Rightarrow> False | Some i \<Rightarrow> glob (star # q) (drop (i + length p) s))"
proof -
  have eq: "glob (star # p @ star # q) s \<longleftrightarrow> (\<exists>u v. s = u @ p @ v \<and> glob (star # q) v)"
    unfolding glob_star_iff[of "p @ star # q"] using glob_literal[OF assms, of "star # q"] by blast
  show ?thesis
  proof (cases "Index s p")
    case None
    then have "\<not> Contains s p" by (simp add: Contains_def)
    then have "\<not> glob (star # p @ star # q) s" using eq by (auto simp: Contains_iff)
    with None show ?thesis by simp
  next
    case (Some i)
    from Index_Some[OF Some] have s: "s = take i s @ p @ drop (i + length p) s" .
    have "glob (star # q) (drop (i + length p) s)" if uv: "s = u @ p @ v" "glob (star # q) v" for u v
    proof -
      from Index_leftmost[OF uv(1)] Some have "i \<le> length u" by simp
      with uv(1) have "drop (i + length p) s = drop (i + length p) (u @ p) @ v"
        by simp
      then show ?thesis using glob_star_absorb[OF uv(2)] by metis
    qed
    with s have "(\<exists>u v. s = u @ p @ v \<and> glob (star # q) v)
        \<longleftrightarrow> glob (star # q) (drop (i + length p) s)" by blast
    with eq Some show ?thesis by simp
  qed
qed

text \<open>The loop after the first literal decides the language of the remaining pattern.\<close>

lemma match_parts_glob:
  assumes "parts \<noteq> []" "0 < i" "lastIdx + 1 = i + length parts" "\<forall>p \<in> set parts. star \<notin> set p"
  shows "match_parts i lastIdx parts s \<longleftrightarrow> glob (star # Join parts [star]) s"
  using assms
proof (induction parts arbitrary: i s)
  case (Cons p ps)
  then have p: "star \<notin> set p" by simp
  show ?case
  proof (cases "ps = []")
    case True
    with Cons.prems have "lastIdx = i" by simp
    with True p \<open>0 < i\<close> show ?thesis
      by (auto simp: glob_suffix)
  next
    case False
    then obtain y zs where ps: "ps = y # zs" by (cases ps) auto
    from False Cons.prems have ne: "i \<noteq> lastIdx" by (cases ps) auto
    have IH: "match_parts (Suc i) lastIdx ps t \<longleftrightarrow> glob (star # Join ps [star]) t" for t
      using Cons False by simp
    have j: "Join (p # ps) [star] = p @ star # Join ps [star]" by (simp add: ps)
    show ?thesis
    proof (cases "p = []")
      case True
      with IH j show ?thesis by (simp add: glob_star_star)
    next
      case False
      with ne \<open>0 < i\<close> IH j show ?thesis
        by (simp add: glob_leftmost[OF p] split: option.splits)
    qed
  qed
qed simp

lemma match_parts_Split_glob:
  assumes "star \<in> set pattern"
  shows "match_parts 0 (length (Split star pattern) - 1) (Split star pattern) path
    \<longleftrightarrow> glob pattern path"
proof -
  have parts: "\<forall>p \<in> set (Split star pattern). star \<notin> set p" using Split_sound by blast
  have "length (Split star pattern) \<ge> 2"
    using assms count_list_0_iff[of pattern star] by (simp add: length_Split Suc_le_eq)
  then obtain p y zs where sp: "Split star pattern = p # y # zs"
    by (cases "Split star pattern" rule: remdups_adj.cases) auto
  have pat: "pattern = p @ star # Join (y # zs) [star]"
    using Join_Split[of star pattern] by (simp add: sp)
  from parts sp have p: "star \<notin> set p" by simp
  have rest: "match_parts 1 (length (y # zs)) (y # zs) s \<longleftrightarrow> glob (star # Join (y # zs) [star]) s" for s
    using parts sp by (intro match_parts_glob) auto
  have "glob pattern path \<longleftrightarrow> HasPrefix path p \<and> glob (star # Join (y # zs) [star]) (drop (length p) path)"
    unfolding pat glob_literal[OF p] by (auto simp: HasPrefix_iff)
  with rest show ?thesis by (auto simp: sp)
qed

lemma glob_no_star: "star \<notin> set p \<Longrightarrow> glob p s \<longleftrightarrow> p = s"
  using glob_literal[of p "[]" s] by auto

section \<open>Properties\<close>

text \<open>
  C39. For every pattern that does not end in \<open>/*\<close> the greedy scan of \<open>matchPath\<close> accepts
  exactly the paths in the pattern's glob language: the leading literal is anchored at the
  start, the trailing one at the end, and choosing the leftmost occurrence of each middle
  literal neither loses nor invents a match.
\<close>

theorem matchPath_iff_glob:
  "\<not> HasSuffix pattern ''/*'' \<Longrightarrow> matchPath pattern path \<longleftrightarrow> glob pattern path"
proof -
  assume ns: "\<not> HasSuffix pattern ''/*''"
  then have "pattern \<noteq> ''/*''" by (auto simp: HasSuffix_def)
  with ns match_parts_Split_glob[of pattern path] glob_refl[of path] glob_no_star[of pattern path]
  show ?thesis by (auto simp: matchPath_def Let_def)
qed

theorem matchPath_iff_glob_witness:
  "\<not> HasSuffix ''/api/*/users'' ''/*'' \<and>
   (matchPath ''/api/*/users'' ''/api/v1/users'' \<longleftrightarrow> glob ''/api/*/users'' ''/api/v1/users'') \<and>
   matchPath ''/api/*/users'' ''/api/v1/users'' \<and>
   \<not> matchPath ''/api/*/users'' ''/api/v1/users/extra''"
proof -
  have h: "\<not> HasSuffix ''/api/*/users'' ''/*''" by code_simp
  have "matchPath ''/api/*/users'' ''/api/v1/users''" by code_simp
  moreover have "\<not> matchPath ''/api/*/users'' ''/api/v1/users/extra''" by code_simp
  ultimately show ?thesis using h matchPath_iff_glob[OF h, of "''/api/v1/users''"] by blast
qed

text \<open>
  A prefix pattern \<open>P/*\<close> with a star-free prefix covers the path \<open>P\<close> itself and
  everything below it, and nothing that merely shares the characters of \<open>P\<close>.
\<close>

theorem matchPath_prefix_pattern:
  assumes "P \<noteq> []" and "star \<notin> set P"
  shows "matchPath (P @ ''/*'') path \<longleftrightarrow> path = P \<or> glob (P @ ''/*'') path"
proof -
  have np: "P @ ''/*'' \<noteq> ''/*''" "P @ ''/*'' \<noteq> ''*''" using assms(1) by auto
  have "glob (P @ ''/*'') path \<longleftrightarrow> HasPrefix path (P @ ''/'')"
    using glob_literal[of "P @ ''/''" "[star]" path] assms(2) by (auto simp: HasPrefix_iff)
  moreover have "HasPrefix (P @ ''/*'') (P @ ''/'')" by (auto simp: HasPrefix_iff)
  ultimately show ?thesis using np by (auto simp: matchPath_def)
qed

theorem matchPath_prefix_pattern_witness:
  "(matchPath (''/api'' @ ''/*'') ''/apikey'' \<longleftrightarrow> ''/apikey'' = ''/api'' \<or> glob (''/api'' @ ''/*'') ''/apikey'')
   \<and> \<not> matchPath (''/api'' @ ''/*'') ''/apikey''"
proof -
  have "\<not> matchPath (''/api'' @ ''/*'') ''/apikey''" by code_simp
  moreover have "matchPath (''/api'' @ ''/*'') ''/apikey'' \<longleftrightarrow> ''/apikey'' = ''/api'' \<or> glob (''/api'' @ ''/*'') ''/apikey''"
    by (rule matchPath_prefix_pattern) simp_all
  ultimately show ?thesis by blast
qed

end
