(* ===== verification/Acl_Verify.thy ===== *)
theory Acl_Verify
  imports Acl_Store Go_Net Path_Match
begin

text \<open>
  Access verification, the decision behind Caddy's \<open>forward_auth\<close>: \<open>VerifyAccess\<close> of
  \<open>backend/internal/service/acl_service.go\<close> and everything it calls. The environment of a run
  holds the clock, the database faults and the bcrypt comparison.
\<close>

section \<open>Requests and responses\<close>

record BasicAuthCredentials =
  bc_Username :: string
  bc_Password :: string

record ACLVerifyRequest =
  rq_Host :: string
  rq_Path :: string
  rq_Method :: string
  rq_RemoteIP :: string
  rq_SessionToken :: string
  rq_BasicAuth :: "BasicAuthCredentials option"

record ACLVerifyResponse =
  rs_Allowed :: bool
  rs_Reason :: string
  rs_RequiresAuth :: bool
  rs_RedirectURL :: string
  rs_Headers :: "(string \<times> string) list"
  rs_User :: "User option"
  rs_OAuthEmail :: string
  rs_OAuthProvider :: string
  rs_AuthenticatedButUnauthorized :: bool
  rs_DenialDetails :: string

record groupAccessResult =
  ga_Allowed :: bool
  ga_User :: "User option"
  ga_OAuthEmail :: string
  ga_OAuthProvider :: string
  ga_HasValidSession :: bool
  ga_AuthenticatedButUnauthorized :: bool
  ga_DenialReason :: string

datatype ipRuleResult = ipRuleNoMatch | ipRuleAllow | ipRuleDeny | ipRuleBypass

datatype verify_error =
    GettingProxyByHostname db_error
  | GettingProxyACLAssignments db_error

record verify_env =
  ve_now :: int
  ve_flt :: faults
  ve_compare :: "string \<Rightarrow> string \<Rightarrow> bool"

definition denied_response :: ACLVerifyResponse where
  "denied_response =
     \<lparr>rs_Allowed = False, rs_Reason = [], rs_RequiresAuth = False, rs_RedirectURL = [],
      rs_Headers = [], rs_User = None, rs_OAuthEmail = [], rs_OAuthProvider = [],
      rs_AuthenticatedButUnauthorized = False, rs_DenialDetails = []\<rparr>"

definition empty_result :: groupAccessResult where
  "empty_result =
     \<lparr>ga_Allowed = False, ga_User = None, ga_OAuthEmail = [], ga_OAuthProvider = [],
      ga_HasValidSession = False, ga_AuthenticatedButUnauthorized = False, ga_DenialReason = []\<rparr>"

section \<open>IP rules\<close>

definition parseRemoteIP :: "string \<Rightarrow> go_ip option" where
  "parseRemoteIP remoteIP =
     (case ParseIP remoteIP of
        Some ip \<Rightarrow> Some ip
      | None \<Rightarrow> (case SplitHostPort_host remoteIP of None \<Rightarrow> None | Some host \<Rightarrow> ParseIP host))"

text \<open>A single address is the network of just that address.\<close>

definition singleIPToNetwork :: "string \<Rightarrow> IPNet option" where
  "singleIPToNetwork ipStr =
     (case ParseIP ipStr of
        None \<Rightarrow> None
      | Some ip \<Rightarrow>
          (let bits = (if To4 ip = None then 128 else 32)
           in map_option (\<lambda>m. \<lparr>net_IP = ip, net_Mask = m\<rparr>) (CIDRMask bits bits)))"

fun deny_loop :: "ACLIPRule list \<Rightarrow> go_ip \<Rightarrow> bool" where
  "deny_loop [] ip = False"
| "deny_loop (r # rs) ip =
     (if ir_RuleType r = ACLIPRuleTypeDeny then
        (case ParseCIDR (ir_CIDR r) of
           None \<Rightarrow> deny_loop rs ip
         | Some network \<Rightarrow> if IPNet_Contains network ip then True else deny_loop rs ip)
      else deny_loop rs ip)"

fun allow_loop :: "ACLIPRule list \<Rightarrow> go_ip \<Rightarrow> ipRuleResult \<times> bool" where
  "allow_loop [] ip = (ipRuleNoMatch, False)"
| "allow_loop (r # rs) ip =
     (case ParseCIDR (ir_CIDR r) of
        None \<Rightarrow> allow_loop rs ip
      | Some network \<Rightarrow>
          if IPNet_Contains network ip then
            (if ir_RuleType r = ACLIPRuleTypeAllow then (ipRuleAllow, False)
             else if ir_RuleType r = ACLIPRuleTypeBypass then (ipRuleBypass, True)
             else allow_loop rs ip)
          else allow_loop rs ip)"

definition evaluateIPRules :: "ACLIPRule list \<Rightarrow> string \<Rightarrow> ipRuleResult \<times> bool" where
  "evaluateIPRules rules remoteIP =
     (if rules = [] then (ipRuleNoMatch, False)
      else case parseRemoteIP remoteIP of
          None \<Rightarrow> (ipRuleNoMatch, False)
        | Some ip \<Rightarrow> if deny_loop rules ip then (ipRuleDeny, False) else allow_loop rules ip)"

text \<open>The network a rule denotes where single addresses are accepted too.\<close>

definition rule_network :: "ACLIPRule \<Rightarrow> IPNet option" where
  "rule_network r =
     (case ParseCIDR (ir_CIDR r) of
        Some network \<Rightarrow> Some network
      | None \<Rightarrow> singleIPToNetwork (ir_CIDR r))"

fun deny_rules_match :: "ACLIPRule list \<Rightarrow> go_ip \<Rightarrow> bool" where
  "deny_rules_match [] ip = False"
| "deny_rules_match (r # rs) ip =
     (if ir_RuleType r = ACLIPRuleTypeDeny then
        (case rule_network r of
           None \<Rightarrow> deny_rules_match rs ip
         | Some network \<Rightarrow> if IPNet_Contains network ip then True else deny_rules_match rs ip)
      else deny_rules_match rs ip)"

fun deny_groups_loop :: "ACLGroup list \<Rightarrow> go_ip \<Rightarrow> ACLGroup option" where
  "deny_groups_loop [] ip = None"
| "deny_groups_loop (g # gs) ip =
     (if deny_rules_match (gr_IPRules g) ip then Some g else deny_groups_loop gs ip)"

definition ip_parse_failure_group :: ACLGroup where
  "ip_parse_failure_group =
     \<lparr>gr_ID = -1, gr_Name = ''_ip_parse_failure'', gr_Description = None, gr_CombinationMode = [],
      gr_CreatedBy = 0, gr_IPRules = [], gr_BasicAuthUsers = [], gr_ExternalProviders = [],
      gr_WaygatesAuth = None, gr_OAuthProviderRestrictions = []\<rparr>"

definition checkIPDenyAcrossGroups :: "ACLGroup list \<Rightarrow> string \<Rightarrow> ACLGroup option" where
  "checkIPDenyAcrossGroups groups remoteIP =
     (case parseRemoteIP remoteIP of
        None \<Rightarrow> Some ip_parse_failure_group
      | Some ip \<Rightarrow> deny_groups_loop groups ip)"

fun bypass_rules_match :: "ACLIPRule list \<Rightarrow> go_ip \<Rightarrow> bool" where
  "bypass_rules_match [] ip = False"
| "bypass_rules_match (r # rs) ip =
     (if ir_RuleType r = ACLIPRuleTypeBypass \<or> ir_RuleType r = ACLIPRuleTypeAllow then
        (case rule_network r of
           None \<Rightarrow> bypass_rules_match rs ip
         | Some network \<Rightarrow> if IPNet_Contains network ip then True else bypass_rules_match rs ip)
      else bypass_rules_match rs ip)"

fun bypass_groups_loop :: "ACLGroup list \<Rightarrow> go_ip \<Rightarrow> ACLGroup option" where
  "bypass_groups_loop [] ip = None"
| "bypass_groups_loop (g # gs) ip =
     (if gr_CombinationMode g \<noteq> ACLCombinationModeIPBypass then bypass_groups_loop gs ip
      else if bypass_rules_match (gr_IPRules g) ip then Some g
      else bypass_groups_loop gs ip)"

definition checkIPBypassAcrossGroups :: "ACLGroup list \<Rightarrow> string \<Rightarrow> ACLGroup option" where
  "checkIPBypassAcrossGroups groups remoteIP =
     (case parseRemoteIP remoteIP of
        None \<Rightarrow> None
      | Some ip \<Rightarrow> bypass_groups_loop groups ip)"

section \<open>Authorisation of an authenticated user\<close>

definition isUserAllowedByWaygatesAuth :: "User \<Rightarrow> ACLWaygatesAuth \<Rightarrow> bool" where
  "isUserAllowedByWaygatesAuth user auth =
     (if wa_AllowedUsers auth = [] \<and> wa_AllowedRoles auth = [] \<and> wa_AllowedEmailPatterns auth = []
        then True
      else if list_ex (\<lambda>a. us_Username user = a \<or> us_Email user = a) (wa_AllowedUsers auth) then True
      else list_ex (matchEmailPattern (us_Email user)) (wa_AllowedEmailPatterns auth))"

definition domain_matches :: "string \<Rightarrow> string \<Rightarrow> bool" where
  "domain_matches email domain =
     (let normalized = (if \<not> HasPrefix domain ''@'' then ''@'' @ domain else domain)
      in HasSuffix (ToLower email) (ToLower normalized))"

definition checkEmailAgainstRestrictions :: "string \<Rightarrow> string list \<Rightarrow> string list \<Rightarrow> bool" where
  "checkEmailAgainstRestrictions email allowedEmails allowedDomains =
     (if allowedEmails = [] \<and> allowedDomains = [] then True
      else if list_ex (EqualFold email) allowedEmails then True
      else list_ex (domain_matches email) allowedDomains)"

definition provider_listed :: "string \<Rightarrow> ACLWaygatesAuth \<Rightarrow> bool" where
  "provider_listed provider auth = list_ex (EqualFold provider) (wa_AllowedProviders auth)"

definition find_restriction ::
  "string \<Rightarrow> ACLOAuthProviderRestriction list \<Rightarrow> ACLOAuthProviderRestriction option" where
  "find_restriction provider rs = List.find (\<lambda>r. EqualFold (or_Provider r) provider) rs"

definition isOAuthUserAllowed ::
  "string \<Rightarrow> string \<Rightarrow> ACLWaygatesAuth \<Rightarrow> ACLOAuthProviderRestriction list \<Rightarrow> bool" where
  "isOAuthUserAllowed email provider auth restrictions =
     (if wa_AllowedProviders auth \<noteq> [] \<and> \<not> provider_listed provider auth then False
      else case find_restriction provider restrictions of
          Some r \<Rightarrow>
            if or_Enabled r
            then checkEmailAgainstRestrictions email (or_AllowedEmails r) (or_AllowedDomains r)
            else checkEmailAgainstRestrictions email (wa_AllowedEmails auth) (wa_AllowedDomains auth)
        | None \<Rightarrow> checkEmailAgainstRestrictions email (wa_AllowedEmails auth) (wa_AllowedDomains auth))"

definition buildOAuthDenialReason ::
  "string \<Rightarrow> string \<Rightarrow> ACLWaygatesAuth \<Rightarrow> ACLOAuthProviderRestriction list \<Rightarrow> string" where
  "buildOAuthDenialReason email provider auth restrictions =
     (if wa_AllowedProviders auth \<noteq> [] \<and> \<not> provider_listed provider auth then
        ''OAuth provider '' @ [char_of (39 :: nat)] @ provider @ [char_of (39 :: nat)] @
        '' is not allowed for this resource. Allowed providers: '' @ Join (wa_AllowedProviders auth) '', ''
      else
        let own = (case find_restriction provider restrictions of
                     Some r \<Rightarrow> if or_Enabled r then Some r else None | None \<Rightarrow> None);
            emails = (case own of Some r \<Rightarrow> or_AllowedEmails r | None \<Rightarrow> wa_AllowedEmails auth);
            domains = (case own of Some r \<Rightarrow> or_AllowedDomains r | None \<Rightarrow> wa_AllowedDomains auth);
            source = (case own of Some r \<Rightarrow> ''provider-specific ('' @ provider @ '')'' | None \<Rightarrow> ''global'')
        in if emails \<noteq> [] \<or> domains \<noteq> [] then
             (let rs = (if emails \<noteq> []
                        then [''specific emails ('' @ Itoa (int (length emails)) @ '' configured)'']
                        else []) @
                       (if domains \<noteq> [] then [''email domains: '' @ Join domains '', ''] else [])
              in ''Your email ('' @ email @ '') is not authorized to access this resource. Access is restricted to: ''
                 @ Join rs '' or '' @ '' ('' @ source @ '' restrictions)'')
           else ''Your account ('' @ email @ '' via '' @ provider @
                '') is not authorized to access this resource'')"

section \<open>One group\<close>

definition groupHasSecureAuth :: "ACLGroup \<Rightarrow> bool" where
  "groupHasSecureAuth g \<longleftrightarrow>
     (case gr_WaygatesAuth g of None \<Rightarrow> False | Some w \<Rightarrow> wa_Enabled w) \<or>
     gr_OAuthProviderRestrictions g \<noteq> []"

text \<open>The session branch: the updated result and the entries it appends to \<open>authResults\<close>.\<close>

definition session_branch ::
  "verify_env \<Rightarrow> acl_store \<Rightarrow> ACLGroup \<Rightarrow> ACLVerifyRequest \<Rightarrow> groupAccessResult \<times> bool list" where
  "session_branch env st g rq =
     (case gr_WaygatesAuth g of
        None \<Rightarrow> (empty_result, [])
      | Some w \<Rightarrow>
          if rq_SessionToken rq = [] then (empty_result, [])
          else case GetSessionByToken (ve_flt env) (rq_SessionToken rq) st of
              Inl e \<Rightarrow> (empty_result, [])
            | Inr s \<Rightarrow>
                if ACLSession_IsExpired (ve_now env) s then (empty_result, [])
                else let r = empty_result\<lparr>ga_HasValidSession := True\<rparr> in
                  (case (se_Email s, se_Provider s) of
                     (Some email, Some provider) \<Rightarrow>
                       (let r = r\<lparr>ga_OAuthEmail := email, ga_OAuthProvider := provider,
                                 ga_User := se_User s\<rparr>
                        in if isOAuthUserAllowed email provider w (gr_OAuthProviderRestrictions g)
                           then (r, [True])
                           else (r\<lparr>ga_AuthenticatedButUnauthorized := True,
                                   ga_DenialReason :=
                                     buildOAuthDenialReason email provider w
                                       (gr_OAuthProviderRestrictions g)\<rparr>, []))
                   | _ \<Rightarrow>
                       (case se_User s of
                          None \<Rightarrow> (r, [])
                        | Some u \<Rightarrow>
                            if wa_Enabled w then
                              (let r = r\<lparr>ga_User := Some u\<rparr>
                               in if isUserAllowedByWaygatesAuth u w then (r, [True])
                                  else (r\<lparr>ga_AuthenticatedButUnauthorized := True,
                                          ga_DenialReason :=
                                            ''Your account is not authorized to access this resource''\<rparr>, []))
                            else (r, []))))"

definition basic_branch :: "verify_env \<Rightarrow> ACLGroup \<Rightarrow> ACLVerifyRequest \<Rightarrow> bool list" where
  "basic_branch env g rq =
     (case rq_BasicAuth rq of
        None \<Rightarrow> []
      | Some c \<Rightarrow>
          if gr_BasicAuthUsers g \<noteq> [] \<and> \<not> groupHasSecureAuth g \<and>
             list_ex (\<lambda>u. bu_Username u = bc_Username c \<and>
                          ACLBasicAuthUser_CheckPassword (ve_compare env) u (bc_Password c))
               (gr_BasicAuthUsers g)
          then [True] else [])"

definition hasAuthRequirements :: "ACLGroup \<Rightarrow> bool" where
  "hasAuthRequirements g \<longleftrightarrow>
     (case gr_WaygatesAuth g of None \<Rightarrow> False | Some w \<Rightarrow> wa_Enabled w) \<or>
     gr_OAuthProviderRestrictions g \<noteq> [] \<or>
     (gr_BasicAuthUsers g \<noteq> [] \<and> \<not> groupHasSecureAuth g)"

definition evaluateGroupAuth ::
  "verify_env \<Rightarrow> acl_store \<Rightarrow> ACLGroup \<Rightarrow> ACLVerifyRequest \<Rightarrow> groupAccessResult" where
  "evaluateGroupAuth env st g rq =
     (let ipResult = fst (evaluateIPRules (gr_IPRules g) (rq_RemoteIP rq)) in
      if gr_CombinationMode g = ACLCombinationModeAny \<and>
         (ipResult = ipRuleAllow \<or> ipResult = ipRuleBypass)
      then empty_result\<lparr>ga_Allowed := True\<rparr>
      else
        let (result, sessionResults) = session_branch env st g rq;
            authResults = sessionResults @ basic_branch env g rq
        in if gr_CombinationMode g = ACLCombinationModeAny then
             (if list_ex (\<lambda>b. b) authResults then result\<lparr>ga_Allowed := True\<rparr> else result)
           else if gr_CombinationMode g = ACLCombinationModeAll then
             (if \<not> hasAuthRequirements g \<and> ipResult \<noteq> ipRuleDeny then result\<lparr>ga_Allowed := True\<rparr>
              else if authResults \<noteq> [] \<and> list_all (\<lambda>b. b) authResults
                then result\<lparr>ga_Allowed := True\<rparr>
              else result)
           else if gr_CombinationMode g = ACLCombinationModeIPBypass then
             (if list_ex (\<lambda>b. b) authResults then result\<lparr>ga_Allowed := True\<rparr> else result)
           else result)"

section \<open>All groups\<close>

definition auth_headers :: "groupAccessResult \<Rightarrow> (string \<times> string) list" where
  "auth_headers r =
     (case ga_User r of
        Some u \<Rightarrow>
          [(''X-Auth-User'', us_Username u), (''X-Auth-User-ID'', Itoa (us_ID u)),
           (''X-Auth-User-Email'', us_Email u)]
      | None \<Rightarrow>
          if ga_OAuthEmail r \<noteq> [] then
            [(''X-Auth-User'', ga_OAuthEmail r), (''X-Auth-User-Email'', ga_OAuthEmail r),
             (''X-Auth-Provider'', ga_OAuthProvider r)]
          else [])"

text \<open>
  Phase 3: the first group that grants access ends the loop with its result (\<^term>\<open>Inl\<close>);
  otherwise the loop carries the last authenticated-but-unauthorised result (\<^term>\<open>Inr\<close>).
\<close>

fun auth_loop ::
  "verify_env \<Rightarrow> acl_store \<Rightarrow> ACLVerifyRequest \<Rightarrow> groupAccessResult option \<Rightarrow> ACLGroup list
    \<Rightarrow> groupAccessResult + groupAccessResult option" where
  "auth_loop env st rq lst [] = Inr lst"
| "auth_loop env st rq lst (g # gs) =
     (let r = evaluateGroupAuth env st g rq in
      if ga_Allowed r then Inl r
      else auth_loop env st rq
             (if ga_AuthenticatedButUnauthorized r then Some r else lst) gs)"

definition evaluateUnionAccess ::
  "verify_env \<Rightarrow> acl_store \<Rightarrow> ACLGroup list \<Rightarrow> ACLVerifyRequest \<Rightarrow> acl_store \<times> ACLVerifyResponse" where
  "evaluateUnionAccess env st groups rq =
     (if checkIPDenyAcrossGroups groups (rq_RemoteIP rq) \<noteq> None then
        (st, denied_response\<lparr>rs_Reason := ''access denied by IP deny rule''\<rparr>)
      else if checkIPBypassAcrossGroups groups (rq_RemoteIP rq) \<noteq> None then
        (st, denied_response\<lparr>rs_Allowed := True\<rparr>)
      else case auth_loop env st rq None groups of
          Inl r \<Rightarrow>
            (st, denied_response\<lparr>rs_Allowed := True, rs_User := ga_User r,
                   rs_OAuthEmail := ga_OAuthEmail r, rs_OAuthProvider := ga_OAuthProvider r,
                   rs_Headers := auth_headers r\<rparr>)
        | Inr (Some r) \<Rightarrow>
            (st, denied_response\<lparr>rs_Reason := ''access denied by ACL rules'',
                   rs_AuthenticatedButUnauthorized := True, rs_RequiresAuth := False,
                   rs_OAuthEmail := ga_OAuthEmail r, rs_OAuthProvider := ga_OAuthProvider r,
                   rs_User := ga_User r,
                   rs_DenialDetails :=
                     (if ga_DenialReason r \<noteq> [] then ga_DenialReason r
                      else ''Your account is not authorized to access this resource'')\<rparr>)
        | Inr None \<Rightarrow>
            (case GetBranding_repo (ve_flt env) st of
               (st', branding) \<Rightarrow>
                 (st', denied_response\<lparr>rs_Reason := ''access denied by ACL rules'',
                         rs_RequiresAuth := True,
                         rs_RedirectURL :=
                           (case branding of
                              Inl e \<Rightarrow> []
                            | Inr b \<Rightarrow> ''/auth/login?redirect='' @ rq_Host rq @ rq_Path rq)\<rparr>)))"

section \<open>VerifyAccess\<close>

definition filterAssignmentsByPath ::
  "ProxyACLAssignment list \<Rightarrow> string \<Rightarrow> ProxyACLAssignment list" where
  "filterAssignmentsByPath assignments path =
     filter (\<lambda>a. matchPath (pa_PathPattern a) path) assignments"

definition collect_groups :: "ProxyACLAssignment list \<Rightarrow> ACLGroup list" where
  "collect_groups assignments =
     List.map_filter (\<lambda>a. if pa_Enabled a then pa_ACLGroup a else None) assignments"

definition VerifyAccess ::
  "verify_env \<Rightarrow> ACLVerifyRequest \<Rightarrow> acl_store
    \<Rightarrow> acl_store \<times> (verify_error, ACLVerifyResponse) result" where
  "VerifyAccess env rq st =
     (case Proxy_GetByHostname (ve_flt env) (rq_Host rq) st of
        Inl RecordNotFound \<Rightarrow>
          (st, Ok (denied_response\<lparr>rs_Reason := ''proxy not found for hostname''\<rparr>))
      | Inl e \<Rightarrow> (st, Err (GettingProxyByHostname e))
      | Inr proxy \<Rightarrow>
          (case GetProxyACLAssignments (ve_flt env) (px_ID proxy) st of
             Inl e \<Rightarrow> (st, Err (GettingProxyACLAssignments e))
           | Inr assignments \<Rightarrow>
               if assignments = [] then (st, Ok (denied_response\<lparr>rs_Allowed := True\<rparr>))
               else
                 let matching = filterAssignmentsByPath assignments (rq_Path rq) in
                 if matching = [] then (st, Ok (denied_response\<lparr>rs_Allowed := True\<rparr>))
                 else
                   let groups = collect_groups matching in
                   if groups = [] then (st, Ok (denied_response\<lparr>rs_Allowed := True\<rparr>))
                   else case evaluateUnionAccess env st groups rq of
                       (st', r) \<Rightarrow> (st', Ok r)))"

end
