(* ===== verification/Acl_Admin.thy ===== *)
theory Acl_Admin
  imports Acl_Verify Gorm_Table
begin

text \<open>
  The administration of access control: the group, rule, credential, provider, assignment and
  branding operations of \<open>backend/internal/service/acl_service.go\<close>. Every operation takes the
  fault pattern of the run and the store and returns the new store with nil (\<^term>\<open>None\<close>) or
  the error. Logging is left out.
\<close>

section \<open>Errors\<close>

datatype acl_error =
    ErrACLGroupNotFound
  | ErrACLGroupNameExists
  | ErrIPRuleNotFound
  | ErrBasicAuthUserNotFound
  | ErrBasicAuthUserExists
  | ErrExternalProviderNotFound
  | ErrWaygatesAuthNotFound
  | ErrProxyACLNotFound
  | ErrProxyACLExists
  | ErrSessionNotFound
  | ErrSessionExpired
  | ErrInvalidCIDR
  | InvalidPath path_error
  | ErrProxyNotFound
  | ErrOAuthProviderRestrictionNotFound
  | ProviderNameEmpty
  | InvalidModel validation_error
  | HashingPassword
  | GeneratingToken
  | Wrapped string db_error

type_synonym admin_result = "acl_store \<times> acl_error option"

text \<open>
  The recurring \<open>errors.Is(err, gorm.ErrRecordNotFound)\<close> test: a missing row is the operation's
  own error, any other error is wrapped with its context.
\<close>

definition found_or ::
  "acl_error \<Rightarrow> string \<Rightarrow> (db_error, 'a) result \<Rightarrow> (acl_error, 'a) result" where
  "found_or missing context r =
     (case r of
        Inl RecordNotFound \<Rightarrow> Err missing
      | Inl e \<Rightarrow> Err (Wrapped context e)
      | Inr x \<Rightarrow> Ok x)"

text \<open>The dual test, \<open>err != nil && !errors.Is(err, gorm.ErrRecordNotFound)\<close>.\<close>

definition optional_row ::
  "string \<Rightarrow> (db_error, 'a) result \<Rightarrow> (acl_error, 'a option) result" where
  "optional_row context r =
     (case r of
        Inl RecordNotFound \<Rightarrow> Ok None
      | Inl e \<Rightarrow> Err (Wrapped context e)
      | Inr x \<Rightarrow> Ok (Some x))"

definition wrap_write :: "string \<Rightarrow> write_result \<Rightarrow> admin_result" where
  "wrap_write context w = (fst w, map_option (Wrapped context) (snd w))"

definition get_group :: "faults \<Rightarrow> int \<Rightarrow> acl_store \<Rightarrow> (acl_error, ACLGroup) result" where
  "get_group flt groupID st =
     found_or ErrACLGroupNotFound ''getting ACL group'' (GetGroupByID flt groupID st)"

section \<open>Groups\<close>

definition CreateGroup :: "faults \<Rightarrow> ACLGroup \<Rightarrow> int \<Rightarrow> acl_store \<Rightarrow> admin_result" where
  "CreateGroup flt grp createdBy st =
     (case ACLGroup_Validate grp of
        Some e \<Rightarrow> (st, Some (InvalidModel e))
      | None \<Rightarrow>
          (case optional_row ''checking group name uniqueness'' (GetGroupByName flt (gr_Name grp) st) of
             Inl e \<Rightarrow> (st, Some e)
           | Inr (Some existing) \<Rightarrow> (st, Some ErrACLGroupNameExists)
           | Inr None \<Rightarrow>
               let grp = grp\<lparr>gr_CreatedBy := createdBy\<rparr>;
                   grp = (if gr_CombinationMode grp = []
                            then grp\<lparr>gr_CombinationMode := ACLCombinationModeAny\<rparr> else grp)
               in wrap_write ''creating ACL group'' (CreateGroup_repo flt grp st)))"

definition GetGroup :: "faults \<Rightarrow> int \<Rightarrow> acl_store \<Rightarrow> (acl_error, ACLGroup) result" where
  "GetGroup flt rid st = found_or ErrACLGroupNotFound ''getting ACL group'' (GetGroupByID flt rid st)"

definition GetGroupByName_service :: "faults \<Rightarrow> string \<Rightarrow> acl_store \<Rightarrow> (acl_error, ACLGroup) result" where
  "GetGroupByName_service flt name st =
     found_or ErrACLGroupNotFound ''getting ACL group by name'' (GetGroupByName flt name st)"

definition UpdateGroup :: "faults \<Rightarrow> int \<Rightarrow> ACLGroup \<Rightarrow> acl_store \<Rightarrow> admin_result" where
  "UpdateGroup flt rid updates st =
     (case get_group flt rid st of
        Inl e \<Rightarrow> (st, Some e)
      | Inr existing \<Rightarrow>
          (case (if gr_Name updates \<noteq> gr_Name existing then
                   (case optional_row ''checking group name uniqueness''
                           (GetGroupByName flt (gr_Name updates) st) of
                      Inl e \<Rightarrow> Some e
                    | Inr (Some x) \<Rightarrow> Some ErrACLGroupNameExists
                    | Inr None \<Rightarrow> None)
                 else None) of
             Some e \<Rightarrow> (st, Some e)
           | None \<Rightarrow>
               let existing = existing\<lparr>gr_Name := gr_Name updates, gr_Description := gr_Description updates\<rparr>;
                   existing = (if gr_CombinationMode updates \<noteq> []
                               then existing\<lparr>gr_CombinationMode := gr_CombinationMode updates\<rparr>
                               else existing)
               in case ACLGroup_Validate existing of
                    Some e \<Rightarrow> (st, Some (InvalidModel e))
                  | None \<Rightarrow> wrap_write ''updating ACL group'' (UpdateGroup_repo flt existing st)))"

definition DeleteGroup :: "faults \<Rightarrow> int \<Rightarrow> acl_store \<Rightarrow> admin_result" where
  "DeleteGroup flt rid st =
     (case get_group flt rid st of
        Inl e \<Rightarrow> (st, Some e)
      | Inr _ \<Rightarrow> wrap_write ''deleting ACL group'' (DeleteGroup_repo flt rid st))"

text \<open>The loop that collects each proxy once, with its \<open>seen\<close> map.\<close>

fun unique_proxy_ids :: "int list \<Rightarrow> ProxyACLAssignment list \<Rightarrow> int list" where
  "unique_proxy_ids seen [] = []"
| "unique_proxy_ids seen (a # as) =
     (if pa_ProxyID a \<in> set seen then unique_proxy_ids seen as
      else pa_ProxyID a # unique_proxy_ids (pa_ProxyID a # seen) as)"

text \<open>
  The second component is the argument of the sync callback, \<^term>\<open>None\<close> when it is not called;
  \<open>hasSync\<close> says whether the caller passed one. The reads and the deletion run in one
  transaction, so an error leaves the store as it was.
\<close>

definition DeleteGroupWithSync ::
  "faults \<Rightarrow> bool \<Rightarrow> int \<Rightarrow> acl_store \<Rightarrow> acl_store \<times> int list option \<times> acl_error option" where
  "DeleteGroupWithSync flt hasSync rid st =
     (case get_group flt rid st of
        Inl e \<Rightarrow> (st, None, Some e)
      | Inr _ \<Rightarrow>
          (case GetProxyACLAssignmentsByGroup flt rid st of
             Inl e \<Rightarrow> (st, None, Some (Wrapped ''getting group assignments'' e))
           | Inr assignments \<Rightarrow>
               let proxyIDs = unique_proxy_ids [] assignments in
               (case DeleteGroupWithTx flt rid st of
                  (_, Some e) \<Rightarrow> (st, None, Some (Wrapped ''deleting ACL group'' e))
                | (st', None) \<Rightarrow>
                    (st', if hasSync \<and> proxyIDs \<noteq> [] then Some proxyIDs else None, None))))"

section \<open>IP rules\<close>

definition validateCIDR :: "string \<Rightarrow> acl_error option" where
  "validateCIDR cidr =
     (if \<not> Contains cidr ''/'' then
        (case ParseIP cidr of None \<Rightarrow> Some ErrInvalidCIDR | Some _ \<Rightarrow> None)
      else (case ParseCIDR cidr of None \<Rightarrow> Some ErrInvalidCIDR | Some _ \<Rightarrow> None))"

definition AddIPRule :: "faults \<Rightarrow> int \<Rightarrow> ACLIPRule \<Rightarrow> acl_store \<Rightarrow> admin_result" where
  "AddIPRule flt groupID rule st =
     (case get_group flt groupID st of
        Inl e \<Rightarrow> (st, Some e)
      | Inr _ \<Rightarrow>
          (case validateCIDR (ir_CIDR rule) of
             Some e \<Rightarrow> (st, Some e)
           | None \<Rightarrow>
               (case ACLIPRule_Validate rule of
                  Some e \<Rightarrow> (st, Some (InvalidModel e))
                | None \<Rightarrow>
                    wrap_write ''creating IP rule''
                      (CreateIPRule_repo flt (rule\<lparr>ir_ACLGroupID := groupID\<rparr>) st))))"

definition UpdateIPRule :: "faults \<Rightarrow> int \<Rightarrow> ACLIPRule \<Rightarrow> acl_store \<Rightarrow> admin_result" where
  "UpdateIPRule flt rid rule st =
     (case found_or ErrIPRuleNotFound ''getting IP rule'' (GetIPRuleByID flt rid st) of
        Inl e \<Rightarrow> (st, Some e)
      | Inr existing \<Rightarrow>
          (case (if ir_CIDR rule \<noteq> ir_CIDR existing then validateCIDR (ir_CIDR rule) else None) of
             Some e \<Rightarrow> (st, Some e)
           | None \<Rightarrow>
               let existing = existing\<lparr>ir_RuleType := ir_RuleType rule, ir_CIDR := ir_CIDR rule,
                     ir_Description := ir_Description rule, ir_Priority := ir_Priority rule\<rparr>
               in case ACLIPRule_Validate existing of
                    Some e \<Rightarrow> (st, Some (InvalidModel e))
                  | None \<Rightarrow> wrap_write ''updating IP rule'' (UpdateIPRule_repo flt existing st)))"

definition DeleteIPRule :: "faults \<Rightarrow> int \<Rightarrow> acl_store \<Rightarrow> admin_result" where
  "DeleteIPRule flt rid st =
     (case found_or ErrIPRuleNotFound ''getting IP rule'' (GetIPRuleByID flt rid st) of
        Inl e \<Rightarrow> (st, Some e)
      | Inr _ \<Rightarrow> wrap_write ''deleting IP rule'' (DeleteIPRule_repo flt rid st))"

section \<open>Basic authentication\<close>

definition BcryptCost :: nat where "BcryptCost = 14"

definition AddBasicAuthUser ::
  "(string \<Rightarrow> nat \<Rightarrow> string option) \<Rightarrow> faults \<Rightarrow> int \<Rightarrow> string \<Rightarrow> string \<Rightarrow> acl_store \<Rightarrow> admin_result" where
  "AddBasicAuthUser generate flt groupID username password st =
     (case get_group flt groupID st of
        Inl e \<Rightarrow> (st, Some e)
      | Inr _ \<Rightarrow>
          if username = [] then (st, Some (InvalidModel ErrBasicAuthUsernameEmpty))
          else if password = [] then (st, Some (InvalidModel ErrBasicAuthPasswordEmpty))
          else (case optional_row ''checking basic auth user'' (GetBasicAuthUser flt groupID username st) of
                  Inl e \<Rightarrow> (st, Some e)
                | Inr (Some _) \<Rightarrow> (st, Some ErrBasicAuthUserExists)
                | Inr None \<Rightarrow>
                    let user = \<lparr>bu_ID = 0, bu_ACLGroupID = groupID, bu_Username = username,
                                bu_PasswordHash = []\<rparr> in
                    (case ACLBasicAuthUser_SetPassword generate user password BcryptCost of
                       None \<Rightarrow> (st, Some HashingPassword)
                     | Some user \<Rightarrow>
                         wrap_write ''creating basic auth user'' (CreateBasicAuthUser_repo flt user st))))"

definition UpdateBasicAuthPassword ::
  "(string \<Rightarrow> nat \<Rightarrow> string option) \<Rightarrow> faults \<Rightarrow> int \<Rightarrow> string \<Rightarrow> acl_store \<Rightarrow> admin_result" where
  "UpdateBasicAuthPassword generate flt rid password st =
     (case found_or ErrBasicAuthUserNotFound ''getting basic auth user'' (GetBasicAuthUserByID flt rid st) of
        Inl e \<Rightarrow> (st, Some e)
      | Inr user \<Rightarrow>
          if password = [] then (st, Some (InvalidModel ErrBasicAuthPasswordEmpty))
          else (case ACLBasicAuthUser_SetPassword generate user password BcryptCost of
                  None \<Rightarrow> (st, Some HashingPassword)
                | Some user \<Rightarrow>
                    wrap_write ''updating basic auth user'' (UpdateBasicAuthUser_repo flt user st)))"

definition DeleteBasicAuthUser :: "faults \<Rightarrow> int \<Rightarrow> acl_store \<Rightarrow> admin_result" where
  "DeleteBasicAuthUser flt rid st =
     (case found_or ErrBasicAuthUserNotFound ''getting basic auth user'' (GetBasicAuthUserByID flt rid st) of
        Inl e \<Rightarrow> (st, Some e)
      | Inr _ \<Rightarrow> wrap_write ''deleting basic auth user'' (DeleteBasicAuthUser_repo flt rid st))"

section \<open>External providers\<close>

definition AddExternalProvider :: "faults \<Rightarrow> int \<Rightarrow> ACLExternalProvider \<Rightarrow> acl_store \<Rightarrow> admin_result" where
  "AddExternalProvider flt groupID provider st =
     (case get_group flt groupID st of
        Inl e \<Rightarrow> (st, Some e)
      | Inr _ \<Rightarrow>
          (case ACLExternalProvider_Validate provider of
             Some e \<Rightarrow> (st, Some (InvalidModel e))
           | None \<Rightarrow>
               wrap_write ''creating external provider''
                 (CreateExternalProvider_repo flt (provider\<lparr>ep_ACLGroupID := groupID\<rparr>) st)))"

definition UpdateExternalProvider :: "faults \<Rightarrow> int \<Rightarrow> ACLExternalProvider \<Rightarrow> acl_store \<Rightarrow> admin_result" where
  "UpdateExternalProvider flt rid provider st =
     (case found_or ErrExternalProviderNotFound ''getting external provider''
             (GetExternalProviderByID flt rid st) of
        Inl e \<Rightarrow> (st, Some e)
      | Inr existing \<Rightarrow>
          let existing = existing\<lparr>ep_ProviderType := ep_ProviderType provider, ep_Name := ep_Name provider,
                ep_VerifyURL := ep_VerifyURL provider, ep_AuthRedirectURL := ep_AuthRedirectURL provider,
                ep_HeadersToCopy := ep_HeadersToCopy provider\<rparr>
          in case ACLExternalProvider_Validate existing of
               Some e \<Rightarrow> (st, Some (InvalidModel e))
             | None \<Rightarrow> wrap_write ''updating external provider'' (UpdateExternalProvider_repo flt existing st))"

definition DeleteExternalProvider :: "faults \<Rightarrow> int \<Rightarrow> acl_store \<Rightarrow> admin_result" where
  "DeleteExternalProvider flt rid st =
     (case found_or ErrExternalProviderNotFound ''getting external provider''
             (GetExternalProviderByID flt rid st) of
        Inl e \<Rightarrow> (st, Some e)
      | Inr _ \<Rightarrow> wrap_write ''deleting external provider'' (DeleteExternalProvider_repo flt rid st))"

section \<open>Waygates authentication\<close>

definition GetWaygatesAuth_service ::
  "faults \<Rightarrow> int \<Rightarrow> acl_store \<Rightarrow> (acl_error, ACLWaygatesAuth) result" where
  "GetWaygatesAuth_service flt groupID st =
     (case get_group flt groupID st of
        Inl e \<Rightarrow> Err e
      | Inr _ \<Rightarrow> found_or ErrWaygatesAuthNotFound ''getting waygates auth'' (GetWaygatesAuth flt groupID st))"

definition ConfigureWaygatesAuth :: "faults \<Rightarrow> int \<Rightarrow> ACLWaygatesAuth \<Rightarrow> acl_store \<Rightarrow> admin_result" where
  "ConfigureWaygatesAuth flt groupID config st =
     (case get_group flt groupID st of
        Inl e \<Rightarrow> (st, Some e)
      | Inr _ \<Rightarrow>
          (case optional_row ''checking waygates auth'' (GetWaygatesAuth flt groupID st) of
             Inl e \<Rightarrow> (st, Some e)
           | Inr existing \<Rightarrow>
               let config = config\<lparr>wa_ACLGroupID := groupID\<rparr>;
                   config = (if wa_SessionTTL config = 0 then config\<lparr>wa_SessionTTL := 86400\<rparr> else config)
               in case existing of
                    Some ex \<Rightarrow>
                      wrap_write ''updating waygates auth''
                        (UpdateWaygatesAuth_repo flt
                           (config\<lparr>wa_ID := wa_ID ex, wa_CreatedAt := wa_CreatedAt ex\<rparr>) st)
                  | None \<Rightarrow>
                      wrap_write ''creating waygates auth'' (CreateWaygatesAuth_repo flt config st)))"

section \<open>OAuth provider restrictions\<close>

definition SetOAuthProviderRestriction ::
  "faults \<Rightarrow> int \<Rightarrow> string \<Rightarrow> string list \<Rightarrow> string list \<Rightarrow> bool \<Rightarrow> acl_store \<Rightarrow> admin_result" where
  "SetOAuthProviderRestriction flt groupID provider emails domains enabled st =
     (case get_group flt groupID st of
        Inl e \<Rightarrow> (st, Some e)
      | Inr _ \<Rightarrow>
          if provider = [] then (st, Some ProviderNameEmpty)
          else (case optional_row ''checking OAuth provider restriction''
                       (GetOAuthProviderRestriction flt groupID provider st) of
                  Inl e \<Rightarrow> (st, Some e)
                | Inr (Some existing) \<Rightarrow>
                    wrap_write ''updating OAuth provider restriction''
                      (UpdateOAuthProviderRestriction_repo flt
                         (existing\<lparr>or_AllowedEmails := emails, or_AllowedDomains := domains,
                                   or_Enabled := enabled\<rparr>) st)
                | Inr None \<Rightarrow>
                    wrap_write ''creating OAuth provider restriction''
                      (CreateOAuthProviderRestriction_repo flt
                         \<lparr>or_ID = 0, or_ACLGroupID = groupID, or_Provider = provider,
                          or_AllowedEmails = emails, or_AllowedDomains = domains,
                          or_Enabled = enabled\<rparr> st)))"

definition DeleteOAuthProviderRestriction :: "faults \<Rightarrow> int \<Rightarrow> string \<Rightarrow> acl_store \<Rightarrow> admin_result" where
  "DeleteOAuthProviderRestriction flt groupID provider st =
     (case get_group flt groupID st of
        Inl e \<Rightarrow> (st, Some e)
      | Inr _ \<Rightarrow>
          (case found_or ErrOAuthProviderRestrictionNotFound ''getting OAuth provider restriction''
                  (GetOAuthProviderRestriction flt groupID provider st) of
             Inl e \<Rightarrow> (st, Some e)
           | Inr _ \<Rightarrow>
               wrap_write ''deleting OAuth provider restriction''
                 (DeleteOAuthProviderRestriction_repo flt groupID provider st)))"

section \<open>Assignments to proxies\<close>

text \<open>
  The unique-constraint test on the text of the database error is the case \<^term>\<open>DuplicateKey\<close>.
\<close>

definition AssignToProxy :: "faults \<Rightarrow> int \<Rightarrow> int \<Rightarrow> string \<Rightarrow> int \<Rightarrow> acl_store \<Rightarrow> admin_result" where
  "AssignToProxy flt proxyID groupID pathPattern priority st =
     (case found_or ErrProxyNotFound ''getting proxy'' (Proxy_GetByID flt proxyID st) of
        Inl e \<Rightarrow> (st, Some e)
      | Inr _ \<Rightarrow>
          (case get_group flt groupID st of
             Inl e \<Rightarrow> (st, Some e)
           | Inr _ \<Rightarrow>
               (case validatePathPattern pathPattern of
                  Some e \<Rightarrow> (st, Some (InvalidPath e))
                | None \<Rightarrow>
                    let pathPattern = (if pathPattern = [] then ''/*'' else pathPattern);
                        assignment = \<lparr>pa_ID = 0, pa_ProxyID = proxyID, pa_ACLGroupID = groupID,
                          pa_PathPattern = pathPattern, pa_Priority = priority, pa_Enabled = True,
                          pa_ACLGroup = None\<rparr>
                    in case CreateProxyACLAssignment_repo flt assignment st of
                         (st', Some DuplicateKey) \<Rightarrow> (st', Some ErrProxyACLExists)
                       | (st', Some e) \<Rightarrow> (st', Some (Wrapped ''creating proxy ACL assignment'' e))
                       | (st', None) \<Rightarrow> (st', None))))"

definition UpdateProxyAssignment ::
  "faults \<Rightarrow> int \<Rightarrow> string \<Rightarrow> int \<Rightarrow> bool \<Rightarrow> acl_store \<Rightarrow> admin_result" where
  "UpdateProxyAssignment flt rid pathPattern priority enabled st =
     (case (if pathPattern \<noteq> [] then validatePathPattern pathPattern else None) of
        Some e \<Rightarrow> (st, Some (InvalidPath e))
      | None \<Rightarrow>
          (case found_or ErrProxyACLNotFound ''getting proxy ACL assignment''
                  (GetProxyACLAssignmentByID flt rid st) of
             Inl e \<Rightarrow> (st, Some e)
           | Inr existing \<Rightarrow>
               wrap_write ''updating proxy ACL assignment''
                 (UpdateProxyACLAssignment_repo flt
                    (existing\<lparr>pa_PathPattern := pathPattern, pa_Priority := priority,
                              pa_Enabled := enabled\<rparr>) st)))"

definition RemoveFromProxy :: "faults \<Rightarrow> int \<Rightarrow> int \<Rightarrow> acl_store \<Rightarrow> admin_result" where
  "RemoveFromProxy flt proxyID groupID st =
     wrap_write ''removing proxy ACL assignment''
       (DeleteProxyACLAssignmentByProxyAndGroup flt proxyID groupID st)"

definition GetProxyACL :: "faults \<Rightarrow> int \<Rightarrow> acl_store \<Rightarrow> (acl_error, ProxyACLAssignment list) result" where
  "GetProxyACL flt proxyID st =
     map_sum (Wrapped ''getting proxy ACL assignments'') (\<lambda>x. x) (GetProxyACLAssignments flt proxyID st)"

definition GetGroupUsage :: "faults \<Rightarrow> int \<Rightarrow> acl_store \<Rightarrow> (acl_error, ProxyACLAssignment list) result" where
  "GetGroupUsage flt groupID st =
     map_sum (Wrapped ''getting group usage'') (\<lambda>x. x) (GetProxyACLAssignmentsByGroup flt groupID st)"

section \<open>Branding\<close>

definition GetBranding :: "faults \<Rightarrow> acl_store \<Rightarrow> acl_store \<times> (acl_error, ACLBranding) result" where
  "GetBranding flt st =
     (case GetBranding_repo flt st of
        (st', r) \<Rightarrow> (st', map_sum (Wrapped ''getting branding'') (\<lambda>x. x) r))"

definition UpdateBranding :: "faults \<Rightarrow> ACLBranding \<Rightarrow> acl_store \<Rightarrow> admin_result" where
  "UpdateBranding flt branding st = wrap_write ''updating branding'' (UpdateBranding_repo flt branding st)"

lemmas admin_defs =
  CreateGroup_def UpdateGroup_def DeleteGroup_def AddIPRule_def UpdateIPRule_def DeleteIPRule_def
  AddBasicAuthUser_def UpdateBasicAuthPassword_def DeleteBasicAuthUser_def
  AddExternalProvider_def UpdateExternalProvider_def DeleteExternalProvider_def
  ConfigureWaygatesAuth_def SetOAuthProviderRestriction_def DeleteOAuthProviderRestriction_def
  AssignToProxy_def UpdateProxyAssignment_def RemoveFromProxy_def UpdateBranding_def

end
