(* ===== verification/Acl_Session.thy ===== *)
theory Acl_Session
  imports Acl_Admin
begin

text \<open>
  Sessions of \<open>backend/internal/service/acl_service.go\<close>: token generation (random bytes in URL-safe
  base64), creation, validation, revocation and clean-up. \<open>rand.Read\<close> is a parameter: the bytes
  it delivered, or \<^term>\<open>None\<close> for its error. Times are nanoseconds.
\<close>

section \<open>Tokens\<close>

definition SessionTokenLength :: nat where "SessionTokenLength = 32"

definition base64_alphabet :: string where
  "base64_alphabet = ''ABCDEFGHIJKLMNOPQRSTUVWXYZabcdefghijklmnopqrstuvwxyz0123456789-_''"

definition b64 :: "nat \<Rightarrow> char" where
  "b64 n = base64_alphabet ! n"

text \<open>
  \<open>base64.URLEncoding.EncodeToString\<close>, on bytes as numbers below 256: three bytes make four
  characters, and a rest of one or two bytes is padded.
\<close>

fun EncodeToString :: "nat list \<Rightarrow> string" where
  "EncodeToString [] = []"
| "EncodeToString [a] = [b64 (a div 4), b64 (a mod 4 * 16), CHR ''='', CHR ''='']"
| "EncodeToString [a, b] =
     [b64 (a div 4), b64 (a mod 4 * 16 + b div 16), b64 (b mod 16 * 4), CHR ''='']"
| "EncodeToString (a # b # c # bs) =
     b64 (a div 4) # b64 (a mod 4 * 16 + b div 16) # b64 (b mod 16 * 4 + c div 64) # b64 (c mod 64)
       # EncodeToString bs"

definition generateSecureToken :: "(nat \<Rightarrow> nat list option) \<Rightarrow> nat \<Rightarrow> string option" where
  "generateSecureToken randRead n = map_option EncodeToString (randRead n)"

section \<open>Operations\<close>

record CreateSessionParams =
  cp_UserID :: "int option"
  cp_ProxyID :: "int option"
  cp_IP :: string
  cp_UserAgent :: string
  cp_TTL :: int
  cp_Email :: string
  cp_Provider :: string

definition non_empty :: "string \<Rightarrow> string option" where
  "non_empty s = (if s = [] then None else Some s)"

definition second_ns :: int where "second_ns = 1000000000"

text \<open>
  \<open>time.Duration\<close> is a 64-bit integer of nanoseconds, so the product with \<open>time.Second\<close> wraps.
\<close>

definition CreateSessionWithParams ::
  "(nat \<Rightarrow> nat list option) \<Rightarrow> faults \<Rightarrow> int \<Rightarrow> CreateSessionParams \<Rightarrow> acl_store
    \<Rightarrow> acl_store \<times> (acl_error, ACLSession) result" where
  "CreateSessionWithParams randRead flt now params st =
     (case generateSecureToken randRead SessionTokenLength of
        None \<Rightarrow> (st, Err GeneratingToken)
      | Some token \<Rightarrow>
          let ttl = (if cp_TTL params \<le> 0 then 86400 else cp_TTL params);
              session = \<lparr>se_ID = 0, se_SessionToken = token, se_UserID = cp_UserID params,
                se_ProxyID = cp_ProxyID params, se_IPAddress = non_empty (cp_IP params),
                se_UserAgent = non_empty (cp_UserAgent params), se_ExpiresAt = now + wrap64 (ttl * second_ns),
                se_Email = non_empty (cp_Email params), se_Provider = non_empty (cp_Provider params),
                se_User = None\<rparr>
          in case CreateSession_repo flt session st of
               (st', Some e) \<Rightarrow> (st', Err (Wrapped ''creating session'' e))
             | (st', None) \<Rightarrow> (st', Ok (session\<lparr>se_ID := tb_next (st_sessions st)\<rparr>)))"

definition CreateSession ::
  "(nat \<Rightarrow> nat list option) \<Rightarrow> faults \<Rightarrow> int \<Rightarrow> int \<Rightarrow> int option \<Rightarrow> string \<Rightarrow> string \<Rightarrow> int \<Rightarrow> acl_store
    \<Rightarrow> acl_store \<times> (acl_error, ACLSession) result" where
  "CreateSession randRead flt now userID proxyID ip userAgent ttl st =
     CreateSessionWithParams randRead flt now
       \<lparr>cp_UserID = Some userID, cp_ProxyID = proxyID, cp_IP = ip, cp_UserAgent = userAgent,
        cp_TTL = ttl, cp_Email = [], cp_Provider = []\<rparr> st"

definition CreateOAuthSession ::
  "(nat \<Rightarrow> nat list option) \<Rightarrow> faults \<Rightarrow> int \<Rightarrow> string \<Rightarrow> string \<Rightarrow> int option \<Rightarrow> string \<Rightarrow> string \<Rightarrow> int
    \<Rightarrow> acl_store \<Rightarrow> acl_store \<times> (acl_error, ACLSession) result" where
  "CreateOAuthSession randRead flt now email provider proxyID ip userAgent ttl st =
     CreateSessionWithParams randRead flt now
       \<lparr>cp_UserID = None, cp_ProxyID = proxyID, cp_IP = ip, cp_UserAgent = userAgent,
        cp_TTL = ttl, cp_Email = email, cp_Provider = provider\<rparr> st"

text \<open>An expired session is deleted as a side effect; an error of that deletion is ignored.\<close>

definition ValidateSession ::
  "faults \<Rightarrow> int \<Rightarrow> string \<Rightarrow> acl_store \<Rightarrow> acl_store \<times> (acl_error, ACLSession) result" where
  "ValidateSession flt now token st =
     (if token = [] then (st, Err ErrSessionNotFound)
      else case found_or ErrSessionNotFound ''getting session'' (GetSessionByToken flt token st) of
          Inl e \<Rightarrow> (st, Err e)
        | Inr session \<Rightarrow>
            if ACLSession_IsExpired now session
            then (fst (DeleteSession_repo flt token st), Err ErrSessionExpired)
            else (st, Ok session))"

definition RevokeSession :: "faults \<Rightarrow> string \<Rightarrow> acl_store \<Rightarrow> admin_result" where
  "RevokeSession flt token st = wrap_write ''revoking session'' (DeleteSession_repo flt token st)"

definition RevokeUserSessions :: "faults \<Rightarrow> int \<Rightarrow> acl_store \<Rightarrow> admin_result" where
  "RevokeUserSessions flt userID st =
     wrap_write ''revoking user sessions'' (DeleteUserSessions_repo flt userID st)"

definition CleanupExpiredSessions ::
  "faults \<Rightarrow> int \<Rightarrow> acl_store \<Rightarrow> acl_store \<times> (acl_error, nat) result" where
  "CleanupExpiredSessions flt now st =
     (case DeleteExpiredSessions_repo flt now st of
        (st', r) \<Rightarrow> (st', map_sum (Wrapped ''cleaning up expired sessions'') (\<lambda>n. n) r))"

end
