(* ===== verification/Acl_Invariant.thy ===== *)
theory Acl_Invariant
  imports Acl_Session
begin

text \<open>
  The store invariant \<open>store_ok\<close> of the access-control tables: keys are unique, unique indexes and
  foreign keys hold, and every row has passed the validation of its model. The first part shows
  that every repository write keeps it under its own precondition, the second that every service
  operation does so unconditionally, faults included.
\<close>

section \<open>The constraints of each table\<close>

definition no_clash :: "'r \<Rightarrow> 'r \<Rightarrow> bool" where "no_clash x y \<longleftrightarrow> False"

definition same_name :: "ACLGroup \<Rightarrow> ACLGroup \<Rightarrow> bool" where
  "same_name x y \<longleftrightarrow> gr_Name x = gr_Name y"
definition same_basic :: "ACLBasicAuthUser \<Rightarrow> ACLBasicAuthUser \<Rightarrow> bool" where
  "same_basic x y \<longleftrightarrow> bu_ACLGroupID x = bu_ACLGroupID y \<and> bu_Username x = bu_Username y"
definition same_waygates :: "ACLWaygatesAuth \<Rightarrow> ACLWaygatesAuth \<Rightarrow> bool" where
  "same_waygates x y \<longleftrightarrow> wa_ACLGroupID x = wa_ACLGroupID y"
definition same_restriction :: "ACLOAuthProviderRestriction \<Rightarrow> ACLOAuthProviderRestriction \<Rightarrow> bool" where
  "same_restriction x y \<longleftrightarrow> or_ACLGroupID x = or_ACLGroupID y \<and> or_Provider x = or_Provider y"
definition same_assignment :: "ProxyACLAssignment \<Rightarrow> ProxyACLAssignment \<Rightarrow> bool" where
  "same_assignment x y \<longleftrightarrow> pa_ProxyID x = pa_ProxyID y \<and> pa_ACLGroupID x = pa_ACLGroupID y"
definition same_token :: "ACLSession \<Rightarrow> ACLSession \<Rightarrow> bool" where
  "same_token x y \<longleftrightarrow> se_SessionToken x = se_SessionToken y"

definition group_ok :: "int set \<Rightarrow> ACLGroup \<Rightarrow> bool" where
  "group_ok U g \<longleftrightarrow> gr_CreatedBy g \<in> U \<and> ACLGroup_Validate g = None \<and> group_row g = g"
definition rule_ok :: "int set \<Rightarrow> ACLIPRule \<Rightarrow> bool" where
  "rule_ok G r \<longleftrightarrow>
     ir_ACLGroupID r \<in> G \<and> ACLIPRule_Validate r = None \<and> validateCIDR (ir_CIDR r) = None"
definition basic_ok :: "int set \<Rightarrow> ACLBasicAuthUser \<Rightarrow> bool" where
  "basic_ok G u \<longleftrightarrow> bu_ACLGroupID u \<in> G \<and> bu_Username u \<noteq> []"
definition provider_ok :: "int set \<Rightarrow> ACLExternalProvider \<Rightarrow> bool" where
  "provider_ok G p \<longleftrightarrow> ep_ACLGroupID p \<in> G \<and> ACLExternalProvider_Validate p = None"
definition waygates_ok :: "int set \<Rightarrow> ACLWaygatesAuth \<Rightarrow> bool" where
  "waygates_ok G w \<longleftrightarrow> wa_ACLGroupID w \<in> G \<and> wa_SessionTTL w \<noteq> 0"
definition restriction_ok :: "int set \<Rightarrow> ACLOAuthProviderRestriction \<Rightarrow> bool" where
  "restriction_ok G r \<longleftrightarrow> or_ACLGroupID r \<in> G \<and> or_Provider r \<noteq> []"
definition assignment_ok :: "int set \<times> int set \<Rightarrow> ProxyACLAssignment \<Rightarrow> bool" where
  "assignment_ok PG a \<longleftrightarrow>
     pa_ProxyID a \<in> fst PG \<and> pa_ACLGroupID a \<in> snd PG \<and>
     validatePathPattern (pa_PathPattern a) = None \<and> pa_ACLGroup a = None"
definition session_ok :: "int set \<times> int set \<Rightarrow> ACLSession \<Rightarrow> bool" where
  "session_ok UP s \<longleftrightarrow>
     (\<forall>u. se_UserID s = Some u \<longrightarrow> u \<in> fst UP) \<and> (\<forall>p. se_ProxyID s = Some p \<longrightarrow> p \<in> snd UP)"

lemmas row_constraint_defs =
  no_clash_def same_name_def same_basic_def same_waygates_def same_restriction_def
  same_assignment_def same_token_def group_ok_def rule_ok_def basic_ok_def provider_ok_def
  waygates_ok_def restriction_ok_def assignment_ok_def session_ok_def

lemma group_row_fixed:
  "group_row g = g \<longleftrightarrow>
     gr_IPRules g = [] \<and> gr_BasicAuthUsers g = [] \<and> gr_ExternalProviders g = [] \<and>
     gr_WaygatesAuth g = None \<and> gr_OAuthProviderRestrictions g = []"
  by (cases g) (auto simp: group_row_def)

lemma Validate_group_row [simp]:
  "ACLGroup_Validate (group_row g) = ACLGroup_Validate g"
  "ACLGroup_Validate (set_gr_ID i g) = ACLGroup_Validate g"
  by (simp_all add: ACLGroup_Validate_def group_row_def set_gr_ID_def)

interpretation groups_ct: constrained_table gr_ID set_gr_ID same_name group_ok
  by unfold_locales (auto simp: same_name_def group_ok_def group_row_fixed set_gr_ID_def
    Validate_group_row(2)[unfolded set_gr_ID_def])

interpretation rules_ct: constrained_table ir_ID set_ir_ID no_clash rule_ok
  by unfold_locales (auto simp: row_constraint_defs set_ID_defs ACLIPRule_Validate_def)

interpretation basic_ct: constrained_table bu_ID set_bu_ID same_basic basic_ok
  by unfold_locales (auto simp: row_constraint_defs set_ID_defs)

interpretation providers_ct: constrained_table ep_ID set_ep_ID no_clash provider_ok
  by unfold_locales (auto simp: row_constraint_defs set_ID_defs ACLExternalProvider_Validate_def)

interpretation waygates_ct: constrained_table wa_ID set_wa_ID same_waygates waygates_ok
  by unfold_locales (auto simp: row_constraint_defs set_ID_defs)

interpretation restrictions_ct: constrained_table or_ID set_or_ID same_restriction restriction_ok
  by unfold_locales (auto simp: row_constraint_defs set_ID_defs)

interpretation assignments_ct: constrained_table pa_ID set_pa_ID same_assignment assignment_ok
  by unfold_locales (auto simp: row_constraint_defs set_ID_defs)

interpretation sessions_ct: constrained_table se_ID set_se_ID same_token session_ok
  by unfold_locales (auto simp: row_constraint_defs set_ID_defs)

section \<open>The store invariant\<close>

definition gids :: "acl_store \<Rightarrow> int set" where "gids st = gr_ID ` set (tb_rows (st_groups st))"
definition pids :: "acl_store \<Rightarrow> int set" where "pids st = px_ID ` set (tb_rows (st_proxies st))"
definition uids :: "acl_store \<Rightarrow> int set" where "uids st = us_ID ` set (tb_rows (st_users st))"

definition store_ok :: "acl_store \<Rightarrow> bool" where
  "store_ok st \<longleftrightarrow>
     table_ok gr_ID same_name group_ok (uids st) (st_groups st) \<and>
     table_ok ir_ID no_clash rule_ok (gids st) (st_ip_rules st) \<and>
     table_ok bu_ID same_basic basic_ok (gids st) (st_basic_users st) \<and>
     table_ok ep_ID no_clash provider_ok (gids st) (st_providers st) \<and>
     table_ok wa_ID same_waygates waygates_ok (gids st) (st_waygates st) \<and>
     table_ok or_ID same_restriction restriction_ok (gids st) (st_restrictions st) \<and>
     table_ok pa_ID same_assignment assignment_ok (pids st, gids st) (st_assignments st) \<and>
     table_ok se_ID same_token session_ok (uids st, pids st) (st_sessions st)"

lemma id_sets_update [simp]:
  "gids (st_ip_rules_update f1 st) = gids st" "gids (st_basic_users_update f2 st) = gids st"
  "gids (st_providers_update f3 st) = gids st" "gids (st_waygates_update f4 st) = gids st"
  "gids (st_restrictions_update f5 st) = gids st" "gids (st_assignments_update f6 st) = gids st"
  "gids (st_sessions_update f7 st) = gids st" "gids (st_branding_update f8 st) = gids st"
  by (simp_all add: gids_def)

lemma pids_update [simp]:
  "pids (st_groups_update f0 st) = pids st" "pids (st_ip_rules_update f1 st) = pids st"
  "pids (st_basic_users_update f2 st) = pids st" "pids (st_providers_update f3 st) = pids st"
  "pids (st_waygates_update f4 st) = pids st" "pids (st_restrictions_update f5 st) = pids st"
  "pids (st_assignments_update f6 st) = pids st" "pids (st_sessions_update f7 st) = pids st"
  "pids (st_branding_update f8 st) = pids st"
  by (simp_all add: pids_def)

lemma uids_update [simp]:
  "uids (st_groups_update f0 st) = uids st" "uids (st_ip_rules_update f1 st) = uids st"
  "uids (st_basic_users_update f2 st) = uids st" "uids (st_providers_update f3 st) = uids st"
  "uids (st_waygates_update f4 st) = uids st" "uids (st_restrictions_update f5 st) = uids st"
  "uids (st_assignments_update f6 st) = uids st" "uids (st_sessions_update f7 st) = uids st"
  "uids (st_branding_update f8 st) = uids st"
  by (simp_all add: uids_def)

lemma exists_iff [simp]:
  "group_exists st i \<longleftrightarrow> i \<in> gids st" "proxy_exists st i \<longleftrightarrow> i \<in> pids st" "user_exists st i \<longleftrightarrow> i \<in> uids st"
  by (auto simp: group_exists_def proxy_exists_def user_exists_def gids_def pids_def uids_def list_ex_iff)

lemma store_ok_empty: "store_ok empty_store"
  by (simp add: store_ok_def empty_store_def groups_ct.ok_empty rules_ct.ok_empty basic_ct.ok_empty
      providers_ct.ok_empty waygates_ct.ok_empty restrictions_ct.ok_empty assignments_ct.ok_empty
      sessions_ct.ok_empty)

lemma store_ok_branding [simp]: "store_ok (st_branding_update f st) = store_ok st"
  by (simp add: store_ok_def)

text \<open>The invariant read row by row.\<close>

lemma store_ok_rows:
  assumes "store_ok st"
  shows "g \<in> set (tb_rows (st_groups st)) \<Longrightarrow> group_ok (uids st) g"
    and "r \<in> set (tb_rows (st_ip_rules st)) \<Longrightarrow> rule_ok (gids st) r"
    and "a \<in> set (tb_rows (st_assignments st)) \<Longrightarrow> assignment_ok (pids st, gids st) a"
    and "s \<in> set (tb_rows (st_sessions st)) \<Longrightarrow> session_ok (uids st, pids st) s"
  using assms unfolding store_ok_def by (blast dest: table_ok_row)+

section \<open>Repository writes\<close>

lemma CreateIPRule_repo_ok:
  "store_ok st \<Longrightarrow> rule_ok (gids st) r \<Longrightarrow> store_ok (fst (CreateIPRule_repo flt r st))"
  by (simp add: CreateIPRule_repo_def store_ok_def rules_ct.ok_Create no_clash_def)

lemma UpdateIPRule_repo_ok:
  "store_ok st \<Longrightarrow> rule_ok (gids st) r \<Longrightarrow> \<exists>x \<in> set (tb_rows (st_ip_rules st)). ir_ID x = ir_ID r \<Longrightarrow>
   store_ok (fst (UpdateIPRule_repo flt r st))"
  by (auto simp: UpdateIPRule_repo_def store_ok_def no_clash_def intro!: rules_ct.ok_Save)

lemma DeleteIPRule_repo_ok: "store_ok st \<Longrightarrow> store_ok (fst (DeleteIPRule_repo flt rid st))"
  by (simp add: DeleteIPRule_repo_def store_ok_def rules_ct.ok_Delete_same)

lemma CreateBasicAuthUser_repo_ok:
  "store_ok st \<Longrightarrow> basic_ok (gids st) u \<Longrightarrow> store_ok (fst (CreateBasicAuthUser_repo flt u st))"
  by (auto simp: CreateBasicAuthUser_repo_def store_ok_def same_basic_def list_ex_iff
      intro!: basic_ct.ok_Create)

lemma UpdateBasicAuthUser_repo_ok:
  "store_ok st \<Longrightarrow> basic_ok (gids st) u \<Longrightarrow> \<exists>x \<in> set (tb_rows (st_basic_users st)). bu_ID x = bu_ID u \<Longrightarrow>
   store_ok (fst (UpdateBasicAuthUser_repo flt u st))"
  by (auto simp: UpdateBasicAuthUser_repo_def store_ok_def same_basic_def list_ex_iff
      intro!: basic_ct.ok_Save)

lemma DeleteBasicAuthUser_repo_ok: "store_ok st \<Longrightarrow> store_ok (fst (DeleteBasicAuthUser_repo flt rid st))"
  by (simp add: DeleteBasicAuthUser_repo_def store_ok_def basic_ct.ok_Delete_same)

lemma CreateExternalProvider_repo_ok:
  "store_ok st \<Longrightarrow> provider_ok (gids st) p \<Longrightarrow> store_ok (fst (CreateExternalProvider_repo flt p st))"
  by (simp add: CreateExternalProvider_repo_def store_ok_def providers_ct.ok_Create no_clash_def)

lemma UpdateExternalProvider_repo_ok:
  "store_ok st \<Longrightarrow> provider_ok (gids st) p \<Longrightarrow> \<exists>x \<in> set (tb_rows (st_providers st)). ep_ID x = ep_ID p \<Longrightarrow>
   store_ok (fst (UpdateExternalProvider_repo flt p st))"
  by (auto simp: UpdateExternalProvider_repo_def store_ok_def no_clash_def intro!: providers_ct.ok_Save)

lemma DeleteExternalProvider_repo_ok:
  "store_ok st \<Longrightarrow> store_ok (fst (DeleteExternalProvider_repo flt rid st))"
  by (simp add: DeleteExternalProvider_repo_def store_ok_def providers_ct.ok_Delete_same)

lemma CreateWaygatesAuth_repo_ok:
  "store_ok st \<Longrightarrow> store_ok (fst (CreateWaygatesAuth_repo flt w st))"
  by (auto simp: CreateWaygatesAuth_repo_def store_ok_def same_waygates_def waygates_ok_def
      waygates_defaults_def list_ex_iff intro!: waygates_ct.ok_Create)

lemma UpdateWaygatesAuth_repo_ok:
  "store_ok st \<Longrightarrow> waygates_ok (gids st) w \<Longrightarrow> \<exists>x \<in> set (tb_rows (st_waygates st)). wa_ID x = wa_ID w \<Longrightarrow>
   store_ok (fst (UpdateWaygatesAuth_repo flt w st))"
  by (auto simp: UpdateWaygatesAuth_repo_def store_ok_def same_waygates_def list_ex_iff
      intro!: waygates_ct.ok_Save)

lemma CreateOAuthProviderRestriction_repo_ok:
  "store_ok st \<Longrightarrow> or_Provider r \<noteq> [] \<Longrightarrow>
   store_ok (fst (CreateOAuthProviderRestriction_repo flt r st))"
  by (auto simp: CreateOAuthProviderRestriction_repo_def store_ok_def same_restriction_def
      restriction_ok_def restriction_defaults_def list_ex_iff intro!: restrictions_ct.ok_Create)

lemma UpdateOAuthProviderRestriction_repo_ok:
  "store_ok st \<Longrightarrow> restriction_ok (gids st) r \<Longrightarrow>
   \<exists>x \<in> set (tb_rows (st_restrictions st)). or_ID x = or_ID r \<Longrightarrow>
   store_ok (fst (UpdateOAuthProviderRestriction_repo flt r st))"
  by (auto simp: UpdateOAuthProviderRestriction_repo_def store_ok_def same_restriction_def list_ex_iff
      intro!: restrictions_ct.ok_Save)

lemma DeleteOAuthProviderRestriction_repo_ok:
  "store_ok st \<Longrightarrow> store_ok (fst (DeleteOAuthProviderRestriction_repo flt gid p st))"
  by (simp add: DeleteOAuthProviderRestriction_repo_def store_ok_def restrictions_ct.ok_Delete_same)

lemma CreateProxyACLAssignment_repo_ok:
  "store_ok st \<Longrightarrow> pa_PathPattern a \<noteq> [] \<Longrightarrow> validatePathPattern (pa_PathPattern a) = None \<Longrightarrow>
   store_ok (fst (CreateProxyACLAssignment_repo flt a st))"
  by (auto simp: CreateProxyACLAssignment_repo_def store_ok_def same_assignment_def assignment_ok_def
      assignment_defaults_def str_default_def list_ex_iff intro!: assignments_ct.ok_Create)

lemma UpdateProxyACLAssignment_repo_ok:
  "store_ok st \<Longrightarrow> assignment_ok (pids st, gids st) a \<Longrightarrow>
   \<exists>x \<in> set (tb_rows (st_assignments st)). pa_ID x = pa_ID a \<Longrightarrow>
   store_ok (fst (UpdateProxyACLAssignment_repo flt a st))"
  by (auto simp: UpdateProxyACLAssignment_repo_def store_ok_def same_assignment_def list_ex_iff
      intro!: assignments_ct.ok_Save)

lemma DeleteProxyACLAssignmentByProxyAndGroup_ok:
  "store_ok st \<Longrightarrow> store_ok (fst (DeleteProxyACLAssignmentByProxyAndGroup flt p g st))"
  by (simp add: DeleteProxyACLAssignmentByProxyAndGroup_def store_ok_def assignments_ct.ok_Delete_same)

lemma CreateSession_repo_ok: "store_ok st \<Longrightarrow> store_ok (fst (CreateSession_repo flt s st))"
  by (auto simp: CreateSession_repo_def store_ok_def same_token_def session_ok_def list_ex_iff
      intro!: sessions_ct.ok_Create split: option.splits)

lemma delete_sessions_ok:
  "store_ok st \<Longrightarrow> store_ok (st\<lparr>st_sessions := tb_Delete P (st_sessions st)\<rparr>)"
  by (simp add: store_ok_def sessions_ct.ok_Delete_same)

lemma group_row_simps [simp]:
  "gr_ID (group_row g) = gr_ID g" "gr_Name (group_row g) = gr_Name g"
  "gr_CreatedBy (group_row g) = gr_CreatedBy g" "group_row (group_row g) = group_row g"
  by (simp_all add: group_row_def)

lemma gids_Create:
  "gids (st\<lparr>st_groups := tb_Create set_gr_ID g (st_groups st)\<rparr>) = insert (tb_next (st_groups st)) (gids st)"
  by (simp add: gids_def groups_tb.key_set_key)

lemma gids_Save:
  "gr_ID g \<in> gids st \<Longrightarrow> gids (st\<lparr>st_groups := tb_Save gr_ID g (st_groups st)\<rparr>) = gids st"
  by (auto simp: gids_def tb_Save_def list_ex_iff image_iff)

lemma gids_Delete:
  "gids (st\<lparr>st_groups := tb_Delete (\<lambda>g. gr_ID g = rid) (st_groups st)\<rparr>) = gids st - {rid}"
  by (auto simp: gids_def)

text \<open>A larger set of groups keeps every child table in order.\<close>

lemma store_ok_more_groups:
  assumes st: "store_ok st" and G: "gids st \<subseteq> gids (st\<lparr>st_groups := t\<rparr>)"
    and t: "table_ok gr_ID same_name group_ok (uids st) t"
  shows "store_ok (st\<lparr>st_groups := t\<rparr>)"
proof -
  let ?G = "gids (st\<lparr>st_groups := t\<rparr>)"
  note tabs = st[unfolded store_ok_def]
  have "table_ok ir_ID no_clash rule_ok ?G (st_ip_rules st)"
    using tabs G by (auto intro!: rules_ct.ok_mono[of "gids st"] simp: rule_ok_def)
  moreover have "table_ok bu_ID same_basic basic_ok ?G (st_basic_users st)"
    using tabs G by (auto intro!: basic_ct.ok_mono[of "gids st"] simp: basic_ok_def)
  moreover have "table_ok ep_ID no_clash provider_ok ?G (st_providers st)"
    using tabs G by (auto intro!: providers_ct.ok_mono[of "gids st"] simp: provider_ok_def)
  moreover have "table_ok wa_ID same_waygates waygates_ok ?G (st_waygates st)"
    using tabs G by (auto intro!: waygates_ct.ok_mono[of "gids st"] simp: waygates_ok_def)
  moreover have "table_ok or_ID same_restriction restriction_ok ?G (st_restrictions st)"
    using tabs G by (auto intro!: restrictions_ct.ok_mono[of "gids st"] simp: restriction_ok_def)
  moreover have "table_ok pa_ID same_assignment assignment_ok (pids st, ?G) (st_assignments st)"
    using tabs G by (auto intro!: assignments_ct.ok_mono[of "(pids st, gids st)"] simp: assignment_ok_def)
  ultimately show ?thesis using tabs t by (simp add: store_ok_def)
qed

lemma CreateGroup_repo_ok:
  assumes st: "store_ok st" and v: "ACLGroup_Validate g = None"
  shows "store_ok (fst (CreateGroup_repo flt g st))"
proof -
  have def_mode: "group_defaults g = g" using v
    by (auto simp: ACLGroup_Validate_None group_defaults_def str_default_def)
  show ?thesis
  proof (cases "snd (CreateGroup_repo flt g st)")
    case None
    then have fresh: "\<forall>x \<in> set (tb_rows (st_groups st)). gr_Name x \<noteq> gr_Name g"
      and u: "gr_CreatedBy g \<in> uids st"
      and res: "fst (CreateGroup_repo flt g st) =
        st\<lparr>st_groups := tb_Create set_gr_ID (group_row g) (st_groups st)\<rparr>"
      by (auto simp: CreateGroup_repo_def def_mode list_ex_iff split: if_splits)
    have "table_ok gr_ID same_name group_ok (uids st) (tb_Create set_gr_ID (group_row g) (st_groups st))"
      using st u v fresh
      by (intro groups_ct.ok_Create) (auto simp: store_ok_def group_ok_def same_name_def)
    then show ?thesis unfolding res
      using st by (intro store_ok_more_groups) (auto simp: gids_Create)
  qed (auto simp: CreateGroup_repo_def st split: if_splits)
qed

lemma UpdateGroup_repo_ok:
  assumes st: "store_ok st" and v: "ACLGroup_Validate g = None"
    and ex: "gr_ID g \<in> gids st" and u: "gr_CreatedBy g \<in> uids st"
  shows "store_ok (fst (UpdateGroup_repo flt g st))"
proof (cases "snd (UpdateGroup_repo flt g st)")
  case None
  then have fresh: "\<forall>x \<in> set (tb_rows (st_groups st)). gr_Name x = gr_Name g \<longrightarrow> gr_ID x = gr_ID g"
    and res: "fst (UpdateGroup_repo flt g st) =
      st\<lparr>st_groups := tb_Save gr_ID (group_row g) (st_groups st)\<rparr>"
    by (auto simp: UpdateGroup_repo_def list_ex_iff split: if_splits)
  have "table_ok gr_ID same_name group_ok (uids st) (tb_Save gr_ID (group_row g) (st_groups st))"
    using st u v fresh ex
    by (intro groups_ct.ok_Save) (auto simp: store_ok_def group_ok_def same_name_def gids_def image_iff)
  then show ?thesis unfolding res
    using st ex by (intro store_ok_more_groups) (auto simp: gids_Save)
qed (auto simp: UpdateGroup_repo_def st split: if_splits)

lemma delete_group_rows_ok:
  assumes st: "store_ok st"
  shows "store_ok (delete_group_rows rid st)"
proof -
  note tabs = st[unfolded store_ok_def]
  let ?G = "gids st - {rid}"
  have g: "gids (delete_group_rows rid st) = ?G"
    by (auto simp: gids_def delete_group_rows_def)
  have "table_ok ir_ID no_clash rule_ok ?G (tb_Delete (\<lambda>r. ir_ACLGroupID r = rid) (st_ip_rules st))"
    using tabs by (auto intro!: rules_ct.ok_Delete simp: rule_ok_def)
  moreover have "table_ok bu_ID same_basic basic_ok ?G
      (tb_Delete (\<lambda>r. bu_ACLGroupID r = rid) (st_basic_users st))"
    using tabs by (auto intro!: basic_ct.ok_Delete simp: basic_ok_def)
  moreover have "table_ok ep_ID no_clash provider_ok ?G
      (tb_Delete (\<lambda>r. ep_ACLGroupID r = rid) (st_providers st))"
    using tabs by (auto intro!: providers_ct.ok_Delete simp: provider_ok_def)
  moreover have "table_ok wa_ID same_waygates waygates_ok ?G
      (tb_Delete (\<lambda>r. wa_ACLGroupID r = rid) (st_waygates st))"
    using tabs by (auto intro!: waygates_ct.ok_Delete simp: waygates_ok_def)
  moreover have "table_ok or_ID same_restriction restriction_ok ?G
      (tb_Delete (\<lambda>r. or_ACLGroupID r = rid) (st_restrictions st))"
    using tabs by (auto intro!: restrictions_ct.ok_Delete simp: restriction_ok_def)
  moreover have "table_ok pa_ID same_assignment assignment_ok (pids st, ?G)
      (tb_Delete (\<lambda>a. pa_ACLGroupID a = rid) (st_assignments st))"
    using tabs by (auto intro!: assignments_ct.ok_Delete simp: assignment_ok_def)
  moreover have "table_ok gr_ID same_name group_ok (uids st)
      (tb_Delete (\<lambda>g. gr_ID g = rid) (st_groups st))"
    using tabs by (auto intro!: groups_ct.ok_Delete_same)
  ultimately show ?thesis
    unfolding store_ok_def g using tabs by (simp add: delete_group_rows_def)
qed

section \<open>Service operations\<close>

lemma found_or_Inr [simp]: "found_or m c r = Inr x \<longleftrightarrow> r = Inr x"
  by (auto simp: found_or_def split: sum.splits db_error.splits)

lemma optional_row_Inr [simp]: "optional_row c r = Inr (Some x) \<longleftrightarrow> r = Inr x"
  by (auto simp: optional_row_def split: sum.splits db_error.splits)

lemma fst_wrap_write [simp]: "fst (wrap_write c w) = fst w"
  by (simp add: wrap_write_def)

lemma snd_wrap_write: "snd (wrap_write c w) = map_option (Wrapped c) (snd w)"
  by (simp add: wrap_write_def)

lemma read_first_Inr: "read_first f P t = Inr r \<Longrightarrow> r \<in> set (tb_rows t) \<and> P r"
  by (auto simp: read_first_def dest: tb_First_Some split: if_splits option.splits)

lemma map_sum_Inr: "map_sum (\<lambda>e. e) f r = Inr x \<longleftrightarrow> (\<exists>y. r = Inr y \<and> x = f y)"
  by (cases r) auto

lemma get_group_row:
  assumes "get_group flt i st = Inr g"
  shows "\<exists>r \<in> set (tb_rows (st_groups st)). gr_ID r = i \<and> g = preload_group st r"
  using assms by (auto simp: get_group_def GetGroupByID_def map_sum_Inr dest!: read_first_Inr)

lemma get_group_gids: "get_group flt i st = Inr g \<Longrightarrow> i \<in> gids st"
  by (auto simp: gids_def dest!: get_group_row)

lemma preload_group_simps [simp]:
  "gr_ID (preload_group st g) = gr_ID g" "gr_Name (preload_group st g) = gr_Name g"
  "gr_CombinationMode (preload_group st g) = gr_CombinationMode g"
  "gr_CreatedBy (preload_group st g) = gr_CreatedBy g"
  by (simp_all add: preload_group_def)

lemma CreateGroup_ok: "store_ok st \<Longrightarrow> store_ok (fst (CreateGroup flt g by st))"
proof -
  assume st: "store_ok st"
  have "ACLGroup_Validate g = None \<Longrightarrow> gr_CombinationMode g \<noteq> [] \<and>
      ACLGroup_Validate (g\<lparr>gr_CreatedBy := by\<rparr>) = None"
    by (auto simp: ACLGroup_Validate_None)
  with st show ?thesis
    by (auto simp: CreateGroup_def Let_def intro!: CreateGroup_repo_ok split: option.splits sum.splits)
qed

lemma UpdateGroup_ok:
  assumes st: "store_ok st"
  shows "store_ok (fst (UpdateGroup flt rid upd st))"
proof (cases "get_group flt rid st")
  case (Inr g)
  from get_group_row[OF Inr] obtain r where r: "r \<in> set (tb_rows (st_groups st))"
    "gr_ID r = rid" "g = preload_group st r" by blast
  from store_ok_rows(1)[OF st r(1)] r(1) have "gr_CreatedBy r \<in> uids st" "gr_ID r \<in> gids st"
    by (auto simp: gids_def group_ok_def)
  then show ?thesis
    using st r by (auto simp: UpdateGroup_def Inr Let_def intro!: UpdateGroup_repo_ok
        split: option.split sum.split)
qed (simp add: UpdateGroup_def st)

lemma DeleteGroup_ok: "store_ok st \<Longrightarrow> store_ok (fst (DeleteGroup flt rid st))"
  by (simp add: DeleteGroup_def DeleteGroup_repo_def delete_group_rows_ok split: sum.split)

lemma DeleteGroupWithSync_ok: "store_ok st \<Longrightarrow> store_ok (fst (DeleteGroupWithSync flt s rid st))"
  by (simp add: DeleteGroupWithSync_def DeleteGroupWithTx_def delete_group_rows_ok Let_def split: sum.split)

lemma AddIPRule_ok: "store_ok st \<Longrightarrow> store_ok (fst (AddIPRule flt gid r st))"
  by (auto simp: AddIPRule_def rule_ok_def ACLIPRule_Validate_def dest: get_group_gids
      intro!: CreateIPRule_repo_ok split: sum.split option.split if_splits)

text \<open>What the invariant says of a row that a read returned.\<close>

lemma GetIPRuleByID_row:
  "store_ok st \<Longrightarrow> GetIPRuleByID flt rid st = Inr r \<Longrightarrow>
   r \<in> set (tb_rows (st_ip_rules st)) \<and> ir_ID r = rid \<and> rule_ok (gids st) r"
  by (auto simp: GetIPRuleByID_def store_ok_def dest!: read_first_Inr dest: table_ok_row)

lemma GetBasicAuthUserByID_row:
  "store_ok st \<Longrightarrow> GetBasicAuthUserByID flt rid st = Inr r \<Longrightarrow>
   r \<in> set (tb_rows (st_basic_users st)) \<and> bu_ID r = rid \<and> basic_ok (gids st) r"
  by (auto simp: GetBasicAuthUserByID_def store_ok_def dest!: read_first_Inr dest: table_ok_row)

lemma GetExternalProviderByID_row:
  "store_ok st \<Longrightarrow> GetExternalProviderByID flt rid st = Inr r \<Longrightarrow>
   r \<in> set (tb_rows (st_providers st)) \<and> ep_ID r = rid \<and> provider_ok (gids st) r"
  by (auto simp: GetExternalProviderByID_def store_ok_def dest!: read_first_Inr dest: table_ok_row)

lemma GetWaygatesAuth_row:
  "store_ok st \<Longrightarrow> GetWaygatesAuth flt gid st = Inr r \<Longrightarrow>
   r \<in> set (tb_rows (st_waygates st)) \<and> wa_ACLGroupID r = gid \<and> waygates_ok (gids st) r"
  by (auto simp: GetWaygatesAuth_def store_ok_def dest!: read_first_Inr dest: table_ok_row)

lemma GetOAuthProviderRestriction_row:
  "store_ok st \<Longrightarrow> GetOAuthProviderRestriction flt gid p st = Inr r \<Longrightarrow>
   r \<in> set (tb_rows (st_restrictions st)) \<and> or_ACLGroupID r = gid \<and> or_Provider r = p \<and>
   restriction_ok (gids st) r"
  by (auto simp: GetOAuthProviderRestriction_def store_ok_def dest!: read_first_Inr dest: table_ok_row)

lemma GetProxyACLAssignmentByID_row:
  "store_ok st \<Longrightarrow> GetProxyACLAssignmentByID flt rid st = Inr r \<Longrightarrow>
   r \<in> set (tb_rows (st_assignments st)) \<and> pa_ID r = rid \<and> assignment_ok (pids st, gids st) r"
  by (auto simp: GetProxyACLAssignmentByID_def store_ok_def dest!: read_first_Inr dest: table_ok_row)

lemma UpdateIPRule_ok:
  assumes st: "store_ok st"
  shows "store_ok (fst (UpdateIPRule flt rid r st))"
proof (cases "GetIPRuleByID flt rid st")
  case (Inl e)
  with st show ?thesis by (cases e) (simp_all add: UpdateIPRule_def found_or_def)
next
  case (Inr x)
  from GetIPRuleByID_row[OF st Inr] have x: "x \<in> set (tb_rows (st_ip_rules st))"
    "ir_ACLGroupID x \<in> gids st" "validateCIDR (ir_CIDR x) = None"
    by (auto simp: rule_ok_def)
  have f: "found_or m c (GetIPRuleByID flt rid st) = Inr x" for m c using Inr by simp
  show ?thesis
    using st x unfolding UpdateIPRule_def f
    by (auto simp: Let_def rule_ok_def intro!: UpdateIPRule_repo_ok split: option.split)
qed

lemma DeleteIPRule_ok: "store_ok st \<Longrightarrow> store_ok (fst (DeleteIPRule flt rid st))"
  by (simp add: DeleteIPRule_def DeleteIPRule_repo_ok split: sum.split)

lemma AddBasicAuthUser_ok: "store_ok st \<Longrightarrow> store_ok (fst (AddBasicAuthUser gen flt gid u p st))"
  by (auto simp: AddBasicAuthUser_def ACLBasicAuthUser_SetPassword_def basic_ok_def
      dest: get_group_gids intro!: CreateBasicAuthUser_repo_ok split: sum.split option.split)

lemma UpdateBasicAuthPassword_ok:
  assumes st: "store_ok st"
  shows "store_ok (fst (UpdateBasicAuthPassword gen flt rid p st))"
proof (cases "found_or ErrBasicAuthUserNotFound ''getting basic auth user'' (GetBasicAuthUserByID flt rid st)")
  case (Inr x)
  then have "GetBasicAuthUserByID flt rid st = Inr x" by simp
  from GetBasicAuthUserByID_row[OF st this] show ?thesis
    using st unfolding UpdateBasicAuthPassword_def Inr
    by (auto simp: ACLBasicAuthUser_SetPassword_def basic_ok_def
        intro!: UpdateBasicAuthUser_repo_ok split: option.split)
qed (simp add: UpdateBasicAuthPassword_def st)

lemma DeleteBasicAuthUser_ok: "store_ok st \<Longrightarrow> store_ok (fst (DeleteBasicAuthUser flt rid st))"
  by (simp add: DeleteBasicAuthUser_def DeleteBasicAuthUser_repo_ok split: sum.split)

lemma AddExternalProvider_ok: "store_ok st \<Longrightarrow> store_ok (fst (AddExternalProvider flt gid p st))"
  by (auto simp: AddExternalProvider_def provider_ok_def ACLExternalProvider_Validate_def
      dest: get_group_gids intro!: CreateExternalProvider_repo_ok
      split: sum.split option.split if_splits)

lemma UpdateExternalProvider_ok:
  assumes st: "store_ok st"
  shows "store_ok (fst (UpdateExternalProvider flt rid p st))"
proof (cases "found_or ErrExternalProviderNotFound ''getting external provider''
    (GetExternalProviderByID flt rid st)")
  case (Inr x)
  then have "GetExternalProviderByID flt rid st = Inr x" by simp
  from GetExternalProviderByID_row[OF st this] show ?thesis
    using st unfolding UpdateExternalProvider_def Inr
    by (auto simp: Let_def provider_ok_def intro!: UpdateExternalProvider_repo_ok split: option.split)
qed (simp add: UpdateExternalProvider_def st)

lemma DeleteExternalProvider_ok: "store_ok st \<Longrightarrow> store_ok (fst (DeleteExternalProvider flt rid st))"
  by (simp add: DeleteExternalProvider_def DeleteExternalProvider_repo_ok split: sum.split)

lemma ConfigureWaygatesAuth_ok:
  assumes st: "store_ok st"
  shows "store_ok (fst (ConfigureWaygatesAuth flt gid c st))"
proof (cases "get_group flt gid st")
  case (Inr g)
  then have gid: "gid \<in> gids st" by (rule get_group_gids)
  show ?thesis
  proof (cases "optional_row ''checking waygates auth'' (GetWaygatesAuth flt gid st)")
    case ex: (Inr ex)
    show ?thesis
    proof (cases ex)
      case None
      with st show ?thesis
        by (simp add: ConfigureWaygatesAuth_def Inr ex Let_def CreateWaygatesAuth_repo_ok)
    next
      case (Some x)
      with ex have "GetWaygatesAuth flt gid st = Inr x" by simp
      from GetWaygatesAuth_row[OF st this] show ?thesis
        using st gid unfolding ConfigureWaygatesAuth_def Inr ex Some
        by (auto simp: Let_def waygates_ok_def intro!: UpdateWaygatesAuth_repo_ok)
    qed
  qed (simp add: ConfigureWaygatesAuth_def Inr st)
qed (simp add: ConfigureWaygatesAuth_def st)

lemma SetOAuthProviderRestriction_ok:
  assumes st: "store_ok st"
  shows "store_ok (fst (SetOAuthProviderRestriction flt gid p es ds en st))"
proof (cases "get_group flt gid st")
  case (Inr g)
  show ?thesis
  proof (cases "optional_row ''checking OAuth provider restriction'' (GetOAuthProviderRestriction flt gid p st)")
    case ex: (Inr ex)
    show ?thesis
    proof (cases ex)
      case None
      with st show ?thesis
        by (simp add: SetOAuthProviderRestriction_def Inr ex CreateOAuthProviderRestriction_repo_ok)
    next
      case (Some x)
      with ex have "GetOAuthProviderRestriction flt gid p st = Inr x" by simp
      from GetOAuthProviderRestriction_row[OF st this] show ?thesis
        using st unfolding SetOAuthProviderRestriction_def Inr ex Some
        by (auto simp: restriction_ok_def intro!: UpdateOAuthProviderRestriction_repo_ok)
    qed
  qed (simp add: SetOAuthProviderRestriction_def Inr st)
qed (simp add: SetOAuthProviderRestriction_def st)

lemma DeleteOAuthProviderRestriction_ok:
  "store_ok st \<Longrightarrow> store_ok (fst (DeleteOAuthProviderRestriction flt gid p st))"
  by (simp add: DeleteOAuthProviderRestriction_def DeleteOAuthProviderRestriction_repo_ok split: sum.split)

lemma validatePathPattern_default: "validatePathPattern ''/*'' = None"
  by code_simp

lemma validatePathPattern_Nil [simp]: "validatePathPattern [] = None"
  by (simp add: validatePathPattern_def)

lemma AssignToProxy_ok:
  assumes st: "store_ok st"
  shows "store_ok (fst (AssignToProxy flt pid gid pat prio st))"
proof -
  let ?a = "\<lparr>pa_ID = 0, pa_ProxyID = pid, pa_ACLGroupID = gid,
    pa_PathPattern = (if pat = [] then ''/*'' else pat), pa_Priority = prio, pa_Enabled = True,
    pa_ACLGroup = None\<rparr>"
  have c: "fst (case w of (st', Some DuplicateKey) \<Rightarrow> (st', Some ErrProxyACLExists)
      | (st', Some e) \<Rightarrow> (st', Some (f e)) | (st', None) \<Rightarrow> (st', None)) = fst w" for w :: write_result and f
    by (simp split: prod.split option.split db_error.split)
  have "store_ok (fst (CreateProxyACLAssignment_repo flt ?a st))" if "validatePathPattern pat = None"
    using st that validatePathPattern_default by (intro CreateProxyACLAssignment_repo_ok) auto
  moreover have "fst (AssignToProxy flt pid gid pat prio st) = st \<or>
      validatePathPattern pat = None \<and>
      fst (AssignToProxy flt pid gid pat prio st) = fst (CreateProxyACLAssignment_repo flt ?a st)"
    by (cases "found_or ErrProxyNotFound ''getting proxy'' (Proxy_GetByID flt pid st)";
        cases "get_group flt gid st"; cases "validatePathPattern pat")
       (simp_all add: AssignToProxy_def Let_def c del: found_or_Inr)
  ultimately show ?thesis using st by metis
qed

lemma UpdateProxyAssignment_ok:
  assumes st: "store_ok st"
  shows "store_ok (fst (UpdateProxyAssignment flt rid pat prio en st))"
proof (cases "found_or ErrProxyACLNotFound ''getting proxy ACL assignment''
    (GetProxyACLAssignmentByID flt rid st)")
  case (Inr x)
  then have "GetProxyACLAssignmentByID flt rid st = Inr x" by simp
  from GetProxyACLAssignmentByID_row[OF st this] show ?thesis
    using st unfolding UpdateProxyAssignment_def Inr
    by (auto simp: assignment_ok_def intro!: UpdateProxyACLAssignment_repo_ok split: option.split)
qed (auto simp: UpdateProxyAssignment_def st split: option.split)

lemma RemoveFromProxy_ok: "store_ok st \<Longrightarrow> store_ok (fst (RemoveFromProxy flt pid gid st))"
  by (simp add: RemoveFromProxy_def DeleteProxyACLAssignmentByProxyAndGroup_ok)

lemma GetBranding_ok: "store_ok st \<Longrightarrow> store_ok (fst (GetBranding flt st))"
  by (simp add: GetBranding_def GetBranding_repo_def split: option.split)

lemma UpdateBranding_ok: "store_ok st \<Longrightarrow> store_ok (fst (UpdateBranding flt b st))"
  by (simp add: UpdateBranding_def UpdateBranding_repo_def)

lemma CreateSessionWithParams_ok:
  assumes "store_ok st"
  shows "store_ok (fst (CreateSessionWithParams rnd flt now ps st))"
proof -
  have c: "fst (case CreateSession_repo flt s st of (st', Some e) \<Rightarrow> (st', f e) | (st', None) \<Rightarrow> (st', y))
      = fst (CreateSession_repo flt s st)" for s y and f :: "db_error \<Rightarrow> (acl_error, ACLSession) result"
    by (simp split: prod.split option.split)
  show ?thesis
    using assms CreateSession_repo_ok[OF assms]
    by (simp add: CreateSessionWithParams_def Let_def c split: option.split)
qed

lemma ValidateSession_ok: "store_ok st \<Longrightarrow> store_ok (fst (ValidateSession flt now tok st))"
  by (simp add: ValidateSession_def DeleteSession_repo_def delete_sessions_ok split: sum.split)

lemma revoke_ok:
  "store_ok st \<Longrightarrow> store_ok (fst (RevokeSession flt tok st))"
  "store_ok st \<Longrightarrow> store_ok (fst (RevokeUserSessions flt uid st))"
  "store_ok st \<Longrightarrow> store_ok (fst (CleanupExpiredSessions flt now st))"
  by (simp_all add: RevokeSession_def RevokeUserSessions_def CleanupExpiredSessions_def
      DeleteSession_repo_def DeleteUserSessions_repo_def DeleteExpiredSessions_repo_def delete_sessions_ok)

end
