(* ===== verification/Proxy_Service.thy ===== *)
theory Proxy_Service
  imports Acl_Invariant
begin

text \<open>
  HTTP proxies: the queries of \<open>backend/internal/repository/proxy_repository.go\<close>, the service of
  \<open>backend/internal/service/proxy_service.go\<close>, and the bulk and import operations of
  \<open>proxy_bulk.go\<close> and \<open>proxy_import.go\<close>. The service holds a \<open>ProxySyncer\<close>, an interface in the
  code and a record of functions here: each call sees the database and changes the Caddy side,
  whose type is a parameter. Deleting a proxy removes its assignments and sessions through the
  cascading foreign keys of the migrations.
\<close>

section \<open>Repository\<close>

definition set_px_ID :: "int \<Rightarrow> Proxy \<Rightarrow> Proxy" where "set_px_ID i r = r\<lparr>px_ID := i\<rparr>"

interpretation proxies_tb: row_table px_ID set_px_ID
  by unfold_locales (simp add: set_px_ID_def)

definition HostnameExists :: "bool \<Rightarrow> string \<Rightarrow> int \<Rightarrow> acl_store \<Rightarrow> (db_error, bool) result" where
  "HostnameExists fault hostname excludeID st =
     (if fault then Err DBFault
      else Ok (length (filter (\<lambda>p. px_Hostname p = hostname \<and> (excludeID > 0 \<longrightarrow> px_ID p \<noteq> excludeID))
                 (tb_rows (st_proxies st))) > 0))"

text \<open>The set of the given host names that exist, as a list.\<close>

definition ExistingHostnames :: "bool \<Rightarrow> string list \<Rightarrow> acl_store \<Rightarrow> (db_error, string list) result" where
  "ExistingHostnames fault hostnames st =
     (if hostnames = [] then Ok []
      else if fault then Err DBFault
      else Ok (map px_Hostname (filter (\<lambda>p. px_Hostname p \<in> set hostnames) (tb_rows (st_proxies st)))))"

definition GetByIDs :: "bool \<Rightarrow> int list \<Rightarrow> acl_store \<Rightarrow> (db_error, Proxy list) result" where
  "GetByIDs fault ids st =
     (if ids = [] then Ok []
      else if fault then Err DBFault
      else Ok (filter (\<lambda>p. px_ID p \<in> set ids) (tb_rows (st_proxies st))))"

text \<open>\<open>SSLForced\<close> keeps its \<open>default:true\<close> tag, so a created row always has it set.\<close>

definition proxy_defaults :: "Proxy \<Rightarrow> Proxy" where
  "proxy_defaults p = p\<lparr>px_SSLForced := True\<rparr>"

definition Proxy_Create_repo :: "bool \<Rightarrow> Proxy \<Rightarrow> acl_store \<Rightarrow> write_result" where
  "Proxy_Create_repo fault p st =
     (if fault then (st, Some DBFault)
      else if list_ex (\<lambda>x. px_Hostname x = px_Hostname p) (tb_rows (st_proxies st))
        then (st, Some DuplicateKey)
      else if \<not> user_exists st (px_CreatedBy p) then (st, Some ForeignKey)
      else (st\<lparr>st_proxies := tb_Create set_px_ID (proxy_defaults p) (st_proxies st)\<rparr>, None))"

definition Proxy_Update_repo :: "bool \<Rightarrow> Proxy \<Rightarrow> acl_store \<Rightarrow> write_result" where
  "Proxy_Update_repo fault p st =
     (if fault then (st, Some DBFault)
      else if list_ex (\<lambda>x. px_Hostname x = px_Hostname p \<and> px_ID x \<noteq> px_ID p) (tb_rows (st_proxies st))
        then (st, Some DuplicateKey)
      else (st\<lparr>st_proxies := tb_Save px_ID p (st_proxies st)\<rparr>, None))"

definition delete_proxy_rows :: "int \<Rightarrow> acl_store \<Rightarrow> acl_store" where
  "delete_proxy_rows rid st =
     st\<lparr>st_proxies := tb_Delete (\<lambda>p. px_ID p = rid) (st_proxies st),
        st_assignments := tb_Delete (\<lambda>a. pa_ProxyID a = rid) (st_assignments st),
        st_sessions := tb_Delete (\<lambda>s. se_ProxyID s = Some rid) (st_sessions st)\<rparr>"

definition Proxy_Delete_repo :: "bool \<Rightarrow> int \<Rightarrow> acl_store \<Rightarrow> write_result" where
  "Proxy_Delete_repo fault rid st =
     (if fault then (st, Some DBFault) else (delete_proxy_rows rid st, None))"

definition Proxy_UpdateStatus_repo :: "bool \<Rightarrow> int \<Rightarrow> bool \<Rightarrow> acl_store \<Rightarrow> write_result" where
  "Proxy_UpdateStatus_repo fault rid isActive st =
     (if fault then (st, Some DBFault)
      else (st\<lparr>st_proxies := (st_proxies st)\<lparr>tb_rows :=
               map (\<lambda>p. if px_ID p = rid then p\<lparr>px_IsActive := isActive\<rparr> else p)
                 (tb_rows (st_proxies st))\<rparr>\<rparr>, None))"

section \<open>The service\<close>

type_synonym 'w sync_call = "acl_store \<Rightarrow> 'w \<Rightarrow> 'w \<times> string option"

record 'w ProxySyncer =
  sy_SyncProxy :: "Proxy \<Rightarrow> 'w sync_call"
  sy_RemoveProxy :: "int \<Rightarrow> string \<Rightarrow> 'w sync_call"
  sy_EnableProxy :: "int \<Rightarrow> string \<Rightarrow> 'w sync_call"
  sy_DisableProxy :: "int \<Rightarrow> string \<Rightarrow> 'w sync_call"

datatype proxy_error =
    ProxyInvalid proxy_validation_error
  | NoSuchProxy
  | ErrHostnameConflict
  | ErrProxyAlreadyEnabled
  | ErrProxyAlreadyDisabled
  | ProxyDB string db_error
  | ProxySync string string
  | ProxySyncRollback string string db_error

type_synonym 'w proxy_result = "acl_store \<times> 'w \<times> proxy_error option"

definition proxy_by_id :: "faults \<Rightarrow> int \<Rightarrow> acl_store \<Rightarrow> (proxy_error, Proxy) result" where
  "proxy_by_id flt rid st =
     (case Proxy_GetByID flt rid st of
        Inl RecordNotFound \<Rightarrow> Err NoSuchProxy
      | Inl e \<Rightarrow> Err (ProxyDB ''failed to get proxy'' e)
      | Inr p \<Rightarrow> Ok p)"

definition GetProxyByID :: "faults \<Rightarrow> int \<Rightarrow> acl_store \<Rightarrow> (proxy_error, Proxy) result" where
  "GetProxyByID flt rid st = proxy_by_id flt rid st"

definition CreateProxy ::
  "'w ProxySyncer \<Rightarrow> faults \<Rightarrow> Proxy \<Rightarrow> int \<Rightarrow> acl_store \<Rightarrow> 'w \<Rightarrow> 'w proxy_result" where
  "CreateProxy sy flt proxy userID st w =
     (case Proxy_Validate proxy of
        Some e \<Rightarrow> (st, w, Some (ProxyInvalid e))
      | None \<Rightarrow>
          (case HostnameExists (flt ''HostnameExists'') (px_Hostname proxy) 0 st of
             Inl e \<Rightarrow> (st, w, Some (ProxyDB ''failed to check hostname'' e))
           | Inr True \<Rightarrow> (st, w, Some ErrHostnameConflict)
           | Inr False \<Rightarrow>
               (let proxy = proxy\<lparr>px_CreatedBy := userID\<rparr> in
                case Proxy_Create_repo (flt ''Proxy.Create'') proxy st of
                  (st1, Some e) \<Rightarrow> (st1, w, Some (ProxyDB ''failed to create proxy'' e))
                | (st1, None) \<Rightarrow>
                    (let proxy = proxy\<lparr>px_ID := tb_next (st_proxies st)\<rparr> in
                     case sy_SyncProxy sy proxy st1 w of
                       (w1, None) \<Rightarrow> (st1, w1, None)
                     | (w1, Some err) \<Rightarrow>
                         (case Proxy_Delete_repo (flt ''Proxy.Delete'') (px_ID proxy) st1 of
                            (st2, Some delErr) \<Rightarrow>
                              (st2, w1, Some (ProxySyncRollback
                                 ''failed to sync proxy config and rollback failed'' err delErr))
                          | (st2, None) \<Rightarrow>
                              (st2, w1, Some (ProxySync ''failed to sync proxy configuration'' err)))))))"

text \<open>The fields an update may not change, and the configuration of other types, are reset.\<close>

definition merge_update :: "int \<Rightarrow> Proxy \<Rightarrow> Proxy \<Rightarrow> Proxy" where
  "merge_update rid existing proxy =
     (let p = proxy\<lparr>px_ID := rid, px_IsActive := px_IsActive existing, px_SSLForced := px_SSLForced existing,
            px_CreatedBy := px_CreatedBy existing, px_CreatedAt := px_CreatedAt existing\<rparr>;
          p = (if px_Type p \<noteq> ProxyTypeReverseProxy
               then p\<lparr>px_Upstreams := None, px_LoadBalancing := [],
                      px_CustomHeaders := \<lparr>ch_Request = [], ch_Response = []\<rparr>\<rparr> else p);
          p = (if px_Type p \<noteq> ProxyTypeRedirect then p\<lparr>px_RedirectConfig := []\<rparr> else p)
      in if px_Type p \<noteq> ProxyTypeStatic then p\<lparr>px_StaticConfig := []\<rparr> else p)"

definition UpdateProxy ::
  "'w ProxySyncer \<Rightarrow> faults \<Rightarrow> int \<Rightarrow> Proxy \<Rightarrow> acl_store \<Rightarrow> 'w \<Rightarrow> 'w proxy_result" where
  "UpdateProxy sy flt rid proxy st w =
     (case proxy_by_id flt rid st of
        Inl e \<Rightarrow> (st, w, Some e)
      | Inr existing \<Rightarrow>
          (case Proxy_Validate proxy of
             Some e \<Rightarrow> (st, w, Some (ProxyInvalid e))
           | None \<Rightarrow>
               (case (if px_Hostname proxy \<noteq> px_Hostname existing
                      then HostnameExists (flt ''HostnameExists'') (px_Hostname proxy) rid st
                      else Ok False) of
                  Inl e \<Rightarrow> (st, w, Some (ProxyDB ''failed to check hostname'' e))
                | Inr True \<Rightarrow> (st, w, Some ErrHostnameConflict)
                | Inr False \<Rightarrow>
                    (let p = merge_update rid existing proxy in
                     case Proxy_Update_repo (flt ''Proxy.Update'') p st of
                       (st1, Some e) \<Rightarrow> (st1, w, Some (ProxyDB ''failed to update proxy'' e))
                     | (st1, None) \<Rightarrow>
                         (let w1 = (if px_Hostname existing \<noteq> px_Hostname p
                                    then fst (sy_RemoveProxy sy (px_ID existing) (px_Hostname existing) st1 w)
                                    else w)
                          in case sy_SyncProxy sy p st1 w1 of
                               (w2, Some err) \<Rightarrow>
                                 (st1, w2, Some (ProxySync ''failed to sync proxy configuration'' err))
                             | (w2, None) \<Rightarrow> (st1, w2, None))))))"

definition DeleteProxy ::
  "'w ProxySyncer \<Rightarrow> faults \<Rightarrow> int \<Rightarrow> acl_store \<Rightarrow> 'w \<Rightarrow> 'w proxy_result" where
  "DeleteProxy sy flt rid st w =
     (case proxy_by_id flt rid st of
        Inl e \<Rightarrow> (st, w, Some e)
      | Inr proxy \<Rightarrow>
          (case Proxy_Delete_repo (flt ''Proxy.Delete'') rid st of
             (st1, Some e) \<Rightarrow> (st1, w, Some (ProxyDB ''failed to delete proxy'' e))
           | (st1, None) \<Rightarrow> (st1, fst (sy_RemoveProxy sy (px_ID proxy) (px_Hostname proxy) st1 w), None)))"

definition EnableProxy ::
  "'w ProxySyncer \<Rightarrow> faults \<Rightarrow> int \<Rightarrow> acl_store \<Rightarrow> 'w \<Rightarrow> 'w proxy_result" where
  "EnableProxy sy flt rid st w =
     (case proxy_by_id flt rid st of
        Inl e \<Rightarrow> (st, w, Some e)
      | Inr proxy \<Rightarrow>
          if px_IsActive proxy then (st, w, Some ErrProxyAlreadyEnabled)
          else (case Proxy_UpdateStatus_repo (flt ''UpdateStatus'') rid True st of
                  (st1, Some e) \<Rightarrow> (st1, w, Some (ProxyDB ''failed to enable proxy'' e))
                | (st1, None) \<Rightarrow>
                    (case sy_EnableProxy sy (px_ID proxy) (px_Hostname proxy) st1 w of
                       (w1, None) \<Rightarrow> (st1, w1, None)
                     | (w1, Some err) \<Rightarrow>
                         (case Proxy_UpdateStatus_repo (flt ''UpdateStatus rollback'') rid False st1 of
                            (st2, Some re) \<Rightarrow>
                              (st2, w1, Some (ProxySyncRollback
                                 ''failed to enable proxy file and rollback failed'' err re))
                          | (st2, None) \<Rightarrow>
                              (st2, w1, Some (ProxySync ''failed to enable proxy file'' err))))))"

definition DisableProxy ::
  "'w ProxySyncer \<Rightarrow> faults \<Rightarrow> int \<Rightarrow> acl_store \<Rightarrow> 'w \<Rightarrow> 'w proxy_result" where
  "DisableProxy sy flt rid st w =
     (case proxy_by_id flt rid st of
        Inl e \<Rightarrow> (st, w, Some e)
      | Inr proxy \<Rightarrow>
          if \<not> px_IsActive proxy then (st, w, Some ErrProxyAlreadyDisabled)
          else (case Proxy_UpdateStatus_repo (flt ''UpdateStatus'') rid False st of
                  (st1, Some e) \<Rightarrow> (st1, w, Some (ProxyDB ''failed to disable proxy'' e))
                | (st1, None) \<Rightarrow>
                    (st1, fst (sy_DisableProxy sy (px_ID proxy) (px_Hostname proxy) st1 w), None)))"

section \<open>Bulk operations\<close>

record BulkItemResult =
  bi_ID :: int
  bi_Status :: string
  bi_Error :: "proxy_error option"

record BulkResult =
  bk_Requested :: nat
  bk_Succeeded :: nat
  bk_Failed :: nat
  bk_Results :: "BulkItemResult list"

definition bulkStatusOK :: string where "bulkStatusOK = ''ok''"
definition bulkStatusError :: string where "bulkStatusError = ''error''"

fun bulk_loop ::
  "(int \<Rightarrow> acl_store \<Rightarrow> 'w \<Rightarrow> 'w proxy_result) \<Rightarrow> int list \<Rightarrow> BulkResult \<Rightarrow> acl_store \<Rightarrow> 'w
    \<Rightarrow> acl_store \<times> 'w \<times> BulkResult" where
  "bulk_loop f [] res st w = (st, w, res)"
| "bulk_loop f (i # is) res st w =
     (case f i st w of
        (st1, w1, Some e) \<Rightarrow>
          bulk_loop f is
            (res\<lparr>bk_Failed := bk_Failed res + 1,
                 bk_Results := bk_Results res @ [\<lparr>bi_ID = i, bi_Status = bulkStatusError, bi_Error = Some e\<rparr>]\<rparr>)
            st1 w1
      | (st1, w1, None) \<Rightarrow>
          bulk_loop f is
            (res\<lparr>bk_Succeeded := bk_Succeeded res + 1,
                 bk_Results := bk_Results res @ [\<lparr>bi_ID = i, bi_Status = bulkStatusOK, bi_Error = None\<rparr>]\<rparr>)
            st1 w1)"

definition runBulk ::
  "int list \<Rightarrow> (int \<Rightarrow> acl_store \<Rightarrow> 'w \<Rightarrow> 'w proxy_result) \<Rightarrow> acl_store \<Rightarrow> 'w
    \<Rightarrow> acl_store \<times> 'w \<times> BulkResult" where
  "runBulk ids f st w =
     bulk_loop f ids \<lparr>bk_Requested = length ids, bk_Succeeded = 0, bk_Failed = 0, bk_Results = []\<rparr> st w"

definition BulkSetActive ::
  "'w ProxySyncer \<Rightarrow> faults \<Rightarrow> int list \<Rightarrow> bool \<Rightarrow> acl_store \<Rightarrow> 'w \<Rightarrow> acl_store \<times> 'w \<times> BulkResult" where
  "BulkSetActive sy flt ids enable st w =
     runBulk ids (if enable then EnableProxy sy flt else DisableProxy sy flt) st w"

definition BulkDelete ::
  "'w ProxySyncer \<Rightarrow> faults \<Rightarrow> int list \<Rightarrow> acl_store \<Rightarrow> 'w \<Rightarrow> acl_store \<times> 'w \<times> BulkResult" where
  "BulkDelete sy flt ids st w = runBulk ids (DeleteProxy sy flt) st w"

section \<open>Import\<close>

datatype import_status =
  ImportStatusValid | ImportStatusConflict | ImportStatusInvalid | ImportStatusCreated |
  ImportStatusSkippedConflict | ImportStatusFailed

datatype import_reason =
    NoReason
  | DecodeReason string
  | InvalidReason proxy_validation_error
  | DuplicateInImport
  | HostnameCheckFailed db_error
  | HostnameTaken
  | CreateFailed proxy_error

record ImportInput =
  ii_Proxy :: "Proxy option"
  ii_DecodeError :: string

record ImportItemResult =
  im_Index :: nat
  im_Name :: string
  im_Hostname :: string
  im_Type :: string
  im_Status :: import_status
  im_Reason :: import_reason

record ImportSummary =
  is_Total :: nat
  is_Importable :: nat
  is_Conflicts :: nat
  is_Invalid :: nat
  is_Created :: nat
  is_Failed :: nat

definition import_item :: "nat \<Rightarrow> Proxy \<Rightarrow> import_status \<Rightarrow> import_reason \<Rightarrow> ImportItemResult" where
  "import_item i p status reason =
     \<lparr>im_Index = i, im_Name = px_Name p, im_Hostname = px_Hostname p, im_Type = px_Type p,
      im_Status = status, im_Reason = reason\<rparr>"

text \<open>One iteration: the host names accepted so far, the new state and the item's result.\<close>

definition import_step ::
  "'w ProxySyncer \<Rightarrow> faults \<Rightarrow> bool \<Rightarrow> int \<Rightarrow> (db_error, string list) result \<Rightarrow> nat \<Rightarrow> string list
    \<Rightarrow> ImportInput \<Rightarrow> acl_store \<Rightarrow> 'w \<Rightarrow> acl_store \<times> 'w \<times> string list \<times> ImportItemResult" where
  "import_step sy flt dryRun userID existing i seen inp st w =
     (let conflictStatus = (if dryRun then ImportStatusConflict else ImportStatusSkippedConflict) in
      case ii_Proxy inp of
        None \<Rightarrow>
          (st, w, seen, \<lparr>im_Index = i, im_Name = [], im_Hostname = [], im_Type = [],
            im_Status = ImportStatusInvalid, im_Reason = DecodeReason (ii_DecodeError inp)\<rparr>)
      | Some p \<Rightarrow>
          (case Proxy_Validate p of
             Some e \<Rightarrow> (st, w, seen, import_item i p ImportStatusInvalid (InvalidReason e))
           | None \<Rightarrow>
               if px_Hostname p \<in> set seen then
                 (st, w, seen, import_item i p conflictStatus DuplicateInImport)
               else (case existing of
                   Inl e \<Rightarrow> (st, w, seen, import_item i p ImportStatusFailed (HostnameCheckFailed e))
                 | Inr hs \<Rightarrow>
                     if px_Hostname p \<in> set hs then
                       (st, w, seen, import_item i p conflictStatus HostnameTaken)
                     else if dryRun then
                       (st, w, px_Hostname p # seen, import_item i p ImportStatusValid NoReason)
                     else (case CreateProxy sy flt p userID st w of
                         (st1, w1, err) \<Rightarrow>
                           (case err of
                              None \<Rightarrow>
                                (st1, w1, px_Hostname p # seen, import_item i p ImportStatusCreated NoReason)
                            | Some e \<Rightarrow>
                                (st1, w1, seen,
                                 if e = ErrHostnameConflict
                                 then import_item i p ImportStatusSkippedConflict HostnameTaken
                                 else import_item i p ImportStatusFailed (CreateFailed e)))))))"

fun import_loop ::
  "'w ProxySyncer \<Rightarrow> faults \<Rightarrow> bool \<Rightarrow> int \<Rightarrow> (db_error, string list) result \<Rightarrow> nat \<Rightarrow> string list
    \<Rightarrow> ImportInput list \<Rightarrow> acl_store \<Rightarrow> 'w \<Rightarrow> acl_store \<times> 'w \<times> ImportItemResult list" where
  "import_loop sy flt dryRun userID existing i seen [] st w = (st, w, [])"
| "import_loop sy flt dryRun userID existing i seen (inp # ins) st w =
     (case import_step sy flt dryRun userID existing i seen inp st w of
        (st1, w1, seen1, item) \<Rightarrow>
          (case import_loop sy flt dryRun userID existing (Suc i) seen1 ins st1 w1 of
             (st2, w2, items) \<Rightarrow> (st2, w2, item # items)))"

fun summarizeImport_loop :: "ImportItemResult list \<Rightarrow> ImportSummary \<Rightarrow> ImportSummary" where
  "summarizeImport_loop [] s = s"
| "summarizeImport_loop (it # items) s =
     summarizeImport_loop items
       (case im_Status it of
          ImportStatusValid \<Rightarrow> s\<lparr>is_Importable := is_Importable s + 1\<rparr>
        | ImportStatusCreated \<Rightarrow> s\<lparr>is_Importable := is_Importable s + 1, is_Created := is_Created s + 1\<rparr>
        | ImportStatusFailed \<Rightarrow> s\<lparr>is_Importable := is_Importable s + 1, is_Failed := is_Failed s + 1\<rparr>
        | ImportStatusConflict \<Rightarrow> s\<lparr>is_Conflicts := is_Conflicts s + 1\<rparr>
        | ImportStatusSkippedConflict \<Rightarrow> s\<lparr>is_Conflicts := is_Conflicts s + 1\<rparr>
        | ImportStatusInvalid \<Rightarrow> s\<lparr>is_Invalid := is_Invalid s + 1\<rparr>)"

definition summarizeImport :: "ImportItemResult list \<Rightarrow> nat \<Rightarrow> ImportSummary" where
  "summarizeImport items tot =
     summarizeImport_loop items
       \<lparr>is_Total = tot, is_Importable = 0, is_Conflicts = 0, is_Invalid = 0, is_Created = 0, is_Failed = 0\<rparr>"

definition ImportProxies ::
  "'w ProxySyncer \<Rightarrow> faults \<Rightarrow> ImportInput list \<Rightarrow> bool \<Rightarrow> int \<Rightarrow> acl_store \<Rightarrow> 'w
    \<Rightarrow> acl_store \<times> 'w \<times> ImportSummary \<times> ImportItemResult list" where
  "ImportProxies sy flt inputs dryRun userID st w =
     (let hostnames = map px_Hostname (List.map_filter ii_Proxy inputs);
          existing = ExistingHostnames (flt ''ExistingHostnames'') hostnames st;
          (st1, w1, items) = import_loop sy flt dryRun userID existing 0 [] inputs st w
      in (st1, w1, summarizeImport items (length inputs), items))"

end
