(* ===== verification/Demo_Store.thy ===== *)
theory Demo_Store
  imports Acl_Verify
begin

text \<open>
  A small concrete installation on which the properties are applied: one proxy, one user with a
  session, an administrator group in mode \<open>any\<close> with a deny and an allow rule, and a partner group
  in mode \<open>ip_bypass\<close>, both assigned to the proxy.
\<close>

definition demo_proxy :: Proxy where
  "demo_proxy =
     \<lparr>px_ID = 1, px_Type = ''reverse_proxy'', px_Name = ''app'', px_Hostname = ''app.example.com'',
      px_Description = None, px_SSLEnabled = True, px_SSLForced = True, px_IsActive = True,
      px_CreatedBy = 1, px_CreatedAt = 0, px_Upstreams = Some (JArr []), px_LoadBalancing = [],
      px_BlockExploits = False, px_TLSInsecureSkipVerify = False,
      px_CustomHeaders = \<lparr>ch_Request = [], ch_Response = []\<rparr>, px_RedirectConfig = [],
      px_StaticConfig = []\<rparr>"

definition demo_user :: User where
  "demo_user =
     \<lparr>us_ID = 1, us_Name = ''Alice'', us_Username = ''alice'', us_Email = ''alice@example.com'',
      us_PasswordHash = ''h'', us_Active = True, us_MustChangePassword = False,
      us_LastLoginAt = None\<rparr>"

definition demo_group :: "int \<Rightarrow> string \<Rightarrow> string \<Rightarrow> ACLGroup" where
  "demo_group i name mode =
     \<lparr>gr_ID = i, gr_Name = name, gr_Description = None, gr_CombinationMode = mode,
      gr_CreatedBy = 1, gr_IPRules = [], gr_BasicAuthUsers = [], gr_ExternalProviders = [],
      gr_WaygatesAuth = None, gr_OAuthProviderRestrictions = []\<rparr>"

definition demo_rule :: "int \<Rightarrow> int \<Rightarrow> string \<Rightarrow> string \<Rightarrow> ACLIPRule" where
  "demo_rule i g ty cidr =
     \<lparr>ir_ID = i, ir_ACLGroupID = g, ir_RuleType = ty, ir_CIDR = cidr, ir_Description = None,
      ir_Priority = 0\<rparr>"

definition demo_waygates :: ACLWaygatesAuth where
  "demo_waygates =
     \<lparr>wa_ID = 1, wa_ACLGroupID = 1, wa_Enabled = True, wa_AllowedUsers = [''alice''],
      wa_AllowedRoles = [], wa_AllowedEmailPatterns = [], wa_Require2FA = False,
      wa_SessionTTL = 86400, wa_CreatedAt = 0, wa_AllowedEmails = [], wa_AllowedDomains = [],
      wa_AllowedProviders = []\<rparr>"

definition demo_assignment :: "int \<Rightarrow> int \<Rightarrow> string \<Rightarrow> ProxyACLAssignment" where
  "demo_assignment i g pattern =
     \<lparr>pa_ID = i, pa_ProxyID = 1, pa_ACLGroupID = g, pa_PathPattern = pattern, pa_Priority = 0,
      pa_Enabled = True, pa_ACLGroup = None\<rparr>"

definition demo_session :: ACLSession where
  "demo_session =
     \<lparr>se_ID = 1, se_SessionToken = ''tok'', se_UserID = Some 1, se_ProxyID = None,
      se_IPAddress = None, se_UserAgent = None, se_ExpiresAt = 100, se_Email = None,
      se_Provider = None, se_User = None\<rparr>"

definition demo_store :: acl_store where
  "demo_store =
     \<lparr>st_groups = \<lparr>tb_rows = [demo_group 1 ''admins'' ''any'', demo_group 2 ''partners'' ''ip_bypass''],
                   tb_next = 3\<rparr>,
      st_ip_rules = \<lparr>tb_rows = [demo_rule 1 1 ''deny'' ''10.0.0.0/8'',
                               demo_rule 2 1 ''allow'' ''192.168.0.0/16'',
                               demo_rule 3 2 ''bypass'' ''172.16.0.9''], tb_next = 4\<rparr>,
      st_basic_users = empty_table, st_providers = empty_table,
      st_waygates = \<lparr>tb_rows = [demo_waygates], tb_next = 2\<rparr>,
      st_restrictions = empty_table,
      st_assignments = \<lparr>tb_rows = [demo_assignment 1 1 ''/*'', demo_assignment 2 2 ''/partner/*''],
                        tb_next = 3\<rparr>,
      st_sessions = \<lparr>tb_rows = [demo_session], tb_next = 2\<rparr>,
      st_branding = Some default_branding,
      st_proxies = \<lparr>tb_rows = [demo_proxy], tb_next = 2\<rparr>,
      st_users = \<lparr>tb_rows = [demo_user], tb_next = 2\<rparr>\<rparr>"

definition demo_env :: "int \<Rightarrow> verify_env" where
  "demo_env now = \<lparr>ve_now = now, ve_flt = no_faults, ve_compare = (=)\<rparr>"

definition demo_request :: "string \<Rightarrow> string \<Rightarrow> string \<Rightarrow> ACLVerifyRequest" where
  "demo_request ip path token =
     \<lparr>rq_Host = ''app.example.com'', rq_Path = path, rq_Method = ''GET'', rq_RemoteIP = ip,
      rq_SessionToken = token, rq_BasicAuth = None\<rparr>"

lemmas demo_defs =
  demo_proxy_def demo_user_def demo_group_def demo_rule_def demo_waygates_def demo_assignment_def
  demo_session_def demo_store_def demo_env_def demo_request_def

lemma demo_env_simps [simp]:
  "ve_flt (demo_env n) c = False" "ve_now (demo_env n) = n"
  by (simp_all add: demo_env_def no_faults_def)

lemma demo_lookup [simp]:
  "tb_First (\<lambda>p. px_Hostname p = rq_Host (demo_request ip path tok)) (st_proxies demo_store)
     = Some demo_proxy"
  by (simp add: demo_request_def demo_store_def demo_proxy_def tb_First_def)

lemma demo_px_ID [simp]: "px_ID demo_proxy = 1"
  by (simp add: demo_proxy_def)

end
