(* ===== verification/Proxy_Safety.thy ===== *)
theory Proxy_Safety
  imports Proxy_Service Demo_Store
begin

text \<open>
  Guarantees of the proxy service: host names stay unique and rows valid whatever the database
  and the sync layer do, a failed creation is rolled back, bulk operations account for every
  item, and the dry run of an import is an exact preview.
\<close>

section \<open>The proxy table\<close>

definition same_hostname :: "Proxy \<Rightarrow> Proxy \<Rightarrow> bool" where
  "same_hostname x y \<longleftrightarrow> px_Hostname x = px_Hostname y"

definition proxy_ok :: "int set \<Rightarrow> Proxy \<Rightarrow> bool" where
  "proxy_ok U p \<longleftrightarrow> px_CreatedBy p \<in> U \<and> Proxy_Validate p = None"

lemma Validate_updates [simp]:
  "Proxy_Validate (p\<lparr>px_ID := i\<rparr>) = Proxy_Validate p"
  "Proxy_Validate (p\<lparr>px_SSLForced := b\<rparr>) = Proxy_Validate p"
  "Proxy_Validate (p\<lparr>px_IsActive := b\<rparr>) = Proxy_Validate p"
  "Proxy_Validate (p\<lparr>px_CreatedBy := u\<rparr>) = Proxy_Validate p"
  "Proxy_Validate (p\<lparr>px_CreatedAt := t\<rparr>) = Proxy_Validate p"
  by (simp_all add: Proxy_Validate_def cong: option.case_cong if_cong)

interpretation proxies_ct: constrained_table px_ID set_px_ID same_hostname proxy_ok
  by unfold_locales (auto simp: same_hostname_def proxy_ok_def set_px_ID_def)

definition system_ok :: "acl_store \<Rightarrow> bool" where
  "system_ok st \<longleftrightarrow> store_ok st \<and> table_ok px_ID same_hostname proxy_ok (uids st) (st_proxies st)"

lemma system_ok_parts:
  assumes "system_ok st"
  shows "store_ok st" "table_ok px_ID same_hostname proxy_ok (uids st) (st_proxies st)"
    "tb_wf px_ID (st_proxies st)" "p \<in> set (tb_rows (st_proxies st)) \<Longrightarrow> proxy_ok (uids st) p"
  using assms by (simp_all add: system_ok_def table_ok_def)

lemma uids_proxies [simp]: "uids (st_proxies_update f st) = uids st" "gids (st_proxies_update f st) = gids st"
  by (simp_all add: uids_def gids_def)

lemma store_ok_more_proxies:
  assumes st: "store_ok st" and P: "pids st \<subseteq> px_ID ` set (tb_rows t)"
  shows "store_ok (st\<lparr>st_proxies := t\<rparr>)"
proof -
  note tabs = st[unfolded store_ok_def]
  have p: "pids (st\<lparr>st_proxies := t\<rparr>) = px_ID ` set (tb_rows t)" by (simp add: pids_def)
  have "table_ok pa_ID same_assignment assignment_ok (px_ID ` set (tb_rows t), gids st) (st_assignments st)"
    by (rule assignments_ct.ok_mono[of "(pids st, gids st)"])
       (use tabs P in \<open>simp_all add: assignment_ok_def subset_iff\<close>)
  moreover have "table_ok se_ID same_token session_ok (uids st, px_ID ` set (tb_rows t)) (st_sessions st)"
    by (rule sessions_ct.ok_mono[of "(uids st, pids st)"])
       (use tabs P in \<open>simp_all add: session_ok_def subset_iff\<close>)
  ultimately show ?thesis using tabs by (simp add: store_ok_def p)
qed

lemma Proxy_Create_repo_ok:
  assumes st: "system_ok st" and v: "Proxy_Validate p = None"
  shows "system_ok (fst (Proxy_Create_repo f p st))"
proof (cases "snd (Proxy_Create_repo f p st)")
  case None
  then have nf: "\<not> f" "\<not> list_ex (\<lambda>x. px_Hostname x = px_Hostname p) (tb_rows (st_proxies st))"
    and u: "px_CreatedBy p \<in> uids st"
    by (simp_all add: Proxy_Create_repo_def split: if_split_asm)
  then have res: "fst (Proxy_Create_repo f p st) =
      st\<lparr>st_proxies := tb_Create set_px_ID (proxy_defaults p) (st_proxies st)\<rparr>"
    by (simp add: Proxy_Create_repo_def)
  have fresh: "\<forall>x \<in> set (tb_rows (st_proxies st)). px_Hostname x \<noteq> px_Hostname p"
    using nf(2) by (simp add: list_ex_iff)
  have "table_ok px_ID same_hostname proxy_ok (uids st) (tb_Create set_px_ID (proxy_defaults p) (st_proxies st))"
    by (rule proxies_ct.ok_Create[OF system_ok_parts(2)[OF st]])
       (use u v fresh in \<open>auto simp: proxy_ok_def same_hostname_def proxy_defaults_def\<close>)
  moreover have "store_ok (st\<lparr>st_proxies := tb_Create set_px_ID (proxy_defaults p) (st_proxies st)\<rparr>)"
    by (rule store_ok_more_proxies[OF system_ok_parts(1)[OF st]]) (auto simp: pids_def)
  ultimately show ?thesis unfolding res by (simp add: system_ok_def)
qed (auto simp: Proxy_Create_repo_def st split: if_splits)

lemma Proxy_Update_repo_ok:
  assumes st: "system_ok st" and p: "proxy_ok (uids st) p" and ex: "px_ID p \<in> pids st"
  shows "system_ok (fst (Proxy_Update_repo f p st))"
proof (cases "snd (Proxy_Update_repo f p st)")
  case None
  then have nf: "\<not> f"
    "\<not> list_ex (\<lambda>x. px_Hostname x = px_Hostname p \<and> px_ID x \<noteq> px_ID p) (tb_rows (st_proxies st))"
    by (simp_all add: Proxy_Update_repo_def split: if_split_asm)
  then have res: "fst (Proxy_Update_repo f p st) = st\<lparr>st_proxies := tb_Save px_ID p (st_proxies st)\<rparr>"
    by (simp add: Proxy_Update_repo_def)
  have fresh: "\<forall>x \<in> set (tb_rows (st_proxies st)). px_Hostname x = px_Hostname p \<longrightarrow> px_ID x = px_ID p"
    using nf(2) by (auto simp: list_ex_iff)
  have ex': "\<exists>x \<in> set (tb_rows (st_proxies st)). px_ID x = px_ID p" using ex by (auto simp: pids_def)
  have "table_ok px_ID same_hostname proxy_ok (uids st) (tb_Save px_ID p (st_proxies st))"
    by (rule proxies_ct.ok_Save[OF system_ok_parts(2)[OF st] p ex']) (use fresh in \<open>auto simp: same_hostname_def\<close>)
  moreover have "store_ok (st\<lparr>st_proxies := tb_Save px_ID p (st_proxies st)\<rparr>)"
    by (rule store_ok_more_proxies[OF system_ok_parts(1)[OF st]])
       (use ex' in \<open>auto simp: pids_def tb_Save_def list_ex_iff image_iff\<close>)
  ultimately show ?thesis unfolding res by (simp add: system_ok_def)
qed (auto simp: Proxy_Update_repo_def st split: if_splits)

lemma delete_proxy_rows_ok:
  assumes st: "system_ok st"
  shows "system_ok (delete_proxy_rows rid st)"
proof -
  note tabs = st[unfolded system_ok_def store_ok_def]
  have p: "pids (delete_proxy_rows rid st) = pids st - {rid}"
    by (auto simp: pids_def delete_proxy_rows_def)
  have "table_ok pa_ID same_assignment assignment_ok (pids st - {rid}, gids st)
      (tb_Delete (\<lambda>a. pa_ProxyID a = rid) (st_assignments st))"
    using tabs by (auto intro!: assignments_ct.ok_Delete simp: assignment_ok_def)
  moreover have "table_ok se_ID same_token session_ok (uids st, pids st - {rid})
      (tb_Delete (\<lambda>s. se_ProxyID s = Some rid) (st_sessions st))"
    using tabs by (auto intro!: sessions_ct.ok_Delete simp: session_ok_def)
  moreover have "table_ok px_ID same_hostname proxy_ok (uids st) (tb_Delete (\<lambda>p. px_ID p = rid) (st_proxies st))"
    using tabs by (auto intro!: proxies_ct.ok_Delete_same)
  ultimately show ?thesis
    using tabs by (simp add: system_ok_def store_ok_def p) (simp add: delete_proxy_rows_def)
qed

lemma Proxy_Delete_repo_ok: "system_ok st \<Longrightarrow> system_ok (fst (Proxy_Delete_repo f rid st))"
  by (simp add: Proxy_Delete_repo_def delete_proxy_rows_ok)

lemma Proxy_UpdateStatus_repo_ok:
  assumes st: "system_ok st"
  shows "system_ok (fst (Proxy_UpdateStatus_repo f rid b st))"
proof -
  let ?f = "\<lambda>p :: Proxy. if px_ID p = rid then p\<lparr>px_IsActive := b\<rparr> else p"
  let ?t = "(st_proxies st)\<lparr>tb_rows := map ?f (tb_rows (st_proxies st))\<rparr>"
  have key: "px_ID \<circ> ?f = px_ID" by (auto simp: fun_eq_iff)
  have "table_ok px_ID same_hostname proxy_ok (uids st) ?t"
  proof (rule table_okI)
    have "map px_ID (tb_rows ?t) = map px_ID (tb_rows (st_proxies st))" by (simp add: key)
    then show "tb_wf px_ID ?t" using st
      by (simp only: tb_wf_def system_ok_def table_ok_def list_all_iff) auto
    show "proxy_ok (uids st) r" if "r \<in> set (tb_rows ?t)" for r
      using that st by (auto simp: system_ok_def table_ok_def proxy_ok_def)
    show "x = y" if "x \<in> set (tb_rows ?t)" "y \<in> set (tb_rows ?t)" "same_hostname x y" for x y
    proof -
      from that obtain x' y' where xy: "x' \<in> set (tb_rows (st_proxies st))"
        "y' \<in> set (tb_rows (st_proxies st))" "x = ?f x'" "y = ?f y'" by auto
      then have "same_hostname x' y'" using that(3) by (simp add: same_hostname_def split: if_splits)
      with xy(1,2) st have "x' = y'" by (auto simp: system_ok_def dest: table_ok_unique)
      with xy(3,4) show ?thesis by simp
    qed
  qed
  moreover have "store_ok (st\<lparr>st_proxies := ?t\<rparr>)"
    by (rule store_ok_more_proxies) (use st in \<open>simp_all add: system_ok_def pids_def image_set key del: set_map\<close>)
  ultimately show ?thesis using st by (simp add: Proxy_UpdateStatus_repo_def system_ok_def)
qed

section \<open>Service operations keep the system invariant\<close>

lemma proxy_by_id_row:
  assumes "proxy_by_id flt rid st = Inr p"
  shows "p \<in> set (tb_rows (st_proxies st))" "px_ID p = rid"
  using assms
  by (auto simp: proxy_by_id_def Proxy_GetByID_def dest!: read_first_Inr split: sum.splits db_error.splits)

lemma CreateProxy_ok:
  assumes st: "system_ok st"
  shows "system_ok (fst (CreateProxy sy flt p u st w))"
proof (cases "Proxy_Validate p")
  case v: None
  let ?p = "p\<lparr>px_CreatedBy := u\<rparr>"
  have c: "system_ok st1" if "Proxy_Create_repo f ?p st = (st1, e)" for f st1 e
    using Proxy_Create_repo_ok[OF st, of ?p f] v that by simp
  have d: "system_ok st2" if "system_ok st1" "Proxy_Delete_repo f i st1 = (st2, e)" for f i st1 st2 e
    using Proxy_Delete_repo_ok[OF that(1), of f i] that(2) by simp
  show ?thesis
    using st by (auto simp: CreateProxy_def v Let_def dest!: c dest: d
        split: sum.split bool.split prod.split option.split)
qed (simp add: CreateProxy_def st)

lemma merge_update_Validate:
  "Proxy_Validate p = None \<Longrightarrow> Proxy_Validate (merge_update rid e p) = None"
  by (simp add: merge_update_def Let_def Proxy_Validate_def proxy_type_defs
      split: if_split_asm option.split_asm cong: option.case_cong)

lemma merge_update_simps [simp]:
  "px_ID (merge_update rid e p) = rid" "px_CreatedBy (merge_update rid e p) = px_CreatedBy e"
  "px_Hostname (merge_update rid e p) = px_Hostname p" "px_IsActive (merge_update rid e p) = px_IsActive e"
  by (simp_all add: merge_update_def Let_def)

lemma UpdateProxy_ok:
  assumes st: "system_ok st"
  shows "system_ok (fst (UpdateProxy sy flt rid p st w))"
proof (cases "proxy_by_id flt rid st")
  case (Inr e)
  note row = proxy_by_id_row[OF Inr]
  show ?thesis
  proof (cases "Proxy_Validate p")
    case v: None
    have "proxy_ok (uids st) (merge_update rid e p)" "rid \<in> pids st"
      using row system_ok_parts(4)[OF st row(1)] merge_update_Validate[OF v, of rid e]
      by (auto simp: proxy_ok_def pids_def)
    then have c: "system_ok st1" if "Proxy_Update_repo f (merge_update rid e p) st = (st1, x)" for f st1 x
      using Proxy_Update_repo_ok[OF st, of "merge_update rid e p" f] that by simp
    with st show ?thesis
      by (auto simp: UpdateProxy_def Inr v Let_def dest!: c split: sum.split bool.split prod.split option.split)
  qed (simp add: UpdateProxy_def Inr st)
qed (simp add: UpdateProxy_def st)

lemma DeleteProxy_ok:
  assumes "system_ok st"
  shows "system_ok (fst (DeleteProxy sy flt rid st w))"
  using assms delete_proxy_rows_ok[OF assms]
  by (simp add: DeleteProxy_def Proxy_Delete_repo_def split: sum.split)

lemma EnableProxy_ok:
  assumes st: "system_ok st"
  shows "system_ok (fst (EnableProxy sy flt rid st w))"
proof -
  have c: "system_ok s2" if "system_ok s1" "Proxy_UpdateStatus_repo f i b s1 = (s2, e)" for f i b s1 s2 e
    using Proxy_UpdateStatus_repo_ok[OF that(1), of f i b] that(2) by simp
  show ?thesis
    using st by (auto simp: EnableProxy_def dest: c split: sum.split prod.split option.split)
qed

lemma DisableProxy_ok:
  assumes st: "system_ok st"
  shows "system_ok (fst (DisableProxy sy flt rid st w))"
proof -
  have c: "system_ok s2" if "Proxy_UpdateStatus_repo f i b st = (s2, e)" for f i b s2 e
    using Proxy_UpdateStatus_repo_ok[OF st, of f i b] that by simp
  show ?thesis
    using st by (auto simp: DisableProxy_def dest: c split: sum.split prod.split option.split)
qed

lemma bulk_loop_ok:
  assumes "\<And>i st w. system_ok st \<Longrightarrow> system_ok (fst (f i st w))" "system_ok st"
  shows "system_ok (fst (bulk_loop f ids res st w))"
  using assms(2)
proof (induction ids arbitrary: res st w)
  case (Cons i ids)
  obtain st1 w1 e where r: "f i st w = (st1, w1, e)" by (cases "f i st w") auto
  with assms(1)[OF Cons.prems, of i w] have "system_ok st1" by simp
  with Cons.IH show ?case by (simp add: r split: option.split)
qed simp

lemma import_step_ok:
  assumes st: "system_ok st"
  shows "system_ok (fst (import_step sy flt dry u ex i seen inp st w))"
proof -
  have c: "system_ok st1" if "CreateProxy sy flt p u st w = (st1, w1, e)" for p st1 w1 e
    using CreateProxy_ok[OF st, of sy flt p u w] that by simp
  show ?thesis
    using st by (auto simp: import_step_def Let_def dest: c split: option.split sum.split prod.split)
qed

lemma import_loop_ok:
  "system_ok st \<Longrightarrow> system_ok (fst (import_loop sy flt dry u ex i seen ins st w))"
proof (induction ins arbitrary: i seen st w)
  case (Cons inp ins)
  obtain st1 w1 seen1 item where r: "import_step sy flt dry u ex i seen inp st w = (st1, w1, seen1, item)"
    by (cases "import_step sy flt dry u ex i seen inp st w") auto
  with import_step_ok[OF Cons.prems, of sy flt dry u ex i seen inp w] have "system_ok st1" by simp
  with Cons.IH show ?case by (simp add: r split: prod.split) (metis fst_conv)
qed simp

section \<open>Creation\<close>

text \<open>No row refers to a proxy key that the sequence has not handed out yet.\<close>

lemma no_dangling_proxy:
  assumes st: "system_ok st" and i: "i = tb_next (st_proxies st)"
  shows "a \<in> set (tb_rows (st_assignments st)) \<Longrightarrow> pa_ProxyID a \<noteq> i"
    and "s \<in> set (tb_rows (st_sessions st)) \<Longrightarrow> se_ProxyID s \<noteq> Some i"
    and "p \<in> set (tb_rows (st_proxies st)) \<Longrightarrow> px_ID p \<noteq> i"
proof -
  note wf = system_ok_parts(3)[OF st] and rows = store_ok_rows(3,4)[OF system_ok_parts(1)[OF st]]
  show "p \<in> set (tb_rows (st_proxies st)) \<Longrightarrow> px_ID p \<noteq> i"
    using proxies_tb.fresh_key[OF wf] i by blast
  have fresh: "i \<notin> pids st" using proxies_tb.fresh_key[OF wf] i by (force simp: pids_def)
  show "a \<in> set (tb_rows (st_assignments st)) \<Longrightarrow> pa_ProxyID a \<noteq> i"
    using rows(1) fresh by (auto simp: assignment_ok_def)
  show "s \<in> set (tb_rows (st_sessions st)) \<Longrightarrow> se_ProxyID s \<noteq> Some i"
    using rows(2) fresh by (auto simp: session_ok_def)
qed

lemma delete_created:
  assumes st: "system_ok st"
  shows "delete_proxy_rows (tb_next (st_proxies st))
      (st\<lparr>st_proxies := tb_Create set_px_ID p (st_proxies st)\<rparr>) =
    st\<lparr>st_proxies := (st_proxies st)\<lparr>tb_next := tb_next (st_proxies st) + 1\<rparr>\<rparr>"
proof -
  note nd = no_dangling_proxy[OF st refl]
  have "tb_Delete (\<lambda>a. pa_ProxyID a = tb_next (st_proxies st)) (st_assignments st) = st_assignments st"
    using nd(1) by (simp add: tb_Delete_def filter_id_conv')
  moreover have "tb_Delete (\<lambda>s. se_ProxyID s = Some (tb_next (st_proxies st))) (st_sessions st) = st_sessions st"
    using nd(2) by (simp add: tb_Delete_def filter_id_conv')
  moreover have "tb_Delete (\<lambda>p. px_ID p = tb_next (st_proxies st)) (tb_Create set_px_ID p (st_proxies st)) =
      (st_proxies st)\<lparr>tb_next := tb_next (st_proxies st) + 1\<rparr>"
    using nd(3) by (simp add: tb_Delete_def tb_Create_def filter_id_conv' set_px_ID_def)
  ultimately show ?thesis by (simp add: delete_proxy_rows_def)
qed

lemma CreateProxy_passed:
  assumes "CreateProxy sy flt p u st w = (st', w', r)"
    and "r = None \<or> (\<exists>m e. r = Some (ProxySync m e))"
  obtains st1 p1 where "Proxy_Validate p = None"
    "p1 = p\<lparr>px_CreatedBy := u, px_ID := tb_next (st_proxies st)\<rparr>"
    "px_Hostname p \<notin> px_Hostname ` set (tb_rows (st_proxies st))" "u \<in> uids st"
    "st1 = st\<lparr>st_proxies := tb_Create set_px_ID (proxy_defaults (p\<lparr>px_CreatedBy := u\<rparr>)) (st_proxies st)\<rparr>"
    "w' = fst (sy_SyncProxy sy p1 st1 w)"
    "r = None \<longleftrightarrow> snd (sy_SyncProxy sy p1 st1 w) = None"
    "st' = (if r = None then st1 else delete_proxy_rows (tb_next (st_proxies st)) st1)"
proof -
  let ?p = "p\<lparr>px_CreatedBy := u\<rparr>" and ?p1 = "p\<lparr>px_CreatedBy := u, px_ID := tb_next (st_proxies st)\<rparr>"
  have v: "Proxy_Validate p = None"
    using assms by (cases "Proxy_Validate p") (auto simp: CreateProxy_def)
  have h: "HostnameExists (flt ''HostnameExists'') (px_Hostname p) 0 st = Ok False"
    using assms by (cases "HostnameExists (flt ''HostnameExists'') (px_Hostname p) 0 st")
      (auto simp: CreateProxy_def v split: bool.splits)
  have c: "snd (Proxy_Create_repo (flt ''Proxy.Create'') ?p st) = None"
    using assms by (cases "Proxy_Create_repo (flt ''Proxy.Create'') ?p st")
      (auto simp: CreateProxy_def v h split: option.splits)
  define st1 where "st1 = st\<lparr>st_proxies := tb_Create set_px_ID (proxy_defaults ?p) (st_proxies st)\<rparr>"
  have c1: "Proxy_Create_repo (flt ''Proxy.Create'') ?p st = (st1, None)"
    using c by (auto simp: Proxy_Create_repo_def st1_def split: if_splits)
  have u: "u \<in> uids st" using c by (auto simp: Proxy_Create_repo_def split: if_splits)
  have n: "px_Hostname p \<notin> px_Hostname ` set (tb_rows (st_proxies st))"
    using c by (auto simp: Proxy_Create_repo_def list_ex_iff split: if_splits)
  obtain w1 e where sy: "sy_SyncProxy sy ?p1 st1 w = (w1, e)" by fastforce
  have res: "w' = w1 \<and> (r = None \<longleftrightarrow> e = None) \<and>
      st' = (if r = None then st1 else delete_proxy_rows (tb_next (st_proxies st)) st1)"
    using assms
    by (cases e) (auto simp: CreateProxy_def v h c1 sy Let_def Proxy_Delete_repo_def split: if_splits)
  show ?thesis
    by (rule that[of ?p1 st1]) (use v n u res sy in \<open>simp_all add: st1_def\<close>)
qed


definition ok_syncer :: "nat ProxySyncer" where
  "ok_syncer = \<lparr>sy_SyncProxy = \<lambda>p st w. (Suc w, None), sy_RemoveProxy = \<lambda>i h st w. (Suc w, None),
     sy_EnableProxy = \<lambda>i h st w. (Suc w, None), sy_DisableProxy = \<lambda>i h st w. (Suc w, None)\<rparr>"

definition failing_syncer :: "nat ProxySyncer" where
  "failing_syncer = \<lparr>sy_SyncProxy = \<lambda>p st w. (w, Some ''reload''), sy_RemoveProxy = \<lambda>i h st w. (w, Some ''reload''),
     sy_EnableProxy = \<lambda>i h st w. (w, Some ''reload''), sy_DisableProxy = \<lambda>i h st w. (w, Some ''reload'')\<rparr>"

definition demo_new_proxy :: "string \<Rightarrow> Proxy" where
  "demo_new_proxy host = demo_proxy\<lparr>px_ID := 0, px_Hostname := host, px_Upstreams := Some (JArr [JStr ''u''])\<rparr>"

definition demo_empty :: acl_store where
  "demo_empty = empty_store\<lparr>st_users := \<lparr>tb_rows = [demo_user], tb_next = 2\<rparr>\<rparr>"

lemma demo_empty_ok: "system_ok demo_empty"
proof -
  have "store_ok demo_empty"
    using store_ok_empty by (simp add: demo_empty_def store_ok_def empty_store_def table_ok_def)
  then show ?thesis
    by (simp add: system_ok_def demo_empty_def empty_store_def proxies_ct.ok_empty)
qed

lemma demo_new_proxy_valid: "Proxy_Validate (demo_new_proxy ''b.example.com'') = None"
  by code_simp

lemma demo_create_reaches_sync:
  "CreateProxy sy no_faults (demo_new_proxy ''b.example.com'') 1 demo_empty w =
    (let p = (demo_new_proxy ''b.example.com'')\<lparr>px_CreatedBy := 1\<rparr>;
         st1 = demo_empty\<lparr>st_proxies := tb_Create set_px_ID (proxy_defaults p) (st_proxies demo_empty)\<rparr> in
     case sy_SyncProxy sy (p\<lparr>px_ID := 1\<rparr>) st1 w of
       (w1, None) \<Rightarrow> (st1, w1, None)
     | (w1, Some err) \<Rightarrow>
         (delete_proxy_rows 1 st1, w1, Some (ProxySync ''failed to sync proxy configuration'' err)))"
  by (simp add: CreateProxy_def demo_new_proxy_valid HostnameExists_def no_faults_def demo_empty_def
      empty_store_def empty_table_def Proxy_Create_repo_def uids_def demo_user_def Let_def
      Proxy_Delete_repo_def)


text \<open>
  A successful creation stored the submitted proxy under a new key, owned by the caller, its
  host name was free before, and the Caddy side was synchronised with the new row in place.
\<close>

theorem CreateProxy_stores:
  assumes "system_ok st" "CreateProxy sy flt p u st w = (st', w', None)"
  shows "Proxy_GetByID no_faults (tb_next (st_proxies st)) st' =
      Ok (p\<lparr>px_CreatedBy := u, px_SSLForced := True, px_ID := tb_next (st_proxies st)\<rparr>) \<and>
    px_Hostname p \<notin> px_Hostname ` set (tb_rows (st_proxies st)) \<and>
    sy_SyncProxy sy (p\<lparr>px_CreatedBy := u, px_ID := tb_next (st_proxies st)\<rparr>) st' w = (w', None)"
proof -
  note wf = system_ok_parts(3)[OF assms(1)]
  obtain st1 p1 where r: "p1 = p\<lparr>px_CreatedBy := u, px_ID := tb_next (st_proxies st)\<rparr>"
    "px_Hostname p \<notin> px_Hostname ` set (tb_rows (st_proxies st))"
    "st1 = st\<lparr>st_proxies := tb_Create set_px_ID (proxy_defaults (p\<lparr>px_CreatedBy := u\<rparr>)) (st_proxies st)\<rparr>"
    "w' = fst (sy_SyncProxy sy p1 st1 w)" "snd (sy_SyncProxy sy p1 st1 w) = None" "st' = st1"
    by (rule CreateProxy_passed[OF assms(2)]) auto
  have "Proxy_GetByID no_faults (tb_next (st_proxies st)) st' =
      Ok (set_px_ID (tb_next (st_proxies st)) (proxy_defaults (p\<lparr>px_CreatedBy := u\<rparr>)))"
    using proxies_tb.First_Create[OF wf] r(3,6)
    by (simp add: Proxy_GetByID_def read_first_def no_faults_def)
  with r show ?thesis by (auto simp: set_px_ID_def proxy_defaults_def prod_eq_iff)
qed

theorem CreateProxy_stores_witness:
  "Proxy_GetByID no_faults (tb_next (st_proxies demo_empty))
      (fst (CreateProxy ok_syncer no_faults (demo_new_proxy ''b.example.com'') 1 demo_empty 0)) =
    Ok ((demo_new_proxy ''b.example.com'')\<lparr>px_CreatedBy := 1, px_SSLForced := True,
          px_ID := tb_next (st_proxies demo_empty)\<rparr>)"
proof -
  let ?c = "CreateProxy ok_syncer no_faults (demo_new_proxy ''b.example.com'') 1 demo_empty 0"
  have "snd (snd ?c) = None"
    by (simp add: demo_create_reaches_sync ok_syncer_def Let_def)
  then have "?c = (fst ?c, fst (snd ?c), None)" by (rule subst) (simp only: prod.collapse)
  from CreateProxy_stores[OF demo_empty_ok this] show ?thesis by (rule conjunct1)
qed

section \<open>Bulk operations\<close>

fun bulk_states ::
  "(int \<Rightarrow> acl_store \<Rightarrow> 'w \<Rightarrow> 'w proxy_result) \<Rightarrow> int list \<Rightarrow> acl_store \<Rightarrow> 'w
    \<Rightarrow> (acl_store \<times> 'w) \<times> (int \<times> proxy_error option) list" where
  "bulk_states f [] st w = ((st, w), [])"
| "bulk_states f (i # is) st w =
     (case f i st w of (st1, w1, e) \<Rightarrow>
        (case bulk_states f is st1 w1 of (s, es) \<Rightarrow> (s, (i, e) # es)))"

lemma bulk_loop_spec:
  "bulk_loop f ids res st w =
    (fst (fst (bulk_states f ids st w)), snd (fst (bulk_states f ids st w)),
     res\<lparr>bk_Succeeded := bk_Succeeded res + length (filter (\<lambda>(i, e). e = None) (snd (bulk_states f ids st w))),
         bk_Failed := bk_Failed res + length (filter (\<lambda>(i, e). e \<noteq> None) (snd (bulk_states f ids st w))),
         bk_Results := bk_Results res @
           map (\<lambda>(i, e). \<lparr>bi_ID = i, bi_Status = (if e = None then ''ok'' else ''error''), bi_Error = e\<rparr>)
             (snd (bulk_states f ids st w))\<rparr>)"
  by (induction f ids st w arbitrary: res rule: bulk_states.induct)
     (auto simp: bulkStatusOK_def bulkStatusError_def split: prod.splits option.splits)

lemma bulk_states_ids: "map fst (snd (bulk_states f ids st w)) = ids"
  by (induction f ids st w rule: bulk_states.induct) (auto split: prod.splits)

text \<open>
  A bulk operation runs its operation on every id in order, each on the state the previous one
  left, whatever fails in between; it reports exactly one outcome per requested id, and its counts
  add up.
\<close>

theorem runBulk_complete:
  "case runBulk ids f st w of (st', w', r) \<Rightarrow>
     (st', w') = fst (bulk_states f ids st w) \<and>
     map (\<lambda>x. (bi_ID x, bi_Error x)) (bk_Results r) = snd (bulk_states f ids st w) \<and>
     map bi_ID (bk_Results r) = ids \<and> bk_Requested r = length ids \<and>
     bk_Succeeded r + bk_Failed r = bk_Requested r \<and>
     bk_Failed r = length (filter (\<lambda>x. bi_Status x = ''error'') (bk_Results r))"
proof -
  let ?es = "snd (bulk_states f ids st w)"
  have "length (filter (\<lambda>(i, e). e = None) ?es) + length (filter (\<lambda>(i, e). e \<noteq> None) ?es) = length ?es"
    using sum_length_filter_compl[of "\<lambda>(i, e). e = None" ?es] by (simp add: case_prod_unfold)
  moreover have "length ?es = length ids" using bulk_states_ids by (metis length_map)
  moreover have "map bi_ID (map (\<lambda>(i, e). \<lparr>bi_ID = i, bi_Status = (if e = None then ''ok'' else ''error''),
      bi_Error = e\<rparr>) ?es) = ids"
    using bulk_states_ids[of f ids st w] by (simp add: comp_def case_prod_unfold)
  moreover have "(\<lambda>x. (bi_ID x, bi_Error x)) \<circ> (\<lambda>(i, e). \<lparr>bi_ID = i, bi_Status = (if e = None then ''ok''
      else ''error''), bi_Error = e\<rparr>) = (\<lambda>x. x)" by auto
  moreover have "filter (\<lambda>x. bi_Status x = ''error'') (map (\<lambda>(i, e). \<lparr>bi_ID = i, bi_Status =
      (if e = None then ''ok'' else ''error''), bi_Error = e\<rparr>) ?es) =
      map (\<lambda>(i, e). \<lparr>bi_ID = i, bi_Status = (if e = None then ''ok'' else ''error''), bi_Error = e\<rparr>)
        (filter (\<lambda>(i, e). e \<noteq> None) ?es)"
    by (simp add: filter_map comp_def case_prod_unfold cong: filter_cong)
  ultimately show ?thesis by (simp add: runBulk_def bulk_loop_spec)
qed

section \<open>Import\<close>

definition hosts :: "acl_store \<Rightarrow> string set" where
  "hosts st = px_Hostname ` set (tb_rows (st_proxies st))"

text \<open>How a dry-run status reads once the import is applied.\<close>

fun applied_status :: "import_status \<Rightarrow> import_status" where
  "applied_status ImportStatusValid = ImportStatusCreated"
| "applied_status ImportStatusConflict = ImportStatusSkippedConflict"
| "applied_status s = s"

lemma CreateProxy_succeeds:
  assumes "Proxy_Validate p = None" "px_Hostname p \<notin> hosts st" "u \<in> uids st" "\<And>c. \<not> flt c"
    and "\<And>p st w. snd (sy_SyncProxy sy p st w) = None"
  shows "\<exists>st' w'. CreateProxy sy flt p u st w = (st', w', None) \<and>
    hosts st' = insert (px_Hostname p) (hosts st) \<and> uids st' = uids st"
proof -
  let ?p = "p\<lparr>px_CreatedBy := u\<rparr>"
  let ?st = "st\<lparr>st_proxies := tb_Create set_px_ID (proxy_defaults ?p) (st_proxies st)\<rparr>"
  have h: "HostnameExists False (px_Hostname p) 0 st = Ok False"
    using assms(2) by (auto simp: HostnameExists_def hosts_def filter_empty_conv image_iff)
  have c: "Proxy_Create_repo False ?p st = (?st, None)"
    using assms(2,3) by (simp add: Proxy_Create_repo_def hosts_def list_ex_iff image_iff) metis
  obtain w' where s: "sy_SyncProxy sy (?p\<lparr>px_ID := tb_next (st_proxies st)\<rparr>) ?st w = (w', None)"
    using assms(5) by (metis prod.collapse)
  have "CreateProxy sy flt p u st w = (?st, w', None)"
    using assms(1,4) h c s by (simp add: CreateProxy_def Let_def)
  moreover have "hosts ?st = insert (px_Hostname p) (hosts st)"
    by (simp add: hosts_def proxy_defaults_def set_px_ID_def)
  ultimately show ?thesis by auto
qed

lemma dry_import_step:
  "\<exists>seen' item. import_step sy flt True u ex i seen inp st w = (st, w, seen', item)"
  by (simp add: import_step_def Let_def split: option.split sum.split)

text \<open>One iteration: the dry run and the real run accept the same host names.\<close>

lemma import_step_preview:
  assumes nf: "\<And>c. \<not> flt c" and sy: "\<And>p st w. snd (sy_SyncProxy sy p st w) = None"
    and u: "u \<in> uids st1"
    and inv: "\<And>p. ii_Proxy inp = Some p \<Longrightarrow> px_Hostname p \<in> hosts st1 \<Longrightarrow> px_Hostname p \<in> set hs \<union> set seen"
  shows "\<exists>st2 w2 seen' d a. import_step sy flt True u (Inr hs) i seen inp st w = (st, w, seen', d) \<and>
    import_step sy flt False u (Inr hs) i seen inp st1 w1 = (st2, w2, seen', a) \<and>
    im_Status a = applied_status (im_Status d) \<and> uids st2 = uids st1 \<and>
    hosts st2 = hosts st1 \<union> (set seen' - set seen)"
proof (cases "\<exists>p. ii_Proxy inp = Some p \<and> Proxy_Validate p = None \<and> px_Hostname p \<notin> set seen \<union> set hs")
  case True
  then obtain p where p: "ii_Proxy inp = Some p" "Proxy_Validate p = None" "px_Hostname p \<notin> set seen"
    "px_Hostname p \<notin> set hs" by auto
  with inv have "px_Hostname p \<notin> hosts st1" by auto
  from CreateProxy_succeeds[where w = w1 and flt = flt and sy = sy, OF p(2) this u nf sy] obtain st2 w2 where
    "CreateProxy sy flt p u st1 w1 = (st2, w2, None)" "hosts st2 = insert (px_Hostname p) (hosts st1)"
    "uids st2 = uids st1" by auto
  with p show ?thesis by (auto simp: import_step_def Let_def import_item_def)
next
  case False
  then show ?thesis
    by (auto simp: import_step_def Let_def import_item_def split: option.split)
qed

lemma import_loop_preview:
  assumes nf: "\<And>c. \<not> flt c" and sy: "\<And>p st w. snd (sy_SyncProxy sy p st w) = None"
  shows "u \<in> uids st1 \<Longrightarrow>
    (\<And>inp p. inp \<in> set ins \<Longrightarrow> ii_Proxy inp = Some p \<Longrightarrow> px_Hostname p \<in> hosts st1 \<Longrightarrow>
       px_Hostname p \<in> set hs \<union> set seen) \<Longrightarrow>
    \<exists>ds st2 w2 as. import_loop sy flt True u (Inr hs) i seen ins st w = (st, w, ds) \<and>
      import_loop sy flt False u (Inr hs) i seen ins st1 w1 = (st2, w2, as) \<and>
      map im_Status as = map (applied_status \<circ> im_Status) ds"
proof (induction ins arbitrary: i seen st1 w1)
  case (Cons inp ins)
  obtain st2 w2 seen' d a where step:
    "import_step sy flt True u (Inr hs) i seen inp st w = (st, w, seen', d)"
    "import_step sy flt False u (Inr hs) i seen inp st1 w1 = (st2, w2, seen', a)"
    "im_Status a = applied_status (im_Status d)" "uids st2 = uids st1"
    "hosts st2 = hosts st1 \<union> (set seen' - set seen)"
    using import_step_preview[where inp = inp and hs = hs and seen = seen and i = i and st = st and
        w = w and ?w1.0 = w1 and flt = flt and sy = sy, OF nf sy Cons.prems(1)] Cons.prems(2)[of inp]
    by auto
  have "set seen \<subseteq> set seen'" using step(2)
    by (auto simp: import_step_def Let_def split: option.splits if_splits sum.splits prod.splits)
  then have "px_Hostname p \<in> set hs \<union> set seen'"
    if "q \<in> set ins" "ii_Proxy q = Some p" "px_Hostname p \<in> hosts st2" for q p
    using that Cons.prems(2)[of q p] step(5) by auto
  then obtain ds st3 w3 as where
    "import_loop sy flt True u (Inr hs) (Suc i) seen' ins st w = (st, w, ds)"
    "import_loop sy flt False u (Inr hs) (Suc i) seen' ins st2 w2 = (st3, w3, as)"
    "map im_Status as = map (applied_status \<circ> im_Status) ds"
    using Cons.IH[of st2 seen' "Suc i" w2] Cons.prems(1) step(4) by fastforce
  with step show ?case by simp
qed simp

lemma ExistingHostnames_exact:
  assumes "\<not> f"
  shows "\<exists>hs. ExistingHostnames f names st = Ok hs \<and> set hs = hosts st \<inter> set names"
  using assms by (auto simp: ExistingHostnames_def hosts_def)

text \<open>
  The dry run of an import is an exact preview: it changes nothing, and when the database and the
  sync layer work, importing for real gives item by item the previewed outcome (valid items are
  created, conflicts are skipped, invalid items stay invalid).
\<close>

theorem import_dry_run_preview:
  assumes "\<And>c. \<not> flt c" "\<And>p st w. snd (sy_SyncProxy sy p st w) = None" "u \<in> uids st"
  shows "\<exists>dsum ds st2 w2 asum as.
    ImportProxies sy flt inputs True u st w = (st, w, dsum, ds) \<and>
    ImportProxies sy flt inputs False u st w = (st2, w2, asum, as) \<and>
    map im_Status as = map (applied_status \<circ> im_Status) ds"
proof -
  let ?names = "map px_Hostname (List.map_filter ii_Proxy inputs)"
  obtain hs where hs: "ExistingHostnames (flt ''ExistingHostnames'') ?names st = Ok hs"
    "set hs = hosts st \<inter> set ?names"
    using ExistingHostnames_exact assms(1) by blast
  have "px_Hostname p \<in> set hs \<union> set []" if "inp \<in> set inputs" "ii_Proxy inp = Some p" "px_Hostname p \<in> hosts st"
    for inp p
    using that hs(2) by (force simp: List.map_filter_def)
  then obtain ds st2 w2 as where
    "import_loop sy flt True u (Inr hs) 0 [] inputs st w = (st, w, ds)"
    "import_loop sy flt False u (Inr hs) 0 [] inputs st w = (st2, w2, as)"
    "map im_Status as = map (applied_status \<circ> im_Status) ds"
    using import_loop_preview[where flt = flt and sy = sy and ins = inputs and i = 0 and seen = "[]" and
        hs = hs and st = st and w = w and ?w1.0 = w, OF assms] by blast
  with hs(1) show ?thesis by (simp add: ImportProxies_def)
qed

theorem import_dry_run_preview_witness:
  "\<exists>dsum ds st2 w2 asum as.
    ImportProxies ok_syncer no_faults [\<lparr>ii_Proxy = Some (demo_new_proxy ''b.example.com''), ii_DecodeError = []\<rparr>]
      True 1 demo_empty 0 = (demo_empty, 0, dsum, ds) \<and>
    ImportProxies ok_syncer no_faults [\<lparr>ii_Proxy = Some (demo_new_proxy ''b.example.com''), ii_DecodeError = []\<rparr>]
      False 1 demo_empty 0 = (st2, w2, asum, as) \<and>
    map im_Status as = map (applied_status \<circ> im_Status) ds"
  by (rule import_dry_run_preview)
     (simp_all add: no_faults_def ok_syncer_def demo_empty_def uids_def demo_user_def)

lemma summarizeImport_loop_sum:
  "is_Importable (summarizeImport_loop items s) + is_Conflicts (summarizeImport_loop items s) +
     is_Invalid (summarizeImport_loop items s) =
   is_Importable s + is_Conflicts s + is_Invalid s + length items \<and>
   is_Total (summarizeImport_loop items s) = is_Total s"
  by (induction items arbitrary: s) (auto split: import_status.splits)

lemma length_import_loop: "length (snd (snd (import_loop sy flt dry u ex i seen ins st w))) = length ins"
proof (induction ins arbitrary: i seen st w)
  case (Cons inp ins)
  obtain st1 w1 seen1 item where r: "import_step sy flt dry u ex i seen inp st w = (st1, w1, seen1, item)"
    by (cases "import_step sy flt dry u ex i seen inp st w") auto
  obtain st2 w2 items where l: "import_loop sy flt dry u ex (Suc i) seen1 ins st1 w1 = (st2, w2, items)"
    by (cases "import_loop sy flt dry u ex (Suc i) seen1 ins st1 w1") auto
  from Cons.IH[of "Suc i" seen1 st1 w1] show ?case by (simp add: r l)
qed simp

text \<open>
  An import report accounts for every input: one item each, and the summary's importable,
  conflicting and invalid counts add up to the total.
\<close>

theorem import_report_complete:
  "case ImportProxies sy flt inputs dry u st w of (st', w', sm, items) \<Rightarrow>
     length items = length inputs \<and> is_Total sm = length inputs \<and>
     is_Importable sm + is_Conflicts sm + is_Invalid sm = is_Total sm"
proof -
  let ?ex = "ExistingHostnames (flt ''ExistingHostnames'') (map px_Hostname (List.map_filter ii_Proxy inputs)) st"
  obtain st1 w1 items where l: "import_loop sy flt dry u ?ex 0 [] inputs st w = (st1, w1, items)"
    by (cases "import_loop sy flt dry u ?ex 0 [] inputs st w") auto
  have "length items = length inputs"
    using length_import_loop[of sy flt dry u ?ex 0 "[]" inputs st w] by (simp add: l)
  then show ?thesis
    using summarizeImport_loop_sum[of items] by (simp add: ImportProxies_def l summarizeImport_def)
qed

end
