(* ===== verification/Acl_Policy.thy ===== *)
theory Acl_Policy
  imports Demo_Store
begin

text \<open>
  The policy that access verification implements, stated over sets of groups and rules with no
  loops, phases or order, and the proof that the code of \<open>Acl_Verify\<close> decides exactly this
  policy. The safety properties of the component are consequences.
\<close>

section \<open>The abstract policy\<close>

definition rule_hits :: "ACLIPRule \<Rightarrow> go_ip \<Rightarrow> bool" where
  "rule_hits r ip \<longleftrightarrow> (\<exists>n. rule_network r = Some n \<and> IPNet_Contains n ip)"

definition cidr_hits :: "ACLIPRule \<Rightarrow> go_ip \<Rightarrow> bool" where
  "cidr_hits r ip \<longleftrightarrow> (\<exists>n. ParseCIDR (ir_CIDR r) = Some n \<and> IPNet_Contains n ip)"

definition ip_denied :: "ACLGroup set \<Rightarrow> go_ip \<Rightarrow> bool" where
  "ip_denied G ip \<longleftrightarrow> (\<exists>g \<in> G. \<exists>r \<in> set (gr_IPRules g). ir_RuleType r = ''deny'' \<and> rule_hits r ip)"

definition ip_bypassed :: "ACLGroup set \<Rightarrow> go_ip \<Rightarrow> bool" where
  "ip_bypassed G ip \<longleftrightarrow>
     (\<exists>g \<in> G. gr_CombinationMode g = ''ip_bypass'' \<and>
        (\<exists>r \<in> set (gr_IPRules g). ir_RuleType r \<in> {''bypass'', ''allow''} \<and> rule_hits r ip))"

definition session_admits ::
  "verify_env \<Rightarrow> acl_store \<Rightarrow> ACLGroup \<Rightarrow> ACLVerifyRequest \<Rightarrow> bool" where
  "session_admits env st g rq \<longleftrightarrow>
     (\<exists>w s. gr_WaygatesAuth g = Some w \<and> rq_SessionToken rq \<noteq> [] \<and>
        GetSessionByToken (ve_flt env) (rq_SessionToken rq) st = Ok s \<and>
        ve_now env \<le> se_ExpiresAt s \<and>
        (case (se_Email s, se_Provider s) of
           (Some email, Some provider) \<Rightarrow>
             isOAuthUserAllowed email provider w (gr_OAuthProviderRestrictions g)
         | _ \<Rightarrow> wa_Enabled w \<and> (\<exists>u. se_User s = Some u \<and> isUserAllowedByWaygatesAuth u w)))"

definition basic_admits :: "verify_env \<Rightarrow> ACLGroup \<Rightarrow> ACLVerifyRequest \<Rightarrow> bool" where
  "basic_admits env g rq \<longleftrightarrow>
     \<not> groupHasSecureAuth g \<and>
     (\<exists>c. rq_BasicAuth rq = Some c \<and>
        (\<exists>u \<in> set (gr_BasicAuthUsers g).
           bu_Username u = bc_Username c \<and> ve_compare env (bu_PasswordHash u) (bc_Password c)))"

text \<open>
  What a group admits once no deny rule applies: credentials in every mode, an address listed
  by an allow or bypass rule in mode \<open>any\<close>, anyone in mode \<open>all\<close> when the group configures no
  authentication at all.
\<close>

definition group_admits ::
  "verify_env \<Rightarrow> acl_store \<Rightarrow> ACLGroup \<Rightarrow> ACLVerifyRequest \<Rightarrow> go_ip \<Rightarrow> bool" where
  "group_admits env st g rq ip \<longleftrightarrow>
     gr_CombinationMode g \<in> {''any'', ''all'', ''ip_bypass''} \<and>
     (session_admits env st g rq \<or> basic_admits env g rq \<or>
      (gr_CombinationMode g = ''any'' \<and>
         (\<exists>r \<in> set (gr_IPRules g). ir_RuleType r \<in> {''bypass'', ''allow''} \<and> cidr_hits r ip)) \<or>
      (gr_CombinationMode g = ''all'' \<and> \<not> hasAuthRequirements g))"

definition policy_allows ::
  "verify_env \<Rightarrow> acl_store \<Rightarrow> ACLGroup set \<Rightarrow> ACLVerifyRequest \<Rightarrow> bool" where
  "policy_allows env st G rq \<longleftrightarrow>
     G = {} \<or>
     (\<exists>ip. parseRemoteIP (rq_RemoteIP rq) = Some ip \<and> \<not> ip_denied G ip \<and>
        (ip_bypassed G ip \<or> (\<exists>g \<in> G. group_admits env st g rq ip)))"

text \<open>The groups that govern a path of a proxy.\<close>

definition applicable_groups :: "acl_store \<Rightarrow> int \<Rightarrow> string \<Rightarrow> ACLGroup set" where
  "applicable_groups st proxyID path =
     {preload_group st g | a g.
        a \<in> set (tb_rows (st_assignments st)) \<and> pa_ProxyID a = proxyID \<and> pa_Enabled a \<and>
        matchPath (pa_PathPattern a) path \<and>
        tb_First (\<lambda>g. gr_ID g = pa_ACLGroupID a) (st_groups st) = Some g}"

section \<open>The loops decide membership\<close>

lemma rule_hits_case:
  "rule_hits r ip \<longleftrightarrow>
     (case rule_network r of None \<Rightarrow> False | Some n \<Rightarrow> IPNet_Contains n ip)"
  by (auto simp: rule_hits_def split: option.splits)

lemma cidr_hits_case:
  "cidr_hits r ip \<longleftrightarrow>
     (case ParseCIDR (ir_CIDR r) of None \<Rightarrow> False | Some n \<Rightarrow> IPNet_Contains n ip)"
  by (auto simp: cidr_hits_def split: option.splits)

lemma cidr_hits_rule_hits: "cidr_hits r ip \<Longrightarrow> rule_hits r ip"
  by (auto simp: cidr_hits_def rule_hits_def rule_network_def)

lemma deny_rules_match_iff:
  "deny_rules_match rs ip \<longleftrightarrow> (\<exists>r \<in> set rs. ir_RuleType r = ''deny'' \<and> rule_hits r ip)"
  by (induction rs) (auto simp: rule_hits_case acl_const_defs split: option.splits)

lemma bypass_rules_match_iff:
  "bypass_rules_match rs ip \<longleftrightarrow>
     (\<exists>r \<in> set rs. ir_RuleType r \<in> {''bypass'', ''allow''} \<and> rule_hits r ip)"
  by (induction rs) (auto simp: rule_hits_case acl_const_defs split: option.splits)

lemma deny_loop_iff:
  "deny_loop rs ip \<longleftrightarrow> (\<exists>r \<in> set rs. ir_RuleType r = ''deny'' \<and> cidr_hits r ip)"
  by (induction rs) (auto simp: cidr_hits_case acl_const_defs split: option.splits)

lemma allow_loop_iff:
  "fst (allow_loop rs ip) \<in> {ipRuleAllow, ipRuleBypass} \<longleftrightarrow>
     (\<exists>r \<in> set rs. ir_RuleType r \<in> {''bypass'', ''allow''} \<and> cidr_hits r ip)"
  by (induction rs) (auto simp: cidr_hits_case acl_const_defs split: option.splits)

lemma allow_loop_not_deny: "fst (allow_loop rs ip) \<noteq> ipRuleDeny"
  by (induction rs) (auto split: option.splits)

lemma deny_groups_loop_iff:
  "deny_groups_loop gs ip \<noteq> None \<longleftrightarrow> ip_denied (set gs) ip"
  by (induction gs) (auto simp: ip_denied_def deny_rules_match_iff)

lemma bypass_groups_loop_iff:
  "bypass_groups_loop gs ip \<noteq> None \<longleftrightarrow> ip_bypassed (set gs) ip"
  by (induction gs) (auto simp: ip_bypassed_def bypass_rules_match_iff acl_const_defs)

lemma evaluateIPRules_parsed:
  "parseRemoteIP rip = Some ip \<Longrightarrow>
   fst (evaluateIPRules rs rip) = (if deny_loop rs ip then ipRuleDeny else fst (allow_loop rs ip))"
  by (simp add: evaluateIPRules_def)

section \<open>The branches of one group\<close>

lemma session_branch_results:
  "snd (session_branch env st g rq) = (if session_admits env st g rq then [True] else [])"
proof (cases "gr_WaygatesAuth g")
  case None
  then show ?thesis by (simp add: session_branch_def session_admits_def)
next
  case (Some w)
  show ?thesis
  proof (cases "GetSessionByToken (ve_flt env) (rq_SessionToken rq) st")
    case (Inl e)
    with Some show ?thesis by (simp add: session_branch_def session_admits_def)
  next
    case (Inr s)
    with Some show ?thesis
      by (cases "se_Email s"; cases "se_Provider s"; cases "se_User s")
         (auto simp: session_branch_def session_admits_def ACLSession_IsExpired_def Let_def)
  qed
qed

lemma session_branch_not_allowed [simp]: "\<not> ga_Allowed (fst (session_branch env st g rq))"
  by (auto simp: session_branch_def empty_result_def Let_def split: option.splits sum.splits)

lemma basic_branch_results:
  "basic_branch env g rq = (if basic_admits env g rq then [True] else [])"
  by (auto simp: basic_branch_def basic_admits_def list_ex_iff ACLBasicAuthUser_CheckPassword_def
      split: option.splits)

lemma evaluateGroupAuth_allowed:
  assumes ip: "parseRemoteIP (rq_RemoteIP rq) = Some ip"
    and nd: "\<not> deny_loop (gr_IPRules g) ip"
  shows "ga_Allowed (evaluateGroupAuth env st g rq) \<longleftrightarrow> group_admits env st g rq ip"
proof -
  have ev: "fst (evaluateIPRules (gr_IPRules g) (rq_RemoteIP rq)) = fst (allow_loop (gr_IPRules g) ip)"
    using evaluateIPRules_parsed[OF ip] nd by simp
  obtain res auths where sb: "session_branch env st g rq = (res, auths)" by fastforce
  have auths: "auths = (if session_admits env st g rq then [True] else [])"
    using session_branch_results[of env st g rq] by (simp add: sb)
  have na: "\<not> ga_Allowed res" using session_branch_not_allowed[of env st g rq] by (simp add: sb)
  show ?thesis
    using allow_loop_iff[of "gr_IPRules g" ip] allow_loop_not_deny[of "gr_IPRules g" ip]
    by (auto simp: evaluateGroupAuth_def ev sb auths na basic_branch_results group_admits_def
        acl_const_defs Let_def)
qed

lemma auth_loop_Inl_iff:
  "(\<exists>r. auth_loop env st rq lst gs = Inl r) \<longleftrightarrow>
   (\<exists>g \<in> set gs. ga_Allowed (evaluateGroupAuth env st g rq))"
  by (induction gs arbitrary: lst) (auto simp: Let_def)

lemma auth_loop_Inl:
  "auth_loop env st rq lst gs = Inl r \<Longrightarrow>
   \<exists>g \<in> set gs. r = evaluateGroupAuth env st g rq \<and> ga_Allowed r"
  by (induction gs arbitrary: lst) (auto simp: Let_def split: if_splits)

lemma not_denied_no_deny_loop:
  "\<not> ip_denied G ip \<Longrightarrow> g \<in> G \<Longrightarrow> \<not> deny_loop (gr_IPRules g) ip"
  by (auto simp: ip_denied_def deny_loop_iff dest: cidr_hits_rule_hits)

lemma evaluateUnionAccess_allowed_iff:
  assumes "groups \<noteq> []"
  shows "rs_Allowed (snd (evaluateUnionAccess env st groups rq)) \<longleftrightarrow>
         policy_allows env st (set groups) rq"
proof (cases "parseRemoteIP (rq_RemoteIP rq)")
  case None
  with assms show ?thesis
    by (simp add: evaluateUnionAccess_def checkIPDenyAcrossGroups_def policy_allows_def
        denied_response_def)
next
  case (Some ip)
  show ?thesis
  proof (cases "ip_denied (set groups) ip")
    case True
    with Some assms deny_groups_loop_iff[of groups ip] show ?thesis
      by (auto simp: evaluateUnionAccess_def checkIPDenyAcrossGroups_def policy_allows_def
          denied_response_def)
  next
    case False
    then have grp: "ga_Allowed (evaluateGroupAuth env st g rq) \<longleftrightarrow> group_admits env st g rq ip"
      if "g \<in> set groups" for g
      using evaluateGroupAuth_allowed[OF Some] not_denied_no_deny_loop that by blast
    have "rs_Allowed (snd (evaluateUnionAccess env st groups rq)) \<longleftrightarrow>
        ip_bypassed (set groups) ip \<or> (\<exists>r. auth_loop env st rq None groups = Inl r)"
      using False Some deny_groups_loop_iff[of groups ip] bypass_groups_loop_iff[of groups ip]
      by (auto simp: evaluateUnionAccess_def checkIPDenyAcrossGroups_def
          checkIPBypassAcrossGroups_def denied_response_def split: sum.splits option.splits prod.splits)
    then show ?thesis
      using False Some assms grp by (auto simp: auth_loop_Inl_iff policy_allows_def)
  qed
qed

section \<open>From the store to the groups\<close>

lemma set_collect_groups:
  "set (collect_groups as) = {g. \<exists>a \<in> set as. pa_Enabled a \<and> pa_ACLGroup a = Some g}"
  by (induction as) (auto simp: collect_groups_def List.map_filter_simps split: option.splits if_splits)

lemma collect_matching_applicable:
  "set (collect_groups (filterAssignmentsByPath
      (map (preload_assignment st) (sort_key pa_Priority
        (tb_Find (\<lambda>a. pa_ProxyID a = pid) (st_assignments st)))) path)) =
   applicable_groups st pid path"
  by (fastforce simp: set_collect_groups filterAssignmentsByPath_def applicable_groups_def
      preload_assignment_def)

lemma collect_groups_Nil [simp]: "collect_groups [] = []"
  by (simp add: collect_groups_def List.map_filter_simps)

text \<open>
  \<open>VerifyAccess\<close> without its three early exits, which all answer what the policy says of no group.
\<close>

lemma VerifyAccess_found:
  assumes "\<not> ve_flt env ''GetByHostname''" "\<not> ve_flt env ''GetProxyACLAssignments''"
    and "tb_First (\<lambda>p. px_Hostname p = rq_Host rq) (st_proxies st) = Some p"
  obtains groups where "set groups = applicable_groups st (px_ID p) (rq_Path rq)"
    and "VerifyAccess env rq st =
      (if groups = [] then (st, Ok (denied_response\<lparr>rs_Allowed := True\<rparr>))
       else (fst (evaluateUnionAccess env st groups rq),
             Ok (snd (evaluateUnionAccess env st groups rq))))"
proof -
  let ?as = "map (preload_assignment st) (sort_key pa_Priority
        (tb_Find (\<lambda>a. pa_ProxyID a = px_ID p) (st_assignments st)))"
  let ?gs = "collect_groups (filterAssignmentsByPath ?as (rq_Path rq))"
  have "VerifyAccess env rq st =
      (if ?gs = [] then (st, Ok (denied_response\<lparr>rs_Allowed := True\<rparr>))
       else (fst (evaluateUnionAccess env st ?gs rq), Ok (snd (evaluateUnionAccess env st ?gs rq))))"
    using assms
    by (auto simp: VerifyAccess_def Proxy_GetByHostname_def read_first_def GetProxyACLAssignments_def
        Let_def filterAssignmentsByPath_def split: prod.splits)
  with that collect_matching_applicable show ?thesis by metis
qed

lemma VerifyAccess_missing:
  assumes "\<not> ve_flt env ''GetByHostname''"
    and "tb_First (\<lambda>p. px_Hostname p = rq_Host rq) (st_proxies st) = None"
  shows "VerifyAccess env rq st =
    (st, Ok (denied_response\<lparr>rs_Reason := ''proxy not found for hostname''\<rparr>))"
  using assms by (simp add: VerifyAccess_def Proxy_GetByHostname_def read_first_def)

lemma demo_admins_apply:
  "preload_group demo_store (demo_group 1 ''admins'' ''any'') \<in> applicable_groups demo_store 1 path"
proof -
  have "matchPath ''/*'' path" by (simp add: matchPath_def)
  then show ?thesis
    by (auto simp: applicable_groups_def demo_store_def demo_assignment_def demo_group_def tb_First_def
        intro!: exI[of _ "demo_assignment 1 1 ''/*''"])
qed

section \<open>Properties\<close>

text \<open>
  Refinement: as long as the database answers, \<open>VerifyAccess\<close> returns a response, and it
  allows the request exactly when a proxy has the requested host name and the abstract policy
  allows the request for the groups assigned to that proxy whose path pattern matches.
\<close>

theorem VerifyAccess_refines_policy:
  assumes "\<not> ve_flt env ''GetByHostname''" "\<not> ve_flt env ''GetProxyACLAssignments''"
  shows "\<exists>st' r. VerifyAccess env rq st = (st', Ok r) \<and>
    (rs_Allowed r \<longleftrightarrow>
      (\<exists>p. tb_First (\<lambda>p. px_Hostname p = rq_Host rq) (st_proxies st) = Some p \<and>
           policy_allows env st (applicable_groups st (px_ID p) (rq_Path rq)) rq))"
proof (cases "tb_First (\<lambda>p. px_Hostname p = rq_Host rq) (st_proxies st)")
  case None
  with VerifyAccess_missing[OF assms(1) None] show ?thesis by (simp add: denied_response_def)
next
  case (Some p)
  obtain groups where gs: "set groups = applicable_groups st (px_ID p) (rq_Path rq)"
    and v: "VerifyAccess env rq st =
      (if groups = [] then (st, Ok (denied_response\<lparr>rs_Allowed := True\<rparr>))
       else (fst (evaluateUnionAccess env st groups rq),
             Ok (snd (evaluateUnionAccess env st groups rq))))"
    using VerifyAccess_found[OF assms Some] .
  show ?thesis
    using gs v Some evaluateUnionAccess_allowed_iff[of groups env st rq]
    by (cases "groups = []") (auto simp: policy_allows_def)
qed

theorem VerifyAccess_refines_policy_witness:
  "\<exists>st' r. VerifyAccess (demo_env 50) (demo_request ''8.8.8.8'' ''/x'' ''tok'') demo_store = (st', Ok r) \<and>
    (rs_Allowed r \<longleftrightarrow>
      (\<exists>p. tb_First (\<lambda>p. px_Hostname p = rq_Host (demo_request ''8.8.8.8'' ''/x'' ''tok''))
             (st_proxies demo_store) = Some p \<and>
           policy_allows (demo_env 50) demo_store
             (applicable_groups demo_store (px_ID p) (rq_Path (demo_request ''8.8.8.8'' ''/x'' ''tok'')))
             (demo_request ''8.8.8.8'' ''/x'' ''tok'')))"
  by (rule VerifyAccess_refines_policy) simp_all

text \<open>
  Deny rules take precedence over everything: if the client address is hit by a deny rule of
  any group that governs the path, access is refused outright, whatever session or credentials
  the request carries and whatever the other groups allow, and no login redirect is offered.
\<close>

theorem deny_rule_blocks:
  assumes "\<not> ve_flt env ''GetByHostname''" "\<not> ve_flt env ''GetProxyACLAssignments''"
    and "tb_First (\<lambda>p. px_Hostname p = rq_Host rq) (st_proxies st) = Some p"
    and "g \<in> applicable_groups st (px_ID p) (rq_Path rq)"
    and "r \<in> set (gr_IPRules g)" "ir_RuleType r = ''deny''"
    and "parseRemoteIP (rq_RemoteIP rq) = Some ip" "rule_hits r ip"
  shows "VerifyAccess env rq st =
    (st, Ok (denied_response\<lparr>rs_Reason := ''access denied by IP deny rule''\<rparr>))"
proof -
  obtain groups where gs: "set groups = applicable_groups st (px_ID p) (rq_Path rq)"
    and v: "VerifyAccess env rq st =
      (if groups = [] then (st, Ok (denied_response\<lparr>rs_Allowed := True\<rparr>))
       else (fst (evaluateUnionAccess env st groups rq),
             Ok (snd (evaluateUnionAccess env st groups rq))))"
    using VerifyAccess_found[OF assms(1-3)] .
  from assms(4-6,8) gs have "ip_denied (set groups) ip" by (auto simp: ip_denied_def)
  then have "checkIPDenyAcrossGroups groups (rq_RemoteIP rq) \<noteq> None"
    using deny_groups_loop_iff[of groups ip] assms(7) by (simp add: checkIPDenyAcrossGroups_def)
  moreover from gs assms(4) have "groups \<noteq> []" by auto
  ultimately show ?thesis using v by (simp add: evaluateUnionAccess_def)
qed

theorem deny_rule_blocks_witness:
  "VerifyAccess (demo_env 50) (demo_request ''10.1.2.3'' ''/x'' ''tok'') demo_store =
    (demo_store, Ok (denied_response\<lparr>rs_Reason := ''access denied by IP deny rule''\<rparr>))"
proof (rule deny_rule_blocks)
  show "preload_group demo_store (demo_group 1 ''admins'' ''any'') \<in>
      applicable_groups demo_store (px_ID demo_proxy) (rq_Path (demo_request ''10.1.2.3'' ''/x'' ''tok''))"
    by (simp add: demo_admins_apply)
  show "demo_rule 1 1 ''deny'' ''10.0.0.0/8'' \<in>
      set (gr_IPRules (preload_group demo_store (demo_group 1 ''admins'' ''any'')))"
    by (simp add: preload_group_def demo_store_def demo_group_def demo_rule_def)
  show "parseRemoteIP (rq_RemoteIP (demo_request ''10.1.2.3'' ''/x'' ''tok'')) = Some (IP16 0xffff0a010203)"
    by code_simp
  show "rule_hits (demo_rule 1 1 ''deny'' ''10.0.0.0/8'') (IP16 0xffff0a010203)"
    unfolding rule_hits_case by code_simp
qed (simp_all add: demo_rule_def)

text \<open>
  Fail closed: when at least one group governs the path, a client address that cannot be
  parsed is refused.
\<close>

theorem unparseable_ip_blocks:
  assumes "\<not> ve_flt env ''GetByHostname''" "\<not> ve_flt env ''GetProxyACLAssignments''"
    and "tb_First (\<lambda>p. px_Hostname p = rq_Host rq) (st_proxies st) = Some p"
    and "applicable_groups st (px_ID p) (rq_Path rq) \<noteq> {}"
    and "parseRemoteIP (rq_RemoteIP rq) = None"
  shows "VerifyAccess env rq st =
    (st, Ok (denied_response\<lparr>rs_Reason := ''access denied by IP deny rule''\<rparr>))"
proof -
  obtain groups where gs: "set groups = applicable_groups st (px_ID p) (rq_Path rq)"
    and v: "VerifyAccess env rq st =
      (if groups = [] then (st, Ok (denied_response\<lparr>rs_Allowed := True\<rparr>))
       else (fst (evaluateUnionAccess env st groups rq),
             Ok (snd (evaluateUnionAccess env st groups rq))))"
    using VerifyAccess_found[OF assms(1-3)] .
  from gs assms(4) have "groups \<noteq> []" by auto
  with v assms(5) show ?thesis by (simp add: evaluateUnionAccess_def checkIPDenyAcrossGroups_def)
qed

theorem unparseable_ip_blocks_witness:
  "VerifyAccess (demo_env 50) (demo_request ''not-an-ip'' ''/x'' ''tok'') demo_store =
    (demo_store, Ok (denied_response\<lparr>rs_Reason := ''access denied by IP deny rule''\<rparr>))"
proof (rule unparseable_ip_blocks)
  show "applicable_groups demo_store (px_ID demo_proxy)
      (rq_Path (demo_request ''not-an-ip'' ''/x'' ''tok'')) \<noteq> {}"
    using demo_admins_apply by auto
  show "parseRemoteIP (rq_RemoteIP (demo_request ''not-an-ip'' ''/x'' ''tok'')) = None" by code_simp
qed simp_all

text \<open>
  The decision depends on the set of groups only: neither the order in which the assignments
  are returned nor a duplicate changes it.
\<close>

theorem union_order_irrelevant:
  assumes "set gs = set hs"
  shows "rs_Allowed (snd (evaluateUnionAccess env st gs rq)) \<longleftrightarrow>
         rs_Allowed (snd (evaluateUnionAccess env st hs rq))"
proof (cases "gs = []")
  case False
  with assms have "hs \<noteq> []" by auto
  with False assms show ?thesis by (simp add: evaluateUnionAccess_allowed_iff)
qed (use assms in simp)

theorem union_order_irrelevant_witness:
  "rs_Allowed (snd (evaluateUnionAccess (demo_env 50) demo_store
      [demo_group 1 ''a'' ''any'', demo_group 2 ''b'' ''all''] (demo_request ''8.8.8.8'' ''/'' []))) \<longleftrightarrow>
   rs_Allowed (snd (evaluateUnionAccess (demo_env 50) demo_store
      [demo_group 2 ''b'' ''all'', demo_group 1 ''a'' ''any''] (demo_request ''8.8.8.8'' ''/'' [])))"
  by (rule union_order_irrelevant) auto

text \<open>
  Union semantics are monotone: adding a group without deny rules to a non-empty collection
  never takes access away.
\<close>

theorem union_monotone:
  assumes "gs \<noteq> []" and "rs_Allowed (snd (evaluateUnionAccess env st gs rq))"
    and "\<forall>r \<in> set (gr_IPRules g). ir_RuleType r \<noteq> ''deny''"
  shows "rs_Allowed (snd (evaluateUnionAccess env st (g # gs) rq))"
proof -
  from assms(1,2) obtain ip where ip: "parseRemoteIP (rq_RemoteIP rq) = Some ip"
    "\<not> ip_denied (set gs) ip"
    "ip_bypassed (set gs) ip \<or> (\<exists>g \<in> set gs. group_admits env st g rq ip)"
    by (auto simp: evaluateUnionAccess_allowed_iff policy_allows_def)
  from ip(2) assms(3) have "\<not> ip_denied (set (g # gs)) ip" by (auto simp: ip_denied_def)
  moreover from ip(3) have "ip_bypassed (set (g # gs)) ip \<or>
      (\<exists>g \<in> set (g # gs). group_admits env st g rq ip)"
    by (auto simp: ip_bypassed_def)
  ultimately show ?thesis using ip(1) by (auto simp: evaluateUnionAccess_allowed_iff policy_allows_def)
qed


theorem union_monotone_witness:
  "rs_Allowed (snd (evaluateUnionAccess (demo_env 50) demo_store
      [demo_group 1 ''a'' ''any'', demo_group 2 ''b'' ''all''] (demo_request ''8.8.8.8'' ''/'' [])))"
proof (rule union_monotone)
  show "rs_Allowed (snd (evaluateUnionAccess (demo_env 50) demo_store
      [demo_group 2 ''b'' ''all''] (demo_request ''8.8.8.8'' ''/'' [])))" by code_simp
qed (simp_all add: demo_group_def)

end
