(* ===== verification/Acl_Safety.thy ===== *)
theory Acl_Safety
  imports Acl_Policy
begin

text \<open>
  Further guarantees of access verification: the shape of the response, the effect on the store,
  expired sessions, what the networks of IP rules contain, and two places where the combination
  modes and the rule forms do less than their names say.
\<close>

section \<open>The response\<close>

lemma evaluateUnionAccess_store:
  "fst (evaluateUnionAccess env st gs rq) \<in> {st, st\<lparr>st_branding := Some default_branding\<rparr>}"
proof -
  have "fst (GetBranding_repo (ve_flt env) st) \<in> {st, st\<lparr>st_branding := Some default_branding\<rparr>}"
    by (simp add: GetBranding_repo_def split: option.splits)
  moreover have "fst (evaluateUnionAccess env st gs rq) \<in> {st, fst (GetBranding_repo (ve_flt env) st)}"
    by (simp add: evaluateUnionAccess_def split: sum.split option.split prod.split)
  ultimately show ?thesis by (metis insert_iff singletonD)
qed

definition response_consistent :: "ACLVerifyResponse \<Rightarrow> bool" where
  "response_consistent r \<longleftrightarrow>
     (rs_Allowed r \<longrightarrow> \<not> rs_RequiresAuth r \<and> \<not> rs_AuthenticatedButUnauthorized r) \<and>
     \<not> (rs_RequiresAuth r \<and> rs_AuthenticatedButUnauthorized r) \<and>
     (rs_Headers r \<noteq> [] \<longrightarrow> rs_Allowed r) \<and>
     (rs_RedirectURL r \<noteq> [] \<longrightarrow> rs_RequiresAuth r) \<and>
     (rs_AuthenticatedButUnauthorized r \<longleftrightarrow> rs_DenialDetails r \<noteq> []) \<and>
     (rs_Allowed r \<longleftrightarrow> rs_Reason r = [])"

lemma evaluateUnionAccess_consistent: "response_consistent (snd (evaluateUnionAccess env st gs rq))"
  by (auto simp: evaluateUnionAccess_def response_consistent_def denied_response_def
      split: sum.splits option.splits prod.splits)

lemma VerifyAccess_cases:
  obtains (err) e where "VerifyAccess env rq st = (st, Err e)"
  | (fixed) r where "VerifyAccess env rq st = (st, Ok r)"
      "r = denied_response\<lparr>rs_Allowed := True\<rparr> \<or>
       r = denied_response\<lparr>rs_Reason := ''proxy not found for hostname''\<rparr>"
  | (groups) gs where "VerifyAccess env rq st =
      (fst (evaluateUnionAccess env st gs rq), Ok (snd (evaluateUnionAccess env st gs rq)))"
proof (cases "Proxy_GetByHostname (ve_flt env) (rq_Host rq) st")
  case (Inl e)
  with err fixed show ?thesis by (cases e) (simp_all add: VerifyAccess_def)
next
  case p: (Inr p)
  show ?thesis
  proof (cases "GetProxyACLAssignments (ve_flt env) (px_ID p) st")
    case (Inl e)
    with p err show ?thesis by (simp add: VerifyAccess_def)
  next
    case (Inr as)
    let ?gs = "collect_groups (filterAssignmentsByPath as (rq_Path rq))"
    have "VerifyAccess env rq st =
        (if ?gs = [] then (st, Ok (denied_response\<lparr>rs_Allowed := True\<rparr>))
         else (fst (evaluateUnionAccess env st ?gs rq), Ok (snd (evaluateUnionAccess env st ?gs rq))))"
      using p Inr by (auto simp: VerifyAccess_def Let_def filterAssignmentsByPath_def split: prod.splits)
    with fixed groups show ?thesis by (cases "?gs = []") auto
  qed
qed

text \<open>
  Every response is one consistent verdict: allowed, login required, authenticated but
  unauthorised, or plainly denied, never two of them; identity headers are only set on an allowed
  request, a redirect only with a login demand, and denial details exactly for an authenticated
  user who is not authorised, so that such a user is never sent back to the login page.
\<close>

theorem VerifyAccess_consistent:
  assumes "VerifyAccess env rq st = (st', Ok r)"
  shows "response_consistent r"
proof (cases rule: VerifyAccess_cases[of env rq st])
  case (fixed r')
  with assms show ?thesis by (auto simp: response_consistent_def denied_response_def)
next
  case (groups gs)
  with assms evaluateUnionAccess_consistent show ?thesis by auto
qed (use assms in auto)

theorem VerifyAccess_consistent_witness:
  "response_consistent (denied_response\<lparr>rs_Allowed := True\<rparr>)"
proof (rule VerifyAccess_consistent)
  show "VerifyAccess (demo_env 50) (demo_request ''172.16.0.9'' ''/partner/a'' []) demo_store =
    (demo_store, Ok (denied_response\<lparr>rs_Allowed := True\<rparr>))" by code_simp
qed

text \<open>
  Verification is read-only on everything that access control depends on: the only write it
  can make is creating the missing default branding row.
\<close>

theorem VerifyAccess_store_frame:
  "fst (VerifyAccess env rq st) \<in> {st, st\<lparr>st_branding := Some default_branding\<rparr>}"
  using evaluateUnionAccess_store by (cases rule: VerifyAccess_cases[of env rq st]) auto

text \<open>
  \<open>VerifyAccess\<close> fails with an error only when one of its two leading queries fails in the
  database; every other situation, an unreadable session included, yields a verdict.
\<close>

theorem VerifyAccess_error_only_db:
  assumes "snd (VerifyAccess env rq st) = Err e"
  shows "(ve_flt env ''GetByHostname'' \<and> e = GettingProxyByHostname DBFault) \<or>
         (ve_flt env ''GetProxyACLAssignments'' \<and> e = GettingProxyACLAssignments DBFault)"
  using assms
  by (auto simp: VerifyAccess_def Proxy_GetByHostname_def read_first_def GetProxyACLAssignments_def
      Let_def split: if_splits option.splits prod.splits)

theorem VerifyAccess_error_only_db_witness:
  "(ve_flt ((demo_env 5)\<lparr>ve_flt := \<lambda>c. c = ''GetByHostname''\<rparr>) ''GetByHostname'' \<and>
      GettingProxyByHostname DBFault = GettingProxyByHostname DBFault) \<or>
   (ve_flt ((demo_env 5)\<lparr>ve_flt := \<lambda>c. c = ''GetByHostname''\<rparr>) ''GetProxyACLAssignments'' \<and>
      GettingProxyByHostname DBFault = GettingProxyACLAssignments DBFault)"
proof (rule VerifyAccess_error_only_db)
  show "snd (VerifyAccess ((demo_env 5)\<lparr>ve_flt := \<lambda>c. c = ''GetByHostname''\<rparr>)
      (demo_request ''8.8.8.8'' ''/'' []) demo_store) = Err (GettingProxyByHostname DBFault)"
    by (simp add: VerifyAccess_def Proxy_GetByHostname_def read_first_def)
qed

section \<open>Expired sessions\<close>

definition token_dead :: "verify_env \<Rightarrow> acl_store \<Rightarrow> string \<Rightarrow> bool" where
  "token_dead env st token \<longleftrightarrow>
     (\<forall>s \<in> set (tb_rows (st_sessions st)). se_SessionToken s = token \<longrightarrow> se_ExpiresAt s < ve_now env)"

lemma session_branch_dead:
  assumes "token_dead env st (rq_SessionToken rq)"
  shows "session_branch env st g rq = session_branch env st g (rq\<lparr>rq_SessionToken := []\<rparr>)"
  using assms
  by (fastforce simp: session_branch_def GetSessionByToken_def read_first_def token_dead_def
      ACLSession_IsExpired_def dest: tb_First_Some split: option.splits)

lemma evaluateGroupAuth_dead:
  assumes "token_dead env st (rq_SessionToken rq)"
  shows "evaluateGroupAuth env st g rq = evaluateGroupAuth env st g (rq\<lparr>rq_SessionToken := []\<rparr>)"
proof -
  have "basic_branch env g (rq\<lparr>rq_SessionToken := []\<rparr>) = basic_branch env g rq"
    by (simp add: basic_branch_def)
  with session_branch_dead[OF assms, of g] show ?thesis
    by (simp only: evaluateGroupAuth_def ACLVerifyRequest.simps ACLVerifyRequest.ext_inject)
       (simp add: Let_def)
qed

lemma auth_loop_dead:
  assumes "token_dead env st (rq_SessionToken rq)"
  shows "auth_loop env st rq lst gs = auth_loop env st (rq\<lparr>rq_SessionToken := []\<rparr>) lst gs"
  using evaluateGroupAuth_dead[OF assms] by (induction gs arbitrary: lst) (simp_all add: Let_def)

text \<open>
  A token whose session has expired, or that belongs to no session, is worth nothing: the
  whole outcome is the same as for the request without a token.
\<close>

theorem expired_session_is_no_session:
  assumes "token_dead env st (rq_SessionToken rq)"
  shows "VerifyAccess env rq st = VerifyAccess env (rq\<lparr>rq_SessionToken := []\<rparr>) st"
proof -
  have "evaluateUnionAccess env st gs rq = evaluateUnionAccess env st gs (rq\<lparr>rq_SessionToken := []\<rparr>)" for gs
    using auth_loop_dead[OF assms]
    by (simp add: evaluateUnionAccess_def split: sum.splits option.splits prod.splits)
  then show ?thesis
    by (simp add: VerifyAccess_def Let_def split: sum.split db_error.split)
qed

theorem expired_session_is_no_session_witness:
  "token_dead (demo_env 150) demo_store ''tok'' \<and>
   VerifyAccess (demo_env 150) (demo_request ''8.8.8.8'' ''/x'' ''tok'') demo_store =
     VerifyAccess (demo_env 150)
       (demo_request ''8.8.8.8'' ''/x'' ''tok''\<lparr>rq_SessionToken := []\<rparr>) demo_store"
proof -
  have h: "token_dead (demo_env 150) demo_store ''tok''"
    by (simp add: token_dead_def demo_store_def demo_session_def)
  have "rq_SessionToken (demo_request ''8.8.8.8'' ''/x'' ''tok'') = ''tok''"
    by (simp add: demo_request_def)
  with h expired_session_is_no_session show ?thesis by metis
qed

section \<open>What the networks of IP rules contain\<close>

lemma IPNet_Contains_v4 [simp]:
  "IPNet_Contains \<lparr>net_IP = IP4 a, net_Mask = IP4 m\<rparr> (IP16 w) \<longleftrightarrow>
     (\<exists>b. To4 (IP16 w) = Some b \<and> a AND m = b AND m)"
  by (simp add: IPNet_Contains_def networkNumberAndMask_def)

lemma parseRemoteIP_IP16: "parseRemoteIP r = Some ip \<Longrightarrow> \<exists>w. ip = IP16 w"
  by (auto simp: parseRemoteIP_def dest: ParseIP_IP16 split: option.splits)

text \<open>
  The network made of a single address, IPv4 or IPv6, contains that address and no other.
\<close>

theorem singleIPToNetwork_exact:
  assumes "ParseIP s = Some a" "parseRemoteIP r = Some ip"
  shows "\<exists>n. singleIPToNetwork s = Some n \<and> (IPNet_Contains n ip \<longleftrightarrow> ip = a)"
proof -
  obtain u w where u: "a = IP16 u" and w: "ip = IP16 w"
    using assms ParseIP_IP16 parseRemoteIP_IP16 by blast
  show ?thesis
  proof (cases "To4 a")
    case None
    with assms u w show ?thesis
      by (auto simp: singleIPToNetwork_def CIDRMask_def IPNet_Contains_def networkNumberAndMask_def
          Let_def split: if_splits)
  next
    case (Some v)
    then have ua: "u = map4in6 v" using u To4_IP16_eq_iff by blast
    have "(\<exists>b. To4 (IP16 w) = Some b \<and> b = v) \<longleftrightarrow> w = u"
      using To4_IP16_eq_iff[of w v] ua by (auto simp del: To4.simps)
    with assms u w Some show ?thesis
      by (auto simp: singleIPToNetwork_def CIDRMask_def IPNet_Contains_def networkNumberAndMask_def
          Let_def simp del: To4.simps split: option.splits)
  qed
qed

theorem singleIPToNetwork_exact_witness:
  "\<exists>n. singleIPToNetwork ''172.16.0.9'' = Some n \<and>
     (IPNet_Contains n (IP16 0xffffac100009) \<longleftrightarrow> IP16 0xffffac100009 = IP16 0xffffac100009)"
proof (rule singleIPToNetwork_exact)
  show "ParseIP ''172.16.0.9'' = Some (IP16 0xffffac100009)" by code_simp
  show "parseRemoteIP ''172.16.0.9:443'' = Some (IP16 0xffffac100009)" by code_simp
qed

text \<open>
  An IPv4 rule \<open>a/k\<close> parses for every \<open>k\<close> up to 32, and it matches exactly the IPv4
  clients whose leading \<open>k\<close> bits agree with those of \<open>a\<close>, and no IPv6 client.
\<close>

theorem ipv4_cidr_contains:
  assumes "ParseAddr a = Some (Addr4 v)" "CHR ''/'' \<notin> set a" "dtoi m = Some (int k)" "k \<le> 32"
  shows "\<exists>n. ParseCIDR (a @ ''/'' @ m) = Some n \<and>
    (\<forall>w. IPNet_Contains n (IP16 w) \<longleftrightarrow>
       (\<exists>b. To4 (IP16 w) = Some b \<and> drop_bit (32 - k) b = drop_bit (32 - k) v))"
proof -
  have cut: "Cut (CHR ''/'') (a @ ''/'' @ m) = Some (a, m)"
    using assms(2) by (induction a) (auto simp: Cut_def)
  have p: "ParseCIDR (a @ ''/'' @ m) = Some \<lparr>net_IP = IP4 (v AND mask4 k), net_Mask = IP4 (mask4 k)\<rparr>"
    unfolding ParseCIDR_def cut
    using assms by (simp add: CIDRMask_def ip_mask_def del: To4.simps)
  have "v AND mask4 k AND mask4 k = b AND mask4 k \<longleftrightarrow> drop_bit (32 - k) b = drop_bit (32 - k) v" for b
    using and_high_mask_eq_iff[of k v b] assms(4)
    by (auto simp: mask4_def and.assoc)
  with p show ?thesis by (auto simp: and.assoc simp del: To4.simps)
qed

theorem ipv4_cidr_contains_witness:
  "\<exists>n. ParseCIDR (''10.0.0.0'' @ ''/'' @ ''8'') = Some n \<and>
    (\<forall>w. IPNet_Contains n (IP16 w) \<longleftrightarrow>
       (\<exists>b. To4 (IP16 w) = Some b \<and> drop_bit (32 - 8) b = drop_bit (32 - 8) (0x0a000000 :: 32 word)))"
proof (rule ipv4_cidr_contains)
  show "ParseAddr ''10.0.0.0'' = Some (Addr4 0x0a000000)" by code_simp
  show "dtoi ''8'' = Some (int 8)" by code_simp
qed simp_all

section \<open>Combination modes and rule forms that do less than their names say\<close>

text \<open>
  In mode \<open>all\<close> a group grants access as soon as one credential is accepted, or without any
  when it requires none and no deny rule matches: the other configured methods need not pass, and
  its allow rules are never required to match.
\<close>

theorem all_mode_single_credential:
  assumes "gr_CombinationMode g = ''all''"
  shows "ga_Allowed (evaluateGroupAuth env st g rq) \<longleftrightarrow>
    session_admits env st g rq \<or> basic_admits env g rq \<or>
    (\<not> hasAuthRequirements g \<and> fst (evaluateIPRules (gr_IPRules g) (rq_RemoteIP rq)) \<noteq> ipRuleDeny)"
proof -
  obtain res auths where sb: "session_branch env st g rq = (res, auths)" by fastforce
  have auths: "auths = (if session_admits env st g rq then [True] else [])"
    using session_branch_results[of env st g rq] by (simp add: sb)
  have na: "\<not> ga_Allowed res" using session_branch_not_allowed[of env st g rq] by (simp add: sb)
  show ?thesis
    using assms by (simp add: evaluateGroupAuth_def sb auths na basic_branch_results acl_const_defs Let_def)
qed

theorem all_mode_single_credential_witness:
  "ga_Allowed (evaluateGroupAuth (demo_env 50) demo_store (demo_group 2 ''b'' ''all'')
      (demo_request ''8.8.8.8'' ''/'' [])) \<longleftrightarrow>
    session_admits (demo_env 50) demo_store (demo_group 2 ''b'' ''all'') (demo_request ''8.8.8.8'' ''/'' []) \<or>
    basic_admits (demo_env 50) (demo_group 2 ''b'' ''all'') (demo_request ''8.8.8.8'' ''/'' []) \<or>
    (\<not> hasAuthRequirements (demo_group 2 ''b'' ''all'') \<and>
     fst (evaluateIPRules (gr_IPRules (demo_group 2 ''b'' ''all''))
       (rq_RemoteIP (demo_request ''8.8.8.8'' ''/'' []))) \<noteq> ipRuleDeny)"
  by (rule all_mode_single_credential) (simp add: demo_group_def)

text \<open>
  The per-group rule evaluation reads CIDR notation only: rules that name single addresses,
  which \<open>AddIPRule\<close> accepts and which the cross-group deny and bypass checks honour, never
  match there, so in mode \<open>any\<close> an allow rule for one address grants nothing.
\<close>

theorem single_address_rules_inert:
  assumes "\<forall>r \<in> set rules. ParseCIDR (ir_CIDR r) = None"
  shows "evaluateIPRules rules remoteIP = (ipRuleNoMatch, False)"
proof -
  have "allow_loop rules ip = (ipRuleNoMatch, False) \<and> \<not> deny_loop rules ip" for ip
    using assms by (induction rules) auto
  then show ?thesis by (simp add: evaluateIPRules_def split: option.split)
qed

theorem single_address_rules_inert_witness:
  "singleIPToNetwork ''172.16.0.9'' \<noteq> None \<and>
   evaluateIPRules [demo_rule 1 1 ''allow'' ''172.16.0.9''] ''172.16.0.9'' = (ipRuleNoMatch, False)"
proof
  show "singleIPToNetwork ''172.16.0.9'' \<noteq> None" by code_simp
  have "ParseCIDR ''172.16.0.9'' = None" by code_simp
  then show "evaluateIPRules [demo_rule 1 1 ''allow'' ''172.16.0.9''] ''172.16.0.9'' = (ipRuleNoMatch, False)"
    by (intro single_address_rules_inert) (simp add: demo_rule_def)
qed

end
