(* ===== verification/Acl_Reach.thy ===== *)
theory Acl_Reach
  imports Proxy_Safety Acl_Safety
begin

text \<open>
  The program as a transition system over the database: one step is one call of an access-control
  or proxy operation, with any arguments, any pattern of database faults and any outcome of the
  sync layer, or the registration of users. The invariant of the tables holds in every reachable
  state; the properties below rest on it.
\<close>

section \<open>Operations as data\<close>

record op_env =
  oe_flt :: faults
  oe_now :: int
  oe_rand :: "nat \<Rightarrow> nat list option"
  oe_generate :: "string \<Rightarrow> nat \<Rightarrow> string option"
  oe_compare :: "string \<Rightarrow> string \<Rightarrow> bool"

datatype acl_op =
    OpCreateGroup ACLGroup int
  | OpUpdateGroup int ACLGroup
  | OpDeleteGroup int
  | OpDeleteGroupWithSync bool int
  | OpAddIPRule int ACLIPRule
  | OpUpdateIPRule int ACLIPRule
  | OpDeleteIPRule int
  | OpAddBasicAuthUser int string string
  | OpUpdateBasicAuthPassword int string
  | OpDeleteBasicAuthUser int
  | OpAddExternalProvider int ACLExternalProvider
  | OpUpdateExternalProvider int ACLExternalProvider
  | OpDeleteExternalProvider int
  | OpConfigureWaygatesAuth int ACLWaygatesAuth
  | OpSetOAuthProviderRestriction int string "string list" "string list" bool
  | OpDeleteOAuthProviderRestriction int string
  | OpAssignToProxy int int string int
  | OpUpdateProxyAssignment int string int bool
  | OpRemoveFromProxy int int
  | OpUpdateBranding ACLBranding
  | OpCreateSession CreateSessionParams
  | OpRevokeSession string
  | OpRevokeUserSessions int
  | OpCleanupExpiredSessions

definition error_of :: "('e, 'a) result \<Rightarrow> 'e option" where
  "error_of r = (case r of Inl e \<Rightarrow> Some e | Inr _ \<Rightarrow> None)"

primrec acl_exec :: "op_env \<Rightarrow> acl_op \<Rightarrow> acl_store \<Rightarrow> admin_result" where
  "acl_exec env (OpCreateGroup g u) st = CreateGroup (oe_flt env) g u st"
| "acl_exec env (OpUpdateGroup i g) st = UpdateGroup (oe_flt env) i g st"
| "acl_exec env (OpDeleteGroup i) st = DeleteGroup (oe_flt env) i st"
| "acl_exec env (OpDeleteGroupWithSync s i) st =
     (case DeleteGroupWithSync (oe_flt env) s i st of (st', _, e) \<Rightarrow> (st', e))"
| "acl_exec env (OpAddIPRule g r) st = AddIPRule (oe_flt env) g r st"
| "acl_exec env (OpUpdateIPRule i r) st = UpdateIPRule (oe_flt env) i r st"
| "acl_exec env (OpDeleteIPRule i) st = DeleteIPRule (oe_flt env) i st"
| "acl_exec env (OpAddBasicAuthUser g u p) st = AddBasicAuthUser (oe_generate env) (oe_flt env) g u p st"
| "acl_exec env (OpUpdateBasicAuthPassword i p) st =
     UpdateBasicAuthPassword (oe_generate env) (oe_flt env) i p st"
| "acl_exec env (OpDeleteBasicAuthUser i) st = DeleteBasicAuthUser (oe_flt env) i st"
| "acl_exec env (OpAddExternalProvider g p) st = AddExternalProvider (oe_flt env) g p st"
| "acl_exec env (OpUpdateExternalProvider i p) st = UpdateExternalProvider (oe_flt env) i p st"
| "acl_exec env (OpDeleteExternalProvider i) st = DeleteExternalProvider (oe_flt env) i st"
| "acl_exec env (OpConfigureWaygatesAuth g c) st = ConfigureWaygatesAuth (oe_flt env) g c st"
| "acl_exec env (OpSetOAuthProviderRestriction g p es ds b) st =
     SetOAuthProviderRestriction (oe_flt env) g p es ds b st"
| "acl_exec env (OpDeleteOAuthProviderRestriction g p) st =
     DeleteOAuthProviderRestriction (oe_flt env) g p st"
| "acl_exec env (OpAssignToProxy p g pat prio) st = AssignToProxy (oe_flt env) p g pat prio st"
| "acl_exec env (OpUpdateProxyAssignment i pat prio b) st =
     UpdateProxyAssignment (oe_flt env) i pat prio b st"
| "acl_exec env (OpRemoveFromProxy p g) st = RemoveFromProxy (oe_flt env) p g st"
| "acl_exec env (OpUpdateBranding b) st = UpdateBranding (oe_flt env) b st"
| "acl_exec env (OpCreateSession ps) st =
     (case CreateSessionWithParams (oe_rand env) (oe_flt env) (oe_now env) ps st of
        (st', r) \<Rightarrow> (st', error_of r))"
| "acl_exec env (OpRevokeSession t) st = RevokeSession (oe_flt env) t st"
| "acl_exec env (OpRevokeUserSessions u) st = RevokeUserSessions (oe_flt env) u st"
| "acl_exec env OpCleanupExpiredSessions st =
     (case CleanupExpiredSessions (oe_flt env) (oe_now env) st of (st', r) \<Rightarrow> (st', error_of r))"

datatype proxy_op =
    OpCreateProxy Proxy int
  | OpUpdateProxy int Proxy
  | OpDeleteProxy int
  | OpEnableProxy int
  | OpDisableProxy int
  | OpBulkSetActive "int list" bool
  | OpBulkDelete "int list"
  | OpImportProxies "ImportInput list" bool int

primrec proxy_exec :: "'w ProxySyncer \<Rightarrow> faults \<Rightarrow> proxy_op \<Rightarrow> acl_store \<Rightarrow> 'w \<Rightarrow> acl_store \<times> 'w" where
  "proxy_exec sy flt (OpCreateProxy p u) st w =
     (fst (CreateProxy sy flt p u st w), fst (snd (CreateProxy sy flt p u st w)))"
| "proxy_exec sy flt (OpUpdateProxy i p) st w =
     (fst (UpdateProxy sy flt i p st w), fst (snd (UpdateProxy sy flt i p st w)))"
| "proxy_exec sy flt (OpDeleteProxy i) st w =
     (fst (DeleteProxy sy flt i st w), fst (snd (DeleteProxy sy flt i st w)))"
| "proxy_exec sy flt (OpEnableProxy i) st w =
     (fst (EnableProxy sy flt i st w), fst (snd (EnableProxy sy flt i st w)))"
| "proxy_exec sy flt (OpDisableProxy i) st w =
     (fst (DisableProxy sy flt i st w), fst (snd (DisableProxy sy flt i st w)))"
| "proxy_exec sy flt (OpBulkSetActive is b) st w =
     (fst (BulkSetActive sy flt is b st w), fst (snd (BulkSetActive sy flt is b st w)))"
| "proxy_exec sy flt (OpBulkDelete is) st w =
     (fst (BulkDelete sy flt is st w), fst (snd (BulkDelete sy flt is st w)))"
| "proxy_exec sy flt (OpImportProxies ins dry u) st w =
     (fst (ImportProxies sy flt ins dry u st w), fst (snd (ImportProxies sy flt ins dry u st w)))"

section \<open>Errors leave the store alone\<close>

text \<open>A repository write that reports an error has changed nothing.\<close>

definition atomic_write :: "acl_store \<Rightarrow> write_result \<Rightarrow> bool" where
  "atomic_write st w \<longleftrightarrow> snd w = None \<or> fst w = st"

lemma repo_writes_atomic:
  "atomic_write st (CreateGroup_repo flt g st)" "atomic_write st (UpdateGroup_repo flt g st)"
  "atomic_write st (DeleteGroup_repo flt i st)"
  "atomic_write st (CreateIPRule_repo flt r st)" "atomic_write st (UpdateIPRule_repo flt r st)"
  "atomic_write st (DeleteIPRule_repo flt i st)"
  "atomic_write st (CreateBasicAuthUser_repo flt b st)" "atomic_write st (UpdateBasicAuthUser_repo flt b st)"
  "atomic_write st (DeleteBasicAuthUser_repo flt i st)"
  "atomic_write st (CreateExternalProvider_repo flt p st)" "atomic_write st (UpdateExternalProvider_repo flt p st)"
  "atomic_write st (DeleteExternalProvider_repo flt i st)"
  "atomic_write st (CreateWaygatesAuth_repo flt w st)" "atomic_write st (UpdateWaygatesAuth_repo flt w st)"
  "atomic_write st (CreateOAuthProviderRestriction_repo flt o' st)"
  "atomic_write st (UpdateOAuthProviderRestriction_repo flt o' st)"
  "atomic_write st (DeleteOAuthProviderRestriction_repo flt i s st)"
  "atomic_write st (CreateProxyACLAssignment_repo flt a st)"
  "atomic_write st (UpdateProxyACLAssignment_repo flt a st)"
  "atomic_write st (DeleteProxyACLAssignmentByProxyAndGroup flt i j st)"
  "atomic_write st (UpdateBranding_repo flt br st)" "atomic_write st (CreateSession_repo flt se st)"
  "atomic_write st (DeleteSession_repo flt s st)" "atomic_write st (DeleteUserSessions_repo flt i st)"
  by (simp_all add: atomic_write_def repo_write_defs)

definition atomic_op :: "acl_store \<Rightarrow> admin_result \<Rightarrow> bool" where
  "atomic_op st r \<longleftrightarrow> snd r = None \<or> fst r = st"

lemma atomic_op_simps [simp]: "atomic_op st (st, e)" "atomic_op st (st', None)"
  by (simp_all add: atomic_op_def)

lemma atomic_op_write [simp]: "atomic_write st w \<Longrightarrow> atomic_op st (wrap_write c w)"
  by (auto simp: atomic_op_def atomic_write_def snd_wrap_write)

lemma atomic_assign:
  "atomic_write st w \<Longrightarrow>
   atomic_op st (case w of (st', Some DuplicateKey) \<Rightarrow> (st', Some ErrProxyACLExists)
     | (st', Some e) \<Rightarrow> (st', Some (f e)) | (st', None) \<Rightarrow> (st', None))"
  by (auto simp: atomic_op_def atomic_write_def split: prod.split option.split db_error.split)

lemma acl_ops_atomic:
  "atomic_op st (CreateGroup flt g u st)" "atomic_op st (UpdateGroup flt i g st)"
  "atomic_op st (DeleteGroup flt i st)" "atomic_op st (AddIPRule flt i r st)"
  "atomic_op st (UpdateIPRule flt i r st)" "atomic_op st (DeleteIPRule flt i st)"
  "atomic_op st (AddBasicAuthUser gen flt i a b st)" "atomic_op st (UpdateBasicAuthPassword gen flt i a st)"
  "atomic_op st (DeleteBasicAuthUser flt i st)" "atomic_op st (AddExternalProvider flt i p st)"
  "atomic_op st (UpdateExternalProvider flt i p st)" "atomic_op st (DeleteExternalProvider flt i st)"
  "atomic_op st (ConfigureWaygatesAuth flt i c st)"
  "atomic_op st (SetOAuthProviderRestriction flt i a es ds en st)"
  "atomic_op st (DeleteOAuthProviderRestriction flt i a st)"
  "atomic_op st (AssignToProxy flt i j a k st)" "atomic_op st (UpdateProxyAssignment flt i a k en st)"
  "atomic_op st (RemoveFromProxy flt i j st)" "atomic_op st (UpdateBranding flt br st)"
  "atomic_op st (RevokeSession flt a st)" "atomic_op st (RevokeUserSessions flt i st)"
  by (simp_all add: admin_defs RevokeSession_def RevokeUserSessions_def Let_def repo_writes_atomic
      atomic_assign split: sum.split option.split)

lemma session_ops_atomic:
  "atomic_op st (case CreateSessionWithParams rnd flt now ps st of (st', r) \<Rightarrow> (st', error_of r))"
  "atomic_op st (case CleanupExpiredSessions flt now st of (st', r) \<Rightarrow> (st', error_of r))"
  "atomic_op st (case DeleteGroupWithSync flt b i st of (st', _, e) \<Rightarrow> (st', e))"
proof -
  have "atomic_op st (case (case CreateSession_repo flt s st of
        (st', Some e) \<Rightarrow> (st', Err (Wrapped ''creating session'' e)) | (st', None) \<Rightarrow> (st', Ok y)) of
      (st', r) \<Rightarrow> (st', error_of r))" for s and y :: ACLSession
    using repo_writes_atomic(22)[of st flt s]
    by (auto simp: atomic_op_def atomic_write_def error_of_def split: prod.split option.split)
  then show "atomic_op st (case CreateSessionWithParams rnd flt now ps st of (st', r) \<Rightarrow> (st', error_of r))"
    by (simp add: CreateSessionWithParams_def Let_def split: option.split)
qed (simp_all add: CleanupExpiredSessions_def DeleteExpiredSessions_repo_def error_of_def
    DeleteGroupWithSync_def DeleteGroupWithTx_def Let_def split: sum.split)

lemma acl_exec_atomic: "atomic_op st (acl_exec env a st)"
  by (cases a) (simp_all add: acl_ops_atomic session_ops_atomic)

text \<open>
  Every access-control operation is all or nothing: if it reports an error, whether from
  validation, a missing row, a broken constraint or a failing database call, the store is exactly
  what it was before.
\<close>

theorem acl_error_changes_nothing:
  assumes "snd (acl_exec env a st) = Some e"
  shows "fst (acl_exec env a st) = st"
  using assms acl_exec_atomic[of st env a] by (simp add: atomic_op_def)

definition demo_op_env :: op_env where
  "demo_op_env = \<lparr>oe_flt = no_faults, oe_now = 0, oe_rand = \<lambda>n. Some (replicate n 7),
     oe_generate = \<lambda>p c. Some p, oe_compare = (=)\<rparr>"

theorem acl_error_changes_nothing_witness:
  "fst (acl_exec demo_op_env (OpAddIPRule 1 (demo_rule 0 1 ''deny'' ''10.0.0.0/99'')) demo_store) = demo_store"
proof (rule acl_error_changes_nothing)
  show "snd (acl_exec demo_op_env (OpAddIPRule 1 (demo_rule 0 1 ''deny'' ''10.0.0.0/99'')) demo_store) =
    Some ErrInvalidCIDR" by code_simp
qed

section \<open>Reachable states\<close>

inductive sys_step :: "'w ProxySyncer \<Rightarrow> acl_store \<times> 'w \<Rightarrow> acl_store \<times> 'w \<Rightarrow> bool" for sy where
  acl: "sys_step sy (st, w) (fst (acl_exec env a st), w)"
| validate: "sys_step sy (st, w) (fst (ValidateSession flt now token st), w)"
| verify: "sys_step sy (st, w) (fst (VerifyAccess venv rq st), w)"
| branding: "sys_step sy (st, w) (fst (GetBranding flt st), w)"
| proxy: "sys_step sy (st, w) (proxy_exec sy flt p st w)"
| users: "us_ID ` set (tb_rows (st_users st)) \<subseteq> us_ID ` set (tb_rows t) \<Longrightarrow>
    sys_step sy (st, w) (st\<lparr>st_users := t\<rparr>, w)"

inductive sys_reach :: "'w ProxySyncer \<Rightarrow> 'w \<Rightarrow> acl_store \<times> 'w \<Rightarrow> bool" for sy w0 where
  init: "sys_reach sy w0 (empty_store, w0)"
| step: "sys_reach sy w0 s \<Longrightarrow> sys_step sy s s' \<Longrightarrow> sys_reach sy w0 s'"

text \<open>The access-control operations leave the proxies and the users alone.\<close>

definition keeps_tables :: "acl_store \<Rightarrow> acl_store \<Rightarrow> bool" where
  "keeps_tables st st' \<longleftrightarrow> st_proxies st' = st_proxies st \<and> st_users st' = st_users st"

lemma keeps_refl [simp]: "keeps_tables st st"
  by (simp add: keeps_tables_def)

lemma repo_writes_keep:
  "keeps_tables st (fst (CreateGroup_repo flt g st))" "keeps_tables st (fst (UpdateGroup_repo flt g st))"
  "keeps_tables st (fst (DeleteGroup_repo flt i st))" "keeps_tables st (fst (DeleteGroupWithTx flt i st))"
  "keeps_tables st (fst (CreateIPRule_repo flt r st))" "keeps_tables st (fst (UpdateIPRule_repo flt r st))"
  "keeps_tables st (fst (DeleteIPRule_repo flt i st))"
  "keeps_tables st (fst (CreateBasicAuthUser_repo flt b st))"
  "keeps_tables st (fst (UpdateBasicAuthUser_repo flt b st))"
  "keeps_tables st (fst (DeleteBasicAuthUser_repo flt i st))"
  "keeps_tables st (fst (CreateExternalProvider_repo flt p st))"
  "keeps_tables st (fst (UpdateExternalProvider_repo flt p st))"
  "keeps_tables st (fst (DeleteExternalProvider_repo flt i st))"
  "keeps_tables st (fst (CreateWaygatesAuth_repo flt w st))"
  "keeps_tables st (fst (UpdateWaygatesAuth_repo flt w st))"
  "keeps_tables st (fst (CreateOAuthProviderRestriction_repo flt o' st))"
  "keeps_tables st (fst (UpdateOAuthProviderRestriction_repo flt o' st))"
  "keeps_tables st (fst (DeleteOAuthProviderRestriction_repo flt i s st))"
  "keeps_tables st (fst (CreateProxyACLAssignment_repo flt a st))"
  "keeps_tables st (fst (UpdateProxyACLAssignment_repo flt a st))"
  "keeps_tables st (fst (DeleteProxyACLAssignmentByProxyAndGroup flt i j st))"
  "keeps_tables st (fst (UpdateBranding_repo flt br st))" "keeps_tables st (fst (CreateSession_repo flt se st))"
  "keeps_tables st (fst (DeleteSession_repo flt s st))" "keeps_tables st (fst (DeleteUserSessions_repo flt i st))"
  by (simp_all add: keeps_tables_def repo_write_defs delete_group_rows_def)

lemma fst_assign_case:
  "fst (case w of (st', Some DuplicateKey) \<Rightarrow> (st', Some ErrProxyACLExists)
     | (st', Some e) \<Rightarrow> (st', Some (f e)) | (st', None) \<Rightarrow> (st', None)) = fst w"
  by (auto split: prod.split option.split db_error.split)

lemma acl_ops_keep:
  "keeps_tables st (fst (CreateGroup flt g u st))" "keeps_tables st (fst (UpdateGroup flt i g st))"
  "keeps_tables st (fst (DeleteGroup flt i st))" "keeps_tables st (fst (AddIPRule flt i r st))"
  "keeps_tables st (fst (UpdateIPRule flt i r st))" "keeps_tables st (fst (DeleteIPRule flt i st))"
  "keeps_tables st (fst (AddBasicAuthUser gen flt i a b st))"
  "keeps_tables st (fst (UpdateBasicAuthPassword gen flt i a st))"
  "keeps_tables st (fst (DeleteBasicAuthUser flt i st))" "keeps_tables st (fst (AddExternalProvider flt i p st))"
  "keeps_tables st (fst (UpdateExternalProvider flt i p st))"
  "keeps_tables st (fst (DeleteExternalProvider flt i st))"
  "keeps_tables st (fst (ConfigureWaygatesAuth flt i c st))"
  "keeps_tables st (fst (SetOAuthProviderRestriction flt i a es ds en st))"
  "keeps_tables st (fst (DeleteOAuthProviderRestriction flt i a st))"
  "keeps_tables st (fst (AssignToProxy flt i j a k st))"
  "keeps_tables st (fst (UpdateProxyAssignment flt i a k en st))"
  "keeps_tables st (fst (RemoveFromProxy flt i j st))" "keeps_tables st (fst (UpdateBranding flt br st))"
  "keeps_tables st (fst (RevokeSession flt a st))" "keeps_tables st (fst (RevokeUserSessions flt i st))"
  by (simp_all add: admin_defs RevokeSession_def RevokeUserSessions_def Let_def repo_writes_keep
      fst_assign_case split: sum.split option.split)

lemma session_ops_keep:
  "keeps_tables st (fst (case CreateSessionWithParams rnd flt now ps st of (st', r) \<Rightarrow> (st', error_of r)))"
  "keeps_tables st (fst (case CleanupExpiredSessions flt now st of (st', r) \<Rightarrow> (st', error_of r)))"
  "keeps_tables st (fst (case DeleteGroupWithSync flt b i st of (st', _, e) \<Rightarrow> (st', e)))"
  "keeps_tables st (fst (ValidateSession flt now token st))"
  "keeps_tables st (fst (GetBranding flt st))"
proof -
  have "fst (case (case w of (st', Some e) \<Rightarrow> (st', Err (f e)) | (st', None) \<Rightarrow> (st', Ok y)) of
      (st', r) \<Rightarrow> (st', error_of r)) = fst w"
    for w :: write_result and f :: "db_error \<Rightarrow> acl_error" and y :: ACLSession
    by (auto split: prod.split option.split)
  then show "keeps_tables st (fst (case CreateSessionWithParams rnd flt now ps st of (st', r) \<Rightarrow> (st', error_of r)))"
    by (simp add: CreateSessionWithParams_def Let_def repo_writes_keep split: option.split)
qed (simp_all add: CleanupExpiredSessions_def DeleteExpiredSessions_repo_def keeps_tables_def
    DeleteGroupWithSync_def DeleteGroupWithTx_def delete_group_rows_def Let_def ValidateSession_def
    DeleteSession_repo_def GetBranding_def GetBranding_repo_def split: sum.split option.split)

lemma acl_exec_keeps: "keeps_tables st (fst (acl_exec env a st))"
  by (cases a) (simp_all only: acl_exec.simps acl_ops_keep session_ops_keep)

lemma keeps_system_ok:
  assumes "system_ok st" "store_ok st'" "keeps_tables st st'"
  shows "system_ok st'"
  using assms by (simp add: system_ok_def uids_def keeps_tables_def)

lemma acl_exec_ok: "store_ok st \<Longrightarrow> store_ok (fst (acl_exec env a st))"
proof (cases a)
  case (OpDeleteGroupWithSync b i)
  assume "store_ok st"
  with DeleteGroupWithSync_ok[of st "oe_flt env" b i] show ?thesis
    by (auto simp: OpDeleteGroupWithSync split: prod.split)
next
  case (OpCreateSession ps)
  assume "store_ok st"
  with CreateSessionWithParams_ok[of st "oe_rand env" "oe_flt env" "oe_now env" ps] show ?thesis
    by (auto simp: OpCreateSession split: prod.split)
next
  case OpCleanupExpiredSessions
  assume "store_ok st"
  with revoke_ok(3)[of st "oe_flt env" "oe_now env"] show ?thesis
    by (auto simp: OpCleanupExpiredSessions split: prod.split)
qed (simp_all add: CreateGroup_ok UpdateGroup_ok DeleteGroup_ok AddIPRule_ok UpdateIPRule_ok DeleteIPRule_ok
    AddBasicAuthUser_ok UpdateBasicAuthPassword_ok DeleteBasicAuthUser_ok AddExternalProvider_ok
    UpdateExternalProvider_ok DeleteExternalProvider_ok ConfigureWaygatesAuth_ok
    SetOAuthProviderRestriction_ok DeleteOAuthProviderRestriction_ok AssignToProxy_ok
    UpdateProxyAssignment_ok RemoveFromProxy_ok UpdateBranding_ok revoke_ok)

lemma proxy_exec_ok:
  assumes "system_ok st"
  shows "system_ok (fst (proxy_exec sy flt p st w))"
proof (cases p)
  case (OpBulkSetActive ids b)
  with assms show ?thesis
    by (cases b) (simp_all add: BulkSetActive_def runBulk_def bulk_loop_ok EnableProxy_ok DisableProxy_ok)
next
  case (OpImportProxies ins dry u)
  let ?ex = "ExistingHostnames (flt ''ExistingHostnames'') (map px_Hostname (List.map_filter ii_Proxy ins)) st"
  have "fst (ImportProxies sy flt ins dry u st w) = fst (import_loop sy flt dry u ?ex 0 [] ins st w)"
    by (simp add: ImportProxies_def split: prod.split)
  with OpImportProxies import_loop_ok[OF assms] show ?thesis by simp
qed (simp_all add: assms CreateProxy_ok UpdateProxy_ok DeleteProxy_ok EnableProxy_ok DisableProxy_ok
    BulkDelete_def runBulk_def bulk_loop_ok)

lemma more_users_ok:
  assumes st: "system_ok st" and U: "uids st \<subseteq> us_ID ` set (tb_rows t)"
  shows "system_ok (st\<lparr>st_users := t\<rparr>)"
proof -
  let ?st = "st\<lparr>st_users := t\<rparr>"
  note tabs = system_ok_parts(1)[OF st, unfolded store_ok_def]
  have ids: "gids ?st = gids st" "pids ?st = pids st" "uids ?st = us_ID ` set (tb_rows t)"
    by (simp_all add: gids_def pids_def uids_def)
  have "table_ok gr_ID same_name group_ok (uids ?st) (st_groups st)"
    by (rule groups_ct.ok_mono[of "uids st"]) (use tabs U ids in \<open>auto simp: group_ok_def\<close>)
  moreover have "table_ok se_ID same_token session_ok (uids ?st, pids st) (st_sessions st)"
    by (rule sessions_ct.ok_mono[of "(uids st, pids st)"])
       (use tabs U ids in \<open>simp_all add: session_ok_def subset_iff\<close>)
  moreover have "table_ok px_ID same_hostname proxy_ok (uids ?st) (st_proxies st)"
    by (rule proxies_ct.ok_mono[OF system_ok_parts(2)[OF st]])
       (use U ids in \<open>auto simp: proxy_ok_def\<close>)
  ultimately show ?thesis using tabs ids by (simp add: system_ok_def store_ok_def)
qed

lemma sys_step_ok: "sys_step sy s s' \<Longrightarrow> system_ok (fst s) \<Longrightarrow> system_ok (fst s')"
proof (induction rule: sys_step.induct)
  case (acl st w env a)
  then have st: "system_ok st" by simp
  show ?case unfolding fst_conv
    by (rule keeps_system_ok[OF st acl_exec_ok[OF system_ok_parts(1)[OF st]] acl_exec_keeps])
next
  case (validate st w flt now token)
  then have st: "system_ok st" by simp
  show ?case unfolding fst_conv
    by (rule keeps_system_ok[OF st ValidateSession_ok[OF system_ok_parts(1)[OF st]] session_ops_keep(4)])
next
  case (verify st w venv rq)
  then have st: "system_ok st" by simp
  have "system_ok (st\<lparr>st_branding := Some default_branding\<rparr>)"
    by (rule keeps_system_ok[OF st]) (simp_all add: system_ok_parts(1)[OF st] keeps_tables_def)
  with st evaluateUnionAccess_store[of venv st _ rq] show ?case unfolding fst_conv
    by (cases rule: VerifyAccess_cases[of venv rq st]) (metis fst_conv insert_iff singletonD)+
next
  case (branding st w flt)
  then have st: "system_ok st" by simp
  show ?case unfolding fst_conv
    by (rule keeps_system_ok[OF st GetBranding_ok[OF system_ok_parts(1)[OF st]] session_ops_keep(5)])
next
  case (proxy st w flt p)
  then show ?case using proxy_exec_ok[of st sy flt p w] by simp
next
  case (users st t w)
  then show ?case using more_users_ok[of st t] by (simp add: uids_def)
qed

lemma sys_reach_ok:
  assumes "sys_reach sy w0 s"
  shows "system_ok (fst s)"
  using assms
proof (induction rule: sys_reach.induct)
  case init
  then show ?case
    using store_ok_empty by (simp add: system_ok_def empty_store_def proxies_ct.ok_empty)
next
  case (step s s')
  then show ?case using sys_step_ok by blast
qed

text \<open>
  Data integrity in every reachable state: starting from the empty database and whatever
  sequence of access-control, verification and proxy operations runs, with any arguments, database
  faults and sync failures, all tables keep unique keys, unique names, host names, pairs and tokens,
  intact references, and only rows that passed validation.
\<close>

theorem reachable_system_ok:
  assumes "sys_reach sy w0 s"
  shows "system_ok (fst s)"
  using assms by (rule sys_reach_ok)

lemma demo_reach_user: "sys_reach sy w0 (demo_empty, w0)"
  unfolding demo_empty_def
  by (rule sys_reach.step[OF sys_reach.init sys_step.users]) (simp add: empty_store_def)

theorem reachable_system_ok_witness:
  "system_ok (fst (fst (acl_exec demo_op_env (OpCreateGroup (demo_group 0 ''admins'' ''any'') 1) demo_empty), 0 :: nat))"
  by (rule reachable_system_ok[OF sys_reach.step[OF demo_reach_user[of ok_syncer] sys_step.acl]])

end
