(* ===== verification/Acl_Admin_Props.thy ===== *)
theory Acl_Admin_Props
  imports Acl_Reach
begin

text \<open>
  What the administrative operations achieve, read through the same functions access verification
  uses: stored rules always denote a network, assigning a group protects the proxy, deleting a
  group removes every trace of it and notifies the right proxies, and sessions live exactly as long
  as they should. Two lemmas record places where an update is stored differently than requested.
\<close>

section \<open>IP rules\<close>

lemma ParseCIDR_no_slash: "CHR ''/'' \<notin> set s \<Longrightarrow> ParseCIDR s = None"
  by (simp add: ParseCIDR_def Cut_def)

lemma singleIPToNetwork_iff: "singleIPToNetwork s = None \<longleftrightarrow> ParseIP s = None"
  by (auto simp: singleIPToNetwork_def CIDRMask_def Let_def split: option.splits)

lemma validateCIDR_network:
  assumes "validateCIDR (ir_CIDR r) = None"
  shows "rule_network r \<noteq> None"
proof (cases "CHR ''/'' \<in> set (ir_CIDR r)")
  case True
  with assms show ?thesis by (auto simp: validateCIDR_def rule_network_def split: option.splits)
next
  case False
  with assms ParseCIDR_no_slash[OF False] singleIPToNetwork_iff[of "ir_CIDR r"] show ?thesis
    by (auto simp: validateCIDR_def rule_network_def split: option.splits)
qed

text \<open>
  C40. No stored IP rule is dead: in every reachable state each rule has one of the three types and
  denotes a network, so the cross-group deny and bypass checks never skip one as unreadable.
\<close>

theorem reachable_rules_denote:
  assumes "sys_reach sy w0 (st, w)" "r \<in> set (tb_rows (st_ip_rules st))"
  shows "ir_RuleType r \<in> {''allow'', ''deny'', ''bypass''} \<and> rule_network r \<noteq> None"
proof -
  have "system_ok st" using sys_reach_ok[OF assms(1)] by simp
  from store_ok_rows(2)[OF system_ok_parts(1)[OF this] assms(2)] show ?thesis
    using validateCIDR_network[of r] by (simp add: rule_ok_def ACLIPRule_Validate_None)
qed

theorem reachable_rules_denote_witness:
  "ir_RuleType (demo_rule 1 1 ''deny'' ''10.0.0.0/8'') \<in> {''allow'', ''deny'', ''bypass''} \<and>
   rule_network (demo_rule 1 1 ''deny'' ''10.0.0.0/8'') \<noteq> None"
proof (rule reachable_rules_denote)
  let ?st1 = "fst (acl_exec demo_op_env (OpCreateGroup (demo_group 0 ''admins'' ''any'') 1) demo_empty)"
  let ?st2 = "fst (acl_exec demo_op_env (OpAddIPRule 1 (demo_rule 0 1 ''deny'' ''10.0.0.0/8'')) ?st1)"
  show "sys_reach ok_syncer 0 (?st2, 0)"
    by (rule sys_reach.step[OF sys_reach.step[OF demo_reach_user sys_step.acl] sys_step.acl])
  show "demo_rule 1 1 ''deny'' ''10.0.0.0/8'' \<in> set (tb_rows (st_ip_rules ?st2))" by code_simp
qed

section \<open>Deleting a group\<close>

lemma DeleteGroup_success:
  "DeleteGroup flt rid st = (st', None) \<Longrightarrow> st' = delete_group_rows rid st \<and> rid \<in> gids st"
  by (auto simp: DeleteGroup_def DeleteGroup_repo_def wrap_write_def dest: get_group_gids
      split: sum.splits if_splits)

text \<open>Deleting the rows of one owner leaves the reads for another owner alone.\<close>

lemma Find_Delete_other:
  "j \<noteq> i \<Longrightarrow> tb_Find (\<lambda>x. f x = j) (tb_Delete (\<lambda>x. f x = i) t) = tb_Find (\<lambda>x. f x = j) t"
  by (auto simp: tb_Find_def tb_Delete_def intro!: filter_cong)

lemma First_Delete_owner:
  assumes "j \<noteq> i"
  shows "tb_First (\<lambda>x. f x = j) (tb_Delete (\<lambda>x. f x = i) t) = tb_First (\<lambda>x. f x = j) t"
proof -
  have "List.find (\<lambda>x. f x = j) (filter (\<lambda>x. f x \<noteq> i) xs) = List.find (\<lambda>x. f x = j) xs" for xs
    using assms by (induction xs) auto
  then show ?thesis by (simp add: tb_First_def tb_Delete_def)
qed

lemma delete_group_preload:
  "gr_ID g \<noteq> rid \<Longrightarrow> preload_group (delete_group_rows rid st) g = preload_group st g"
  by (simp add: preload_group_def delete_group_rows_def Find_Delete_other First_Delete_owner)

text \<open>
  Deleting a group removes it with its rules, users, providers, configuration, restrictions and
  assignments, and every other group reads exactly as before.
\<close>

theorem DeleteGroup_exact:
  assumes "DeleteGroup flt rid st = (st', None)"
  shows "GetGroupByID no_faults rid st' = Err RecordNotFound \<and>
    (\<forall>r \<in> set (tb_rows (st_ip_rules st')). ir_ACLGroupID r \<noteq> rid) \<and>
    (\<forall>r \<in> set (tb_rows (st_basic_users st')). bu_ACLGroupID r \<noteq> rid) \<and>
    (\<forall>r \<in> set (tb_rows (st_providers st')). ep_ACLGroupID r \<noteq> rid) \<and>
    (\<forall>r \<in> set (tb_rows (st_waygates st')). wa_ACLGroupID r \<noteq> rid) \<and>
    (\<forall>r \<in> set (tb_rows (st_restrictions st')). or_ACLGroupID r \<noteq> rid) \<and>
    (\<forall>a \<in> set (tb_rows (st_assignments st')). pa_ACLGroupID a \<noteq> rid) \<and>
    (\<forall>i. i \<noteq> rid \<longrightarrow> GetGroupByID no_faults i st' = GetGroupByID no_faults i st)"
proof -
  have st': "st' = delete_group_rows rid st" using DeleteGroup_success[OF assms] by simp
  have gone: "tb_First (\<lambda>g. gr_ID g = rid) (st_groups st') = None"
    by (simp add: st' delete_group_rows_def groups_tb.First_Delete_key)
  have other: "GetGroupByID no_faults i st' = GetGroupByID no_faults i st" if "i \<noteq> rid" for i
  proof -
    have "tb_First (\<lambda>g. gr_ID g = i) (st_groups st') = tb_First (\<lambda>g. gr_ID g = i) (st_groups st)"
      using that by (simp add: st' delete_group_rows_def First_Delete_owner)
    then show ?thesis
      using that delete_group_preload[of _ rid st] unfolding st'
      by (auto simp: GetGroupByID_def read_first_def no_faults_def dest: tb_First_Some split: option.split)
  qed
  from gone other show ?thesis
    by (simp add: GetGroupByID_def read_first_def no_faults_def) (simp add: st' delete_group_rows_def)
qed

theorem DeleteGroup_exact_witness:
  "\<exists>st'. DeleteGroup no_faults 1 demo_store = (st', None) \<and>
    GetGroupByID no_faults 1 st' = Err RecordNotFound \<and>
    GetGroupByID no_faults 2 st' = GetGroupByID no_faults 2 demo_store"
proof -
  let ?r = "DeleteGroup no_faults 1 demo_store"
  have "snd ?r = None" by code_simp
  then have "?r = (fst ?r, None)" by (metis prod.collapse)
  with DeleteGroup_exact[OF this] show ?thesis by (intro exI[of _ "fst ?r"]) simp
qed

lemma unique_proxy_ids_spec:
  "distinct (unique_proxy_ids seen as) \<and> set (unique_proxy_ids seen as) = pa_ProxyID ` set as - set seen"
  by (induction as arbitrary: seen) auto

text \<open>
  \<open>DeleteGroupWithSync\<close> leaves the same store as \<open>DeleteGroup\<close> and hands its callback every
  proxy that used the group, each once, and no other; the callback is not called for an unused group.
\<close>

theorem DeleteGroupWithSync_notifies:
  assumes "DeleteGroupWithSync flt True rid st = (st', ids, None)"
  shows "st' = delete_group_rows rid st \<and>
    (case ids of
       None \<Rightarrow> \<forall>a \<in> set (tb_rows (st_assignments st)). pa_ACLGroupID a \<noteq> rid
     | Some ps \<Rightarrow> ps \<noteq> [] \<and> distinct ps \<and>
         set ps = pa_ProxyID ` {a \<in> set (tb_rows (st_assignments st)). pa_ACLGroupID a = rid})"
proof -
  let ?as = "sort_key pa_Priority (tb_Find (\<lambda>a. pa_ACLGroupID a = rid) (st_assignments st))"
  have u: "distinct (unique_proxy_ids [] ?as)"
    "set (unique_proxy_ids [] ?as) = pa_ProxyID ` {a \<in> set (tb_rows (st_assignments st)). pa_ACLGroupID a = rid}"
    using unique_proxy_ids_spec[of "[]" ?as] by simp_all
  have r: "st' = delete_group_rows rid st"
    "ids = (if unique_proxy_ids [] ?as = [] then None else Some (unique_proxy_ids [] ?as))"
    using assms
    by (auto simp: DeleteGroupWithSync_def GetProxyACLAssignmentsByGroup_def DeleteGroupWithTx_def Let_def
        split: sum.splits if_splits)
  show ?thesis
  proof (cases "unique_proxy_ids [] ?as = []")
    case True
    then have "pa_ProxyID ` {a \<in> set (tb_rows (st_assignments st)). pa_ACLGroupID a = rid} = {}"
      using u(2) by simp
    with True r show ?thesis by auto
  qed (use u r in simp)
qed

theorem DeleteGroupWithSync_notifies_witness:
  "\<exists>st'. DeleteGroupWithSync no_faults True 2 demo_store = (st', Some [1], None) \<and>
     st' = delete_group_rows 2 demo_store"
proof -
  let ?r = "DeleteGroupWithSync no_faults True 2 demo_store"
  have "snd ?r = (Some [1], None)" by code_simp
  then have "?r = (fst ?r, Some [1], None)" by (metis prod.collapse)
  with DeleteGroupWithSync_notifies[OF this] show ?thesis by blast
qed

section \<open>Assignments\<close>

lemma AssignToProxy_success:
  assumes "AssignToProxy flt pid gid pat prio st = (st', None)"
  shows "gid \<in> gids st" and "st' = st\<lparr>st_assignments := tb_Create set_pa_ID
      \<lparr>pa_ID = 0, pa_ProxyID = pid, pa_ACLGroupID = gid, pa_PathPattern = (if pat = [] then ''/*'' else pat),
       pa_Priority = prio, pa_Enabled = True, pa_ACLGroup = None\<rparr> (st_assignments st)\<rparr>"
proof -
  let ?a = "\<lparr>pa_ID = 0, pa_ProxyID = pid, pa_ACLGroupID = gid, pa_PathPattern = (if pat = [] then ''/*'' else pat),
       pa_Priority = prio, pa_Enabled = True, pa_ACLGroup = None\<rparr>"
  obtain g where g: "get_group flt gid st = Inr g"
    using assms by (cases "get_group flt gid st") (auto simp: AssignToProxy_def split: sum.splits)
  then show "gid \<in> gids st" by (rule get_group_gids)
  have "CreateProxyACLAssignment_repo flt ?a st = (st', None)"
    using assms g by (auto simp: AssignToProxy_def Let_def
      split: sum.splits option.splits prod.splits db_error.splits)
  then have "st' = st\<lparr>st_assignments := tb_Create set_pa_ID (assignment_defaults ?a) (st_assignments st)\<rparr>"
    by (simp add: CreateProxyACLAssignment_repo_def split: if_split_asm)
  moreover have "assignment_defaults ?a = ?a" by (simp add: assignment_defaults_def str_default_def)
  ultimately show "st' = st\<lparr>st_assignments := tb_Create set_pa_ID ?a (st_assignments st)\<rparr>" by simp
qed

text \<open>
  Assigning a group to a proxy takes effect: afterwards the group governs every request path
  that the pattern matches, and without a pattern it governs every path.
\<close>

theorem AssignToProxy_protects:
  assumes "AssignToProxy flt pid gid pat prio st = (st', None)" "pat = [] \<or> matchPath pat path"
  shows "\<exists>g \<in> applicable_groups st' pid path. gr_ID g = gid"
proof -
  note r = AssignToProxy_success[OF assms(1)]
  from r(1) obtain g where g: "tb_First (\<lambda>g. gr_ID g = gid) (st_groups st) = Some g" "gr_ID g = gid"
    by (cases "tb_First (\<lambda>g. gr_ID g = gid) (st_groups st)")
       (auto simp: gids_def tb_First_None dest: tb_First_Some)
  have "matchPath (if pat = [] then ''/*'' else pat) path"
    using assms(2) by (cases "pat = []") (simp_all add: matchPath_def[of "''/*''"])
  moreover have "st_groups st' = st_groups st"
    "set_pa_ID (tb_next (st_assignments st)) \<lparr>pa_ID = 0, pa_ProxyID = pid, pa_ACLGroupID = gid,
       pa_PathPattern = (if pat = [] then ''/*'' else pat), pa_Priority = prio, pa_Enabled = True,
       pa_ACLGroup = None\<rparr> \<in> set (tb_rows (st_assignments st'))" (is "?a \<in> _")
    by (simp_all add: r(2))
  ultimately have "preload_group st' g \<in> applicable_groups st' pid path"
    using g(1) unfolding applicable_groups_def mem_Collect_eq
    by (intro exI[of _ ?a] exI[of _ g] conjI) (simp_all add: set_pa_ID_def)
  with g(2) show ?thesis by (intro bexI[of _ "preload_group st' g"]) simp_all
qed

theorem AssignToProxy_protects_witness:
  "\<exists>g \<in> applicable_groups (fst (AssignToProxy no_faults 1 2 [] 0 (delete_group_rows 2 demo_store
      \<lparr>st_groups := st_groups demo_store\<rparr>))) 1 ''/anything''. gr_ID g = 2"
proof (rule AssignToProxy_protects)
  let ?r = "AssignToProxy no_faults 1 2 [] 0 (delete_group_rows 2 demo_store\<lparr>st_groups := st_groups demo_store\<rparr>)"
  have "snd ?r = None" by code_simp
  then show "?r = (fst ?r, None)" by (metis prod.collapse)
qed simp

lemma matchPath_Nil: "matchPath [] path \<longleftrightarrow> path = []"
  by (auto simp: matchPath_def HasSuffix_def Contains_iff)

text \<open>
  Updating an assignment with an empty path pattern switches its protection off: the pattern is
  stored as given, without the default that assigning applies, and it matches no request path.
\<close>

theorem UpdateProxyAssignment_empty_pattern:
  assumes "system_ok st" "UpdateProxyAssignment flt aid [] prio enabled st = (st', None)"
    and "a \<in> set (tb_rows (st_assignments st'))" "pa_ID a = aid" "path \<noteq> []"
  shows "\<not> matchPath (pa_PathPattern a) path"
proof -
  obtain x where x: "GetProxyACLAssignmentByID flt aid st = Inr x"
    using assms(2) by (cases "GetProxyACLAssignmentByID flt aid st")
      (auto simp: UpdateProxyAssignment_def found_or_def split: db_error.splits)
  let ?a = "x\<lparr>pa_PathPattern := [], pa_Priority := prio, pa_Enabled := enabled\<rparr>"
  from GetProxyACLAssignmentByID_row[OF system_ok_parts(1)[OF assms(1)] x]
  have row: "x \<in> set (tb_rows (st_assignments st))" "pa_ID x = aid" by auto
  have f: "found_or m c (GetProxyACLAssignmentByID flt aid st) = Inr x" for m c using x by simp
  have "UpdateProxyACLAssignment_repo flt ?a st = (st', None)"
    using assms(2) unfolding UpdateProxyAssignment_def f
    by (cases "UpdateProxyACLAssignment_repo flt ?a st") (simp add: wrap_write_def)
  then have st': "st_assignments st' = tb_Save pa_ID ?a (st_assignments st)"
    by (auto simp: UpdateProxyACLAssignment_repo_def split: if_split_asm)
  have ex: "\<exists>y \<in> set (tb_rows (st_assignments st)). pa_ID y = pa_ID ?a" using row by auto
  have "pa_PathPattern a = []"
    using assms(3,4) row(2) unfolding st' set_tb_Save[OF ex] by auto
  with assms(5) show ?thesis by (simp add: matchPath_Nil)
qed

definition demo_assigned :: acl_store where
  "demo_assigned =
     (let st1 = fst (CreateProxy ok_syncer no_faults (demo_new_proxy ''b.example.com'') 1 demo_empty 0);
          st2 = fst (CreateGroup no_faults (demo_group 0 ''admins'' ''any'') 1 st1)
      in fst (AssignToProxy no_faults 1 1 ''/admin/*'' 0 st2))"

lemma demo_assigned_ok: "system_ok demo_assigned"
proof -
  let ?st1 = "fst (CreateProxy ok_syncer no_faults (demo_new_proxy ''b.example.com'') 1 demo_empty 0)"
  have st1: "system_ok ?st1" by (rule CreateProxy_ok[OF demo_empty_ok])
  let ?st2 = "fst (CreateGroup no_faults (demo_group 0 ''admins'' ''any'') 1 ?st1)"
  have st2: "system_ok ?st2"
    by (rule keeps_system_ok[OF st1 CreateGroup_ok[OF system_ok_parts(1)[OF st1]] acl_ops_keep(1)])
  show ?thesis unfolding demo_assigned_def Let_def
    by (rule keeps_system_ok[OF st2 AssignToProxy_ok[OF system_ok_parts(1)[OF st2]] acl_ops_keep(16)])
qed

theorem UpdateProxyAssignment_empty_pattern_witness:
  "\<not> matchPath (pa_PathPattern (demo_assignment 1 1 [])) ''/admin/users''"
proof (rule UpdateProxyAssignment_empty_pattern[OF demo_assigned_ok])
  let ?r = "UpdateProxyAssignment no_faults 1 [] 0 True demo_assigned"
  have "snd ?r = None" by code_simp
  then show "?r = (fst ?r, None)" by (metis prod.collapse)
  show "demo_assignment 1 1 [] \<in> set (tb_rows (st_assignments (fst ?r)))" by code_simp
qed (simp_all add: demo_assignment_def)

end
