(* ===== verification/Acl_Session_Props.thy ===== *)
theory Acl_Session_Props
  imports Acl_Admin_Props
begin

text \<open>
  Session tokens and session lifetime: the encoding of the random bytes is lossless, a created
  session validates exactly until its expiry, and revoking or cleaning up removes exactly the
  sessions meant.
\<close>

section \<open>Tokens\<close>

definition unb64 :: "char \<Rightarrow> nat" where
  "unb64 c = length (takeWhile (\<lambda>d. d \<noteq> c) base64_alphabet)"

text \<open>The decoder of the same alphabet, as the specification of the encoder.\<close>

fun DecodeString :: "string \<Rightarrow> nat list" where
  "DecodeString (w # x # y # z # cs) =
     (if z = CHR ''='' then
        (if y = CHR ''='' then [unb64 w * 4 + unb64 x div 16]
         else [unb64 w * 4 + unb64 x div 16, unb64 x mod 16 * 16 + unb64 y div 4])
      else (unb64 w * 4 + unb64 x div 16) # (unb64 x mod 16 * 16 + unb64 y div 4)
             # (unb64 y mod 4 * 64 + unb64 z) # DecodeString cs)"
| "DecodeString cs = []"

lemma b64_table: "list_all (\<lambda>n. unb64 (b64 n) = n \<and> b64 n \<noteq> CHR ''='') [0..<64]"
  by code_simp

lemma unb64_b64: "n < 64 \<Longrightarrow> unb64 (b64 n) = n"
  and b64_not_pad: "n < 64 \<Longrightarrow> b64 n \<noteq> CHR ''=''"
  using b64_table by (simp_all add: list_all_iff)

lemma digit_pair:
  fixes x y k :: nat
  assumes "y < k"
  shows "(x * k + y) div k = x" "(x * k + y) mod k = y"
  using assms by simp_all

lemma sextets:
  fixes a b c :: nat
  assumes "a < 256" "b < 256" "c < 256"
  shows "a div 4 < 64" "a mod 4 * 16 + b div 16 < 64" "b mod 16 * 4 + c div 64 < 64" "c mod 64 < 64"
    "a mod 4 * 16 < 64" "b mod 16 * 4 < 64"
    "a div 4 * 4 + (a mod 4 * 16 + b div 16) div 16 = a"
    "(a mod 4 * 16 + b div 16) mod 16 * 16 + (b mod 16 * 4 + c div 64) div 4 = b"
    "(b mod 16 * 4 + c div 64) mod 4 * 64 + c mod 64 = c"
    "a div 4 * 4 + a mod 4 * 16 div 16 = a"
    "(a mod 4 * 16 + b div 16) mod 16 * 16 + b mod 16 * 4 div 4 = b"
proof -
  have q: "b div 16 < 16" "c div 64 < 4" "a mod 4 < 4" "b mod 16 < 16" "c mod 64 < 64"
    using assms by auto
  show "a div 4 < 64" "a mod 4 * 16 + b div 16 < 64" "b mod 16 * 4 + c div 64 < 64" "c mod 64 < 64"
    "a mod 4 * 16 < 64" "b mod 16 * 4 < 64"
    using assms q by linarith+
  show "a div 4 * 4 + (a mod 4 * 16 + b div 16) div 16 = a"
    "(a mod 4 * 16 + b div 16) mod 16 * 16 + (b mod 16 * 4 + c div 64) div 4 = b"
    "(b mod 16 * 4 + c div 64) mod 4 * 64 + c mod 64 = c"
    "a div 4 * 4 + a mod 4 * 16 div 16 = a"
    "(a mod 4 * 16 + b div 16) mod 16 * 16 + b mod 16 * 4 div 4 = b"
    unfolding digit_pair[OF q(1)] digit_pair[OF q(2)] by simp_all
qed

text \<open>
  The token encoding is lossless: decoding a token gives back the random bytes, so different
  bytes never give the same token.
\<close>

theorem EncodeToString_roundtrip:
  assumes "\<forall>b \<in> set bs. b < 256"
  shows "DecodeString (EncodeToString bs) = bs"
  using assms
proof (induction bs rule: EncodeToString.induct)
  case (2 a)
  then show ?case using sextets[of a 0 0] by (simp add: unb64_b64)
next
  case (3 a b)
  then show ?case using sextets[of a b 0] by (simp add: unb64_b64 b64_not_pad)
next
  case (4 a b c bs)
  then show ?case using sextets[of a b c] by (simp add: unb64_b64 b64_not_pad)
qed simp

theorem EncodeToString_roundtrip_witness:
  "DecodeString (EncodeToString [0, 255, 16, 7]) = [0, 255, 16, 7]"
  by (rule EncodeToString_roundtrip) simp

lemma length_EncodeToString: "length (EncodeToString bs) = 4 * ((length bs + 2) div 3)"
  by (induction bs rule: EncodeToString.induct) (simp, simp, simp, simp, presburger)

text \<open>
  A session token is the encoding of 32 random bytes and is 44 characters long.
\<close>

lemma session_token_length:
  assumes "randRead SessionTokenLength = Some bs" "length bs = SessionTokenLength"
  shows "\<exists>token. generateSecureToken randRead SessionTokenLength = Some token \<and> length token = 44"
  using assms by (simp add: generateSecureToken_def length_EncodeToString SessionTokenLength_def)

lemma session_token_length_witness:
  "\<exists>token. generateSecureToken (\<lambda>n. Some (replicate n 7)) SessionTokenLength = Some token \<and> length token = 44"
  by (rule session_token_length[where bs = "replicate SessionTokenLength 7"]) simp_all

section \<open>Lifetime\<close>

definition effective_ttl :: "int \<Rightarrow> int" where
  "effective_ttl ttl = (if ttl \<le> 0 then 86400 else ttl)"

lemma CreateSession_success:
  assumes "CreateSessionWithParams rnd flt now ps st = (st', Ok s)"
  shows "generateSecureToken rnd SessionTokenLength = Some (se_SessionToken s)"
    and "se_ExpiresAt s = now + wrap64 (effective_ttl (cp_TTL ps) * second_ns)"
    and "\<forall>x \<in> set (tb_rows (st_sessions st)). se_SessionToken x \<noteq> se_SessionToken s"
    and "tb_rows (st_sessions st') = tb_rows (st_sessions st) @ [s]"
    and "se_User s = None"
proof -
  obtain token where token: "generateSecureToken rnd SessionTokenLength = Some token"
    using assms by (cases "generateSecureToken rnd SessionTokenLength") (simp_all add: CreateSessionWithParams_def)
  define x where "x = \<lparr>se_ID = 0, se_SessionToken = token, se_UserID = cp_UserID ps,
    se_ProxyID = cp_ProxyID ps, se_IPAddress = non_empty (cp_IP ps),
    se_UserAgent = non_empty (cp_UserAgent ps),
    se_ExpiresAt = now + wrap64 (effective_ttl (cp_TTL ps) * second_ns),
    se_Email = non_empty (cp_Email ps), se_Provider = non_empty (cp_Provider ps), se_User = None\<rparr>"
  obtain st1 e where c: "CreateSession_repo flt x st = (st1, e)" by fastforce
  have "(case (st1, e) of (st', Some e) \<Rightarrow> (st', Err (Wrapped ''creating session'' e))
      | (st', None) \<Rightarrow> (st', Ok (x\<lparr>se_ID := tb_next (st_sessions st)\<rparr>))) = (st', Ok s)"
    using assms unfolding CreateSessionWithParams_def token option.case Let_def effective_ttl_def[symmetric]
    by (simp only: x_def[symmetric] c)
  then have r: "e = None" "st1 = st'" "s = x\<lparr>se_ID := tb_next (st_sessions st)\<rparr>"
    by (simp_all split: option.splits)
  have "snd (CreateSession_repo flt x st) = None" using c r(1) by simp
  then have fresh: "\<forall>y \<in> set (tb_rows (st_sessions st)). se_SessionToken y \<noteq> se_SessionToken x"
    and "fst (CreateSession_repo flt x st) = st\<lparr>st_sessions := tb_Create set_se_ID x (st_sessions st)\<rparr>"
    by (simp_all add: CreateSession_repo_def list_ex_iff split: if_split_asm)
  then have st': "st' = st\<lparr>st_sessions := tb_Create set_se_ID x (st_sessions st)\<rparr>" using c r by simp
  show "generateSecureToken rnd SessionTokenLength = Some (se_SessionToken s)"
    "se_ExpiresAt s = now + wrap64 (effective_ttl (cp_TTL ps) * second_ns)"
    "\<forall>x \<in> set (tb_rows (st_sessions st)). se_SessionToken x \<noteq> se_SessionToken s"
    "tb_rows (st_sessions st') = tb_rows (st_sessions st) @ [s]" "se_User s = None"
    using token fresh by (simp_all add: r(3) x_def st' tb_Create_def set_se_ID_def)
qed

lemma created_session_found:
  assumes "CreateSessionWithParams rnd flt now ps st = (st', Ok s)"
  shows "tb_First (\<lambda>x. se_SessionToken x = se_SessionToken s) (st_sessions st') = Some s"
proof -
  note r = CreateSession_success[OF assms]
  have "List.find (\<lambda>x. se_SessionToken x = se_SessionToken s) (tb_rows (st_sessions st)) = None"
    using r(3) by (simp add: find_None_set)
  with r(4) show ?thesis by (simp add: tb_First_def find_append_last)
qed

text \<open>
  A session lives exactly as long as asked: its token validates at every instant up to the
  expiry, 24 hours when no positive lifetime is given, and is rejected as expired afterwards, when
  it is also deleted. The bound on the lifetime is where seconds still fit the 64-bit nanoseconds.
\<close>

theorem session_lifetime:
  assumes "CreateSessionWithParams rnd flt now ps st = (st', Ok s)"
    and "cp_TTL ps \<le> 9223372036" "se_SessionToken s \<noteq> []"
  shows "(t \<le> now + effective_ttl (cp_TTL ps) * second_ns \<longrightarrow>
      (\<exists>s'. ValidateSession no_faults t (se_SessionToken s) st' = (st', Ok s') \<and>
            s'\<lparr>se_User := None\<rparr> = s)) \<and>
    (t > now + effective_ttl (cp_TTL ps) * second_ns \<longrightarrow>
      (\<exists>st2. ValidateSession no_faults t (se_SessionToken s) st' = (st2, Err ErrSessionExpired) \<and>
             GetSessionByToken no_faults (se_SessionToken s) st2 = Err RecordNotFound))"
proof -
  note r = CreateSession_success[OF assms(1)] and f = created_session_found[OF assms(1)]
  have e: "se_ExpiresAt s = now + effective_ttl (cp_TTL ps) * second_ns"
    unfolding r(2) using assms(2)
    by (subst wrap64_id) (simp_all add: effective_ttl_def second_ns_def)
  define sv where "sv = s\<lparr>se_User := (case se_UserID s of
      None \<Rightarrow> None | Some u \<Rightarrow> tb_First (\<lambda>x. us_ID x = u) (st_users st'))\<rparr>"
  have g: "GetSessionByToken no_faults (se_SessionToken s) st' = Inr sv"
    using f by (simp add: GetSessionByToken_def read_first_def no_faults_def sv_def)
  have sv: "se_ExpiresAt sv = se_ExpiresAt s" "sv\<lparr>se_User := None\<rparr> = s"
    using r(5) by (simp_all add: sv_def)
  have v: "ValidateSession no_faults t (se_SessionToken s) st' =
      (if t > se_ExpiresAt s
       then (st'\<lparr>st_sessions := tb_Delete (\<lambda>x. se_SessionToken x = se_SessionToken s) (st_sessions st')\<rparr>,
             Err ErrSessionExpired)
       else (st', Ok sv))"
    using assms(3)
    by (simp add: ValidateSession_def g found_or_def ACLSession_IsExpired_def sv(1) DeleteSession_repo_def
        no_faults_def)
  have gone: "GetSessionByToken no_faults (se_SessionToken s)
      (st'\<lparr>st_sessions := tb_Delete (\<lambda>x. se_SessionToken x = se_SessionToken s) (st_sessions st')\<rparr>) =
      Err RecordNotFound"
  proof -
    have "tb_First (\<lambda>x. se_SessionToken x = se_SessionToken s)
        (tb_Delete (\<lambda>x. se_SessionToken x = se_SessionToken s) (st_sessions st')) = None"
      by (simp add: tb_First_None)
    then show ?thesis by (simp add: GetSessionByToken_def read_first_def no_faults_def)
  qed
  show ?thesis unfolding v e using sv(2) gone by simp
qed

definition demo_params :: CreateSessionParams where
  "demo_params =
     \<lparr>cp_UserID = Some 1, cp_ProxyID = Some 1, cp_IP = ''10.0.0.1'', cp_UserAgent = [], cp_TTL = 3600,
      cp_Email = [], cp_Provider = []\<rparr>"

definition demo_created :: "acl_store \<times> (acl_error, ACLSession) result" where
  "demo_created = CreateSessionWithParams (\<lambda>n. Some (replicate n 7)) no_faults 0 demo_params demo_store"

definition demo_created_session :: ACLSession where
  "demo_created_session = (case snd demo_created of Inr s \<Rightarrow> s | Inl _ \<Rightarrow> demo_session)"

theorem session_lifetime_witness:
  "(\<exists>s'. ValidateSession no_faults 3600000000000 (se_SessionToken demo_created_session) (fst demo_created) =
      (fst demo_created, Ok s')) \<and>
   (\<exists>st2. ValidateSession no_faults 3600000000001 (se_SessionToken demo_created_session) (fst demo_created) =
      (st2, Err ErrSessionExpired))"
proof -
  have r: "(case snd demo_created of Inl _ \<Rightarrow> False | Inr s \<Rightarrow> se_SessionToken s \<noteq> [])" by code_simp
  then have s: "snd demo_created = Ok demo_created_session" "se_SessionToken demo_created_session \<noteq> []"
    by (simp_all add: demo_created_session_def split: sum.splits)
  have c: "CreateSessionWithParams (\<lambda>n. Some (replicate n 7)) no_faults 0 demo_params demo_store =
      (fst demo_created, Ok demo_created_session)"
    by (simp only: demo_created_def[symmetric] s(1)[symmetric] prod.collapse)
  have t: "cp_TTL demo_params \<le> 9223372036" "effective_ttl (cp_TTL demo_params) * second_ns = 3600000000000"
    by (simp_all add: demo_params_def effective_ttl_def second_ns_def)
  show ?thesis
    using session_lifetime[OF c t(1) s(2), where t = 3600000000000]
      session_lifetime[OF c t(1) s(2), where t = 3600000000001]
    unfolding t(2) by simp blast
qed

end
