(* ===== verification/Caddy_Types.thy ===== *)
theory Caddy_Types
  imports Proxy_Model "HOL-Library.AList"
begin

text \<open>
  The typed Caddy configuration of \<open>backend/internal/caddy/config\<close>: the structures of
  \<open>types.go\<close>, \<open>http_handlers.go\<close> and \<open>http_matchers.go\<close>, their constructors, and the JSON
  each structure is encoded to, following its struct tags (\<open>omitempty\<close> drops a zero value).

  Go maps are association lists with distinct keys. A Go map of type \<open>map[string]interface{}\<close>
  (\<open>MatcherSet\<close>, \<open>HTTPHandler\<close>) maps a key to the JSON its value is encoded to. The order of keys
  has no meaning, as in a JSON object; the encoder of the standard library sorts them.
\<close>

section \<open>JSON encoding by struct tag\<close>

named_theorems json_defs \<open>encoders of configuration structures\<close>

type_synonym fields = "(string \<times> json) list"
type_synonym headers = "(string \<times> string list) list"

definition json_strings :: "string list \<Rightarrow> json" where
  "json_strings xs = JArr (map JStr xs)"

definition json_headers :: "headers \<Rightarrow> json" where
  "json_headers m = JObj (map (\<lambda>(k, vs). (k, json_strings vs)) m)"

definition omit_str :: "string \<Rightarrow> string \<Rightarrow> fields" where
  "omit_str k s = (if s = [] then [] else [(k, JStr s)])"

definition omit_strs :: "string \<Rightarrow> string list \<Rightarrow> fields" where
  "omit_strs k xs = (if xs = [] then [] else [(k, json_strings xs)])"

definition omit_bool :: "string \<Rightarrow> bool \<Rightarrow> fields" where
  "omit_bool k b = (if b then [(k, JBool True)] else [])"

definition omit_int :: "string \<Rightarrow> int \<Rightarrow> fields" where
  "omit_int k i = (if i = 0 then [] else [(k, JNum (of_int i))])"

definition omit_ptr :: "string \<Rightarrow> ('a \<Rightarrow> json) \<Rightarrow> 'a option \<Rightarrow> fields" where
  "omit_ptr k f p = (case p of None \<Rightarrow> [] | Some x \<Rightarrow> [(k, f x)])"

definition omit_list :: "string \<Rightarrow> ('a \<Rightarrow> json) \<Rightarrow> 'a list \<Rightarrow> fields" where
  "omit_list k f xs = (if xs = [] then [] else [(k, JArr (map f xs))])"

definition omit_headers :: "string \<Rightarrow> headers \<Rightarrow> fields" where
  "omit_headers k m = (if m = [] then [] else [(k, json_headers m)])"

lemmas omit_defs = omit_str_def omit_strs_def omit_bool_def omit_int_def omit_ptr_def omit_list_def
  omit_headers_def

section \<open>Formatting of numbers\<close>

text \<open>
  \<open>itoa\<close> of \<open>http_handlers.go\<close> fills a buffer of 20 bytes from the end; the argument is a 64-bit
  integer, so negating the smallest one wraps.
\<close>

function itoa_loop :: "int \<Rightarrow> string \<Rightarrow> string" where
  "itoa_loop i buf =
     (if i > 0 then itoa_loop (i div 10) (digit_char (nat (i mod 10)) # buf) else buf)"
  by pat_completeness auto

termination itoa_loop
  by (relation "measure (\<lambda>(i, buf). nat i)") auto

declare itoa_loop.simps [simp del]

definition itoa :: "int \<Rightarrow> string" where
  "itoa i =
     (if i = 0 then ''0''
      else if i < 0 then CHR ''-'' # itoa_loop (wrap64 (- i)) []
      else itoa_loop i [])"

lemma nat_to_string_step:
  "10 \<le> n \<Longrightarrow> nat_to_string n = nat_to_string (n div 10) @ [digit_char (n mod 10)]"
  "n < 10 \<Longrightarrow> nat_to_string n = [digit_char n]"
  by (subst nat_to_string.simps, simp)+

lemmas Itoa_eval = Itoa_def nat_to_string_step digit_char_def char_of_def bit_0

definition formatDialAddress :: "string \<Rightarrow> int \<Rightarrow> string" where
  "formatDialAddress host port = (if port = 0 then host else host @ '':'' @ itoa port)"

definition ListenAddress :: "string \<Rightarrow> int \<Rightarrow> string" where
  "ListenAddress host port =
     (if host = [] then '':'' @ itoa port else host @ '':'' @ itoa port)"

section \<open>Matchers\<close>

type_synonym MatcherSet = fields
type_synonym HTTPHandler = fields

definition MatchRemoteIP :: "string list \<Rightarrow> json" where
  "MatchRemoteIP ranges = JObj (omit_strs ''ranges'' ranges)"

definition MatchFile :: "string \<Rightarrow> string list \<Rightarrow> json" where
  "MatchFile rootPath tryFiles = JObj (omit_str ''root'' rootPath @ omit_strs ''try_files'' tryFiles)"

definition NewHostMatcher :: "string list \<Rightarrow> MatcherSet" where
  "NewHostMatcher hosts = [(''host'', json_strings hosts)]"

definition NewPathMatcher :: "string list \<Rightarrow> MatcherSet" where
  "NewPathMatcher paths = [(''path'', json_strings paths)]"

definition NewRemoteIPMatcher :: "string list \<Rightarrow> MatcherSet" where
  "NewRemoteIPMatcher ranges = [(''remote_ip'', MatchRemoteIP ranges)]"

definition NewNotMatcher :: "MatcherSet list \<Rightarrow> MatcherSet" where
  "NewNotMatcher matchers = [(''not'', JArr (map JObj matchers))]"

definition NewHostPathMatcher :: "string \<Rightarrow> string list \<Rightarrow> MatcherSet" where
  "NewHostPathMatcher host paths = [(''host'', json_strings [host]), (''path'', json_strings paths)]"

fun CombineMatchers :: "MatcherSet list \<Rightarrow> MatcherSet" where
  "CombineMatchers ms =
     fold (\<lambda>m combined.
       fold (\<lambda>(k, v) combined. if map_of combined k \<noteq> None then combined else combined @ [(k, v)])
         m combined) ms []"

definition AddPathToMatcher :: "MatcherSet \<Rightarrow> string list \<Rightarrow> MatcherSet" where
  "AddPathToMatcher m paths = AList.update ''path'' (json_strings paths) m"

definition AddRemoteIPToMatcher :: "MatcherSet \<Rightarrow> string list \<Rightarrow> MatcherSet" where
  "AddRemoteIPToMatcher m ranges = AList.update ''remote_ip'' (MatchRemoteIP ranges) m"

definition StaticAssetExtensions :: "string list" where
  "StaticAssetExtensions =
     [''*.ico'', ''*.png'', ''*.jpg'', ''*.jpeg'', ''*.gif'', ''*.svg'', ''*.webp'', ''*.avif'',
      ''*.css'',
      ''*.js'', ''*.mjs'',
      ''*.woff'', ''*.woff2'', ''*.ttf'', ''*.eot'', ''*.otf'',
      ''*.map'',
      ''*.webmanifest'', ''*.json'']"

definition StaticAssetPaths :: "string list" where
  "StaticAssetPaths =
     [''/favicon.ico'', ''/robots.txt'', ''/sitemap.xml'', ''/manifest.json'',
      ''/static/*'', ''/assets/*'', ''/images/*'', ''/css/*'', ''/js/*'', ''/fonts/*'', ''/media/*'',
      ''/.well-known/*'']"

section \<open>Routes\<close>

record HTTPRoute =
  hr_Match :: "MatcherSet list"
  hr_Handle :: "HTTPHandler list"
  hr_Terminal :: bool

definition json_HTTPRoute :: "HTTPRoute \<Rightarrow> json" where
  "json_HTTPRoute r =
     JObj (omit_list ''match'' JObj (hr_Match r) @ omit_list ''handle'' JObj (hr_Handle r) @
           omit_bool ''terminal'' (hr_Terminal r))"

definition NewHTTPRoute :: HTTPRoute where
  "NewHTTPRoute = \<lparr>hr_Match = [], hr_Handle = [], hr_Terminal = False\<rparr>"

definition AddMatch :: "MatcherSet \<Rightarrow> HTTPRoute \<Rightarrow> HTTPRoute" where
  "AddMatch m r = r\<lparr>hr_Match := hr_Match r @ [m]\<rparr>"

definition AddHandler :: "HTTPHandler \<Rightarrow> HTTPRoute \<Rightarrow> HTTPRoute" where
  "AddHandler h r = r\<lparr>hr_Handle := hr_Handle r @ [h]\<rparr>"

definition SetTerminal :: "bool \<Rightarrow> HTTPRoute \<Rightarrow> HTTPRoute" where
  "SetTerminal b r = r\<lparr>hr_Terminal := b\<rparr>"

lemmas route_defs = NewHTTPRoute_def AddMatch_def AddHandler_def SetTerminal_def

section \<open>Header operations\<close>

record ReplacementOp =
  ro_Search :: string
  ro_SearchRegexp :: string
  ro_Replace :: string

record HeaderOps =
  ho_Set :: headers
  ho_Add :: headers
  ho_Delete :: "string list"
  ho_Replace :: "(string \<times> ReplacementOp list) list"

definition empty_HeaderOps :: HeaderOps where
  "empty_HeaderOps = \<lparr>ho_Set = [], ho_Add = [], ho_Delete = [], ho_Replace = []\<rparr>"

definition json_ReplacementOp :: "ReplacementOp \<Rightarrow> json" where
  "json_ReplacementOp r =
     JObj (omit_str ''search'' (ro_Search r) @ omit_str ''search_regexp'' (ro_SearchRegexp r) @
           omit_str ''replace'' (ro_Replace r))"

definition json_HeaderOps :: "HeaderOps \<Rightarrow> json" where
  "json_HeaderOps h =
     JObj (omit_headers ''set'' (ho_Set h) @ omit_headers ''add'' (ho_Add h) @
           omit_strs ''delete'' (ho_Delete h) @
           (if ho_Replace h = [] then []
            else [(''replace'', JObj (map (\<lambda>(k, rs). (k, JArr (map json_ReplacementOp rs))) (ho_Replace h)))]))"

definition SetHeader :: "string \<Rightarrow> string list \<Rightarrow> HeaderOps \<Rightarrow> HeaderOps" where
  "SetHeader name values h = h\<lparr>ho_Set := AList.update name values (ho_Set h)\<rparr>"

definition StandardProxyHeaders :: HeaderOps where
  "StandardProxyHeaders = empty_HeaderOps\<lparr>ho_Set :=
     [(''X-Real-IP'', [''{http.vars.client_ip}'']),
      (''X-Forwarded-For'', [''{http.vars.client_ip}'']),
      (''X-Forwarded-Proto'', [''{http.request.scheme}'']),
      (''X-Forwarded-Host'', [''{http.request.host}''])]\<rparr>"

record HeadersConfig =
  hd_Request :: "HeaderOps option"
  hd_Response :: "HeaderOps option"

definition json_HeadersConfig :: "HeadersConfig \<Rightarrow> json" where
  "json_HeadersConfig h =
     JObj (omit_ptr ''request'' json_HeaderOps (hd_Request h) @
           omit_ptr ''response'' json_HeaderOps (hd_Response h))"

end
