(* ===== verification/Caddy_Handlers.thy ===== *)
theory Caddy_Handlers
  imports Caddy_Types
begin

text \<open>
  The HTTP handlers of \<open>backend/internal/caddy/config/http_handlers.go\<close>: every structure with all
  its fields, its constructor and its encoding. \<open>handlerToMap\<close> and \<open>ToHTTPHandler\<close> are the two
  conversions to the generic handler map; they differ in what they do with unset parts.
\<close>

section \<open>The reverse proxy handler\<close>

record Upstream =
  up_Dial :: string
  up_MaxRequests :: int
  up_LookupSRV :: string

definition NewUpstream :: "string \<Rightarrow> Upstream" where
  "NewUpstream dial = \<lparr>up_Dial = dial, up_MaxRequests = 0, up_LookupSRV = []\<rparr>"

definition json_Upstream :: "Upstream \<Rightarrow> json" where
  "json_Upstream u =
     JObj (omit_str ''dial'' (up_Dial u) @ omit_int ''max_requests'' (up_MaxRequests u) @
           omit_str ''lookup_srv'' (up_LookupSRV u))"

record SelectionPolicy =
  sp_Policy :: string
  sp_Header :: string

record LoadBalancing =
  lb_SelectionPolicy :: "SelectionPolicy option"
  lb_TryDuration :: string
  lb_TryInterval :: string
  lb_RetryMatch :: "MatcherSet list"

definition json_SelectionPolicy :: "SelectionPolicy \<Rightarrow> json" where
  "json_SelectionPolicy p = JObj (omit_str ''policy'' (sp_Policy p) @ omit_str ''header'' (sp_Header p))"

definition json_LoadBalancing :: "LoadBalancing \<Rightarrow> json" where
  "json_LoadBalancing l =
     JObj (omit_ptr ''selection_policy'' json_SelectionPolicy (lb_SelectionPolicy l) @
           omit_str ''try_duration'' (lb_TryDuration l) @ omit_str ''try_interval'' (lb_TryInterval l) @
           omit_list ''retry_match'' JObj (lb_RetryMatch l))"

record ActiveHealthCheck =
  ac_Path :: string
  ac_URI :: string
  ac_Port :: int
  ac_Headers :: headers
  ac_Interval :: string
  ac_Timeout :: string
  ac_MaxSize :: int
  ac_ExpectStatus :: int
  ac_ExpectBody :: string

definition empty_ActiveHealthCheck :: ActiveHealthCheck where
  "empty_ActiveHealthCheck =
     \<lparr>ac_Path = [], ac_URI = [], ac_Port = 0, ac_Headers = [], ac_Interval = [], ac_Timeout = [],
      ac_MaxSize = 0, ac_ExpectStatus = 0, ac_ExpectBody = []\<rparr>"

definition json_ActiveHealthCheck :: "ActiveHealthCheck \<Rightarrow> json" where
  "json_ActiveHealthCheck c =
     JObj (omit_str ''path'' (ac_Path c) @ omit_str ''uri'' (ac_URI c) @ omit_int ''port'' (ac_Port c) @
           omit_headers ''headers'' (ac_Headers c) @ omit_str ''interval'' (ac_Interval c) @
           omit_str ''timeout'' (ac_Timeout c) @ omit_int ''max_size'' (ac_MaxSize c) @
           omit_int ''expect_status'' (ac_ExpectStatus c) @ omit_str ''expect_body'' (ac_ExpectBody c))"

record PassiveHealthCheck =
  ph_FailDuration :: string
  ph_MaxFails :: int
  ph_UnhealthyStatus :: "int list"
  ph_UnhealthyLatency :: string

definition json_PassiveHealthCheck :: "PassiveHealthCheck \<Rightarrow> json" where
  "json_PassiveHealthCheck c =
     JObj (omit_str ''fail_duration'' (ph_FailDuration c) @ omit_int ''max_fails'' (ph_MaxFails c) @
           omit_list ''unhealthy_status'' (\<lambda>i. JNum (of_int i)) (ph_UnhealthyStatus c) @
           omit_str ''unhealthy_latency'' (ph_UnhealthyLatency c))"

record HealthChecks =
  hc_Active :: "ActiveHealthCheck option"
  hc_Passive :: "PassiveHealthCheck option"

definition json_HealthChecks :: "HealthChecks \<Rightarrow> json" where
  "json_HealthChecks h =
     JObj (omit_ptr ''active'' json_ActiveHealthCheck (hc_Active h) @
           omit_ptr ''passive'' json_PassiveHealthCheck (hc_Passive h))"

record TLSConfig =
  tc_RootCAPool :: "string list"
  tc_RootCAPemFiles :: "string list"
  tc_ClientCertificateFile :: string
  tc_ClientCertificateKeyFile :: string
  tc_InsecureSkipVerify :: bool
  tc_ServerName :: string
  tc_Renegotiation :: string

definition empty_TLSConfig :: TLSConfig where
  "empty_TLSConfig =
     \<lparr>tc_RootCAPool = [], tc_RootCAPemFiles = [], tc_ClientCertificateFile = [],
      tc_ClientCertificateKeyFile = [], tc_InsecureSkipVerify = False, tc_ServerName = [],
      tc_Renegotiation = []\<rparr>"

definition json_TLSConfig :: "TLSConfig \<Rightarrow> json" where
  "json_TLSConfig t =
     JObj (omit_strs ''root_ca_pool'' (tc_RootCAPool t) @
           omit_strs ''root_ca_pem_files'' (tc_RootCAPemFiles t) @
           omit_str ''client_certificate_file'' (tc_ClientCertificateFile t) @
           omit_str ''client_certificate_key_file'' (tc_ClientCertificateKeyFile t) @
           omit_bool ''insecure_skip_verify'' (tc_InsecureSkipVerify t) @
           omit_str ''server_name'' (tc_ServerName t) @ omit_str ''renegotiation'' (tc_Renegotiation t))"

record KeepAlive =
  ka_Enabled :: "bool option"
  ka_ProbeInterval :: string
  ka_MaxIdleConns :: int
  ka_MaxIdleConnsPerHost :: int
  ka_IdleConnTimeout :: string

definition json_KeepAlive :: "KeepAlive \<Rightarrow> json" where
  "json_KeepAlive k =
     JObj (omit_ptr ''enabled'' JBool (ka_Enabled k) @ omit_str ''probe_interval'' (ka_ProbeInterval k) @
           omit_int ''max_idle_conns'' (ka_MaxIdleConns k) @
           omit_int ''max_idle_conns_per_host'' (ka_MaxIdleConnsPerHost k) @
           omit_str ''idle_conn_timeout'' (ka_IdleConnTimeout k))"

text \<open>\<open>ht_Resolver\<close> is the address list of the \<open>DNSResolver\<close> the field points to.\<close>

record HTTPTransport =
  ht_Protocol :: string
  ht_Resolver :: "string list option"
  ht_TLS :: "TLSConfig option"
  ht_KeepAlive :: "KeepAlive option"
  ht_Compression :: bool
  ht_MaxConnsPerHost :: int
  ht_MaxIdleConnsPerHost :: int
  ht_MaxResponseHeaderSize :: int
  ht_DialTimeout :: string
  ht_ReadBufferSize :: int
  ht_WriteBufferSize :: int
  ht_ResponseHeaderTimeout :: string
  ht_ExpectContinueTimeout :: string
  ht_Versions :: "string list"

definition empty_HTTPTransport :: HTTPTransport where
  "empty_HTTPTransport =
     \<lparr>ht_Protocol = [], ht_Resolver = None, ht_TLS = None, ht_KeepAlive = None, ht_Compression = False,
      ht_MaxConnsPerHost = 0, ht_MaxIdleConnsPerHost = 0, ht_MaxResponseHeaderSize = 0,
      ht_DialTimeout = [], ht_ReadBufferSize = 0, ht_WriteBufferSize = 0, ht_ResponseHeaderTimeout = [],
      ht_ExpectContinueTimeout = [], ht_Versions = []\<rparr>"

definition json_HTTPTransport :: "HTTPTransport \<Rightarrow> json" where
  "json_HTTPTransport t =
     JObj (omit_str ''protocol'' (ht_Protocol t) @
           omit_ptr ''resolver'' (\<lambda>a. JObj (omit_strs ''addresses'' a)) (ht_Resolver t) @
           omit_ptr ''tls'' json_TLSConfig (ht_TLS t) @
           omit_ptr ''keep_alive'' json_KeepAlive (ht_KeepAlive t) @
           omit_bool ''compression'' (ht_Compression t) @
           omit_int ''max_conns_per_host'' (ht_MaxConnsPerHost t) @
           omit_int ''max_idle_conns_per_host'' (ht_MaxIdleConnsPerHost t) @
           omit_int ''max_response_header_size'' (ht_MaxResponseHeaderSize t) @
           omit_str ''dial_timeout'' (ht_DialTimeout t) @
           omit_int ''read_buffer_size'' (ht_ReadBufferSize t) @
           omit_int ''write_buffer_size'' (ht_WriteBufferSize t) @
           omit_str ''response_header_timeout'' (ht_ResponseHeaderTimeout t) @
           omit_str ''expect_continue_timeout'' (ht_ExpectContinueTimeout t) @
           omit_strs ''versions'' (ht_Versions t))"

record ReverseProxyHandler =
  rp_Handler :: string
  rp_Upstreams :: "Upstream list"
  rp_LoadBalancing :: "LoadBalancing option"
  rp_HealthChecks :: "HealthChecks option"
  rp_Transport :: "HTTPTransport option"
  rp_Headers :: "HeadersConfig option"
  rp_FlushInterval :: string
  rp_BufferRequests :: bool
  rp_BufferResponses :: bool
  rp_MaxBufferSize :: int
  rp_TrustedProxies :: "string list"

definition NewReverseProxyHandler :: "Upstream list \<Rightarrow> ReverseProxyHandler" where
  "NewReverseProxyHandler upstreams =
     \<lparr>rp_Handler = ''reverse_proxy'', rp_Upstreams = upstreams, rp_LoadBalancing = None,
      rp_HealthChecks = None, rp_Transport = None, rp_Headers = None, rp_FlushInterval = [],
      rp_BufferRequests = False, rp_BufferResponses = False, rp_MaxBufferSize = 0,
      rp_TrustedProxies = []\<rparr>"

definition handlerToMap :: "ReverseProxyHandler \<Rightarrow> HTTPHandler" where
  "handlerToMap h =
     [(''handler'', JStr (rp_Handler h)),
      (''upstreams'', JArr (map json_Upstream (rp_Upstreams h)))] @
     omit_ptr ''load_balancing'' json_LoadBalancing (rp_LoadBalancing h) @
     omit_ptr ''health_checks'' json_HealthChecks (rp_HealthChecks h) @
     omit_ptr ''transport'' json_HTTPTransport (rp_Transport h) @
     omit_ptr ''headers'' json_HeadersConfig (rp_Headers h)"

section \<open>Other handlers\<close>

record StaticResponseHandler =
  sr_Handler :: string
  sr_StatusCode :: int
  sr_Headers :: headers
  sr_Body :: string
  sr_Close :: bool

definition NewStaticResponseHandler :: "int \<Rightarrow> string \<Rightarrow> StaticResponseHandler" where
  "NewStaticResponseHandler statusCode body =
     \<lparr>sr_Handler = ''static_response'', sr_StatusCode = statusCode, sr_Headers = [], sr_Body = body,
      sr_Close = False\<rparr>"

definition NewRedirectHandler :: "string \<Rightarrow> int \<Rightarrow> StaticResponseHandler" where
  "NewRedirectHandler location statusCode =
     \<lparr>sr_Handler = ''static_response'', sr_StatusCode = statusCode,
      sr_Headers = [(''Location'', [location])], sr_Body = [], sr_Close = False\<rparr>"

text \<open>\<open>fs_Browse\<close> is the template file of the \<open>Browse\<close> structure the field points to.\<close>

record FileServerHandler =
  fs_Handler :: string
  fs_Root :: string
  fs_IndexNames :: "string list"
  fs_Browse :: "string option"
  fs_CanonicalURIs :: bool
  fs_PassThru :: bool
  fs_Hide :: "string list"

definition NewFileServerHandler :: "string \<Rightarrow> FileServerHandler" where
  "NewFileServerHandler rootPath =
     \<lparr>fs_Handler = ''file_server'', fs_Root = rootPath, fs_IndexNames = [], fs_Browse = None,
      fs_CanonicalURIs = False, fs_PassThru = False, fs_Hide = []\<rparr>"

definition WithIndexNames :: "string list \<Rightarrow> FileServerHandler \<Rightarrow> FileServerHandler" where
  "WithIndexNames names h = h\<lparr>fs_IndexNames := names\<rparr>"

definition WithBrowse :: "string \<Rightarrow> FileServerHandler \<Rightarrow> FileServerHandler" where
  "WithBrowse templateFile h = h\<lparr>fs_Browse := Some templateFile\<rparr>"

record BasicAuthAccount =
  ba_Username :: string
  ba_Password :: string

text \<open>The \<open>AuthenticationHandler\<close> with the \<open>HTTPBasicAuth\<close> provider its constructor fills in.\<close>

record AuthenticationHandler =
  au_Handler :: string
  au_Accounts :: "BasicAuthAccount list"
  au_Realm :: string
  au_HashCache :: "bool option"

definition NewAuthenticationHandler :: "BasicAuthAccount list \<Rightarrow> string \<Rightarrow> AuthenticationHandler" where
  "NewAuthenticationHandler accounts realm =
     \<lparr>au_Handler = ''authentication'', au_Accounts = accounts, au_Realm = realm, au_HashCache = None\<rparr>"

definition NewBasicAuthAccount :: "string \<Rightarrow> string \<Rightarrow> BasicAuthAccount" where
  "NewBasicAuthAccount username passwordHash = \<lparr>ba_Username = username, ba_Password = passwordHash\<rparr>"

definition json_BasicAuthAccount :: "BasicAuthAccount \<Rightarrow> json" where
  "json_BasicAuthAccount a =
     JObj [(''username'', JStr (ba_Username a)), (''password'', JStr (ba_Password a))]"

definition json_AuthenticationProviders :: "AuthenticationHandler \<Rightarrow> json" where
  "json_AuthenticationProviders h =
     JObj [(''http_basic'',
       JObj (omit_list ''accounts'' json_BasicAuthAccount (au_Accounts h) @
             omit_str ''realm'' (au_Realm h) @
             omit_ptr ''hash_cache'' (\<lambda>b. JObj (omit_bool ''enabled'' b)) (au_HashCache h)))]"

record CopyResponseHeadersHandler =
  cr_Handler :: string
  cr_Include :: "string list"
  cr_Exclude :: "string list"

definition NewCopyResponseHeadersHandler :: "string list \<Rightarrow> CopyResponseHeadersHandler" where
  "NewCopyResponseHeadersHandler headers =
     \<lparr>cr_Handler = ''copy_response_headers'', cr_Include = headers, cr_Exclude = []\<rparr>"

text \<open>\<open>HandleResponse\<close> with the \<open>ResponseMatch\<close> it points to.\<close>

record HandleResponse =
  re_StatusCodes :: "int list"
  re_MatchHeaders :: headers
  re_Routes :: "HTTPRoute list"
  re_StatusCode :: int

definition json_HandleResponse :: "HandleResponse \<Rightarrow> json" where
  "json_HandleResponse r =
     JObj ([(''match'', JObj (omit_list ''status_code'' (\<lambda>i. JNum (of_int i)) (re_StatusCodes r) @
                              omit_headers ''headers'' (re_MatchHeaders r)))] @
           omit_list ''routes'' json_HTTPRoute (re_Routes r) @
           omit_int ''status_code'' (re_StatusCode r))"

text \<open>\<open>ToHTTPHandler\<close>, on the handler types the builders pass to it.\<close>

datatype typed_handler =
    StaticResponse StaticResponseHandler
  | FileServer FileServerHandler
  | Authentication AuthenticationHandler
  | CopyResponseHeaders CopyResponseHeadersHandler

fun ToHTTPHandler :: "typed_handler \<Rightarrow> HTTPHandler" where
  "ToHTTPHandler (StaticResponse h) =
     [(''handler'', JStr (sr_Handler h)), (''status_code'', JNum (of_int (sr_StatusCode h)))] @
     omit_str ''body'' (sr_Body h) @ omit_headers ''headers'' (sr_Headers h)"
| "ToHTTPHandler (FileServer h) =
     [(''handler'', JStr (fs_Handler h))] @
     omit_str ''root'' (fs_Root h) @ omit_strs ''index_names'' (fs_IndexNames h) @
     omit_ptr ''browse'' (\<lambda>t. JObj (omit_str ''template_file'' t)) (fs_Browse h)"
| "ToHTTPHandler (Authentication h) =
     [(''handler'', JStr (au_Handler h)), (''providers'', json_AuthenticationProviders h)]"
| "ToHTTPHandler (CopyResponseHeaders h) =
     [(''handler'', JStr (cr_Handler h))] @
     omit_strs ''include'' (cr_Include h) @ omit_strs ''exclude'' (cr_Exclude h)"

definition static_response :: "int \<Rightarrow> string \<Rightarrow> HTTPHandler" where
  "static_response statusCode body = ToHTTPHandler (StaticResponse (NewStaticResponseHandler statusCode body))"

definition NewCatchAllRoute :: HTTPRoute where
  "NewCatchAllRoute = \<lparr>hr_Match = [], hr_Handle = [static_response 404 ''Not Found''], hr_Terminal = False\<rparr>"

definition NewCatchAllRedirectRoute :: "string \<Rightarrow> HTTPRoute" where
  "NewCatchAllRedirectRoute targetURL =
     \<lparr>hr_Match = [], hr_Handle = [ToHTTPHandler (StaticResponse (NewRedirectHandler targetURL 302))],
      hr_Terminal = False\<rparr>"

end
