(* ===== verification/Go_Url.thy ===== *)
theory Go_Url
  imports Go_Net
begin

text \<open>
  The part of Go's \<open>net/url\<close> that the configuration builders use: \<open>url.Parse\<close> on an absolute
  \<open>http\<close> or \<open>https\<close> URL, with \<open>Hostname\<close> and \<open>Port\<close> of the result. The parser checks control
  characters, the escapes of every component, the user information, brackets, the port and the
  characters of the host. The result keeps the scheme and the unescaped host; path, query and
  fragment are checked and dropped.
\<close>

definition is_ctl :: "char \<Rightarrow> bool" where
  "is_ctl c \<longleftrightarrow> (of_char c :: nat) < 32 \<or> (of_char c :: nat) = 127"

definition is_digit :: "char \<Rightarrow> bool" where
  "is_digit c \<longleftrightarrow> 48 \<le> (of_char c :: nat) \<and> (of_char c :: nat) \<le> 57"

definition is_alnum :: "char \<Rightarrow> bool" where
  "is_alnum c \<longleftrightarrow> is_digit c \<or> 65 \<le> (of_char c :: nat) \<and> (of_char c :: nat) \<le> 90 \<or>
     97 \<le> (of_char c :: nat) \<and> (of_char c :: nat) \<le> 122"

section \<open>Escapes\<close>

text \<open>\<open>unescape\<close> in a mode without further restrictions only checks the escapes.\<close>

fun escapes_ok :: "string \<Rightarrow> bool" where
  "escapes_ok [] = True"
| "escapes_ok (c # cs) =
     (if c = CHR ''%'' then
        (case cs of
           a # b # ds \<Rightarrow> hex_val a \<noteq> None \<and> hex_val b \<noteq> None \<and> escapes_ok ds
         | _ \<Rightarrow> False)
      else escapes_ok cs)"

text \<open>\<open>shouldEscape(c, encodeHost)\<close>.\<close>

definition host_char_ok :: "char \<Rightarrow> bool" where
  "host_char_ok c \<longleftrightarrow>
     is_alnum c \<or> List.member ''!$&()*+,;=:[]<>-_.~'' c \<or> (of_char c :: nat) \<in> {34, 39}"

text \<open>
  \<open>unescape\<close> in host mode: an escape may only encode a byte outside ASCII or the percent sign, and a
  literal ASCII character must be allowed in a host.
\<close>

fun unescape_host :: "string \<Rightarrow> string option" where
  "unescape_host [] = Some []"
| "unescape_host (c # cs) =
     (if c = CHR ''%'' then
        (case cs of
           a # b # ds \<Rightarrow>
             (case (hex_val a, hex_val b) of
                (Some x, Some y) \<Rightarrow>
                  if x < 8 \<and> \<not> (a = CHR ''2'' \<and> b = CHR ''5'') then None
                  else map_option (Cons (char_of (16 * x + y))) (unescape_host ds)
              | _ \<Rightarrow> None)
         | _ \<Rightarrow> None)
      else if (of_char c :: nat) < 128 \<and> \<not> host_char_ok c then None
      else map_option (Cons c) (unescape_host cs))"

text \<open>
  \<open>unescape\<close> in zone mode: like a host, but an escape may also encode a blank or a character that a
  host needs to escape.
\<close>

fun unescape_zone :: "string \<Rightarrow> string option" where
  "unescape_zone [] = Some []"
| "unescape_zone (c # cs) =
     (if c = CHR ''%'' then
        (case cs of
           a # b # ds \<Rightarrow>
             (case (hex_val a, hex_val b) of
                (Some x, Some y) \<Rightarrow>
                  let v = 16 * x + y in
                  if \<not> (a = CHR ''2'' \<and> b = CHR ''5'') \<and> v \<noteq> 32 \<and> \<not> host_char_ok (char_of v) then None
                  else map_option (Cons (char_of v)) (unescape_zone ds)
              | _ \<Rightarrow> None)
         | _ \<Rightarrow> None)
      else if (of_char c :: nat) < 128 \<and> \<not> host_char_ok c then None
      else map_option (Cons c) (unescape_zone cs))"

section \<open>Authority\<close>

definition validOptionalPort :: "string \<Rightarrow> bool" where
  "validOptionalPort port =
     (case port of [] \<Rightarrow> True | c # cs \<Rightarrow> c = CHR '':'' \<and> list_all is_digit cs)"

definition validUserinfo :: "string \<Rightarrow> bool" where
  "validUserinfo s \<longleftrightarrow>
     list_all (\<lambda>c. is_alnum c \<or> List.member ''-._:~!$&()*+,;=%@'' c \<or> (of_char c :: nat) = 39) s"

definition parseHost :: "string \<Rightarrow> string option" where
  "parseHost host =
     (if HasPrefix host ''['' then
        (case last_index_char CHR '']'' host of
           None \<Rightarrow> None
         | Some i \<Rightarrow>
             if \<not> validOptionalPort (drop (Suc i) host) then None
             else (case Index (take i host) ''%25'' of
                     None \<Rightarrow> unescape_host host
                   | Some z \<Rightarrow>
                       (case (unescape_host (take z host), unescape_zone (drop z (take i host)),
                              unescape_host (drop i host)) of
                          (Some h1, Some h2, Some h3) \<Rightarrow> Some (h1 @ h2 @ h3)
                        | _ \<Rightarrow> None)))
      else
        (case last_index_char CHR '':'' host of
           None \<Rightarrow> unescape_host host
         | Some i \<Rightarrow> if validOptionalPort (drop i host) then unescape_host host else None))"

definition parseAuthority :: "string \<Rightarrow> string option" where
  "parseAuthority authority =
     (case last_index_char CHR ''@'' authority of
        None \<Rightarrow> parseHost authority
      | Some i \<Rightarrow>
          (case parseHost (drop (Suc i) authority) of
             None \<Rightarrow> None
           | Some host \<Rightarrow>
               if validUserinfo (take i authority) \<and> escapes_ok (take i authority) then Some host
               else None))"

section \<open>URLs\<close>

record URL =
  url_Scheme :: string
  url_Host :: string

definition cut_at :: "char \<Rightarrow> string \<Rightarrow> string \<times> string" where
  "cut_at c s =
     (takeWhile (\<lambda>x. x \<noteq> c) s, case dropWhile (\<lambda>x. x \<noteq> c) s of [] \<Rightarrow> [] | _ # t \<Rightarrow> t)"

text \<open>
  \<open>url.Parse\<close> on a string that begins with \<open>http://\<close> or \<open>https://\<close>. The fragment and the query are
  cut off; the query is not checked further.
\<close>

definition Parse_absolute :: "string \<Rightarrow> URL option" where
  "Parse_absolute raw =
     (let (u, frag) = cut_at CHR ''#'' raw;
          scheme = (if HasPrefix u ''https://'' then ''https'' else ''http'');
          rest = fst (cut_at CHR ''?'' (drop (length scheme + 3) u));
          authority = fst (cut_at CHR ''/'' rest);
          path = drop (length authority) rest
      in if list_ex is_ctl u then None
         else case parseAuthority authority of
             None \<Rightarrow> None
           | Some host \<Rightarrow>
               if escapes_ok path \<and> escapes_ok frag then Some \<lparr>url_Scheme = scheme, url_Host = host\<rparr>
               else None)"

text \<open>\<open>splitHostPort\<close>, behind \<open>Hostname()\<close> and \<open>Port()\<close>.\<close>

definition url_splitHostPort :: "string \<Rightarrow> string \<times> string" where
  "url_splitHostPort hostPort =
     (let (host, port) =
        (case last_index_char CHR '':'' hostPort of
           None \<Rightarrow> (hostPort, [])
         | Some i \<Rightarrow> if validOptionalPort (drop i hostPort) then (take i hostPort, drop (Suc i) hostPort)
                     else (hostPort, []))
      in (if HasPrefix host ''['' \<and> HasSuffix host '']'' then drop 1 (butlast host) else host, port))"

definition URL_Hostname :: "URL \<Rightarrow> string" where
  "URL_Hostname u = fst (url_splitHostPort (url_Host u))"

definition URL_Port :: "URL \<Rightarrow> string" where
  "URL_Port u = snd (url_splitHostPort (url_Host u))"

text \<open>
  \<open>strconv.ParseUint\<close> and \<open>strconv.Atoi\<close> in base 10 and 64 bits, as the handlers use them for
  identifiers and query parameters; \<^term>\<open>None\<close> is the error.
\<close>

definition decimal :: "string \<Rightarrow> nat" where
  "decimal s = foldl (\<lambda>n c. 10 * n + (of_char c - 48)) 0 s"

definition ParseUint :: "string \<Rightarrow> nat option" where
  "ParseUint s =
     (if s = [] \<or> \<not> list_all is_digit s then None
      else if decimal s < 2 ^ 64 then Some (decimal s) else None)"

definition Atoi :: "string \<Rightarrow> int option" where
  "Atoi s =
     (let neg = HasPrefix s ''-'';
          digits = (if neg \<or> HasPrefix s ''+'' then drop 1 s else s)
      in if digits = [] \<or> \<not> list_all is_digit digits then None
         else let v = (if neg then - int (decimal digits) else int (decimal digits)) in
           if - (2 ^ 63) \<le> v \<and> v < 2 ^ 63 then Some v else None)"

lemma decimal_snoc: "decimal (xs @ [c]) = 10 * decimal xs + (of_char c - 48)"
  by (simp add: decimal_def)

lemma of_digit_char_nat: "d < 10 \<Longrightarrow> of_char (digit_char d) = 48 + d"
  by (simp add: digit_char_def)

lemma nat_to_string_decimal:
  "decimal (nat_to_string n) = n \<and> list_all is_digit (nat_to_string n) \<and> nat_to_string n \<noteq> []"
proof (induction n rule: nat_to_string.induct)
  case (1 n)
  then show ?case
    by (cases "n < 10")
       (simp_all add: nat_to_string.simps[of n] decimal_snoc of_digit_char_nat is_digit_def decimal_def)
qed

text \<open>Identifiers survive the way through a URL or a token.\<close>

lemma ParseUint_Itoa: "0 \<le> i \<Longrightarrow> i < 2 ^ 63 \<Longrightarrow> ParseUint (Itoa i) = Some (nat i)"
  using nat_to_string_decimal[of "nat i"] by (auto simp: ParseUint_def Itoa_def)

lemma Atoi_Itoa: "- (2 ^ 63) \<le> i \<Longrightarrow> i < 2 ^ 63 \<Longrightarrow> Atoi (Itoa i) = Some i"
proof -
  assume b: "- (2 ^ 63) \<le> i" "i < 2 ^ 63"
  have d: "\<not> HasPrefix (nat_to_string n) ''-'' \<and> \<not> HasPrefix (nat_to_string n) ''+''" for n
    using nat_to_string_decimal[of n] by (cases "nat_to_string n") (auto simp: HasPrefix_def is_digit_def)
  show ?thesis
    using nat_to_string_decimal[of "nat i"] nat_to_string_decimal[of "nat (- i)"] d b
    by (auto simp: Atoi_def Itoa_def HasPrefix_def)
qed

end
