(* ===== verification/Caddy_Acl.thy ===== *)
theory Caddy_Acl
  imports Caddy_Handlers Acl_Models Go_Url "HOL-Library.Multiset"
begin

text \<open>
  The access-control routes of \<open>backend/internal/caddy/config/acl_builder.go\<close>: the routes Caddy
  evaluates in order in front of a protected proxy. \<open>sort.Slice\<close> does not promise a stable order,
  so the sorting function is a parameter; \<open>slice_sort\<close> states what it does promise.
\<close>

definition slice_sort :: "('a \<Rightarrow> int) \<Rightarrow> ('a list \<Rightarrow> 'a list) \<Rightarrow> bool" where
  "slice_sort key srt \<longleftrightarrow> (\<forall>xs. mset (srt xs) = mset xs \<and> sorted (map key (srt xs)))"

record ACLBuilder =
  ab_waygatesVerifyURL :: string
  ab_waygatesLoginURL :: string

definition waygatesDefaultHeaders :: "string list" where
  "waygatesDefaultHeaders = [''X-Auth-User'', ''X-Auth-User-ID'', ''X-Auth-User-Email'']"

definition providerDefaultHeaders :: "(string \<times> string list) list" where
  "providerDefaultHeaders =
     [(ACLProviderTypeAuthelia, [''Remote-User'', ''Remote-Groups'', ''Remote-Name'', ''Remote-Email'']),
      (ACLProviderTypeAuthentik, [''X-authentik-username'', ''X-authentik-groups'', ''X-authentik-email'',
         ''X-authentik-name'', ''X-authentik-uid''])]"

section \<open>Dial addresses\<close>

definition containsScheme :: "string \<Rightarrow> bool" where
  "containsScheme s \<longleftrightarrow>
     length s > 7 \<and> (take 7 s = ''http://'' \<or> length s > 8 \<and> take 8 s = ''https://'')"

definition extractDialAddress :: "string \<Rightarrow> string" where
  "extractDialAddress rawURL =
     (if \<not> containsScheme rawURL then rawURL
      else case Parse_absolute rawURL of
          None \<Rightarrow> rawURL
        | Some parsed \<Rightarrow>
            let port = (if URL_Port parsed = [] then (if url_Scheme parsed = ''https'' then ''443'' else ''80'')
                        else URL_Port parsed)
            in URL_Hostname parsed @ '':'' @ port)"

section \<open>Classification of IP rules\<close>

fun categorize_loop :: "ACLIPRule list \<Rightarrow> string list \<times> string list \<times> string list
    \<Rightarrow> string list \<times> string list \<times> string list" where
  "categorize_loop [] acc = acc"
| "categorize_loop (r # rs) (bypass, allow, deny) =
     categorize_loop rs
       (if ir_RuleType r = ACLIPRuleTypeBypass then (bypass @ [ir_CIDR r], allow, deny)
        else if ir_RuleType r = ACLIPRuleTypeAllow then (bypass, allow @ [ir_CIDR r], deny)
        else if ir_RuleType r = ACLIPRuleTypeDeny then (bypass, allow, deny @ [ir_CIDR r])
        else (bypass, allow, deny))"

definition categorizeIPRules :: "(ACLIPRule list \<Rightarrow> ACLIPRule list) \<Rightarrow> ACLIPRule list
    \<Rightarrow> string list \<times> string list \<times> string list" where
  "categorizeIPRules srt rules = categorize_loop (srt rules) ([], [], [])"

section \<open>Handlers\<close>

definition buildBasicAuthHandler :: "ACLBasicAuthUser list \<Rightarrow> AuthenticationHandler" where
  "buildBasicAuthHandler users =
     NewAuthenticationHandler (map (\<lambda>u. NewBasicAuthAccount (bu_Username u) (bu_PasswordHash u)) users)
       ''Protected''"

definition success_codes :: "int list" where
  "success_codes = [200, 201, 202, 203, 204, 205, 206]"

definition respond :: "int list \<Rightarrow> HTTPHandler \<Rightarrow> HandleResponse" where
  "respond codes h =
     \<lparr>re_StatusCodes = codes, re_MatchHeaders = [],
      re_Routes = [\<lparr>hr_Match = [], hr_Handle = [h], hr_Terminal = False\<rparr>], re_StatusCode = 0\<rparr>"

definition forward_headers :: "headers" where
  "forward_headers =
     [(''X-Forwarded-Method'', [''{http.request.method}'']),
      (''X-Forwarded-Proto'', [''{http.request.scheme}'']),
      (''X-Forwarded-Host'', [''{http.request.host}'']),
      (''X-Forwarded-Uri'', [''{http.request.uri}''])]"

definition forward_auth :: "string \<Rightarrow> headers \<Rightarrow> fields \<Rightarrow> HandleResponse list \<Rightarrow> HTTPHandler" where
  "forward_auth dial hs rewrite responses =
     [(''handler'', JStr ''reverse_proxy''),
      (''upstreams'', JArr [json_Upstream (NewUpstream dial)]),
      (''headers'', json_HeadersConfig
         \<lparr>hd_Request = Some (empty_HeaderOps\<lparr>ho_Set := hs\<rparr>), hd_Response = None\<rparr>)] @
     rewrite @
     [(''handle_response'', JArr (map json_HandleResponse responses))]"

definition buildWaygatesForwardAuthHandler :: "ACLBuilder \<Rightarrow> HTTPHandler" where
  "buildWaygatesForwardAuthHandler b =
     (if ab_waygatesVerifyURL b = [] then
        static_response 503 ''Waygates forward-auth is not configured (ACL_WAYGATES_VERIFY_URL is empty)''
      else
        let dialAddr = extractDialAddress (ab_waygatesVerifyURL b);
            unauthorizedHandler =
              (if ab_waygatesLoginURL b = [] then
                 static_response 503
                   ''Waygates forward-auth is not configured (ACL_WAYGATES_LOGIN_URL is empty)''
               else
                 ToHTTPHandler (StaticResponse (NewRedirectHandler
                   (ab_waygatesLoginURL b @
                    ''?redirect={http.request.scheme}://{http.request.host}{http.request.uri}'') 302)))
        in forward_auth dialAddr
             (forward_headers @ [(''X-Waygates-Client-IP'', [''{http.vars.client_ip}''])])
             [(''rewrite'', JObj [(''uri'', JStr ''/api/auth/acl/verify'')])]
             [respond success_codes
                (ToHTTPHandler (CopyResponseHeaders (NewCopyResponseHeadersHandler waygatesDefaultHeaders))),
              respond [401] unauthorizedHandler,
              respond [403] (static_response 403 ''Access Denied'')])"

definition buildExternalProviderHandler :: "ACLExternalProvider \<Rightarrow> HTTPHandler" where
  "buildExternalProviderHandler provider =
     (let headers =
        (if ep_HeadersToCopy provider = [] then
           (case map_of providerDefaultHeaders (ep_ProviderType provider) of
              Some defaultHeaders \<Rightarrow> defaultHeaders
            | None \<Rightarrow> [])
         else ep_HeadersToCopy provider)
      in forward_auth (extractDialAddress (ep_VerifyURL provider)) forward_headers []
           [respond success_codes
              (ToHTTPHandler (CopyResponseHeaders (NewCopyResponseHeadersHandler headers)))])"

definition buildForwardAuthHandler :: "ACLBuilder \<Rightarrow> ACLGroup \<Rightarrow> HTTPHandler" where
  "buildForwardAuthHandler b g =
     (case gr_ExternalProviders g of
        p # _ \<Rightarrow> buildExternalProviderHandler p
      | [] \<Rightarrow> buildWaygatesForwardAuthHandler b)"

section \<open>Routes\<close>

definition path_matcher :: "string \<Rightarrow> MatcherSet \<Rightarrow> MatcherSet" where
  "path_matcher pathPattern m =
     (if pathPattern \<noteq> [] \<and> pathPattern \<noteq> ''/*'' then AddPathToMatcher m [pathPattern] else m)"

definition terminal_route :: "MatcherSet \<Rightarrow> HTTPHandler list \<Rightarrow> HTTPRoute" where
  "terminal_route m hs = \<lparr>hr_Match = [m], hr_Handle = hs, hr_Terminal = True\<rparr>"

definition buildIPDenyRoute :: "string \<Rightarrow> string \<Rightarrow> string list \<Rightarrow> HTTPRoute" where
  "buildIPDenyRoute hostname pathPattern denyIPs =
     terminal_route
       (AddRemoteIPToMatcher (path_matcher pathPattern (NewHostMatcher [hostname])) denyIPs)
       [static_response 403 ''Forbidden'']"

definition buildIPDenyNotInListRoute :: "string \<Rightarrow> string \<Rightarrow> string list \<Rightarrow> HTTPRoute" where
  "buildIPDenyNotInListRoute hostname pathPattern allowedIPs =
     terminal_route
       (path_matcher pathPattern
          (CombineMatchers [NewHostMatcher [hostname], NewNotMatcher [NewRemoteIPMatcher allowedIPs]]))
       [static_response 403 ''Forbidden'']"

definition buildIPBypassRoute :: "string \<Rightarrow> string \<Rightarrow> string list \<Rightarrow> ReverseProxyHandler \<Rightarrow> HTTPRoute" where
  "buildIPBypassRoute hostname pathPattern bypassIPs upstreamHandler =
     terminal_route
       (AddRemoteIPToMatcher (path_matcher pathPattern (NewHostMatcher [hostname])) bypassIPs)
       [handlerToMap upstreamHandler]"

definition buildIPAllowRoute :: "string \<Rightarrow> string \<Rightarrow> string list \<Rightarrow> ReverseProxyHandler \<Rightarrow> HTTPRoute" where
  "buildIPAllowRoute hostname pathPattern allowIPs upstreamHandler =
     terminal_route
       (AddRemoteIPToMatcher (path_matcher pathPattern (NewHostMatcher [hostname])) allowIPs)
       [handlerToMap upstreamHandler]"

definition buildStaticAssetsBypassRoute :: "string \<Rightarrow> ReverseProxyHandler \<Rightarrow> HTTPRoute" where
  "buildStaticAssetsBypassRoute hostname upstreamHandler =
     terminal_route
       (CombineMatchers [NewHostMatcher [hostname], NewPathMatcher (StaticAssetPaths @ StaticAssetExtensions)])
       [handlerToMap upstreamHandler]"

definition hasWaygatesAuth :: "ACLGroup \<Rightarrow> bool" where
  "hasWaygatesAuth g = (case gr_WaygatesAuth g of None \<Rightarrow> False | Some w \<Rightarrow> wa_Enabled w)"

definition hasOAuthProviders :: "ACLGroup \<Rightarrow> bool" where
  "hasOAuthProviders g = (case gr_WaygatesAuth g of None \<Rightarrow> False | Some w \<Rightarrow> wa_AllowedProviders w \<noteq> [])"

definition hasSecureAuth :: "ACLGroup \<Rightarrow> bool" where
  "hasSecureAuth g \<longleftrightarrow> hasWaygatesAuth g \<or> hasOAuthProviders g \<or> gr_ExternalProviders g \<noteq> []"

text \<open>The authentication handlers in front of the upstream, common to both authentication routes.\<close>

definition auth_handlers :: "ACLBuilder \<Rightarrow> ACLGroup \<Rightarrow> HTTPHandler list" where
  "auth_handlers b g =
     (if gr_BasicAuthUsers g \<noteq> [] \<and> \<not> hasSecureAuth g then
        [ToHTTPHandler (Authentication (buildBasicAuthHandler (gr_BasicAuthUsers g)))]
      else if hasSecureAuth g then [buildForwardAuthHandler b g]
      else [])"

definition buildAuthRoute :: "ACLBuilder \<Rightarrow> string \<Rightarrow> string \<Rightarrow> ACLGroup \<Rightarrow> ReverseProxyHandler
    \<Rightarrow> string list \<Rightarrow> string list \<Rightarrow> HTTPRoute" where
  "buildAuthRoute b hostname pathPattern g upstreamHandler bypassIPs allowIPs =
     (let matcher = path_matcher pathPattern (NewHostMatcher [hostname]);
          excludeIPs = bypassIPs @ allowIPs;
          matcher = (if excludeIPs = [] then matcher
                     else CombineMatchers [matcher, NewNotMatcher [NewRemoteIPMatcher excludeIPs]])
      in terminal_route matcher (auth_handlers b g @ [handlerToMap upstreamHandler]))"

definition buildAuthRouteWithIPRestriction :: "ACLBuilder \<Rightarrow> string \<Rightarrow> string \<Rightarrow> ACLGroup
    \<Rightarrow> ReverseProxyHandler \<Rightarrow> string list \<Rightarrow> HTTPRoute" where
  "buildAuthRouteWithIPRestriction b hostname pathPattern g upstreamHandler allowedIPs =
     (let matcher = path_matcher pathPattern (NewHostMatcher [hostname]);
          matcher = (if allowedIPs = [] then matcher else AddRemoteIPToMatcher matcher allowedIPs)
      in terminal_route matcher (auth_handlers b g @ [handlerToMap upstreamHandler]))"

definition buildAnyModeRoutes :: "(ACLIPRule list \<Rightarrow> ACLIPRule list) \<Rightarrow> ACLBuilder \<Rightarrow> string \<Rightarrow> string
    \<Rightarrow> ACLGroup \<Rightarrow> ReverseProxyHandler \<Rightarrow> HTTPRoute list" where
  "buildAnyModeRoutes srt b hostname pathPattern g upstreamHandler =
     (let (bypassIPs, allowIPs, denyIPs) = categorizeIPRules srt (gr_IPRules g) in
      (if denyIPs = [] then [] else [buildIPDenyRoute hostname pathPattern denyIPs]) @
      (if bypassIPs = [] then [] else [buildIPBypassRoute hostname pathPattern bypassIPs upstreamHandler]) @
      (if allowIPs = [] then [] else [buildIPAllowRoute hostname pathPattern allowIPs upstreamHandler]) @
      [buildStaticAssetsBypassRoute hostname upstreamHandler,
       buildAuthRoute b hostname pathPattern g upstreamHandler bypassIPs allowIPs])"

definition buildAllModeRoutes :: "(ACLIPRule list \<Rightarrow> ACLIPRule list) \<Rightarrow> ACLBuilder \<Rightarrow> string \<Rightarrow> string
    \<Rightarrow> ACLGroup \<Rightarrow> ReverseProxyHandler \<Rightarrow> HTTPRoute list" where
  "buildAllModeRoutes srt b hostname pathPattern g upstreamHandler =
     (let (bypassIPs, allowIPs, denyIPs) = categorizeIPRules srt (gr_IPRules g);
          allAllowedIPs = bypassIPs @ allowIPs
      in
      (if denyIPs = [] then [] else [buildIPDenyRoute hostname pathPattern denyIPs]) @
      (if allAllowedIPs = [] then [] else [buildIPDenyNotInListRoute hostname pathPattern allAllowedIPs]) @
      [buildStaticAssetsBypassRoute hostname upstreamHandler,
       buildAuthRouteWithIPRestriction b hostname pathPattern g upstreamHandler allAllowedIPs])"

definition buildIPBypassModeRoutes :: "(ACLIPRule list \<Rightarrow> ACLIPRule list) \<Rightarrow> ACLBuilder \<Rightarrow> string \<Rightarrow> string
    \<Rightarrow> ACLGroup \<Rightarrow> ReverseProxyHandler \<Rightarrow> HTTPRoute list" where
  "buildIPBypassModeRoutes srt b hostname pathPattern g upstreamHandler =
     buildAnyModeRoutes srt b hostname pathPattern g upstreamHandler"

text \<open>The error result of \<open>BuildACLRoutes\<close> is nil on every path.\<close>

definition BuildACLRoutes :: "(ACLIPRule list \<Rightarrow> ACLIPRule list) \<Rightarrow> ACLBuilder \<Rightarrow> string \<Rightarrow> string
    \<Rightarrow> ACLGroup option \<Rightarrow> ReverseProxyHandler \<Rightarrow> HTTPRoute list" where
  "BuildACLRoutes srt b hostname pathPattern grp upstreamHandler =
     (case grp of
        None \<Rightarrow> []
      | Some g \<Rightarrow>
          if gr_IPRules g = [] \<and> gr_BasicAuthUsers g = [] \<and> \<not> hasWaygatesAuth g \<and>
             \<not> hasOAuthProviders g \<and> gr_ExternalProviders g = []
          then []
          else if gr_CombinationMode g = ACLCombinationModeAll then
            buildAllModeRoutes srt b hostname pathPattern g upstreamHandler
          else if gr_CombinationMode g = ACLCombinationModeIPBypass then
            buildIPBypassModeRoutes srt b hostname pathPattern g upstreamHandler
          else buildAnyModeRoutes srt b hostname pathPattern g upstreamHandler)"

end
