(* ===== verification/Caddy_Http.thy ===== *)
theory Caddy_Http
  imports Caddy_Acl
begin

text \<open>
  The routes of one HTTP proxy, \<open>backend/internal/caddy/config/http_builder.go\<close> and
  \<open>security.go\<close>: reverse proxies with and without access control, redirects, static files, and the
  exploit-blocking routes.
\<close>

datatype build_error =
    UpstreamRequired
  | UpstreamsNotArray
  | RedirectConfigRequired
  | RedirectTargetRequired
  | StaticConfigRequired
  | RootPathRequired
  | UnknownProxyType string

section \<open>Reading untyped configuration\<close>

text \<open>Type assertions with the zero value on failure; \<open>int\<close> of a \<open>float64\<close> truncates.\<close>

definition str_field :: "fields \<Rightarrow> string \<Rightarrow> string" where
  "str_field m k = (case map_of m k of Some (JStr s) \<Rightarrow> s | _ \<Rightarrow> [])"

definition num_field :: "fields \<Rightarrow> string \<Rightarrow> rat" where
  "num_field m k = (case map_of m k of Some (JNum n) \<Rightarrow> n | _ \<Rightarrow> 0)"

definition bool_field :: "fields \<Rightarrow> string \<Rightarrow> bool" where
  "bool_field m k = (case map_of m k of Some (JBool b) \<Rightarrow> b | _ \<Rightarrow> False)"

definition go_int :: "rat \<Rightarrow> int" where
  "go_int r = (if r \<ge> 0 then \<lfloor>r\<rfloor> else - \<lfloor>- r\<rfloor>)"

fun upstreams_loop :: "json list \<Rightarrow> Upstream list" where
  "upstreams_loop [] = []"
| "upstreams_loop (JObj m # ups) =
     (let host = str_field m ''host''; port = num_field m ''port'' in
      if host = [] then upstreams_loop ups
      else NewUpstream (if port > 0 then host @ '':'' @ Itoa (go_int port) else host) # upstreams_loop ups)"
| "upstreams_loop (_ # ups) = upstreams_loop ups"

definition parseUpstreams :: "json \<Rightarrow> (build_error, Upstream list) result" where
  "parseUpstreams raw =
     (case raw of JArr ups \<Rightarrow> Ok (upstreams_loop ups) | _ \<Rightarrow> Err UpstreamsNotArray)"

definition hasHTTPSUpstream :: "json option \<Rightarrow> bool" where
  "hasHTTPSUpstream raw =
     (case raw of
        Some (JArr ups) \<Rightarrow>
          list_ex (\<lambda>up. case up of JObj m \<Rightarrow> str_field m ''scheme'' = ''https'' | _ \<Rightarrow> False) ups
      | _ \<Rightarrow> False)"

definition mapLBStrategy :: "string \<Rightarrow> string" where
  "mapLBStrategy strategy =
     (if List.member [''round_robin'', ''least_conn'', ''random'', ''first'', ''ip_hash'', ''uri_hash'', ''header'']
           strategy
      then strategy else ''round_robin'')"

definition configureLoadBalancing :: "JSONField \<Rightarrow> ReverseProxyHandler \<Rightarrow> ReverseProxyHandler" where
  "configureLoadBalancing lb handler =
     (let strategy = str_field lb ''strategy'' in
      if strategy = [] then handler
      else
        let handler = handler\<lparr>rp_LoadBalancing := Some
              \<lparr>lb_SelectionPolicy = Some \<lparr>sp_Policy = mapLBStrategy strategy, sp_Header = []\<rparr>,
               lb_TryDuration = [], lb_TryInterval = [], lb_RetryMatch = []\<rparr>\<rparr>
        in case map_of lb ''health_checks'' of
            Some (JObj hc) \<Rightarrow>
              if bool_field hc ''enabled'' then
                handler\<lparr>rp_HealthChecks := Some
                  \<lparr>hc_Active = Some (empty_ActiveHealthCheck
                     \<lparr>ac_Path := str_field hc ''path'', ac_Interval := str_field hc ''interval'',
                      ac_Timeout := str_field hc ''timeout''\<rparr>),
                   hc_Passive = None\<rparr>\<rparr>
              else handler
          | _ \<Rightarrow> handler)"

definition set_headers :: "(string \<times> string) list \<Rightarrow> HeaderOps \<Rightarrow> HeaderOps" where
  "set_headers kvs h = fold (\<lambda>(k, v). SetHeader k [v]) kvs h"

definition buildReverseProxyHandler :: "Proxy \<Rightarrow> Upstream list \<Rightarrow> ReverseProxyHandler" where
  "buildReverseProxyHandler proxy upstreams =
     (let handler = (NewReverseProxyHandler upstreams)\<lparr>rp_Headers := Some
            \<lparr>hd_Request = Some (set_headers (ch_Request (px_CustomHeaders proxy)) StandardProxyHeaders),
             hd_Response = (if ch_Response (px_CustomHeaders proxy) = [] then None
                            else Some (set_headers (ch_Response (px_CustomHeaders proxy)) empty_HeaderOps))\<rparr>\<rparr>;
          handler = (if px_LoadBalancing proxy = [] then handler
                     else configureLoadBalancing (px_LoadBalancing proxy) handler)
      in if hasHTTPSUpstream (px_Upstreams proxy) \<or> px_TLSInsecureSkipVerify proxy then
           handler\<lparr>rp_Transport := Some (empty_HTTPTransport
             \<lparr>ht_Protocol := ''http'',
              ht_TLS := Some (empty_TLSConfig\<lparr>tc_InsecureSkipVerify := px_TLSInsecureSkipVerify proxy\<rparr>)\<rparr>)\<rparr>
         else handler)"

section \<open>Reverse proxies\<close>

text \<open>The upstreams of a proxy, with the checks both reverse proxy builders begin with.\<close>

definition proxy_upstreams :: "Proxy \<Rightarrow> (build_error, Upstream list) result" where
  "proxy_upstreams proxy =
     (case px_Upstreams proxy of
        None \<Rightarrow> Err UpstreamRequired
      | Some raw \<Rightarrow>
          (case parseUpstreams raw of
             Inl e \<Rightarrow> Err e
           | Inr ups \<Rightarrow> if ups = [] then Err UpstreamRequired else Ok ups))"

definition host_route :: "string \<Rightarrow> HTTPHandler \<Rightarrow> HTTPRoute" where
  "host_route hostname h =
     SetTerminal True (AddHandler h (AddMatch (NewHostMatcher [hostname]) NewHTTPRoute))"

definition BuildReverseProxyRoutes :: "Proxy \<Rightarrow> (build_error, HTTPRoute list) result" where
  "BuildReverseProxyRoutes proxy =
     (case proxy_upstreams proxy of
        Inl e \<Rightarrow> Err e
      | Inr ups \<Rightarrow> Ok [host_route (px_Hostname proxy) (handlerToMap (buildReverseProxyHandler proxy ups))])"

text \<open>
  Group ids are converted to \<open>int64\<close>; \<open>aclGroups\<close> is the map from id to group. The two sorting
  functions are those of \<open>sort.Slice\<close> on assignments and on IP rules.
\<close>

record sorters =
  so_assignments :: "ProxyACLAssignment list \<Rightarrow> ProxyACLAssignment list"
  so_rules :: "ACLIPRule list \<Rightarrow> ACLIPRule list"

definition acl_routes :: "sorters \<Rightarrow> ACLBuilder \<Rightarrow> string \<Rightarrow> (int \<rightharpoonup> ACLGroup) \<Rightarrow> ReverseProxyHandler
    \<Rightarrow> ProxyACLAssignment \<Rightarrow> HTTPRoute list" where
  "acl_routes so b hostname aclGroups handler a =
     (case aclGroups (pa_ACLGroupID a) of
        None \<Rightarrow> []
      | Some g \<Rightarrow> BuildACLRoutes (so_rules so) b hostname (pa_PathPattern a) (Some g) handler)"

definition BuildReverseProxyRoutesWithACL :: "sorters \<Rightarrow> Proxy \<Rightarrow> ProxyACLAssignment list
    \<Rightarrow> (int \<rightharpoonup> ACLGroup) \<Rightarrow> ACLBuilder \<Rightarrow> (build_error, HTTPRoute list) result" where
  "BuildReverseProxyRoutesWithACL so proxy assignments aclGroups b =
     (case proxy_upstreams proxy of
        Inl e \<Rightarrow> Err e
      | Inr ups \<Rightarrow>
          let handler = buildReverseProxyHandler proxy ups in
          Ok (concat (map (acl_routes so b (px_Hostname proxy) aclGroups handler)
                (so_assignments so assignments)) @
              [host_route (px_Hostname proxy) (handlerToMap handler)]))"

section \<open>Redirects\<close>

record RedirectConfig =
  rc_Target :: string
  rc_StatusCode :: int
  rc_PreservePath :: bool
  rc_PreserveQuery :: bool

definition parseRedirectConfig :: "JSONField \<Rightarrow> (build_error, RedirectConfig) result" where
  "parseRedirectConfig config =
     (if config = [] then Err RedirectConfigRequired
      else case map_of config ''target'' of
          Some (JStr target) \<Rightarrow>
            Ok \<lparr>rc_Target = target, rc_StatusCode = go_int (num_field config ''status_code''),
                rc_PreservePath = bool_field config ''preserve_path'',
                rc_PreserveQuery = bool_field config ''preserve_query''\<rparr>
        | _ \<Rightarrow> Err RedirectTargetRequired)"

definition redirect_target :: "RedirectConfig \<Rightarrow> string" where
  "redirect_target rc =
     (if rc_PreservePath rc then rc_Target rc @ ''{http.request.uri}''
      else if rc_PreserveQuery rc then rc_Target rc @ ''?{http.request.uri.query}''
      else rc_Target rc)"

definition BuildRedirectRoutes :: "Proxy \<Rightarrow> (build_error, HTTPRoute list) result" where
  "BuildRedirectRoutes proxy =
     (case parseRedirectConfig (px_RedirectConfig proxy) of
        Inl e \<Rightarrow> Err e
      | Inr rc \<Rightarrow>
          Ok [host_route (px_Hostname proxy)
                (ToHTTPHandler (StaticResponse (NewRedirectHandler (redirect_target rc)
                  (if rc_StatusCode rc = 0 then 302 else rc_StatusCode rc))))])"

section \<open>Static files\<close>

record StaticConfig =
  sc_RootPath :: string
  sc_IndexFile :: string
  sc_TryFiles :: "string list"
  sc_TemplateRendering :: bool
  sc_Browse :: bool

definition parseStaticConfig :: "JSONField \<Rightarrow> (build_error, StaticConfig) result" where
  "parseStaticConfig config =
     (if config = [] then Err StaticConfigRequired
      else case map_of config ''root_path'' of
          Some (JStr rootPath) \<Rightarrow>
            Ok \<lparr>sc_RootPath = rootPath, sc_IndexFile = str_field config ''index_file'',
                sc_TryFiles =
                  (case map_of config ''try_files'' of
                     Some (JArr tfs) \<Rightarrow> List.map_filter (\<lambda>tf. case tf of JStr s \<Rightarrow> Some s | _ \<Rightarrow> None) tfs
                   | _ \<Rightarrow> []),
                sc_TemplateRendering = bool_field config ''template_rendering'',
                sc_Browse = bool_field config ''browse''\<rparr>
        | _ \<Rightarrow> Err RootPathRequired)"

text \<open>\<open>strings.NewReplacer\<close> with the two placeholder pairs: one pass from the left.\<close>

function Replace_placeholders :: "string \<Rightarrow> string" where
  "Replace_placeholders s =
     (case s of
        [] \<Rightarrow> []
      | c # cs \<Rightarrow>
          if HasPrefix s ''{path}'' then ''{http.request.uri.path}'' @ Replace_placeholders (drop 6 s)
          else if HasPrefix s ''{uri}'' then ''{http.request.uri}'' @ Replace_placeholders (drop 5 s)
          else c # Replace_placeholders cs)"
  by pat_completeness auto

termination Replace_placeholders
  by (relation "measure length") auto

declare Replace_placeholders.simps [simp del]

definition normalizeTryFiles :: "string list \<Rightarrow> string list" where
  "normalizeTryFiles tryFiles = map Replace_placeholders tryFiles"

definition BuildStaticRoutes :: "Proxy \<Rightarrow> (build_error, HTTPRoute list) result" where
  "BuildStaticRoutes proxy =
     (case parseStaticConfig (px_StaticConfig proxy) of
        Inl e \<Rightarrow> Err e
      | Inr sc \<Rightarrow>
          let handler = NewFileServerHandler (sc_RootPath sc);
              handler = (if sc_IndexFile sc \<noteq> [] then WithIndexNames [sc_IndexFile sc] handler else handler);
              handler = (if sc_Browse sc then WithBrowse [] handler else handler)
          in Ok ((if sc_TryFiles sc = [] then []
                  else [AddHandler [(''handler'', JStr ''rewrite''),
                                    (''uri'', JStr ''{http.matchers.file.relative}'')]
                          (AddMatch (AList.update ''file''
                             (MatchFile (sc_RootPath sc) (normalizeTryFiles (sc_TryFiles sc)))
                             (NewHostMatcher [px_Hostname proxy])) NewHTTPRoute)]) @
                 [host_route (px_Hostname proxy) (ToHTTPHandler (FileServer handler))]))"

section \<open>Exploit-blocking routes\<close>

definition security_route :: "MatcherSet \<Rightarrow> string \<Rightarrow> HTTPRoute" where
  "security_route m body =
     terminal_route m
       [[(''handler'', JStr ''static_response''), (''status_code'', JNum 403), (''body'', JStr body),
         (''close'', JBool True)]]"

definition path_regexp :: "string \<Rightarrow> string \<Rightarrow> MatcherSet" where
  "path_regexp name pattern =
     [(''path_regexp'', JObj [(''name'', JStr name), (''pattern'', JStr pattern)])]"

definition SecurityRoutes :: "HTTPRoute list" where
  "SecurityRoutes =
     [security_route
        (path_regexp ''sql_injection''
           ''(?i)(union.*select|select.*from|insert.*into|delete.*from|drop.*table|update.*set)'')
        ''Forbidden - SQL injection detected'',
      security_route
        (path_regexp ''file_injection'' (''('' @ [CHR 92] @ ''.'' @ [CHR 92] @ ''./|'' @ [CHR 92] @ ''.'' @
           [CHR 92] @ ''.'' @ [CHR 92, CHR 92] @ ''|%2e%2e|%252e)''))
        ''Forbidden - Path traversal detected'',
      security_route
        (path_regexp ''xss_attack'' ''(?i)(<script|%3cscript|javascript:|vbscript:|onload=|onerror=)'')
        ''Forbidden - XSS detected'',
      security_route
        (path_regexp ''php_globals'' (''(?i)(globals'' @ [CHR 92] @ ''[|_request'' @ [CHR 92] @ ''[|_get'' @
           [CHR 92] @ ''[|_post'' @ [CHR 92] @ ''[|_cookie'' @ [CHR 92] @ ''[|_files'' @ [CHR 92] @ ''[|_env'' @
           [CHR 92] @ ''[|_server'' @ [CHR 92] @ ''[)''))
        ''Forbidden - PHP globals injection detected'',
      security_route
        [(''header_regexp'', JObj [(''User-Agent'', JObj [(''name'', JStr ''bad_user_agent''),
           (''pattern'', JStr ''(?i)(libwww-perl|scrapy|nikto|sqlmap|nmap|masscan)'')])])]
        ''Forbidden - Blocked user agent'',
      security_route
        (path_regexp ''vuln_scanners'' (''(?i)(wp-admin|wp-login|xmlrpc'' @ [CHR 92] @ ''.php|'' @ [CHR 92] @
           ''.env|'' @ [CHR 92] @ ''.git|'' @ [CHR 92] @ ''.svn|'' @ [CHR 92] @ ''.htaccess|'' @ [CHR 92] @
           ''.htpasswd|web'' @ [CHR 92] @ ''.config|phpinfo|phpmyadmin|adminer)''))
        ''Forbidden - Access denied'']"

definition SecurityRoutesForHost :: "string \<Rightarrow> HTTPRoute list" where
  "SecurityRoutesForHost hostname =
     map (\<lambda>r. r\<lparr>hr_Match := map (AList.update ''host'' (json_strings [hostname])) (hr_Match r)\<rparr>)
       SecurityRoutes"

end
