(* ===== verification/Caddy_Tls.thy ===== *)
theory Caddy_Tls
  imports Caddy_Types
begin

text \<open>
  Certificate management of the Caddy configuration: the structures of \<open>types.go\<close> and \<open>tls.go\<close>, and
  the issuer selection of \<open>tls_builder.go\<close>. The process environment (\<open>os.Getenv\<close>) is a function
  from names to values, the empty string for an unset variable.
\<close>

section \<open>Structures\<close>

datatype dns_provider =
    DNSProviderCloudflare string
  | DNSProviderRoute53
  | DNSProviderDuckDNS string
  | DNSProviderDigitalOcean string
  | DNSProviderHetzner string
  | DNSProviderPorkbun string string
  | DNSProviderAzure string string string string string
  | DNSProviderVultr string
  | DNSProviderNamecheap string string
  | DNSProviderOVH string string string string

fun json_dns_provider :: "dns_provider \<Rightarrow> json" where
  "json_dns_provider (DNSProviderCloudflare t) =
     JObj [(''name'', JStr ''cloudflare''), (''api_token'', JStr t)]"
| "json_dns_provider DNSProviderRoute53 = JObj [(''name'', JStr ''route53'')]"
| "json_dns_provider (DNSProviderDuckDNS t) =
     JObj [(''name'', JStr ''duckdns''), (''api_token'', JStr t)]"
| "json_dns_provider (DNSProviderDigitalOcean t) =
     JObj [(''name'', JStr ''digitalocean''), (''auth_token'', JStr t)]"
| "json_dns_provider (DNSProviderHetzner t) =
     JObj [(''name'', JStr ''hetzner''), (''api_token'', JStr t)]"
| "json_dns_provider (DNSProviderPorkbun k s) =
     JObj [(''name'', JStr ''porkbun''), (''api_key'', JStr k), (''api_secret_key'', JStr s)]"
| "json_dns_provider (DNSProviderAzure t c s u r) =
     JObj [(''name'', JStr ''azure''), (''tenant_id'', JStr t), (''client_id'', JStr c),
           (''client_secret'', JStr s), (''subscription_id'', JStr u), (''resource_group_name'', JStr r)]"
| "json_dns_provider (DNSProviderVultr k) =
     JObj [(''name'', JStr ''vultr''), (''api_key'', JStr k)]"
| "json_dns_provider (DNSProviderNamecheap k u) =
     JObj [(''name'', JStr ''namecheap''), (''api_key'', JStr k), (''user'', JStr u)]"
| "json_dns_provider (DNSProviderOVH e k s c) =
     JObj [(''name'', JStr ''ovh''), (''endpoint'', JStr e), (''application_key'', JStr k),
           (''application_secret'', JStr s), (''consumer_key'', JStr c)]"

record DNSChallengeConfig =
  dc_Provider :: dns_provider
  dc_Resolvers :: "string list"

text \<open>\<open>is_Challenges\<close> is the DNS challenge of the \<open>ChallengesConfig\<close> the field points to.\<close>

record Issuer =
  is_Module :: string
  is_CA :: string
  is_Email :: string
  is_Challenges :: "DNSChallengeConfig option"

record AutomationPolicy =
  ap_Subjects :: "string list"
  ap_Issuers :: "Issuer list"

record TLSApp =
  ta_Automate :: "string list"
  ta_Policies :: "AutomationPolicy list option"

definition json_Issuer :: "Issuer \<Rightarrow> json" where
  "json_Issuer i =
     JObj (omit_str ''module'' (is_Module i) @ omit_str ''ca'' (is_CA i) @ omit_str ''email'' (is_Email i) @
           omit_ptr ''challenges''
             (\<lambda>d. JObj [(''dns'', JObj ([(''provider'', json_dns_provider (dc_Provider d))] @
                omit_strs ''resolvers'' (dc_Resolvers d)))]) (is_Challenges i))"

definition json_TLSApp :: "TLSApp \<Rightarrow> json" where
  "json_TLSApp t =
     JObj ([(''certificates'', JObj (omit_strs ''automate'' (ta_Automate t)))] @
           omit_ptr ''automation''
             (\<lambda>ps. JObj (omit_list ''policies''
                (\<lambda>p. JObj (omit_strs ''subjects'' (ap_Subjects p) @
                           omit_list ''issuers'' json_Issuer (ap_Issuers p))) ps))
             (ta_Policies t))"

definition NewTLSApp :: "string list \<Rightarrow> TLSApp option" where
  "NewTLSApp domains = (if domains = [] then None else Some \<lparr>ta_Automate = domains, ta_Policies = None\<rparr>)"

section \<open>Settings\<close>

record Settings =
  cf_AdminEmail :: string
  cf_ACMEProvider :: string
  cf_StoragePath :: string
  cf_LogPath :: string
  cf_WaygatesVerifyURL :: string
  cf_WaygatesLoginURL :: string
  cf_DNSCredentials :: "(string \<times> string) list"
  cf_ACMEResolvers :: "string list"
  cf_TrustedProxies :: "string list"
  cf_ClientIPHeaders :: "string list"

definition DefaultACMEResolvers :: "string list" where
  "DefaultACMEResolvers = [''1.1.1.1'', ''8.8.8.8'']"

definition ACMEResolversSystem :: string where
  "ACMEResolversSystem = ''system''"

type_synonym environ = "string \<Rightarrow> string"

definition getCredential :: "environ \<Rightarrow> Settings \<Rightarrow> string \<Rightarrow> string" where
  "getCredential getenv s key =
     (case map_of (cf_DNSCredentials s) key of
        Some val \<Rightarrow> if val \<noteq> [] then val else getenv key
      | None \<Rightarrow> getenv key)"

definition dnsResolvers :: "Settings \<Rightarrow> string list" where
  "dnsResolvers s =
     (if cf_ACMEResolvers s = [] then DefaultACMEResolvers
      else if cf_ACMEResolvers s = [ACMEResolversSystem] then []
      else cf_ACMEResolvers s)"

section \<open>Issuers\<close>

definition http_issuer :: "Settings \<Rightarrow> Issuer" where
  "http_issuer s = \<lparr>is_Module = ''acme'', is_CA = [], is_Email = cf_AdminEmail s, is_Challenges = None\<rparr>"

definition newDNSIssuer :: "Settings \<Rightarrow> dns_provider \<Rightarrow> Issuer" where
  "newDNSIssuer s provider =
     \<lparr>is_Module = ''acme'', is_CA = [], is_Email = cf_AdminEmail s,
      is_Challenges = Some \<lparr>dc_Provider = provider, dc_Resolvers = dnsResolvers s\<rparr>\<rparr>"

definition buildCloudflareIssuer :: "environ \<Rightarrow> Settings \<Rightarrow> Issuer option" where
  "buildCloudflareIssuer getenv s =
     (let apiToken = getCredential getenv s ''CLOUDFLARE_API_TOKEN'' in
      if apiToken = [] then None else Some (newDNSIssuer s (DNSProviderCloudflare apiToken)))"

definition buildRoute53Issuer :: "Settings \<Rightarrow> Issuer option" where
  "buildRoute53Issuer s = Some (newDNSIssuer s DNSProviderRoute53)"

definition buildDuckDNSIssuer :: "environ \<Rightarrow> Settings \<Rightarrow> Issuer option" where
  "buildDuckDNSIssuer getenv s =
     (let apiToken = getCredential getenv s ''DUCKDNS_API_TOKEN'' in
      if apiToken = [] then None else Some (newDNSIssuer s (DNSProviderDuckDNS apiToken)))"

definition buildDigitalOceanIssuer :: "environ \<Rightarrow> Settings \<Rightarrow> Issuer option" where
  "buildDigitalOceanIssuer getenv s =
     (let authToken = getCredential getenv s ''DO_AUTH_TOKEN'' in
      if authToken = [] then None else Some (newDNSIssuer s (DNSProviderDigitalOcean authToken)))"

definition buildHetznerIssuer :: "environ \<Rightarrow> Settings \<Rightarrow> Issuer option" where
  "buildHetznerIssuer getenv s =
     (let apiToken = getCredential getenv s ''HETZNER_API_TOKEN'' in
      if apiToken = [] then None else Some (newDNSIssuer s (DNSProviderHetzner apiToken)))"

definition buildPorkbunIssuer :: "environ \<Rightarrow> Settings \<Rightarrow> Issuer option" where
  "buildPorkbunIssuer getenv s =
     (let apiKey = getCredential getenv s ''PORKBUN_API_KEY'';
          apiSecretKey = getCredential getenv s ''PORKBUN_API_SECRET_KEY''
      in if apiKey = [] \<or> apiSecretKey = [] then None
         else Some (newDNSIssuer s (DNSProviderPorkbun apiKey apiSecretKey)))"

definition buildAzureIssuer :: "environ \<Rightarrow> Settings \<Rightarrow> Issuer option" where
  "buildAzureIssuer getenv s =
     (let tenantID = getCredential getenv s ''AZURE_TENANT_ID'';
          clientID = getCredential getenv s ''AZURE_CLIENT_ID'';
          clientSecret = getCredential getenv s ''AZURE_CLIENT_SECRET'';
          subscriptionID = getCredential getenv s ''AZURE_SUBSCRIPTION_ID'';
          resourceGroup = getCredential getenv s ''AZURE_RESOURCE_GROUP''
      in if tenantID = [] \<or> clientID = [] \<or> clientSecret = [] \<or> subscriptionID = [] \<or> resourceGroup = []
         then None
         else Some (newDNSIssuer s
           (DNSProviderAzure tenantID clientID clientSecret subscriptionID resourceGroup)))"

definition buildVultrIssuer :: "environ \<Rightarrow> Settings \<Rightarrow> Issuer option" where
  "buildVultrIssuer getenv s =
     (let apiKey = getCredential getenv s ''VULTR_API_KEY'' in
      if apiKey = [] then None else Some (newDNSIssuer s (DNSProviderVultr apiKey)))"

definition buildNamecheapIssuer :: "environ \<Rightarrow> Settings \<Rightarrow> Issuer option" where
  "buildNamecheapIssuer getenv s =
     (let apiKey = getCredential getenv s ''NAMECHEAP_API_KEY'';
          user = getCredential getenv s ''NAMECHEAP_API_USER''
      in if apiKey = [] \<or> user = [] then None
         else Some (newDNSIssuer s (DNSProviderNamecheap apiKey user)))"

definition buildOVHIssuer :: "environ \<Rightarrow> Settings \<Rightarrow> Issuer option" where
  "buildOVHIssuer getenv s =
     (let endpoint = getCredential getenv s ''OVH_ENDPOINT'';
          applicationKey = getCredential getenv s ''OVH_APPLICATION_KEY'';
          applicationSecret = getCredential getenv s ''OVH_APPLICATION_SECRET'';
          consumerKey = getCredential getenv s ''OVH_CONSUMER_KEY''
      in if endpoint = [] \<or> applicationKey = [] \<or> applicationSecret = [] \<or> consumerKey = [] then None
         else Some (newDNSIssuer s (DNSProviderOVH endpoint applicationKey applicationSecret consumerKey)))"

definition buildIssuer :: "environ \<Rightarrow> Settings \<Rightarrow> Issuer option" where
  "buildIssuer getenv s =
     (let provider = cf_ACMEProvider s in
      if provider = ''off'' \<or> provider = [] then None
      else if provider = ''http'' then Some (http_issuer s)
      else if provider = ''cloudflare'' then buildCloudflareIssuer getenv s
      else if provider = ''route53'' then buildRoute53Issuer s
      else if provider = ''duckdns'' then buildDuckDNSIssuer getenv s
      else if provider = ''digitalocean'' then buildDigitalOceanIssuer getenv s
      else if provider = ''hetzner'' then buildHetznerIssuer getenv s
      else if provider = ''porkbun'' then buildPorkbunIssuer getenv s
      else if provider = ''azure'' then buildAzureIssuer getenv s
      else if provider = ''vultr'' then buildVultrIssuer getenv s
      else if provider = ''namecheap'' then buildNamecheapIssuer getenv s
      else if provider = ''ovh'' then buildOVHIssuer getenv s
      else Some (http_issuer s))"

definition TLSBuilder_Build :: "environ \<Rightarrow> Settings option \<Rightarrow> string list \<Rightarrow> TLSApp option" where
  "TLSBuilder_Build getenv settings domains =
     (if domains = [] then None
      else
        let tlsApp = \<lparr>ta_Automate = domains, ta_Policies = None\<rparr> in
        Some (case settings of
            None \<Rightarrow> tlsApp
          | Some s \<Rightarrow>
              if cf_ACMEProvider s = [] then tlsApp
              else case buildIssuer getenv s of
                  None \<Rightarrow> tlsApp
                | Some issuer \<Rightarrow>
                    tlsApp\<lparr>ta_Policies := Some [\<lparr>ap_Subjects = domains, ap_Issuers = [issuer]\<rparr>]\<rparr>))"

section \<open>Credentials\<close>

text \<open>The credentials a provider carries in the configuration.\<close>

fun provider_secrets :: "dns_provider \<Rightarrow> string list" where
  "provider_secrets (DNSProviderCloudflare t) = [t]"
| "provider_secrets DNSProviderRoute53 = []"
| "provider_secrets (DNSProviderDuckDNS t) = [t]"
| "provider_secrets (DNSProviderDigitalOcean t) = [t]"
| "provider_secrets (DNSProviderHetzner t) = [t]"
| "provider_secrets (DNSProviderPorkbun k s) = [k, s]"
| "provider_secrets (DNSProviderAzure t c s u r) = [t, c, s, u, r]"
| "provider_secrets (DNSProviderVultr k) = [k]"
| "provider_secrets (DNSProviderNamecheap k u) = [k, u]"
| "provider_secrets (DNSProviderOVH e k s c) = [e, k, s, c]"

lemmas issuer_defs = buildCloudflareIssuer_def buildRoute53Issuer_def buildDuckDNSIssuer_def
  buildDigitalOceanIssuer_def buildHetznerIssuer_def buildPorkbunIssuer_def buildAzureIssuer_def
  buildVultrIssuer_def buildNamecheapIssuer_def buildOVHIssuer_def newDNSIssuer_def http_issuer_def

lemma buildIssuer_cases:
  assumes "buildIssuer getenv s = Some i"
  shows "i = http_issuer s \<or> (\<exists>p. i = newDNSIssuer s p \<and> [] \<notin> set (provider_secrets p))"
  using assms unfolding buildIssuer_def Let_def
  by (simp split: if_split_asm add: issuer_defs Let_def) auto

text \<open>
  A DNS challenge is only configured with complete credentials: whatever provider is selected, an
  issuer with a DNS challenge never carries an empty credential, and it uses the configured resolvers.
\<close>

theorem dns_issuer_complete:
  assumes "TLSBuilder_Build getenv (Some s) domains = Some app"
    and "ta_Policies app = Some ps" "p \<in> set ps" "i \<in> set (ap_Issuers p)" "is_Challenges i = Some c"
  shows "[] \<notin> set (provider_secrets (dc_Provider c)) \<and> dc_Resolvers c = dnsResolvers s \<and>
    ap_Subjects p = domains \<and> is_Email i = cf_AdminEmail s"
proof -
  from assms(1-4) have b: "buildIssuer getenv s = Some i" "ap_Subjects p = domains"
    by (auto simp: TLSBuilder_Build_def Let_def split: if_split_asm option.splits)
  from buildIssuer_cases[OF b(1)] assms(5) show ?thesis
    by (auto simp: http_issuer_def newDNSIssuer_def b(2))
qed

definition demo_settings :: Settings where
  "demo_settings =
     \<lparr>cf_AdminEmail = ''ops@example.com'', cf_ACMEProvider = ''cloudflare'', cf_StoragePath = [],
      cf_LogPath = [], cf_WaygatesVerifyURL = ''http://waygates:8080'',
      cf_WaygatesLoginURL = ''https://auth.example.com/login'',
      cf_DNSCredentials = [(''CLOUDFLARE_API_TOKEN'', ''t0k3n'')], cf_ACMEResolvers = [],
      cf_TrustedProxies = [], cf_ClientIPHeaders = []\<rparr>"

theorem dns_issuer_complete_witness:
  "[] \<notin> set (provider_secrets (DNSProviderCloudflare ''t0k3n'')) \<and>
   dnsResolvers demo_settings = DefaultACMEResolvers"
proof -
  have r: "dnsResolvers demo_settings = DefaultACMEResolvers"
    by (simp add: dnsResolvers_def demo_settings_def)
  let ?i = "newDNSIssuer demo_settings (DNSProviderCloudflare ''t0k3n'')"
  let ?p = "\<lparr>ap_Subjects = [''a.example.com''], ap_Issuers = [?i]\<rparr>"
  have b: "TLSBuilder_Build (\<lambda>_. []) (Some demo_settings) [''a.example.com''] =
      Some \<lparr>ta_Automate = [''a.example.com''], ta_Policies = Some [?p]\<rparr>"
    by (simp add: TLSBuilder_Build_def buildIssuer_def issuer_defs getCredential_def demo_settings_def Let_def)
  show ?thesis
    using dns_issuer_complete[OF b, of "[?p]" ?p ?i
        "\<lparr>dc_Provider = DNSProviderCloudflare ''t0k3n'', dc_Resolvers = dnsResolvers demo_settings\<rparr>"] r
    by (simp add: newDNSIssuer_def)
qed

end
