(* ===== verification/L4_Model.thy ===== *)
theory L4_Model
  imports Waygates_Prelude
begin

text \<open>
  Layer 4 proxies of \<open>backend/internal/models/l4_proxy.go\<close> with their validation.
\<close>

definition L4ProtocolTCP :: string where "L4ProtocolTCP = ''tcp''"
definition L4ProtocolUDP :: string where "L4ProtocolUDP = ''udp''"

definition validMatcherTypes :: "string list" where
  "validMatcherTypes =
     [''any'', ''tls'', ''ssh'', ''postgres'', ''http'', ''rdp'', ''socks5'', ''remote_ip'', ''regexp'']"

definition validLBPolicies :: "string list" where
  "validLBPolicies = [''round_robin'', ''least_conn'', ''random'', ''first'', ''ip_hash'']"

record L4Upstream =
  l4u_Host :: string
  l4u_Port :: int
  l4u_Weight :: "int option"

record L4Route =
  l4r_ID :: int
  l4r_L4ProxyID :: int
  l4r_Priority :: int
  l4r_MatcherType :: string
  l4r_SNIHostnames :: "string list"
  l4r_AllowedIPRanges :: "string list"
  l4r_RegexPattern :: "string option"
  l4r_Upstreams :: "L4Upstream list"
  l4r_LoadBalancingPolicy :: string
  l4r_TLSTerminate :: bool
  l4r_TLSPassthrough :: bool
  l4r_ProxyProtocolVersion :: "string option"

record L4Proxy =
  l4_ID :: int
  l4_Name :: string
  l4_Description :: "string option"
  l4_ListenPort :: int
  l4_Protocol :: string
  l4_IsActive :: bool
  l4_CreatedBy :: int
  l4_CreatedAt :: int
  l4_Routes :: "L4Route list"

datatype l4_validation_error =
    ErrL4ProxyNameRequired
  | ErrL4ProxyNameTooLong
  | ErrL4ProxyInvalidProtocol
  | ErrL4ProxyInvalidPort
  | ErrL4RouteInvalidMatcher
  | ErrL4RouteInvalidLBPolicy
  | ErrL4RouteUpstreamsRequired
  | ErrL4UpstreamHostRequired
  | ErrL4UpstreamInvalidPort
  | ErrL4RouteTLSConflict
  | ErrL4RouteRegexRequired
  | ErrL4RouteSNIRequired

definition L4Upstream_Validate :: "L4Upstream \<Rightarrow> l4_validation_error option" where
  "L4Upstream_Validate u =
     (if l4u_Host u = [] then Some ErrL4UpstreamHostRequired
      else if l4u_Port u < 1 \<or> l4u_Port u > 65535 then Some ErrL4UpstreamInvalidPort
      else None)"

text \<open>A validation loop returns the first error.\<close>

fun first_error :: "('a \<Rightarrow> 'e option) \<Rightarrow> 'a list \<Rightarrow> 'e option" where
  "first_error f [] = None"
| "first_error f (x # xs) = (case f x of Some e \<Rightarrow> Some e | None \<Rightarrow> first_error f xs)"

definition L4Route_Validate :: "L4Route \<Rightarrow> l4_validation_error option" where
  "L4Route_Validate r =
     (if \<not> List.member validMatcherTypes (l4r_MatcherType r) then Some ErrL4RouteInvalidMatcher
      else if \<not> List.member validLBPolicies (l4r_LoadBalancingPolicy r) then Some ErrL4RouteInvalidLBPolicy
      else if l4r_Upstreams r = [] then Some ErrL4RouteUpstreamsRequired
      else case first_error L4Upstream_Validate (l4r_Upstreams r) of
          Some e \<Rightarrow> Some e
        | None \<Rightarrow>
            if l4r_TLSTerminate r \<and> l4r_TLSPassthrough r then Some ErrL4RouteTLSConflict
            else if l4r_MatcherType r = ''regexp'' \<and> (l4r_RegexPattern r = None \<or> l4r_RegexPattern r = Some [])
            then Some ErrL4RouteRegexRequired
            else if l4r_MatcherType r = ''tls'' \<and> l4r_SNIHostnames r = [] then Some ErrL4RouteSNIRequired
            else None)"

definition L4Proxy_Validate :: "L4Proxy \<Rightarrow> l4_validation_error option" where
  "L4Proxy_Validate p =
     (if l4_Name p = [] then Some ErrL4ProxyNameRequired
      else if length (l4_Name p) > 255 then Some ErrL4ProxyNameTooLong
      else if l4_Protocol p \<noteq> L4ProtocolTCP \<and> l4_Protocol p \<noteq> L4ProtocolUDP then Some ErrL4ProxyInvalidProtocol
      else if l4_ListenPort p < 1 \<or> l4_ListenPort p > 65535 then Some ErrL4ProxyInvalidPort
      else first_error L4Route_Validate (l4_Routes p))"

definition IsValidL4Protocol :: "string \<Rightarrow> bool" where
  "IsValidL4Protocol protocol \<longleftrightarrow> protocol = L4ProtocolTCP \<or> protocol = L4ProtocolUDP"

definition IsValidL4MatcherType :: "string \<Rightarrow> bool" where
  "IsValidL4MatcherType t = List.member validMatcherTypes t"

definition IsValidL4LoadBalancingPolicy :: "string \<Rightarrow> bool" where
  "IsValidL4LoadBalancingPolicy p = List.member validLBPolicies p"

lemma first_error_None: "first_error f xs = None \<longleftrightarrow> (\<forall>x \<in> set xs. f x = None)"
  by (induction xs) (auto split: option.splits)

lemma L4Proxy_Validate_None:
  "L4Proxy_Validate p = None \<longleftrightarrow>
     l4_Name p \<noteq> [] \<and> length (l4_Name p) \<le> 255 \<and> IsValidL4Protocol (l4_Protocol p) \<and>
     1 \<le> l4_ListenPort p \<and> l4_ListenPort p \<le> 65535 \<and>
     (\<forall>r \<in> set (l4_Routes p). L4Route_Validate r = None)"
  by (auto simp: L4Proxy_Validate_def IsValidL4Protocol_def first_error_None split: if_splits)

lemma L4Route_Validate_None:
  "L4Route_Validate r = None \<Longrightarrow>
     IsValidL4MatcherType (l4r_MatcherType r) \<and> IsValidL4LoadBalancingPolicy (l4r_LoadBalancingPolicy r) \<and>
     l4r_Upstreams r \<noteq> [] \<and> (\<forall>u \<in> set (l4r_Upstreams r). L4Upstream_Validate u = None)"
  by (auto simp: L4Route_Validate_def IsValidL4MatcherType_def IsValidL4LoadBalancingPolicy_def
      first_error_None split: if_splits option.splits)

end
