(* ===== verification/Caddy_L4.thy ===== *)
theory Caddy_L4
  imports Caddy_Types L4_Model "HOL-Library.Multiset"
begin

text \<open>
  Layer 4 configuration: \<open>layer4.go\<close>, \<open>layer4_matchers.go\<close>, \<open>layer4_handlers.go\<close> and
  \<open>layer4_builder.go\<close> under \<open>backend/internal/caddy/config\<close>. The configuration's own \<open>L4Route\<close>
  and \<open>L4Server\<close> carry the prefix \<open>Cfg\<close>, since the models use the same names.
\<close>

section \<open>Matchers\<close>

type_synonym L4MatcherSet = fields
type_synonym L4Handler = fields

definition NewL4TLSMatcher :: "string list \<Rightarrow> L4MatcherSet" where
  "NewL4TLSMatcher sni = [(''tls'', JObj (omit_strs ''sni'' sni))]"

definition NewL4SSHMatcher :: L4MatcherSet where
  "NewL4SSHMatcher = [(''ssh'', JObj [])]"

definition NewL4PostgresMatcher :: L4MatcherSet where
  "NewL4PostgresMatcher = [(''postgres'', JObj [])]"

definition NewL4HTTPMatcher :: "string list \<Rightarrow> L4MatcherSet" where
  "NewL4HTTPMatcher hosts =
     [(''http'', JArr (if hosts = [] then [] else [JObj [(''host'', json_strings hosts)]]))]"

definition NewL4RDPMatcher :: L4MatcherSet where
  "NewL4RDPMatcher = [(''rdp'', JObj [])]"

definition NewL4SOCKS5Matcher :: L4MatcherSet where
  "NewL4SOCKS5Matcher = [(''socks5'', JObj [])]"

definition L4MatchRemoteIP :: "string list \<Rightarrow> json" where
  "L4MatchRemoteIP ranges = JObj (omit_strs ''ranges'' ranges)"

definition NewL4RemoteIPMatcher :: "string list \<Rightarrow> L4MatcherSet" where
  "NewL4RemoteIPMatcher ranges = [(''remote_ip'', L4MatchRemoteIP ranges)]"

definition NewL4RegexpMatcher :: "string \<Rightarrow> int \<Rightarrow> L4MatcherSet" where
  "NewL4RegexpMatcher pattern cnt =
     [(''regexp'', JObj (omit_str ''pattern'' pattern @ (if cnt > 0 then omit_int ''count'' cnt else [])))]"

definition AddRemoteIPToL4Matcher :: "L4MatcherSet \<Rightarrow> string list \<Rightarrow> L4MatcherSet" where
  "AddRemoteIPToL4Matcher m ranges = AList.update ''remote_ip'' (L4MatchRemoteIP ranges) m"

definition with_ranges :: "string list \<Rightarrow> L4MatcherSet \<Rightarrow> L4MatcherSet" where
  "with_ranges ipRanges m = (if ipRanges = [] then m else AddRemoteIPToL4Matcher m ipRanges)"

text \<open>The nil matcher set is \<^term>\<open>None\<close>.\<close>

definition MapMatcherTypeToL4Matcher :: "string \<Rightarrow> string list \<Rightarrow> string list \<Rightarrow> string
    \<Rightarrow> L4MatcherSet option" where
  "MapMatcherTypeToL4Matcher matcherType sniHostnames ipRanges regexPattern =
     (if matcherType = ''any'' then
        (if ipRanges = [] then None else Some (NewL4RemoteIPMatcher ipRanges))
      else if matcherType = ''tls'' then Some (with_ranges ipRanges (NewL4TLSMatcher sniHostnames))
      else if matcherType = ''ssh'' then Some (with_ranges ipRanges NewL4SSHMatcher)
      else if matcherType = ''postgres'' then Some (with_ranges ipRanges NewL4PostgresMatcher)
      else if matcherType = ''http'' then Some (with_ranges ipRanges (NewL4HTTPMatcher []))
      else if matcherType = ''rdp'' then Some (with_ranges ipRanges NewL4RDPMatcher)
      else if matcherType = ''socks5'' then Some (with_ranges ipRanges NewL4SOCKS5Matcher)
      else if matcherType = ''remote_ip'' then Some (NewL4RemoteIPMatcher ipRanges)
      else if matcherType = ''regexp'' then Some (with_ranges ipRanges (NewL4RegexpMatcher regexPattern 0))
      else None)"

section \<open>Handlers\<close>

text \<open>
  \<open>L4ProxyHandler\<close>: \<open>lp_Upstreams\<close> lists the dial addresses of each upstream,
  \<open>lp_LoadBalancing\<close> is the selection policy of the structure the field points to. The timeouts,
  health checks and upstream TLS settings are never set by the builder.
\<close>

record L4ProxyHandler =
  lp_Handler :: string
  lp_Upstreams :: "string list list"
  lp_LoadBalancing :: "string option"
  lp_ProxyProtocol :: string

definition NewL4ProxyHandler :: "string list list \<Rightarrow> L4ProxyHandler" where
  "NewL4ProxyHandler upstreams =
     \<lparr>lp_Handler = ''proxy'', lp_Upstreams = upstreams, lp_LoadBalancing = None, lp_ProxyProtocol = []\<rparr>"

definition NewL4UpstreamFromHostPort :: "string \<Rightarrow> int \<Rightarrow> string list" where
  "NewL4UpstreamFromHostPort host port = [formatDialAddress host port]"

definition L4_WithLoadBalancing :: "string \<Rightarrow> L4ProxyHandler \<Rightarrow> L4ProxyHandler" where
  "L4_WithLoadBalancing policy h = h\<lparr>lp_LoadBalancing := Some policy\<rparr>"

definition WithProxyProtocol :: "string \<Rightarrow> L4ProxyHandler \<Rightarrow> L4ProxyHandler" where
  "WithProxyProtocol version h = h\<lparr>lp_ProxyProtocol := version\<rparr>"

text \<open>\<open>L4TLSHandler\<close>: each connection policy is the SNI list of its match, if it has one.\<close>

record L4TLSHandler =
  lt_Handler :: string
  lt_ConnectionPolicies :: "string list option list"

definition NewL4TLSHandler :: L4TLSHandler where
  "NewL4TLSHandler = \<lparr>lt_Handler = ''tls'', lt_ConnectionPolicies = []\<rparr>"

definition NewL4TLSConnPolicy :: "string list \<Rightarrow> string list option" where
  "NewL4TLSConnPolicy sni = (if sni = [] then None else Some sni)"

definition WithConnectionPolicies :: "string list option list \<Rightarrow> L4TLSHandler \<Rightarrow> L4TLSHandler" where
  "WithConnectionPolicies ps h = h\<lparr>lt_ConnectionPolicies := ps\<rparr>"

datatype typed_l4_handler = L4Proxy_h L4ProxyHandler | L4TLS_h L4TLSHandler

fun ToL4Handler :: "typed_l4_handler \<Rightarrow> L4Handler" where
  "ToL4Handler (L4Proxy_h h) =
     [(''handler'', JStr (lp_Handler h)),
      (''upstreams'', JArr (map (\<lambda>d. JObj [(''dial'', json_strings d)]) (lp_Upstreams h)))] @
     omit_ptr ''load_balancing''
       (\<lambda>p. JObj [(''selection'', JObj (omit_str ''policy'' p))]) (lp_LoadBalancing h) @
     omit_str ''proxy_protocol'' (lp_ProxyProtocol h)"
| "ToL4Handler (L4TLS_h h) =
     [(''handler'', JStr (lt_Handler h))] @
     omit_list ''connection_policies''
       (\<lambda>p. JObj (omit_ptr ''match'' (\<lambda>sni. JObj (omit_strs ''sni'' sni)) p)) (lt_ConnectionPolicies h)"

definition MapLBPolicyToL4 :: "string \<Rightarrow> string" where
  "MapLBPolicyToL4 policy =
     (if List.member [''round_robin'', ''least_conn'', ''random'', ''first'', ''ip_hash''] policy then policy
      else ''round_robin'')"

section \<open>Routes and servers\<close>

record CfgL4Route =
  cl_Match :: "L4MatcherSet list"
  cl_Handle :: "L4Handler list"

record CfgL4Server =
  cs_Listen :: "string list"
  cs_Routes :: "CfgL4Route list"

type_synonym Layer4App = "(string \<times> CfgL4Server) list"

definition json_CfgL4Route :: "CfgL4Route \<Rightarrow> json" where
  "json_CfgL4Route r =
     JObj (omit_list ''match'' JObj (cl_Match r) @ omit_list ''handle'' JObj (cl_Handle r))"

definition json_Layer4App :: "Layer4App \<Rightarrow> json" where
  "json_Layer4App app =
     JObj (if app = [] then [] else [(''servers'', JObj (map (\<lambda>(n, s). (n,
       JObj (omit_strs ''listen'' (cs_Listen s) @ omit_list ''routes'' json_CfgL4Route (cs_Routes s)))) app))])"

definition L4ListenAddress :: "string \<Rightarrow> string \<Rightarrow> int \<Rightarrow> string" where
  "L4ListenAddress protocol host port =
     (if host = [] then protocol @ ''/:'' @ itoa port else protocol @ ''/'' @ host @ '':'' @ itoa port)"

definition buildListenAddress :: "string \<Rightarrow> int \<Rightarrow> string" where
  "buildListenAddress protocol port =
     (if protocol = L4ProtocolUDP then L4ListenAddress L4ProtocolUDP [] port
      else L4ListenAddress L4ProtocolTCP [] port)"

definition formatServerName :: "L4Proxy \<Rightarrow> string" where
  "formatServerName p = l4_Name p @ ''_'' @ l4_Protocol p @ ''_'' @ Itoa (l4_ListenPort p)"

definition buildMatcher :: "L4Route \<Rightarrow> L4MatcherSet option" where
  "buildMatcher r =
     MapMatcherTypeToL4Matcher (l4r_MatcherType r) (l4r_SNIHostnames r) (l4r_AllowedIPRanges r)
       (case l4r_RegexPattern r of None \<Rightarrow> [] | Some p \<Rightarrow> p)"

definition buildTLSHandler :: "L4Route \<Rightarrow> L4TLSHandler" where
  "buildTLSHandler r =
     (if l4r_SNIHostnames r = [] then NewL4TLSHandler
      else WithConnectionPolicies [NewL4TLSConnPolicy (l4r_SNIHostnames r)] NewL4TLSHandler)"

text \<open>\<^term>\<open>None\<close> is the error \<open>route has no upstreams\<close>.\<close>

definition buildProxyHandler :: "L4Route \<Rightarrow> L4ProxyHandler option" where
  "buildProxyHandler r =
     (if l4r_Upstreams r = [] then None
      else
        let handler = NewL4ProxyHandler
              (map (\<lambda>u. NewL4UpstreamFromHostPort (l4u_Host u) (l4u_Port u)) (l4r_Upstreams r));
            handler = (if l4r_LoadBalancingPolicy r = [] then handler
                       else L4_WithLoadBalancing (MapLBPolicyToL4 (l4r_LoadBalancingPolicy r)) handler)
        in Some (case l4r_ProxyProtocolVersion r of
            Some v \<Rightarrow> if v = [] then handler else WithProxyProtocol v handler
          | None \<Rightarrow> handler))"

definition buildRoute :: "L4Route \<Rightarrow> CfgL4Route option" where
  "buildRoute r =
     (case buildProxyHandler r of
        None \<Rightarrow> None
      | Some proxyHandler \<Rightarrow>
          Some \<lparr>cl_Match = (case buildMatcher r of None \<Rightarrow> [] | Some m \<Rightarrow> [m]),
                cl_Handle = (if l4r_TLSTerminate r then [ToL4Handler (L4TLS_h (buildTLSHandler r))] else []) @
                            [ToL4Handler (L4Proxy_h proxyHandler)]\<rparr>)"

text \<open>\<open>srt\<close> stands for \<open>sort.Slice\<close> by priority, as in the HTTP builders.\<close>

definition buildServer :: "(L4Route list \<Rightarrow> L4Route list) \<Rightarrow> L4Proxy \<Rightarrow> CfgL4Server" where
  "buildServer srt p =
     \<lparr>cs_Listen = [buildListenAddress (l4_Protocol p) (l4_ListenPort p)],
      cs_Routes = List.map_filter buildRoute (srt (l4_Routes p))\<rparr>"

fun BuildL4Config_loop :: "(L4Route list \<Rightarrow> L4Route list) \<Rightarrow> L4Proxy list \<Rightarrow> Layer4App \<Rightarrow> Layer4App" where
  "BuildL4Config_loop srt [] app = app"
| "BuildL4Config_loop srt (p # ps) app =
     BuildL4Config_loop srt ps
       (if \<not> l4_IsActive p \<or> l4_Routes p = [] then app
        else AList.update (formatServerName p) (buildServer srt p) app)"

definition BuildL4Config :: "(L4Route list \<Rightarrow> L4Route list) \<Rightarrow> L4Proxy list \<Rightarrow> Layer4App" where
  "BuildL4Config srt proxies = BuildL4Config_loop srt proxies []"

end
