(* ===== verification/Caddy_Build.thy ===== *)
theory Caddy_Build
  imports Caddy_Http Caddy_Tls Caddy_L4 "HOL-Library.List_Lexorder" "HOL-Library.Char_ord"
begin

text \<open>
  The orchestrating builder, \<open>backend/internal/caddy/config/builder.go\<close>: from the proxies, groups,
  assignments and settings to the whole Caddy configuration. Neither the HTTP nor the TLS builder
  ever returns an error here, so \<open>Build\<close> is total.
\<close>

section \<open>Path names\<close>

text \<open>\<open>filepath.Clean\<close> and \<open>filepath.Join\<close> on Unix.\<close>

fun clean_parts :: "bool \<Rightarrow> string list \<Rightarrow> string list \<Rightarrow> string list" where
  "clean_parts rooted [] out = rev out"
| "clean_parts rooted (p # ps) out =
     (if p = [] \<or> p = ''.'' then clean_parts rooted ps out
      else if p = ''..'' then
        (case out of
           [] \<Rightarrow> clean_parts rooted ps (if rooted then [] else [''..''])
         | o1 # os \<Rightarrow> if o1 = ''..'' then clean_parts rooted ps (''..'' # out) else clean_parts rooted ps os)
      else clean_parts rooted ps (p # out))"

definition filepath_Clean :: "string \<Rightarrow> string" where
  "filepath_Clean path =
     (if path = [] then ''.''
      else
        let rooted = HasPrefix path ''/'';
            out = Join (clean_parts rooted (Split CHR ''/'' path) []) ''/''
        in if rooted then CHR ''/'' # out else if out = [] then ''.'' else out)"

definition filepath_Join :: "string list \<Rightarrow> string" where
  "filepath_Join elems =
     (let es = filter (\<lambda>e. e \<noteq> []) elems in
      if es = [] then [] else filepath_Clean (Join es ''/''))"

section \<open>The configuration\<close>

record LogConfig =
  lc_Filename :: string
  lc_Level :: string
  lc_Include :: "string list"
  lc_Exclude :: "string list"

record HTTPServer =
  hs_Listen :: "string list"
  hs_Routes :: "HTTPRoute list"
  hs_TrustedProxies :: "string list option"
  hs_ClientIPHeaders :: "string list"
  hs_Logs :: bool
  hs_Metrics :: bool

record CaddyConfig =
  cc_AdminListen :: string
  cc_Logs :: "(string \<times> LogConfig) list"
  cc_StorageModule :: string
  cc_StorageRoot :: string
  cc_TLS :: "TLSApp option"
  cc_HTTP :: "(string \<times> HTTPServer) list option"
  cc_Layer4 :: "Layer4App option"

text \<open>
  Every log the builder writes is a file that is rolled at 10 MB, keeps 5 files for 7 days and is
  encoded as JSON, so a log configuration is its file name, level and filters.
\<close>

definition json_LogConfig :: "LogConfig \<Rightarrow> json" where
  "json_LogConfig l =
     JObj ([(''writer'', JObj (omit_str ''output'' ''file'' @ omit_str ''filename'' (lc_Filename l) @
              [(''roll'', JBool True)] @ omit_int ''roll_size_mb'' 10 @ omit_int ''roll_keep'' 5 @
              omit_int ''roll_keep_days'' 7)),
            (''encoder'', JObj [(''format'', JStr ''json'')])] @
           omit_str ''level'' (lc_Level l) @ omit_strs ''include'' (lc_Include l) @
           omit_strs ''exclude'' (lc_Exclude l))"

definition json_HTTPServer :: "HTTPServer \<Rightarrow> json" where
  "json_HTTPServer s =
     JObj (omit_strs ''listen'' (hs_Listen s) @ omit_list ''routes'' json_HTTPRoute (hs_Routes s) @
           omit_ptr ''trusted_proxies''
             (\<lambda>r. JObj ([(''source'', JStr ''static'')] @ omit_strs ''ranges'' r)) (hs_TrustedProxies s) @
           omit_strs ''client_ip_headers'' (hs_ClientIPHeaders s) @
           (if hs_Logs s then [(''logs'', JObj [])] else []) @
           (if hs_Metrics s then [(''metrics'', JObj [])] else []))"

definition json_CaddyConfig :: "CaddyConfig \<Rightarrow> json" where
  "json_CaddyConfig c =
     JObj [(''admin'', JObj (omit_str ''listen'' (cc_AdminListen c))),
           (''logging'', JObj (if cc_Logs c = [] then []
              else [(''logs'', JObj (map (\<lambda>(n, l). (n, json_LogConfig l)) (cc_Logs c)))])),
           (''storage'', JObj (omit_str ''module'' (cc_StorageModule c) @ omit_str ''root'' (cc_StorageRoot c))),
           (''apps'', JObj (omit_ptr ''tls'' json_TLSApp (cc_TLS c) @
              omit_ptr ''http'' (\<lambda>ss. JObj (if ss = [] then []
                 else [(''servers'', JObj (map (\<lambda>(n, s). (n, json_HTTPServer s)) ss))])) (cc_HTTP c) @
              omit_ptr ''layer4'' json_Layer4App (cc_Layer4 c)))]"

section \<open>The builder\<close>

record NotFoundSettings =
  nf_Mode :: string
  nf_RedirectURL :: string

record MetricsPublishSettings =
  mp_Enabled :: bool
  mp_Host :: string
  mp_Path :: string
  mp_BasicAuthUser :: string
  mp_BasicAuthHash :: string
  mp_AllowedCIDRs :: "string list"

text \<open>The sub-builders have no state of their own beyond the settings and the two URLs.\<close>

record Builder =
  bd_aclBuilder :: "ACLBuilder option"
  bd_settings :: "Settings option"
  bd_httpProxies :: "Proxy list"
  bd_aclGroups :: "int \<rightharpoonup> ACLGroup"
  bd_aclAssigns :: "int \<Rightarrow> ProxyACLAssignment list"
  bd_notFound :: "NotFoundSettings option"
  bd_layer4App :: "Layer4App option"
  bd_l4TLSHostnames :: "string list"
  bd_trustedProxies :: "string list"
  bd_clientIPHeaders :: "string list"
  bd_metricsPublish :: "MetricsPublishSettings option"

definition NewBuilder :: "ACLBuilder option \<Rightarrow> Builder" where
  "NewBuilder ab =
     \<lparr>bd_aclBuilder = ab, bd_settings = None, bd_httpProxies = [], bd_aclGroups = (\<lambda>_. None),
      bd_aclAssigns = (\<lambda>_. []), bd_notFound = None, bd_layer4App = None, bd_l4TLSHostnames = [],
      bd_trustedProxies = [], bd_clientIPHeaders = [], bd_metricsPublish = None\<rparr>"

definition SetSettings :: "Settings option \<Rightarrow> Builder \<Rightarrow> Builder" where
  "SetSettings settings b =
     (case settings of
        None \<Rightarrow> b\<lparr>bd_settings := None\<rparr>
      | Some s \<Rightarrow>
          b\<lparr>bd_settings := Some s,
            bd_aclBuilder := map_option (\<lambda>_.
              \<lparr>ab_waygatesVerifyURL = cf_WaygatesVerifyURL s, ab_waygatesLoginURL = cf_WaygatesLoginURL s\<rparr>)
              (bd_aclBuilder b),
            bd_trustedProxies := cf_TrustedProxies s, bd_clientIPHeaders := cf_ClientIPHeaders s\<rparr>)"

definition SetACLGroups :: "ACLGroup list \<Rightarrow> Builder \<Rightarrow> Builder" where
  "SetACLGroups gs b = b\<lparr>bd_aclGroups := fold (\<lambda>g m. m(gr_ID g \<mapsto> g)) gs Map.empty\<rparr>"

definition SetACLAssignments :: "ProxyACLAssignment list \<Rightarrow> Builder \<Rightarrow> Builder" where
  "SetACLAssignments as b =
     b\<lparr>bd_aclAssigns :=
         fold (\<lambda>a m. if pa_Enabled a then m(pa_ProxyID a := m (pa_ProxyID a) @ [a]) else m) as (\<lambda>_. [])\<rparr>"

section \<open>Routes\<close>

definition buildProxyRoutes :: "sorters \<Rightarrow> Builder \<Rightarrow> Proxy \<Rightarrow> (build_error, HTTPRoute list) result" where
  "buildProxyRoutes so b proxy =
     (let assignments = bd_aclAssigns b (px_ID proxy);
          proxyRoutes =
            (if px_Type proxy = ProxyTypeReverseProxy then
               (case bd_aclBuilder b of
                  Some ab \<Rightarrow>
                    if assignments \<noteq> []
                    then BuildReverseProxyRoutesWithACL so proxy assignments (bd_aclGroups b) ab
                    else BuildReverseProxyRoutes proxy
                | None \<Rightarrow> BuildReverseProxyRoutes proxy)
             else if px_Type proxy = ProxyTypeRedirect then BuildRedirectRoutes proxy
             else if px_Type proxy = ProxyTypeStatic then BuildStaticRoutes proxy
             else Err (UnknownProxyType (px_Type proxy)))
      in case proxyRoutes of
          Inl e \<Rightarrow> Err e
        | Inr rs \<Rightarrow>
            Ok ((if px_BlockExploits proxy then SecurityRoutesForHost (px_Hostname proxy) else []) @ rs))"

definition buildL4TLSRoutes :: "Builder \<Rightarrow> HTTPRoute list" where
  "buildL4TLSRoutes b =
     (let httpHostnames = map px_Hostname (filter px_IsActive (bd_httpProxies b)) in
      map (\<lambda>hostname.
            \<lparr>hr_Match = [NewHostMatcher [hostname]],
             hr_Handle = [[(''handler'', JStr ''static_response''),
                           (''body'', JStr ''L4 Proxy - TLS Certificate Endpoint'')]],
             hr_Terminal = False\<rparr>)
        (filter (\<lambda>h. \<not> List.member httpHostnames h) (bd_l4TLSHostnames b)))"

text \<open>The routes of one proxy as they enter the list: nothing for an inactive or broken proxy.\<close>

definition proxy_contribution :: "sorters \<Rightarrow> Builder \<Rightarrow> Proxy \<Rightarrow> HTTPRoute list" where
  "proxy_contribution so b proxy =
     (if \<not> px_IsActive proxy then []
      else case buildProxyRoutes so b proxy of Inl _ \<Rightarrow> [] | Inr rs \<Rightarrow> rs)"

definition buildHTTPRoutes :: "sorters \<Rightarrow> Builder \<Rightarrow> HTTPRoute list" where
  "buildHTTPRoutes so b =
     concat (map (proxy_contribution so b) (bd_httpProxies b)) @ buildL4TLSRoutes b"

definition buildCatchAllRoute :: "Builder \<Rightarrow> HTTPRoute" where
  "buildCatchAllRoute b =
     (case bd_notFound b of
        None \<Rightarrow> NewCatchAllRoute
      | Some nf \<Rightarrow>
          if nf_Mode nf = ''redirect'' \<and> nf_RedirectURL nf \<noteq> []
          then NewCatchAllRedirectRoute (nf_RedirectURL nf) else NewCatchAllRoute)"

definition metrics_route :: "MetricsPublishSettings \<Rightarrow> HTTPRoute" where
  "metrics_route mp =
     (let path = (if mp_Path mp = [] then ''/metrics'' else mp_Path mp);
          m = NewHostPathMatcher (mp_Host mp) [path];
          m = (if mp_AllowedCIDRs mp = [] then m else AddRemoteIPToMatcher m (mp_AllowedCIDRs mp));
          authH = NewAuthenticationHandler
                    [NewBasicAuthAccount (mp_BasicAuthUser mp) (mp_BasicAuthHash mp)] ''Metrics''
      in terminal_route m [ToHTTPHandler (Authentication authH), [(''handler'', JStr ''metrics'')]])"

definition metrics_configured :: "MetricsPublishSettings \<Rightarrow> bool" where
  "metrics_configured mp \<longleftrightarrow>
     mp_Enabled mp \<and> mp_Host mp \<noteq> [] \<and> mp_BasicAuthUser mp \<noteq> [] \<and> mp_BasicAuthHash mp \<noteq> []"

definition all_routes :: "sorters \<Rightarrow> Builder \<Rightarrow> HTTPRoute list" where
  "all_routes so b =
     (case bd_metricsPublish b of
        Some mp \<Rightarrow> if metrics_configured mp then [metrics_route mp] else []
      | None \<Rightarrow> []) @
     buildHTTPRoutes so b @ [buildCatchAllRoute b]"

definition collectTLSDomains :: "Builder \<Rightarrow> string list" where
  "collectTLSDomains b =
     sort (remdups
       (map px_Hostname (filter (\<lambda>p. px_IsActive p \<and> px_SSLEnabled p) (bd_httpProxies b)) @
        bd_l4TLSHostnames b))"

definition applyTrustedProxies :: "Builder \<Rightarrow> HTTPServer \<Rightarrow> HTTPServer" where
  "applyTrustedProxies b server =
     (if bd_trustedProxies b = [] then server
      else
        let server = server\<lparr>hs_TrustedProxies := Some (bd_trustedProxies b)\<rparr>
        in if bd_clientIPHeaders b = [] then server
           else server\<lparr>hs_ClientIPHeaders := bd_clientIPHeaders b\<rparr>)"

definition Build :: "sorters \<Rightarrow> environ \<Rightarrow> Builder \<Rightarrow> CaddyConfig" where
  "Build so getenv b =
     (let logPath = (case bd_settings b of
            Some s \<Rightarrow> if cf_LogPath s \<noteq> [] then cf_LogPath s else ''/var/log/caddy''
          | None \<Rightarrow> ''/var/log/caddy'');
          accessNS = ''http.log.access'';
          runtimeLog = \<lparr>lc_Filename = filepath_Join [logPath, ''runtime.log''], lc_Level = ''INFO'',
                        lc_Include = [], lc_Exclude = [accessNS]\<rparr>;
          accessLog = \<lparr>lc_Filename = filepath_Join [logPath, ''access.log''], lc_Level = [],
                       lc_Include = [accessNS], lc_Exclude = []\<rparr>;
          routes = all_routes so b;
          server = applyTrustedProxies b
            \<lparr>hs_Listen = ['':443'', '':80''], hs_Routes = routes, hs_TrustedProxies = None,
             hs_ClientIPHeaders = [], hs_Logs = True, hs_Metrics = True\<rparr>;
          domains = collectTLSDomains b
      in \<lparr>cc_AdminListen = ''localhost:2019'',
          cc_Logs = (''default'', runtimeLog) # (if routes = [] then [] else [(''access'', accessLog)]),
          cc_StorageModule = ''file_system'', cc_StorageRoot = ''/data'',
          cc_TLS = (if domains = [] then None else TLSBuilder_Build getenv (bd_settings b) domains),
          cc_HTTP = (if routes = [] then None else Some [(''srv0'', server)]),
          cc_Layer4 = (case bd_layer4App b of
              Some app \<Rightarrow> if app = [] then None else Some app | None \<Rightarrow> None)\<rparr>)"

end
