(* ===== verification/Caddy_Decision.thy ===== *)
theory Caddy_Decision
  imports Caddy_Build
begin

text \<open>
  What the generated routes mean. Caddy itself is outside the repository: how its matcher modules
  judge a request is the parameter \<open>mm\<close> (module name, configuration, request), and \<open>served\<close> states
  the documented routing rule: routes are tried in order, a route without matcher sets matches
  everything, otherwise one of its matcher sets must match entirely, and a terminal route ends the
  evaluation. The result is the chain of handlers the request is given to.
\<close>

definition set_matches :: "(string \<Rightarrow> json \<Rightarrow> 'r \<Rightarrow> bool) \<Rightarrow> 'r \<Rightarrow> MatcherSet \<Rightarrow> bool" where
  "set_matches mm rq m = list_all (\<lambda>(k, v). mm k v rq) m"

definition route_matches :: "(string \<Rightarrow> json \<Rightarrow> 'r \<Rightarrow> bool) \<Rightarrow> 'r \<Rightarrow> HTTPRoute \<Rightarrow> bool" where
  "route_matches mm rq r \<longleftrightarrow> hr_Match r = [] \<or> list_ex (set_matches mm rq) (hr_Match r)"

fun served :: "(string \<Rightarrow> json \<Rightarrow> 'r \<Rightarrow> bool) \<Rightarrow> 'r \<Rightarrow> HTTPRoute list \<Rightarrow> HTTPHandler list" where
  "served mm rq [] = []"
| "served mm rq (r # rs) =
     (if route_matches mm rq r
      then hr_Handle r @ (if hr_Terminal r then [] else served mm rq rs)
      else served mm rq rs)"

section \<open>Generic facts\<close>

lemma served_skip: "(\<And>r. r \<in> set rs \<Longrightarrow> \<not> route_matches mm rq r) \<Longrightarrow> served mm rq (rs @ ts) = served mm rq ts"
  by (induction rs) auto

lemma served_cong: "served mm rq ts = served mm rq us \<Longrightarrow> served mm rq (rs @ ts) = served mm rq (rs @ us)"
  by (induction rs) auto

lemma set_matches_terminal [simp]:
  "route_matches mm rq (terminal_route m hs) \<longleftrightarrow> set_matches mm rq m"
  "hr_Handle (terminal_route m hs) = hs" "hr_Terminal (terminal_route m hs)"
  by (simp_all add: route_matches_def terminal_route_def)

lemma host_route_simps [simp]:
  "route_matches mm rq (host_route h u) \<longleftrightarrow> mm ''host'' (json_strings [h]) rq"
  "hr_Handle (host_route h u) = [u]" "hr_Terminal (host_route h u)"
  by (simp_all add: route_matches_def host_route_def route_defs set_matches_def NewHostMatcher_def)

section \<open>Matchers of the access-control routes\<close>

definition host_hit :: "(string \<Rightarrow> json \<Rightarrow> 'r \<Rightarrow> bool) \<Rightarrow> 'r \<Rightarrow> string \<Rightarrow> bool" where
  "host_hit mm rq h = mm ''host'' (json_strings [h]) rq"

definition path_hit :: "(string \<Rightarrow> json \<Rightarrow> 'r \<Rightarrow> bool) \<Rightarrow> 'r \<Rightarrow> string \<Rightarrow> bool" where
  "path_hit mm rq p \<longleftrightarrow> p = [] \<or> p = ''/*'' \<or> mm ''path'' (json_strings [p]) rq"

definition ip_hit :: "(string \<Rightarrow> json \<Rightarrow> 'r \<Rightarrow> bool) \<Rightarrow> 'r \<Rightarrow> string list \<Rightarrow> bool" where
  "ip_hit mm rq ranges = mm ''remote_ip'' (MatchRemoteIP ranges) rq"

definition not_ip_hit :: "(string \<Rightarrow> json \<Rightarrow> 'r \<Rightarrow> bool) \<Rightarrow> 'r \<Rightarrow> string list \<Rightarrow> bool" where
  "not_ip_hit mm rq ranges = mm ''not'' (JArr [JObj (NewRemoteIPMatcher ranges)]) rq"

definition asset_hit :: "(string \<Rightarrow> json \<Rightarrow> 'r \<Rightarrow> bool) \<Rightarrow> 'r \<Rightarrow> bool" where
  "asset_hit mm rq = mm ''path'' (json_strings (StaticAssetPaths @ StaticAssetExtensions)) rq"

lemmas hit_defs = host_hit_def path_hit_def ip_hit_def not_ip_hit_def asset_hit_def

lemmas matcher_defs = path_matcher_def AddPathToMatcher_def AddRemoteIPToMatcher_def NewHostMatcher_def
  NewPathMatcher_def NewNotMatcher_def set_matches_def

lemma deny_route_matches [simp]:
  "route_matches mm rq (buildIPDenyRoute h p ips) \<longleftrightarrow>
     host_hit mm rq h \<and> path_hit mm rq p \<and> ip_hit mm rq ips"
  "route_matches mm rq (buildIPBypassRoute h p ips u) \<longleftrightarrow>
     host_hit mm rq h \<and> path_hit mm rq p \<and> ip_hit mm rq ips"
  "route_matches mm rq (buildIPAllowRoute h p ips u) \<longleftrightarrow>
     host_hit mm rq h \<and> path_hit mm rq p \<and> ip_hit mm rq ips"
  by (auto simp: buildIPDenyRoute_def buildIPBypassRoute_def buildIPAllowRoute_def matcher_defs hit_defs)

lemma deny_not_in_list_matches [simp]:
  "route_matches mm rq (buildIPDenyNotInListRoute h p ips) \<longleftrightarrow>
     host_hit mm rq h \<and> path_hit mm rq p \<and> not_ip_hit mm rq ips"
  by (auto simp: buildIPDenyNotInListRoute_def matcher_defs hit_defs)

lemma asset_route_matches [simp]:
  "route_matches mm rq (buildStaticAssetsBypassRoute h u) \<longleftrightarrow> host_hit mm rq h \<and> asset_hit mm rq"
  by (auto simp: buildStaticAssetsBypassRoute_def matcher_defs hit_defs)

lemma auth_route_matches [simp]:
  "route_matches mm rq (buildAuthRoute b h p g u bypass allow) \<longleftrightarrow>
     host_hit mm rq h \<and> path_hit mm rq p \<and> (bypass @ allow = [] \<or> not_ip_hit mm rq (bypass @ allow))"
  by (auto simp: buildAuthRoute_def matcher_defs hit_defs Let_def)

lemma restricted_route_matches [simp]:
  "route_matches mm rq (buildAuthRouteWithIPRestriction b h p g u ips) \<longleftrightarrow>
     host_hit mm rq h \<and> path_hit mm rq p \<and> (ips = [] \<or> ip_hit mm rq ips)"
  by (auto simp: buildAuthRouteWithIPRestriction_def matcher_defs hit_defs Let_def)

lemma acl_route_handlers [simp]:
  "hr_Handle (buildIPDenyRoute h p ips) = [static_response 403 ''Forbidden'']"
  "hr_Handle (buildIPDenyNotInListRoute h p ips) = [static_response 403 ''Forbidden'']"
  "hr_Handle (buildIPBypassRoute h p ips u) = [handlerToMap u]"
  "hr_Handle (buildIPAllowRoute h p ips u) = [handlerToMap u]"
  "hr_Handle (buildStaticAssetsBypassRoute h u) = [handlerToMap u]"
  "hr_Handle (buildAuthRoute b h p g u bypass allow) = auth_handlers b g @ [handlerToMap u]"
  "hr_Handle (buildAuthRouteWithIPRestriction b h p g u ips) = auth_handlers b g @ [handlerToMap u]"
  "hr_Terminal (buildIPDenyRoute h p ips)" "hr_Terminal (buildIPDenyNotInListRoute h p ips)"
  "hr_Terminal (buildIPBypassRoute h p ips u)" "hr_Terminal (buildIPAllowRoute h p ips u)"
  "hr_Terminal (buildStaticAssetsBypassRoute h u)"
  "hr_Terminal (buildAuthRoute b h p g u bypass allow)"
  "hr_Terminal (buildAuthRouteWithIPRestriction b h p g u ips)"
  by (simp_all add: buildIPDenyRoute_def buildIPDenyNotInListRoute_def buildIPBypassRoute_def
      buildIPAllowRoute_def buildStaticAssetsBypassRoute_def buildAuthRoute_def
      buildAuthRouteWithIPRestriction_def Let_def)

text \<open>
  The access-control routes as a decision list. \<open>group_verdict\<close> says, over the stored rules and
  without mentioning routes, what one assigned group does with a request; \<open>decide\<close> goes through the
  assignments. The generated routes implement it, for every Caddy whose matchers obey
  \<open>matcher_laws\<close>: a \<open>remote_ip\<close> matcher tests membership in one of its ranges, and \<open>not\<close> negates.
\<close>

definition matcher_laws :: "(string \<Rightarrow> json \<Rightarrow> 'r \<Rightarrow> bool) \<Rightarrow> ('r \<Rightarrow> string \<Rightarrow> bool) \<Rightarrow> bool" where
  "matcher_laws mm in_range \<longleftrightarrow>
     (\<forall>rq rs. rs \<noteq> [] \<longrightarrow> (mm ''remote_ip'' (MatchRemoteIP rs) rq \<longleftrightarrow> (\<exists>r \<in> set rs. in_range rq r))) \<and>
     (\<forall>rq rs. mm ''not'' (JArr [JObj (NewRemoteIPMatcher rs)]) rq \<longleftrightarrow>
        \<not> mm ''remote_ip'' (MatchRemoteIP rs) rq)"

section \<open>The decision list\<close>

datatype outcome = Blocked | Open | Guarded ACLGroup

definition has_rule :: "string \<Rightarrow> ACLGroup \<Rightarrow> bool" where
  "has_rule ty g \<longleftrightarrow> (\<exists>r \<in> set (gr_IPRules g). ir_RuleType r = ty)"

definition hit_by :: "('r \<Rightarrow> string \<Rightarrow> bool) \<Rightarrow> 'r \<Rightarrow> string \<Rightarrow> ACLGroup \<Rightarrow> bool" where
  "hit_by in_range rq ty g \<longleftrightarrow>
     (\<exists>r \<in> set (gr_IPRules g). ir_RuleType r = ty \<and> in_range rq (ir_CIDR r))"

definition group_configured :: "ACLGroup \<Rightarrow> bool" where
  "group_configured g \<longleftrightarrow> gr_IPRules g \<noteq> [] \<or> gr_BasicAuthUsers g \<noteq> [] \<or> hasSecureAuth g"

definition admitted_ip :: "('r \<Rightarrow> string \<Rightarrow> bool) \<Rightarrow> 'r \<Rightarrow> ACLGroup \<Rightarrow> bool" where
  "admitted_ip in_range rq g \<longleftrightarrow>
     hit_by in_range rq ACLIPRuleTypeBypass g \<or> hit_by in_range rq ACLIPRuleTypeAllow g"

definition lists_ips :: "ACLGroup \<Rightarrow> bool" where
  "lists_ips g \<longleftrightarrow> has_rule ACLIPRuleTypeBypass g \<or> has_rule ACLIPRuleTypeAllow g"

definition group_verdict ::
  "(string \<Rightarrow> json \<Rightarrow> 'r \<Rightarrow> bool) \<Rightarrow> ('r \<Rightarrow> string \<Rightarrow> bool) \<Rightarrow> 'r \<Rightarrow> string \<Rightarrow> ACLGroup \<Rightarrow> outcome option" where
  "group_verdict mm in_range rq p g =
     (if \<not> group_configured g then None
      else if path_hit mm rq p \<and> hit_by in_range rq ACLIPRuleTypeDeny g then Some Blocked
      else if path_hit mm rq p \<and> gr_CombinationMode g = ACLCombinationModeAll \<and> lists_ips g \<and>
              \<not> admitted_ip in_range rq g then Some Blocked
      else if path_hit mm rq p \<and> gr_CombinationMode g \<noteq> ACLCombinationModeAll \<and>
              admitted_ip in_range rq g then Some Open
      else if asset_hit mm rq then Some Open
      else if path_hit mm rq p then Some (Guarded g)
      else None)"

fun decide ::
  "(string \<Rightarrow> json \<Rightarrow> 'r \<Rightarrow> bool) \<Rightarrow> ('r \<Rightarrow> string \<Rightarrow> bool) \<Rightarrow> 'r \<Rightarrow> (int \<rightharpoonup> ACLGroup)
    \<Rightarrow> ProxyACLAssignment list \<Rightarrow> outcome" where
  "decide mm in_range rq groups [] = Open"
| "decide mm in_range rq groups (a # as) =
     (case Option.bind (groups (pa_ACLGroupID a)) (group_verdict mm in_range rq (pa_PathPattern a)) of
        Some v \<Rightarrow> v
      | None \<Rightarrow> decide mm in_range rq groups as)"

fun chain :: "ACLBuilder \<Rightarrow> HTTPHandler \<Rightarrow> outcome \<Rightarrow> HTTPHandler list" where
  "chain b u Blocked = [static_response 403 ''Forbidden'']"
| "chain b u Open = [u]"
| "chain b u (Guarded g) = auth_handlers b g @ [u]"

section \<open>Classification of the rules\<close>

lemma categorize_loop_filter:
  "categorize_loop rs (b, a, d) =
     (b @ map ir_CIDR (filter (\<lambda>r. ir_RuleType r = ACLIPRuleTypeBypass) rs),
      a @ map ir_CIDR (filter (\<lambda>r. ir_RuleType r = ACLIPRuleTypeAllow) rs),
      d @ map ir_CIDR (filter (\<lambda>r. ir_RuleType r = ACLIPRuleTypeDeny) rs))"
  by (induction rs arbitrary: b a d)
     (simp_all add: ACLIPRuleTypeBypass_def ACLIPRuleTypeAllow_def ACLIPRuleTypeDeny_def)

lemma slice_sort_set: "slice_sort key srt \<Longrightarrow> set (srt xs) = set xs"
  unfolding slice_sort_def by (metis set_mset_mset)

lemma categorizeIPRules_sets:
  assumes "slice_sort ir_Priority srt" "categorizeIPRules srt rules = (b, a, d)"
  shows "set b = ir_CIDR ` {r \<in> set rules. ir_RuleType r = ACLIPRuleTypeBypass}"
    "set a = ir_CIDR ` {r \<in> set rules. ir_RuleType r = ACLIPRuleTypeAllow}"
    "set d = ir_CIDR ` {r \<in> set rules. ir_RuleType r = ACLIPRuleTypeDeny}"
  using assms slice_sort_set[OF assms(1), of rules]
  by (auto simp: categorizeIPRules_def categorize_loop_filter)

text \<open>One list of a classified rule set, as the matchers see it.\<close>

lemma listed_hit:
  assumes "matcher_laws mm in_range" "set xs = ir_CIDR ` {r \<in> set (gr_IPRules g). ir_RuleType r = ty}"
  shows "xs \<noteq> [] \<and> ip_hit mm rq xs \<longleftrightarrow> hit_by in_range rq ty g" "xs = [] \<longleftrightarrow> \<not> has_rule ty g"
proof -
  show "xs = [] \<longleftrightarrow> \<not> has_rule ty g"
    using assms(2) by (auto simp: has_rule_def simp flip: set_empty)
  show "xs \<noteq> [] \<and> ip_hit mm rq xs \<longleftrightarrow> hit_by in_range rq ty g"
  proof (cases "xs = []")
    case True
    then show ?thesis using assms(2) by (auto simp: hit_by_def)
  next
    case False
    then have "ip_hit mm rq xs \<longleftrightarrow> (\<exists>r \<in> set xs. in_range rq r)"
      using assms(1) by (simp add: matcher_laws_def ip_hit_def)
    with False show ?thesis by (auto simp: assms(2) hit_by_def)
  qed
qed

lemma not_hit: "matcher_laws mm in_range \<Longrightarrow> not_ip_hit mm rq xs \<longleftrightarrow> \<not> ip_hit mm rq xs"
  by (simp add: matcher_laws_def not_ip_hit_def ip_hit_def)

lemma joined_hit:
  assumes "matcher_laws mm in_range"
  shows "xs @ ys \<noteq> [] \<and> ip_hit mm rq (xs @ ys) \<longleftrightarrow>
    (xs \<noteq> [] \<and> ip_hit mm rq xs) \<or> (ys \<noteq> [] \<and> ip_hit mm rq ys)"
proof -
  have "ip_hit mm rq zs \<longleftrightarrow> (\<exists>r \<in> set zs. in_range rq r)" if "zs \<noteq> []" for zs
    using assms that by (simp add: matcher_laws_def ip_hit_def)
  then show ?thesis by (cases xs; cases ys) auto
qed

section \<open>One group\<close>

lemma BuildACLRoutes_modes:
  "BuildACLRoutes srt b h p (Some g) u =
     (if \<not> group_configured g then []
      else if gr_CombinationMode g = ACLCombinationModeAll then buildAllModeRoutes srt b h p g u
      else buildAnyModeRoutes srt b h p g u)"
  by (auto simp: BuildACLRoutes_def group_configured_def hasSecureAuth_def buildIPBypassModeRoutes_def)

lemma group_routes_served:
  assumes laws: "matcher_laws mm in_range" and srt: "slice_sort ir_Priority srt"
    and host: "host_hit mm rq h"
  shows "served mm rq (BuildACLRoutes srt b h p (Some g) u @ ts) =
    (case group_verdict mm in_range rq p g of
       None \<Rightarrow> served mm rq ts
     | Some v \<Rightarrow> chain b (handlerToMap u) v)"
proof -
  obtain bp al dn where c: "categorizeIPRules srt (gr_IPRules g) = (bp, al, dn)"
    by (metis prod_cases3)
  note hb = listed_hit[OF laws categorizeIPRules_sets(1)[OF srt c]]
    and ha = listed_hit[OF laws categorizeIPRules_sets(2)[OF srt c]]
    and hd = listed_hit(1)[OF laws categorizeIPRules_sets(3)[OF srt c], of rq]
  have ad: "bp @ al \<noteq> [] \<and> ip_hit mm rq (bp @ al) \<longleftrightarrow> admitted_ip in_range rq g"
    using joined_hit[OF laws] hb(1) ha(1) by (simp only: admitted_ip_def)
  have ls: "bp @ al = [] \<longleftrightarrow> \<not> lists_ips g"
    using hb(2) ha(2) by (simp add: lists_ips_def)
  show ?thesis
  proof (cases "gr_CombinationMode g = ACLCombinationModeAll")
    case True
    have nl: "bp @ al \<noteq> [] \<and> not_ip_hit mm rq (bp @ al) \<longleftrightarrow> lists_ips g \<and> \<not> admitted_ip in_range rq g"
      using ad ls not_hit[OF laws] by blast
    have rl: "bp @ al = [] \<or> ip_hit mm rq (bp @ al) \<longleftrightarrow> \<not> (lists_ips g \<and> \<not> admitted_ip in_range rq g)"
      using ad ls by blast
    have "served mm rq (buildAllModeRoutes srt b h p g u @ ts) =
      (if path_hit mm rq p \<and> (dn \<noteq> [] \<and> ip_hit mm rq dn) then [static_response 403 ''Forbidden'']
       else if path_hit mm rq p \<and> (bp @ al \<noteq> [] \<and> not_ip_hit mm rq (bp @ al)) then [static_response 403 ''Forbidden'']
       else if asset_hit mm rq then [handlerToMap u]
       else if path_hit mm rq p \<and> (bp @ al = [] \<or> ip_hit mm rq (bp @ al)) then auth_handlers b g @ [handlerToMap u]
       else served mm rq ts)"
      using host by (simp add: buildAllModeRoutes_def c Let_def del: append_is_Nil_conv)
    with True hd show ?thesis
      unfolding nl rl by (simp add: BuildACLRoutes_modes group_verdict_def)
  next
    case False
    have an: "bp @ al = [] \<or> not_ip_hit mm rq (bp @ al) \<longleftrightarrow> \<not> admitted_ip in_range rq g"
      using ad not_hit[OF laws] by blast
    have "served mm rq (buildAnyModeRoutes srt b h p g u @ ts) =
      (if path_hit mm rq p \<and> (dn \<noteq> [] \<and> ip_hit mm rq dn) then [static_response 403 ''Forbidden'']
       else if path_hit mm rq p \<and> (bp \<noteq> [] \<and> ip_hit mm rq bp) then [handlerToMap u]
       else if path_hit mm rq p \<and> (al \<noteq> [] \<and> ip_hit mm rq al) then [handlerToMap u]
       else if asset_hit mm rq then [handlerToMap u]
       else if path_hit mm rq p \<and> (bp @ al = [] \<or> not_ip_hit mm rq (bp @ al)) then auth_handlers b g @ [handlerToMap u]
       else served mm rq ts)"
      using host by (simp add: buildAnyModeRoutes_def c del: append_is_Nil_conv) blast
    with False hd show ?thesis
      unfolding an hb(1) ha(1) by (simp add: BuildACLRoutes_modes group_verdict_def admitted_ip_def) blast
  qed
qed

section \<open>All assignments of a proxy\<close>

lemma acl_routes_served:
  assumes "matcher_laws mm in_range" "slice_sort ir_Priority (so_rules so)" "host_hit mm rq h"
  shows "served mm rq (concat (map (acl_routes so b h groups u) as) @ [host_route h (handlerToMap u)]) =
    chain b (handlerToMap u) (decide mm in_range rq groups as)"
proof (induction as)
  case Nil
  then show ?case using assms(3) by (simp add: host_hit_def)
next
  case (Cons a as)
  then show ?case
    using group_routes_served[OF assms, of b "pa_PathPattern a" _ u]
    by (cases "groups (pa_ACLGroupID a)") (auto simp: acl_routes_def split: option.split)
qed

lemma protected_routes_served:
  assumes "matcher_laws mm in_range" "slice_sort ir_Priority (so_rules so)"
    and "host_hit mm rq (px_Hostname proxy)"
    and "BuildReverseProxyRoutesWithACL so proxy as groups b = Ok rs"
  shows "\<exists>ups. proxy_upstreams proxy = Ok ups \<and>
    served mm rq rs =
      chain b (handlerToMap (buildReverseProxyHandler proxy ups))
        (decide mm in_range rq groups (so_assignments so as))"
  using assms(4) acl_routes_served[OF assms(1-3)]
  by (auto simp: BuildReverseProxyRoutesWithACL_def Let_def split: sum.splits)

text \<open>
  C3. Refinement: for every request to the proxy's host, the routes generated for a protected reverse
  proxy hand it to exactly the handlers the decision list over the stored groups prescribes: a 403
  response, the upstream alone, or the group's authentication in front of the upstream. Nothing
  depends on how \<open>sort.Slice\<close> orders rules of equal priority.
\<close>

theorem acl_config_refines_decision:
  assumes "matcher_laws mm in_range" "slice_sort ir_Priority (so_rules so)"
    and "host_hit mm rq (px_Hostname proxy)"
    and "BuildReverseProxyRoutesWithACL so proxy as groups b = Ok rs"
  shows "\<exists>ups. proxy_upstreams proxy = Ok ups \<and>
    served mm rq rs =
      chain b (handlerToMap (buildReverseProxyHandler proxy ups))
        (decide mm in_range rq groups (so_assignments so as))"
  by (rule protected_routes_served[OF assms])

section \<open>Which requests reach the upstream unauthenticated\<close>

lemma decide_Open_cases:
  assumes "decide mm in_range rq groups as = Open"
  shows "(\<forall>a \<in> set as. \<forall>g. groups (pa_ACLGroupID a) = Some g \<and> group_configured g \<longrightarrow>
            \<not> path_hit mm rq (pa_PathPattern a)) \<or>
    asset_hit mm rq \<or>
    (\<exists>a \<in> set as. \<exists>g. groups (pa_ACLGroupID a) = Some g \<and> path_hit mm rq (pa_PathPattern a) \<and>
       gr_CombinationMode g \<noteq> ACLCombinationModeAll \<and> admitted_ip in_range rq g)"
  using assms
proof (induction as)
  case (Cons a as)
  show ?case
  proof (cases "Option.bind (groups (pa_ACLGroupID a)) (group_verdict mm in_range rq (pa_PathPattern a))")
    case None
    then have skip: "\<not> path_hit mm rq (pa_PathPattern a)"
      if "groups (pa_ACLGroupID a) = Some g" "group_configured g" for g
      using that by (auto simp: group_verdict_def split: if_split_asm)
    from None Cons.prems have "decide mm in_range rq groups as = Open" by simp
    from Cons.IH[OF this] skip show ?thesis by (simp only: list.set Set.ball_simps Set.bex_simps) blast
  next
    case (Some v)
    with Cons.prems have "v = Open" by simp
    with Some obtain g where "groups (pa_ACLGroupID a) = Some g"
      "group_verdict mm in_range rq (pa_PathPattern a) g = Some Open"
      by (auto simp: bind_eq_Some_conv)
    then show ?thesis by (auto simp: group_verdict_def split: if_split_asm)
  qed
qed simp

lemma decide_Guarded_cases:
  assumes "decide mm in_range rq groups as = Guarded g"
  shows "\<exists>a \<in> set as. groups (pa_ACLGroupID a) = Some g \<and> path_hit mm rq (pa_PathPattern a)"
  using assms
proof (induction as)
  case (Cons a as)
  show ?case
  proof (cases "Option.bind (groups (pa_ACLGroupID a)) (group_verdict mm in_range rq (pa_PathPattern a))")
    case (Some v)
    with Cons.prems have "v = Guarded g" by simp
    with Some obtain g' where "groups (pa_ACLGroupID a) = Some g'"
      "group_verdict mm in_range rq (pa_PathPattern a) g' = Some (Guarded g)"
      by (auto simp: bind_eq_Some_conv)
    then show ?thesis by (auto simp: group_verdict_def split: if_split_asm)
  qed (use Cons in auto)
qed simp

lemma auth_handlers_nonempty: "gr_BasicAuthUsers g \<noteq> [] \<or> hasSecureAuth g \<longleftrightarrow> auth_handlers b g \<noteq> []"
  by (simp add: auth_handlers_def)

text \<open>
  C4. No silent gap: if a request reaches the upstream of a protected proxy with no authentication
  handler in front, then it matches no configured assignment's path, or it asks for a static asset, or
  an allow or bypass rule of a governing group admits its address, or a governing group has no
  authentication method at all.
\<close>

theorem unauthenticated_only_if:
  assumes "matcher_laws mm in_range" "slice_sort ir_Priority (so_rules so)"
    and "host_hit mm rq (px_Hostname proxy)"
    and "BuildReverseProxyRoutesWithACL so proxy as groups b = Ok rs"
    and "served mm rq rs = [u]" "u \<noteq> static_response 403 ''Forbidden''"
    and "set (so_assignments so as) = set as"
  shows "(\<forall>a \<in> set as. \<forall>g. groups (pa_ACLGroupID a) = Some g \<and> group_configured g \<longrightarrow>
            \<not> path_hit mm rq (pa_PathPattern a)) \<or>
    asset_hit mm rq \<or>
    (\<exists>a \<in> set as. \<exists>g. groups (pa_ACLGroupID a) = Some g \<and> path_hit mm rq (pa_PathPattern a) \<and>
       (gr_CombinationMode g \<noteq> ACLCombinationModeAll \<and> admitted_ip in_range rq g \<or>
        gr_BasicAuthUsers g = [] \<and> \<not> hasSecureAuth g))"
proof -
  obtain ups where s: "served mm rq rs = chain b (handlerToMap (buildReverseProxyHandler proxy ups))
      (decide mm in_range rq groups (so_assignments so as))"
    using protected_routes_served[OF assms(1-4)] by blast
  show ?thesis
  proof (cases "decide mm in_range rq groups (so_assignments so as)")
    case Open
    from decide_Open_cases[OF this] show ?thesis unfolding assms(7) by blast
  next
    case (Guarded g)
    with s assms(5) have "auth_handlers b g = []" by (cases "auth_handlers b g") auto
    then have "gr_BasicAuthUsers g = []" "\<not> hasSecureAuth g"
      using auth_handlers_nonempty[of g b] by blast+
    with decide_Guarded_cases[OF Guarded] show ?thesis unfolding assms(7) by blast
  qed (use s assms(5,6) in simp)
qed

end
