(* ===== verification/Caddy_Acl_Props.thy ===== *)
theory Caddy_Acl_Props
  imports Caddy_Decision Acl_Policy
begin

text \<open>
  The decision list of the generated routes applied: a concrete Caddy and a concrete protected proxy,
  and the places where the routes and \<open>VerifyAccess\<close> decide differently.
\<close>

section \<open>A concrete instance\<close>

text \<open>
  A request is host, path and client address; ranges are single addresses and paths are compared
  literally. This is enough to evaluate the routes and obeys the laws of the matchers.
\<close>

type_synonym demo_http = "string \<times> string \<times> string"

definition listed :: "json \<Rightarrow> string \<Rightarrow> bool" where
  "listed v s = (case v of JArr xs \<Rightarrow> List.member xs (JStr s) | _ \<Rightarrow> False)"

definition ranges_hit :: "json \<Rightarrow> string \<Rightarrow> bool" where
  "ranges_hit v ip =
     (case v of JObj fs \<Rightarrow> (case map_of fs ''ranges'' of Some r \<Rightarrow> listed r ip | None \<Rightarrow> False) | _ \<Rightarrow> False)"

definition demo_mm :: "string \<Rightarrow> json \<Rightarrow> demo_http \<Rightarrow> bool" where
  "demo_mm k v rq =
     (if k = ''host'' then listed v (fst rq)
      else if k = ''path'' then listed v (fst (snd rq))
      else if k = ''remote_ip'' then ranges_hit v (snd (snd rq))
      else if k = ''not'' then
        (case v of JArr [JObj [(k', r)]] \<Rightarrow> \<not> ranges_hit r (snd (snd rq)) | _ \<Rightarrow> False)
      else False)"

definition demo_range :: "demo_http \<Rightarrow> string \<Rightarrow> bool" where
  "demo_range rq r \<longleftrightarrow> r = snd (snd rq)"

lemma demo_laws: "matcher_laws demo_mm demo_range"
  by (auto simp: matcher_laws_def demo_mm_def demo_range_def ranges_hit_def MatchRemoteIP_def omit_strs_def
      json_strings_def listed_def NewRemoteIPMatcher_def)

definition demo_sorters :: sorters where
  "demo_sorters = \<lparr>so_assignments = sort_key pa_Priority, so_rules = sort_key ir_Priority\<rparr>"

lemma demo_sort: "slice_sort ir_Priority (so_rules demo_sorters)"
  by (simp add: slice_sort_def demo_sorters_def)

definition demo_backend :: Proxy where
  "demo_backend = demo_proxy\<lparr>px_Upstreams := Some (JArr [JObj [(''host'', JStr ''app''), (''port'', JNum 8080)]])\<rparr>"

definition demo_acl :: ACLBuilder where
  "demo_acl = \<lparr>ab_waygatesVerifyURL = ''http://waygates:8080'', ab_waygatesLoginURL = ''https://auth/login''\<rparr>"

definition demo_protected :: ACLGroup where
  "demo_protected = (demo_group 1 ''admins'' ''any'')\<lparr>
     gr_IPRules := [demo_rule 1 1 ''deny'' ''10.0.0.1'', demo_rule 2 1 ''allow'' ''10.0.0.2''],
     gr_WaygatesAuth := Some demo_waygates\<rparr>"

definition demo_office :: ACLGroup where
  "demo_office = (demo_group 2 ''office'' ''any'')\<lparr>gr_IPRules := [demo_rule 3 2 ''allow'' ''10.0.0.2/32'']\<rparr>"

definition demo_groups :: "int \<rightharpoonup> ACLGroup" where
  "demo_groups = [1 \<mapsto> demo_protected, 2 \<mapsto> demo_office]"

definition demo_get :: "string \<Rightarrow> string \<Rightarrow> demo_http" where
  "demo_get path ip = (''app.example.com'', path, ip)"

lemma demo_host: "host_hit demo_mm (demo_get path ip) (px_Hostname demo_backend)"
  by (simp add: host_hit_def demo_mm_def listed_def json_strings_def demo_get_def demo_backend_def demo_proxy_def)

definition demo_ups :: "Upstream list" where
  "demo_ups = [NewUpstream ''app:8080'']"

lemma Itoa_8080: "Itoa 8080 = ''8080''"
  by (simp add: Itoa_eval)

lemma demo_upstreams: "proxy_upstreams demo_backend = Ok demo_ups"
  by (simp add: proxy_upstreams_def parseUpstreams_def demo_backend_def demo_ups_def str_field_def num_field_def
      go_int_def Itoa_8080 Let_def)

lemma demo_built:
  "BuildReverseProxyRoutesWithACL demo_sorters demo_backend as demo_groups demo_acl =
     Ok (concat (map (acl_routes demo_sorters demo_acl (px_Hostname demo_backend) demo_groups
           (buildReverseProxyHandler demo_backend demo_ups)) (so_assignments demo_sorters as)) @
         [host_route (px_Hostname demo_backend) (handlerToMap (buildReverseProxyHandler demo_backend demo_ups))])"
  by (simp add: BuildReverseProxyRoutesWithACL_def demo_upstreams Let_def)

lemma demo_decide:
  "decide demo_mm demo_range (demo_get ''/x'' ''10.0.0.9'') demo_groups
     (so_assignments demo_sorters [demo_assignment 1 1 ''/*'']) = Guarded demo_protected"
  "decide demo_mm demo_range (demo_get ''/app.js'' ''10.0.0.2'') demo_groups
     (so_assignments demo_sorters [demo_assignment 1 1 ''/*'']) = Open"
  by (simp_all add: demo_sorters_def demo_assignment_def demo_groups_def group_verdict_def group_configured_def
      demo_protected_def demo_group_def demo_rule_def path_hit_def hit_by_def admitted_ip_def demo_range_def
      demo_get_def lists_ips_def has_rule_def asset_hit_def demo_mm_def listed_def json_strings_def
      StaticAssetPaths_def StaticAssetExtensions_def acl_const_defs)

theorem acl_config_refines_decision_witness:
  "\<exists>rs ups. BuildReverseProxyRoutesWithACL demo_sorters demo_backend [demo_assignment 1 1 ''/*'']
      demo_groups demo_acl = Ok rs \<and>
    served demo_mm (demo_get ''/x'' ''10.0.0.9'') rs =
      auth_handlers demo_acl demo_protected @ [handlerToMap (buildReverseProxyHandler demo_backend ups)]"
  using acl_config_refines_decision[OF demo_laws demo_sort demo_host demo_built,
      of "''/x''" "''10.0.0.9''" "[demo_assignment 1 1 ''/*'']"]
  by (auto simp: demo_built demo_decide)

theorem unauthenticated_only_if_witness:
  "\<exists>rs. BuildReverseProxyRoutesWithACL demo_sorters demo_backend [demo_assignment 1 1 ''/*'']
      demo_groups demo_acl = Ok rs \<and>
    served demo_mm (demo_get ''/app.js'' ''10.0.0.2'') rs =
      [handlerToMap (buildReverseProxyHandler demo_backend demo_ups)] \<and>
    admitted_ip demo_range (demo_get ''/app.js'' ''10.0.0.2'') demo_protected"
proof -
  let ?as = "[demo_assignment 1 1 ''/*'']" and ?rq = "demo_get ''/app.js'' ''10.0.0.2''"
    and ?u = "handlerToMap (buildReverseProxyHandler demo_backend demo_ups)"
  have s: "served demo_mm ?rq (concat (map (acl_routes demo_sorters demo_acl (px_Hostname demo_backend)
        demo_groups (buildReverseProxyHandler demo_backend demo_ups)) (so_assignments demo_sorters ?as)) @
      [host_route (px_Hostname demo_backend) ?u]) = [?u]"
    by (simp only: acl_routes_served[OF demo_laws demo_sort demo_host] demo_decide chain.simps)
  have u: "?u \<noteq> static_response 403 ''Forbidden''"
    by (simp add: handlerToMap_def static_response_def NewStaticResponseHandler_def)
  have a: "set (so_assignments demo_sorters ?as) = set ?as"
    by (simp add: demo_sorters_def)
  have n: "\<not> asset_hit demo_mm ?rq" "path_hit demo_mm ?rq ''/*''" "group_configured demo_protected"
    by (simp_all add: asset_hit_def demo_mm_def listed_def json_strings_def StaticAssetPaths_def
        StaticAssetExtensions_def demo_get_def path_hit_def group_configured_def demo_protected_def)
  have w: "gr_BasicAuthUsers demo_protected = [] \<and> hasSecureAuth demo_protected"
    by (simp add: demo_protected_def hasSecureAuth_def hasWaygatesAuth_def demo_waygates_def demo_group_def)
  from unauthenticated_only_if[OF demo_laws demo_sort demo_host demo_built s u a] n w
  have "admitted_ip demo_range ?rq demo_protected"
    by (auto simp: demo_assignment_def demo_groups_def)
  with s demo_built show ?thesis by blast
qed

section \<open>Where the routes and VerifyAccess differ\<close>

lemma decide_single:
  "groups (pa_ACLGroupID a) = Some g \<Longrightarrow> decide mm in_range rq groups [a] =
     (case group_verdict mm in_range rq (pa_PathPattern a) g of Some v \<Rightarrow> v | None \<Rightarrow> Open)"
  by (simp split: option.split)

text \<open>
  A group with nothing but an address list does not protect in mode \<open>any\<close>: the routes send every
  request that no deny rule hits straight to the upstream, also from addresses outside the list, for
  which \<open>VerifyAccess\<close> would refuse the group. No forward authentication asks it.
\<close>

theorem ip_only_group_open:
  assumes "matcher_laws mm in_range" "slice_sort ir_Priority (so_rules so)"
    and "host_hit mm rq (px_Hostname proxy)" "so_assignments so [a] = [a]"
    and "BuildReverseProxyRoutesWithACL so proxy [a] groups b = Ok rs"
    and "groups (pa_ACLGroupID a) = Some g" "gr_CombinationMode g = ACLCombinationModeAny"
    and "gr_BasicAuthUsers g = []" "gr_WaygatesAuth g = None" "gr_ExternalProviders g = []"
    and "\<not> hit_by in_range rq ACLIPRuleTypeDeny g"
  shows "(\<exists>ups. served mm rq rs = [handlerToMap (buildReverseProxyHandler proxy ups)]) \<and>
    (fst (evaluateIPRules (gr_IPRules g) (rq_RemoteIP vrq)) = ipRuleNoMatch \<longrightarrow>
     \<not> ga_Allowed (evaluateGroupAuth env st g vrq))"
proof
  have n: "\<not> hasSecureAuth g" "auth_handlers b g = []"
    using assms(8-10) by (simp_all add: hasSecureAuth_def hasWaygatesAuth_def hasOAuthProviders_def auth_handlers_def)
  have "decide mm in_range rq groups [a] \<in> {Open, Guarded g}"
    using assms(6,7,11)
    by (simp add: decide_single group_verdict_def acl_const_defs split: option.split)
  with protected_routes_served[OF assms(1-3,5)] n(2) assms(4)
  show "\<exists>ups. served mm rq rs = [handlerToMap (buildReverseProxyHandler proxy ups)]" by auto
  show "fst (evaluateIPRules (gr_IPRules g) (rq_RemoteIP vrq)) = ipRuleNoMatch \<longrightarrow>
      \<not> ga_Allowed (evaluateGroupAuth env st g vrq)"
    using assms(7-9)
    by (simp add: evaluateGroupAuth_def session_branch_def basic_branch_def empty_result_def Let_def
        split: option.split)
qed

theorem ip_only_group_open_witness:
  "(\<exists>rs ups. BuildReverseProxyRoutesWithACL demo_sorters demo_backend [demo_assignment 2 2 ''/*'']
      demo_groups demo_acl = Ok rs \<and>
    served demo_mm (demo_get ''/x'' ''10.0.0.9'') rs = [handlerToMap (buildReverseProxyHandler demo_backend ups)]) \<and>
   \<not> ga_Allowed (evaluateGroupAuth (demo_env 50) demo_store demo_office (demo_request ''10.0.0.9'' ''/x'' []))"
proof -
  have e: "fst (evaluateIPRules (gr_IPRules demo_office)
      (rq_RemoteIP (demo_request ''10.0.0.9'' ''/x'' []))) = ipRuleNoMatch"
    by code_simp
  have a: "so_assignments demo_sorters [demo_assignment 2 2 ''/*''] = [demo_assignment 2 2 ''/*'']"
    by (simp add: demo_sorters_def)
  have g: "demo_groups (pa_ACLGroupID (demo_assignment 2 2 ''/*'')) = Some demo_office"
    "gr_CombinationMode demo_office = ACLCombinationModeAny" "gr_BasicAuthUsers demo_office = []"
    "gr_WaygatesAuth demo_office = None" "gr_ExternalProviders demo_office = []"
    "\<not> hit_by demo_range (demo_get ''/x'' ''10.0.0.9'') ACLIPRuleTypeDeny demo_office"
    by (simp_all add: demo_groups_def demo_assignment_def demo_office_def demo_group_def hit_by_def demo_rule_def
        acl_const_defs)
  show ?thesis
    using ip_only_group_open[OF demo_laws demo_sort demo_host a demo_built g,
        where vrq = "demo_request ''10.0.0.9'' ''/x'' []"] e demo_built by blast
qed

text \<open>
  The routes do not give deny rules precedence across groups: the first governing group in
  priority order that admits the address sends the request to the upstream, even if a later group
  denies it and \<open>VerifyAccess\<close> would refuse it for that group's deny rule.
\<close>

theorem earlier_allow_hides_later_deny:
  assumes "matcher_laws mm in_range" "slice_sort ir_Priority (so_rules so)"
    and "host_hit mm rq (px_Hostname proxy)" "so_assignments so as = a # rest"
    and "BuildReverseProxyRoutesWithACL so proxy as groups b = Ok rs"
    and "groups (pa_ACLGroupID a) = Some g" "gr_CombinationMode g \<noteq> ACLCombinationModeAll"
    and "path_hit mm rq (pa_PathPattern a)" "admitted_ip in_range rq g"
    and "\<not> hit_by in_range rq ACLIPRuleTypeDeny g"
    and "parseRemoteIP (rq_RemoteIP vrq) = Some ip" "g2 \<in> set gs" "deny_rules_match (gr_IPRules g2) ip"
  shows "(\<exists>ups. served mm rq rs = [handlerToMap (buildReverseProxyHandler proxy ups)]) \<and>
    \<not> rs_Allowed (snd (evaluateUnionAccess env st gs vrq))"
proof
  have c: "group_configured g"
    using assms(9) by (auto simp: admitted_ip_def hit_by_def group_configured_def)
  have "decide mm in_range rq groups (a # rest) = Open"
    using assms(6-10) c by (simp add: group_verdict_def)
  with protected_routes_served[OF assms(1-3,5)] assms(4)
  show "\<exists>ups. served mm rq rs = [handlerToMap (buildReverseProxyHandler proxy ups)]" by auto
  have "deny_groups_loop gs ip \<noteq> None"
    using assms(12,13) by (induction gs) auto
  then show "\<not> rs_Allowed (snd (evaluateUnionAccess env st gs vrq))"
    using assms(11) by (simp add: evaluateUnionAccess_def checkIPDenyAcrossGroups_def denied_response_def)
qed

definition demo_denier :: ACLGroup where
  "demo_denier = (demo_group 3 ''blocked'' ''any'')\<lparr>gr_IPRules := [demo_rule 4 3 ''deny'' ''10.0.0.2/32'']\<rparr>"

theorem earlier_allow_hides_later_deny_witness:
  "(\<exists>rs ups. BuildReverseProxyRoutesWithACL demo_sorters demo_backend
      [demo_assignment 1 1 ''/*'', demo_assignment 3 3 ''/*''] demo_groups demo_acl = Ok rs \<and>
    served demo_mm (demo_get ''/x'' ''10.0.0.2'') rs = [handlerToMap (buildReverseProxyHandler demo_backend ups)]) \<and>
   \<not> rs_Allowed (snd (evaluateUnionAccess (demo_env 50) demo_store [demo_protected, demo_denier]
      (demo_request ''10.0.0.2'' ''/x'' [])))"
proof -
  let ?as = "[demo_assignment 1 1 ''/*'', demo_assignment 3 3 ''/*'']" and ?rq = "demo_get ''/x'' ''10.0.0.2''"
  have a: "so_assignments demo_sorters ?as = demo_assignment 1 1 ''/*'' # [demo_assignment 3 3 ''/*'']"
    by (simp add: demo_sorters_def demo_assignment_def)
  have g: "demo_groups (pa_ACLGroupID (demo_assignment 1 1 ''/*'')) = Some demo_protected"
    "gr_CombinationMode demo_protected \<noteq> ACLCombinationModeAll"
    "path_hit demo_mm ?rq (pa_PathPattern (demo_assignment 1 1 ''/*''))"
    "admitted_ip demo_range ?rq demo_protected"
    "\<not> hit_by demo_range ?rq ACLIPRuleTypeDeny demo_protected"
    by (simp_all add: demo_groups_def demo_assignment_def demo_protected_def demo_group_def hit_by_def demo_rule_def
        path_hit_def admitted_ip_def demo_range_def demo_get_def acl_const_defs)
  have p: "\<exists>ip. parseRemoteIP (rq_RemoteIP (demo_request ''10.0.0.2'' ''/x'' [])) = Some ip \<and>
      deny_rules_match (gr_IPRules demo_denier) ip"
  proof -
    have "(case parseRemoteIP (rq_RemoteIP (demo_request ''10.0.0.2'' ''/x'' [])) of
        None \<Rightarrow> False | Some ip \<Rightarrow> deny_rules_match (gr_IPRules demo_denier) ip)"
      by code_simp
    then show ?thesis by (auto split: option.splits)
  qed
  then obtain ip where ip: "parseRemoteIP (rq_RemoteIP (demo_request ''10.0.0.2'' ''/x'' [])) = Some ip"
    "deny_rules_match (gr_IPRules demo_denier) ip" by blast
  show ?thesis
    using earlier_allow_hides_later_deny[OF demo_laws demo_sort demo_host a demo_built g ip(1),
        where gs = "[demo_protected, demo_denier]" and env = "demo_env 50" and st = demo_store] ip(2) demo_built
    by auto
qed

end
