(* ===== verification/Caddy_Format.thy ===== *)
theory Caddy_Format
  imports Caddy_L4
begin

text \<open>
  Decimal formatting: the configuration package's own \<open>itoa\<close> against \<open>strconv.Itoa\<close>, and the names
  and listen addresses of layer 4 servers, which are built from it.
\<close>

section \<open>Decimal numbers\<close>

fun decimal_value :: "nat \<Rightarrow> string \<Rightarrow> nat" where
  "decimal_value acc [] = acc"
| "decimal_value acc (c # cs) = decimal_value (10 * acc + (of_char c - 48)) cs"

lemma decimal_value_append: "decimal_value acc (s @ [c]) = 10 * decimal_value acc s + (of_char c - 48)"
  by (induction acc s rule: decimal_value.induct) simp_all

lemma of_digit_char: "d < 10 \<Longrightarrow> (of_char (digit_char d) :: nat) = 48 + d"
  by (simp add: digit_char_def of_char_of)

lemma decimal_value_nat_to_string: "decimal_value 0 (nat_to_string n) = n"
proof (induction n rule: nat_to_string.induct)
  case (1 n)
  show ?case
  proof (cases "n < 10")
    case True
    then show ?thesis by (simp add: nat_to_string_step(2) of_digit_char)
  next
    case False
    then have "nat_to_string n = nat_to_string (n div 10) @ [digit_char (n mod 10)]"
      by (simp add: nat_to_string_step(1))
    with "1.IH"[OF False] show ?thesis by (simp only: decimal_value_append of_digit_char) simp
  qed
qed

lemma nat_to_string_inj: "nat_to_string m = nat_to_string n \<Longrightarrow> m = n"
  using decimal_value_nat_to_string by metis

lemma nat_to_string_digits: "c \<in> set (nat_to_string n) \<Longrightarrow> \<exists>d < 10. c = digit_char d"
proof (induction n rule: nat_to_string.induct)
  case (1 n)
  show ?case
  proof (cases "n < 10")
    case True
    with "1.prems" show ?thesis by (auto simp: nat_to_string_step)
  next
    case False
    with "1.prems" have "c \<in> set (nat_to_string (n div 10)) \<or> c = digit_char (n mod 10)"
      by (simp add: nat_to_string_step(1)) blast
    with "1.IH"[OF False] show ?thesis by (metis mod_less_divisor zero_less_numeral)
  qed
qed

lemma length_nat_to_string: "n < 10 ^ Suc k \<Longrightarrow> length (nat_to_string n) \<le> Suc k"
proof (induction k arbitrary: n)
  case 0
  then show ?case by (simp add: nat_to_string_step)
next
  case (Suc k)
  show ?case
  proof (cases "n < 10")
    case False
    from Suc.prems have "n div 10 < 10 ^ Suc k" by (simp add: less_mult_imp_div_less mult.commute)
    with Suc.IH False show ?thesis by (simp add: nat_to_string_step)
  qed (simp add: nat_to_string_step)
qed

section \<open>The buffer loop\<close>

lemma itoa_loop_correct: "i > 0 \<Longrightarrow> itoa_loop i buf = nat_to_string (nat i) @ buf"
proof (induction i buf rule: itoa_loop.induct)
  case (1 i buf)
  note step = nat_div_distrib nat_mod_distrib
  show ?case
  proof (cases "i < 10")
    case True
    with "1.prems" have "i div 10 = 0" "i mod 10 = i" by simp_all
    with True "1.prems" show ?thesis
      by (subst itoa_loop.simps) (simp add: itoa_loop.simps[of 0] nat_to_string_step)
  next
    case False
    then have "0 < i div 10" "10 \<le> nat i" by simp_all
    with "1.IH" "1.prems" show ?thesis
      by (subst itoa_loop.simps) (simp add: nat_to_string_step(1)[of "nat i"] step)
  qed
qed

text \<open>
  The configuration package's own integer formatting agrees with \<open>strconv.Itoa\<close> on every 64-bit
  integer but the smallest, and its result always fits the 20-byte buffer it is written into.
\<close>

theorem itoa_correct:
  assumes "- (2 ^ 63) < i" "i < 2 ^ 63"
  shows "itoa i = Itoa i \<and> length (itoa i) \<le> 20"
proof -
  have neg: "wrap64 (- i) = - i" if "i < 0"
    using that assms by (intro wrap64_id) auto
  have e: "itoa i = Itoa i"
    using itoa_loop_correct[of i "[]"] itoa_loop_correct[of "- i" "[]"] neg
    by (auto simp: itoa_def Itoa_def nat_to_string_step digit_char_def char_of_def bit_0)
  have "nat \<bar>i\<bar> < 10 ^ Suc 18" using assms by simp
  from length_nat_to_string[OF this] have "length (nat_to_string (nat \<bar>i\<bar>)) \<le> 19" by simp
  then have "length (Itoa i) \<le> 20" by (cases "i < 0") (simp_all add: Itoa_def)
  with e show ?thesis by simp
qed

theorem itoa_correct_witness: "itoa (-8080) = Itoa (-8080) \<and> length (itoa (-8080)) \<le> 20"
  by (rule itoa_correct) simp_all

section \<open>Names of layer 4 servers\<close>

lemma last_sep_inj:
  assumes "a @ c # b = a' @ c # b'" "c \<notin> set b" "c \<notin> set b'"
  shows "a = a' \<and> b = b'"
proof -
  have r: "rev b @ c # rev a = rev b' @ c # rev a'"
    using assms(1) by (metis append.assoc append_Cons append_Nil rev.simps(2) rev_append rev_rev_ident)
  have "takeWhile (\<lambda>x. x \<noteq> c) (rev y @ c # z) = rev y" if "c \<notin> set y" for y z
    using that by (subst takeWhile_append2) auto
  with r assms(2,3) have "rev b = rev b'" by metis
  with r show ?thesis by simp
qed

lemma Itoa_no_underscore: "CHR ''_'' \<notin> set (Itoa i)"
proof
  assume "CHR ''_'' \<in> set (Itoa i)"
  then have "\<exists>n. CHR ''_'' \<in> set (nat_to_string n)" by (auto simp: Itoa_def split: if_splits)
  then obtain d where "d < 10" "CHR ''_'' = digit_char d" using nat_to_string_digits by blast
  then have "(of_char CHR ''_'' :: nat) = 48 + d" using of_digit_char by metis
  with \<open>d < 10\<close> show False by simp
qed

lemma formatServerName_inj:
  assumes "formatServerName p = formatServerName q"
    and "IsValidL4Protocol (l4_Protocol p)" "IsValidL4Protocol (l4_Protocol q)"
    and "l4_ListenPort p > 0" "l4_ListenPort q > 0"
  shows "l4_Name p = l4_Name q \<and> l4_Protocol p = l4_Protocol q \<and> l4_ListenPort p = l4_ListenPort q"
proof -
  have u: "CHR ''_'' \<notin> set (l4_Protocol p)" "CHR ''_'' \<notin> set (l4_Protocol q)"
    using assms(2,3) by (auto simp: IsValidL4Protocol_def L4ProtocolTCP_def L4ProtocolUDP_def)
  have "(l4_Name p @ CHR ''_'' # l4_Protocol p) @ CHR ''_'' # Itoa (l4_ListenPort p) =
      (l4_Name q @ CHR ''_'' # l4_Protocol q) @ CHR ''_'' # Itoa (l4_ListenPort q)"
    using assms(1) by (simp add: formatServerName_def)
  from last_sep_inj[OF this Itoa_no_underscore Itoa_no_underscore]
  have n: "l4_Name p @ CHR ''_'' # l4_Protocol p = l4_Name q @ CHR ''_'' # l4_Protocol q"
    and i: "Itoa (l4_ListenPort p) = Itoa (l4_ListenPort q)" by auto
  from i assms(4,5) have "nat (l4_ListenPort p) = nat (l4_ListenPort q)"
    by (intro nat_to_string_inj) (simp add: Itoa_def)
  with assms(4,5) last_sep_inj[OF n u] show ?thesis by simp
qed

section \<open>Every active layer 4 proxy gets its server\<close>

definition l4_serves :: "L4Proxy \<Rightarrow> bool" where
  "l4_serves p \<longleftrightarrow> l4_IsActive p \<and> l4_Routes p \<noteq> []"

definition l4_key :: "L4Proxy \<Rightarrow> string \<times> int" where
  "l4_key p = (l4_Protocol p, l4_ListenPort p)"

lemma BuildL4Config_loop_map:
  assumes "distinct (map formatServerName ps)"
  shows "map_of (BuildL4Config_loop srt ps app) n =
    (case List.find (\<lambda>p. l4_serves p \<and> formatServerName p = n) ps of
       Some p \<Rightarrow> Some (buildServer srt p) | None \<Rightarrow> map_of app n)"
  using assms
proof (induction ps arbitrary: app)
  case (Cons p ps)
  have "List.find (\<lambda>q. l4_serves q \<and> formatServerName q = n) ps = None" if "formatServerName p = n"
    using Cons.prems that by (auto simp: find_None_set rev_image_eqI)
  with Cons show ?case
    by (auto simp: l4_serves_def update_conv' split: option.split)
qed simp

text \<open>
  Completeness of the layer 4 configuration: if the proxies are valid and no two share protocol and
  port, every active proxy with routes has its server in the configuration, under its own name,
  listening on its own address, and there are no other servers; names never collide.
\<close>

theorem BuildL4Config_complete:
  assumes "\<forall>p \<in> set ps. L4Proxy_Validate p = None" "distinct (map l4_key ps)"
  shows "map_of (BuildL4Config srt ps) n = Some s \<longleftrightarrow>
    (\<exists>p \<in> set ps. l4_serves p \<and> formatServerName p = n \<and> s = buildServer srt p)"
proof -
  have inj: "p = q" if "p \<in> set ps" "q \<in> set ps" "formatServerName p = formatServerName q" for p q
  proof -
    have "l4_key p = l4_key q"
      using formatServerName_inj[OF that(3)] assms(1) that
      by (simp add: l4_key_def L4Proxy_Validate_None int_one_le_iff_zero_less)
    with assms(2) that show ?thesis by (metis distinct_map inj_onD)
  qed
  have "distinct (map formatServerName ps)"
    using assms(2) inj by (auto simp: distinct_map inj_on_def)
  note m = BuildL4Config_loop_map[OF this, of srt "[]" n]
  show ?thesis
  proof (cases "List.find (\<lambda>p. l4_serves p \<and> formatServerName p = n) ps")
    case None
    with m have "map_of (BuildL4Config srt ps) n = None" by (simp add: BuildL4Config_def)
    with None show ?thesis by (auto simp: find_None_set)
  next
    case (Some p)
    from find_Some_set[OF this] have p: "p \<in> set ps" "l4_serves p" "formatServerName p = n" by auto
    with Some m inj show ?thesis by (auto simp: BuildL4Config_def)
  qed
qed

definition demo_l4_route :: L4Route where
  "demo_l4_route =
     \<lparr>l4r_ID = 1, l4r_L4ProxyID = 1, l4r_Priority = 0, l4r_MatcherType = ''tls'',
      l4r_SNIHostnames = [''db.example.com''], l4r_AllowedIPRanges = [], l4r_RegexPattern = None,
      l4r_Upstreams = [\<lparr>l4u_Host = ''db'', l4u_Port = 5432, l4u_Weight = None\<rparr>],
      l4r_LoadBalancingPolicy = ''round_robin'', l4r_TLSTerminate = True, l4r_TLSPassthrough = False,
      l4r_ProxyProtocolVersion = None\<rparr>"

definition demo_l4 :: "string \<Rightarrow> string \<Rightarrow> L4Proxy" where
  "demo_l4 name protocol =
     \<lparr>l4_ID = 1, l4_Name = name, l4_Description = None, l4_ListenPort = 5432, l4_Protocol = protocol,
      l4_IsActive = True, l4_CreatedBy = 1, l4_CreatedAt = 0, l4_Routes = [demo_l4_route]\<rparr>"

lemma demo_l4_valid: "protocol \<in> {''tcp'', ''udp''} \<Longrightarrow> L4Proxy_Validate (demo_l4 ''db'' protocol) = None"
  by (auto simp: L4Proxy_Validate_def demo_l4_def demo_l4_route_def L4ProtocolTCP_def L4ProtocolUDP_def
      L4Route_Validate_def L4Upstream_Validate_def validMatcherTypes_def validLBPolicies_def)

theorem BuildL4Config_complete_witness:
  "map_of (BuildL4Config (\<lambda>rs. rs) [demo_l4 ''db'' ''tcp'', demo_l4 ''db'' ''udp'']) ''db_udp_5432'' =
     Some (buildServer (\<lambda>rs. rs) (demo_l4 ''db'' ''udp''))"
proof -
  let ?ps = "[demo_l4 ''db'' ''tcp'', demo_l4 ''db'' ''udp'']"
  have v: "\<forall>p \<in> set ?ps. L4Proxy_Validate p = None" by (simp add: demo_l4_valid)
  have d: "distinct (map l4_key ?ps)" by (simp add: l4_key_def demo_l4_def)
  have n: "formatServerName (demo_l4 ''db'' ''udp'') = ''db_udp_5432''"
    by (simp add: formatServerName_def demo_l4_def Itoa_eval)
  have "l4_serves (demo_l4 ''db'' ''udp'')" by (simp add: l4_serves_def demo_l4_def)
  with n show ?thesis unfolding BuildL4Config_complete[OF v d] by auto
qed

end
