(* ===== verification/Caddy_Dial.thy ===== *)
theory Caddy_Dial
  imports Caddy_Acl
begin

text \<open>
  The dial address of a forward-auth endpoint, \<open>extractDialAddress\<close> of \<open>acl_builder.go\<close>, on URLs with
  ordinary host names.
\<close>

section \<open>Searching for a character\<close>

lemma takeWhile_until: "c \<notin> set a \<Longrightarrow> takeWhile (\<lambda>x. x \<noteq> c) (a @ c # b) = a"
  by (induction a) auto

lemma last_index_char_None: "c \<notin> set s \<Longrightarrow> last_index_char c s = None"
  by (simp add: last_index_char_def index_char_def)

lemma last_index_char_last: "c \<notin> set b \<Longrightarrow> last_index_char c (a @ c # b) = Some (length a)"
  using takeWhile_until[of c "rev b" "rev a"] by (simp add: last_index_char_def index_char_def)

lemma cut_at_absent: "c \<notin> set s \<Longrightarrow> cut_at c s = (s, [])"
  by (induction s) (auto simp: cut_at_def)

lemma cut_at_fst: "c \<notin> set a \<Longrightarrow> fst (cut_at c (a @ c # b)) = a"
  by (simp add: cut_at_def takeWhile_until)

section \<open>Ordinary characters\<close>

definition name_char :: "char \<Rightarrow> bool" where
  "name_char c \<longleftrightarrow> is_alnum c \<or> List.member ''-._'' c"

lemma digit_alnum: "is_digit c \<Longrightarrow> is_alnum c"
  by (simp add: is_alnum_def)

lemma alnum_plain: "is_alnum c \<Longrightarrow> c \<notin> set ''%#?@[]:/'' \<and> \<not> is_ctl c \<and> host_char_ok c"
  by (auto simp: is_alnum_def is_digit_def is_ctl_def host_char_ok_def)

lemma name_char_plain: "name_char c \<Longrightarrow> c \<notin> set ''%#?@[]:/'' \<and> \<not> is_ctl c \<and> host_char_ok c"
  using alnum_plain by (auto simp: name_char_def is_ctl_def host_char_ok_def)

lemma unescape_host_plain: "list_all (\<lambda>c. host_char_ok c \<and> c \<noteq> CHR ''%'') s \<Longrightarrow> unescape_host s = Some s"
  by (induction s) auto

lemma escapes_ok_plain: "CHR ''%'' \<notin> set s \<Longrightarrow> escapes_ok s"
  by (induction s) auto

section \<open>Parsing an ordinary URL\<close>

lemma authority_parsed:
  assumes "list_all (\<lambda>c. host_char_ok c \<and> c \<notin> set ''%@['') a"
    and "case last_index_char CHR '':'' a of None \<Rightarrow> True | Some i \<Rightarrow> validOptionalPort (drop i a)"
  shows "parseAuthority a = Some a"
proof -
  have n: "host_char_ok c \<and> c \<notin> set ''%@[''" if "c \<in> set a" for c
    using assms(1) that unfolding list_all_iff by blast
  have "CHR ''@'' \<notin> set a" using n[of "CHR ''@''"] by auto
  moreover have "\<not> HasPrefix a ''[''" using n[of "CHR ''[''"] by (auto simp: HasPrefix_iff)
  moreover have "unescape_host a = Some a"
    using assms(1) by (intro unescape_host_plain) (auto simp: list_all_iff)
  ultimately show ?thesis
    using assms(2) by (auto simp: parseAuthority_def parseHost_def last_index_char_None split: option.splits)
qed

lemma Parse_absolute_plain:
  assumes "scheme \<in> {''http'', ''https''}" "parseAuthority a = Some a"
    and "list_all (\<lambda>c. c \<notin> set ''#?/'' \<and> \<not> is_ctl c) a"
    and "list_all (\<lambda>c. c \<notin> set ''#?%'' \<and> \<not> is_ctl c) rest" "rest = [] \<or> hd rest = CHR ''/''"
  shows "Parse_absolute (scheme @ ''://'' @ a @ rest) = Some \<lparr>url_Scheme = scheme, url_Host = a\<rparr>"
proof -
  let ?u = "scheme @ ''://'' @ a @ rest"
  have na: "c \<notin> set ''#?/'' \<and> \<not> is_ctl c" if "c \<in> set a" for c
    using assms(3) that unfolding list_all_iff by blast
  have nr: "c \<notin> set ''#?%'' \<and> \<not> is_ctl c" if "c \<in> set rest" for c
    using assms(4) that unfolding list_all_iff by blast
  have ns: "CHR ''#'' \<notin> set scheme" "\<not> list_ex is_ctl (scheme @ ''://'')"
    using assms(1) by (auto simp: is_ctl_def)
  have f: "cut_at CHR ''#'' ?u = (?u, [])"
    using na[of "CHR ''#''"] nr[of "CHR ''#''"] ns by (intro cut_at_absent) auto
  have s: "(if HasPrefix ?u ''https://'' then ''https'' else ''http'') = scheme"
    using assms(1) by (auto simp: HasPrefix_def)
  have d: "drop (length scheme + 3) ?u = a @ rest" by simp
  have q: "fst (cut_at CHR ''?'' (a @ rest)) = a @ rest"
    using na[of "CHR ''?''"] nr[of "CHR ''?''"] by (subst cut_at_absent) auto
  have p: "fst (cut_at CHR ''/'' (a @ rest)) = a"
  proof (cases rest)
    case Nil
    then show ?thesis using na[of "CHR ''/''"] by (subst cut_at_absent) auto
  next
    case (Cons c cs)
    then show ?thesis using na[of "CHR ''/''"] assms(5) cut_at_fst[of "CHR ''/''" a cs] by auto
  qed
  have c: "\<not> list_ex is_ctl ?u"
    using ns(2) na nr by (auto simp: list_ex_iff)
  have e: "escapes_ok rest" "escapes_ok []"
    using nr[of "CHR ''%''"] by (auto intro!: escapes_ok_plain)
  show ?thesis
    unfolding Parse_absolute_def f Let_def prod.case s d q p
    using c assms(2) e by simp
qed

definition default_port :: "string \<Rightarrow> string" where
  "default_port scheme = (if scheme = ''https'' then ''443'' else ''80'')"

text \<open>
  The dial address of a forward-auth URL is its host and port: for an ordinary host name the
  address is the host with the explicit port, or with the scheme's default port when there is none,
  whatever path follows.
\<close>

theorem extractDialAddress_correct:
  assumes "scheme \<in> {''http'', ''https''}" "host \<noteq> []" "list_all name_char host"
    and "port = [] \<or> hd port = CHR '':'' \<and> tl port \<noteq> [] \<and> list_all is_digit (tl port)"
    and "list_all (\<lambda>c. name_char c \<or> c = CHR ''/'') rest" "rest = [] \<or> hd rest = CHR ''/''"
  shows "extractDialAddress (scheme @ ''://'' @ host @ port @ rest) =
    host @ '':'' @ (if port = [] then default_port scheme else tl port)"
proof -
  have h: "CHR '':'' \<notin> set host" using assms(3) name_char_plain by (fastforce simp: list_all_iff)
  have t: "CHR '':'' \<notin> set (tl port)"
    using assms(4) digit_alnum alnum_plain by (cases port) (fastforce simp: list_all_iff)+
  have pd: "list_all (\<lambda>c. host_char_ok c \<and> c \<notin> set ''%@[]#?/'' \<and> \<not> is_ctl c) port"
    using assms(4) digit_alnum alnum_plain
    by (cases port) (fastforce simp: list_all_iff host_char_ok_def is_ctl_def)+
  have hd': "list_all (\<lambda>c. host_char_ok c \<and> c \<notin> set ''%@[]#?/'' \<and> \<not> is_ctl c) host"
    using assms(3) name_char_plain by (fastforce simp: list_all_iff)
  have l: "last_index_char CHR '':'' (host @ port) = (if port = [] then None else Some (length host))"
    using assms(4) h t by (cases port) (auto simp: last_index_char_None last_index_char_last)
  have v: "validOptionalPort port"
    using assms(4) by (cases port) (auto simp: validOptionalPort_def)
  have pa: "parseAuthority (host @ port) = Some (host @ port)"
    using pd hd' v by (intro authority_parsed) (auto simp: list_all_iff l)
  have "Parse_absolute (scheme @ ''://'' @ (host @ port) @ rest) =
      Some \<lparr>url_Scheme = scheme, url_Host = host @ port\<rparr>"
    using assms(1,5,6) pa pd hd' name_char_plain
    by (intro Parse_absolute_plain) (fastforce simp: list_all_iff is_ctl_def)+
  then have pu: "Parse_absolute (scheme @ ''://'' @ host @ port @ rest) =
      Some \<lparr>url_Scheme = scheme, url_Host = host @ port\<rparr>" by simp
  have b: "\<not> HasPrefix host ''[''"
    using hd' assms(2) by (cases host) (auto simp: HasPrefix_def)
  have sp: "url_splitHostPort (host @ port) = (host, tl port)"
    using l v b by (cases port) (auto simp: url_splitHostPort_def)
  have cs: "containsScheme (scheme @ ''://'' @ host @ port @ rest)"
    using assms(1,2) by (cases host) (auto simp: containsScheme_def)
  have "extractDialAddress (scheme @ ''://'' @ host @ port @ rest) =
      host @ '':'' @ (if tl port = [] then default_port scheme else tl port)"
    unfolding extractDialAddress_def pu using cs
    by (simp only: URL_Hostname_def URL_Port_def sp default_port_def Let_def option.case URL.simps
        not_True_eq_False if_False fst_conv snd_conv)
  with assms(4) show ?thesis by (auto split: if_splits)
qed

theorem extractDialAddress_correct_witness:
  "extractDialAddress (''http'' @ ''://'' @ ''waygates'' @ '':8080'' @ ''/verify'') = ''waygates'' @ '':'' @ ''8080''"
  by (subst extractDialAddress_correct)
     (simp_all add: name_char_def is_alnum_def is_digit_def)

text \<open>
  An IPv6 endpoint loses its brackets: the dial address of \<open>http://[::1]:8080\<close> is \<open>::1:8080\<close>,
  which no longer separates address and port.
\<close>

lemma ipv6_dial_loses_brackets: "extractDialAddress ''http://[::1]:8080'' = ''::1:8080''"
  by code_simp

end
