(* ===== verification/Settings_Store.thy ===== *)
theory Settings_Store
  imports Caddy_Build Acl_Store "HOL-Library.AList"
begin

text \<open>
  The key-value settings: \<open>backend/internal/models/setting.go\<close> and
  \<open>backend/internal/repository/settings_repository.go\<close>. The table is an association list with the
  key as primary key (\<open>VARCHAR(255)\<close>). A fault predicate says which statements fail: \<open>Get k\<close>
  reads the key \<open>k\<close> and \<open>Set k\<close> writes it.
\<close>

type_synonym settings_table = "(string \<times> string) list"

definition SettingNotFoundMode :: string where "SettingNotFoundMode = ''not_found.mode''"
definition SettingNotFoundRedirectURL :: string where
  "SettingNotFoundRedirectURL = ''not_found.redirect_url''"
definition SettingMetricsPublishEnabled :: string where
  "SettingMetricsPublishEnabled = ''metrics.publish_enabled''"
definition SettingMetricsPublishHost :: string where
  "SettingMetricsPublishHost = ''metrics.publish_host''"
definition SettingMetricsPublishPath :: string where
  "SettingMetricsPublishPath = ''metrics.publish_path''"
definition SettingMetricsBasicAuthUser :: string where
  "SettingMetricsBasicAuthUser = ''metrics.basic_auth_user''"
definition SettingMetricsBasicAuthHash :: string where
  "SettingMetricsBasicAuthHash = ''metrics.basic_auth_hash''"
definition SettingMetricsAllowedCIDRs :: string where
  "SettingMetricsAllowedCIDRs = ''metrics.allowed_cidrs''"
definition SettingSSOOIDCClientSecret :: string where
  "SettingSSOOIDCClientSecret = ''sso.oidc_client_secret''"

lemmas setting_keys =
  SettingNotFoundMode_def SettingNotFoundRedirectURL_def SettingMetricsPublishEnabled_def
  SettingMetricsPublishHost_def SettingMetricsPublishPath_def SettingMetricsBasicAuthUser_def
  SettingMetricsBasicAuthHash_def SettingMetricsAllowedCIDRs_def SettingSSOOIDCClientSecret_def

definition sensitiveSettingKeys :: "string list" where
  "sensitiveSettingKeys = [SettingMetricsBasicAuthHash, SettingSSOOIDCClientSecret]"

definition IsSensitiveSettingKey :: "string \<Rightarrow> bool" where
  "IsSensitiveSettingKey key \<longleftrightarrow> List.member sensitiveSettingKeys key"

section \<open>The repository\<close>

definition Setting_Get :: "faults \<Rightarrow> string \<Rightarrow> settings_table \<Rightarrow> (db_error, string) result" where
  "Setting_Get flt key t =
     (if flt (''Get '' @ key) then Err DBFault
      else case map_of t key of None \<Rightarrow> Err RecordNotFound | Some v \<Rightarrow> Ok v)"

definition GetValue :: "faults \<Rightarrow> string \<Rightarrow> string \<Rightarrow> settings_table \<Rightarrow> string" where
  "GetValue flt key defaultValue t =
     (case Setting_Get flt key t of Inl _ \<Rightarrow> defaultValue | Inr v \<Rightarrow> v)"

definition Setting_Set ::
  "faults \<Rightarrow> string \<Rightarrow> string \<Rightarrow> settings_table \<Rightarrow> settings_table \<times> db_error option" where
  "Setting_Set flt key value t =
     (if flt (''Set '' @ key) \<or> length key > 255 then (t, Some DBFault)
      else (AList.update key value t, None))"

definition GetAll :: "faults \<Rightarrow> settings_table \<Rightarrow> (db_error, string \<rightharpoonup> string) result" where
  "GetAll flt t = (if flt ''GetAll'' then Err DBFault else Ok (map_of t))"

definition Setting_Delete ::
  "faults \<Rightarrow> string \<Rightarrow> settings_table \<Rightarrow> settings_table \<times> db_error option" where
  "Setting_Delete flt key t =
     (if flt (''Delete '' @ key) then (t, Some DBFault) else (AList.delete key t, None))"

text \<open>A sequence of writes stops at the first error and keeps what was written before it.\<close>

fun Set_all ::
  "faults \<Rightarrow> (string \<times> string) list \<Rightarrow> settings_table \<Rightarrow> settings_table \<times> db_error option" where
  "Set_all flt [] t = (t, None)"
| "Set_all flt (kv # kvs) t =
     (case Setting_Set flt (fst kv) (snd kv) t of
        (t1, Some e) \<Rightarrow> (t1, Some e)
      | (t1, None) \<Rightarrow> Set_all flt kvs t1)"

definition splitCIDRs :: "string \<Rightarrow> string list" where
  "splitCIDRs s = filter (\<lambda>p. p \<noteq> []) (map TrimSpace (Split CHR '','' s))"

definition joinCIDRs :: "string list \<Rightarrow> string" where
  "joinCIDRs cidrs = Join cidrs '',''"

definition GetNotFoundSettings :: "faults \<Rightarrow> settings_table \<Rightarrow> NotFoundSettings" where
  "GetNotFoundSettings flt t =
     \<lparr>nf_Mode = GetValue flt SettingNotFoundMode ''default'' t,
      nf_RedirectURL = GetValue flt SettingNotFoundRedirectURL [] t\<rparr>"

definition SetNotFoundSettings ::
  "faults \<Rightarrow> NotFoundSettings \<Rightarrow> settings_table \<Rightarrow> settings_table \<times> db_error option" where
  "SetNotFoundSettings flt s t =
     Set_all flt [(SettingNotFoundMode, nf_Mode s), (SettingNotFoundRedirectURL, nf_RedirectURL s)] t"

definition GetMetricsPublishSettings :: "faults \<Rightarrow> settings_table \<Rightarrow> MetricsPublishSettings" where
  "GetMetricsPublishSettings flt t =
     (let cidrsStr = GetValue flt SettingMetricsAllowedCIDRs [] t in
      \<lparr>mp_Enabled = (GetValue flt SettingMetricsPublishEnabled ''false'' t = ''true''),
       mp_Host = GetValue flt SettingMetricsPublishHost [] t,
       mp_Path = GetValue flt SettingMetricsPublishPath ''/metrics'' t,
       mp_BasicAuthUser = GetValue flt SettingMetricsBasicAuthUser [] t,
       mp_BasicAuthHash = GetValue flt SettingMetricsBasicAuthHash [] t,
       mp_AllowedCIDRs = (if cidrsStr \<noteq> [] then splitCIDRs cidrsStr else [])\<rparr>)"

definition SetMetricsPublishSettings ::
  "faults \<Rightarrow> MetricsPublishSettings \<Rightarrow> settings_table \<Rightarrow> settings_table \<times> db_error option" where
  "SetMetricsPublishSettings flt s t =
     Set_all flt
       [(SettingMetricsPublishEnabled, if mp_Enabled s then ''true'' else ''false''),
        (SettingMetricsPublishHost, mp_Host s), (SettingMetricsPublishPath, mp_Path s),
        (SettingMetricsBasicAuthUser, mp_BasicAuthUser s),
        (SettingMetricsBasicAuthHash, mp_BasicAuthHash s),
        (SettingMetricsAllowedCIDRs, joinCIDRs (mp_AllowedCIDRs s))] t"

section \<open>Lemmas\<close>

lemma Setting_Set_lookup:
  "Setting_Set flt key v t = (t', None) \<Longrightarrow> map_of t' = (map_of t)(key \<mapsto> v)"
  by (auto simp: Setting_Set_def update_conv' split: if_splits)

lemma Set_all_lookup: "Set_all flt kvs t = (t', None) \<Longrightarrow> map_of t' = map_of t ++ map_of (rev kvs)"
proof (induction kvs arbitrary: t)
  case (Cons kv kvs)
  then obtain t1 where "Setting_Set flt (fst kv) (snd kv) t = (t1, None)" "Set_all flt kvs t1 = (t', None)"
    by (auto split: prod.splits option.splits)
  with Cons.IH Setting_Set_lookup show ?case
    by (cases kv) (simp add: map_add_def fun_eq_iff split: option.splits)
qed simp

lemma Set_all_stable: "k \<notin> fst ` set kvs \<Longrightarrow> map_of (fst (Set_all flt kvs t)) k = map_of t k"
proof (induction kvs arbitrary: t)
  case (Cons kv kvs)
  then have ne: "k \<noteq> fst kv" "k \<notin> fst ` set kvs" by auto
  show ?case
    using Cons.IH[OF ne(2)] ne(1)
    by (cases "flt (''Set '' @ fst kv) \<or> length (fst kv) > 255") (simp_all add: Setting_Set_def update_conv')
qed simp

text \<open>Network lists survive the comma-separated column.\<close>

definition plain_cidr :: "string \<Rightarrow> bool" where
  "plain_cidr c \<longleftrightarrow> c \<noteq> [] \<and> CHR '','' \<notin> set c \<and> TrimSpace c = c"

lemma Split_Join:
  "cs \<noteq> [] \<Longrightarrow> list_all (\<lambda>c. sep \<notin> set c) cs \<Longrightarrow> Split sep (Join cs [sep]) = cs"
proof (induction cs)
  case (Cons x xs)
  then show ?case by (cases xs) (simp_all add: Split_literal Split_append)
qed simp

lemma splitCIDRs_joinCIDRs:
  assumes "list_all plain_cidr cs" "cs \<noteq> []"
  shows "splitCIDRs (joinCIDRs cs) = cs"
proof -
  have "list_all (\<lambda>c. CHR '','' \<notin> set c) cs" and t: "map TrimSpace cs = cs"
    and ne: "\<forall>c \<in> set cs. c \<noteq> []"
    using assms(1) by (auto simp: list_all_iff plain_cidr_def intro: map_idI)
  with assms(2) have "Split CHR '','' (Join cs '','') = cs" by (intro Split_Join)
  then show ?thesis using t ne by (simp add: splitCIDRs_def joinCIDRs_def filter_id_conv)
qed

lemma joinCIDRs_Nil: "list_all plain_cidr cs \<Longrightarrow> joinCIDRs cs = [] \<longleftrightarrow> cs = []"
  by (cases cs; cases "tl cs") (auto simp: joinCIDRs_def plain_cidr_def)

lemma splitCIDRs_plain: "c \<in> set (splitCIDRs s) \<Longrightarrow> c \<noteq> [] \<and> CHR '','' \<notin> set c"
proof -
  have "set (TrimSpace p) \<subseteq> set p" for p
    by (auto simp: TrimSpace_def dest!: set_dropWhileD)
  then show "c \<in> set (splitCIDRs s) \<Longrightarrow> ?thesis"
    by (fastforce simp: splitCIDRs_def dest: Split_sound)
qed

section \<open>Round trips\<close>

text \<open>
  Settings that were written without an error are read back unchanged: the metrics
  endpoint's settings through their six keys, provided its networks are non-empty, without
  commas and without surrounding blanks.
\<close>

theorem metrics_settings_roundtrip:
  assumes "SetMetricsPublishSettings wflt s t = (t', None)" and "list_all plain_cidr (mp_AllowedCIDRs s)"
    and "\<And>k. \<not> rflt (''Get '' @ k)"
  shows "GetMetricsPublishSettings rflt t' = s"
proof -
  have m: "map_of t' = map_of t ++ map_of (rev
       [(SettingMetricsPublishEnabled, if mp_Enabled s then ''true'' else ''false''),
        (SettingMetricsPublishHost, mp_Host s), (SettingMetricsPublishPath, mp_Path s),
        (SettingMetricsBasicAuthUser, mp_BasicAuthUser s),
        (SettingMetricsBasicAuthHash, mp_BasicAuthHash s),
        (SettingMetricsAllowedCIDRs, joinCIDRs (mp_AllowedCIDRs s))])"
    using assms(1) unfolding SetMetricsPublishSettings_def by (rule Set_all_lookup)
  have g: "GetValue rflt k d t' = (case map_of t' k of None \<Rightarrow> d | Some v \<Rightarrow> v)" for k d
    using assms(3) by (simp add: GetValue_def Setting_Get_def split: option.splits)
  show ?thesis
    using splitCIDRs_joinCIDRs[OF assms(2)] joinCIDRs_Nil[OF assms(2)]
    by (cases s) (auto simp: GetMetricsPublishSettings_def g m setting_keys Let_def)
qed

definition demo_metrics :: MetricsPublishSettings where
  "demo_metrics =
     \<lparr>mp_Enabled = True, mp_Host = ''m.example.com'', mp_Path = ''/metrics'', mp_BasicAuthUser = ''prom'',
      mp_BasicAuthHash = ''h'', mp_AllowedCIDRs = [''10.0.0.0/8'', ''192.168.1.7/32'']\<rparr>"

theorem metrics_settings_roundtrip_witness:
  "GetMetricsPublishSettings no_faults (fst (SetMetricsPublishSettings no_faults demo_metrics [])) = demo_metrics"
proof (rule metrics_settings_roundtrip[where wflt = no_faults and t = "[]"])
  show "SetMetricsPublishSettings no_faults demo_metrics [] =
     (fst (SetMetricsPublishSettings no_faults demo_metrics []), None)"
    by (simp add: SetMetricsPublishSettings_def Setting_Set_def no_faults_def setting_keys)
  show "list_all plain_cidr (mp_AllowedCIDRs demo_metrics)"
    by (simp add: demo_metrics_def plain_cidr_def TrimSpace_def is_space_def)
qed (simp add: no_faults_def)

end
