(* ===== verification/Repo_Query.thy ===== *)
theory Repo_Query
  imports Waygates_Prelude
begin

text \<open>
  The list queries of the repositories (\<open>backend/internal/repository\<close>): \<open>LIKE\<close> patterns, the sort
  clause behind its white lists, and pagination with \<open>OFFSET\<close> and \<open>LIMIT\<close>. GORM leaves out an
  offset that is not positive and a limit that is negative. How the database orders rows under
  \<open>ORDER BY\<close> is a parameter of the list operations: a function of column, direction and rows.
\<close>

section \<open>LIKE\<close>

fun like :: "string \<Rightarrow> string \<Rightarrow> bool" where
  "like [] t = (t = [])"
| "like (c # p) t =
     (if c = CHR ''%'' then like p t \<or> (case t of [] \<Rightarrow> False | _ # t' \<Rightarrow> like (c # p) t')
      else if c = CHR ''_'' then (case t of [] \<Rightarrow> False | _ # t' \<Rightarrow> like p t')
      else if c = CHR 0x5C then
        (case (p, t) of (e # p', d # t') \<Rightarrow> e = d \<and> like p' t' | _ \<Rightarrow> False)
      else (case t of [] \<Rightarrow> False | d # t' \<Rightarrow> c = d \<and> like p t'))"

declare like.simps [simp del]

definition ilike :: "string \<Rightarrow> string \<Rightarrow> bool" where
  "ilike p t = like (ToLower p) (ToLower t)"

definition search_pattern :: "string \<Rightarrow> string" where
  "search_pattern s = ''%'' @ s @ ''%''"

section \<open>Sorting and pagination\<close>

type_synonym 'r order_by = "string \<Rightarrow> string \<Rightarrow> 'r list \<Rightarrow> 'r list"

definition allowedSortOrders :: "(string \<times> string) list" where
  "allowedSortOrders = [(''asc'', ''ASC''), (''desc'', ''DESC'')]"

definition whitelisted :: "(string \<times> string) list \<Rightarrow> string \<Rightarrow> string \<Rightarrow> string" where
  "whitelisted allowed dflt s =
     (if s = [] then dflt else case map_of allowed (ToLower s) of Some f \<Rightarrow> f | None \<Rightarrow> dflt)"

definition page_offset :: "int \<Rightarrow> int \<Rightarrow> int" where
  "page_offset page limit = wrap64 (wrap64 (page - 1) * limit)"

definition window :: "int \<Rightarrow> int \<Rightarrow> 'r list \<Rightarrow> 'r list" where
  "window offset limit rows =
     (let rows = (if offset > 0 then drop (nat offset) rows else rows)
      in if limit \<ge> 0 then take (nat limit) rows else rows)"

text \<open>\<open>math.Ceil(float64(total) / float64(limit))\<close>, exact for the row counts of a table.\<close>

definition total_pages :: "int \<Rightarrow> int \<Rightarrow> int" where
  "total_pages tot limit = - ((- tot) div limit)"

section \<open>Paging through a result\<close>

text \<open>
  The loop of the exports: fetch the next page and append it until a page is empty or as many
  rows as the total have been seen. \<open>fuel\<close> bounds the number of iterations.
\<close>

fun page_loop ::
  "nat \<Rightarrow> (int \<Rightarrow> ('e, 'r list \<times> int) result) \<Rightarrow> ('r \<Rightarrow> 'x) \<Rightarrow> int \<Rightarrow> 'x list
    \<Rightarrow> ('e, 'x list) result option" where
  "page_loop 0 fetch conv page acc = None"
| "page_loop (Suc fuel) fetch conv page acc =
     (case fetch page of
        Inl e \<Rightarrow> Some (Err e)
      | Inr (rows, tot) \<Rightarrow>
          let acc = acc @ map conv rows in
          if rows = [] \<or> int (length acc) \<ge> tot then Some (Ok acc)
          else page_loop fuel fetch conv (wrap64 (page + 1)) acc)"

section \<open>Lemmas\<close>

lemma like_any: "like ''%'' t"
  by (induction t) (simp_all add: like.simps)

lemma like_percent: "like (CHR ''%'' # p) t \<longleftrightarrow> (\<exists>u v. t = u @ v \<and> like p v)"
proof (induction t)
  case Nil
  show ?case by (simp add: like.simps(2)[of _ p "[]"])
next
  case (Cons c t)
  have "like (CHR ''%'' # p) (c # t) \<longleftrightarrow> like p (c # t) \<or> (\<exists>u v. t = u @ v \<and> like p v)"
    by (simp add: like.simps(2)[of _ p "c # t"] Cons.IH)
  also have "\<dots> \<longleftrightarrow> (\<exists>u v. c # t = u @ v \<and> like p v)"
    by (metis append_Cons append_Nil append_eq_Cons_conv)
  finally show ?case .
qed

definition plain_text :: "string \<Rightarrow> bool" where
  "plain_text s \<longleftrightarrow> list_all (\<lambda>c. c \<noteq> CHR ''%'' \<and> c \<noteq> CHR ''_'' \<and> c \<noteq> CHR 0x5C) s"

lemma like_literal: "plain_text s \<Longrightarrow> like (s @ p) t \<longleftrightarrow> (\<exists>v. t = s @ v \<and> like p v)"
proof (induction s arbitrary: t)
  case (Cons c s)
  then have "plain_text s" and ne: "c \<noteq> CHR ''%''" "c \<noteq> CHR ''_''" "c \<noteq> CHR 0x5C"
    by (simp_all add: plain_text_def)
  with Cons.IH show ?case by (auto simp: like.simps(2) split: list.splits)
qed simp

text \<open>A search term without pattern characters finds exactly the rows that contain it.\<close>

lemma like_search_pattern:
  assumes "plain_text s"
  shows "like (search_pattern s) t \<longleftrightarrow> Contains t s"
proof -
  have "like (s @ ''%'') v \<longleftrightarrow> (\<exists>w. v = s @ w)" for v
    using like_literal[OF assms] by (simp add: like_any)
  then show ?thesis
    by (auto simp: search_pattern_def like_percent Contains_iff simp del: like.simps)
qed

lemma whitelisted_in:
  "whitelisted allowed dflt s \<in> insert dflt (snd ` set allowed)"
  by (auto simp: whitelisted_def split: option.splits dest!: map_of_SomeD intro: rev_image_eqI)

lemma page_offset_id:
  assumes "1 \<le> page" "0 \<le> limit" "(page - 1) * limit < 2 ^ 63" "page \<le> 2 ^ 62"
  shows "page_offset page limit = (page - 1) * limit"
proof -
  have "wrap64 (page - 1) = page - 1" using assms(1,4) by (intro wrap64_id) auto
  moreover have "0 \<le> (page - 1) * limit" using assms(1,2) by simp
  ultimately show ?thesis using assms(3) by (simp add: page_offset_def wrap64_id)
qed

lemma set_window: "set (window off limit xs) \<subseteq> set xs"
  by (auto simp: window_def Let_def dest: in_set_takeD in_set_dropD split: if_splits)

lemma length_window: "0 \<le> limit \<Longrightarrow> length (window off limit xs) \<le> nat limit"
  by (simp add: window_def Let_def)

lemma window_all: "int (length xs) \<le> limit \<Longrightarrow> off \<le> 0 \<Longrightarrow> window off limit xs = xs"
  by (simp add: window_def Let_def)

lemma total_pages_enough:
  assumes "0 < limit"
  shows "(total_pages tot limit - 1) * limit < tot \<and> tot \<le> total_pages tot limit * limit"
proof -
  define q r where "q = (- tot) div limit" and "r = (- tot) mod limit"
  have "- tot = q * limit + r" unfolding q_def r_def by (simp only: div_mult_mod_eq)
  moreover have "0 \<le> r" "r < limit" using assms by (simp_all add: r_def)
  ultimately show ?thesis unfolding total_pages_def q_def[symmetric] by (simp add: algebra_simps)
qed

text \<open>
  Paging through a fixed result with pages of \<open>limit\<close> rows returns all of it, in order: \<open>xs\<close> are
  the converted rows of the whole result.
\<close>

definition paged :: "(int \<Rightarrow> ('e, 'r list \<times> int) result) \<Rightarrow> ('r \<Rightarrow> 'x) \<Rightarrow> int \<Rightarrow> 'x list \<Rightarrow> bool" where
  "paged fetch conv limit xs \<longleftrightarrow>
     (\<forall>p. 1 \<le> p \<and> p \<le> 2 ^ 40 \<longrightarrow>
        (\<exists>rows. fetch p = Ok (rows, int (length xs)) \<and> map conv rows = window ((p - 1) * limit) limit xs))"

lemma page_loop_step:
  assumes "paged fetch conv limit xs" "0 < limit" "int (length xs) < 2 ^ 40"
  shows "page = int k + 1 \<Longrightarrow> int k * limit \<le> int (length xs) \<Longrightarrow> length xs < fuel + k \<Longrightarrow>
    acc = take (k * nat limit) xs \<Longrightarrow> page_loop fuel fetch conv page acc = Some (Ok xs)"
proof (induction fuel arbitrary: page k acc)
  case 0
  have "int k \<le> int k * limit" using assms(2) by (simp add: mult_le_cancel_left1)
  with 0 show ?case by linarith
next
  case (Suc fuel)
  have kl: "int k \<le> int k * limit" using assms(2) by (simp add: mult_le_cancel_left1)
  with Suc.prems(1,2) assms(3) have p: "1 \<le> page" "page \<le> 2 ^ 40" by linarith+
  define L where "L = nat limit"
  with assms(2) have L: "limit = int L" "0 < L" by simp_all
  let ?rows = "take L (drop (k * L) xs)"
  have w: "window ((page - 1) * limit) limit xs = ?rows"
  proof (cases "k = 0")
    case True
    with Suc.prems(1) show ?thesis by (simp add: window_def L)
  next
    case False
    have "nat ((page - 1) * limit) = k * L" using Suc.prems(1) by (simp add: L flip: of_nat_mult)
    with False L Suc.prems(1) show ?thesis by (simp add: window_def)
  qed
  obtain rows where f: "fetch page = Ok (rows, int (length xs))" "map conv rows = ?rows"
    using assms(1) p w unfolding paged_def by metis
  have acc: "acc @ ?rows = take (Suc k * L) xs"
    using Suc.prems(4) take_add[of "k * L" L xs] by (simp add: L add.commute[of L])
  have "rows = [] \<longleftrightarrow> ?rows = []" using f(2) by (metis map_is_Nil_conv)
  then have e: "page_loop (Suc fuel) fetch conv page acc =
      (if ?rows = [] \<or> length xs \<le> length (take (Suc k * L) xs)
       then Some (Ok (take (Suc k * L) xs))
       else page_loop fuel fetch conv (wrap64 (page + 1)) (take (Suc k * L) xs))"
    unfolding page_loop.simps f Let_def sum.case prod.case acc by simp
  show ?case
  proof (cases "?rows = [] \<or> length xs \<le> Suc k * L")
    case True
    then have "length xs \<le> Suc k * L" using L(2) by auto
    then show ?thesis unfolding e by simp
  next
    case False
    then have lt: "Suc k * L < length xs" by simp
    have step: "int (Suc k) * limit \<le> int (length xs)" using lt by (simp only: L flip: of_nat_mult)
    have "wrap64 (page + 1) = page + 1"
      using p assms(3) kl Suc.prems(1,2) by (intro wrap64_id) auto
    moreover have "page_loop fuel fetch conv (page + 1) (take (Suc k * L) xs) = Some (Ok xs)"
      using Suc.prems(1,3) step by (intro Suc.IH[of _ "Suc k"]) (auto simp: L)
    ultimately show ?thesis unfolding e using False lt by simp
  qed
qed

lemma page_loop_complete:
  assumes "paged fetch conv limit xs" "0 < limit" "int (length xs) < 2 ^ 40" "length xs < fuel"
  shows "page_loop fuel fetch conv 1 [] = Some (Ok xs)"
  using page_loop_step[OF assms(1-3), where k = 0 and page = 1 and fuel = fuel and acc = "[]"] assms(4)
  by simp

lemma map_window: "map f (window off limit xs) = window off limit (map f xs)"
  by (simp add: window_def Let_def drop_map take_map)

end
