(* ===== verification/L4_Store.thy ===== *)
theory L4_Store
  imports L4_Model Acl_Store Settings_Store Repo_Query
begin

text \<open>
  The whole database of the backend's core (\<open>app_db\<close>: the ACL tables, the Layer 4 tables and the
  settings) and \<open>backend/internal/repository/l4_proxy_repository.go\<close>. A Layer 4 proxy is a row of
  \<open>l4_proxies\<close> and its routes are rows of \<open>l4_routes\<close>, ordered by priority and key when they are
  loaded. The migration makes (port, protocol) unique, checks protocol and port range, and deletes
  routes with their proxy. \<open>IsActive\<close> and \<open>TLSPassthrough\<close> keep a \<open>default:true\<close> tag, which GORM
  substitutes for \<open>false\<close> whenever it inserts a row.
\<close>

record app_db =
  db_acl :: acl_store
  db_l4_proxies :: "L4Proxy table"
  db_l4_routes :: "L4Route table"
  db_settings :: settings_table

definition set_l4_ID :: "int \<Rightarrow> L4Proxy \<Rightarrow> L4Proxy" where "set_l4_ID i r = r\<lparr>l4_ID := i\<rparr>"
definition set_l4r_ID :: "int \<Rightarrow> L4Route \<Rightarrow> L4Route" where "set_l4r_ID i r = r\<lparr>l4r_ID := i\<rparr>"

interpretation l4_proxies_tb: row_table l4_ID set_l4_ID
  by unfold_locales (simp add: set_l4_ID_def)

interpretation l4_routes_tb: row_table l4r_ID set_l4r_ID
  by unfold_locales (simp add: set_l4r_ID_def)

section \<open>Reads\<close>

definition preload_l4 :: "app_db \<Rightarrow> L4Proxy \<Rightarrow> L4Proxy" where
  "preload_l4 db p =
     p\<lparr>l4_Routes := sort_key l4r_Priority (tb_Find (\<lambda>r. l4r_L4ProxyID r = l4_ID p) (db_l4_routes db))\<rparr>"

definition L4_GetByID_repo :: "faults \<Rightarrow> int \<Rightarrow> app_db \<Rightarrow> (db_error, L4Proxy) result" where
  "L4_GetByID_repo flt rid db =
     map_sum (\<lambda>e. e) (preload_l4 db) (read_first (flt ''L4 GetByID'') (\<lambda>p. l4_ID p = rid) (db_l4_proxies db))"

definition L4_GetByIDs_repo :: "faults \<Rightarrow> int list \<Rightarrow> app_db \<Rightarrow> (db_error, L4Proxy list) result" where
  "L4_GetByIDs_repo flt ids db =
     (if ids = [] then Ok []
      else if flt ''L4 GetByIDs'' then Err DBFault
      else Ok (map (preload_l4 db) (tb_Find (\<lambda>p. List.member ids (l4_ID p)) (db_l4_proxies db))))"

definition L4_GetByPort_repo :: "faults \<Rightarrow> int \<Rightarrow> string \<Rightarrow> app_db \<Rightarrow> (db_error, L4Proxy) result" where
  "L4_GetByPort_repo flt port protocol db =
     read_first (flt ''L4 GetByPort'')
       (\<lambda>p. l4_ListenPort p = port \<and> l4_Protocol p = ToLower protocol) (db_l4_proxies db)"

record L4ProxyListParams =
  ll_Page :: int
  ll_Limit :: int
  ll_Search :: string
  ll_Protocol :: string
  ll_IsActive :: "bool option"
  ll_Sort :: string
  ll_Order :: string

definition l4ProxyAllowedSortFields :: "(string \<times> string) list" where
  "l4ProxyAllowedSortFields =
     [(''id'', ''id''), (''name'', ''name''), (''listen_port'', ''listen_port''), (''protocol'', ''protocol''),
      (''is_active'', ''is_active''), (''created_at'', ''created_at''), (''updated_at'', ''updated_at'')]"

definition l4_matches :: "L4ProxyListParams \<Rightarrow> L4Proxy \<Rightarrow> bool" where
  "l4_matches ps p \<longleftrightarrow>
     (ll_Search ps \<noteq> [] \<longrightarrow>
        ilike (search_pattern (ll_Search ps)) (l4_Name p) \<or>
        (case l4_Description p of None \<Rightarrow> False | Some d \<Rightarrow> ilike (search_pattern (ll_Search ps)) d)) \<and>
     (ll_Protocol ps \<noteq> [] \<longrightarrow> l4_Protocol p = ToLower (ll_Protocol ps)) \<and>
     (case ll_IsActive ps of None \<Rightarrow> True | Some b \<Rightarrow> l4_IsActive p = b)"

definition L4_List_repo ::
  "faults \<Rightarrow> L4Proxy order_by \<Rightarrow> L4ProxyListParams \<Rightarrow> app_db \<Rightarrow> (db_error, L4Proxy list \<times> int) result" where
  "L4_List_repo flt ob ps db =
     (let matching = tb_Find (l4_matches ps) (db_l4_proxies db) in
      if flt ''L4 List count'' then Err DBFault
      else
        let sortField = whitelisted l4ProxyAllowedSortFields ''created_at'' (ll_Sort ps);
            sortOrder = whitelisted allowedSortOrders ''DESC'' (ll_Order ps)
        in if flt ''L4 List find'' then Err DBFault
           else Ok (map (preload_l4 db)
                  (window (page_offset (ll_Page ps) (ll_Limit ps)) (ll_Limit ps) (ob sortField sortOrder matching)),
                int (length matching)))"

section \<open>Writes\<close>

type_synonym db_write = "app_db \<times> db_error option"

text \<open>What GORM inserts: the row without its relations, zero values replaced by the defaults.\<close>

definition l4_defaults :: "L4Proxy \<Rightarrow> L4Proxy" where
  "l4_defaults p = p\<lparr>l4_Protocol := str_default ''tcp'' (l4_Protocol p), l4_IsActive := True\<rparr>"

definition l4r_defaults :: "L4Route \<Rightarrow> L4Route" where
  "l4r_defaults r =
     r\<lparr>l4r_MatcherType := str_default ''any'' (l4r_MatcherType r),
       l4r_LoadBalancingPolicy := str_default ''round_robin'' (l4r_LoadBalancingPolicy r),
       l4r_TLSPassthrough := True\<rparr>"

definition create_routes :: "int \<Rightarrow> L4Route list \<Rightarrow> L4Route table \<Rightarrow> L4Route table" where
  "create_routes pid rs t =
     fold (\<lambda>r. tb_Create set_l4r_ID (l4r_defaults (r\<lparr>l4r_L4ProxyID := pid\<rparr>))) rs t"

text \<open>The check constraints of the migration.\<close>

definition l4_checks :: "L4Proxy \<Rightarrow> bool" where
  "l4_checks p \<longleftrightarrow>
     List.member [''tcp'', ''udp''] (l4_Protocol p) \<and> 1 \<le> l4_ListenPort p \<and> l4_ListenPort p \<le> 65535 \<and>
     list_all (\<lambda>r. List.member validMatcherTypes (l4r_MatcherType r) \<and>
                   List.member validLBPolicies (l4r_LoadBalancingPolicy r)) (l4_Routes p)"

definition L4_Create_repo :: "faults \<Rightarrow> L4Proxy \<Rightarrow> app_db \<Rightarrow> db_write" where
  "L4_Create_repo flt p db =
     (let row = l4_defaults p; pid = tb_next (db_l4_proxies db) in
      if flt ''L4 Create'' \<or> \<not> l4_checks (row\<lparr>l4_Routes := map l4r_defaults (l4_Routes p)\<rparr>) then (db, Some DBFault)
      else if list_ex (\<lambda>x. l4_ListenPort x = l4_ListenPort row \<and> l4_Protocol x = l4_Protocol row)
                (tb_rows (db_l4_proxies db)) then (db, Some DuplicateKey)
      else if \<not> user_exists (db_acl db) (l4_CreatedBy p) then (db, Some ForeignKey)
      else (db\<lparr>db_l4_proxies := tb_Create set_l4_ID (row\<lparr>l4_Routes := []\<rparr>) (db_l4_proxies db),
               db_l4_routes := create_routes pid (l4_Routes p) (db_l4_routes db)\<rparr>, None))"

text \<open>
  \<open>Update\<close> is one transaction: the old routes go, the proxy row is saved as it is, and the routes
  of the argument are inserted as new rows.
\<close>

definition L4_Update_repo :: "faults \<Rightarrow> L4Proxy \<Rightarrow> app_db \<Rightarrow> db_write" where
  "L4_Update_repo flt p db =
     (if flt ''L4 Update'' \<or> \<not> l4_checks (p\<lparr>l4_Routes := map l4r_defaults (l4_Routes p)\<rparr>) then (db, Some DBFault)
      else if list_ex (\<lambda>x. l4_ListenPort x = l4_ListenPort p \<and> l4_Protocol x = l4_Protocol p \<and> l4_ID x \<noteq> l4_ID p)
                (tb_rows (db_l4_proxies db)) then (db, Some DuplicateKey)
      else (db\<lparr>db_l4_proxies := tb_Save l4_ID (p\<lparr>l4_Routes := []\<rparr>) (db_l4_proxies db),
               db_l4_routes := create_routes (l4_ID p) (l4_Routes p)
                 (tb_Delete (\<lambda>r. l4r_L4ProxyID r = l4_ID p) (db_l4_routes db))\<rparr>, None))"

definition L4_Delete_repo :: "faults \<Rightarrow> int \<Rightarrow> app_db \<Rightarrow> db_write" where
  "L4_Delete_repo flt rid db =
     (if flt ''L4 Delete'' then (db, Some DBFault)
      else (db\<lparr>db_l4_proxies := tb_Delete (\<lambda>p. l4_ID p = rid) (db_l4_proxies db),
               db_l4_routes := tb_Delete (\<lambda>r. l4r_L4ProxyID r = rid) (db_l4_routes db)\<rparr>, None))"

section \<open>The invariant of the two tables\<close>

definition l4_row_ok :: "L4Proxy \<Rightarrow> bool" where
  "l4_row_ok p \<longleftrightarrow>
     l4_Routes p = [] \<and> List.member [''tcp'', ''udp''] (l4_Protocol p) \<and>
     1 \<le> l4_ListenPort p \<and> l4_ListenPort p \<le> 65535"

definition l4_inv :: "app_db \<Rightarrow> bool" where
  "l4_inv db \<longleftrightarrow>
     tb_wf l4_ID (db_l4_proxies db) \<and> tb_wf l4r_ID (db_l4_routes db) \<and>
     distinct (map (\<lambda>p. (l4_ListenPort p, l4_Protocol p)) (tb_rows (db_l4_proxies db))) \<and>
     list_all l4_row_ok (tb_rows (db_l4_proxies db)) \<and>
     list_all (\<lambda>r. list_ex (\<lambda>p. l4_ID p = l4r_L4ProxyID r) (tb_rows (db_l4_proxies db)))
       (tb_rows (db_l4_routes db))"

lemma create_routes_simps [simp]:
  "create_routes pid [] t = t"
  "create_routes pid (r # rs) t =
     create_routes pid rs (tb_Create set_l4r_ID (l4r_defaults (r\<lparr>l4r_L4ProxyID := pid\<rparr>)) t)"
  by (simp_all add: create_routes_def)

lemma wf_create_routes: "tb_wf l4r_ID t \<Longrightarrow> tb_wf l4r_ID (create_routes pid rs t)"
  by (induction rs arbitrary: t) (simp_all add: l4_routes_tb.wf_Create)

lemma l4r_defaults_proxy [simp]:
  "l4r_L4ProxyID (set_l4r_ID i (l4r_defaults r)) = l4r_L4ProxyID r"
  by (simp add: l4r_defaults_def set_l4r_ID_def)

lemma set_create_routes:
  "r \<in> set (tb_rows (create_routes pid rs t)) \<Longrightarrow> r \<in> set (tb_rows t) \<or> l4r_L4ProxyID r = pid"
proof (induction rs arbitrary: t)
  case (Cons a rs)
  then consider "r \<in> set (tb_rows (tb_Create set_l4r_ID (l4r_defaults (a\<lparr>l4r_L4ProxyID := pid\<rparr>)) t))"
    | "l4r_L4ProxyID r = pid" by fastforce
  then show ?case by cases auto
qed simp

text \<open>The rows of the created routes, in the order of the argument.\<close>

lemma rows_create_routes:
  "tb_rows (create_routes pid rs t) =
     tb_rows t @ map (\<lambda>(i, r). set_l4r_ID (tb_next t + int i) (l4r_defaults (r\<lparr>l4r_L4ProxyID := pid\<rparr>)))
       (List.enumerate 0 rs)"
proof (induction rs arbitrary: t)
  case (Cons r rs)
  have "List.enumerate (Suc n) rs = map (\<lambda>(i, r). (Suc i, r)) (List.enumerate n rs)" for n
    by (induction rs arbitrary: n) simp_all
  then show ?case by (simp add: Cons.IH tb_Create_def case_prod_unfold comp_def algebra_simps)
qed simp

lemma list_ex_key: "list_ex (\<lambda>x. f x = v) xs \<longleftrightarrow> v \<in> set (map f xs)"
  by (auto simp: list_ex_iff)

lemma list_all_replace: "list_all P xs \<Longrightarrow> P y \<Longrightarrow> list_all P (map (\<lambda>x. if c x then y else x) xs)"
  by (induction xs) simp_all

lemma distinct_map_append:
  "distinct (map f xs) \<Longrightarrow> \<forall>x \<in> set xs. f x \<noteq> f y \<Longrightarrow> distinct (map f (xs @ [y]))"
  by (auto simp: image_iff)

lemma distinct_map_replace:
  "distinct (map k xs) \<Longrightarrow> distinct (map f xs) \<Longrightarrow> \<forall>x \<in> set xs. k x \<noteq> k y \<longrightarrow> f x \<noteq> f y \<Longrightarrow>
   distinct (map f (map (\<lambda>x. if k x = k y then y else x) xs))"
  by (induction xs) (auto simp: image_iff)

lemma l4_inv_Create:
  assumes "l4_inv db"
  shows "l4_inv (fst (L4_Create_repo flt p db))"
proof (cases "snd (L4_Create_repo flt p db)")
  case None
  let ?row = "set_l4_ID (tb_next (db_l4_proxies db)) (l4_defaults p\<lparr>l4_Routes := []\<rparr>)"
  from None have r: "fst (L4_Create_repo flt p db) =
      db\<lparr>db_l4_proxies := tb_Create set_l4_ID (l4_defaults p\<lparr>l4_Routes := []\<rparr>) (db_l4_proxies db),
         db_l4_routes := create_routes (tb_next (db_l4_proxies db)) (l4_Routes p) (db_l4_routes db)\<rparr>"
    and free: "\<forall>x \<in> set (tb_rows (db_l4_proxies db)).
      (l4_ListenPort x, l4_Protocol x) \<noteq> (l4_ListenPort ?row, l4_Protocol ?row)"
    and ok: "l4_row_ok ?row"
    by (auto simp: L4_Create_repo_def Let_def list_ex_iff l4_checks_def set_l4_ID_def l4_defaults_def l4_row_ok_def
        split: if_splits)
  have k: "l4_ID ?row = tb_next (db_l4_proxies db)" by (simp add: set_l4_ID_def)
  have rows: "tb_rows (tb_Create set_l4_ID (l4_defaults p\<lparr>l4_Routes := []\<rparr>) (db_l4_proxies db)) =
      tb_rows (db_l4_proxies db) @ [?row]" by (simp add: tb_Create_def)
  have "list_ex (\<lambda>q. l4_ID q = l4r_L4ProxyID x) (tb_rows (db_l4_proxies db) @ [?row])"
    if "x \<in> set (tb_rows (create_routes (tb_next (db_l4_proxies db)) (l4_Routes p) (db_l4_routes db)))" for x
    using set_create_routes[OF that] assms k by (auto simp: l4_inv_def list_all_iff)
  moreover have "distinct (map (\<lambda>q. (l4_ListenPort q, l4_Protocol q)) (tb_rows (db_l4_proxies db) @ [?row]))"
    using assms free by (intro distinct_map_append) (auto simp: l4_inv_def)
  ultimately show ?thesis
    using assms ok unfolding l4_inv_def r
    by (simp add: l4_proxies_tb.wf_Create wf_create_routes rows list_all_iff del: map_append)
next
  case (Some e)
  then have "fst (L4_Create_repo flt p db) = db" by (auto simp: L4_Create_repo_def Let_def split: if_splits)
  with assms show ?thesis by simp
qed

lemma l4_inv_Update:
  assumes "l4_inv db" "list_ex (\<lambda>x. l4_ID x = l4_ID p) (tb_rows (db_l4_proxies db))"
  shows "l4_inv (fst (L4_Update_repo flt p db))"
proof (cases "snd (L4_Update_repo flt p db)")
  case None
  let ?row = "p\<lparr>l4_Routes := []\<rparr>" and ?ps = "tb_rows (db_l4_proxies db)"
  let ?ps' = "map (\<lambda>x. if l4_ID x = l4_ID ?row then ?row else x) ?ps"
  from None have r: "fst (L4_Update_repo flt p db) =
      db\<lparr>db_l4_proxies := tb_Save l4_ID ?row (db_l4_proxies db),
         db_l4_routes := create_routes (l4_ID p) (l4_Routes p)
           (tb_Delete (\<lambda>r. l4r_L4ProxyID r = l4_ID p) (db_l4_routes db))\<rparr>"
    and free: "\<forall>x \<in> set ?ps. l4_ID x \<noteq> l4_ID ?row \<longrightarrow>
      (l4_ListenPort x, l4_Protocol x) \<noteq> (l4_ListenPort ?row, l4_Protocol ?row)"
    and ok: "l4_row_ok ?row"
    by (auto simp: L4_Update_repo_def list_ex_iff l4_checks_def l4_row_ok_def split: if_splits)
  have rows: "tb_rows (tb_Save l4_ID ?row (db_l4_proxies db)) = ?ps'"
    using assms(2) by (simp add: tb_Save_def)
  have ids: "map l4_ID ?ps' = map l4_ID ?ps" by simp
  have "distinct (map l4_ID ?ps)" using assms(1) by (simp add: l4_inv_def tb_wf_def strict_sorted_iff)
  then have d: "distinct (map (\<lambda>q. (l4_ListenPort q, l4_Protocol q)) ?ps')"
    using assms(1) free by (intro distinct_map_replace) (auto simp: l4_inv_def)
  have w: "tb_wf l4_ID (tb_Save l4_ID ?row (db_l4_proxies db))"
    using assms by (intro l4_proxies_tb.wf_Save) (auto simp: l4_inv_def list_ex_iff)
  have "list_ex (\<lambda>q. l4_ID q = l4r_L4ProxyID x) ?ps'"
    if "x \<in> set (tb_rows (create_routes (l4_ID p) (l4_Routes p)
          (tb_Delete (\<lambda>r. l4r_L4ProxyID r = l4_ID p) (db_l4_routes db))))" for x
  proof -
    have "x \<in> set (tb_rows (db_l4_routes db)) \<or> l4r_L4ProxyID x = l4_ID p"
      using set_create_routes[OF that] by auto
    then consider "x \<in> set (tb_rows (db_l4_routes db))" | "l4r_L4ProxyID x = l4_ID p" by blast
    then have "list_ex (\<lambda>q. l4_ID q = l4r_L4ProxyID x) ?ps"
    proof cases
      case 1
      with assms(1) show ?thesis by (simp add: l4_inv_def list_all_iff)
    next
      case 2
      with assms(2) show ?thesis by simp
    qed
    then show ?thesis by (simp only: list_ex_key ids)
  qed
  then have "list_all (\<lambda>r. list_ex (\<lambda>q. l4_ID q = l4r_L4ProxyID r) ?ps')
      (tb_rows (create_routes (l4_ID p) (l4_Routes p)
        (tb_Delete (\<lambda>r. l4r_L4ProxyID r = l4_ID p) (db_l4_routes db))))"
    by (simp only: list_all_iff) blast
  moreover have "list_all l4_row_ok ?ps'"
    using assms(1) ok by (intro list_all_replace) (simp_all add: l4_inv_def)
  ultimately show ?thesis
    using assms(1) d w unfolding l4_inv_def r
    by (simp add: wf_create_routes l4_routes_tb.wf_Delete rows del: list_all_iff)
next
  case (Some e)
  then have "fst (L4_Update_repo flt p db) = db" by (auto simp: L4_Update_repo_def split: if_splits)
  with assms show ?thesis by simp
qed

lemma l4_inv_Delete:
  assumes "l4_inv db"
  shows "l4_inv (fst (L4_Delete_repo flt rid db))"
proof -
  have r: "tb_rows (tb_Delete P t) = filter (\<lambda>x. \<not> P x) (tb_rows t)" for P and t :: "'r table"
    by (simp add: tb_Delete_def)
  have "\<exists>q \<in> {q \<in> set (tb_rows (db_l4_proxies db)). l4_ID q \<noteq> rid}. l4_ID q = l4r_L4ProxyID x"
    if "x \<in> set (tb_rows (db_l4_routes db))" "l4r_L4ProxyID x \<noteq> rid" for x
    using that assms unfolding l4_inv_def list_all_iff list_ex_iff by force
  with assms show ?thesis
    by (simp add: L4_Delete_repo_def l4_inv_def l4_proxies_tb.wf_Delete l4_routes_tb.wf_Delete
        list_all_iff list_ex_iff r distinct_map_filter)
qed

end
