(* ===== verification/Proxy_Query.thy ===== *)
theory Proxy_Query
  imports Proxy_Service Repo_Query Demo_Store "HOL-Library.Multiset"
begin

text \<open>
  Listing and exporting: \<open>List\<close>, \<open>applyACLSummaries\<close> and \<open>GetStats\<close> of
  \<open>backend/internal/repository/proxy_repository.go\<close>, \<open>ListGroups\<close> of \<open>acl_repository.go\<close>, the
  services' \<open>ListProxies\<close> and \<open>ListGroups\<close>, and \<open>proxy_export.go\<close>. Two parameters stand for the
  database: how it orders rows, and \<open>cols\<close>, the texts of the two JSON columns the target filter
  searches (none for \<open>NULL\<close>).
\<close>

section \<open>Proxies\<close>

record ProxyListParams =
  pl_Page :: int
  pl_Limit :: int
  pl_Search :: string
  pl_Types :: "string list"
  pl_TypesExclude :: "string list"
  pl_Status :: string
  pl_StatusNot :: string
  pl_SSLEnabled :: "bool option"
  pl_Target :: string
  pl_Sort :: string
  pl_Order :: string

definition allowedSortFields :: "(string \<times> string) list" where
  "allowedSortFields =
     [(''id'', ''id''), (''name'', ''name''), (''hostname'', ''hostname''), (''type'', ''type''),
      (''is_active'', ''is_active''), (''created_at'', ''created_at''), (''updated_at'', ''updated_at'')]"

definition status_filter :: "string \<Rightarrow> bool \<Rightarrow> bool" where
  "status_filter status active \<longleftrightarrow>
     (if status = ''active'' then active else if status = ''inactive'' then \<not> active else True)"

definition proxy_matches :: "(Proxy \<Rightarrow> string list) \<Rightarrow> ProxyListParams \<Rightarrow> Proxy \<Rightarrow> bool" where
  "proxy_matches cols ps p \<longleftrightarrow>
     (pl_Search ps \<noteq> [] \<longrightarrow>
        like (search_pattern (pl_Search ps)) (px_Hostname p) \<or> like (search_pattern (pl_Search ps)) (px_Name p)) \<and>
     (pl_Types ps \<noteq> [] \<longrightarrow> List.member (pl_Types ps) (px_Type p)) \<and>
     (pl_TypesExclude ps \<noteq> [] \<longrightarrow> \<not> List.member (pl_TypesExclude ps) (px_Type p)) \<and>
     status_filter (pl_Status ps) (px_IsActive p) \<and>
     status_filter (pl_StatusNot ps) (\<not> px_IsActive p) \<and>
     (case pl_SSLEnabled ps of None \<Rightarrow> True | Some b \<Rightarrow> px_SSLEnabled p = b) \<and>
     (pl_Target ps \<noteq> [] \<longrightarrow> list_ex (like (search_pattern (pl_Target ps))) (cols p))"

text \<open>The summary query joins the assignments of the listed proxies with their groups.\<close>

type_synonym aclSummaryRow = "int \<times> string"

definition summary_rows :: "int list \<Rightarrow> acl_store \<Rightarrow> aclSummaryRow list" where
  "summary_rows ids st =
     List.map_filter
       (\<lambda>a. map_option (\<lambda>g. (pa_ProxyID a, gr_Name g)) (tb_First (\<lambda>g. gr_ID g = pa_ACLGroupID a) (st_groups st)))
       (sort_key pa_Priority (tb_Find (\<lambda>a. List.member ids (pa_ProxyID a)) (st_assignments st)))"

text \<open>A listed proxy with \<open>ACLGroupNames\<close>; \<open>ACLGroupCount\<close> is the length of that list.\<close>

type_synonym listed_proxy = "Proxy \<times> string list"

definition applyACLSummaries :: "Proxy list \<Rightarrow> aclSummaryRow list \<Rightarrow> listed_proxy list" where
  "applyACLSummaries proxies rows =
     map (\<lambda>p. (p, map snd (filter (\<lambda>r. fst r = px_ID p) rows))) proxies"

definition Proxy_List ::
  "faults \<Rightarrow> Proxy order_by \<Rightarrow> (Proxy \<Rightarrow> string list) \<Rightarrow> ProxyListParams \<Rightarrow> acl_store
    \<Rightarrow> (db_error, listed_proxy list \<times> int) result" where
  "Proxy_List flt ob cols ps st =
     (let matching = tb_Find (proxy_matches cols ps) (st_proxies st) in
      if flt ''List count'' then Err DBFault
      else
        let sortField = whitelisted allowedSortFields ''created_at'' (pl_Sort ps);
            sortOrder = whitelisted allowedSortOrders ''DESC'' (pl_Order ps);
            proxies = window (page_offset (pl_Page ps) (pl_Limit ps)) (pl_Limit ps) (ob sortField sortOrder matching)
        in if flt ''List find'' then Err DBFault
           else if proxies \<noteq> [] \<and> flt ''List summaries'' then Err DBFault
           else Ok (applyACLSummaries proxies (summary_rows (map px_ID proxies) st), int (length matching)))"

record ProxyStats =
  pt_Total :: nat
  pt_Active :: nat
  pt_Inactive :: nat
  pt_ByType :: "string \<Rightarrow> nat"

text \<open>The counts by type, absent types counting zero.\<close>

definition Proxy_GetStats :: "faults \<Rightarrow> acl_store \<Rightarrow> (db_error, ProxyStats) result" where
  "Proxy_GetStats flt st =
     (if flt ''GetStats'' then Err DBFault
      else
        let rows = tb_rows (st_proxies st); active = length (filter px_IsActive rows) in
        Ok \<lparr>pt_Total = length rows, pt_Active = active, pt_Inactive = length rows - active,
            pt_ByType = (\<lambda>ty. length (filter (\<lambda>p. px_Type p = ty) rows))\<rparr>)"

section \<open>Listing in the services\<close>

record 'r list_response =
  ls_Items :: "'r list"
  ls_Total :: int
  ls_Page :: int
  ls_Limit :: int
  ls_TotalPages :: int

definition list_page :: "int \<Rightarrow> int" where
  "list_page page = (if page < 1 then 1 else page)"

definition list_limit :: "int \<Rightarrow> int" where
  "list_limit limit = (if limit < 1 \<or> limit > 100 then 20 else limit)"

definition ListProxies ::
  "faults \<Rightarrow> Proxy order_by \<Rightarrow> (Proxy \<Rightarrow> string list) \<Rightarrow> ProxyListParams \<Rightarrow> acl_store
    \<Rightarrow> (db_error, listed_proxy list_response) result" where
  "ListProxies flt ob cols req st =
     (let page = list_page (pl_Page req); limit = list_limit (pl_Limit req) in
      case Proxy_List flt ob cols (req\<lparr>pl_Page := page, pl_Limit := limit\<rparr>) st of
        Inl e \<Rightarrow> Err e
      | Inr (items, tot) \<Rightarrow>
          Ok \<lparr>ls_Items = items, ls_Total = tot, ls_Page = page, ls_Limit = limit,
              ls_TotalPages = total_pages tot limit\<rparr>)"

record ACLGroupListParams =
  gl_Page :: int
  gl_Limit :: int
  gl_Search :: string
  gl_Sort :: string
  gl_Order :: string

definition aclGroupAllowedSortFields :: "(string \<times> string) list" where
  "aclGroupAllowedSortFields =
     [(''id'', ''id''), (''name'', ''name''), (''created_at'', ''created_at''), (''updated_at'', ''updated_at'')]"

definition group_matches :: "ACLGroupListParams \<Rightarrow> ACLGroup \<Rightarrow> bool" where
  "group_matches ps g \<longleftrightarrow>
     (gl_Search ps \<noteq> [] \<longrightarrow>
        like (search_pattern (gl_Search ps)) (gr_Name g) \<or>
        (case gr_Description g of None \<Rightarrow> False | Some d \<Rightarrow> like (search_pattern (gl_Search ps)) d))"

definition ListGroups_repo ::
  "faults \<Rightarrow> ACLGroup order_by \<Rightarrow> ACLGroupListParams \<Rightarrow> acl_store
    \<Rightarrow> (db_error, ACLGroup list \<times> int) result" where
  "ListGroups_repo flt ob ps st =
     (let matching = tb_Find (group_matches ps) (st_groups st) in
      if flt ''ListGroups count'' then Err DBFault
      else
        let sortField = whitelisted aclGroupAllowedSortFields ''created_at'' (gl_Sort ps);
            sortOrder = whitelisted allowedSortOrders ''DESC'' (gl_Order ps)
        in if flt ''ListGroups find'' then Err DBFault
           else Ok (map (preload_group st)
                  (window (page_offset (gl_Page ps) (gl_Limit ps)) (gl_Limit ps) (ob sortField sortOrder matching)),
                int (length matching)))"

definition ListGroups ::
  "faults \<Rightarrow> ACLGroup order_by \<Rightarrow> ACLGroupListParams \<Rightarrow> acl_store
    \<Rightarrow> (db_error, ACLGroup list_response) result" where
  "ListGroups flt ob req st =
     (let page = list_page (gl_Page req); limit = list_limit (gl_Limit req) in
      case ListGroups_repo flt ob (req\<lparr>gl_Page := page, gl_Limit := limit\<rparr>) st of
        Inl e \<Rightarrow> Err e
      | Inr (items, tot) \<Rightarrow>
          Ok \<lparr>ls_Items = items, ls_Total = tot, ls_Page = page, ls_Limit = limit,
              ls_TotalPages = total_pages tot limit\<rparr>)"

section \<open>Export\<close>

record ProxyExport =
  pe_Type :: string
  pe_Name :: string
  pe_Hostname :: string
  pe_Description :: "string option"
  pe_SSLEnabled :: bool
  pe_IsActive :: bool
  pe_Upstreams :: "json option"
  pe_LoadBalancing :: "(string \<times> json) list"
  pe_BlockExploits :: bool
  pe_TLSInsecureSkipVerify :: bool
  pe_CustomHeaders :: "CustomHeaders option"
  pe_RedirectConfig :: "(string \<times> json) list"
  pe_StaticConfig :: "(string \<times> json) list"

definition newProxyExport :: "Proxy \<Rightarrow> ProxyExport" where
  "newProxyExport p =
     \<lparr>pe_Type = px_Type p, pe_Name = px_Name p, pe_Hostname = px_Hostname p,
      pe_Description = px_Description p, pe_SSLEnabled = px_SSLEnabled p, pe_IsActive = px_IsActive p,
      pe_Upstreams = px_Upstreams p, pe_LoadBalancing = px_LoadBalancing p,
      pe_BlockExploits = px_BlockExploits p, pe_TLSInsecureSkipVerify = px_TLSInsecureSkipVerify p,
      pe_CustomHeaders = (if CustomHeaders_IsEmpty (px_CustomHeaders p) then None else Some (px_CustomHeaders p)),
      pe_RedirectConfig = px_RedirectConfig p, pe_StaticConfig = px_StaticConfig p\<rparr>"

definition exportListLimit :: int where "exportListLimit = 100"

definition ExportProxies ::
  "nat \<Rightarrow> faults \<Rightarrow> Proxy order_by \<Rightarrow> (Proxy \<Rightarrow> string list) \<Rightarrow> int list \<Rightarrow> ProxyListParams \<Rightarrow> acl_store
    \<Rightarrow> (db_error, ProxyExport list) result option" where
  "ExportProxies fuel flt ob cols ids filters st =
     (if ids \<noteq> [] then
        Some (case GetByIDs (flt ''GetByIDs'') ids st of
                Inl e \<Rightarrow> Err e
              | Inr proxies \<Rightarrow> Ok (map newProxyExport proxies))
      else page_loop fuel
             (\<lambda>page. Proxy_List flt ob cols (filters\<lparr>pl_Page := page, pl_Limit := exportListLimit\<rparr>) st)
             (newProxyExport \<circ> fst) 1 [])"

section \<open>Properties\<close>

text \<open>\<open>ORDER BY\<close> permutes the rows it is given.\<close>

definition orders :: "'r order_by \<Rightarrow> bool" where
  "orders ob \<longleftrightarrow> (\<forall>field dir xs. mset (ob field dir xs) = mset xs)"

lemma orders_length: "orders ob \<Longrightarrow> length (ob f d xs) = length xs"
  by (metis orders_def size_mset)

lemma orders_set: "orders ob \<Longrightarrow> set (ob f d xs) = set xs"
  by (metis orders_def set_mset_mset)

lemma map_fst_applyACLSummaries [simp]: "map fst (applyACLSummaries ps rows) = ps"
  by (simp add: applyACLSummaries_def comp_def)

definition ordered_matches ::
  "Proxy order_by \<Rightarrow> (Proxy \<Rightarrow> string list) \<Rightarrow> ProxyListParams \<Rightarrow> acl_store \<Rightarrow> Proxy list" where
  "ordered_matches ob cols ps st =
     ob (whitelisted allowedSortFields ''created_at'' (pl_Sort ps))
        (whitelisted allowedSortOrders ''DESC'' (pl_Order ps))
        (tb_Find (proxy_matches cols ps) (st_proxies st))"

lemma proxy_matches_page [simp]:
  "proxy_matches cols (ps\<lparr>pl_Page := i, pl_Limit := j\<rparr>) = proxy_matches cols ps"
  by (rule ext) (simp add: proxy_matches_def)

lemma Proxy_List_Ok:
  assumes "Proxy_List flt ob cols ps st = Ok (items, tot)" "orders ob"
  shows "map fst items = window (page_offset (pl_Page ps) (pl_Limit ps)) (pl_Limit ps) (ordered_matches ob cols ps st)
    \<and> tot = int (length (ordered_matches ob cols ps st))"
  using assms(1) orders_length[OF assms(2)]
  by (auto simp: Proxy_List_def Let_def ordered_matches_def split: if_splits)

lemma Proxy_List_total:
  "\<forall>c. \<not> flt c \<Longrightarrow> \<exists>items tot. Proxy_List flt ob cols ps st = Ok (items, tot)"
  by (simp add: Proxy_List_def Let_def)

lemma paged_Proxy_List:
  assumes "\<forall>c. \<not> flt c" "orders ob"
  shows "paged (\<lambda>page. Proxy_List flt ob cols (filters\<lparr>pl_Page := page, pl_Limit := exportListLimit\<rparr>) st)
           (newProxyExport \<circ> fst) exportListLimit (map newProxyExport (ordered_matches ob cols filters st))"
  unfolding paged_def
proof (intro allI impI)
  fix p :: int
  let ?ps = "filters\<lparr>pl_Page := p, pl_Limit := exportListLimit\<rparr>"
  assume p: "1 \<le> p \<and> p \<le> 2 ^ 40"
  obtain items tot where l: "Proxy_List flt ob cols ?ps st = Ok (items, tot)"
    using Proxy_List_total[OF assms(1)] by blast
  have m: "ordered_matches ob cols ?ps st = ordered_matches ob cols filters st"
    by (simp add: ordered_matches_def)
  have "page_offset p exportListLimit = (p - 1) * exportListLimit"
    using p by (intro page_offset_id) (auto simp: exportListLimit_def)
  with Proxy_List_Ok[OF l assms(2)] m have
    "map newProxyExport (map fst items) =
       window ((p - 1) * exportListLimit) exportListLimit (map newProxyExport (ordered_matches ob cols filters st))"
    "tot = int (length (ordered_matches ob cols filters st))"
    by (simp_all add: map_window)
  with l show "\<exists>rows. Proxy_List flt ob cols ?ps st =
       Ok (rows, int (length (map newProxyExport (ordered_matches ob cols filters st)))) \<and>
     map (newProxyExport \<circ> fst) rows =
       window ((p - 1) * exportListLimit) exportListLimit (map newProxyExport (ordered_matches ob cols filters st))"
    by simp
qed

text \<open>
  Exporting by filter terminates and is complete: when no query fails, the paging loop ends
  within one iteration per matching proxy and returns the export of every matching proxy exactly
  once, in the order the database gives them, however many pages that takes.
\<close>

theorem ExportProxies_complete:
  assumes "\<forall>c. \<not> flt c" "orders ob" "int (length (tb_rows (st_proxies st))) < 2 ^ 40"
    and "length (tb_rows (st_proxies st)) < fuel"
  shows "\<exists>xs. ExportProxies fuel flt ob cols [] filters st = Some (Ok (map newProxyExport xs)) \<and>
    mset xs = mset (filter (proxy_matches cols filters) (tb_rows (st_proxies st)))"
proof -
  let ?xs = "ordered_matches ob cols filters st"
  have m: "mset ?xs = mset (filter (proxy_matches cols filters) (tb_rows (st_proxies st)))"
    using assms(2) by (simp add: ordered_matches_def orders_def tb_Find_def)
  then have "length ?xs \<le> length (tb_rows (st_proxies st))"
    by (metis length_filter_le size_mset)
  with assms(3,4) have "page_loop fuel
      (\<lambda>page. Proxy_List flt ob cols (filters\<lparr>pl_Page := page, pl_Limit := exportListLimit\<rparr>) st)
      (newProxyExport \<circ> fst) 1 [] = Some (Ok (map newProxyExport ?xs))"
    by (intro page_loop_complete[OF paged_Proxy_List[OF assms(1,2)]]) (auto simp: exportListLimit_def)
  with m show ?thesis by (auto simp: ExportProxies_def)
qed

definition all_proxies :: ProxyListParams where
  "all_proxies =
     \<lparr>pl_Page = 0, pl_Limit = 0, pl_Search = [], pl_Types = [], pl_TypesExclude = [], pl_Status = [],
      pl_StatusNot = [], pl_SSLEnabled = None, pl_Target = [], pl_Sort = [], pl_Order = []\<rparr>"

lemma all_proxies_match [simp]: "proxy_matches cols all_proxies p"
  by (simp add: proxy_matches_def all_proxies_def status_filter_def)

lemma orders_rev: "orders (\<lambda>_ _. rev)"
  by (simp add: orders_def)

theorem ExportProxies_complete_witness:
  "\<exists>xs. ExportProxies 2 no_faults (\<lambda>_ _. rev) (\<lambda>_. []) [] all_proxies demo_store =
     Some (Ok (map newProxyExport xs)) \<and> mset xs = {#demo_proxy#}"
proof -
  have r: "tb_rows (st_proxies demo_store) = [demo_proxy]" by (simp add: demo_store_def)
  have "\<exists>xs. ExportProxies 2 no_faults (\<lambda>_ _. rev) (\<lambda>_. []) [] all_proxies demo_store =
      Some (Ok (map newProxyExport xs)) \<and>
    mset xs = mset (filter (proxy_matches (\<lambda>_. []) all_proxies) (tb_rows (st_proxies demo_store)))"
    by (rule ExportProxies_complete) (simp_all add: no_faults_def orders_rev r)
  then show ?thesis by (simp add: r)
qed

end
