(* ===== verification/L4_Service.thy ===== *)
theory L4_Service
  imports L4_Store Proxy_Query
begin

text \<open>
  The Layer 4 proxy service: \<open>backend/internal/service/l4_proxy_service.go\<close>, \<open>l4_proxy_bulk.go\<close> and
  \<open>l4_proxy_export.go\<close>. An operation returns the database it leaves and an error or its result.
\<close>

section \<open>Requests\<close>

text \<open>
  \<open>CreateL4ProxyRequest\<close> and \<open>UpdateL4ProxyRequest\<close> have the same fields, and so have a route
  request and the route model without its keys.
\<close>

record CreateL4RouteRequest =
  rr4_Priority :: int
  rr4_MatcherType :: string
  rr4_SNIHostnames :: "string list"
  rr4_AllowedIPRanges :: "string list"
  rr4_RegexPattern :: "string option"
  rr4_Upstreams :: "L4Upstream list"
  rr4_LoadBalancingPolicy :: string
  rr4_TLSTerminate :: bool
  rr4_TLSPassthrough :: bool
  rr4_ProxyProtocolVersion :: "string option"

record L4ProxyRequest =
  rq4_Name :: string
  rq4_Description :: "string option"
  rq4_ListenPort :: int
  rq4_Protocol :: string
  rq4_IsActive :: bool
  rq4_Routes :: "CreateL4RouteRequest list"

datatype l4_error =
    ErrL4ProxyNotFound
  | ErrL4ProxyPortConflict
  | L4Invalid l4_validation_error
  | L4DB string db_error

definition routeRequestToModel :: "CreateL4RouteRequest \<Rightarrow> L4Route" where
  "routeRequestToModel r =
     \<lparr>l4r_ID = 0, l4r_L4ProxyID = 0, l4r_Priority = rr4_Priority r, l4r_MatcherType = rr4_MatcherType r,
      l4r_SNIHostnames = rr4_SNIHostnames r, l4r_AllowedIPRanges = rr4_AllowedIPRanges r,
      l4r_RegexPattern = rr4_RegexPattern r, l4r_Upstreams = rr4_Upstreams r,
      l4r_LoadBalancingPolicy = rr4_LoadBalancingPolicy r, l4r_TLSTerminate = rr4_TLSTerminate r,
      l4r_TLSPassthrough = rr4_TLSPassthrough r, l4r_ProxyProtocolVersion = rr4_ProxyProtocolVersion r\<rparr>"

definition requestToModel :: "L4ProxyRequest \<Rightarrow> L4Proxy" where
  "requestToModel req =
     \<lparr>l4_ID = 0, l4_Name = rq4_Name req, l4_Description = rq4_Description req,
      l4_ListenPort = rq4_ListenPort req, l4_Protocol = rq4_Protocol req, l4_IsActive = rq4_IsActive req,
      l4_CreatedBy = 0, l4_CreatedAt = 0, l4_Routes = map routeRequestToModel (rq4_Routes req)\<rparr>"

definition updateRequestToModel :: "L4ProxyRequest \<Rightarrow> L4Proxy" where
  "updateRequestToModel req =
     \<lparr>l4_ID = 0, l4_Name = rq4_Name req, l4_Description = rq4_Description req,
      l4_ListenPort = rq4_ListenPort req, l4_Protocol = rq4_Protocol req, l4_IsActive = rq4_IsActive req,
      l4_CreatedBy = 0, l4_CreatedAt = 0, l4_Routes = map routeRequestToModel (rq4_Routes req)\<rparr>"

section \<open>Operations\<close>

type_synonym 'a l4_result = "app_db \<times> (l4_error, 'a) result"

definition checkPortConflict :: "faults \<Rightarrow> int \<Rightarrow> string \<Rightarrow> int \<Rightarrow> app_db \<Rightarrow> l4_error option" where
  "checkPortConflict flt port protocol excludeID db =
     (case L4_GetByPort_repo flt port protocol db of
        Inl e \<Rightarrow> if e = RecordNotFound then None else Some (L4DB ''failed to check port conflict'' e)
      | Inr existing \<Rightarrow>
          if excludeID > 0 \<and> l4_ID existing = excludeID then None else Some ErrL4ProxyPortConflict)"

text \<open>What GORM leaves in the struct it inserted: the keys and the substituted defaults.\<close>

definition created_l4 :: "app_db \<Rightarrow> L4Proxy \<Rightarrow> L4Proxy" where
  "created_l4 db p =
     (l4_defaults p)\<lparr>l4_ID := tb_next (db_l4_proxies db),
        l4_Routes := drop (length (tb_rows (db_l4_routes db)))
          (tb_rows (create_routes (tb_next (db_l4_proxies db)) (l4_Routes p) (db_l4_routes db)))\<rparr>"

definition L4_Create :: "faults \<Rightarrow> int \<Rightarrow> L4ProxyRequest \<Rightarrow> int \<Rightarrow> app_db \<Rightarrow> L4Proxy l4_result" where
  "L4_Create flt now req createdBy db =
     (let proxy = (requestToModel req)\<lparr>l4_CreatedBy := createdBy, l4_CreatedAt := now\<rparr> in
      case L4Proxy_Validate proxy of
        Some e \<Rightarrow> (db, Err (L4Invalid e))
      | None \<Rightarrow>
          (case checkPortConflict flt (l4_ListenPort proxy) (l4_Protocol proxy) 0 db of
             Some e \<Rightarrow> (db, Err e)
           | None \<Rightarrow>
               (case L4_Create_repo flt proxy db of
                  (db1, Some e) \<Rightarrow> (db1, Err (L4DB ''failed to create l4 proxy'' e))
                | (db1, None) \<Rightarrow> (db1, Ok (created_l4 db proxy)))))"

definition l4_by_id :: "faults \<Rightarrow> int \<Rightarrow> app_db \<Rightarrow> (l4_error, L4Proxy) result" where
  "l4_by_id flt rid db =
     (case L4_GetByID_repo flt rid db of
        Inl e \<Rightarrow> Err (if e = RecordNotFound then ErrL4ProxyNotFound else L4DB ''failed to get l4 proxy'' e)
      | Inr p \<Rightarrow> Ok p)"

definition L4_GetByID :: "faults \<Rightarrow> int \<Rightarrow> app_db \<Rightarrow> (l4_error, L4Proxy) result" where
  "L4_GetByID flt rid db = l4_by_id flt rid db"

definition L4_List ::
  "faults \<Rightarrow> L4Proxy order_by \<Rightarrow> L4ProxyListParams \<Rightarrow> app_db \<Rightarrow> (l4_error, L4Proxy list_response) result" where
  "L4_List flt ob req db =
     (let page = list_page (ll_Page req); limit = list_limit (ll_Limit req) in
      case L4_List_repo flt ob (req\<lparr>ll_Page := page, ll_Limit := limit\<rparr>) db of
        Inl e \<Rightarrow> Err (L4DB ''failed to list l4 proxies'' e)
      | Inr (items, tot) \<Rightarrow>
          Ok \<lparr>ls_Items = items, ls_Total = tot, ls_Page = page, ls_Limit = limit,
              ls_TotalPages = total_pages tot limit\<rparr>)"

definition L4_Update :: "faults \<Rightarrow> int \<Rightarrow> L4ProxyRequest \<Rightarrow> app_db \<Rightarrow> L4Proxy l4_result" where
  "L4_Update flt rid req db =
     (case l4_by_id flt rid db of
        Inl e \<Rightarrow> (db, Err e)
      | Inr existing \<Rightarrow>
          let proxy = (updateRequestToModel req)\<lparr>l4_ID := rid, l4_CreatedBy := l4_CreatedBy existing,
                        l4_CreatedAt := l4_CreatedAt existing\<rparr>
          in case L4Proxy_Validate proxy of
               Some e \<Rightarrow> (db, Err (L4Invalid e))
             | None \<Rightarrow>
                 let portChanged = (l4_ListenPort existing \<noteq> l4_ListenPort proxy \<or>
                                    l4_Protocol existing \<noteq> l4_Protocol proxy) in
                 case (if portChanged
                       then checkPortConflict flt (l4_ListenPort proxy) (l4_Protocol proxy) rid db
                       else None) of
                   Some e \<Rightarrow> (db, Err e)
                 | None \<Rightarrow>
                     (case L4_Update_repo flt proxy db of
                        (db1, Some e) \<Rightarrow> (db1, Err (L4DB ''failed to update l4 proxy'' e))
                      | (db1, None) \<Rightarrow>
                          (db1, case L4_GetByID_repo flt rid db1 of
                                  Inl e \<Rightarrow> Err (L4DB [] e)
                                | Inr p \<Rightarrow> Ok p)))"

definition L4_Delete :: "faults \<Rightarrow> int \<Rightarrow> app_db \<Rightarrow> unit l4_result" where
  "L4_Delete flt rid db =
     (case l4_by_id flt rid db of
        Inl e \<Rightarrow> (db, Err e)
      | Inr _ \<Rightarrow>
          (case L4_Delete_repo flt rid db of
             (db1, Some e) \<Rightarrow> (db1, Err (L4DB ''failed to delete l4 proxy'' e))
           | (db1, None) \<Rightarrow> (db1, Ok ())))"

text \<open>The struct after a save: its routes are the rows just inserted.\<close>

definition saved_l4 :: "app_db \<Rightarrow> L4Proxy \<Rightarrow> L4Proxy" where
  "saved_l4 db p =
     (let t = tb_Delete (\<lambda>r. l4r_L4ProxyID r = l4_ID p) (db_l4_routes db) in
      p\<lparr>l4_Routes := drop (length (tb_rows t)) (tb_rows (create_routes (l4_ID p) (l4_Routes p) t))\<rparr>)"

definition set_active :: "string \<Rightarrow> faults \<Rightarrow> int \<Rightarrow> (bool \<Rightarrow> bool) \<Rightarrow> app_db \<Rightarrow> L4Proxy l4_result" where
  "set_active msg flt rid f db =
     (case l4_by_id flt rid db of
        Inl e \<Rightarrow> (db, Err e)
      | Inr proxy \<Rightarrow>
          let proxy = proxy\<lparr>l4_IsActive := f (l4_IsActive proxy)\<rparr> in
          case L4_Update_repo flt proxy db of
            (db1, Some e) \<Rightarrow> (db1, Err (L4DB msg e))
          | (db1, None) \<Rightarrow> (db1, Ok (saved_l4 db proxy)))"

definition ToggleActive :: "faults \<Rightarrow> int \<Rightarrow> app_db \<Rightarrow> L4Proxy l4_result" where
  "ToggleActive flt rid db = set_active ''failed to toggle l4 proxy status'' flt rid Not db"

definition SetActive :: "faults \<Rightarrow> int \<Rightarrow> bool \<Rightarrow> app_db \<Rightarrow> L4Proxy l4_result" where
  "SetActive flt rid enable db =
     set_active ''failed to set l4 proxy active status'' flt rid (\<lambda>_. enable) db"

record L4ProxyStats =
  s4_TotalProxies :: nat
  s4_ActiveProxies :: nat
  s4_TCPProxies :: nat
  s4_UDPProxies :: nat
  s4_TotalRoutes :: nat
  s4_TotalUpstreams :: nat

definition stats_step :: "L4Proxy \<Rightarrow> L4ProxyStats \<Rightarrow> L4ProxyStats" where
  "stats_step p s =
     s\<lparr>s4_TotalProxies := s4_TotalProxies s + 1,
       s4_ActiveProxies := s4_ActiveProxies s + (if l4_IsActive p then 1 else 0),
       s4_TCPProxies := s4_TCPProxies s + (if l4_Protocol p = L4ProtocolTCP then 1 else 0),
       s4_UDPProxies := s4_UDPProxies s + (if l4_Protocol p = L4ProtocolUDP then 1 else 0),
       s4_TotalRoutes := s4_TotalRoutes s + length (l4_Routes p),
       s4_TotalUpstreams := s4_TotalUpstreams s + sum_list (map (length \<circ> l4r_Upstreams) (l4_Routes p))\<rparr>"

definition every_l4 :: L4ProxyListParams where
  "every_l4 =
     \<lparr>ll_Page = 1, ll_Limit = 10000, ll_Search = [], ll_Protocol = [], ll_IsActive = None, ll_Sort = [],
      ll_Order = []\<rparr>"

definition L4_GetStats :: "faults \<Rightarrow> L4Proxy order_by \<Rightarrow> app_db \<Rightarrow> (l4_error, L4ProxyStats) result" where
  "L4_GetStats flt ob db =
     (case L4_List_repo flt ob every_l4 db of
        Inl e \<Rightarrow> Err (L4DB ''failed to get l4 proxy stats'' e)
      | Inr (proxies, _) \<Rightarrow>
          Ok (fold stats_step proxies
                \<lparr>s4_TotalProxies = 0, s4_ActiveProxies = 0, s4_TCPProxies = 0, s4_UDPProxies = 0,
                 s4_TotalRoutes = 0, s4_TotalUpstreams = 0\<rparr>))"

section \<open>Bulk operations\<close>

record L4BulkResult =
  b4_Requested :: nat
  b4_Succeeded :: nat
  b4_Failed :: nat
  b4_Results :: "(int \<times> string \<times> l4_error option) list"

fun runL4Bulk_loop ::
  "(int \<Rightarrow> app_db \<Rightarrow> unit l4_result) \<Rightarrow> int list \<Rightarrow> L4BulkResult \<Rightarrow> app_db \<Rightarrow> app_db \<times> L4BulkResult" where
  "runL4Bulk_loop op [] res db = (db, res)"
| "runL4Bulk_loop op (i # is) res db =
     (case op i db of
        (db1, Inl e) \<Rightarrow>
          runL4Bulk_loop op is
            (res\<lparr>b4_Failed := b4_Failed res + 1, b4_Results := b4_Results res @ [(i, bulkStatusError, Some e)]\<rparr>) db1
      | (db1, Inr _) \<Rightarrow>
          runL4Bulk_loop op is
            (res\<lparr>b4_Succeeded := b4_Succeeded res + 1, b4_Results := b4_Results res @ [(i, bulkStatusOK, None)]\<rparr>) db1)"

definition runL4Bulk :: "int list \<Rightarrow> (int \<Rightarrow> app_db \<Rightarrow> unit l4_result) \<Rightarrow> app_db \<Rightarrow> app_db \<times> L4BulkResult" where
  "runL4Bulk ids op db =
     runL4Bulk_loop op ids \<lparr>b4_Requested = length ids, b4_Succeeded = 0, b4_Failed = 0, b4_Results = []\<rparr> db"

definition L4_BulkSetActive :: "faults \<Rightarrow> int list \<Rightarrow> bool \<Rightarrow> app_db \<Rightarrow> app_db \<times> L4BulkResult" where
  "L4_BulkSetActive flt ids enable db = 
     runL4Bulk ids (\<lambda>i db. map_prod (\<lambda>d. d) (map_sum (\<lambda>e. e) (\<lambda>_. ())) (SetActive flt i enable db)) db"

definition L4_BulkDelete :: "faults \<Rightarrow> int list \<Rightarrow> app_db \<Rightarrow> app_db \<times> L4BulkResult" where
  "L4_BulkDelete flt ids db = runL4Bulk ids (L4_Delete flt) db"

section \<open>Export\<close>

text \<open>
  The export item has exactly the fields of a create request, so it is one: an exported file is
  what an import sends back.
\<close>

definition newL4RouteExport :: "L4Route \<Rightarrow> CreateL4RouteRequest" where
  "newL4RouteExport r =
     \<lparr>rr4_Priority = l4r_Priority r, rr4_MatcherType = l4r_MatcherType r,
      rr4_SNIHostnames = l4r_SNIHostnames r, rr4_AllowedIPRanges = l4r_AllowedIPRanges r,
      rr4_RegexPattern = l4r_RegexPattern r, rr4_Upstreams = l4r_Upstreams r,
      rr4_LoadBalancingPolicy = l4r_LoadBalancingPolicy r, rr4_TLSTerminate = l4r_TLSTerminate r,
      rr4_TLSPassthrough = l4r_TLSPassthrough r, rr4_ProxyProtocolVersion = l4r_ProxyProtocolVersion r\<rparr>"

definition newL4Export :: "L4Proxy \<Rightarrow> L4ProxyRequest" where
  "newL4Export p =
     \<lparr>rq4_Name = l4_Name p, rq4_Description = l4_Description p, rq4_ListenPort = l4_ListenPort p,
      rq4_Protocol = l4_Protocol p, rq4_IsActive = l4_IsActive p,
      rq4_Routes = map newL4RouteExport (l4_Routes p)\<rparr>"

definition l4ExportListLimit :: int where "l4ExportListLimit = 100"

definition ExportL4Proxies ::
  "nat \<Rightarrow> faults \<Rightarrow> L4Proxy order_by \<Rightarrow> int list \<Rightarrow> L4ProxyListParams \<Rightarrow> app_db
    \<Rightarrow> (db_error, L4ProxyRequest list) result option" where
  "ExportL4Proxies fuel flt ob ids filters db =
     (if ids \<noteq> [] then
        Some (case L4_GetByIDs_repo flt ids db of
                Inl e \<Rightarrow> Err e
              | Inr proxies \<Rightarrow> Ok (map newL4Export proxies))
      else page_loop fuel
             (\<lambda>page. L4_List_repo flt ob (filters\<lparr>ll_Page := page, ll_Limit := l4ExportListLimit\<rparr>) db)
             newL4Export 1 [])"

end
