(* ===== verification/L4_Props.thy ===== *)
theory L4_Props
  imports L4_Service
begin

text \<open>
  Properties of the Layer 4 service: the invariant of its tables over every sequence of
  operations, what switching a proxy on or off changes, and two consequences of the \<open>default:true\<close>
  tags that survive in \<open>backend/internal/models/l4_proxy.go\<close>.
\<close>

section \<open>Lookups\<close>

lemma l4_by_id_Ok:
  assumes "l4_by_id flt rid db = Ok p"
  shows "\<exists>row. tb_First (\<lambda>x. l4_ID x = rid) (db_l4_proxies db) = Some row \<and> p = preload_l4 db row \<and>
    row \<in> set (tb_rows (db_l4_proxies db)) \<and> l4_ID row = rid"
  using assms
  by (auto simp: l4_by_id_def L4_GetByID_repo_def read_first_def split: sum.splits if_splits option.splits
      dest: tb_First_Some)

lemma preload_l4_ID [simp]: "l4_ID (preload_l4 db p) = l4_ID p"
  by (simp add: preload_l4_def)

lemma l4_by_id_exists:
  "l4_by_id flt rid db = Ok p \<Longrightarrow> l4_ID p = rid \<and> list_ex (\<lambda>x. l4_ID x = rid) (tb_rows (db_l4_proxies db))"
  by (auto dest!: l4_by_id_Ok simp: list_ex_iff)

section \<open>The state machine\<close>

lemma l4_inv_set_active: "l4_inv db \<Longrightarrow> l4_inv (fst (set_active msg flt rid f db))"
proof -
  assume inv: "l4_inv db"
  show ?thesis
  proof (cases "l4_by_id flt rid db")
    case (Inr p)
    let ?p = "p\<lparr>l4_IsActive := f (l4_IsActive p)\<rparr>"
    have "l4_inv (fst (L4_Update_repo flt ?p db))"
      using l4_by_id_exists[OF Inr] by (intro l4_inv_Update[OF inv]) simp
    then show ?thesis
      by (cases "L4_Update_repo flt ?p db") (simp add: set_active_def Inr Let_def split: option.splits)
  qed (simp add: set_active_def inv)
qed

lemma l4_inv_L4_Create: "l4_inv db \<Longrightarrow> l4_inv (fst (L4_Create flt now req u db))"
  using l4_inv_Create[of db flt "(requestToModel req)\<lparr>l4_CreatedBy := u, l4_CreatedAt := now\<rparr>"]
  by (auto simp: L4_Create_def Let_def split: option.splits prod.splits)

lemma l4_inv_L4_Update: "l4_inv db \<Longrightarrow> l4_inv (fst (L4_Update flt rid req db))"
proof -
  assume inv: "l4_inv db"
  show ?thesis
  proof (cases "l4_by_id flt rid db")
    case (Inr p)
    let ?p = "(updateRequestToModel req)\<lparr>l4_ID := rid, l4_CreatedBy := l4_CreatedBy p, l4_CreatedAt := l4_CreatedAt p\<rparr>"
    have "l4_inv (fst (L4_Update_repo flt ?p db))"
      using l4_by_id_exists[OF Inr] by (intro l4_inv_Update[OF inv]) simp
    with inv show ?thesis
      by (cases "L4_Update_repo flt ?p db") (auto simp: L4_Update_def Inr Let_def split: option.splits)
  qed (simp add: L4_Update_def inv)
qed

lemma l4_inv_L4_Delete: "l4_inv db \<Longrightarrow> l4_inv (fst (L4_Delete flt rid db))"
  using l4_inv_Delete[of db flt rid]
  by (auto simp: L4_Delete_def split: sum.splits prod.splits option.splits)

text \<open>One call of the service, under any faults of the database.\<close>

inductive l4_step :: "app_db \<Rightarrow> app_db \<Rightarrow> bool" where
  create: "l4_step db (fst (L4_Create flt now req u db))"
| update: "l4_step db (fst (L4_Update flt rid req db))"
| delete: "l4_step db (fst (L4_Delete flt rid db))"
| toggle: "l4_step db (fst (ToggleActive flt rid db))"
| set_active: "l4_step db (fst (SetActive flt rid enable db))"

inductive l4_reachable :: "app_db \<Rightarrow> app_db \<Rightarrow> bool" where
  refl: "l4_reachable db db"
| step: "l4_reachable db db1 \<Longrightarrow> l4_step db1 db2 \<Longrightarrow> l4_reachable db db2"

lemma l4_step_inv: "l4_step db db' \<Longrightarrow> l4_inv db \<Longrightarrow> l4_inv db'"
  by (induction rule: l4_step.induct)
    (simp_all add: l4_inv_L4_Create l4_inv_L4_Update l4_inv_L4_Delete ToggleActive_def SetActive_def
      l4_inv_set_active)

text \<open>
  Whatever sequence of Layer 4 operations runs, and whichever of its database calls fail: no
  two proxies ever share a port and protocol, ports stay between 1 and 65535 and protocols are tcp
  or udp, and no route is left without its proxy.
\<close>

theorem l4_reachable_inv:
  assumes "l4_reachable db db'" "l4_inv db"
  shows "l4_inv db'"
  using assms by (induction rule: l4_reachable.induct) (auto intro: l4_step_inv)

section \<open>A small Layer 4 installation\<close>

definition demo_l4_request :: "bool \<Rightarrow> L4ProxyRequest" where
  "demo_l4_request active =
     \<lparr>rq4_Name = ''db'', rq4_Description = None, rq4_ListenPort = 5432, rq4_Protocol = ''tcp'',
      rq4_IsActive = active,
      rq4_Routes = [\<lparr>rr4_Priority = 0, rr4_MatcherType = ''tls'', rr4_SNIHostnames = [''db.example.com''],
        rr4_AllowedIPRanges = [], rr4_RegexPattern = None,
        rr4_Upstreams = [\<lparr>l4u_Host = ''10.0.0.5'', l4u_Port = 5432, l4u_Weight = None\<rparr>],
        rr4_LoadBalancingPolicy = ''round_robin'', rr4_TLSTerminate = True, rr4_TLSPassthrough = False,
        rr4_ProxyProtocolVersion = None\<rparr>]\<rparr>"

definition demo_db :: app_db where
  "demo_db = \<lparr>db_acl = demo_store, db_l4_proxies = empty_table, db_l4_routes = empty_table, db_settings = []\<rparr>"

lemma demo_db_inv: "l4_inv demo_db"
  by (simp add: l4_inv_def demo_db_def l4_proxies_tb.wf_empty l4_routes_tb.wf_empty)

theorem l4_reachable_inv_witness:
  "l4_inv (fst (SetActive no_faults 1 False (fst (L4_Create no_faults 0 (demo_l4_request True) 1 demo_db))))"
  by (rule l4_reachable_inv[OF _ demo_db_inv])
    (rule l4_reachable.step[OF l4_reachable.step[OF l4_reachable.refl l4_step.create] l4_step.set_active])

section \<open>The defaults that survive\<close>

lemma L4_Create_Ok:
  assumes "L4_Create flt now req u db = (db', Ok p)"
  shows "let q = (requestToModel req)\<lparr>l4_CreatedBy := u, l4_CreatedAt := now\<rparr> in
    L4_Create_repo flt q db = (db', None) \<and> p = created_l4 db q \<and> L4Proxy_Validate q = None"
  using assms by (auto simp: L4_Create_def Let_def split: option.splits prod.splits)

lemma L4_Create_repo_Ok:
  "L4_Create_repo flt q db = (db', None) \<Longrightarrow>
   db_l4_proxies db' = tb_Create set_l4_ID (l4_defaults q\<lparr>l4_Routes := []\<rparr>) (db_l4_proxies db) \<and>
   db_l4_routes db' = create_routes (tb_next (db_l4_proxies db)) (l4_Routes q) (db_l4_routes db)"
  by (auto simp: L4_Create_repo_def Let_def split: if_splits)

text \<open>
  A Layer 4 proxy that is created disabled is stored enabled: whatever \<open>is_active\<close> the request
  carries, a successful \<open>Create\<close> leaves a row that is active (and is therefore deployed by the next
  synchronisation), because the model keeps the \<open>default:true\<close> tag that the HTTP proxy model had to
  drop.
\<close>

theorem created_l4_is_active:
  assumes "L4_Create flt now req u db = (db', Ok p)" "l4_inv db"
  shows "l4_IsActive p \<and> (\<exists>row. tb_First (\<lambda>x. l4_ID x = l4_ID p) (db_l4_proxies db') = Some row \<and>
    l4_IsActive row \<and> l4_Name row = rq4_Name req)"
proof -
  let ?q = "(requestToModel req)\<lparr>l4_CreatedBy := u, l4_CreatedAt := now\<rparr>"
  have r: "L4_Create_repo flt ?q db = (db', None)" "p = created_l4 db ?q"
    using L4_Create_Ok[OF assms(1)] by (simp_all add: Let_def)
  have wf: "tb_wf l4_ID (db_l4_proxies db)" using assms(2) by (simp add: l4_inv_def)
  have i: "l4_ID p = tb_next (db_l4_proxies db)" "l4_IsActive p"
    using r(2) by (simp_all add: created_l4_def l4_defaults_def)
  have "tb_First (\<lambda>x. l4_ID x = l4_ID p) (db_l4_proxies db') =
      Some (set_l4_ID (tb_next (db_l4_proxies db)) (l4_defaults ?q\<lparr>l4_Routes := []\<rparr>))"
    using L4_Create_repo_Ok[OF r(1)] l4_proxies_tb.First_Create[OF wf] i(1) by simp
  with i(2) show ?thesis by (simp add: set_l4_ID_def l4_defaults_def requestToModel_def)
qed

text \<open>
  A proxy with a route that terminates TLS cannot be exported and imported again: the stored
  route always has \<open>tls_passthrough\<close> set as well, so the exported item fails validation with the
  TLS conflict error.
\<close>

theorem tls_terminating_export_rejected:
  assumes "L4_Create flt now req u db = (db', Ok p)" "list_ex rr4_TLSTerminate (rq4_Routes req)"
  shows "fst (L4_Create flt' now' (newL4Export p) u' db'') = db'' \<and>
    L4Proxy_Validate (requestToModel (newL4Export p)) \<noteq> None"
proof -
  let ?q = "(requestToModel req)\<lparr>l4_CreatedBy := u, l4_CreatedAt := now\<rparr>"
  have p: "p = created_l4 db ?q" using L4_Create_Ok[OF assms(1)] by (simp add: Let_def)
  obtain r where r: "r \<in> set (rq4_Routes req)" "rr4_TLSTerminate r"
    using assms(2) by (auto simp: list_ex_iff)
  then obtain i where "i < length (rq4_Routes req)" "rq4_Routes req ! i = r"
    by (auto simp: in_set_conv_nth)
  then have i: "(i, routeRequestToModel r) \<in> set (List.enumerate 0 (l4_Routes ?q))"
    by (simp add: requestToModel_def in_set_enumerate_eq)
  define s where "s = set_l4r_ID (tb_next (db_l4_routes db) + int i)
      (l4r_defaults (routeRequestToModel r\<lparr>l4r_L4ProxyID := tb_next (db_l4_proxies db)\<rparr>))"
  have "s \<in> set (l4_Routes p)"
    using imageI[OF i, of "\<lambda>(i, r). set_l4r_ID (tb_next (db_l4_routes db) + int i)
        (l4r_defaults (r\<lparr>l4r_L4ProxyID := tb_next (db_l4_proxies db)\<rparr>))"]
    by (simp add: p created_l4_def rows_create_routes s_def)
  moreover have "L4Route_Validate (routeRequestToModel (newL4RouteExport s)) \<noteq> None"
    using r(2) by (auto simp: L4Route_Validate_def routeRequestToModel_def newL4RouteExport_def s_def
        set_l4r_ID_def l4r_defaults_def split: option.splits)
  ultimately have "\<not> (\<forall>x \<in> set (l4_Routes (requestToModel (newL4Export p))). L4Route_Validate x = None)"
    by (auto simp: requestToModel_def newL4Export_def)
  then have v: "L4Proxy_Validate (requestToModel (newL4Export p)) \<noteq> None"
    by (simp only: L4Proxy_Validate_None) blast
  have "L4Proxy_Validate (q\<lparr>l4_CreatedBy := a, l4_CreatedAt := b\<rparr>) = L4Proxy_Validate q" for q a b
    by (simp add: L4Proxy_Validate_def)
  with v show ?thesis by (auto simp: L4_Create_def Let_def split: option.splits)
qed

lemma demo_l4_create:
  "L4_Create no_faults 0 (demo_l4_request a) 1 demo_db =
     (fst (L4_Create no_faults 0 (demo_l4_request a) 1 demo_db),
      Ok (created_l4 demo_db ((requestToModel (demo_l4_request a))\<lparr>l4_CreatedBy := 1, l4_CreatedAt := 0\<rparr>)))"
  by (simp add: L4_Create_def Let_def L4Proxy_Validate_def L4Route_Validate_def L4Upstream_Validate_def
      requestToModel_def routeRequestToModel_def demo_l4_request_def validMatcherTypes_def validLBPolicies_def
      L4ProtocolTCP_def checkPortConflict_def L4_GetByPort_repo_def read_first_def no_faults_def
      tb_First_def demo_db_def L4_Create_repo_def l4_checks_def l4_defaults_def l4r_defaults_def
      str_default_def uids_def demo_store_def demo_user_def)

theorem created_l4_is_active_witness:
  "\<not> rq4_IsActive (demo_l4_request False) \<and>
   (\<exists>db' p. L4_Create no_faults 0 (demo_l4_request False) 1 demo_db = (db', Ok p) \<and> l4_IsActive p)"
  using created_l4_is_active[OF demo_l4_create demo_db_inv, of False] demo_l4_create[of False]
  by (auto simp: demo_l4_request_def)

theorem tls_terminating_export_rejected_witness:
  "\<exists>db' p. L4_Create no_faults 0 (demo_l4_request True) 1 demo_db = (db', Ok p) \<and>
     L4Proxy_Validate (requestToModel (newL4Export p)) \<noteq> None"
proof -
  have "list_ex rr4_TLSTerminate (rq4_Routes (demo_l4_request True))" by (simp add: demo_l4_request_def)
  from tls_terminating_export_rejected[OF demo_l4_create this] demo_l4_create[of True] show ?thesis
    by blast
qed

section \<open>Switching a proxy on and off\<close>

text \<open>A route without its key and with the insertion defaults applied.\<close>

definition route_core :: "L4Route \<Rightarrow> L4Route" where
  "route_core r = (l4r_defaults r)\<lparr>l4r_ID := 0\<rparr>"

lemma L4_Update_repo_Ok:
  "L4_Update_repo flt q db = (db', None) \<Longrightarrow>
   db_l4_proxies db' = tb_Save l4_ID (q\<lparr>l4_Routes := []\<rparr>) (db_l4_proxies db) \<and>
   db_l4_routes db' = create_routes (l4_ID q) (l4_Routes q)
     (tb_Delete (\<lambda>r. l4r_L4ProxyID r = l4_ID q) (db_l4_routes db))"
  by (auto simp: L4_Update_repo_def split: if_splits)

definition inserted :: "int \<Rightarrow> int \<Rightarrow> L4Route list \<Rightarrow> L4Route list" where
  "inserted nxt pid rs =
     map (\<lambda>(i, r). set_l4r_ID (nxt + int i) (l4r_defaults (r\<lparr>l4r_L4ProxyID := pid\<rparr>))) (List.enumerate 0 rs)"

lemma rows_create_routes': "tb_rows (create_routes pid rs t) = tb_rows t @ inserted (tb_next t) pid rs"
  by (simp add: rows_create_routes inserted_def)

lemma map_inserted:
  assumes "\<And>i r. f (set_l4r_ID i (l4r_defaults (r\<lparr>l4r_L4ProxyID := pid\<rparr>))) = g r"
  shows "map f (inserted nxt pid rs) = map g rs"
proof -
  have "map f (inserted nxt pid rs) = map (g \<circ> snd) (List.enumerate 0 rs)"
    by (simp add: inserted_def case_prod_unfold comp_def assms)
  then show ?thesis by (simp flip: map_map)
qed

lemma priority_inserted: "map l4r_Priority (inserted nxt pid rs) = map l4r_Priority rs"
  by (rule map_inserted) (simp add: set_l4r_ID_def l4r_defaults_def)

lemma core_inserted:
  "list_all (\<lambda>r. l4r_L4ProxyID r = pid) rs \<Longrightarrow> map route_core (inserted nxt pid rs) = map route_core rs"
proof -
  assume "list_all (\<lambda>r. l4r_L4ProxyID r = pid) rs"
  then have e: "map (\<lambda>r. r\<lparr>l4r_L4ProxyID := pid\<rparr>) rs = rs"
    by (intro map_idI) (auto simp: list_all_iff)
  have "map route_core (inserted nxt pid rs) = map (\<lambda>r. route_core (r\<lparr>l4r_L4ProxyID := pid\<rparr>)) rs"
    by (rule map_inserted) (simp add: route_core_def set_l4r_ID_def l4r_defaults_def str_default_def)
  also have "\<dots> = map route_core rs" using e by (metis (no_types, lifting) map_map comp_def map_eq_conv)
  finally show ?thesis .
qed

lemma inserted_owner: "r \<in> set (inserted nxt pid rs) \<Longrightarrow> l4r_L4ProxyID r = pid"
  by (auto simp: inserted_def)

lemma preload_other:
  "l4_ID q \<noteq> pid \<Longrightarrow> db_l4_routes db' = create_routes pid rs (tb_Delete (\<lambda>r. l4r_L4ProxyID r = pid) (db_l4_routes db))
   \<Longrightarrow> preload_l4 db' q = preload_l4 db q"
proof -
  assume ne: "l4_ID q \<noteq> pid"
    and r: "db_l4_routes db' = create_routes pid rs (tb_Delete (\<lambda>r. l4r_L4ProxyID r = pid) (db_l4_routes db))"
  have "filter (\<lambda>r. l4r_L4ProxyID r = l4_ID q) (inserted nxt pid rs) = []" for nxt
    using ne inserted_owner by (force simp: filter_empty_conv)
  moreover have "filter (\<lambda>r. l4r_L4ProxyID r \<noteq> pid \<and> l4r_L4ProxyID r = l4_ID q) xs =
      filter (\<lambda>r. l4r_L4ProxyID r = l4_ID q) xs" for xs :: "L4Route list"
    using ne by (intro filter_cong) auto
  ultimately show ?thesis by (simp add: preload_l4_def tb_Find_def r rows_create_routes' tb_Delete_def)
qed

lemma preload_saved:
  assumes "db_l4_routes db' = create_routes pid rs (tb_Delete (\<lambda>r. l4r_L4ProxyID r = pid) (db_l4_routes db))"
    and "l4_ID q = pid" "sorted (map l4r_Priority rs)"
  shows "preload_l4 db' q = q\<lparr>l4_Routes := inserted (tb_next (db_l4_routes db)) pid rs\<rparr>"
proof -
  let ?new = "inserted (tb_next (db_l4_routes db)) pid rs"
  have "filter (\<lambda>r. l4r_L4ProxyID r = pid) ?new = ?new"
    using inserted_owner by (intro filter_id_conv') blast
  then have "tb_Find (\<lambda>r. l4r_L4ProxyID r = l4_ID q) (db_l4_routes db') = ?new"
    using assms(2) by (simp add: assms(1) tb_Find_def rows_create_routes' tb_Delete_def)
  moreover have "sorted (map l4r_Priority ?new)" using assms(3) by (simp add: priority_inserted)
  ultimately show ?thesis by (simp add: preload_l4_def sorted_sort_id sort_key_id_if_sorted)
qed

text \<open>
  Setting the status of a Layer 4 proxy does that and nothing else: a successful \<open>SetActive\<close>
  returns the proxy as a later read finds it, with the requested status and the routes it had, in
  the same order (their keys are new and the insertion defaults are applied), and every other
  proxy reads as before.
\<close>

theorem SetActive_exact:
  assumes "SetActive flt rid enable db = (db', Ok p)" "l4_inv db" "l4_by_id flt rid db = Ok old"
  shows "l4_by_id no_faults rid db' = Ok p \<and> l4_IsActive p = enable \<and>
    map route_core (l4_Routes p) = map route_core (l4_Routes old) \<and>
    p\<lparr>l4_IsActive := l4_IsActive old, l4_Routes := l4_Routes old\<rparr> = old \<and>
    (\<forall>i. i \<noteq> rid \<longrightarrow> l4_by_id no_faults i db' = l4_by_id no_faults i db)"
proof -
  obtain row where row: "old = preload_l4 db row" "row \<in> set (tb_rows (db_l4_proxies db))" "l4_ID row = rid"
    using l4_by_id_Ok[OF assms(3)] by blast
  have rr: "l4_Routes row = []" using assms(2) row(2) by (simp add: l4_inv_def list_all_iff l4_row_ok_def)
  let ?q = "old\<lparr>l4_IsActive := enable\<rparr>" and ?rs = "l4_Routes old"
  have id: "l4_ID ?q = rid" using row by simp
  have u: "L4_Update_repo flt ?q db = (db', None)" "p = saved_l4 db ?q"
    using assms(1,3) by (auto simp: SetActive_def set_active_def Let_def split: prod.splits option.splits)
  have d: "db_l4_proxies db' = tb_Save l4_ID (?q\<lparr>l4_Routes := []\<rparr>) (db_l4_proxies db)"
    and r: "db_l4_routes db' = create_routes rid ?rs (tb_Delete (\<lambda>r. l4r_L4ProxyID r = rid) (db_l4_routes db))"
    using L4_Update_repo_Ok[OF u(1)] id by simp_all
  have wf: "tb_wf l4_ID (db_l4_proxies db)" using assms(2) by (simp add: l4_inv_def)
  have own: "list_all (\<lambda>r. l4r_L4ProxyID r = rid) ?rs" and srt: "sorted (map l4r_Priority ?rs)"
    using row(3) by (auto simp: row(1) preload_l4_def list_all_iff)
  have p: "p = ?q\<lparr>l4_Routes := inserted (tb_next (db_l4_routes db)) rid ?rs\<rparr>"
    using id by (simp add: u(2) saved_l4_def Let_def rows_create_routes')
  have ex: "\<exists>x \<in> set (tb_rows (db_l4_proxies db)). l4_ID x = l4_ID (?q\<lparr>l4_Routes := []\<rparr>)"
    using row by auto
  have "tb_First (\<lambda>x. l4_ID x = rid) (db_l4_proxies db') = Some (?q\<lparr>l4_Routes := []\<rparr>)"
    using l4_proxies_tb.First_Save[OF wf ex] id by (simp add: d)
  moreover have "preload_l4 db' (?q\<lparr>l4_Routes := []\<rparr>) = p"
    using preload_saved[OF r _ srt, of "?q\<lparr>l4_Routes := []\<rparr>"] id by (simp add: p)
  ultimately have "l4_by_id no_faults rid db' = Ok p"
    by (simp add: l4_by_id_def L4_GetByID_repo_def read_first_def no_faults_def)
  moreover have "l4_by_id no_faults i db' = l4_by_id no_faults i db" if "i \<noteq> rid" for i
  proof -
    have f: "tb_First (\<lambda>x. l4_ID x = i) (db_l4_proxies db') = tb_First (\<lambda>x. l4_ID x = i) (db_l4_proxies db)"
      using that id ex unfolding d by (intro l4_proxies_tb.First_Save_other) auto
    have "preload_l4 db' x = preload_l4 db x" if "tb_First (\<lambda>x. l4_ID x = i) (db_l4_proxies db) = Some x" for x
      using \<open>i \<noteq> rid\<close> tb_First_Some[OF that] by (intro preload_other[OF _ r]) simp
    then show ?thesis
      by (simp add: l4_by_id_def L4_GetByID_repo_def read_first_def no_faults_def f split: option.splits)
  qed
  ultimately show ?thesis using core_inserted[OF own] by (simp add: p)
qed

text \<open>The proxy of the demo request, disabled after it was created.\<close>

theorem SetActive_exact_witness:
  "\<exists>db' p. SetActive no_faults 1 False (fst (L4_Create no_faults 0 (demo_l4_request True) 1 demo_db)) = (db', Ok p) \<and>
     l4_by_id no_faults 1 db' = Ok p \<and> \<not> l4_IsActive p"
proof -
  define db0 where "db0 = fst (L4_Create no_faults 0 (demo_l4_request True) 1 demo_db)"
  let ?q = "(requestToModel (demo_l4_request True))\<lparr>l4_CreatedBy := 1, l4_CreatedAt := 0\<rparr>"
  have inv: "l4_inv db0" unfolding db0_def using demo_db_inv by (rule l4_inv_L4_Create)
  have c: "L4_Create_repo no_faults ?q demo_db = (db0, None)"
    unfolding db0_def using L4_Create_Ok[OF demo_l4_create[of True]] by (simp add: Let_def)
  have t: "db_l4_proxies db0 = \<lparr>tb_rows = [set_l4_ID 1 (l4_defaults ?q\<lparr>l4_Routes := []\<rparr>)], tb_next = 2\<rparr>"
    "db_l4_routes db0 = create_routes 1 (l4_Routes ?q) empty_table"
    using L4_Create_repo_Ok[OF c] by (simp_all add: demo_db_def tb_Create_def empty_table_def)
  define old where "old = preload_l4 db0 (set_l4_ID 1 (l4_defaults ?q\<lparr>l4_Routes := []\<rparr>))"
  have l: "l4_by_id no_faults 1 db0 = Ok old"
    by (simp add: l4_by_id_def L4_GetByID_repo_def read_first_def no_faults_def tb_First_def t set_l4_ID_def
        old_def)
  have "snd (L4_Update_repo no_faults (old\<lparr>l4_IsActive := False\<rparr>) db0) = None"
    by (simp add: L4_Update_repo_def no_faults_def l4_checks_def old_def preload_l4_def t set_l4_ID_def
        l4_defaults_def requestToModel_def demo_l4_request_def str_default_def tb_Find_def rows_create_routes
        routeRequestToModel_def l4r_defaults_def set_l4r_ID_def validMatcherTypes_def validLBPolicies_def tb_Create_def empty_table_def)
  then obtain db' where u: "L4_Update_repo no_faults (old\<lparr>l4_IsActive := False\<rparr>) db0 = (db', None)"
    by (metis prod.collapse)
  then have "SetActive no_faults 1 False db0 = (db', Ok (saved_l4 db0 (old\<lparr>l4_IsActive := False\<rparr>)))"
    by (simp add: SetActive_def set_active_def l Let_def)
  from this SetActive_exact[OF this inv l] show ?thesis unfolding db0_def by blast
qed

end
