(* ===== verification/Sync_Names.thy ===== *)
theory Sync_Names
  imports Waygates_Prelude
begin

text \<open>
  The file names of \<open>backend/internal/service/sync_service.go\<close>: \<open>sanitizeFilename\<close> with its loop,
  and \<open>GetProxyFilename\<close>. The code maps runes; a byte of a longer rune is mapped to an underscore
  of its own here, which the loop then merges, so the result is the same.
\<close>

definition us :: char where "us = CHR ''_''"

definition safe_char :: "char \<Rightarrow> bool" where
  "safe_char c \<longleftrightarrow>
     (let n = (of_char c :: nat) in
      (97 \<le> n \<and> n \<le> 122) \<or> (65 \<le> n \<and> n \<le> 90) \<or> (48 \<le> n \<and> n \<le> 57) \<or> c = CHR ''_'' \<or> c = CHR ''-'')"

text \<open>\<open>strings.ReplaceAll(s, "__", "_")\<close>: one pass from the left, without overlaps.\<close>

fun ReplaceAll_us :: "string \<Rightarrow> string" where
  "ReplaceAll_us (c # d # s) =
     (if c = us \<and> d = us then us # ReplaceAll_us s else c # ReplaceAll_us (d # s))"
| "ReplaceAll_us s = s"

lemma length_ReplaceAll_us: "length (ReplaceAll_us s) \<le> length s"
  by (induction s rule: ReplaceAll_us.induct) auto

lemma Contains_Cons: "Contains (c # s) sub \<longleftrightarrow> HasPrefix (c # s) sub \<or> Contains s sub"
  by (simp add: Contains_def)

lemma Contains_us_Cons:
  "Contains (c # d # s) [us, us] \<longleftrightarrow> c = us \<and> d = us \<or> Contains (d # s) [us, us]"
  by (auto simp: Contains_Cons HasPrefix_def)

lemma ReplaceAll_us_shorter: "Contains s [us, us] \<Longrightarrow> length (ReplaceAll_us s) < length s"
proof (induction s rule: ReplaceAll_us.induct)
  case (1 c d s)
  then show ?case
    using length_ReplaceAll_us[of s] by (auto simp: Contains_us_Cons)
qed (auto simp: Contains_def HasPrefix_def)

function collapse :: "string \<Rightarrow> string" where
  "collapse s = (if Contains s [us, us] then collapse (ReplaceAll_us s) else s)"
  by pat_completeness auto

termination collapse
  by (relation "measure length") (auto intro: ReplaceAll_us_shorter)

declare collapse.simps [simp del]

text \<open>\<open>strings.Trim\<close> with a cutset of one character.\<close>

definition Trim_us :: "string \<Rightarrow> string" where
  "Trim_us s = rev (dropWhile (\<lambda>c. c = us) (rev (dropWhile (\<lambda>c. c = us) s)))"

definition sanitizeFilename :: "string \<Rightarrow> string" where
  "sanitizeFilename hostname = Trim_us (collapse (map (\<lambda>c. if safe_char c then c else us) hostname))"

definition GetProxyFilename :: "int \<Rightarrow> string \<Rightarrow> string" where
  "GetProxyFilename proxyID hostname = Itoa proxyID @ ''_'' @ sanitizeFilename hostname @ ''.conf''"

section \<open>What the loop computes\<close>

text \<open>The words between underscores.\<close>

definition us_words :: "string \<Rightarrow> string list" where
  "us_words s = filter (\<lambda>w. w \<noteq> []) (Split us s)"

lemma us_words_us [simp]: "us_words (us # s) = us_words s"
  by (simp add: us_words_def)

lemma us_words_Nil [simp]: "us_words [] = []"
  by (simp add: us_words_def)

lemma us_words_Cons:
  "c \<noteq> us \<Longrightarrow> us_words (c # s) = (c # takeWhile (\<lambda>x. x \<noteq> us) s) # us_words (dropWhile (\<lambda>x. x \<noteq> us) s)"
proof -
  assume c: "c \<noteq> us"
  let ?w = "takeWhile (\<lambda>x. x \<noteq> us) s" and ?r = "dropWhile (\<lambda>x. x \<noteq> us) s"
  have w: "us \<notin> set (c # ?w)" using c by (auto dest: set_takeWhileD)
  show ?thesis
  proof (cases ?r)
    case Nil
    then have "s = ?w" by (metis append_Nil2 takeWhile_dropWhile_id)
    then have "Split us (c # s) = [c # ?w]" using Split_literal[OF w] by simp
    then show ?thesis unfolding us_words_def Nil by simp
  next
    case (Cons d r)
    then have d: "d = us" using hd_dropWhile[of "\<lambda>x. x \<noteq> us" s] by simp
    have "s = ?w @ us # r" using Cons d by (metis takeWhile_dropWhile_id)
    then have "Split us (c # s) = (c # ?w) # Split us r"
      using Split_append[OF w, of r] by (metis append_Cons)
    then show ?thesis using Cons d by (simp add: us_words_def)
  qed
qed

lemma us_words_ReplaceAll: "us_words (ReplaceAll_us s) = us_words s"
proof -
  have "us_words (ReplaceAll_us s) = us_words s \<and>
      takeWhile (\<lambda>x. x \<noteq> us) (ReplaceAll_us s) = takeWhile (\<lambda>x. x \<noteq> us) s \<and>
      us_words (dropWhile (\<lambda>x. x \<noteq> us) (ReplaceAll_us s)) = us_words (dropWhile (\<lambda>x. x \<noteq> us) s)"
  proof (induction s rule: ReplaceAll_us.induct)
    case (1 c d s)
    then show ?case by (cases "c = us") (auto simp: us_words_Cons)
  qed auto
  then show ?thesis by simp
qed

lemma us_words_collapse: "us_words (collapse s) = us_words s"
  by (induction s rule: collapse.induct) (simp add: collapse.simps us_words_ReplaceAll)

lemma collapse_single: "\<not> Contains (collapse s) [us, us]"
  by (induction s rule: collapse.induct) (simp add: collapse.simps)

text \<open>Without double underscores, trimming leaves the words joined by single ones.\<close>

definition trim_right :: "string \<Rightarrow> string" where
  "trim_right s = rev (dropWhile (\<lambda>c. c = us) (rev s))"

lemma trim_right_snoc: "trim_right (s @ [c]) = (if c = us then trim_right s else s @ [c])"
  by (simp add: trim_right_def)

lemma trim_right_Cons: "c \<noteq> us \<Longrightarrow> trim_right (c # s) = c # trim_right s"
  by (induction s rule: rev_induct) (auto simp: trim_right_def dropWhile_append)

lemma trim_right_us: "trim_right (us # s) = (if trim_right s = [] then [] else us # trim_right s)"
proof (induction s rule: rev_induct)
  case (snoc x s)
  then show ?case using trim_right_snoc[of "us # s" x] trim_right_snoc[of s x] by auto
qed (simp add: trim_right_def)

lemma Join_Cons: "Join (w # ws) sep = (if ws = [] then w else w @ sep @ Join ws sep)"
  by (cases ws) auto

lemma us_words_empty: "us_words s = [] \<Longrightarrow> trim_right s = []"
proof (induction s)
  case (Cons c s)
  then show ?case by (cases "c = us") (auto simp: us_words_Cons trim_right_us)
qed (simp add: trim_right_def)

lemma trim_right_words:
  "\<not> Contains s [us, us] \<Longrightarrow> s = [] \<or> hd s \<noteq> us \<Longrightarrow> trim_right s = Join (us_words s) [us]"
proof (induction "length s" arbitrary: s rule: less_induct)
  case less
  show ?case
  proof (cases s)
    case (Cons c t)
    with less.prems have c: "c \<noteq> us" by simp
    let ?w = "takeWhile (\<lambda>x. x \<noteq> us) t" and ?r = "dropWhile (\<lambda>x. x \<noteq> us) t"
    have app: "trim_right (u @ v) = (if trim_right v = [] then trim_right u else u @ trim_right v)" for u v
    proof (induction v rule: rev_induct)
      case (snoc x v)
      then show ?case by (simp add: trim_right_snoc flip: append_assoc)
    qed (simp add: trim_right_def)
    have wr: "trim_right (c # ?w) = c # ?w"
    proof -
      have "dropWhile (\<lambda>c. c = us) (rev (c # ?w)) = rev (c # ?w)"
        using c by (intro dropWhile_eq_self_iff[THEN iffD2]) (metis (mono_tags, lifting) last_in_set
          hd_rev list.set_intros rev_is_Nil_conv set_ConsD set_takeWhileD)
      then show ?thesis by (simp add: trim_right_def)
    qed
    have s: "s = (c # ?w) @ ?r" using Cons by simp
    show ?thesis
    proof (cases ?r)
      case Nil
      have "us_words s = [c # ?w]" unfolding Cons us_words_Cons[OF c] Nil by simp
      moreover have "s = c # ?w" using s unfolding Nil by simp
      ultimately show ?thesis using wr by simp
    next
      case (Cons d r)
      then have d: "d = us" using hd_dropWhile[of "\<lambda>x. x \<noteq> us" t] by simp
      have s': "s = (c # ?w) @ us # r" using s Cons d by simp
      have nr: "\<not> Contains (us # r) [us, us]"
        using less.prems(1) s' by (metis Contains_iff append_assoc)
      then have r1: "\<not> Contains r [us, us]" "r = [] \<or> hd r \<noteq> us"
        by (cases r; auto simp: Contains_Cons HasPrefix_def)+
      have "length r < length s" using s' by simp
      from less.hyps[OF this r1] have ih: "trim_right r = Join (us_words r) [us]" .
      have ww: "us_words s = (c # ?w) # us_words r"
        using us_words_Cons[OF c, of t] Cons d \<open>s = c # t\<close> by simp
      have je: "Join ws [us] = [] \<longleftrightarrow> ws = []" if "[] \<notin> set ws" for ws
        using that by (cases ws; cases "tl ws") auto
      have "[] \<notin> set (us_words r)" by (simp add: us_words_def)
      with ih je have e: "trim_right r = [] \<longleftrightarrow> us_words r = []" by simp
      have "trim_right s = (if us_words r = [] then c # ?w else (c # ?w) @ [us] @ Join (us_words r) [us])"
        unfolding s' app trim_right_us using wr e ih by auto
      then show ?thesis unfolding ww Join_Cons .
    qed
  qed (simp add: trim_right_def)
qed

lemma Trim_us_words: "\<not> Contains s [us, us] \<Longrightarrow> Trim_us s = Join (us_words s) [us]"
proof -
  assume n: "\<not> Contains s [us, us]"
  let ?t = "dropWhile (\<lambda>c. c = us) s"
  have "us_words (dropWhile (\<lambda>c. c = us) s) = us_words s"
    by (induction s) auto
  moreover have "\<not> Contains ?t [us, us]"
    using n by (metis Contains_iff append_assoc takeWhile_dropWhile_id)
  moreover have "?t = [] \<or> hd ?t \<noteq> us" using hd_dropWhile[of "\<lambda>c. c = us" s] by blast
  ultimately show ?thesis using trim_right_words[of ?t] by (simp add: Trim_us_def trim_right_def)
qed

text \<open>
  The file name computed from a host name by the loop (map unsafe characters to underscores,
  merge underscores until none are adjacent, trim) is what its comment promises: the maximal runs
  of safe characters of the host name, in order, joined by single underscores. In particular the
  loop terminates and the result has no two adjacent underscores and none at either end.
\<close>

theorem sanitizeFilename_words:
  "sanitizeFilename h =
     Join (filter (\<lambda>w. w \<noteq> []) (Split CHR ''_'' (map (\<lambda>c. if safe_char c then c else CHR ''_'') h))) ''_''"
proof -
  let ?s = "map (\<lambda>c. if safe_char c then c else us) h"
  have "sanitizeFilename h = Join (us_words (collapse ?s)) [us]"
    unfolding sanitizeFilename_def by (rule Trim_us_words[OF collapse_single])
  then show ?thesis unfolding us_words_collapse unfolding us_words_def us_def .
qed

end
