(* ===== verification/Caddy_Files.thy ===== *)
theory Caddy_Files
  imports Caddy_Build Acl_Store "HOL-Library.AList"
begin

text \<open>
  The configuration file and its backups, \<open>backend/internal/caddy/file_manager.go\<close>. The file
  system maps path names to regular files (contents and modification time) and is changed by a
  few system calls only. Each operation of the manager yields the list of system calls it issues,
  so that the state another process sees between any two of them is a prefix of that list. A
  predicate says which calls of the standard library fail; a failing write has stored the first
  \<open>short\<close> bytes. Time is in seconds, in a zone without daylight saving.
\<close>

section \<open>The file system\<close>

record fs_file =
  fl_data :: string
  fl_mtime :: int

record fs =
  fs_dirs :: "string list"
  fs_files :: "(string \<times> fs_file) list"

datatype syscall =
    MkdirAll string
  | Creat string
  | Append string string
  | Rename string string
  | Remove string

definition file_at :: "fs \<Rightarrow> string \<Rightarrow> fs_file option" where
  "file_at f path = map_of (fs_files f) path"

definition contents :: "fs \<Rightarrow> string \<Rightarrow> string option" where
  "contents f path = map_option fl_data (file_at f path)"

definition put_file :: "string \<Rightarrow> fs_file \<Rightarrow> fs \<Rightarrow> fs" where
  "put_file path x f = f\<lparr>fs_files := AList.update path x (fs_files f)\<rparr>"

definition del_file :: "string \<Rightarrow> fs \<Rightarrow> fs" where
  "del_file path f = f\<lparr>fs_files := AList.delete path (fs_files f)\<rparr>"

text \<open>A created file is empty, whether it existed or not; a rename replaces its target.\<close>

fun sys :: "int \<Rightarrow> syscall \<Rightarrow> fs \<Rightarrow> fs" where
  "sys now (MkdirAll d) f = f\<lparr>fs_dirs := List.insert d (fs_dirs f)\<rparr>"
| "sys now (Creat p) f = put_file p \<lparr>fl_data = [], fl_mtime = now\<rparr> f"
| "sys now (Append p bs) f =
     (case file_at f p of
        None \<Rightarrow> f
      | Some x \<Rightarrow> put_file p \<lparr>fl_data = fl_data x @ bs, fl_mtime = now\<rparr> f)"
| "sys now (Rename p q) f =
     (case file_at f p of None \<Rightarrow> f | Some x \<Rightarrow> if p = q then f else del_file p (put_file q x f))"
| "sys now (Remove p) f = del_file p f"

definition run :: "int \<Rightarrow> syscall list \<Rightarrow> fs \<Rightarrow> fs" where
  "run now cs f = fold (sys now) cs f"

section \<open>The file manager\<close>

record FileManager =
  fm_basePath :: string
  fm_backupDir :: string
  fm_jsonConfigName :: string

definition NewFileManager :: "string \<Rightarrow> FileManager" where
  "NewFileManager basePath =
     \<lparr>fm_basePath = basePath, fm_backupDir = filepath_Join [basePath, ''backup''],
      fm_jsonConfigName = ''caddy.json''\<rparr>"

definition GetJSONConfigPath :: "FileManager \<Rightarrow> string" where
  "GetJSONConfigPath m = filepath_Join [fm_basePath m, fm_jsonConfigName m]"

definition GetBackupDir :: "FileManager \<Rightarrow> string" where
  "GetBackupDir m = fm_backupDir m"

datatype io_error =
    MkdirFailed | CreateTempFailed | WriteFailed | FsyncFailed | CloseFailed | ChmodFailed
  | RenameFailed | ReadFailed | OpenFailed | CreateDstFailed | ReadDirFailed

type_synonym io_result = "syscall list \<times> io_error option"

definition EnsureDirectories :: "faults \<Rightarrow> FileManager \<Rightarrow> io_result" where
  "EnsureDirectories flt m =
     (if flt (''MkdirAll '' @ fm_basePath m) then ([], Some MkdirFailed)
      else if flt (''MkdirAll '' @ fm_backupDir m) then ([MkdirAll (fm_basePath m)], Some MkdirFailed)
      else ([MkdirAll (fm_basePath m), MkdirAll (fm_backupDir m)], None))"

text \<open>A missing file is not an error: the result is Go's \<open>nil\<close> slice.\<close>

definition ReadJSONConfig :: "faults \<Rightarrow> fs \<Rightarrow> string \<Rightarrow> (io_error, string option) result" where
  "ReadJSONConfig flt f path =
     (case contents f path of
        None \<Rightarrow> Ok None
      | Some d \<Rightarrow> if flt ''ReadFile'' then Err ReadFailed else Ok (Some d))"

definition ConfigChanged :: "faults \<Rightarrow> fs \<Rightarrow> string \<Rightarrow> string \<Rightarrow> (io_error, bool) result" where
  "ConfigChanged flt f path newData =
     (case ReadJSONConfig flt f path of
        Inl e \<Rightarrow> Err e
      | Inr None \<Rightarrow> Ok True
      | Inr (Some currentData) \<Rightarrow> Ok (currentData \<noteq> newData))"

definition FileExists :: "faults \<Rightarrow> fs \<Rightarrow> string \<Rightarrow> bool" where
  "FileExists flt f path \<longleftrightarrow> \<not> flt ''Stat'' \<and> file_at f path \<noteq> None"

text \<open>\<open>filepath.Dir\<close> and \<open>filepath.Base\<close> of the paths the manager uses, which end in a file name.\<close>

definition filepath_Base :: "string \<Rightarrow> string" where
  "filepath_Base path = last (Split CHR ''/'' path)"

definition filepath_Dir :: "string \<Rightarrow> string" where
  "filepath_Dir path = filepath_Clean (Join (butlast (Split CHR ''/'' path) @ [[]]) ''/'')"

subsection \<open>Writing\<close>

text \<open>
  \<open>os.CreateTemp\<close> opens a name that does not exist yet, the pattern with its star replaced by
  \<open>rnd\<close>; when it finds none it fails. The deferred call removes the temporary file on every error
  path.
\<close>

definition temp_path :: "string \<Rightarrow> string \<Rightarrow> string" where
  "temp_path path rnd =
     (let dir = filepath_Dir path in
      (if HasSuffix dir ''/'' then dir else dir @ ''/'') @ ''.tmp_'' @ rnd)"

definition atomicWriteBytes :: "faults \<Rightarrow> nat \<Rightarrow> string \<Rightarrow> fs \<Rightarrow> string \<Rightarrow> string \<Rightarrow> io_result" where
  "atomicWriteBytes flt short rnd f path data =
     (let dir = filepath_Dir path;
          tmp = temp_path path rnd;
          cleanup = (if flt ''Remove'' then [] else [Remove tmp])
      in if flt ''MkdirAll'' then ([], Some MkdirFailed)
         else if flt ''CreateTemp'' \<or> file_at f tmp \<noteq> None then ([MkdirAll dir], Some CreateTempFailed)
         else if flt ''Write'' then
           ([MkdirAll dir, Creat tmp, Append tmp (take short data)] @ cleanup, Some WriteFailed)
         else
           let written = [MkdirAll dir, Creat tmp, Append tmp data] in
           if flt ''Sync'' then (written @ cleanup, Some FsyncFailed)
           else if flt ''Close'' then (written @ cleanup, Some CloseFailed)
           else if flt ''Chmod'' then (written @ cleanup, Some ChmodFailed)
           else if flt ''Rename'' then (written @ cleanup, Some RenameFailed)
           else (written @ [Rename tmp path], None))"

definition WriteJSONConfig :: "faults \<Rightarrow> nat \<Rightarrow> string \<Rightarrow> fs \<Rightarrow> string \<Rightarrow> string \<Rightarrow> io_result" where
  "WriteJSONConfig flt short rnd f path data = atomicWriteBytes flt short rnd f path data"

subsection \<open>Backups\<close>

definition copyFile :: "faults \<Rightarrow> nat \<Rightarrow> fs \<Rightarrow> string \<Rightarrow> string \<Rightarrow> io_result" where
  "copyFile flt short f src dst =
     (case contents f src of
        None \<Rightarrow> ([], Some OpenFailed)
      | Some d \<Rightarrow>
          if flt ''Open'' then ([], Some OpenFailed)
          else if flt ''Create'' then ([], Some CreateDstFailed)
          else if flt ''Copy'' then ([Creat dst, Append dst (take short d)], Some WriteFailed)
          else if flt ''CopySync'' then ([Creat dst, Append dst d], Some FsyncFailed)
          else ([Creat dst, Append dst d], None))"

text \<open>
  \<open>time.Format\<close> with the layout \<open>20060102_150405\<close>: the civil date of a day number counted from
  1970-01-01 (in eras of 400 years that start on March 1), then the time of day.
\<close>

definition civil_from_days :: "int \<Rightarrow> int \<times> int \<times> int" where
  "civil_from_days z0 =
     (let z = z0 + 719468;
          era = z div 146097;
          doe = z mod 146097;
          yoe = (doe - doe div 1460 + doe div 36524 - doe div 146096) div 365;
          doy = doe - (365 * yoe + yoe div 4 - yoe div 100);
          mp = (5 * doy + 2) div 153;
          d = doy - (153 * mp + 2) div 5 + 1;
          m = (if mp < 10 then mp + 3 else mp - 9)
      in (yoe + era * 400 + (if m \<le> 2 then 1 else 0), m, d))"

definition pad :: "nat \<Rightarrow> int \<Rightarrow> string" where
  "pad w i = replicate (w - length (Itoa i)) CHR ''0'' @ Itoa i"

definition timestamp :: "int \<Rightarrow> string" where
  "timestamp now =
     (let (y, m, d) = civil_from_days (now div 86400); s = now mod 86400 in
      pad 4 y @ pad 2 m @ pad 2 d @ ''_'' @
      pad 2 (s div 3600) @ pad 2 (s div 60 mod 60) @ pad 2 (s mod 60))"

definition backup_path :: "FileManager \<Rightarrow> int \<Rightarrow> string \<Rightarrow> string" where
  "backup_path m now path =
     filepath_Join [fm_backupDir m, filepath_Base path @ ''.'' @ timestamp now @ ''.backup'']"

definition BackupJSONConfig ::
  "faults \<Rightarrow> nat \<Rightarrow> int \<Rightarrow> FileManager \<Rightarrow> fs \<Rightarrow> string \<Rightarrow> io_result" where
  "BackupJSONConfig flt short now m f path =
     (if file_at f path = None then ([], None)
      else if flt ''MkdirAll backup'' then ([], Some MkdirFailed)
      else
        let (cs, err) = copyFile flt short f path (backup_path m now path)
        in (MkdirAll (fm_backupDir m) # cs, err))"

definition DefaultRetentionDays :: int where "DefaultRetentionDays = 7"

definition retention :: "int \<Rightarrow> int" where
  "retention retentionDays = (if retentionDays \<le> 0 then DefaultRetentionDays else retentionDays)"

definition in_dir :: "string \<Rightarrow> string \<Rightarrow> bool" where
  "in_dir d p \<longleftrightarrow> (let pre = d @ ''/'' in HasPrefix p pre \<and> CHR ''/'' \<notin> set (drop (length pre) p))"

text \<open>The entries of the backup directory that the loop removes; a failed removal goes on.\<close>

definition expired :: "int \<Rightarrow> int \<Rightarrow> string \<times> fs_file \<Rightarrow> bool" where
  "expired now retentionDays e \<longleftrightarrow>
     HasSuffix (fst e) ''.backup'' \<and> fl_mtime (snd e) < now - retention retentionDays * 86400"

definition CleanupOldBackupsByAge :: "faults \<Rightarrow> int \<Rightarrow> FileManager \<Rightarrow> fs \<Rightarrow> int \<Rightarrow> io_result" where
  "CleanupOldBackupsByAge flt now m f retentionDays =
     (if \<not> List.member (fs_dirs f) (fm_backupDir m) then ([], None)
      else if flt ''ReadDir'' then ([], Some ReadDirFailed)
      else
        (map (\<lambda>e. Remove (fst e))
          (filter (\<lambda>e. in_dir (fm_backupDir m) (fst e) \<and> \<not> flt (''Info '' @ fst e) \<and>
                       expired now retentionDays e \<and> \<not> flt (''Remove '' @ fst e))
             (fs_files f)), None))"

section \<open>Lemmas\<close>

lemma file_at_put [simp]: "file_at (put_file p x f) q = (if q = p then Some x else file_at f q)"
  by (simp add: file_at_def put_file_def update_conv)

lemma file_at_del [simp]: "file_at (del_file p f) q = (if q = p then None else file_at f q)"
  by (simp add: file_at_def del_file_def delete_conv)

lemma file_at_dirs [simp]: "file_at (f\<lparr>fs_dirs := ds\<rparr>) q = file_at f q"
  by (simp add: file_at_def)

lemma run_simps [simp]:
  "run now [] f = f" "run now (c # cs) f = run now cs (sys now c f)"
  "run now (cs @ ds) f = run now ds (run now cs f)"
  by (simp_all add: run_def)

text \<open>The paths a call writes: a call that writes elsewhere leaves a file as it is.\<close>

fun touches :: "syscall \<Rightarrow> string set" where
  "touches (MkdirAll d) = {}"
| "touches (Creat p) = {p}"
| "touches (Append p bs) = {p}"
| "touches (Rename p q) = {p, q}"
| "touches (Remove p) = {p}"

lemma sys_frame: "q \<notin> touches c \<Longrightarrow> file_at (sys now c f) q = file_at f q"
  by (cases c) (auto split: option.splits)

lemma run_frame: "q \<notin> \<Union> (touches ` set cs) \<Longrightarrow> file_at (run now cs f) q = file_at f q"
  by (induction cs arbitrary: f) (simp_all add: sys_frame)

lemma fs_dirs_sys: "set (fs_dirs f) \<subseteq> set (fs_dirs (sys now c f))"
  by (cases c) (auto simp: put_file_def del_file_def split: option.splits)

text \<open>
  Validating and reloading, \<open>backend/internal/caddy/reloader.go\<close>. The Caddy process is not part
  of the repository: \<open>caddy_env\<close> says how its command \<open>validate\<close> and its admin endpoint \<open>/load\<close>
  answer. A configuration that \<open>/load\<close> accepts with status 200 is the running one from then on;
  one it rejects leaves the running one in place, as its documentation promises; when no
  response arrives the configuration may have been applied or not.
\<close>

section \<open>The external program\<close>

datatype load_outcome =
    NoResponse bool
  | Response int string

text \<open>A failing command is given by what it wrote to its standard output and error streams.\<close>

record caddy_env =
  ce_validate :: "string option \<Rightarrow> (string \<times> string) option"
  ce_load :: "string \<Rightarrow> load_outcome"

section \<open>The reloader\<close>

record Reloader =
  rl_lastReload :: int
  rl_reloadCount :: int

record ReloadResult =
  rr_Success :: bool
  rr_Message :: string
  rr_Duration :: int
  rr_ReloadCount :: int

record ReloaderConfig =
  rc_CaddyBinary :: string
  rc_AdminAPIURL :: string

definition DefaultAdminAPIURL :: string where "DefaultAdminAPIURL = ''http://localhost:2019''"

definition NewReloader :: "ReloaderConfig \<Rightarrow> ReloaderConfig \<times> Reloader" where
  "NewReloader cfg =
     (\<lparr>rc_CaddyBinary = (if rc_CaddyBinary cfg = [] then ''caddy'' else rc_CaddyBinary cfg),
       rc_AdminAPIURL = (if rc_AdminAPIURL cfg = [] then DefaultAdminAPIURL else rc_AdminAPIURL cfg)\<rparr>,
      \<lparr>rl_lastReload = 0, rl_reloadCount = 0\<rparr>)"

datatype reload_error =
    ValidationError string string
  | ReadConfigFailed
  | RequestFailed
  | SendFailed
  | AdminStatus int string

fun error_line :: "string list \<Rightarrow> string option" where
  "error_line [] = None"
| "error_line (l # ls) =
     (let line = TrimSpace l in
      if Contains line ''Error:'' then Some (TrimPrefix line ''Error: '')
      else if Contains line ''error:'' then Some (TrimPrefix line ''error: '')
      else error_line ls)"

fun first_line :: "string list \<Rightarrow> string option" where
  "first_line [] = None"
| "first_line (l # ls) = (let line = TrimSpace l in if line \<noteq> [] then Some line else first_line ls)"

definition extractValidationError :: "string \<Rightarrow> string" where
  "extractValidationError out =
     (let lines = Split (CHR 0x0A) out in
      case error_line lines of
        Some e \<Rightarrow> e
      | None \<Rightarrow>
          (case first_line lines of
             Some l \<Rightarrow> l
           | None \<Rightarrow> ''validation failed with unknown error''))"

definition validation_error :: "string \<times> string \<Rightarrow> reload_error" where
  "validation_error streams =
     (let (stdout, stderr) = streams;
          out = (if TrimSpace stderr = [] then TrimSpace stdout else TrimSpace stderr)
      in ValidationError (extractValidationError out) out)"

definition ValidateJSON :: "caddy_env \<Rightarrow> fs \<Rightarrow> string \<Rightarrow> reload_error option" where
  "ValidateJSON ce f configPath = map_option validation_error (ce_validate ce (contents f configPath))"

text \<open>
  \<open>ReloadJSON\<close> returns what Caddy runs afterwards, the reloader's counters and the result. \<open>start\<close>
  and \<open>now\<close> are the two readings of the clock.
\<close>

definition ReloadJSON ::
  "caddy_env \<Rightarrow> faults \<Rightarrow> int \<Rightarrow> int \<Rightarrow> fs \<Rightarrow> string \<Rightarrow> string option \<Rightarrow> Reloader
    \<Rightarrow> string option \<times> Reloader \<times> (reload_error, ReloadResult) result" where
  "ReloadJSON ce flt start now f configPath running r =
     (case ce_validate ce (contents f configPath) of
        Some streams \<Rightarrow> (running, r, Err (validation_error streams))
      | None \<Rightarrow>
          (case contents f configPath of
             None \<Rightarrow> (running, r, Err ReadConfigFailed)
           | Some configData \<Rightarrow>
               if flt ''ReadFile reload'' then (running, r, Err ReadConfigFailed)
               else if flt ''NewRequest'' then (running, r, Err RequestFailed)
               else (case ce_load ce configData of
                   NoResponse applied \<Rightarrow>
                     (if applied then Some configData else running, r, Err SendFailed)
                 | Response status body \<Rightarrow>
                     if status \<noteq> 200 then (running, r, Err (AdminStatus status body))
                     else
                       let r1 = \<lparr>rl_lastReload = now, rl_reloadCount = rl_reloadCount r + 1\<rparr>
                       in (Some configData, r1,
                           Ok \<lparr>rr_Success = True,
                               rr_Message = ''JSON configuration reloaded successfully via admin API'',
                               rr_Duration = now - start, rr_ReloadCount = rl_reloadCount r1\<rparr>))))"

record ReloaderStatus =
  rs_CaddyBinary :: string
  rs_AdminAPIURL :: string
  rs_LastReload :: int
  rs_ReloadCount :: int

definition Reloader_GetStatus :: "ReloaderConfig \<Rightarrow> Reloader \<Rightarrow> ReloaderStatus" where
  "Reloader_GetStatus cfg r =
     \<lparr>rs_CaddyBinary = rc_CaddyBinary cfg, rs_AdminAPIURL = rc_AdminAPIURL cfg,
      rs_LastReload = rl_lastReload r, rs_ReloadCount = rl_reloadCount r\<rparr>"

section \<open>Lemmas\<close>

lemma ReloadJSON_Ok:
  assumes "ReloadJSON ce flt start now f path running r = (running', r', Ok res)"
  shows "running' = contents f path \<and> contents f path \<noteq> None \<and>
    rl_reloadCount r' = rl_reloadCount r + 1 \<and> rl_lastReload r' = now"
  using assms by (auto simp: ReloadJSON_def Let_def split: option.splits if_splits load_outcome.splits)

lemma ReloadJSON_running:
  "ReloadJSON ce flt start now f path running r = (running', r', res) \<Longrightarrow>
   running' = running \<or> running' = contents f path"
  by (auto simp: ReloadJSON_def Let_def split: option.splits if_splits load_outcome.splits)

lemma ReloadJSON_Err:
  "ReloadJSON ce flt start now f path running r = (running', r', Err e) \<Longrightarrow>
   r' = r \<and> (e \<noteq> SendFailed \<longrightarrow> running' = running)"
  by (auto simp: ReloadJSON_def Let_def validation_error_def
      split: option.splits if_splits load_outcome.splits prod.splits)

lemma error_line_NotNone:
  "error_line ls = None \<longleftrightarrow>
     list_all (\<lambda>l. \<not> Contains (TrimSpace l) ''Error:'' \<and> \<not> Contains (TrimSpace l) ''error:'') ls"
  by (induction ls) (auto simp: Let_def)

end
