(* ===== verification/Sync_Service.thy ===== *)
theory Sync_Service
  imports Caddy_Files L4_Service Caddy_Config_Props
begin

text \<open>
  The sync service, \<open>backend/internal/service/sync_service.go\<close>: from the database to the
  configuration file and the running Caddy. \<open>sync_conf\<close> is what the service is constructed with,
  \<open>sync_state\<close> its state together with the file system and Caddy, and \<open>sync_env\<close> what one run meets:
  the outcome of database and file operations, row and map orders, the encoder, the clock and
  Caddy's answers. Log output is left out. The shared builder is part of the state, as in the code.
\<close>

section \<open>State\<close>

record SyncStatus =
  sy_LastSyncTime :: int
  sy_IsSyncing :: bool
  sy_LastSyncSuccess :: bool
  sy_LastError :: string
  sy_SyncCount :: int
  sy_LastReloadTime :: int
  sy_ReloadCount :: int
  sy_ConfigChanged :: bool

record sync_conf =
  sc_acl :: bool
  sc_l4 :: bool
  sc_fm :: FileManager
  sc_retentionDays :: int
  sc_settings :: Settings

record sync_state =
  ss_status :: SyncStatus
  ss_builder :: Builder
  ss_fs :: fs
  ss_running :: "string option"
  ss_reloader :: Reloader

record sync_env =
  en_sorters :: sorters
  en_l4_sort :: "L4Route list \<Rightarrow> L4Route list"
  en_getenv :: environ
  en_marshal :: "json \<Rightarrow> string"
  en_order_proxies :: "Proxy order_by"
  en_order_groups :: "ACLGroup order_by"
  en_order_l4 :: "L4Proxy order_by"
  en_map_order :: "string list \<Rightarrow> string list"
  en_db_flt :: faults
  en_assign_flt :: "int \<Rightarrow> faults"
  en_io_flt :: faults
  en_short :: nat
  en_rnd :: string
  en_now :: int
  en_caddy :: caddy_env

datatype sync_error =
    ListProxiesFailed db_error
  | WriteConfigFailed io_error
  | ValidationFailed reload_error
  | ReloadFailed reload_error
  | SyncInProgress
  | GetProxyFailed db_error
  | SyncProxyNotFound
  | GetAssignmentsFailed db_error
  | BuildProxyFailed build_error

definition new_status :: SyncStatus where
  "new_status =
     \<lparr>sy_LastSyncTime = 0, sy_IsSyncing = False, sy_LastSyncSuccess = True, sy_LastError = [],
      sy_SyncCount = 0, sy_LastReloadTime = 0, sy_ReloadCount = 0, sy_ConfigChanged = False\<rparr>"

record SyncServiceConfig =
  cg_Email :: string
  cg_ACMEProvider :: string
  cg_ACMEResolvers :: "string list"
  cg_WaygatesVerifyURL :: string
  cg_WaygatesLoginURL :: string
  cg_StoragePath :: string
  cg_LogPath :: string
  cg_TrustedProxies :: "string list"
  cg_ClientIPHeaders :: "string list"

definition builder_settings :: "SyncServiceConfig \<Rightarrow> Settings" where
  "builder_settings cfg =
     \<lparr>cf_AdminEmail = cg_Email cfg, cf_ACMEProvider = cg_ACMEProvider cfg,
      cf_StoragePath = (if cg_StoragePath cfg = [] then ''/data'' else cg_StoragePath cfg),
      cf_LogPath = cg_LogPath cfg, cf_WaygatesVerifyURL = cg_WaygatesVerifyURL cfg,
      cf_WaygatesLoginURL = cg_WaygatesLoginURL cfg, cf_DNSCredentials = [],
      cf_ACMEResolvers = cg_ACMEResolvers cfg, cf_TrustedProxies = cg_TrustedProxies cfg,
      cf_ClientIPHeaders = cg_ClientIPHeaders cfg\<rparr>"

text \<open>The ACL builder always exists; it gets the same URLs as the settings.\<close>

definition newConfiguredBuilder :: "Settings \<Rightarrow> Builder" where
  "newConfiguredBuilder s =
     SetSettings (Some s)
       (NewBuilder (Some \<lparr>ab_waygatesVerifyURL = cf_WaygatesVerifyURL s,
                          ab_waygatesLoginURL = cf_WaygatesLoginURL s\<rparr>))"

definition initJSONBuilder :: "SyncServiceConfig \<Rightarrow> Builder" where
  "initJSONBuilder cfg =
     SetSettings (Some (builder_settings cfg))
       (NewBuilder (Some \<lparr>ab_waygatesVerifyURL = cg_WaygatesVerifyURL cfg,
                          ab_waygatesLoginURL = cg_WaygatesLoginURL cfg\<rparr>))"

definition NewSyncService :: "SyncServiceConfig \<Rightarrow> fs \<Rightarrow> string option \<Rightarrow> Reloader \<Rightarrow> sync_state" where
  "NewSyncService cfg f running r =
     \<lparr>ss_status = new_status, ss_builder = initJSONBuilder cfg, ss_fs = f, ss_running = running,
      ss_reloader = r\<rparr>"

section \<open>Building the configuration\<close>

text \<open>The set of names is a Go map: its order of iteration is a parameter.\<close>

definition extractL4TLSHostnames :: "(string list \<Rightarrow> string list) \<Rightarrow> L4Proxy list \<Rightarrow> string list" where
  "extractL4TLSHostnames map_order proxies =
     map_order (remdups (concat (map (\<lambda>p. if \<not> l4_IsActive p then [] else
        concat (map (\<lambda>r. if l4r_TLSTerminate r \<and> l4r_MatcherType r = ''tls''
                         then filter (\<lambda>h. h \<noteq> []) (l4r_SNIHostnames r) else []) (l4_Routes p))) proxies)))"

definition sync_proxies :: ProxyListParams where
  "sync_proxies = all_proxies\<lparr>pl_Limit := 10000\<rparr>"

definition sync_groups :: ACLGroupListParams where
  "sync_groups = \<lparr>gl_Page = 1, gl_Limit = 10000, gl_Search = [], gl_Sort = [], gl_Order = []\<rparr>"

definition sync_l4 :: L4ProxyListParams where
  "sync_l4 = every_l4\<lparr>ll_IsActive := Some True\<rparr>"

text \<open>Groups and assignments; a failing query only leaves its part out.\<close>

definition load_groups :: "sync_conf \<Rightarrow> sync_env \<Rightarrow> app_db \<Rightarrow> ACLGroup list" where
  "load_groups sc en db =
     (if \<not> sc_acl sc then []
      else case ListGroups_repo (en_db_flt en) (en_order_groups en) sync_groups (db_acl db) of
          Inl _ \<Rightarrow> []
        | Inr (groups, _) \<Rightarrow> groups)"

definition load_assignments :: "sync_conf \<Rightarrow> sync_env \<Rightarrow> app_db \<Rightarrow> Proxy list \<Rightarrow> ProxyACLAssignment list" where
  "load_assignments sc en db proxies =
     (if \<not> sc_acl sc then []
      else concat (map (\<lambda>p. case GetProxyACLAssignments (en_assign_flt en (px_ID p)) (px_ID p) (db_acl db) of
                               Inl _ \<Rightarrow> []
                             | Inr as \<Rightarrow> as) proxies))"

definition load_l4 :: "sync_conf \<Rightarrow> sync_env \<Rightarrow> app_db \<Rightarrow> Layer4App option \<times> string list" where
  "load_l4 sc en db =
     (if \<not> sc_l4 sc then (None, [])
      else case L4_List_repo (en_db_flt en) (en_order_l4 en) sync_l4 db of
          Inl _ \<Rightarrow> (None, [])
        | Inr (proxies, _) \<Rightarrow>
            if proxies = [] then (None, [])
            else
              let app = BuildL4Config (en_l4_sort en) proxies
              in (if app \<noteq> [] then Some app else None, extractL4TLSHostnames (en_map_order en) proxies))"

definition BuildJSON :: "sync_env \<Rightarrow> Builder \<Rightarrow> string" where
  "BuildJSON en b = en_marshal en (json_CaddyConfig (Build (en_sorters en) (en_getenv en) b))"

definition buildConfigBytes ::
  "sync_conf \<Rightarrow> sync_env \<Rightarrow> app_db \<Rightarrow> Builder \<Rightarrow> Builder \<times> (sync_error, string) result" where
  "buildConfigBytes sc en db b =
     (case Proxy_List (en_db_flt en) (en_order_proxies en) (\<lambda>_. []) sync_proxies (db_acl db) of
        Inl e \<Rightarrow> (b, Err (ListProxiesFailed e))
      | Inr (items, _) \<Rightarrow>
          let proxies = map fst items;
              (app, hostnames) = load_l4 sc en db;
              b1 = b\<lparr>bd_layer4App := app, bd_l4TLSHostnames := hostnames, bd_httpProxies := proxies\<rparr>;
              b2 = SetACLAssignments (load_assignments sc en db proxies) (SetACLGroups (load_groups sc en db) b1);
              b3 = b2\<lparr>bd_notFound := Some (GetNotFoundSettings (en_db_flt en) (db_settings db)),
                      bd_metricsPublish := Some (GetMetricsPublishSettings (en_db_flt en) (db_settings db))\<rparr>
          in (b3, Ok (BuildJSON en b3)))"

definition GenerateConfigJSON ::
  "sync_conf \<Rightarrow> sync_env \<Rightarrow> app_db \<Rightarrow> sync_state \<Rightarrow> sync_state \<times> (sync_error, string) result" where
  "GenerateConfigJSON sc en db st =
     (let (b, r) = buildConfigBytes sc en db (ss_builder st) in (st\<lparr>ss_builder := b\<rparr>, r))"

section \<open>The preview of one proxy\<close>

definition BuildSingleProxy ::
  "sorters \<Rightarrow> Builder \<Rightarrow> Proxy \<Rightarrow> (build_error, HTTPServer \<times> TLSApp option) result" where
  "BuildSingleProxy so b proxy =
     (case buildProxyRoutes so b proxy of
        Inl e \<Rightarrow> Err e
      | Inr routes \<Rightarrow>
          Ok (\<lparr>hs_Listen = ['':443''], hs_Routes = routes, hs_TrustedProxies = None, hs_ClientIPHeaders = [],
               hs_Logs = False, hs_Metrics = False\<rparr>,
              if px_SSLEnabled proxy then NewTLSApp [px_Hostname proxy] else None))"

text \<open>The groups preloaded with the assignments, each once; a group with key 0 is skipped.\<close>

fun preview_groups :: "int list \<Rightarrow> ProxyACLAssignment list \<Rightarrow> ACLGroup list" where
  "preview_groups seen [] = []"
| "preview_groups seen (a # as) =
     (case pa_ACLGroup a of
        Some g \<Rightarrow>
          if gr_ID g \<noteq> 0 \<and> gr_ID g \<notin> set seen then g # preview_groups (gr_ID g # seen) as
          else preview_groups seen as
      | None \<Rightarrow> preview_groups seen as)"

definition GenerateProxyConfigJSON ::
  "sync_conf \<Rightarrow> sync_env \<Rightarrow> app_db \<Rightarrow> int \<Rightarrow> (sync_error, HTTPServer \<times> TLSApp option) result" where
  "GenerateProxyConfigJSON sc en db proxyID =
     (case Proxy_GetByID (en_db_flt en) proxyID (db_acl db) of
        Inl e \<Rightarrow> Err (if e = RecordNotFound then SyncProxyNotFound else GetProxyFailed e)
      | Inr proxy \<Rightarrow>
          (case (if sc_acl sc then GetProxyACLAssignments (en_assign_flt en proxyID) proxyID (db_acl db) else Ok []) of
             Inl e \<Rightarrow> Err (GetAssignmentsFailed e)
           | Inr assignments \<Rightarrow>
               let b = SetACLAssignments assignments
                         (SetACLGroups (preview_groups [] assignments) (newConfiguredBuilder (sc_settings sc)))
               in (case BuildSingleProxy (en_sorters en) b proxy of
                     Inl e \<Rightarrow> Err (BuildProxyFailed e)
                   | Inr c \<Rightarrow> Ok c)))"

section \<open>Synchronising\<close>

text \<open>
  The file operations of one run, in order: backup, clean-up and write, each on the file system
  the one before left. Only a failing write is an error.
\<close>

definition write_config ::
  "sync_conf \<Rightarrow> sync_env \<Rightarrow> fs \<Rightarrow> string \<Rightarrow> fs \<times> io_error option" where
  "write_config sc en f data =
     (let path = GetJSONConfigPath (sc_fm sc);
          f1 = run (en_now en)
            (fst (BackupJSONConfig (en_io_flt en) (en_short en) (en_now en) (sc_fm sc) f path)) f;
          f2 = run (en_now en)
            (fst (CleanupOldBackupsByAge (en_io_flt en) (en_now en) (sc_fm sc) f1 (sc_retentionDays sc))) f1;
          (cs, err) = WriteJSONConfig (en_io_flt en) (en_short en) (en_rnd en) f2 path data
      in (run (en_now en) cs f2, err))"

definition performFullSyncJSON ::
  "sync_conf \<Rightarrow> sync_env \<Rightarrow> app_db \<Rightarrow> sync_state \<Rightarrow> sync_state \<times> sync_error option" where
  "performFullSyncJSON sc en db st =
     (let (b, built) = buildConfigBytes sc en db (ss_builder st);
          st = st\<lparr>ss_builder := b\<rparr>;
          path = GetJSONConfigPath (sc_fm sc)
      in case built of
           Inl e \<Rightarrow> (st, Some e)
         | Inr configBytes \<Rightarrow>
             let configChanged =
               (case ConfigChanged (en_io_flt en) (ss_fs st) path configBytes of Inl _ \<Rightarrow> True | Inr c \<Rightarrow> c)
             in if \<not> configChanged
                then (st\<lparr>ss_status := (ss_status st)\<lparr>sy_ConfigChanged := False\<rparr>\<rparr>, None)
                else
                  let (f, werr) = write_config sc en (ss_fs st) configBytes;
                      st = st\<lparr>ss_fs := f\<rparr>
                  in case werr of
                       Some e \<Rightarrow> (st, Some (WriteConfigFailed e))
                     | None \<Rightarrow>
                         (case ValidateJSON (en_caddy en) f path of
                            Some e \<Rightarrow> (st, Some (ValidationFailed e))
                          | None \<Rightarrow>
                              (case ReloadJSON (en_caddy en) (en_io_flt en) (en_now en) (en_now en) f path
                                      (ss_running st) (ss_reloader st) of
                                 (running, r, res) \<Rightarrow>
                                   let st = st\<lparr>ss_running := running, ss_reloader := r\<rparr>
                                   in case res of
                                        Inl e \<Rightarrow> (st, Some (ReloadFailed e))
                                      | Inr _ \<Rightarrow>
                                          (st\<lparr>ss_status := (ss_status st)\<lparr>sy_ConfigChanged := True,
                                              sy_LastReloadTime := en_now en,
                                              sy_ReloadCount := sy_ReloadCount (ss_status st) + 1\<rparr>\<rparr>, None))))"

definition performFullSync ::
  "sync_conf \<Rightarrow> sync_env \<Rightarrow> app_db \<Rightarrow> sync_state \<Rightarrow> sync_state \<times> sync_error option" where
  "performFullSync sc en db st = performFullSyncJSON sc en db st"

text \<open>\<open>err.Error()\<close>: the text is never inspected; it is not empty for the errors above.\<close>

definition error_text :: "sync_error \<Rightarrow> string" where
  "error_text e =
     (case e of
        ListProxiesFailed _ \<Rightarrow> ''failed to build JSON config: failed to list proxies''
      | WriteConfigFailed _ \<Rightarrow> ''failed to write JSON config''
      | ValidationFailed _ \<Rightarrow> ''JSON config validation failed''
      | ReloadFailed _ \<Rightarrow> ''failed to reload Caddy with JSON config''
      | SyncInProgress \<Rightarrow> ''sync already in progress''
      | GetProxyFailed _ \<Rightarrow> ''getting proxy''
      | SyncProxyNotFound \<Rightarrow> ''proxy not found''
      | GetAssignmentsFailed _ \<Rightarrow> ''failed to get proxy ACL assignments''
      | BuildProxyFailed _ \<Rightarrow> ''failed to build proxy config'')"

definition setError :: "sync_error \<Rightarrow> sync_state \<Rightarrow> sync_state" where
  "setError e st =
     st\<lparr>ss_status := (ss_status st)\<lparr>sy_LastSyncSuccess := False, sy_LastError := error_text e\<rparr>\<rparr>"

definition finish_sync :: "int \<Rightarrow> sync_state \<Rightarrow> sync_state" where
  "finish_sync now st = st\<lparr>ss_status := (ss_status st)\<lparr>sy_IsSyncing := False, sy_LastSyncTime := now\<rparr>\<rparr>"

definition FullSync :: "sync_conf \<Rightarrow> sync_env \<Rightarrow> app_db \<Rightarrow> sync_state \<Rightarrow> sync_state \<times> sync_error option" where
  "FullSync sc en db st =
     (if sy_IsSyncing (ss_status st) then (st, Some SyncInProgress)
      else
        case performFullSync sc en db (st\<lparr>ss_status := (ss_status st)\<lparr>sy_IsSyncing := True\<rparr>\<rparr>) of
          (st1, Some e) \<Rightarrow> (finish_sync (en_now en) (setError e st1), Some e)
        | (st1, None) \<Rightarrow>
            (finish_sync (en_now en)
               (st1\<lparr>ss_status := (ss_status st1)\<lparr>sy_LastSyncSuccess := True, sy_LastError := [],
                    sy_SyncCount := sy_SyncCount (ss_status st1) + 1\<rparr>\<rparr>), None))"

definition SyncProxyWithACL ::
  "sync_conf \<Rightarrow> sync_env \<Rightarrow> Proxy \<Rightarrow> app_db \<Rightarrow> sync_state \<Rightarrow> sync_state \<times> sync_error option" where
  "SyncProxyWithACL sc en proxy db st = performFullSyncJSON sc en db st"

definition SyncProxy ::
  "sync_conf \<Rightarrow> sync_env \<Rightarrow> Proxy \<Rightarrow> app_db \<Rightarrow> sync_state \<Rightarrow> sync_state \<times> sync_error option" where
  "SyncProxy sc en proxy db st = SyncProxyWithACL sc en proxy db st"

definition SyncProxyByID ::
  "sync_conf \<Rightarrow> sync_env \<Rightarrow> int \<Rightarrow> app_db \<Rightarrow> sync_state \<Rightarrow> sync_state \<times> sync_error option" where
  "SyncProxyByID sc en proxyID db st =
     (case Proxy_GetByID (en_db_flt en) proxyID (db_acl db) of
        Inl e \<Rightarrow> (st, Some (GetProxyFailed e))
      | Inr proxy \<Rightarrow> SyncProxyWithACL sc en proxy db st)"

definition RemoveProxy ::
  "sync_conf \<Rightarrow> sync_env \<Rightarrow> int \<Rightarrow> string \<Rightarrow> app_db \<Rightarrow> sync_state \<Rightarrow> sync_state \<times> sync_error option" where
  "RemoveProxy sc en proxyID hostname db st = performFullSyncJSON sc en db st"

definition Sync_EnableProxy ::
  "sync_conf \<Rightarrow> sync_env \<Rightarrow> int \<Rightarrow> string \<Rightarrow> app_db \<Rightarrow> sync_state \<Rightarrow> sync_state \<times> sync_error option" where
  "Sync_EnableProxy sc en proxyID hostname db st = performFullSyncJSON sc en db st"

definition Sync_DisableProxy ::
  "sync_conf \<Rightarrow> sync_env \<Rightarrow> int \<Rightarrow> string \<Rightarrow> app_db \<Rightarrow> sync_state \<Rightarrow> sync_state \<times> sync_error option" where
  "Sync_DisableProxy sc en proxyID hostname db st = performFullSyncJSON sc en db st"

definition UpdateCatchAll ::
  "sync_conf \<Rightarrow> sync_env \<Rightarrow> app_db \<Rightarrow> sync_state \<Rightarrow> sync_state \<times> sync_error option" where
  "UpdateCatchAll sc en db st = performFullSyncJSON sc en db st"

section \<open>Start-up\<close>

definition ensureInitialJSONConfig ::
  "sync_conf \<Rightarrow> sync_env \<Rightarrow> sync_state \<Rightarrow> sync_state \<times> sync_error option" where
  "ensureInitialJSONConfig sc en st =
     (let path = GetJSONConfigPath (sc_fm sc) in
      if FileExists (en_io_flt en) (ss_fs st) path then (st, None)
      else
        let b = SetACLAssignments [] (SetACLGroups []
                  ((ss_builder st)\<lparr>bd_httpProxies := [], bd_layer4App := None,
                     bd_notFound := Some \<lparr>nf_Mode = ''default'', nf_RedirectURL = []\<rparr>\<rparr>));
            (cs, err) = WriteJSONConfig (en_io_flt en) (en_short en) (en_rnd en) (ss_fs st) path (BuildJSON en b)
        in (st\<lparr>ss_builder := b, ss_fs := run (en_now en) cs (ss_fs st)\<rparr>, map_option WriteConfigFailed err))"

definition ensureInitialConfigs ::
  "sync_conf \<Rightarrow> sync_env \<Rightarrow> sync_state \<Rightarrow> sync_state \<times> sync_error option" where
  "ensureInitialConfigs sc en st = ensureInitialJSONConfig sc en st"

text \<open>
  \<open>Start\<close> ensures the directories and an initial file, logs what fails, and runs \<open>FullSync\<close> once
  after a delay and then at every tick; the calls that follow are the list \<open>ticks\<close> of what each
  run meets.
\<close>

fun periodic :: "sync_conf \<Rightarrow> (sync_env \<times> app_db) list \<Rightarrow> sync_state \<Rightarrow> sync_state" where
  "periodic sc [] st = st"
| "periodic sc ((en, db) # ticks) st = periodic sc ticks (fst (FullSync sc en db st))"

definition Start :: "sync_conf \<Rightarrow> sync_env \<Rightarrow> (sync_env \<times> app_db) list \<Rightarrow> sync_state \<Rightarrow> sync_state" where
  "Start sc en ticks st =
     (let f = run (en_now en) (fst (EnsureDirectories (en_io_flt en) (sc_fm sc))) (ss_fs st);
          st1 = fst (ensureInitialConfigs sc en (st\<lparr>ss_fs := f\<rparr>))
      in periodic sc ticks st1)"

end
