(* ===== verification/Sync_Atomic.thy ===== *)
theory Sync_Atomic
  imports Sync_Service
begin

text \<open>
  The configuration file is replaced atomically, whatever fails and whenever another process
  looks, and the clean-up removes expired backups only.
\<close>

section \<open>Writing\<close>

text \<open>A property of the file system before, between and after the calls of a list.\<close>

fun always :: "(fs \<Rightarrow> bool) \<Rightarrow> int \<Rightarrow> syscall list \<Rightarrow> fs \<Rightarrow> bool" where
  "always P now [] f = P f"
| "always P now (c # cs) f = (P f \<and> always P now cs (sys now c f))"

lemma always_iff: "always P now cs f \<longleftrightarrow> (\<forall>k. P (run now (take k cs) f))"
proof (induction cs arbitrary: f)
  case (Cons c cs)
  have "(\<forall>k. P (run now (take k (c # cs)) f)) \<longleftrightarrow>
      P (run now (take 0 (c # cs)) f) \<and> (\<forall>k. P (run now (take (Suc k) (c # cs)) f))"
    by (metis not0_implies_Suc)
  then show ?case by (simp add: Cons.IH)
qed simp

definition is_digit_char :: "char \<Rightarrow> bool" where
  "is_digit_char c \<longleftrightarrow> List.member ''0123456789'' c"

text \<open>The configuration path ends in the file name, which no temporary name does.\<close>

lemma HasSuffix_Join: "HasSuffix (Join (xs @ [y]) sep) y"
proof (induction xs)
  case (Cons x xs)
  then obtain t where "Join (xs @ [y]) sep = t @ y" by (auto simp: HasSuffix_iff)
  then have "Join ((x # xs) @ [y]) sep = (x @ sep @ t) @ y"
    by (cases "xs @ [y]") auto
  then show ?case by (simp only: HasSuffix_append)
qed (simp add: HasSuffix_def)

lemma clean_parts_last:
  "p \<noteq> [] \<Longrightarrow> p \<noteq> ''.'' \<Longrightarrow> p \<noteq> ''..'' \<Longrightarrow> \<exists>xs. clean_parts rooted (ps @ [p]) out = xs @ [p]"
proof (induction ps arbitrary: out)
  case (Cons q ps)
  then show ?case by (auto split: list.split)
qed simp

lemma Clean_last:
  assumes "p \<noteq> []" "p \<noteq> ''.''" "p \<noteq> ''..''" "CHR ''/'' \<notin> set p"
  shows "HasSuffix (filepath_Clean (d @ ''/'' @ p)) p" "HasSuffix (filepath_Clean p) p"
proof -
  have s: "Split CHR ''/'' (d @ CHR ''/'' # p) = Split CHR ''/'' d @ [p]"
  proof (induction d)
    case (Cons c d)
    then show ?case by (cases "Split CHR ''/'' d") auto
  qed (simp add: Split_literal[OF assms(4)])
  have j: "HasSuffix (Join (clean_parts r (ps @ [p]) []) ''/'') p" for r ps
    using clean_parts_last[OF assms(1-3), of r ps "[]"] HasSuffix_Join by metis
  have c: "HasSuffix (c # t) p" if "HasSuffix t p" for c t
    using that by (metis HasSuffix_iff append_Cons)
  have ne: "t \<noteq> []" if "HasSuffix t p" for t using that assms(1) by (auto simp: HasSuffix_iff)
  show "HasSuffix (filepath_Clean (d @ ''/'' @ p)) p"
    using c[OF j] j[of _ "Split CHR ''/'' d"] ne[OF j[of _ "Split CHR ''/'' d"]]
    by (auto simp: filepath_Clean_def Let_def s)
  show "HasSuffix (filepath_Clean p) p"
    using c[OF j[of _ "[]"]] j[of _ "[]"] ne[OF j[of _ "[]"]] assms(1)
    by (auto simp: filepath_Clean_def Let_def Split_literal[OF assms(4)])
qed

lemma config_path_suffix: "fm_jsonConfigName m = ''caddy.json'' \<Longrightarrow> HasSuffix (GetJSONConfigPath m) ''caddy.json''"
  using Clean_last(1)[of "''caddy.json''" "fm_basePath m"] Clean_last(2)[of "''caddy.json''"]
  by (auto simp: GetJSONConfigPath_def filepath_Join_def Let_def)

lemma temp_path_neq:
  assumes "fm_jsonConfigName m = ''caddy.json''" "list_all is_digit_char rnd"
  shows "temp_path (GetJSONConfigPath m) rnd \<noteq> GetJSONConfigPath m"
proof
  let ?p = "GetJSONConfigPath m"
  assume e: "temp_path ?p rnd = ?p"
  obtain u where u: "?p = u @ ''caddy.json''" using config_path_suffix[OF assms(1)] by (auto simp: HasSuffix_iff)
  obtain v where v: "temp_path ?p rnd = v @ ''.tmp_'' @ rnd" by (auto simp: temp_path_def Let_def)
  have "last (v @ ''.tmp_'' @ rnd) = last (u @ ''caddy.json'')"
    unfolding v[symmetric] u[symmetric] e ..
  also have "\<dots> = CHR ''n''" by simp
  finally have "last (v @ ''.tmp_'' @ rnd) = CHR ''n''" .
  moreover have "last rnd \<noteq> CHR ''n''" if "rnd \<noteq> []"
  proof -
    have "is_digit_char (last rnd)" using last_in_set[OF that] assms(2) by (simp add: list_all_iff)
    moreover have "\<not> is_digit_char CHR ''n''" by (simp add: is_digit_char_def)
    ultimately show ?thesis by metis
  qed
  ultimately show False by (cases "rnd = []") auto
qed

lemma atomic_frame:
  "atomicWriteBytes flt short rnd f path data = (cs, err) \<Longrightarrow> q \<noteq> path \<Longrightarrow> q \<noteq> temp_path path rnd \<Longrightarrow>
   file_at (run now cs f) q = file_at f q"
  by (rule run_frame) (auto simp: atomicWriteBytes_def Let_def split: if_splits)

lemma atomic_write_ok:
  assumes "atomicWriteBytes flt short rnd f path data = (cs, None)" "temp_path path rnd \<noteq> path"
  shows "contents (run now cs f) path = Some data \<and> file_at (run now cs f) (temp_path path rnd) = None"
  using assms by (auto simp: atomicWriteBytes_def Let_def contents_def split: if_splits)

lemma atomic_write_failed:
  assumes "atomicWriteBytes flt short rnd f path data = (cs, Some e)" "temp_path path rnd \<noteq> path"
  shows "file_at (run now cs f) path = file_at f path"
  using assms by (intro run_frame) (auto simp: atomicWriteBytes_def Let_def split: if_splits)

text \<open>
  C24. The configuration file is written atomically: whichever system call fails, and at whichever
  point between two calls another process reads the file, it holds either its old contents or the
  complete new ones; the write reports success exactly when the new ones are in place; and a
  failed write leaves the old file and, unless its removal fails too, no temporary file.
\<close>

theorem atomic_write:
  assumes "fm_jsonConfigName m = ''caddy.json''" "list_all is_digit_char rnd"
    and "WriteJSONConfig flt short rnd f (GetJSONConfigPath m) data = (cs, err)"
  shows "(\<forall>k. contents (run now (take k cs) f) (GetJSONConfigPath m)
            \<in> {contents f (GetJSONConfigPath m), Some data}) \<and>
    (err = None \<longrightarrow> contents (run now cs f) (GetJSONConfigPath m) = Some data) \<and>
    (err \<noteq> None \<longrightarrow> file_at (run now cs f) (GetJSONConfigPath m) = file_at f (GetJSONConfigPath m)) \<and>
    (\<not> flt ''Remove'' \<and> file_at f (temp_path (GetJSONConfigPath m) rnd) = None \<longrightarrow>
       file_at (run now cs f) (temp_path (GetJSONConfigPath m) rnd) = None)"
proof -
  let ?p = "GetJSONConfigPath m" and ?t = "temp_path (GetJSONConfigPath m) rnd"
  have ne: "?t \<noteq> ?p" using temp_path_neq[OF assms(1,2)] .
  have w: "atomicWriteBytes flt short rnd f ?p data = (cs, err)" using assms(3) by (simp add: WriteJSONConfig_def)
  have "\<forall>k. contents (run now (take k cs) f) ?p \<in> {contents f ?p, Some data}"
    using w ne unfolding always_iff[symmetric, where P = "\<lambda>g. contents g ?p \<in> {contents f ?p, Some data}"]
    by (auto simp: atomicWriteBytes_def Let_def contents_def split: if_splits)
  moreover have "\<not> flt ''Remove'' \<and> file_at f ?t = None \<longrightarrow> file_at (run now cs f) ?t = None"
    using w ne by (auto simp: atomicWriteBytes_def Let_def split: if_splits)
  ultimately show ?thesis
    using atomic_write_ok[of flt short rnd f ?p data cs now] atomic_write_failed[of flt short rnd f ?p data cs _ now] w ne
    by auto
qed

definition demo_fm :: FileManager where
  "demo_fm = NewFileManager ''/etc/caddy''"

definition demo_fs :: fs where
  "demo_fs =
     \<lparr>fs_dirs = [''/etc/caddy'', ''/etc/caddy/backup''],
      fs_files = [(''/etc/caddy/caddy.json'', \<lparr>fl_data = ''old'', fl_mtime = 0\<rparr>),
                  (''/etc/caddy/backup/caddy.json.19700101_000000.backup'', \<lparr>fl_data = ''older'', fl_mtime = 0\<rparr>)]\<rparr>"

lemma demo_config_path: "GetJSONConfigPath demo_fm = ''/etc/caddy/caddy.json''"
  by (simp add: demo_fm_def GetJSONConfigPath_def NewFileManager_def filepath_Join_def filepath_Clean_def
      Let_def HasPrefix_def)

lemma demo_backup_dir: "fm_backupDir demo_fm = ''/etc/caddy/backup''"
  by (simp add: demo_fm_def NewFileManager_def filepath_Join_def filepath_Clean_def Let_def HasPrefix_def)

theorem atomic_write_witness:
  "\<exists>cs. WriteJSONConfig (\<lambda>c. c = ''Write'') 1 ''7'' demo_fs (GetJSONConfigPath demo_fm) ''new'' = (cs, Some WriteFailed) \<and>
     (\<forall>k. contents (run 5 (take k cs) demo_fs) (GetJSONConfigPath demo_fm) \<in> {Some ''old'', Some ''new''}) \<and>
     contents (run 5 cs demo_fs) (GetJSONConfigPath demo_fm) = Some ''old''"
proof -
  let ?w = "WriteJSONConfig (\<lambda>c. c = ''Write'') 1 ''7'' demo_fs (GetJSONConfigPath demo_fm) ''new''"
  have old: "contents demo_fs (GetJSONConfigPath demo_fm) = Some ''old''"
    by (simp add: demo_config_path demo_fs_def contents_def file_at_def)
  have e: "snd ?w = Some WriteFailed"
    by (simp add: WriteJSONConfig_def atomicWriteBytes_def Let_def demo_config_path temp_path_def
        filepath_Dir_def filepath_Clean_def HasPrefix_def HasSuffix_def demo_fs_def file_at_def)
  then obtain cs where cs: "?w = (cs, Some WriteFailed)" by (metis prod.collapse)
  have "fm_jsonConfigName demo_fm = ''caddy.json''" "list_all is_digit_char ''7''"
    by (simp_all add: demo_fm_def NewFileManager_def is_digit_char_def)
  from atomic_write[OF this cs, of 5] old cs show ?thesis by (auto simp: contents_def)
qed

section \<open>Cleaning up\<close>

lemma run_Remove:
  "file_at (run now (map (\<lambda>e. Remove (fst e)) es) f) q = (if q \<in> fst ` set es then None else file_at f q)"
  by (induction es arbitrary: f) auto

text \<open>
  The clean-up removes nothing but expired backups: a file that differs afterwards was a
  \<open>.backup\<close> file in the backup directory, older than the retention period (seven days when none
  is configured), and it is gone; and when no call fails, every such backup is gone.
\<close>

theorem cleanup_exact:
  assumes "distinct (map fst (fs_files f))"
  shows "let f' = run now (fst (CleanupOldBackupsByAge flt now m f days)) f;
             old = (\<lambda>q. in_dir (fm_backupDir m) q \<and> HasSuffix q ''.backup'' \<and>
               (\<exists>x. file_at f q = Some x \<and> fl_mtime x < now - (if days \<le> 0 then 7 else days) * 86400))
         in (file_at f' q \<noteq> file_at f q \<longrightarrow> old q \<and> file_at f' q = None) \<and>
            ((\<forall>c. \<not> flt c) \<and> List.member (fs_dirs f) (fm_backupDir m) \<and> old q \<longrightarrow> file_at f' q = None)"
proof -
  have at: "(q, x) \<in> set (fs_files f) \<longleftrightarrow> file_at f q = Some x" for x
    using assms by (simp add: file_at_def)
  show ?thesis
    unfolding Let_def
    by (auto simp: CleanupOldBackupsByAge_def run_Remove expired_def retention_def DefaultRetentionDays_def
        at image_iff split: if_splits)
qed

theorem cleanup_exact_witness:
  "distinct (map fst (fs_files demo_fs)) \<and>
   file_at (run 1000000 (fst (CleanupOldBackupsByAge no_faults 1000000 demo_fm demo_fs 0)) demo_fs)
     ''/etc/caddy/backup/caddy.json.19700101_000000.backup'' = None"
proof
  show d: "distinct (map fst (fs_files demo_fs))" by (simp add: demo_fs_def)
  let ?q = "''/etc/caddy/backup/caddy.json.19700101_000000.backup''"
  have "in_dir (fm_backupDir demo_fm) ?q \<and> HasSuffix ?q ''.backup''" "List.member (fs_dirs demo_fs) (fm_backupDir demo_fm)"
    "\<forall>c. \<not> no_faults c" "\<exists>x. file_at demo_fs ?q = Some x \<and> fl_mtime x < 1000000 - 7 * 86400"
    by (simp_all add: demo_backup_dir in_dir_def HasPrefix_def HasSuffix_def demo_fs_def no_faults_def file_at_def)
  then show "file_at (run 1000000 (fst (CleanupOldBackupsByAge no_faults 1000000 demo_fm demo_fs 0)) demo_fs) ?q = None"
    using cleanup_exact[OF d, of 1000000 no_faults demo_fm 0 ?q] by (simp add: Let_def)
qed

end
