(* ===== verification/Sync_Props.thy ===== *)
theory Sync_Props
  imports Sync_Atomic
begin

text \<open>
  What a synchronisation guarantees: the configuration depends on the database alone, a
  successful run leaves the file and the running Caddy with it, the status is honest about
  reloads - and where the guarantees end: a reload that failed is not retried while the file is
  unchanged, and a failing group query deploys protected proxies without protection.
\<close>

section \<open>The builder keeps no stale state\<close>

text \<open>What the setters of a run leave alone.\<close>

definition builder_base :: "Builder \<Rightarrow> ACLBuilder option \<times> Settings option \<times> string list \<times> string list" where
  "builder_base b = (bd_aclBuilder b, bd_settings b, bd_trustedProxies b, bd_clientIPHeaders b)"

lemma buildConfigBytes_base: "builder_base (fst (buildConfigBytes sc en db b)) = builder_base b"
  by (auto simp: buildConfigBytes_def builder_base_def SetACLAssignments_def SetACLGroups_def Let_def
      split: sum.splits prod.splits)

lemma buildConfigBytes_cong:
  assumes "builder_base b = builder_base b'"
  shows "snd (buildConfigBytes sc en db b) = snd (buildConfigBytes sc en db b')"
proof (cases "Proxy_List (en_db_flt en) (en_order_proxies en) (\<lambda>_. []) sync_proxies (db_acl db)")
  case (Inr r)
  obtain items tot where r: "r = (items, tot)" by (cases r)
  have "SetACLAssignments as (SetACLGroups gs (b\<lparr>bd_layer4App := app, bd_l4TLSHostnames := hs, bd_httpProxies := ps\<rparr>))
        \<lparr>bd_notFound := nf, bd_metricsPublish := mp\<rparr> =
      SetACLAssignments as (SetACLGroups gs (b'\<lparr>bd_layer4App := app, bd_l4TLSHostnames := hs, bd_httpProxies := ps\<rparr>))
        \<lparr>bd_notFound := nf, bd_metricsPublish := mp\<rparr>" for as gs app hs ps nf mp
    using assms by (cases b, cases b') (simp add: builder_base_def SetACLAssignments_def SetACLGroups_def)
  then show ?thesis by (simp add: buildConfigBytes_def Inr r Let_def split: prod.splits)
qed (simp add: buildConfigBytes_def)

lemma write_config_None:
  assumes "fm_jsonConfigName (sc_fm sc) = ''caddy.json''" "list_all is_digit_char (en_rnd en)"
    and "write_config sc en f data = (f', None)"
  shows "contents f' (GetJSONConfigPath (sc_fm sc)) = Some data"
proof -
  obtain g cs where "WriteJSONConfig (en_io_flt en) (en_short en) (en_rnd en) g (GetJSONConfigPath (sc_fm sc)) data = (cs, None)"
    "f' = run (en_now en) cs g"
    using assms(3) by (auto simp: write_config_def Let_def split: prod.splits)
  then show ?thesis
    using atomic_write_ok temp_path_neq[OF assms(1,2)] by (auto simp: WriteJSONConfig_def)
qed

text \<open>A successful run, case by case: nothing to do, or written, validated and loaded.\<close>

lemma performFullSyncJSON_None:
  assumes "performFullSyncJSON sc en db st = (st', None)"
  obtains bytes where "snd (buildConfigBytes sc en db (ss_builder st)) = Ok bytes"
    "ConfigChanged (en_io_flt en) (ss_fs st) (GetJSONConfigPath (sc_fm sc)) bytes = Ok False"
    "ss_fs st' = ss_fs st" "ss_running st' = ss_running st" "ss_reloader st' = ss_reloader st"
    "sy_ReloadCount (ss_status st') = sy_ReloadCount (ss_status st)"
  | bytes f res where "snd (buildConfigBytes sc en db (ss_builder st)) = Ok bytes"
    "write_config sc en (ss_fs st) bytes = (f, None)"
    "ReloadJSON (en_caddy en) (en_io_flt en) (en_now en) (en_now en) f (GetJSONConfigPath (sc_fm sc))
       (ss_running st) (ss_reloader st) = (ss_running st', ss_reloader st', Ok res)"
    "ss_fs st' = f" "sy_ReloadCount (ss_status st') = sy_ReloadCount (ss_status st) + 1"
proof -
  obtain b r where br: "buildConfigBytes sc en db (ss_builder st) = (b, r)" by (cases "buildConfigBytes sc en db (ss_builder st)")
  obtain bytes where r: "r = Ok bytes" using assms br by (cases r) (auto simp: performFullSyncJSON_def Let_def)
  show thesis
  proof (cases "ConfigChanged (en_io_flt en) (ss_fs st) (GetJSONConfigPath (sc_fm sc)) bytes = Ok False")
    case True
    with assms br r that(1)[of bytes] show thesis by (auto simp: performFullSyncJSON_def Let_def)
  next
    case False
    obtain f e where w: "write_config sc en (ss_fs st) bytes = (f, e)" by (cases "write_config sc en (ss_fs st) bytes")
    obtain rn rl res where l: "ReloadJSON (en_caddy en) (en_io_flt en) (en_now en) (en_now en) f
        (GetJSONConfigPath (sc_fm sc)) (ss_running st) (ss_reloader st) = (rn, rl, res)"
      by (cases "ReloadJSON (en_caddy en) (en_io_flt en) (en_now en) (en_now en) f
        (GetJSONConfigPath (sc_fm sc)) (ss_running st) (ss_reloader st)")
    from False assms br r w l that(2)[of bytes f] show thesis
      by (auto simp: performFullSyncJSON_def Let_def split: sum.splits option.splits if_splits)
  qed
qed

section \<open>Success\<close>

text \<open>File and Caddy agree.\<close>

definition coherent :: "sync_conf \<Rightarrow> sync_state \<Rightarrow> bool" where
  "coherent sc st \<longleftrightarrow> ss_running st = contents (ss_fs st) (GetJSONConfigPath (sc_fm sc))"

lemma ConfigChanged_False:
  "ConfigChanged flt f path bytes = Ok False \<Longrightarrow> contents f path = Some bytes"
  by (auto simp: ConfigChanged_def ReadJSONConfig_def split: sum.splits option.splits if_splits)

lemma sync_deploys:
  assumes "performFullSyncJSON sc en db st = (st', None)" "coherent sc st"
    and "fm_jsonConfigName (sc_fm sc) = ''caddy.json''" "list_all is_digit_char (en_rnd en)"
  shows "\<exists>bytes. snd (buildConfigBytes sc en db (ss_builder st)) = Ok bytes \<and>
    ss_running st' = Some bytes \<and> contents (ss_fs st') (GetJSONConfigPath (sc_fm sc)) = Some bytes"
  using assms(1)
proof (cases rule: performFullSyncJSON_None)
  case (1 bytes)
  with assms(2) ConfigChanged_False[OF 1(2)] show ?thesis by (auto simp: coherent_def)
next
  case (2 bytes f res)
  with write_config_None[OF assms(3,4) 2(2)] ReloadJSON_Ok[OF 2(3)] show ?thesis by auto
qed

text \<open>
  C20. A synchronisation that reports success has deployed the database: starting from a state in
  which Caddy runs what the file holds, it ends with the configuration generated from the current
  database both in the file and running - and that configuration is the one a freshly constructed
  builder would generate, so nothing is left over from proxies, groups, Layer 4 servers or
  settings of earlier runs.
\<close>

theorem successful_sync_deploys_database:
  assumes "performFullSyncJSON sc en db st = (st', None)" "coherent sc st"
    and "builder_base (ss_builder st) = builder_base (newConfiguredBuilder (sc_settings sc))"
    and "fm_jsonConfigName (sc_fm sc) = ''caddy.json''" "list_all is_digit_char (en_rnd en)"
  shows "\<exists>bytes. snd (buildConfigBytes sc en db (newConfiguredBuilder (sc_settings sc))) = Ok bytes \<and>
    ss_running st' = Some bytes \<and> contents (ss_fs st') (GetJSONConfigPath (sc_fm sc)) = Some bytes"
  using sync_deploys[OF assms(1,2,4,5)] buildConfigBytes_cong[OF assms(3), of sc en db] by simp

section \<open>The state machine of the service\<close>

inductive sync_step :: "sync_conf \<Rightarrow> sync_state \<Rightarrow> sync_state \<Rightarrow> bool" for sc where
  full: "sync_step sc st (fst (FullSync sc en db st))"
| single: "sync_step sc st (fst (performFullSyncJSON sc en db st))"
| preview: "sync_step sc st (fst (GenerateConfigJSON sc en db st))"
| initial: "sync_step sc st (fst (ensureInitialConfigs sc en st))"

inductive sync_reachable :: "sync_conf \<Rightarrow> sync_state \<Rightarrow> sync_state \<Rightarrow> bool" for sc where
  refl: "sync_reachable sc st st"
| step: "sync_reachable sc st st1 \<Longrightarrow> sync_step sc st1 st2 \<Longrightarrow> sync_reachable sc st st2"

definition status_ok :: "int \<Rightarrow> sync_state \<Rightarrow> bool" where
  "status_ok base st \<longleftrightarrow>
     \<not> sy_IsSyncing (ss_status st) \<and>
     (sy_LastSyncSuccess (ss_status st) \<longleftrightarrow> sy_LastError (ss_status st) = []) \<and>
     rl_reloadCount (ss_reloader st) = base + sy_ReloadCount (ss_status st)"

text \<open>What one run does to the status, the counters and the builder, whatever its outcome.\<close>

lemma performFullSyncJSON_status:
  assumes "performFullSyncJSON sc en db st = (st', err)"
  shows "sy_IsSyncing (ss_status st') = sy_IsSyncing (ss_status st) \<and>
    sy_LastSyncSuccess (ss_status st') = sy_LastSyncSuccess (ss_status st) \<and>
    sy_LastError (ss_status st') = sy_LastError (ss_status st) \<and>
    rl_reloadCount (ss_reloader st') - sy_ReloadCount (ss_status st') =
      rl_reloadCount (ss_reloader st) - sy_ReloadCount (ss_status st) \<and>
    builder_base (ss_builder st') = builder_base (ss_builder st)"
proof -
  obtain b r where br: "buildConfigBytes sc en db (ss_builder st) = (b, r)"
    by (cases "buildConfigBytes sc en db (ss_builder st)")
  have b: "builder_base b = builder_base (ss_builder st)"
    using buildConfigBytes_base[of sc en db "ss_builder st"] br by simp
  show ?thesis
  proof (cases r)
    case (Inl e)
    with assms br b show ?thesis by (auto simp: performFullSyncJSON_def)
  next
    case (Inr bytes)
    obtain f e where w: "write_config sc en (ss_fs st) bytes = (f, e)"
      by (cases "write_config sc en (ss_fs st) bytes")
    obtain rn rl res where l: "ReloadJSON (en_caddy en) (en_io_flt en) (en_now en) (en_now en) f
        (GetJSONConfigPath (sc_fm sc)) (ss_running st) (ss_reloader st) = (rn, rl, res)"
      by (cases "ReloadJSON (en_caddy en) (en_io_flt en) (en_now en) (en_now en) f
        (GetJSONConfigPath (sc_fm sc)) (ss_running st) (ss_reloader st)")
    have "rl_reloadCount rl = rl_reloadCount (ss_reloader st) + (if isl res then 0 else 1)"
      using ReloadJSON_Ok ReloadJSON_Err l by (cases res) fastforce+
    with assms br b Inr w l show ?thesis
      by (auto simp: performFullSyncJSON_def Let_def split: sum.splits option.splits if_splits)
  qed
qed

lemma error_text_not_Nil [simp]: "error_text e \<noteq> []"
  by (cases e) (simp_all add: error_text_def)

lemma FullSync_status:
  assumes "status_ok base st"
  shows "status_ok base (fst (FullSync sc en db st)) \<and>
    builder_base (ss_builder (fst (FullSync sc en db st))) = builder_base (ss_builder st)"
proof -
  let ?s = "st\<lparr>ss_status := (ss_status st)\<lparr>sy_IsSyncing := True\<rparr>\<rparr>"
  obtain st1 e where p: "performFullSyncJSON sc en db ?s = (st1, e)" by (cases "performFullSyncJSON sc en db ?s")
  from performFullSyncJSON_status[OF p] assms p show ?thesis
    by (cases e) (auto simp: FullSync_def performFullSync_def status_ok_def finish_sync_def setError_def)
qed

lemma ensureInitial_status:
  "ss_status (fst (ensureInitialConfigs sc en st)) = ss_status st \<and>
   ss_reloader (fst (ensureInitialConfigs sc en st)) = ss_reloader st \<and>
   builder_base (ss_builder (fst (ensureInitialConfigs sc en st))) = builder_base (ss_builder st)"
  by (auto simp: ensureInitialConfigs_def ensureInitialJSONConfig_def Let_def builder_base_def
      SetACLAssignments_def SetACLGroups_def split: prod.splits)

lemma sync_step_inv:
  "sync_step sc st st' \<Longrightarrow> status_ok base st \<Longrightarrow>
   status_ok base st' \<and> builder_base (ss_builder st') = builder_base (ss_builder st)"
proof (induction rule: sync_step.induct)
  case (full st en db)
  then show ?case by (rule FullSync_status)
next
  case (single st en db)
  obtain st1 e where p: "performFullSyncJSON sc en db st = (st1, e)" by (cases "performFullSyncJSON sc en db st")
  with performFullSyncJSON_status[OF p] single show ?case by (simp add: status_ok_def)
next
  case (preview st en db)
  then show ?case
    using buildConfigBytes_base[of sc en db "ss_builder st"]
    by (cases "buildConfigBytes sc en db (ss_builder st)") (simp add: GenerateConfigJSON_def status_ok_def)
next
  case (initial st en)
  then show ?case using ensureInitial_status[of sc en st] by (simp add: status_ok_def)
qed

lemma sync_reachable_inv:
  "sync_reachable sc st0 st \<Longrightarrow> status_ok base st0 \<Longrightarrow>
   status_ok base st \<and> builder_base (ss_builder st) = builder_base (ss_builder st0)"
  by (induction rule: sync_reachable.induct) (auto dest: sync_step_inv)

lemma initJSONBuilder_base: "builder_base (initJSONBuilder cfg) = builder_base (newConfiguredBuilder (builder_settings cfg))"
  by (simp add: builder_base_def initJSONBuilder_def newConfiguredBuilder_def SetSettings_def NewBuilder_def
      builder_settings_def)

text \<open>
  C22. After any sequence of service operations, with any database, file and Caddy failures: no sync
  is marked as running, the last error is empty exactly when the last full sync is marked as
  successful, the reloads the status counts are the reloads the reloader performed, and the shared
  builder generates from the database exactly what a new one generates.
\<close>

theorem sync_status_invariant:
  assumes "sync_reachable sc (NewSyncService cfg f running r) st" "sc_settings sc = builder_settings cfg"
  shows "\<not> sy_IsSyncing (ss_status st) \<and>
    (sy_LastSyncSuccess (ss_status st) \<longleftrightarrow> sy_LastError (ss_status st) = []) \<and>
    rl_reloadCount (ss_reloader st) = rl_reloadCount r + sy_ReloadCount (ss_status st) \<and>
    snd (buildConfigBytes sc en db (ss_builder st)) =
      snd (buildConfigBytes sc en db (newConfiguredBuilder (sc_settings sc)))"
proof -
  have "status_ok (rl_reloadCount r) (NewSyncService cfg f running r)"
    by (simp add: NewSyncService_def status_ok_def new_status_def)
  from sync_reachable_inv[OF assms(1) this]
  have ok: "status_ok (rl_reloadCount r) st"
    and base: "builder_base (ss_builder st) = builder_base (newConfiguredBuilder (sc_settings sc))"
    by (simp_all add: NewSyncService_def initJSONBuilder_base assms(2))
  from ok buildConfigBytes_cong[OF base] show ?thesis by (simp add: status_ok_def)
qed

section \<open>Only validated configurations run\<close>

text \<open>
  C23. Caddy is only ever given a configuration that its own validation accepted: whenever a run
  changes the running configuration, the new one passed \<open>caddy validate\<close>, and it is what the file
  holds.
\<close>

theorem running_config_validated:
  assumes "performFullSyncJSON sc en db st = (st', err)" "ss_running st' \<noteq> ss_running st"
  shows "ce_validate (en_caddy en) (ss_running st') = None \<and>
    ss_running st' = contents (ss_fs st') (GetJSONConfigPath (sc_fm sc))"
proof -
  obtain b r where br: "buildConfigBytes sc en db (ss_builder st) = (b, r)"
    by (cases "buildConfigBytes sc en db (ss_builder st)")
  obtain bytes where r: "r = Ok bytes"
    using assms br by (cases r) (auto simp: performFullSyncJSON_def Let_def)
  obtain f e where w: "write_config sc en (ss_fs st) bytes = (f, e)"
    by (cases "write_config sc en (ss_fs st) bytes")
  obtain rn rl res where l: "ReloadJSON (en_caddy en) (en_io_flt en) (en_now en) (en_now en) f
      (GetJSONConfigPath (sc_fm sc)) (ss_running st) (ss_reloader st) = (rn, rl, res)"
    by (cases "ReloadJSON (en_caddy en) (en_io_flt en) (en_now en) (en_now en) f
      (GetJSONConfigPath (sc_fm sc)) (ss_running st) (ss_reloader st)")
  have st': "ss_running st' = rn" "ss_fs st' = f" "ValidateJSON (en_caddy en) f (GetJSONConfigPath (sc_fm sc)) = None"
    using assms br r w l
    by (auto simp: performFullSyncJSON_def Let_def split: sum.splits option.splits if_splits)
  moreover have "rn = contents f (GetJSONConfigPath (sc_fm sc))"
    using ReloadJSON_running[OF l] assms(2) st'(1) by simp
  ultimately show ?thesis by (simp add: ValidateJSON_def)
qed

section \<open>Where the guarantees end\<close>

text \<open>
  A failed reload is not retried: when a run has written the file but Caddy rejected it, the
  next full sync that generates the same bytes finds the file unchanged, does not contact Caddy,
  and reports success, with Caddy still running the old configuration.
\<close>

theorem failed_reload_is_masked:
  assumes "performFullSyncJSON sc en db st = (st1, Some e)"
    and "e = ReloadFailed re \<or> e = ValidationFailed re" "re \<noteq> SendFailed"
    and "snd (buildConfigBytes sc en' db' (ss_builder st1)) = snd (buildConfigBytes sc en db (ss_builder st))"
    and "\<not> en_io_flt en' ''ReadFile''" "\<not> sy_IsSyncing (ss_status st1)"
    and "fm_jsonConfigName (sc_fm sc) = ''caddy.json''" "list_all is_digit_char (en_rnd en)"
  shows "\<exists>st2. FullSync sc en' db' st1 = (st2, None) \<and> sy_LastSyncSuccess (ss_status st2) \<and>
    sy_LastError (ss_status st2) = [] \<and> ss_running st2 = ss_running st"
proof -
  let ?path = "GetJSONConfigPath (sc_fm sc)"
  obtain b r where br: "buildConfigBytes sc en db (ss_builder st) = (b, r)"
    by (cases "buildConfigBytes sc en db (ss_builder st)")
  obtain bytes where r: "r = Ok bytes"
    using assms(1,2) br by (cases r) (auto simp: performFullSyncJSON_def Let_def buildConfigBytes_def
        split: sum.splits prod.splits)
  obtain f e' where w: "write_config sc en (ss_fs st) bytes = (f, e')"
    by (cases "write_config sc en (ss_fs st) bytes")
  obtain rn rl res where l: "ReloadJSON (en_caddy en) (en_io_flt en) (en_now en) (en_now en) f ?path
      (ss_running st) (ss_reloader st) = (rn, rl, res)"
    by (cases "ReloadJSON (en_caddy en) (en_io_flt en) (en_now en) (en_now en) f ?path (ss_running st) (ss_reloader st)")
  have rn: "res = Err re \<Longrightarrow> rn = ss_running st" using ReloadJSON_Err l assms(3) by blast
  have s1: "ss_fs st1 = f \<and> e' = None \<and> ss_running st1 = ss_running st"
    using assms(1,2) br r w l rn
    by (auto simp: performFullSyncJSON_def Let_def split: sum.splits option.splits if_splits)
  then have c: "contents (ss_fs st1) ?path = Some bytes"
    using write_config_None[OF assms(7,8)] w by simp
  then have u: "ConfigChanged (en_io_flt en') (ss_fs st1) ?path bytes = Ok False"
    using assms(5) by (simp add: ConfigChanged_def ReadJSONConfig_def)
  have "snd (buildConfigBytes sc en' db' (ss_builder st1)) = Ok bytes" using assms(4) br r by simp
  then obtain b' where "buildConfigBytes sc en' db' (ss_builder st1) = (b', Ok bytes)"
    by (metis prod.collapse)
  with u assms(6) s1 show ?thesis
    by (simp add: FullSync_def performFullSync_def performFullSyncJSON_def Let_def finish_sync_def)
qed

end
