(* ===== verification/Sync_Live.thy ===== *)
theory Sync_Live
  imports Sync_Props L4_Props Caddy_Format Caddy_Acl_Props
begin

text \<open>
  When nothing fails, a synchronisation succeeds; and the concrete installation on which the
  properties of the sync service are applied.
\<close>

section \<open>Liveness\<close>

lemma slash_not_digit: "d < 10 \<Longrightarrow> digit_char d \<noteq> CHR ''/''"
proof
  assume "d < 10" "digit_char d = CHR ''/''"
  then have "(of_char (digit_char d) :: nat) = 47" by simp
  with \<open>d < 10\<close> show False by (simp add: digit_char_def of_char_of)
qed

lemma slash_Itoa: "CHR ''/'' \<notin> set (Itoa i)"
  by (auto simp: Itoa_def dest!: nat_to_string_digits simp: slash_not_digit[symmetric])

lemma slash_pad: "CHR ''/'' \<notin> set (pad w i)"
  using slash_Itoa by (auto simp: pad_def)

lemma slash_timestamp: "CHR ''/'' \<notin> set (timestamp now)"
  using slash_pad by (auto simp: timestamp_def Let_def split: prod.splits)

lemma backup_path_suffix: "HasSuffix (backup_path m now path) ''.backup''"
proof -
  define n where "n = filepath_Base path @ ''.'' @ timestamp now @ ''.backup''"
  have "CHR ''/'' \<notin> set (filepath_Base path)"
    unfolding filepath_Base_def by (rule Split_sound[of _ _ path]) simp
  then have sl: "CHR ''/'' \<notin> set n" using slash_timestamp[of now] by (simp add: n_def)
  have "2 < length n" by (simp add: n_def)
  then have ne: "n \<noteq> []" "n \<noteq> ''.''" "n \<noteq> ''..''" by auto
  have "HasSuffix (backup_path m now path) n"
    unfolding backup_path_def n_def[symmetric]
    using Clean_last(1)[OF ne sl, of "fm_backupDir m"] Clean_last(2)[OF ne sl] ne(1)
    by (simp add: filepath_Join_def Let_def)
  then obtain t where "backup_path m now path = t @ n" by (auto simp: HasSuffix_iff)
  then have "backup_path m now path = (t @ filepath_Base path @ ''.'' @ timestamp now) @ ''.backup''"
    by (simp add: n_def)
  then show ?thesis by (simp only: HasSuffix_append)
qed

lemma temp_not_backup:
  assumes "list_all is_digit_char rnd" "HasSuffix q ''.backup''"
  shows "temp_path path rnd \<noteq> q"
proof
  assume e: "temp_path path rnd = q"
  obtain u where u: "q = u @ ''.backup''" using assms(2) by (auto simp: HasSuffix_iff)
  obtain v where v: "temp_path path rnd = v @ ''.tmp_'' @ rnd" by (auto simp: temp_path_def Let_def)
  have "last (v @ ''.tmp_'' @ rnd) = last (u @ ''.backup'')"
    unfolding v[symmetric] u[symmetric] e ..
  also have "\<dots> = CHR ''p''" by simp
  finally have l: "last (v @ ''.tmp_'' @ rnd) = CHR ''p''" .
  show False
  proof (cases "rnd = []")
    case False
    then have "is_digit_char (last rnd)" using assms(1) by (simp add: list_all_iff)
    moreover have "\<not> is_digit_char CHR ''p''" by (simp add: is_digit_char_def)
    ultimately show False using l False by (metis last_appendR append_is_Nil_conv)
  qed (use l in simp)
qed

lemma write_config_succeeds:
  assumes "\<forall>c. \<not> en_io_flt en c" "list_all is_digit_char (en_rnd en)"
    and "file_at f (temp_path (GetJSONConfigPath (sc_fm sc)) (en_rnd en)) = None"
  shows "snd (write_config sc en f data) = None"
proof -
  let ?path = "GetJSONConfigPath (sc_fm sc)"
  let ?tmp = "temp_path ?path (en_rnd en)"
  define cs1 where "cs1 = fst (BackupJSONConfig (en_io_flt en) (en_short en) (en_now en) (sc_fm sc) f ?path)"
  define f1 where "f1 = run (en_now en) cs1 f"
  define cs2 where "cs2 = fst (CleanupOldBackupsByAge (en_io_flt en) (en_now en) (sc_fm sc) f1 (sc_retentionDays sc))"
  define f2 where "f2 = run (en_now en) cs2 f1"
  have "?tmp \<noteq> backup_path (sc_fm sc) (en_now en) ?path"
    using assms(2) backup_path_suffix by (rule temp_not_backup)
  then have "file_at f1 ?tmp = file_at f ?tmp"
    unfolding f1_def cs1_def
    by (intro run_frame) (auto simp: BackupJSONConfig_def copyFile_def split: option.splits prod.splits if_splits)
  moreover have "file_at f2 ?tmp = file_at f1 ?tmp"
    unfolding f2_def cs2_def
    using temp_not_backup[OF assms(2)]
    by (intro run_frame) (auto simp: CleanupOldBackupsByAge_def expired_def)
  ultimately have "snd (WriteJSONConfig (en_io_flt en) (en_short en) (en_rnd en) f2 ?path data) = None"
    using assms(1,3) by (simp add: WriteJSONConfig_def atomicWriteBytes_def Let_def)
  then show ?thesis
    by (simp add: write_config_def Let_def case_prod_unfold f2_def cs2_def f1_def cs1_def)
qed

lemma buildConfigBytes_total:
  "\<forall>c. \<not> en_db_flt en c \<Longrightarrow> \<exists>bytes. snd (buildConfigBytes sc en db b) = Ok bytes"
  using Proxy_List_total[of "en_db_flt en" "en_order_proxies en" "\<lambda>_. []" sync_proxies "db_acl db"]
  by (auto simp: buildConfigBytes_def Let_def split: prod.splits)

text \<open>
  C25. When no database or file operation fails, the temporary name is free, and Caddy validates and
  loads what it is given, a full sync succeeds, and unless the file already had it Caddy is
  reloaded exactly once.
\<close>

theorem sync_succeeds:
  assumes "\<forall>c. \<not> en_db_flt en c" "\<forall>c. \<not> en_io_flt en c" "list_all is_digit_char (en_rnd en)"
    and "file_at (ss_fs st) (temp_path (GetJSONConfigPath (sc_fm sc)) (en_rnd en)) = None"
    and "\<forall>d. ce_validate (en_caddy en) d = None" "\<forall>d. \<exists>body. ce_load (en_caddy en) d = Response 200 body"
    and "fm_jsonConfigName (sc_fm sc) = ''caddy.json''" "\<not> sy_IsSyncing (ss_status st)"
  shows "\<exists>st'. FullSync sc en db st = (st', None) \<and> sy_LastSyncSuccess (ss_status st') \<and>
    sy_SyncCount (ss_status st') = sy_SyncCount (ss_status st) + 1 \<and>
    rl_reloadCount (ss_reloader st') \<in> {rl_reloadCount (ss_reloader st), rl_reloadCount (ss_reloader st) + 1}"
proof -
  let ?s = "st\<lparr>ss_status := (ss_status st)\<lparr>sy_IsSyncing := True\<rparr>\<rparr>" and ?path = "GetJSONConfigPath (sc_fm sc)"
  obtain bytes b where b: "buildConfigBytes sc en db (ss_builder st) = (b, Ok bytes)"
    using buildConfigBytes_total[OF assms(1), of sc db "ss_builder st"] by (metis prod.collapse)
  obtain f where w: "write_config sc en (ss_fs st) bytes = (f, None)"
    using write_config_succeeds[where en = en and sc = sc and f = "ss_fs st", OF assms(2-4), of bytes]
    by (metis prod.collapse)
  have c: "contents f ?path = Some bytes" using write_config_None[OF assms(7,3) w] .
  obtain body where "ce_load (en_caddy en) bytes = Response 200 body" using assms(6) by blast
  with c assms(2,5) b w show ?thesis
    using assms(8)
    by (cases "ConfigChanged (en_io_flt en) (ss_fs st) ?path bytes = Ok False")
      (auto simp: FullSync_def performFullSync_def performFullSyncJSON_def Let_def finish_sync_def
        ValidateJSON_def ReloadJSON_def split: sum.splits if_splits)
qed

section \<open>A concrete installation\<close>

definition demo_cfg :: SyncServiceConfig where
  "demo_cfg =
     \<lparr>cg_Email = ''ops@example.com'', cg_ACMEProvider = ''off'', cg_ACMEResolvers = [],
      cg_WaygatesVerifyURL = ''http://waygates:8080/api/auth/acl/verify'',
      cg_WaygatesLoginURL = ''https://login.example.com/login'', cg_StoragePath = [], cg_LogPath = [],
      cg_TrustedProxies = [], cg_ClientIPHeaders = []\<rparr>"

definition demo_sc :: sync_conf where
  "demo_sc =
     \<lparr>sc_acl = True, sc_l4 = True, sc_fm = demo_fm, sc_retentionDays = 7,
      sc_settings = builder_settings demo_cfg\<rparr>"

text \<open>Caddy accepts everything, or rejects every load; the encoder is a constant.\<close>

definition demo_caddy :: "bool \<Rightarrow> caddy_env" where
  "demo_caddy ok =
     \<lparr>ce_validate = (\<lambda>_. None), ce_load = (\<lambda>_. if ok then Response 200 [] else Response 500 ''no'')\<rparr>"

definition demo_en :: "bool \<Rightarrow> sync_env" where
  "demo_en ok =
     \<lparr>en_sorters = demo_sorters, en_l4_sort = sort_key l4r_Priority, en_getenv = (\<lambda>_. []),
      en_marshal = (\<lambda>_. ''new''), en_order_proxies = (\<lambda>_ _. rev), en_order_groups = (\<lambda>_ _. rev),
      en_order_l4 = (\<lambda>_ _. rev), en_map_order = (\<lambda>xs. xs), en_db_flt = no_faults,
      en_assign_flt = (\<lambda>_. no_faults), en_io_flt = no_faults, en_short = 0, en_rnd = ''7'', en_now = 100,
      en_caddy = demo_caddy ok\<rparr>"

definition demo_ss :: sync_state where
  "demo_ss = NewSyncService demo_cfg demo_fs (Some ''old'') \<lparr>rl_lastReload = 0, rl_reloadCount = 3\<rparr>"

lemma demo_en_simps [simp]:
  "\<not> en_db_flt (demo_en ok) c" "\<not> en_io_flt (demo_en ok) c" "en_rnd (demo_en ok) = ''7''"
  "is_digit_char CHR ''7''" "en_caddy (demo_en ok) = demo_caddy ok"
  by (simp_all add: demo_en_def no_faults_def is_digit_char_def)

lemma demo_sc_simps [simp]:
  "sc_fm demo_sc = demo_fm" "fm_jsonConfigName demo_fm = ''caddy.json''"
  "sc_settings demo_sc = builder_settings demo_cfg"
  by (simp_all add: demo_sc_def demo_fm_def NewFileManager_def)

lemma demo_ss_simps [simp]:
  "\<not> sy_IsSyncing (ss_status demo_ss)" "ss_fs demo_ss = demo_fs" "ss_running demo_ss = Some ''old''"
  "rl_reloadCount (ss_reloader demo_ss) = 3" "ss_builder demo_ss = initJSONBuilder demo_cfg"
  by (simp_all add: demo_ss_def NewSyncService_def new_status_def)

lemma demo_temp_free: "file_at demo_fs (temp_path (GetJSONConfigPath demo_fm) ''7'') = None"
  by (simp add: demo_config_path temp_path_def filepath_Dir_def filepath_Clean_def HasPrefix_def HasSuffix_def
      Let_def demo_fs_def file_at_def)

lemma demo_coherent: "coherent demo_sc demo_ss"
  by (simp add: coherent_def demo_config_path contents_def file_at_def demo_fs_def)

lemma demo_build: "snd (buildConfigBytes sc (demo_en ok) db b) = Ok ''new''"
proof -
  obtain bytes where b: "snd (buildConfigBytes sc (demo_en ok) db b) = Ok bytes"
    using buildConfigBytes_total[of "demo_en ok" sc db b] by auto
  then have "bytes = ''new''"
    by (auto simp: buildConfigBytes_def Let_def BuildJSON_def demo_en_def split: sum.splits prod.splits)
  with b show ?thesis by simp
qed

text \<open>One run on the demo state, with Caddy accepting or rejecting.\<close>

lemma demo_run:
  "\<exists>st. performFullSyncJSON demo_sc (demo_en ok) db demo_ss =
      (st, if ok then None else Some (ReloadFailed (AdminStatus 500 ''no''))) \<and>
    ss_running st = Some (if ok then ''new'' else ''old'') \<and> \<not> sy_IsSyncing (ss_status st)"
proof -
  obtain b where b: "buildConfigBytes demo_sc (demo_en ok) db (initJSONBuilder demo_cfg) = (b, Ok ''new'')"
    using demo_build[of demo_sc ok db "initJSONBuilder demo_cfg"] by (metis prod.collapse)
  obtain f e where fe: "write_config demo_sc (demo_en ok) demo_fs ''new'' = (f, e)"
    by (cases "write_config demo_sc (demo_en ok) demo_fs ''new''")
  then have w: "write_config demo_sc (demo_en ok) demo_fs ''new'' = (f, None)"
    using write_config_succeeds[where en = "demo_en ok" and sc = demo_sc and f = demo_fs and data = "''new''"]
      demo_temp_free by simp
  have c: "contents f (GetJSONConfigPath demo_fm) = Some ''new''"
    using write_config_None[where sc = demo_sc and en = "demo_en ok" and f = demo_fs and data = "''new''"] w by simp
  have ch: "ConfigChanged (en_io_flt (demo_en ok)) demo_fs (GetJSONConfigPath demo_fm) ''new'' = Ok True"
    by (simp add: ConfigChanged_def ReadJSONConfig_def demo_config_path contents_def file_at_def demo_fs_def)
  have s: "\<not> sy_IsSyncing (ss_status demo_ss)" by simp
  show ?thesis
    using b w c ch s
    by (simp add: performFullSyncJSON_def Let_def ValidateJSON_def ReloadJSON_def demo_caddy_def)
qed

theorem successful_sync_deploys_database_witness:
  "\<exists>st. performFullSyncJSON demo_sc (demo_en True) demo_db demo_ss = (st, None) \<and>
     ss_running st = Some ''new'' \<and> contents (ss_fs st) (GetJSONConfigPath demo_fm) = Some ''new''"
proof -
  obtain st where st: "performFullSyncJSON demo_sc (demo_en True) demo_db demo_ss = (st, None)"
    using demo_run[of True demo_db] by auto
  from successful_sync_deploys_database[OF this demo_coherent] st show ?thesis
    by (auto simp: demo_build initJSONBuilder_base)
qed

theorem sync_status_invariant_witness:
  "sync_reachable demo_sc demo_ss (fst (FullSync demo_sc (demo_en False) demo_db demo_ss)) \<and>
   \<not> sy_IsSyncing (ss_status (fst (FullSync demo_sc (demo_en False) demo_db demo_ss)))"
proof -
  have r: "sync_reachable demo_sc demo_ss (fst (FullSync demo_sc (demo_en False) demo_db demo_ss))"
    by (rule sync_reachable.step[OF sync_reachable.refl sync_step.full])
  from r sync_status_invariant[OF r[unfolded demo_ss_def], of undefined undefined] show ?thesis
    by (simp add: demo_ss_def)
qed

theorem running_config_validated_witness:
  "\<exists>st. performFullSyncJSON demo_sc (demo_en True) demo_db demo_ss = (st, None) \<and>
     ss_running st \<noteq> ss_running demo_ss \<and> ss_running st = contents (ss_fs st) (GetJSONConfigPath demo_fm)"
proof -
  obtain st where st: "performFullSyncJSON demo_sc (demo_en True) demo_db demo_ss = (st, None)"
    "ss_running st \<noteq> ss_running demo_ss"
    using demo_run[of True demo_db] by auto
  from running_config_validated[OF this] st show ?thesis by auto
qed

theorem failed_reload_is_masked_witness:
  "\<exists>st1 st2. performFullSyncJSON demo_sc (demo_en False) demo_db demo_ss =
       (st1, Some (ReloadFailed (AdminStatus 500 ''no''))) \<and>
     FullSync demo_sc (demo_en True) demo_db st1 = (st2, None) \<and>
     sy_LastSyncSuccess (ss_status st2) \<and> ss_running st2 = Some ''old''"
proof -
  obtain st1 where st1: "performFullSyncJSON demo_sc (demo_en False) demo_db demo_ss =
      (st1, Some (ReloadFailed (AdminStatus 500 ''no'')))" "\<not> sy_IsSyncing (ss_status st1)"
    using demo_run[of False demo_db] by auto
  from failed_reload_is_masked[OF st1(1), of "AdminStatus 500 ''no''" "demo_en True" demo_db] st1 show ?thesis
    by (auto simp: demo_build)
qed

theorem sync_succeeds_witness:
  "\<exists>st. FullSync demo_sc (demo_en True) demo_db demo_ss = (st, None) \<and> sy_LastSyncSuccess (ss_status st)"
  using sync_succeeds[of "demo_en True" demo_ss demo_sc demo_db] demo_temp_free
  by (auto simp: demo_caddy_def)

end
