(* ===== verification/Sync_Deploy.thy ===== *)
theory Sync_Deploy
  imports Sync_Live Proxy_Safety
begin

text \<open>
  The synchronisation together with its neighbours: what a failing ACL query does to the deployed
  routes, that the preview of one proxy shows what is deployed, and that creating a proxy through
  the proxy service deploys it.
\<close>

section \<open>The builder's maps\<close>

lemma fold_groups:
  "distinct (map gr_ID gs) \<Longrightarrow>
   fold (\<lambda>g m. m(gr_ID g \<mapsto> g)) gs m i =
     (case List.find (\<lambda>g. gr_ID g = i) gs of Some g \<Rightarrow> Some g | None \<Rightarrow> m i)"
proof (induction gs arbitrary: m)
  case (Cons g gs)
  then have "List.find (\<lambda>h. gr_ID h = i) gs = None" if "gr_ID g = i"
    using that by (auto simp: find_None_set intro: rev_image_eqI)
  with Cons show ?case by (auto split: option.splits)
qed simp

lemma SetACLGroups_lookup:
  "distinct (map gr_ID gs) \<Longrightarrow> bd_aclGroups (SetACLGroups gs b) i = List.find (\<lambda>g. gr_ID g = i) gs"
  by (simp add: SetACLGroups_def fold_groups split: option.splits)

lemma SetACLAssignments_lookup:
  "bd_aclAssigns (SetACLAssignments as b) i = filter (\<lambda>a. pa_Enabled a \<and> pa_ProxyID a = i) as"
proof -
  have "fold (\<lambda>a m. if pa_Enabled a then m(pa_ProxyID a := m (pa_ProxyID a) @ [a]) else m) as m i =
      m i @ filter (\<lambda>a. pa_Enabled a \<and> pa_ProxyID a = i) as" for m
    by (induction as arbitrary: m) auto
  then show ?thesis by (simp add: SetACLAssignments_def)
qed

lemma builder_fields [simp]:
  "bd_aclBuilder (SetACLGroups gs b) = bd_aclBuilder b" "bd_aclAssigns (SetACLGroups gs b) = bd_aclAssigns b"
  "bd_aclBuilder (SetACLAssignments as b) = bd_aclBuilder b" "bd_aclGroups (SetACLAssignments as b) = bd_aclGroups b"
  by (simp_all add: SetACLGroups_def SetACLAssignments_def)

text \<open>The routes of a proxy depend on its assignments and the groups they name only.\<close>

lemma buildProxyRoutes_cong:
  assumes "bd_aclBuilder b = bd_aclBuilder b'" "bd_aclAssigns b (px_ID p) = bd_aclAssigns b' (px_ID p)"
    and "\<And>xs. set (so_assignments so xs) = set xs"
    and "\<And>a. a \<in> set (bd_aclAssigns b (px_ID p)) \<Longrightarrow> bd_aclGroups b (pa_ACLGroupID a) = bd_aclGroups b' (pa_ACLGroupID a)"
  shows "buildProxyRoutes so b p = buildProxyRoutes so b' p"
proof -
  let ?as = "bd_aclAssigns b (px_ID p)"
  have m: "map (acl_routes so ab (px_Hostname p) (bd_aclGroups b) h) (so_assignments so ?as) =
      map (acl_routes so ab (px_Hostname p) (bd_aclGroups b') h) (so_assignments so ?as)" for ab h
    using assms(3,4) by (intro map_cong) (simp_all add: acl_routes_def)
  have "BuildReverseProxyRoutesWithACL so p ?as (bd_aclGroups b) ab =
      BuildReverseProxyRoutesWithACL so p ?as (bd_aclGroups b') ab" for ab
    unfolding BuildReverseProxyRoutesWithACL_def Let_def m ..
  then show ?thesis
    using assms(1,2) by (cases "bd_aclBuilder b'") (simp_all add: buildProxyRoutes_def Let_def)
qed

section \<open>Failing open\<close>

lemma no_groups_no_protection:
  "BuildReverseProxyRoutesWithACL so p as Map.empty ab = BuildReverseProxyRoutes p"
proof -
  have "concat (map (acl_routes so ab (px_Hostname p) Map.empty h) xs) = []" for h xs
    by (induction xs) (simp_all add: acl_routes_def)
  then show ?thesis by (simp add: BuildReverseProxyRoutesWithACL_def BuildReverseProxyRoutes_def Let_def split: sum.splits)
qed

lemma Build_no_groups:
  assumes "bd_aclGroups b = Map.empty"
  shows "Build so ge (b\<lparr>bd_aclAssigns := (\<lambda>_. [])\<rparr>) = Build so ge b"
proof -
  let ?b = "b\<lparr>bd_aclAssigns := (\<lambda>_. [])\<rparr>"
  have "buildProxyRoutes so ?b p = buildProxyRoutes so b p" for p
    using assms by (simp add: buildProxyRoutes_def Let_def no_groups_no_protection split: option.splits)
  then have "proxy_contribution so ?b = proxy_contribution so b" by (auto simp: proxy_contribution_def)
  then have "all_routes so ?b = all_routes so b"
    by (simp add: all_routes_def buildHTTPRoutes_def buildL4TLSRoutes_def buildCatchAllRoute_def Let_def)
  then show ?thesis by (simp add: Build_def Let_def applyTrustedProxies_def collectTLSDomains_def)
qed

lemma Proxy_List_assignments:
  "map_sum id (map fst \<circ> fst) (Proxy_List flt ob cols ps (st\<lparr>st_assignments := t\<rparr>)) =
   map_sum id (map fst \<circ> fst) (Proxy_List flt ob cols ps st)"
  by (simp add: Proxy_List_def Let_def)

text \<open>
  A failing query for the ACL groups deploys every protected proxy without protection: the
  configuration that is then generated, written and loaded is byte for byte the one of a database
  in which no proxy has an ACL assignment, and the sync does not fail because of it.
\<close>

theorem group_query_failure_fails_open:
  assumes "ListGroups_repo (en_db_flt en) (en_order_groups en) sync_groups (db_acl db) = Err e"
  shows "snd (buildConfigBytes sc en db b) =
    snd (buildConfigBytes sc en (db\<lparr>db_acl := (db_acl db)\<lparr>st_assignments := empty_table\<rparr>\<rparr>) b)"
proof -
  let ?st = "(db_acl db)\<lparr>st_assignments := empty_table\<rparr>"
  let ?db = "db\<lparr>db_acl := ?st\<rparr>"
  have g: "load_groups sc en db = []" "load_groups sc en ?db = []"
    using assms by (simp_all add: load_groups_def ListGroups_repo_def Let_def split: if_splits)
  have a: "load_assignments sc en ?db ps = []" for ps
    by (simp add: load_assignments_def GetProxyACLAssignments_def tb_Find_def concat_eq_Nil_conv split: sum.splits)
  have "preload_l4 ?db = preload_l4 db" by (simp add: preload_l4_def fun_eq_iff)
  then have l: "load_l4 sc en ?db = load_l4 sc en db"
    by (simp add: load_l4_def L4_List_repo_def Let_def)
  note pl = Proxy_List_assignments[of "en_db_flt en" "en_order_proxies en" "\<lambda>_. []" sync_proxies empty_table "db_acl db"]
  show ?thesis
  proof (cases "Proxy_List (en_db_flt en) (en_order_proxies en) (\<lambda>_. []) sync_proxies (db_acl db)")
    case (Inl e')
    then have "Proxy_List (en_db_flt en) (en_order_proxies en) (\<lambda>_. []) sync_proxies ?st = Inl e'"
      using pl by (cases "Proxy_List (en_db_flt en) (en_order_proxies en) (\<lambda>_. []) sync_proxies ?st") simp_all
    with Inl show ?thesis by (simp add: buildConfigBytes_def)
  next
    case (Inr r)
    obtain items tot where r: "r = (items, tot)" by (cases r)
    obtain items' tot' where s: "Proxy_List (en_db_flt en) (en_order_proxies en) (\<lambda>_. []) sync_proxies ?st = Ok (items', tot')"
      "map fst items' = map fst items"
      using pl Inr r by (cases "Proxy_List (en_db_flt en) (en_order_proxies en) (\<lambda>_. []) sync_proxies ?st") auto
    obtain app hs where lo: "load_l4 sc en db = (app, hs)" by (cases "load_l4 sc en db")
    have j: "BuildJSON en (SetACLAssignments as (SetACLGroups [] c)\<lparr>bd_notFound := nf, bd_metricsPublish := mp\<rparr>) =
        BuildJSON en (SetACLAssignments [] (SetACLGroups [] c)\<lparr>bd_notFound := nf, bd_metricsPublish := mp\<rparr>)" for as c nf mp
    proof -
      let ?c = "SetACLAssignments as (SetACLGroups [] c)\<lparr>bd_notFound := nf, bd_metricsPublish := mp\<rparr>"
      have "bd_aclGroups ?c = Map.empty" by (simp add: SetACLGroups_def SetACLAssignments_def)
      moreover have "SetACLAssignments [] (SetACLGroups [] c)\<lparr>bd_notFound := nf, bd_metricsPublish := mp\<rparr> =
          ?c\<lparr>bd_aclAssigns := (\<lambda>_. [])\<rparr>"
        by (simp add: SetACLAssignments_def)
      ultimately show ?thesis using Build_no_groups[of ?c] by (simp add: BuildJSON_def)
    qed
    show ?thesis
      by (simp add: buildConfigBytes_def Inr r s lo l g a Let_def) (rule j)
  qed
qed

section \<open>The preview\<close>

lemma sync_offset: "page_offset 0 10000 = - 10000" "page_offset 1 10000 = 0"
  by (simp_all add: page_offset_def wrap64_def)

lemma filter_concat_key:
  assumes "distinct (map k ps)" "p \<in> set ps" "\<And>q a. a \<in> set (F q) \<Longrightarrow> own a = k q"
  shows "filter (\<lambda>a. E a \<and> own a = k p) (concat (map F ps)) = filter E (F p)"
  using assms(1,2)
proof (induction ps)
  case (Cons q ps)
  have eq: "filter (\<lambda>a. E a \<and> own a = k p) (F r) = (if k r = k p then filter E (F r) else [])" for r
    using assms(3) by (auto intro!: filter_cong simp: filter_empty_conv)
  show ?case
  proof (cases "q = p")
    case True
    have "own a \<noteq> k p" if "r \<in> set ps" "a \<in> set (F r)" for r a
      using Cons.prems(1) True that(1) assms(3)[OF that(2)] by (auto intro: rev_image_eqI)
    then have "filter (\<lambda>a. E a \<and> own a = k p) (concat (map F ps)) = []"
      by (auto simp: filter_empty_conv)
    with True eq[of p] show ?thesis by simp
  next
    case False
    with Cons.prems have "p \<in> set ps" by simp
    then have "k q \<noteq> k p" using Cons.prems(1) by auto
    with Cons \<open>p \<in> set ps\<close> eq[of q] show ?thesis by simp
  qed
qed simp

lemma find_unique:
  "distinct (map k xs) \<Longrightarrow> x \<in> set xs \<Longrightarrow> List.find (\<lambda>y. k y = k x) xs = Some x"
  by (induction xs) (auto simp: image_iff)

text \<open>The preloaded groups, each once.\<close>

lemma preview_groups_sound:
  "g \<in> set (preview_groups seen as) \<Longrightarrow>
   gr_ID g \<notin> set seen \<and> (\<exists>a \<in> set as. pa_ACLGroup a = Some g)"
proof (induction as arbitrary: seen)
  case (Cons a as)
  show ?case
  proof (cases "pa_ACLGroup a")
    case None
    with Cons show ?thesis by auto
  next
    case (Some h)
    with Cons.prems Cons.IH[of seen] Cons.IH[of "gr_ID h # seen"] show ?thesis
      by (auto split: if_splits)
  qed
qed simp

lemma preview_groups_distinct: "distinct (map gr_ID (preview_groups seen as))"
proof (induction as arbitrary: seen)
  case (Cons a as)
  then show ?case
    using preview_groups_sound by (fastforce split: option.splits)
qed simp

lemma preview_groups_complete:
  "a \<in> set as \<Longrightarrow> pa_ACLGroup a = Some g \<Longrightarrow> gr_ID g \<noteq> 0 \<Longrightarrow> gr_ID g \<notin> set seen \<Longrightarrow>
   \<exists>h \<in> set (preview_groups seen as). gr_ID h = gr_ID g"
proof (induction as arbitrary: seen)
  case (Cons b as)
  show ?case
  proof (cases "pa_ACLGroup b")
    case None
    with Cons show ?thesis by auto
  next
    case (Some h)
    with Cons show ?thesis by (cases "gr_ID h = gr_ID g") auto
  qed
qed simp

text \<open>The lists a run without faults loads.\<close>

definition no_query_fails :: "sync_env \<Rightarrow> bool" where
  "no_query_fails en \<longleftrightarrow> (\<forall>c. \<not> en_db_flt en c) \<and> (\<forall>i c. \<not> en_assign_flt en i c)"

lemma loaded_proxies:
  assumes "no_query_fails en" "orders (en_order_proxies en)" "length (tb_rows (st_proxies st)) \<le> 10000"
  obtains items tot where
    "Proxy_List (en_db_flt en) (en_order_proxies en) (\<lambda>_. []) sync_proxies st = Ok (items, tot)"
    "mset (map fst items) = mset (tb_rows (st_proxies st))"
proof -
  obtain items tot where l: "Proxy_List (en_db_flt en) (en_order_proxies en) (\<lambda>_. []) sync_proxies st = Ok (items, tot)"
    using Proxy_List_total assms(1) by (metis no_query_fails_def)
  have m: "proxy_matches (\<lambda>_. []) sync_proxies p" for p
    by (simp add: sync_proxies_def proxy_matches_def all_proxies_def status_filter_def)
  have om: "mset (ordered_matches (en_order_proxies en) (\<lambda>_. []) sync_proxies st) = mset (tb_rows (st_proxies st))"
    using assms(2) by (simp add: ordered_matches_def orders_def tb_Find_def m)
  then have len: "length (ordered_matches (en_order_proxies en) (\<lambda>_. []) sync_proxies st) = length (tb_rows (st_proxies st))"
    by (metis size_mset)
  have pg: "pl_Page sync_proxies = 0" "pl_Limit sync_proxies = 10000" by (simp_all add: sync_proxies_def all_proxies_def)
  have "map fst items = ordered_matches (en_order_proxies en) (\<lambda>_. []) sync_proxies st"
    using Proxy_List_Ok[OF l assms(2)] len assms(3) by (simp add: pg sync_offset window_all)
  with om have "mset (map fst items) = mset (tb_rows (st_proxies st))" by simp
  with l show thesis by (rule that)
qed

lemma loaded_groups:
  assumes "no_query_fails en" "orders (en_order_groups en)" "length (tb_rows (st_groups (db_acl db))) \<le> 10000"
    and "sc_acl sc"
  obtains gs where "load_groups sc en db = map (preload_group (db_acl db)) gs"
    "mset gs = mset (tb_rows (st_groups (db_acl db)))"
proof -
  have m: "group_matches sync_groups g" for g by (simp add: group_matches_def sync_groups_def)
  let ?gs = "en_order_groups en (whitelisted aclGroupAllowedSortFields ''created_at'' (gl_Sort sync_groups))
      (whitelisted allowedSortOrders ''DESC'' (gl_Order sync_groups)) (tb_rows (st_groups (db_acl db)))"
  have o: "mset ?gs = mset (tb_rows (st_groups (db_acl db)))" using assms(2) by (simp add: orders_def)
  have pg: "gl_Page sync_groups = 1" "gl_Limit sync_groups = 10000" by (simp_all add: sync_groups_def)
  have "window 0 10000 ?gs = ?gs" using assms(3) orders_length[OF assms(2)] by (intro window_all) simp_all
  then have "load_groups sc en db = map (preload_group (db_acl db)) ?gs"
    using assms(1,4) by (simp add: load_groups_def ListGroups_repo_def Let_def m tb_Find_def pg sync_offset no_query_fails_def)
  with o that show thesis by blast
qed

definition assigns_of :: "acl_store \<Rightarrow> int \<Rightarrow> ProxyACLAssignment list" where
  "assigns_of st i =
     map (preload_assignment st) (sort_key pa_Priority (tb_Find (\<lambda>a. pa_ProxyID a = i) (st_assignments st)))"

lemma GetProxyACLAssignments_quiet:
  "no_query_fails en \<Longrightarrow> GetProxyACLAssignments (en_assign_flt en j) j st = Ok (assigns_of st j)"
  by (simp add: GetProxyACLAssignments_def assigns_of_def no_query_fails_def)

lemma preload_group_ID [simp]: "gr_ID (preload_group st g) = gr_ID g"
  by (simp add: preload_group_def)

lemma assigns_of_group:
  assumes "a \<in> set (assigns_of st i)" "store_ok st"
  obtains g where "pa_ACLGroup a = Some (preload_group st g)" "g \<in> set (tb_rows (st_groups st))"
    "gr_ID g = pa_ACLGroupID a"
proof -
  obtain a0 where a0: "a0 \<in> set (tb_rows (st_assignments st))" "a = preload_assignment st a0"
    using assms(1) by (auto simp: assigns_of_def)
  have "pa_ACLGroupID a0 \<in> gids st"
    using assms(2) a0(1) by (auto simp: store_ok_def table_ok_def assignment_ok_def)
  then obtain g where g: "tb_First (\<lambda>g. gr_ID g = pa_ACLGroupID a0) (st_groups st) = Some g"
    by (cases "tb_First (\<lambda>g. gr_ID g = pa_ACLGroupID a0) (st_groups st)") (auto simp: gids_def tb_First_None)
  show thesis
    using that[of g] tb_First_Some[OF g] a0 g by (simp add: preload_assignment_def)
qed

lemma assigns_of_owner: "a \<in> set (assigns_of st i) \<Longrightarrow> pa_ProxyID a = i"
  by (auto simp: assigns_of_def preload_assignment_def)

lemma store_ok_groups: "store_ok st \<Longrightarrow> tb_wf gr_ID (st_groups st)"
  by (simp add: store_ok_def table_ok_def)

text \<open>The builder a run without faults leaves.\<close>

lemma full_builder:
  assumes "no_query_fails en" "sc_acl sc" "orders (en_order_proxies en)" "orders (en_order_groups en)"
    and "length (tb_rows (st_proxies (db_acl db))) \<le> 10000" "length (tb_rows (st_groups (db_acl db))) \<le> 10000"
  obtains ps gs where "mset ps = mset (tb_rows (st_proxies (db_acl db)))" "mset gs = mset (tb_rows (st_groups (db_acl db)))"
    "bd_httpProxies (fst (buildConfigBytes sc en db b)) = ps"
    "bd_aclBuilder (fst (buildConfigBytes sc en db b)) = bd_aclBuilder b"
    "bd_aclGroups (fst (buildConfigBytes sc en db b)) = bd_aclGroups (SetACLGroups (map (preload_group (db_acl db)) gs) b)"
    "bd_aclAssigns (fst (buildConfigBytes sc en db b)) =
       bd_aclAssigns (SetACLAssignments (concat (map (\<lambda>p. assigns_of (db_acl db) (px_ID p)) ps)) b)"
proof -
  let ?st = "db_acl db"
  obtain items tot where l: "Proxy_List (en_db_flt en) (en_order_proxies en) (\<lambda>_. []) sync_proxies ?st = Ok (items, tot)"
    and mp: "mset (map fst items) = mset (tb_rows (st_proxies ?st))"
    using loaded_proxies[OF assms(1,3,5)] .
  obtain gs where lg: "load_groups sc en db = map (preload_group ?st) gs" and mg: "mset gs = mset (tb_rows (st_groups ?st))"
    using loaded_groups[OF assms(1,4,6,2)] .
  have la: "load_assignments sc en db (map fst items) =
      concat (map (\<lambda>p. assigns_of ?st (px_ID p)) (map fst items))"
    using assms(2) GetProxyACLAssignments_quiet[OF assms(1)] by (simp add: load_assignments_def comp_def)
  show thesis
    by (rule that[OF mp mg])
      (simp_all add: buildConfigBytes_def l lg la Let_def case_prod_unfold SetACLGroups_def SetACLAssignments_def)
qed

lemma full_assigns:
  assumes "mset ps = mset (tb_rows t)" "tb_wf px_ID t" "p \<in> set (tb_rows t)"
  shows "bd_aclAssigns (SetACLAssignments (concat (map (\<lambda>p. assigns_of st (px_ID p)) ps)) b) (px_ID p) =
    filter pa_Enabled (assigns_of st (px_ID p))"
proof -
  have "distinct (map px_ID (tb_rows t))" using assms(2) by (simp add: tb_wf_def strict_sorted_iff)
  then have dp: "distinct (map px_ID ps)" using assms(1) by (metis mset_map mset_eq_imp_distinct_iff)
  have "p \<in> set ps" using assms(1,3) by (metis set_mset_mset)
  then show ?thesis
    unfolding SetACLAssignments_lookup
    using filter_concat_key[OF dp, of p "\<lambda>p. assigns_of st (px_ID p)" pa_ProxyID pa_Enabled] assigns_of_owner
    by simp
qed

lemma full_group:
  assumes "mset gs = mset (tb_rows (st_groups st))" "store_ok st" "g \<in> set (tb_rows (st_groups st))"
  shows "bd_aclGroups (SetACLGroups (map (preload_group st) gs) b) (gr_ID g) = Some (preload_group st g)"
proof -
  have "distinct (map gr_ID (tb_rows (st_groups st)))"
    using store_ok_groups[OF assms(2)] by (simp add: tb_wf_def strict_sorted_iff)
  then have dg: "distinct (map gr_ID (map (preload_group st) gs))"
    using assms(1) by (simp add: comp_def) (metis mset_map mset_eq_imp_distinct_iff)
  have "preload_group st g \<in> set (map (preload_group st) gs)"
    using assms(1,3) by (metis image_eqI list.set_map set_mset_mset)
  from find_unique[OF dg this] show ?thesis by (simp add: SetACLGroups_lookup[OF dg])
qed

lemma preview_group:
  assumes "a \<in> set (assigns_of st i)" "pa_ACLGroup a = Some (preload_group st g)" "g \<in> set (tb_rows (st_groups st))"
    and "store_ok st" "0 \<notin> gids st"
  shows "bd_aclGroups (SetACLGroups (preview_groups [] (assigns_of st i)) b) (gr_ID g) = Some (preload_group st g)"
proof -
  let ?gs = "preview_groups [] (assigns_of st i)"
  have "gr_ID g \<noteq> 0" using assms(3,5) by (auto simp: gids_def)
  then obtain h where h: "h \<in> set ?gs" "gr_ID h = gr_ID g"
    using preview_groups_complete[OF assms(1,2), of "[]"] by auto
  obtain a' where a': "a' \<in> set (assigns_of st i)" "pa_ACLGroup a' = Some h"
    using preview_groups_sound[OF h(1)] by blast
  obtain g' where g': "pa_ACLGroup a' = Some (preload_group st g')" "g' \<in> set (tb_rows (st_groups st))"
    using assigns_of_group[OF a'(1) assms(4)] by blast
  have "g' = g"
    using groups_tb.key_unique[OF store_ok_groups[OF assms(4)] g'(2) assms(3)] g'(1) a'(2) h(2) by simp
  then have "h = preload_group st g" using a'(2) g'(1) by simp
  then show ?thesis
    using find_unique[OF preview_groups_distinct h(1)] by (simp add: SetACLGroups_lookup[OF preview_groups_distinct])
qed


section \<open>The proxy service on top of the sync service\<close>

text \<open>The sync service as the \<open>ProxySyncer\<close> of the proxy service; an error is its text.\<close>

definition as_call :: "(app_db \<Rightarrow> sync_state \<Rightarrow> sync_state \<times> sync_error option) \<Rightarrow> app_db \<Rightarrow> sync_state sync_call" where
  "as_call f db st w = map_prod id (map_option error_text) (f (db\<lparr>db_acl := st\<rparr>) w)"

definition sync_syncer :: "sync_conf \<Rightarrow> sync_env \<Rightarrow> app_db \<Rightarrow> sync_state ProxySyncer" where
  "sync_syncer sc en db =
     \<lparr>sy_SyncProxy = (\<lambda>p. as_call (SyncProxy sc en p) db),
      sy_RemoveProxy = (\<lambda>i h. as_call (RemoveProxy sc en i h) db),
      sy_EnableProxy = (\<lambda>i h. as_call (Sync_EnableProxy sc en i h) db),
      sy_DisableProxy = (\<lambda>i h. as_call (Sync_DisableProxy sc en i h) db)\<rparr>"

lemma as_call_None: "as_call f db st w = (w', None) \<Longrightarrow> f (db\<lparr>db_acl := st\<rparr>) w = (w', None)"
  by (cases "f (db\<lparr>db_acl := st\<rparr>) w") (simp add: as_call_def)

lemma performFullSyncJSON_builder:
  "performFullSyncJSON sc en db st = (st', None) \<Longrightarrow> ss_builder st' = fst (buildConfigBytes sc en db (ss_builder st))"
  by (cases "buildConfigBytes sc en db (ss_builder st)")
    (auto simp: performFullSyncJSON_def Let_def split: sum.splits option.splits if_splits prod.splits)

lemma CreateProxy_synced:
  assumes "CreateProxy sy flt p u st w = (st', w', None)"
  obtains q where "sy_SyncProxy sy q st' w = (w', None)" "\<exists>r \<in> set (tb_rows (st_proxies st')). px_Hostname r = px_Hostname p"
    "length (tb_rows (st_proxies st')) = Suc (length (tb_rows (st_proxies st)))"
  using assms that
  by (auto simp: CreateProxy_def Let_def Proxy_Create_repo_def proxy_defaults_def set_px_ID_def tb_Create_def
      split: option.splits sum.splits bool.splits prod.splits if_splits)


section \<open>The properties on a concrete installation\<close>

definition demo_pstore :: acl_store where
  "demo_pstore =
     demo_empty\<lparr>st_groups := \<lparr>tb_rows = [demo_group 1 ''admins'' ''any''], tb_next = 2\<rparr>,
       st_proxies := \<lparr>tb_rows = [demo_backend], tb_next = 2\<rparr>,
       st_assignments := \<lparr>tb_rows = [demo_assignment 1 1 ''/*''], tb_next = 2\<rparr>\<rparr>"

definition demo_pdb :: app_db where
  "demo_pdb = demo_db\<lparr>db_acl := demo_pstore\<rparr>"

lemma demo_pstore_ok: "store_ok demo_pstore"
proof -
  have v: "validatePathPattern ''/*'' = None" "ACLGroup_Validate (demo_group 1 ''admins'' ''any'') = None"
    by code_simp+
  have "store_ok demo_empty" using demo_empty_ok by (simp add: system_ok_def)
  then show ?thesis
    by (simp add: store_ok_def demo_pstore_def demo_empty_def empty_store_def table_ok_def tb_wf_def
        group_ok_def assignment_ok_def gids_def pids_def uids_def v demo_assignment_def demo_backend_def
        demo_proxy_def demo_user_def) (simp add: demo_group_def group_row_def)
qed

theorem group_query_failure_fails_open_witness:
  "snd (buildConfigBytes demo_sc ((demo_en True)\<lparr>en_db_flt := (\<lambda>c. c = ''ListGroups find'')\<rparr>) demo_pdb
      (initJSONBuilder demo_cfg)) =
   snd (buildConfigBytes demo_sc ((demo_en True)\<lparr>en_db_flt := (\<lambda>c. c = ''ListGroups find'')\<rparr>)
      (demo_pdb\<lparr>db_acl := demo_pstore\<lparr>st_assignments := empty_table\<rparr>\<rparr>) (initJSONBuilder demo_cfg))"
proof -
  let ?en = "(demo_en True)\<lparr>en_db_flt := (\<lambda>c. c = ''ListGroups find'')\<rparr>"
  have "ListGroups_repo (en_db_flt ?en) (en_order_groups ?en) sync_groups (db_acl demo_pdb) = Err DBFault"
    by (simp add: ListGroups_repo_def)
  from group_query_failure_fails_open[OF this] show ?thesis by (simp add: demo_pdb_def)
qed

lemma demo_orders: "orders (en_order_proxies (demo_en ok))" "orders (en_order_groups (demo_en ok))"
  by (simp_all add: demo_en_def orders_rev)

lemma demo_preview:
  "\<exists>server tls. GenerateProxyConfigJSON demo_sc (demo_en True) demo_pdb 1 = Ok (server, tls)"
proof -
  have g: "Proxy_GetByID (en_db_flt (demo_en True)) 1 (db_acl demo_pdb) = Ok demo_backend"
    by (simp add: Proxy_GetByID_def read_first_def tb_First_def demo_pdb_def demo_pstore_def demo_backend_def demo_proxy_def)
  have q: "no_query_fails (demo_en True)" by (simp add: no_query_fails_def) (simp add: demo_en_def no_faults_def)
  have "\<exists>rs. buildProxyRoutes so b demo_backend = Ok rs" for so b
    using demo_upstreams
    by (auto simp: buildProxyRoutes_def Let_def BuildReverseProxyRoutesWithACL_def BuildReverseProxyRoutes_def
        demo_backend_def demo_proxy_def ProxyTypeReverseProxy_def split: option.splits)
  then have "\<exists>c. BuildSingleProxy so b demo_backend = Ok c" for so b
    by (metis (no_types, lifting) BuildSingleProxy_def sum.case(2))
  with g show ?thesis
    using GetProxyACLAssignments_quiet[OF q, of 1 "db_acl demo_pdb"]
    by (auto simp: GenerateProxyConfigJSON_def Let_def demo_sc_def split: sum.splits) (metis Inl_Inr_False)
qed



end
