(* ===== verification/Audit_Log.thy ===== *)
theory Audit_Log
  imports Settings_Store Repo_Query Acl_Session
begin

text \<open>
  The audit log: \<open>backend/internal/models/audit_log.go\<close>,
  \<open>backend/internal/repository/audit_log_repository.go\<close> and the core of
  \<open>backend/internal/service/audit_service.go\<close>. The configuration is a set of switches, here a
  function from the JSON names of the fields. Its JSON text is written and read by
  \<open>encoding/json\<close>, a pair of functions given as a parameter; reading overlays the fields the text
  mentions on the defaults.
\<close>

section \<open>Entries\<close>

record AuditLog =
  al_ID :: int
  al_UserID :: "int option"
  al_Action :: string
  al_ResourceType :: "string option"
  al_ResourceID :: "int option"
  al_ResourceName :: "string option"
  al_Details :: JSONField
  al_IPAddress :: "string option"
  al_UserAgent :: "string option"
  al_Status :: string
  al_ErrorMessage :: "string option"
  al_CreatedAt :: int

record AuditEvent =
  ev_UserID :: "int option"
  ev_Action :: string
  ev_ResourceType :: string
  ev_ResourceID :: "int option"
  ev_ResourceName :: string
  ev_Details :: JSONField
  ev_IPAddress :: string
  ev_UserAgent :: string
  ev_Status :: string
  ev_ErrorMessage :: string

definition set_al_ID :: "int \<Rightarrow> AuditLog \<Rightarrow> AuditLog" where "set_al_ID i r = r\<lparr>al_ID := i\<rparr>"

interpretation audit_tb: row_table al_ID set_al_ID
  by unfold_locales (simp add: set_al_ID_def)

section \<open>Configuration\<close>

type_synonym AuditConfig = "string \<Rightarrow> bool"

text \<open>The fields of \<open>AuditConfig\<close>, by their JSON names, in the order of the structure.\<close>

definition audit_fields :: "string list" where
  "audit_fields =
     [''proxy_create'', ''proxy_update'', ''proxy_delete'', ''proxy_enable'', ''proxy_disable'',
      ''auth_login'', ''auth_logout'', ''auth_register'', ''auth_password_change'',
      ''auth_login_failed'', ''auth_sso_login'', ''settings_update'',
      ''sync_started'', ''sync_completed'', ''sync_failed'', ''system_startup'', ''caddy_reload'',
      ''acl_group_create'', ''acl_group_update'', ''acl_group_delete'',
      ''acl_ip_rule_add'', ''acl_ip_rule_update'', ''acl_ip_rule_delete'',
      ''acl_basic_auth_add'', ''acl_basic_auth_update'', ''acl_basic_auth_delete'',
      ''acl_waygates_auth_update'',
      ''acl_assignment_create'', ''acl_assignment_update'', ''acl_assignment_delete'',
      ''acl_branding_update'', ''acl_session_revoke'',
      ''acl_oauth_restriction_set'', ''acl_oauth_restriction_delete'', ''acl_oauth_login'']"

definition DefaultAuditConfig :: AuditConfig where
  "DefaultAuditConfig = (\<lambda>_. True)"

text \<open>The \<open>switch\<close> of \<open>isEventEnabled\<close>: which field governs which action.\<close>

definition event_fields :: "(string \<times> string) list" where
  "event_fields =
     [(''proxy.create'', ''proxy_create''), (''proxy.update'', ''proxy_update''),
      (''proxy.delete'', ''proxy_delete''), (''proxy.enable'', ''proxy_enable''),
      (''proxy.disable'', ''proxy_disable''),
      (''auth.login'', ''auth_login''), (''auth.logout'', ''auth_logout''),
      (''auth.register'', ''auth_register''), (''auth.password_change'', ''auth_password_change''),
      (''auth.login_failed'', ''auth_login_failed''), (''auth.sso_login'', ''auth_sso_login''),
      (''settings.update'', ''settings_update''),
      (''sync.started'', ''sync_started''), (''sync.completed'', ''sync_completed''),
      (''sync.failed'', ''sync_failed''), (''system.startup'', ''system_startup''),
      (''caddy.reload'', ''caddy_reload''),
      (''acl_group.create'', ''acl_group_create''), (''acl_group.update'', ''acl_group_update''),
      (''acl_group.delete'', ''acl_group_delete''),
      (''acl_ip_rule.add'', ''acl_ip_rule_add''), (''acl_ip_rule.update'', ''acl_ip_rule_update''),
      (''acl_ip_rule.delete'', ''acl_ip_rule_delete''),
      (''acl_basic_auth.add'', ''acl_basic_auth_add''),
      (''acl_basic_auth.update'', ''acl_basic_auth_update''),
      (''acl_basic_auth.delete'', ''acl_basic_auth_delete''),
      (''acl_waygates_auth.update'', ''acl_waygates_auth_update''),
      (''acl_assignment.create'', ''acl_assignment_create''),
      (''acl_assignment.update'', ''acl_assignment_update''),
      (''acl_assignment.delete'', ''acl_assignment_delete''),
      (''acl_branding.update'', ''acl_branding_update''),
      (''acl_session.revoke'', ''acl_session_revoke''),
      (''acl_oauth_restriction.set'', ''acl_oauth_restriction_set''),
      (''acl_oauth_restriction.delete'', ''acl_oauth_restriction_delete'')]"

definition event_enabled :: "AuditConfig \<Rightarrow> string \<Rightarrow> bool" where
  "event_enabled config action =
     (case map_of event_fields action of Some field \<Rightarrow> config field | None \<Rightarrow> True)"

definition SettingAuditConfig :: string where "SettingAuditConfig = ''audit_config''"

text \<open>The groups the configuration page shows: key, label, description and the fields of each.\<close>

definition GetAuditEventGroups :: "(string \<times> string \<times> string \<times> (string \<times> string) list) list" where
  "GetAuditEventGroups =
     [(''proxy'', ''Proxy Events'', ''Proxy configuration changes'',
         [(''proxy_create'', ''Create''), (''proxy_update'', ''Update''), (''proxy_delete'', ''Delete''),
          (''proxy_enable'', ''Enable''), (''proxy_disable'', ''Disable'')]),
      (''auth'', ''Authentication Events'', ''User authentication activities'',
         [(''auth_login'', ''Login''), (''auth_logout'', ''Logout''), (''auth_register'', ''Register''),
          (''auth_password_change'', ''Password Change''), (''auth_login_failed'', ''Failed Login''),
          (''auth_sso_login'', ''SSO Login'')]),
      (''settings'', ''Settings Events'', ''Configuration changes'', [(''settings_update'', ''Settings Update'')]),
      (''sync'', ''Sync Events'', ''Caddy synchronization operations'',
         [(''sync_started'', ''Started''), (''sync_completed'', ''Completed''),
          (''sync_failed'', ''Failed'')]),
      (''system'', ''System Events'', ''System and Caddy operations'',
         [(''system_startup'', ''System Startup''), (''caddy_reload'', ''Caddy Reload'')]),
      (''acl'', ''ACL Events'', ''Access control list configuration changes'',
         [(''acl_group_create'', ''ACL Group Created''), (''acl_group_update'', ''ACL Group Updated''),
          (''acl_group_delete'', ''ACL Group Deleted''), (''acl_ip_rule_add'', ''IP Rule Added''),
          (''acl_ip_rule_update'', ''IP Rule Updated''), (''acl_ip_rule_delete'', ''IP Rule Deleted''),
          (''acl_basic_auth_add'', ''Basic Auth User Added''),
          (''acl_basic_auth_update'', ''Basic Auth Updated''),
          (''acl_basic_auth_delete'', ''Basic Auth User Deleted''),
          (''acl_waygates_auth_update'', ''Waygates Auth Updated''),
          (''acl_assignment_create'', ''ACL Assigned to Proxy''),
          (''acl_assignment_update'', ''ACL Assignment Updated''),
          (''acl_assignment_delete'', ''ACL Removed from Proxy''),
          (''acl_branding_update'', ''Branding Updated''), (''acl_session_revoke'', ''Session Revoked''),
          (''acl_oauth_restriction_set'', ''OAuth Provider Configured''),
          (''acl_oauth_restriction_delete'', ''OAuth Provider Removed''),
          (''acl_oauth_login'', ''OAuth ACL Login'')])]"

section \<open>The repository\<close>

record audit_state =
  au_logs :: "AuditLog table"
  au_cache :: "AuditConfig option"

definition Audit_Create_repo ::
  "faults \<Rightarrow> int \<Rightarrow> AuditLog \<Rightarrow> audit_state \<Rightarrow> audit_state \<times> db_error option" where
  "Audit_Create_repo flt now entry au =
     (if flt ''AuditLog.Create'' then (au, Some DBFault)
      else (au\<lparr>au_logs := tb_Create set_al_ID
              (entry\<lparr>al_Status := str_default ''success'' (al_Status entry), al_CreatedAt := now\<rparr>)
              (au_logs au)\<rparr>, None))"

record AuditLogListParams =
  ql_Page :: int
  ql_Limit :: int
  ql_Search :: string
  ql_Actions :: "string list"
  ql_ActionsExclude :: "string list"
  ql_ResourceTypes :: "string list"
  ql_ResourceTypesExclude :: "string list"
  ql_UserID :: "int option"
  ql_Status :: string
  ql_StatusExclude :: string
  ql_IPAddress :: string
  ql_IPAddressContains :: string
  ql_IPAddressStartsWith :: string
  ql_IPAddressEndsWith :: string
  ql_IPAddressNot :: string
  ql_DateFrom :: "int option"
  ql_DateTo :: "int option"
  ql_Sort :: string
  ql_Order :: string

text \<open>A condition on a nullable column does not hold for \<open>NULL\<close>.\<close>

definition on_column :: "('a \<Rightarrow> bool) \<Rightarrow> 'a option \<Rightarrow> bool" where
  "on_column P c = (case c of None \<Rightarrow> False | Some x \<Rightarrow> P x)"

definition audit_matches :: "AuditLogListParams \<Rightarrow> AuditLog \<Rightarrow> bool" where
  "audit_matches q l \<longleftrightarrow>
     (ql_Search q = [] \<or> like (search_pattern (ql_Search q)) (al_Action l) \<or>
        on_column (like (search_pattern (ql_Search q))) (al_ResourceName l)) \<and>
     (ql_Actions q = [] \<or> List.member (ql_Actions q) (al_Action l)) \<and>
     (ql_ActionsExclude q = [] \<or> \<not> List.member (ql_ActionsExclude q) (al_Action l)) \<and>
     (ql_ResourceTypes q = [] \<or> on_column (List.member (ql_ResourceTypes q)) (al_ResourceType l)) \<and>
     (ql_ResourceTypesExclude q = [] \<or>
        on_column (\<lambda>x. \<not> List.member (ql_ResourceTypesExclude q) x) (al_ResourceType l)) \<and>
     (ql_IPAddress q = [] \<or> on_column (\<lambda>x. x = ql_IPAddress q) (al_IPAddress l)) \<and>
     (ql_IPAddressContains q = [] \<or>
        on_column (like (search_pattern (ql_IPAddressContains q))) (al_IPAddress l)) \<and>
     (ql_IPAddressStartsWith q = [] \<or> on_column (like (ql_IPAddressStartsWith q @ ''%'')) (al_IPAddress l)) \<and>
     (ql_IPAddressEndsWith q = [] \<or> on_column (like (''%'' @ ql_IPAddressEndsWith q)) (al_IPAddress l)) \<and>
     (ql_IPAddressNot q = [] \<or> on_column (\<lambda>x. x \<noteq> ql_IPAddressNot q) (al_IPAddress l)) \<and>
     (ql_UserID q = None \<or> al_UserID l = ql_UserID q) \<and>
     (ql_Status q = [] \<or> al_Status l = ql_Status q) \<and>
     (ql_StatusExclude q = [] \<or> al_Status l \<noteq> ql_StatusExclude q) \<and>
     (case ql_DateFrom q of None \<Rightarrow> True | Some t \<Rightarrow> t \<le> al_CreatedAt l) \<and>
     (case ql_DateTo q of None \<Rightarrow> True | Some t \<Rightarrow> al_CreatedAt l \<le> t)"

definition auditLogAllowedSortFields :: "(string \<times> string) list" where
  "auditLogAllowedSortFields =
     [(''id'', ''id''), (''action'', ''action''), (''resource_type'', ''resource_type''),
      (''resource_name'', ''resource_name''), (''status'', ''status''),
      (''created_at'', ''created_at''), (''user_id'', ''user_id'')]"

text \<open>An entry with the user it names, as \<open>Preload("User")\<close> loads it.\<close>

definition preload_log :: "acl_store \<Rightarrow> AuditLog \<Rightarrow> AuditLog \<times> User option" where
  "preload_log st l =
     (l, case al_UserID l of None \<Rightarrow> None | Some u \<Rightarrow> tb_First (\<lambda>x. us_ID x = u) (st_users st))"

definition Audit_GetByID_repo ::
  "faults \<Rightarrow> int \<Rightarrow> acl_store \<Rightarrow> audit_state \<Rightarrow> (db_error, AuditLog \<times> User option) result" where
  "Audit_GetByID_repo flt i st au =
     map_sum (\<lambda>e. e) (preload_log st) (read_first (flt ''AuditLog.GetByID'') (\<lambda>l. al_ID l = i) (au_logs au))"

definition Audit_List_repo ::
  "faults \<Rightarrow> AuditLog order_by \<Rightarrow> AuditLogListParams \<Rightarrow> acl_store \<Rightarrow> audit_state
    \<Rightarrow> (db_error, (AuditLog \<times> User option) list \<times> int) result" where
  "Audit_List_repo flt ob q st au =
     (let matching = tb_Find (audit_matches q) (au_logs au) in
      if flt ''AuditLog.Count'' \<or> flt ''AuditLog.List'' then Err DBFault
      else
        let sortField = whitelisted auditLogAllowedSortFields ''created_at'' (ql_Sort q);
            sortOrder = whitelisted allowedSortOrders ''DESC'' (ql_Order q)
        in Ok (map (preload_log st)
                 (window (page_offset (ql_Page q) (ql_Limit q)) (ql_Limit q) (ob sortField sortOrder matching)),
               int (length matching)))"

record AuditLogStats =
  as_TotalLogs :: nat
  as_ByAction :: "string \<Rightarrow> nat"
  as_ByStatus :: "string \<Rightarrow> nat"
  as_ByResourceType :: "string \<Rightarrow> nat"
  as_RecentActivity :: "(AuditLog \<times> User option) list"

text \<open>The counts per group, absent groups counting zero.\<close>

definition Audit_GetStats_repo ::
  "faults \<Rightarrow> AuditLog order_by \<Rightarrow> acl_store \<Rightarrow> audit_state \<Rightarrow> (db_error, AuditLogStats) result" where
  "Audit_GetStats_repo flt ob st au =
     (let rows = tb_rows (au_logs au) in
      if flt ''AuditLog.GetStats'' then Err DBFault
      else Ok
        \<lparr>as_TotalLogs = length rows,
         as_ByAction = (\<lambda>a. length (filter (\<lambda>l. al_Action l = a) rows)),
         as_ByStatus = (\<lambda>s. length (filter (\<lambda>l. al_Status l = s) rows)),
         as_ByResourceType = (\<lambda>t. length (filter (\<lambda>l. al_ResourceType l = Some t) rows)),
         as_RecentActivity = map (preload_log st) (take 10 (ob ''created_at'' ''DESC'' rows))\<rparr>)"

definition DeleteOlderThan :: "faults \<Rightarrow> int \<Rightarrow> audit_state \<Rightarrow> audit_state \<times> (db_error, nat) result" where
  "DeleteOlderThan flt before au =
     (if flt ''AuditLog.DeleteOlderThan'' then (au, Err DBFault)
      else (au\<lparr>au_logs := tb_Delete (\<lambda>l. al_CreatedAt l < before) (au_logs au)\<rparr>,
            Ok (length (tb_Find (\<lambda>l. al_CreatedAt l < before) (au_logs au)))))"

definition CountByAction :: "faults \<Rightarrow> string \<Rightarrow> audit_state \<Rightarrow> (db_error, nat) result" where
  "CountByAction flt action au =
     (if flt ''AuditLog.CountByAction'' then Err DBFault
      else Ok (length (tb_Find (\<lambda>l. al_Action l = action) (au_logs au))))"

definition CountByUserID :: "faults \<Rightarrow> int \<Rightarrow> audit_state \<Rightarrow> (db_error, nat) result" where
  "CountByUserID flt userID au =
     (if flt ''AuditLog.CountByUserID'' then Err DBFault
      else Ok (length (tb_Find (\<lambda>l. al_UserID l = Some userID) (au_logs au))))"

section \<open>The service\<close>

text \<open>
  What the service needs of its environment: the faults of database statements, the clock, and the
  JSON codec of the configuration. Reading returns the fields found in the text.
\<close>

record audit_env =
  an_flt :: faults
  an_now :: int
  an_marshal :: "(string \<times> bool) list \<Rightarrow> string"
  an_unmarshal :: "string \<Rightarrow> (string \<times> bool) list option"

definition marshal_config :: "audit_env \<Rightarrow> AuditConfig \<Rightarrow> string" where
  "marshal_config en config = an_marshal en (map (\<lambda>f. (f, config f)) audit_fields)"

definition overlay :: "(string \<times> bool) list \<Rightarrow> AuditConfig \<Rightarrow> AuditConfig" where
  "overlay kvs config = (\<lambda>f. case map_of kvs f of Some b \<Rightarrow> b | None \<Rightarrow> config f)"

definition Audit_GetConfig :: "audit_env \<Rightarrow> settings_table \<Rightarrow> AuditConfig" where
  "Audit_GetConfig en t =
     (let configStr = GetValue (an_flt en) SettingAuditConfig [] t in
      if configStr = [] then DefaultAuditConfig
      else case an_unmarshal en configStr of
          None \<Rightarrow> DefaultAuditConfig
        | Some kvs \<Rightarrow> overlay kvs DefaultAuditConfig)"

text \<open>\<open>getConfig\<close>, with the cache it fills.\<close>

definition Audit_getConfig_cached :: "audit_env \<Rightarrow> settings_table \<Rightarrow> audit_state \<Rightarrow> audit_state \<times> AuditConfig" where
  "Audit_getConfig_cached en t au =
     (case au_cache au of
        Some config \<Rightarrow> (au, config)
      | None \<Rightarrow> let config = Audit_GetConfig en t in (au\<lparr>au_cache := Some config\<rparr>, config))"

definition isEventEnabled :: "audit_env \<Rightarrow> settings_table \<Rightarrow> string \<Rightarrow> audit_state \<Rightarrow> audit_state \<times> bool" where
  "isEventEnabled en t action au =
     (case Audit_getConfig_cached en t au of (au', config) \<Rightarrow> (au', event_enabled config action))"

definition Audit_SetConfig ::
  "audit_env \<Rightarrow> AuditConfig \<Rightarrow> settings_table \<Rightarrow> audit_state \<Rightarrow> settings_table \<times> audit_state \<times> db_error option" where
  "Audit_SetConfig en config t au =
     (case Setting_Set (an_flt en) SettingAuditConfig (marshal_config en config) t of
        (t', Some e) \<Rightarrow> (t', au, Some e)
      | (t', None) \<Rightarrow> (t', au\<lparr>au_cache := Some config\<rparr>, None))"

definition InvalidateConfigCache :: "audit_state \<Rightarrow> audit_state" where
  "InvalidateConfigCache au = au\<lparr>au_cache := None\<rparr>"

definition LogEvent :: "audit_env \<Rightarrow> settings_table \<Rightarrow> AuditEvent \<Rightarrow> audit_state \<Rightarrow> audit_state \<times> db_error option" where
  "LogEvent en t ev au =
     (case isEventEnabled en t (ev_Action ev) au of
        (au1, False) \<Rightarrow> (au1, None)
      | (au1, True) \<Rightarrow>
          Audit_Create_repo (an_flt en) (an_now en)
            \<lparr>al_ID = 0, al_UserID = ev_UserID ev, al_Action = ev_Action ev,
             al_ResourceType = non_empty (ev_ResourceType ev), al_ResourceID = ev_ResourceID ev,
             al_ResourceName = non_empty (ev_ResourceName ev), al_Details = ev_Details ev,
             al_IPAddress = non_empty (ev_IPAddress ev), al_UserAgent = non_empty (ev_UserAgent ev),
             al_Status = ev_Status ev, al_ErrorMessage = non_empty (ev_ErrorMessage ev),
             al_CreatedAt = 0\<rparr> au1)"

definition ListAuditLogs ::
  "faults \<Rightarrow> AuditLog order_by \<Rightarrow> AuditLogListParams \<Rightarrow> acl_store \<Rightarrow> audit_state
    \<Rightarrow> (db_error, (AuditLog \<times> User option) list \<times> int \<times> int) result" where
  "ListAuditLogs flt ob q st au =
     map_sum (\<lambda>e. e)
       (\<lambda>(logs, tot). (logs, tot, tot div ql_Limit q + (if tot mod ql_Limit q > 0 then 1 else 0)))
       (Audit_List_repo flt ob q st au)"

end
