(* ===== verification/Audit_Events.thy ===== *)
theory Audit_Events
  imports Audit_Log
begin

text \<open>
  The event each logging method of \<open>backend/internal/service/audit_service.go\<close> hands to
  \<open>LogEvent\<close>. A definition named after a method is the event that method logs; the handlers log it
  with \<open>LogEvent\<close>. Details are JSON objects with the keys in the order of the source.
\<close>

definition success_event ::
  "int \<Rightarrow> string \<Rightarrow> string \<Rightarrow> int option \<Rightarrow> string \<Rightarrow> JSONField \<Rightarrow> string \<Rightarrow> string \<Rightarrow> AuditEvent" where
  "success_event userID action rtype rid rname details ip userAgent =
     \<lparr>ev_UserID = Some userID, ev_Action = action, ev_ResourceType = rtype, ev_ResourceID = rid,
      ev_ResourceName = rname, ev_Details = details, ev_IPAddress = ip, ev_UserAgent = userAgent,
      ev_Status = ''success'', ev_ErrorMessage = []\<rparr>"

definition system_event :: "string \<Rightarrow> JSONField \<Rightarrow> string \<Rightarrow> string \<Rightarrow> AuditEvent" where
  "system_event action details status msg =
     \<lparr>ev_UserID = None, ev_Action = action, ev_ResourceType = ''system'', ev_ResourceID = None,
      ev_ResourceName = [], ev_Details = details, ev_IPAddress = [], ev_UserAgent = [],
      ev_Status = status, ev_ErrorMessage = msg\<rparr>"

definition JInt :: "int \<Rightarrow> json" where "JInt i = JNum (of_int i)"

text \<open>The optional \<open>changes\<close> of an update event, and the values before and after.\<close>

definition with_changes :: "JSONField option \<Rightarrow> JSONField" where
  "with_changes changes = (case changes of None \<Rightarrow> [] | Some c \<Rightarrow> [(''changes'', JObj c)])"

definition old_new :: "json \<Rightarrow> json \<Rightarrow> json" where
  "old_new a b = JObj [(''old'', a), (''new'', b)]"

section \<open>Proxies\<close>

definition LogProxyCreate :: "int \<Rightarrow> Proxy \<Rightarrow> string \<Rightarrow> string \<Rightarrow> AuditEvent" where
  "LogProxyCreate userID p ip ua =
     success_event userID ''proxy.create'' ''proxy'' (Some (px_ID p)) (px_Name p)
       [(''hostname'', JStr (px_Hostname p)), (''type'', JStr (px_Type p)),
        (''ssl_enabled'', JBool (px_SSLEnabled p))] ip ua"

definition LogProxyUpdate :: "int \<Rightarrow> Proxy \<Rightarrow> JSONField option \<Rightarrow> string \<Rightarrow> string \<Rightarrow> AuditEvent" where
  "LogProxyUpdate userID p changes ip ua =
     success_event userID ''proxy.update'' ''proxy'' (Some (px_ID p)) (px_Name p)
       ([(''hostname'', JStr (px_Hostname p)), (''type'', JStr (px_Type p))] @ with_changes changes) ip ua"

definition LogProxyDelete :: "int \<Rightarrow> int \<Rightarrow> string \<Rightarrow> string \<Rightarrow> string \<Rightarrow> string \<Rightarrow> AuditEvent" where
  "LogProxyDelete userID proxyID proxyName hostname ip ua =
     success_event userID ''proxy.delete'' ''proxy'' (Some proxyID) proxyName
       [(''hostname'', JStr hostname)] ip ua"

definition LogProxyEnable :: "int \<Rightarrow> Proxy \<Rightarrow> string \<Rightarrow> string \<Rightarrow> AuditEvent" where
  "LogProxyEnable userID p ip ua =
     success_event userID ''proxy.enable'' ''proxy'' (Some (px_ID p)) (px_Name p)
       [(''hostname'', JStr (px_Hostname p))] ip ua"

definition LogProxyDisable :: "int \<Rightarrow> Proxy \<Rightarrow> string \<Rightarrow> string \<Rightarrow> AuditEvent" where
  "LogProxyDisable userID p ip ua =
     success_event userID ''proxy.disable'' ''proxy'' (Some (px_ID p)) (px_Name p)
       [(''hostname'', JStr (px_Hostname p))] ip ua"

section \<open>Authentication and settings\<close>

definition LogLogin :: "int \<Rightarrow> string \<Rightarrow> string \<Rightarrow> string \<Rightarrow> AuditEvent" where
  "LogLogin userID username ip ua =
     success_event userID ''auth.login'' ''user'' (Some userID) username [] ip ua"

definition LogLoginFailed :: "string \<Rightarrow> string \<Rightarrow> string \<Rightarrow> string \<Rightarrow> AuditEvent" where
  "LogLoginFailed username ip ua reason =
     \<lparr>ev_UserID = None, ev_Action = ''auth.login_failed'', ev_ResourceType = ''user'',
      ev_ResourceID = None, ev_ResourceName = username, ev_Details = [(''reason'', JStr reason)],
      ev_IPAddress = ip, ev_UserAgent = ua, ev_Status = ''failure'', ev_ErrorMessage = reason\<rparr>"

definition LogLogout :: "int \<Rightarrow> string \<Rightarrow> string \<Rightarrow> string \<Rightarrow> AuditEvent" where
  "LogLogout userID username ip ua =
     success_event userID ''auth.logout'' ''user'' (Some userID) username [] ip ua"

definition LogRegister :: "int \<Rightarrow> string \<Rightarrow> string \<Rightarrow> string \<Rightarrow> AuditEvent" where
  "LogRegister userID username ip ua =
     success_event userID ''auth.register'' ''user'' (Some userID) username [] ip ua"

definition LogPasswordChange :: "int \<Rightarrow> string \<Rightarrow> string \<Rightarrow> string \<Rightarrow> AuditEvent" where
  "LogPasswordChange userID username ip ua =
     success_event userID ''auth.password_change'' ''user'' (Some userID) username [] ip ua"

definition LogSettingsUpdate :: "int \<Rightarrow> string \<Rightarrow> string \<Rightarrow> string \<Rightarrow> string \<Rightarrow> string \<Rightarrow> AuditEvent" where
  "LogSettingsUpdate userID key oldVal newVal ip ua =
     success_event userID ''settings.update'' ''settings'' None key
       [(''key'', JStr key), (''changes'', JObj [(key, old_new (JStr oldVal) (JStr newVal))])] ip ua"

section \<open>Synchronisation and system\<close>

definition LogSyncStarted :: AuditEvent where
  "LogSyncStarted = system_event ''sync.started'' [] ''success'' []"

definition LogSyncCompleted :: "int \<Rightarrow> AuditEvent" where
  "LogSyncCompleted proxiesCount =
     system_event ''sync.completed'' [(''proxies_synced'', JInt proxiesCount)] ''success'' []"

definition LogSyncFailed :: "string \<Rightarrow> AuditEvent" where
  "LogSyncFailed errMsg = system_event ''sync.failed'' [] ''failure'' errMsg"

definition LogSystemStartup :: AuditEvent where
  "LogSystemStartup = system_event ''system.startup'' [] ''success'' []"

definition LogCaddyReload :: "bool \<Rightarrow> string \<Rightarrow> AuditEvent" where
  "LogCaddyReload success errMsg =
     system_event ''caddy.reload'' [] (if success then ''success'' else ''failure'') errMsg"

section \<open>Access control\<close>

definition LogACLGroupCreate :: "int \<Rightarrow> ACLGroup \<Rightarrow> string \<Rightarrow> string \<Rightarrow> AuditEvent" where
  "LogACLGroupCreate userID g ip ua =
     success_event userID ''acl_group.create'' ''acl'' (Some (gr_ID g)) (gr_Name g)
       [(''group_id'', JInt (gr_ID g)), (''group_name'', JStr (gr_Name g)),
        (''combination_mode'', JStr (gr_CombinationMode g))] ip ua"

definition LogACLGroupUpdate :: "int \<Rightarrow> ACLGroup \<Rightarrow> JSONField option \<Rightarrow> string \<Rightarrow> string \<Rightarrow> AuditEvent" where
  "LogACLGroupUpdate userID g changes ip ua =
     success_event userID ''acl_group.update'' ''acl'' (Some (gr_ID g)) (gr_Name g)
       ([(''group_id'', JInt (gr_ID g)), (''group_name'', JStr (gr_Name g))] @ with_changes changes) ip ua"

definition LogACLGroupDelete :: "int \<Rightarrow> int \<Rightarrow> string \<Rightarrow> string \<Rightarrow> string \<Rightarrow> AuditEvent" where
  "LogACLGroupDelete userID groupID groupName ip ua =
     success_event userID ''acl_group.delete'' ''acl'' (Some groupID) groupName
       [(''group_id'', JInt groupID), (''group_name'', JStr groupName)] ip ua"

definition LogACLIPRuleAdd :: "int \<Rightarrow> int \<Rightarrow> string \<Rightarrow> ACLIPRule \<Rightarrow> string \<Rightarrow> string \<Rightarrow> AuditEvent" where
  "LogACLIPRuleAdd userID groupID groupName rule ip ua =
     success_event userID ''acl_ip_rule.add'' ''acl'' (Some (ir_ID rule)) groupName
       [(''group_id'', JInt groupID), (''group_name'', JStr groupName), (''rule_id'', JInt (ir_ID rule)),
        (''rule_type'', JStr (ir_RuleType rule)), (''cidr'', JStr (ir_CIDR rule)),
        (''priority'', JInt (ir_Priority rule))] ip ua"

definition LogACLIPRuleUpdate :: "int \<Rightarrow> ACLIPRule \<Rightarrow> JSONField option \<Rightarrow> string \<Rightarrow> string \<Rightarrow> AuditEvent" where
  "LogACLIPRuleUpdate userID rule changes ip ua =
     success_event userID ''acl_ip_rule.update'' ''acl'' (Some (ir_ID rule)) []
       ([(''rule_id'', JInt (ir_ID rule)), (''rule_type'', JStr (ir_RuleType rule)),
         (''cidr'', JStr (ir_CIDR rule))] @ with_changes changes) ip ua"

definition LogACLIPRuleDelete ::
  "int \<Rightarrow> int \<Rightarrow> string \<Rightarrow> string \<Rightarrow> string \<Rightarrow> string \<Rightarrow> string \<Rightarrow> AuditEvent" where
  "LogACLIPRuleDelete userID ruleID groupName cidr ruleType ip ua =
     success_event userID ''acl_ip_rule.delete'' ''acl'' (Some ruleID) groupName
       [(''rule_id'', JInt ruleID), (''group_name'', JStr groupName), (''cidr'', JStr cidr),
        (''rule_type'', JStr ruleType)] ip ua"

definition LogACLBasicAuthAdd ::
  "int \<Rightarrow> int \<Rightarrow> string \<Rightarrow> string \<Rightarrow> string \<Rightarrow> string \<Rightarrow> AuditEvent" where
  "LogACLBasicAuthAdd userID groupID groupName username ip ua =
     success_event userID ''acl_basic_auth.add'' ''acl'' None groupName
       [(''group_id'', JInt groupID), (''group_name'', JStr groupName), (''username'', JStr username)] ip ua"

definition basic_auth_event ::
  "string \<Rightarrow> int \<Rightarrow> int \<Rightarrow> string \<Rightarrow> string \<Rightarrow> string \<Rightarrow> string \<Rightarrow> AuditEvent" where
  "basic_auth_event action userID authUserID groupName username ip ua =
     success_event userID action ''acl'' (Some authUserID) groupName
       [(''auth_user_id'', JInt authUserID), (''group_name'', JStr groupName),
        (''username'', JStr username)] ip ua"

definition LogACLBasicAuthUpdate ::
  "int \<Rightarrow> int \<Rightarrow> string \<Rightarrow> string \<Rightarrow> string \<Rightarrow> string \<Rightarrow> AuditEvent" where
  "LogACLBasicAuthUpdate = basic_auth_event ''acl_basic_auth.update''"

definition LogACLBasicAuthDelete ::
  "int \<Rightarrow> int \<Rightarrow> string \<Rightarrow> string \<Rightarrow> string \<Rightarrow> string \<Rightarrow> AuditEvent" where
  "LogACLBasicAuthDelete = basic_auth_event ''acl_basic_auth.delete''"

definition LogACLWaygatesAuthUpdate ::
  "int \<Rightarrow> int \<Rightarrow> string \<Rightarrow> JSONField \<Rightarrow> string \<Rightarrow> string \<Rightarrow> AuditEvent" where
  "LogACLWaygatesAuthUpdate userID groupID groupName changes ip ua =
     success_event userID ''acl_waygates_auth.update'' ''acl'' (Some groupID) groupName
       ([(''group_id'', JInt groupID), (''group_name'', JStr groupName)]
         @ with_changes (if changes = [] then None else Some changes)) ip ua"

definition LogACLAssignmentCreate ::
  "int \<Rightarrow> int \<Rightarrow> string \<Rightarrow> int \<Rightarrow> string \<Rightarrow> string \<Rightarrow> string \<Rightarrow> string \<Rightarrow> AuditEvent" where
  "LogACLAssignmentCreate userID proxyID proxyName groupID groupName pathPattern ip ua =
     success_event userID ''acl_assignment.create'' ''acl'' (Some proxyID) proxyName
       [(''proxy_id'', JInt proxyID), (''proxy_name'', JStr proxyName), (''group_id'', JInt groupID),
        (''group_name'', JStr groupName), (''path_pattern'', JStr pathPattern)] ip ua"

definition LogACLAssignmentUpdate ::
  "int \<Rightarrow> ProxyACLAssignment \<Rightarrow> JSONField option \<Rightarrow> string \<Rightarrow> string \<Rightarrow> AuditEvent" where
  "LogACLAssignmentUpdate userID a changes ip ua =
     success_event userID ''acl_assignment.update'' ''acl'' (Some (pa_ID a)) []
       ([(''assignment_id'', JInt (pa_ID a)), (''proxy_id'', JInt (pa_ProxyID a)),
         (''group_id'', JInt (pa_ACLGroupID a)), (''path_pattern'', JStr (pa_PathPattern a))]
         @ with_changes changes) ip ua"

definition LogACLAssignmentDelete ::
  "int \<Rightarrow> int \<Rightarrow> string \<Rightarrow> int \<Rightarrow> string \<Rightarrow> string \<Rightarrow> string \<Rightarrow> AuditEvent" where
  "LogACLAssignmentDelete userID proxyID proxyName groupID groupName ip ua =
     success_event userID ''acl_assignment.delete'' ''acl'' (Some proxyID) proxyName
       [(''proxy_id'', JInt proxyID), (''proxy_name'', JStr proxyName), (''group_id'', JInt groupID),
        (''group_name'', JStr groupName)] ip ua"

definition LogACLBrandingUpdate :: "int \<Rightarrow> JSONField option \<Rightarrow> string \<Rightarrow> string \<Rightarrow> AuditEvent" where
  "LogACLBrandingUpdate userID changes ip ua =
     success_event userID ''acl_branding.update'' ''acl'' None ''branding'' (with_changes changes) ip ua"

definition LogACLSessionRevoke :: "int \<Rightarrow> int \<Rightarrow> string \<Rightarrow> string \<Rightarrow> string \<Rightarrow> AuditEvent" where
  "LogACLSessionRevoke userID sessionID sessionEmail ip ua =
     success_event userID ''acl_session.revoke'' ''acl'' (Some sessionID) sessionEmail
       [(''session_id'', JInt sessionID), (''session_email'', JStr sessionEmail)] ip ua"

text \<open>
  \<open>LogACLOAuthRestrictionSet\<close> records what changed; lists are compared as their comma-separated
  texts.
\<close>

definition joinStringSlice :: "string list \<Rightarrow> string" where
  "joinStringSlice s = Join s '',''"

definition JStrs :: "string list \<Rightarrow> json" where "JStrs xs = JArr (map JStr xs)"

definition restriction_changes ::
  "ACLOAuthProviderRestriction option \<Rightarrow> bool \<Rightarrow> string list \<Rightarrow> string list \<Rightarrow> JSONField" where
  "restriction_changes oldRestriction newEnabled newEmails newDomains =
     (let oldEnabled = (case oldRestriction of None \<Rightarrow> False | Some r \<Rightarrow> or_Enabled r);
          oldEmails = (case oldRestriction of None \<Rightarrow> [] | Some r \<Rightarrow> or_AllowedEmails r);
          oldDomains = (case oldRestriction of None \<Rightarrow> [] | Some r \<Rightarrow> or_AllowedDomains r)
      in (if oldEnabled \<noteq> newEnabled then [(''enabled'', old_new (JBool oldEnabled) (JBool newEnabled))] else [])
       @ (if joinStringSlice oldEmails \<noteq> joinStringSlice newEmails
          then [(''allowed_emails'', old_new (JStrs oldEmails) (JStrs newEmails))] else [])
       @ (if joinStringSlice oldDomains \<noteq> joinStringSlice newDomains
          then [(''allowed_domains'', old_new (JStrs oldDomains) (JStrs newDomains))] else []))"

definition LogACLOAuthRestrictionSet ::
  "int \<Rightarrow> int \<Rightarrow> string \<Rightarrow> string \<Rightarrow> ACLOAuthProviderRestriction option \<Rightarrow> bool \<Rightarrow> string list
    \<Rightarrow> string list \<Rightarrow> string \<Rightarrow> string \<Rightarrow> AuditEvent" where
  "LogACLOAuthRestrictionSet userID groupID groupName provider oldR newEnabled newEmails newDomains ip ua =
     (let changes = restriction_changes oldR newEnabled newEmails newDomains in
      success_event userID ''acl_oauth_restriction.set'' ''acl'' (Some groupID) groupName
        ([(''group_id'', JInt groupID), (''group_name'', JStr groupName), (''provider'', JStr provider)]
          @ with_changes (if changes = [] then None else Some changes)) ip ua)"

definition LogACLOAuthRestrictionDelete ::
  "int \<Rightarrow> int \<Rightarrow> string \<Rightarrow> string \<Rightarrow> string \<Rightarrow> string \<Rightarrow> AuditEvent" where
  "LogACLOAuthRestrictionDelete userID groupID groupName provider ip ua =
     success_event userID ''acl_oauth_restriction.delete'' ''acl'' (Some groupID) groupName
       [(''group_id'', JInt groupID), (''group_name'', JStr groupName), (''provider'', JStr provider)] ip ua"

end
