(* ===== verification/Go_Http.thy ===== *)
theory Go_Http
  imports Go_Url Acl_Session
begin

text \<open>
  What the HTTP handlers use of Go's \<open>net/http\<close>, \<open>net/url\<close> and \<open>encoding/base64\<close>, and the
  response helpers of \<open>backend/internal/utils/response.go\<close>. A request carries its headers and
  cookies as the server parsed them; a response is the status, the headers and cookies a handler set
  and the body. Bodies are the two envelopes of the API with the payload as a value, a plain text, or
  nothing.
\<close>

section \<open>Requests\<close>

record http_request =
  hq_Method :: string
  hq_Host :: string
  hq_Path :: string
  hq_Query :: "(string \<times> string) list"
  hq_RemoteAddr :: string
  hq_Headers :: "(string \<times> string) list"
  hq_Cookies :: "(string \<times> string) list"
  hq_Params :: "(string \<times> string) list"
  hq_UserID :: string

text \<open>\<open>Header.Get\<close>: names compare without regard to case, and an absent header reads as empty.\<close>

definition Header_Get :: "http_request \<Rightarrow> string \<Rightarrow> string" where
  "Header_Get r name =
     (case List.find (\<lambda>h. EqualFold (fst h) name) (hq_Headers r) of None \<Rightarrow> [] | Some h \<Rightarrow> snd h)"

definition Query_Get :: "http_request \<Rightarrow> string \<Rightarrow> string" where
  "Query_Get r name = (case map_of (hq_Query r) name of None \<Rightarrow> [] | Some v \<Rightarrow> v)"

definition request_Cookie :: "http_request \<Rightarrow> string \<Rightarrow> string option" where
  "request_Cookie r name = map_of (hq_Cookies r) name"

text \<open>\<open>chi.URLParam\<close>; the user the authentication middleware found is \<open>hq_UserID\<close>.\<close>

definition URLParam :: "http_request \<Rightarrow> string \<Rightarrow> string" where
  "URLParam r name = (case map_of (hq_Params r) name of None \<Rightarrow> [] | Some v \<Rightarrow> v)"

definition UserAgent :: "http_request \<Rightarrow> string" where
  "UserAgent r = Header_Get r ''User-Agent''"

section \<open>Responses\<close>

record Cookie =
  ck_Name :: string
  ck_Value :: string
  ck_Path :: string
  ck_Domain :: string
  ck_Expires :: "int option"
  ck_MaxAge :: int
  ck_HttpOnly :: bool
  ck_Secure :: bool
  ck_SameSiteLax :: bool

datatype 'd body =
  NoBody
| SuccessBody string "'d option"
| ErrorBody string string
| TextBody string

record 'd http_response =
  ht_Status :: int
  ht_Headers :: "(string \<times> string) list"
  ht_Cookies :: "Cookie list"
  ht_Body :: "'d body"

definition WriteHeader :: "int \<Rightarrow> 'd http_response" where
  "WriteHeader status = \<lparr>ht_Status = status, ht_Headers = [], ht_Cookies = [], ht_Body = NoBody\<rparr>"

definition with_headers :: "(string \<times> string) list \<Rightarrow> 'd http_response \<Rightarrow> 'd http_response" where
  "with_headers hs w = w\<lparr>ht_Headers := hs @ ht_Headers w\<rparr>"

definition with_cookies :: "Cookie list \<Rightarrow> 'd http_response \<Rightarrow> 'd http_response" where
  "with_cookies cs w = w\<lparr>ht_Cookies := cs @ ht_Cookies w\<rparr>"

definition JSON :: "int \<Rightarrow> 'd body \<Rightarrow> 'd http_response" where
  "JSON status body =
     \<lparr>ht_Status = status, ht_Headers = [(''Content-Type'', ''application/json'')], ht_Cookies = [],
      ht_Body = body\<rparr>"

definition Success :: "'d option \<Rightarrow> string \<Rightarrow> 'd http_response" where
  "Success data msg = JSON 200 (SuccessBody msg data)"

definition Created :: "'d option \<Rightarrow> string \<Rightarrow> 'd http_response" where
  "Created data msg = JSON 201 (SuccessBody msg data)"

definition Error :: "int \<Rightarrow> string \<Rightarrow> string \<Rightarrow> 'd http_response" where
  "Error status code msg = JSON status (ErrorBody code msg)"

definition BadRequest :: "string \<Rightarrow> 'd http_response" where
  "BadRequest msg = Error 400 ''VALIDATION_ERROR'' msg"

definition Unauthorized :: "string \<Rightarrow> 'd http_response" where
  "Unauthorized msg = Error 401 ''UNAUTHORIZED'' msg"

definition Forbidden :: "string \<Rightarrow> 'd http_response" where
  "Forbidden msg = Error 403 ''FORBIDDEN'' msg"

definition NotFound :: "string \<Rightarrow> 'd http_response" where
  "NotFound msg = Error 404 ''NOT_FOUND'' msg"

definition Conflict :: "string \<Rightarrow> 'd http_response" where
  "Conflict msg = Error 409 ''CONFLICT'' msg"

definition InternalError :: "string \<Rightarrow> 'd http_response" where
  "InternalError msg = Error 500 ''INTERNAL_ERROR'' msg"

definition BadGateway :: "string \<Rightarrow> 'd http_response" where
  "BadGateway msg = Error 502 ''EXTERNAL_SERVICE_ERROR'' msg"

text \<open>\<open>http.Error\<close> and \<open>http.Redirect\<close>.\<close>

definition http_Error :: "string \<Rightarrow> int \<Rightarrow> 'd http_response" where
  "http_Error msg status = (WriteHeader status)\<lparr>ht_Body := TextBody msg\<rparr>"

definition http_Redirect :: "string \<Rightarrow> int \<Rightarrow> 'd http_response" where
  "http_Redirect location status = with_headers [(''Location'', location)] (WriteHeader status)"

lemmas response_defs =
  WriteHeader_def with_headers_def with_cookies_def JSON_def Success_def Created_def Error_def
  BadRequest_def Unauthorized_def Forbidden_def NotFound_def Conflict_def InternalError_def
  BadGateway_def http_Error_def http_Redirect_def

lemma response_status [simp]:
  "ht_Status (Success d m) = 200" "ht_Status (Created d m) = 201" "ht_Status (BadRequest m) = 400"
  "ht_Status (Unauthorized m) = 401" "ht_Status (Forbidden m) = 403" "ht_Status (NotFound m) = 404"
  "ht_Status (Conflict m) = 409" "ht_Status (InternalError m) = 500" "ht_Status (BadGateway m) = 502"
  "ht_Status (WriteHeader s) = s" "ht_Status (with_headers hs w) = ht_Status w"
  "ht_Status (with_cookies cs w) = ht_Status w" "ht_Status (http_Error m s) = s"
  "ht_Status (http_Redirect l s) = s"
  by (simp_all add: response_defs)

lemma response_cookies [simp]:
  "ht_Cookies (Success d m) = []" "ht_Cookies (Created d m) = []" "ht_Cookies (BadRequest m) = []"
  "ht_Cookies (Unauthorized m) = []" "ht_Cookies (Forbidden m) = []" "ht_Cookies (NotFound m) = []"
  "ht_Cookies (Conflict m) = []" "ht_Cookies (InternalError m) = []" "ht_Cookies (BadGateway m) = []"
  "ht_Cookies (WriteHeader s) = []" "ht_Cookies (with_headers hs w) = ht_Cookies w"
  "ht_Cookies (with_cookies cs w) = cs @ ht_Cookies w" "ht_Cookies (http_Error m s) = []"
  "ht_Cookies (http_Redirect l s) = []"
  by (simp_all add: response_defs)

section \<open>Base64\<close>

text \<open>
  \<open>DecodeString\<close> of the padded encodings over an alphabet: line breaks are skipped, four characters
  give three bytes, and padding is allowed in the last group only. \<^term>\<open>None\<close> is
  \<open>CorruptInputError\<close>.
\<close>

definition std_alphabet :: string where
  "std_alphabet = ''ABCDEFGHIJKLMNOPQRSTUVWXYZabcdefghijklmnopqrstuvwxyz0123456789+/''"

definition sextet :: "string \<Rightarrow> char \<Rightarrow> nat option" where
  "sextet alphabet c = index_char c alphabet"

fun decode_groups :: "string \<Rightarrow> string \<Rightarrow> nat list option" where
  "decode_groups al [] = Some []"
| "decode_groups al (w # x # y # z # cs) =
     (case (sextet al w, sextet al x) of
        (Some a, Some b) \<Rightarrow>
          if z = CHR ''='' then
            if cs \<noteq> [] then None
            else if y = CHR ''='' then Some [a * 4 + b div 16]
            else map_option (\<lambda>c. [a * 4 + b div 16, b mod 16 * 16 + c div 4]) (sextet al y)
          else
            (case (sextet al y, sextet al z) of
               (Some c, Some d) \<Rightarrow>
                 map_option (\<lambda>bs. [a * 4 + b div 16, b mod 16 * 16 + c div 4, c mod 4 * 64 + d] @ bs)
                   (decode_groups al cs)
             | _ \<Rightarrow> None)
      | _ \<Rightarrow> None)"
| "decode_groups al _ = None"

definition base64_Decode :: "string \<Rightarrow> string \<Rightarrow> string option" where
  "base64_Decode al s =
     map_option (map char_of) (decode_groups al (filter (\<lambda>c. (of_char c :: nat) \<notin> {10, 13}) s))"

text \<open>\<open>base64.RawURLEncoding\<close> is the URL encoding without padding.\<close>

definition RawEncodeToString :: "nat list \<Rightarrow> string" where
  "RawEncodeToString bs = takeWhile (\<lambda>c. c \<noteq> CHR ''='') (EncodeToString bs)"

definition bytes_of :: "string \<Rightarrow> nat list" where
  "bytes_of s = map of_char s"

section \<open>Parsing any URL\<close>

text \<open>
  \<open>getScheme\<close>: \<^term>\<open>None\<close> for its error, otherwise scheme and rest; the scheme is empty when there
  is none.
\<close>

definition is_letter :: "char \<Rightarrow> bool" where
  "is_letter c \<longleftrightarrow> is_alnum c \<and> \<not> is_digit c"

fun getScheme :: "string \<Rightarrow> string \<Rightarrow> (string \<times> string) option" where
  "getScheme seen [] = Some ([], rev seen)"
| "getScheme seen (c # cs) =
     (if is_letter c then getScheme (c # seen) cs
      else if is_digit c \<or> List.member ''+-.'' c then
        (if seen = [] then Some ([], c # cs) else getScheme (c # seen) cs)
      else if c = CHR '':'' then (if seen = [] then None else Some (rev seen, cs))
      else Some ([], rev seen @ c # cs))"

text \<open>
  \<open>url.Parse\<close>: scheme and host of the result. An opaque URL and one without authority have the empty
  host.
\<close>

definition url_Parse :: "string \<Rightarrow> URL option" where
  "url_Parse raw =
     (let (u, frag) = cut_at CHR ''#'' raw in
      if list_ex is_ctl u then None
      else if u = ''*'' then (if escapes_ok frag then Some \<lparr>url_Scheme = [], url_Host = []\<rparr> else None)
      else case getScheme [] u of
        None \<Rightarrow> None
      | Some (scheme0, rest0) \<Rightarrow>
          let scheme = ToLower scheme0; rest = fst (cut_at CHR ''?'' rest0) in
          if \<not> HasPrefix rest ''/'' \<and> scheme \<noteq> [] then
            (if escapes_ok frag then Some \<lparr>url_Scheme = scheme, url_Host = []\<rparr> else None)
          else if \<not> HasPrefix rest ''/'' \<and> Contains (fst (cut_at CHR ''/'' rest)) '':'' then None
          else if (scheme \<noteq> [] \<or> \<not> HasPrefix rest ''///'') \<and> HasPrefix rest ''//'' then
            let authority = fst (cut_at CHR ''/'' (drop 2 rest)); path = drop (2 + length authority) rest in
            (case parseAuthority authority of
               None \<Rightarrow> None
             | Some host \<Rightarrow>
                 if escapes_ok path \<and> escapes_ok frag then Some \<lparr>url_Scheme = scheme, url_Host = host\<rparr>
                 else None)
          else if escapes_ok rest \<and> escapes_ok frag then Some \<lparr>url_Scheme = scheme, url_Host = []\<rparr>
          else None)"

end
