(* ===== verification/App_State.thy ===== *)
theory App_State
  imports L4_Store Proxy_Service Sync_Service Audit_Events Go_Http
begin

text \<open>
  \<open>backend/internal/repository/user_repository.go\<close> over the users table. User names and addresses
  are unique; a write that breaks this fails with the text of the database's error, which names the
  constraint (the user name's index is checked first). Deleting a user follows the foreign keys of
  the migrations: the proxies and groups the user created and the user's sessions go with the row,
  each with all that belongs to it, while a Layer 4 proxy the user created forbids the deletion.
\<close>

definition set_us_ID :: "int \<Rightarrow> User \<Rightarrow> User" where "set_us_ID i u = u\<lparr>us_ID := i\<rparr>"

interpretation users_tb: row_table us_ID set_us_ID
  by unfold_locales (simp add: set_us_ID_def)

abbreviation db_users :: "app_db \<Rightarrow> User table" where "db_users db \<equiv> st_users (db_acl db)"

definition set_users :: "User table \<Rightarrow> app_db \<Rightarrow> app_db" where
  "set_users t db = db\<lparr>db_acl := (db_acl db)\<lparr>st_users := t\<rparr>\<rparr>"

lemma set_users_simps [simp]:
  "db_users (set_users t db) = t" "db_settings (set_users t db) = db_settings db"
  "db_l4_proxies (set_users t db) = db_l4_proxies db" "db_l4_routes (set_users t db) = db_l4_routes db"
  "set_users t (set_users t' db) = set_users t db"
  by (simp_all add: set_users_def)

section \<open>Reads\<close>

definition GetByUsernameOrEmail :: "faults \<Rightarrow> string \<Rightarrow> app_db \<Rightarrow> (db_error, User) result" where
  "GetByUsernameOrEmail flt identifier db =
     read_first (flt ''User.GetByUsernameOrEmail'')
       (\<lambda>u. us_Username u = identifier \<or> us_Email u = identifier) (db_users db)"

definition GetByEmail :: "faults \<Rightarrow> string \<Rightarrow> app_db \<Rightarrow> (db_error, User) result" where
  "GetByEmail flt email db = GetByUsernameOrEmail flt email db"

definition User_GetByID_repo :: "faults \<Rightarrow> int \<Rightarrow> app_db \<Rightarrow> (db_error, User) result" where
  "User_GetByID_repo flt i db = read_first (flt ''User.GetByID'') (\<lambda>u. us_ID u = i) (db_users db)"

definition User_Count :: "faults \<Rightarrow> app_db \<Rightarrow> (db_error, nat) result" where
  "User_Count flt db =
     (if flt ''User.Count'' then Err DBFault else Ok (length (tb_rows (db_users db))))"

definition User_List_repo :: "faults \<Rightarrow> app_db \<Rightarrow> (db_error, User list) result" where
  "User_List_repo flt db = (if flt ''User.List'' then Err DBFault else Ok (tb_rows (db_users db)))"

section \<open>Writes\<close>

definition duplicate_text :: "string \<Rightarrow> string" where
  "duplicate_text constraint =
     ''ERROR: duplicate key value violates unique constraint '' @ constraint @ '' (SQLSTATE 23505)''"

definition fault_text :: string where "fault_text = ''connection lost''"

definition restrict_text :: string where
  "restrict_text = ''ERROR: update or delete on table users violates foreign key constraint fk_l4_proxies_created_by''"

type_synonym user_write = "app_db \<times> string option"

text \<open>The unique columns another row already uses.\<close>

definition user_clash :: "User \<Rightarrow> User list \<Rightarrow> string option" where
  "user_clash u others =
     (if list_ex (\<lambda>x. us_Username x = us_Username u) others then Some (duplicate_text ''users_username_key'')
      else if list_ex (\<lambda>x. us_Email x = us_Email u) others then Some (duplicate_text ''users_email_key'')
      else None)"

text \<open>GORM replaces a false \<open>Active\<close> by the column default when it inserts.\<close>

definition created_user :: "app_db \<Rightarrow> User \<Rightarrow> User" where
  "created_user db u = u\<lparr>us_ID := tb_next (db_users db), us_Active := True\<rparr>"

definition User_Create_repo :: "faults \<Rightarrow> User \<Rightarrow> app_db \<Rightarrow> user_write" where
  "User_Create_repo flt u db =
     (if flt ''User.Create'' then (db, Some fault_text)
      else case user_clash u (tb_rows (db_users db)) of
          Some e \<Rightarrow> (db, Some e)
        | None \<Rightarrow> (set_users (tb_Create set_us_ID (u\<lparr>us_Active := True\<rparr>) (db_users db)) db, None))"

text \<open>An \<open>UPDATE\<close> of one user's columns; no row with the key is no error.\<close>

definition modify_user :: "int \<Rightarrow> (User \<Rightarrow> User) \<Rightarrow> User table \<Rightarrow> User table" where
  "modify_user i f t = t\<lparr>tb_rows := map (\<lambda>u. if us_ID u = i then f u else u) (tb_rows t)\<rparr>"

definition User_Update_repo :: "faults \<Rightarrow> User \<Rightarrow> app_db \<Rightarrow> user_write" where
  "User_Update_repo flt u db =
     (if flt ''User.Update'' then (db, Some (''update user: '' @ fault_text))
      else if list_ex (\<lambda>x. us_Email x = us_Email u \<and> us_ID x \<noteq> us_ID u) (tb_rows (db_users db)) \<and>
              list_ex (\<lambda>x. us_ID x = us_ID u) (tb_rows (db_users db))
        then (db, Some (''update user: '' @ duplicate_text ''users_email_key''))
      else (set_users
              (modify_user (us_ID u)
                (\<lambda>x. x\<lparr>us_Name := us_Name u, us_Email := us_Email u, us_Active := us_Active u,
                       us_MustChangePassword := us_MustChangePassword u\<rparr>) (db_users db)) db, None))"

definition UpdatePassword :: "faults \<Rightarrow> int \<Rightarrow> string \<Rightarrow> app_db \<Rightarrow> user_write" where
  "UpdatePassword flt i passwordHash db =
     (if flt ''User.UpdatePassword'' then (db, Some fault_text)
      else (set_users (modify_user i (\<lambda>x. x\<lparr>us_PasswordHash := passwordHash\<rparr>) (db_users db)) db, None))"

definition UpdateLastLogin :: "faults \<Rightarrow> int \<Rightarrow> int \<Rightarrow> app_db \<Rightarrow> user_write" where
  "UpdateLastLogin flt i t db =
     (if flt ''User.UpdateLastLogin'' then (db, Some (''update last login: '' @ fault_text))
      else (set_users (modify_user i (\<lambda>x. x\<lparr>us_LastLoginAt := Some t\<rparr>) (db_users db)) db, None))"

definition delete_user_rows :: "int \<Rightarrow> acl_store \<Rightarrow> acl_store" where
  "delete_user_rows i st =
     (let proxies = map px_ID (tb_Find (\<lambda>p. px_CreatedBy p = i) (st_proxies st));
          groups = map gr_ID (tb_Find (\<lambda>g. gr_CreatedBy g = i) (st_groups st));
          st1 = fold delete_group_rows groups (fold delete_proxy_rows proxies st)
      in st1\<lparr>st_sessions := tb_Delete (\<lambda>s. se_UserID s = Some i) (st_sessions st1),
             st_users := tb_Delete (\<lambda>u. us_ID u = i) (st_users st1)\<rparr>)"

definition User_Delete_repo :: "faults \<Rightarrow> int \<Rightarrow> app_db \<Rightarrow> user_write" where
  "User_Delete_repo flt i db =
     (if flt ''User.Delete'' then (db, Some fault_text)
      else if list_ex (\<lambda>p. l4_CreatedBy p = i) (tb_rows (db_l4_proxies db)) then (db, Some restrict_text)
      else (db\<lparr>db_acl := delete_user_rows i (db_acl db)\<rparr>, None))"

section \<open>Lemmas\<close>

lemma rows_modify_user [simp]:
  "tb_rows (modify_user i f t) = map (\<lambda>u. if us_ID u = i then f u else u) (tb_rows t)"
  "tb_next (modify_user i f t) = tb_next t"
  by (simp_all add: modify_user_def)

lemma fold_delete_users [simp]:
  "st_users (fold delete_group_rows gs st) = st_users st"
  "st_users (fold delete_proxy_rows ps st) = st_users st"
  by (induction gs arbitrary: st; simp add: delete_group_rows_def)
     (induction ps arbitrary: st; simp add: delete_proxy_rows_def)

lemma users_delete_user_rows [simp]:
  "st_users (delete_user_rows i st) = tb_Delete (\<lambda>u. us_ID u = i) (st_users st)"
  by (simp add: delete_user_rows_def Let_def)

text \<open>
  The state of the running backend that the handlers share: the database, the roles the
  authentication library \<open>goauth\<close> keeps, the audit service and the sync service. \<open>goauth\<close> is not part
  of the repository: its role store is of an arbitrary type and its two operations are parameters.
  \<open>role_laws\<close> is what the code relies on: an assignment that succeeds is what is read afterwards,
  one that fails changes nothing, and neither touches another user.
\<close>

record 'g role_manager =
  rm_AssignRole :: "string \<Rightarrow> string \<Rightarrow> 'g \<Rightarrow> 'g \<times> bool"
  rm_RoleLabel :: "string \<Rightarrow> 'g \<Rightarrow> string option"

definition role_laws :: "'g role_manager \<Rightarrow> bool" where
  "role_laws rm \<longleftrightarrow>
     (\<forall>u r g g' v. rm_AssignRole rm u r g = (g', True) \<longrightarrow>
        rm_RoleLabel rm v g' = (if v = u then Some r else rm_RoleLabel rm v g)) \<and>
     (\<forall>u r g g' v. rm_AssignRole rm u r g = (g', False) \<longrightarrow> rm_RoleLabel rm v g' = rm_RoleLabel rm v g)"

text \<open>
  The environment of one call: which database statements fail, the clock, random bytes, bcrypt,
  \<open>goauth\<close> (\<open>ae_perm_fails\<close> says for which users reading permissions fails), the JSON codec of the
  audit configuration, and the configuration and environment of the sync service.
\<close>

record 'g app_env =
  ae_flt :: faults
  ae_now :: int
  ae_rand :: "nat \<Rightarrow> nat list option"
  ae_hash :: "string \<Rightarrow> string option"
  ae_compare :: "string \<Rightarrow> string \<Rightarrow> bool"
  ae_roles :: "'g role_manager"
  ae_perm_fails :: "string \<Rightarrow> bool"
  ae_marshal :: "(string \<times> bool) list \<Rightarrow> string"
  ae_unmarshal :: "string \<Rightarrow> (string \<times> bool) list option"
  ae_sync_conf :: sync_conf
  ae_sync_env :: sync_env

record 'g app =
  ap_db :: app_db
  ap_roles :: 'g
  ap_audit :: audit_state
  ap_sync :: sync_state

definition audit_env_of :: "'g app_env \<Rightarrow> audit_env" where
  "audit_env_of en =
     \<lparr>an_flt = ae_flt en, an_now = ae_now en, an_marshal = ae_marshal en, an_unmarshal = ae_unmarshal en\<rparr>"

definition verify_env_of :: "'g app_env \<Rightarrow> verify_env" where
  "verify_env_of en = \<lparr>ve_now = ae_now en, ve_flt = ae_flt en, ve_compare = ae_compare en\<rparr>"

text \<open>Logging an event; the handlers ignore its error.\<close>

definition audit :: "'g app_env \<Rightarrow> AuditEvent \<Rightarrow> 'g app \<Rightarrow> 'g app" where
  "audit en ev ap =
     ap\<lparr>ap_audit := fst (LogEvent (audit_env_of en) (db_settings (ap_db ap)) ev (ap_audit ap))\<rparr>"

definition set_acl :: "acl_store \<Rightarrow> 'g app \<Rightarrow> 'g app" where
  "set_acl st ap = ap\<lparr>ap_db := (ap_db ap)\<lparr>db_acl := st\<rparr>\<rparr>"

lemma audit_simps [simp]:
  "ap_db (audit en ev ap) = ap_db ap" "ap_roles (audit en ev ap) = ap_roles ap"
  "ap_sync (audit en ev ap) = ap_sync ap"
  by (simp_all add: audit_def)

lemma set_acl_simps [simp]:
  "db_acl (ap_db (set_acl st ap)) = st" "ap_roles (set_acl st ap) = ap_roles ap"
  "ap_audit (set_acl st ap) = ap_audit ap" "ap_sync (set_acl st ap) = ap_sync ap"
  by (simp_all add: set_acl_def)

text \<open>\<open>getClientIP\<close> of the handlers.\<close>

definition getClientIP :: "http_request \<Rightarrow> string" where
  "getClientIP r =
     (let xff = Header_Get r ''X-Forwarded-For'' in
      if xff \<noteq> [] then TrimSpace (hd (Split CHR '','' xff))
      else if Header_Get r ''X-Real-IP'' \<noteq> [] then Header_Get r ''X-Real-IP''
      else case last_index_char CHR '':'' (hq_RemoteAddr r) of
          Some i \<Rightarrow> take i (hq_RemoteAddr r)
        | None \<Rightarrow> hq_RemoteAddr r)"

end
