(* ===== verification/Acl_Http.thy ===== *)
theory Acl_Http
  imports App_State
begin

text \<open>
  \<open>backend/internal/api/handlers/acl_verify_handler.go\<close>: the forward-authentication endpoint Caddy
  calls for every protected request, and login, logout and session information of the access-control
  login page. \<open>EffectiveTLDPlusOne\<close> of the public suffix list is a parameter; a body that does not
  decode is \<^term>\<open>None\<close>; a time in a response is the time itself, not its rendering.
\<close>

section \<open>Client address and credentials\<close>

definition trustedClientIPHeader :: string where
  "trustedClientIPHeader = ''X-Waygates-Client-IP''"

definition clientIPForACL :: "http_request \<Rightarrow> string" where
  "clientIPForACL r =
     (if Header_Get r trustedClientIPHeader \<noteq> [] then TrimSpace (Header_Get r trustedClientIPHeader)
      else if Header_Get r ''X-Forwarded-For'' \<noteq> []
        then TrimSpace (hd (Split CHR '','' (Header_Get r ''X-Forwarded-For'')))
      else getClientIP r)"

definition parseBasicAuth :: "string \<Rightarrow> BasicAuthCredentials option" where
  "parseBasicAuth authHeader =
     (let encoded = TrimPrefix authHeader ''Basic '' in
      if encoded = authHeader then None
      else case base64_Decode std_alphabet encoded of
        None \<Rightarrow> None
      | Some decoded \<Rightarrow>
          (case index_char CHR '':'' decoded of
             None \<Rightarrow> None
           | Some i \<Rightarrow> Some \<lparr>bc_Username = take i decoded, bc_Password = drop (Suc i) decoded\<rparr>))"

section \<open>Cookie domains\<close>

definition isIPAddress :: "string \<Rightarrow> bool" where
  "isIPAddress host =
     (if Contains host '':'' then True
      else list_all (\<lambda>c. c = CHR ''.'' \<or> is_digit c) host \<and> host \<noteq> [])"

definition extractBaseDomainFallback :: "string \<Rightarrow> string" where
  "extractBaseDomainFallback host =
     (let parts = Split CHR ''.'' host in
      if length parts < 2 then []
      else ''.'' @ Join (drop (length parts - 2) parts) ''.'')"

definition extractCookieDomain :: "(string \<Rightarrow> string option) \<Rightarrow> string \<Rightarrow> string" where
  "extractCookieDomain eTLDPlusOne rawURL =
     (if rawURL = [] then []
      else case url_Parse rawURL of
        None \<Rightarrow> []
      | Some u \<Rightarrow>
          let host = URL_Hostname u in
          if host = [] then []
          else if host = ''localhost'' \<or> isIPAddress host then []
          else case eTLDPlusOne host of
            None \<Rightarrow> extractBaseDomainFallback host
          | Some baseDomain \<Rightarrow> ''.'' @ baseDomain)"

definition extractCookieDomainFromHost :: "(string \<Rightarrow> string option) \<Rightarrow> string \<Rightarrow> string" where
  "extractCookieDomainFromHost eTLDPlusOne host0 =
     (let host = (case last_index_char CHR '':'' host0 of
                    None \<Rightarrow> host0
                  | Some i \<Rightarrow>
                      if \<not> Contains host0 ''['' \<and> count_list host0 CHR '':'' = 1 then take i host0 else host0)
      in if host = ''localhost'' \<or> isIPAddress host then []
         else case eTLDPlusOne host of
            None \<Rightarrow> extractBaseDomainFallback host
          | Some baseDomain \<Rightarrow> ''.'' @ baseDomain)"

section \<open>Handlers\<close>

definition ACLSessionCookieName :: string where
  "ACLSessionCookieName = ''waygates_acl_session''"

record ACLLoginRequest =
  lr_Email :: string
  lr_Password :: string
  lr_Redirect :: string

record ACLSessionResponse =
  sr_Authenticated :: bool
  sr_UserID :: "int option"
  sr_Username :: string
  sr_Email :: string
  sr_ExpiresAt :: "int option"
  sr_OAuthEmail :: string
  sr_OAuthProvider :: string

datatype acl_payload =
  ACLLoginResponse bool string string
| SessionInfo ACLSessionResponse

definition first_of :: "string \<Rightarrow> string \<Rightarrow> string" where
  "first_of a b = (if a = [] then b else a)"

definition verify_request :: "http_request \<Rightarrow> ACLVerifyRequest" where
  "verify_request r =
     \<lparr>rq_Host = first_of (Header_Get r ''X-Forwarded-Host'') (hq_Host r),
      rq_Path = first_of (Header_Get r ''X-Forwarded-Uri'') (hq_Path r),
      rq_Method = first_of (Header_Get r ''X-Forwarded-Method'') (hq_Method r),
      rq_RemoteIP = clientIPForACL r,
      rq_SessionToken = (case request_Cookie r ACLSessionCookieName of None \<Rightarrow> [] | Some v \<Rightarrow> v),
      rq_BasicAuth =
        (if HasPrefix (Header_Get r ''Authorization'') ''Basic ''
         then parseBasicAuth (Header_Get r ''Authorization'') else None)\<rparr>"

definition verify_answer :: "ACLVerifyResponse \<Rightarrow> acl_payload http_response" where
  "verify_answer response =
     (if rs_Allowed response then with_headers (rs_Headers response) (WriteHeader 200)
      else if rs_RequiresAuth response then
        with_headers (if rs_RedirectURL response \<noteq> [] then [(''X-Auth-Redirect'', rs_RedirectURL response)] else [])
          (WriteHeader 401)
      else
        with_headers
          ((if rs_DenialDetails response \<noteq> [] then [(''X-Auth-Denial-Reason'', rs_DenialDetails response)] else []) @
           (if rs_OAuthEmail response \<noteq> [] then [(''X-Auth-User-Email'', rs_OAuthEmail response)] else []) @
           (if rs_OAuthProvider response \<noteq> [] then [(''X-Auth-Provider'', rs_OAuthProvider response)] else []))
          (WriteHeader 403))"

definition Verify :: "'g app_env \<Rightarrow> http_request \<Rightarrow> 'g app \<Rightarrow> 'g app \<times> acl_payload http_response" where
  "Verify en r ap =
     (case VerifyAccess (verify_env_of en) (verify_request r) (db_acl (ap_db ap)) of
        (st, Inl e) \<Rightarrow> (set_acl st ap, WriteHeader 500)
      | (st, Inr response) \<Rightarrow> (set_acl st ap, verify_answer response))"

definition acl_cookie :: "bool \<Rightarrow> string \<Rightarrow> string \<Rightarrow> int option \<Rightarrow> int \<Rightarrow> Cookie" where
  "acl_cookie cookieSecure token domain expires maxAge =
     \<lparr>ck_Name = ACLSessionCookieName, ck_Value = token, ck_Path = ''/'', ck_Domain = domain,
      ck_Expires = expires, ck_MaxAge = maxAge, ck_HttpOnly = True, ck_Secure = cookieSecure,
      ck_SameSiteLax = True\<rparr>"

definition create_session ::
  "'g app_env \<Rightarrow> int \<Rightarrow> string \<Rightarrow> string \<Rightarrow> int \<Rightarrow> 'g app \<Rightarrow> 'g app \<times> (acl_error, ACLSession) result" where
  "create_session en userID ip userAgent ttl ap =
     (case CreateSession (ae_rand en) (ae_flt en) (ae_now en) userID None ip userAgent ttl (db_acl (ap_db ap)) of
        (st, res) \<Rightarrow> (set_acl st ap, res))"

definition ACL_Login ::
  "'g app_env \<Rightarrow> (string \<Rightarrow> string option) \<Rightarrow> bool \<Rightarrow> ACLLoginRequest option \<Rightarrow> http_request \<Rightarrow> 'g app
    \<Rightarrow> 'g app \<times> acl_payload http_response" where
  "ACL_Login en eTLDPlusOne cookieSecure body r ap =
     (case body of
        None \<Rightarrow> (ap, BadRequest ''Invalid request body format'')
      | Some req \<Rightarrow>
          if lr_Email req = [] then (ap, BadRequest ''email is required'')
          else if lr_Password req = [] then (ap, BadRequest ''password is required'')
          else
            let clientIP = getClientIP r; userAgent = UserAgent r in
            (case GetByUsernameOrEmail (ae_flt en) (lr_Email req) (ap_db ap) of
               Inl e \<Rightarrow>
                 (audit en (LogLoginFailed (lr_Email req) clientIP userAgent ''User not found'') ap,
                  Unauthorized ''Invalid email or password'')
             | Inr user \<Rightarrow>
                 if \<not> ae_compare en (us_PasswordHash user) (lr_Password req) then
                   (audit en (LogLoginFailed (lr_Email req) clientIP userAgent ''Invalid password'') ap,
                    Unauthorized ''Invalid email or password'')
                 else
                   (case create_session en (us_ID user) clientIP userAgent 86400 ap of
                      (ap1, Inl e) \<Rightarrow> (ap1, InternalError ''Failed to create session'')
                    | (ap1, Inr session) \<Rightarrow>
                        let redirectURL = first_of (lr_Redirect req) ''/'';
                            cookieDomain = extractCookieDomain eTLDPlusOne redirectURL
                        in (ap1,
                            with_cookies
                              [acl_cookie cookieSecure (se_SessionToken session) cookieDomain
                                 (Some (se_ExpiresAt session)) 0]
                              (Success (Some (ACLLoginResponse True redirectURL ''Login successful''))
                                 ''Login successful'')))))"

definition own_host :: "http_request \<Rightarrow> string" where
  "own_host r = first_of (Header_Get r ''X-Forwarded-Host'') (hq_Host r)"

definition ACL_Logout ::
  "'g app_env \<Rightarrow> (string \<Rightarrow> string option) \<Rightarrow> bool \<Rightarrow> http_request \<Rightarrow> 'g app
    \<Rightarrow> 'g app \<times> acl_payload http_response" where
  "ACL_Logout en eTLDPlusOne cookieSecure r ap =
     (case request_Cookie r ACLSessionCookieName of
        None \<Rightarrow> (ap, Success None ''Already logged out'')
      | Some token \<Rightarrow>
          (set_acl (fst (RevokeSession (ae_flt en) token (db_acl (ap_db ap)))) ap,
           with_cookies
             [acl_cookie cookieSecure [] (extractCookieDomainFromHost eTLDPlusOne (own_host r)) None (-1)]
             (Success None ''Logged out successfully'')))"

definition no_session :: ACLSessionResponse where
  "no_session =
     \<lparr>sr_Authenticated = False, sr_UserID = None, sr_Username = [], sr_Email = [], sr_ExpiresAt = None,
      sr_OAuthEmail = [], sr_OAuthProvider = []\<rparr>"

definition session_info :: "ACLSession \<Rightarrow> ACLSessionResponse" where
  "session_info session =
     \<lparr>sr_Authenticated = True, sr_UserID = se_UserID session,
      sr_Username = (case se_User session of None \<Rightarrow> [] | Some u \<Rightarrow> us_Username u),
      sr_Email = (case se_User session of None \<Rightarrow> [] | Some u \<Rightarrow> us_Email u),
      sr_ExpiresAt = Some (se_ExpiresAt session),
      sr_OAuthEmail = (case se_Email session of None \<Rightarrow> [] | Some e \<Rightarrow> e),
      sr_OAuthProvider = (case se_Provider session of None \<Rightarrow> [] | Some p \<Rightarrow> p)\<rparr>"

definition GetSession ::
  "'g app_env \<Rightarrow> (string \<Rightarrow> string option) \<Rightarrow> bool \<Rightarrow> http_request \<Rightarrow> 'g app
    \<Rightarrow> 'g app \<times> acl_payload http_response" where
  "GetSession en eTLDPlusOne cookieSecure r ap =
     (case request_Cookie r ACLSessionCookieName of
        None \<Rightarrow> (ap, Success (Some (SessionInfo no_session)) [])
      | Some token \<Rightarrow>
          (case ValidateSession (ae_flt en) (ae_now en) token (db_acl (ap_db ap)) of
             (st, Inl e) \<Rightarrow>
               (set_acl st ap,
                with_cookies
                  [acl_cookie cookieSecure [] (extractCookieDomainFromHost eTLDPlusOne (own_host r)) None (-1)]
                  (Success (Some (SessionInfo no_session)) (if e = ErrSessionExpired then ''Session expired'' else [])))
           | (st, Inr session) \<Rightarrow> (set_acl st ap, Success (Some (SessionInfo (session_info session))) [])))"

end
