(* ===== verification/User_Service.thy ===== *)
theory User_Service
  imports App_State
begin

text \<open>
  User management: \<open>backend/internal/service/user_service.go\<close>. Only users with a role are visible;
  the last active administrator can be neither demoted nor deactivated nor deleted, and nobody can do
  this to their own account.
\<close>

datatype user_error =
  ErrUserNotFound
| ErrInvalidRole
| ErrCannotModifySelf
| ErrLastAdmin
| ErrUsernameTaken
| ErrEmailTaken
| UserError string

definition validRoles :: "string list" where
  "validRoles = [''admin'', ''operator'', ''viewer'']"

record CreateUserInput =
  cu_Name :: string
  cu_Username :: string
  cu_Email :: string
  cu_Role :: string
  cu_Password :: string
  cu_MustChangePassword :: bool

record UpdateUserInput =
  uu_Name :: string
  uu_Email :: string
  uu_Role :: string
  uu_Active :: bool

type_synonym UserWithRole = "User \<times> string"

type_synonym ('g, 'a) user_result = "'g app \<times> (user_error, 'a) result"

definition roleOf :: "'g app_env \<Rightarrow> 'g app \<Rightarrow> int \<Rightarrow> string" where
  "roleOf en ap userID =
     (if ae_perm_fails en (Itoa userID) then []
      else case rm_RoleLabel (ae_roles en) (Itoa userID) (ap_roles ap) of None \<Rightarrow> [] | Some l \<Rightarrow> l)"

definition withRoles :: "'g app_env \<Rightarrow> 'g app \<Rightarrow> User list \<Rightarrow> UserWithRole list" where
  "withRoles en ap users = map (\<lambda>u. (u, roleOf en ap (us_ID u))) users"

definition adminCount :: "'g app_env \<Rightarrow> 'g app \<Rightarrow> (user_error, nat) result" where
  "adminCount en ap =
     (case User_List_repo (ae_flt en) (ap_db ap) of
        Inl _ \<Rightarrow> Err (UserError ''list users'')
      | Inr users \<Rightarrow> Ok (length (filter (\<lambda>u. us_Active u \<and> roleOf en ap (us_ID u) = ''admin'') users)))"

definition mapUniqueErr :: "string \<Rightarrow> user_error" where
  "mapUniqueErr err =
     (let msg = ToLower err in
      if (Contains msg ''duplicate'' \<or> Contains msg ''unique'') \<and> Contains msg ''username'' then ErrUsernameTaken
      else if (Contains msg ''duplicate'' \<or> Contains msg ''unique'') \<and> Contains msg ''email'' then ErrEmailTaken
      else UserError (''database error: '' @ err))"

definition loadAppUser :: "'g app_env \<Rightarrow> int \<Rightarrow> 'g app \<Rightarrow> (user_error, User \<times> string) result" where
  "loadAppUser en i ap =
     (case User_GetByID_repo (ae_flt en) i (ap_db ap) of
        Inl _ \<Rightarrow> Err ErrUserNotFound
      | Inr u \<Rightarrow>
          let role = roleOf en ap i in
          if role = [] then Err ErrUserNotFound else Ok (u, role))"

definition User_List :: "'g app_env \<Rightarrow> 'g app \<Rightarrow> (user_error, UserWithRole list) result" where
  "User_List en ap =
     (case User_List_repo (ae_flt en) (ap_db ap) of
        Inl _ \<Rightarrow> Err (UserError ''list users'')
      | Inr users \<Rightarrow> Ok (filter (\<lambda>ur. snd ur \<noteq> []) (withRoles en ap users)))"

definition User_Get :: "'g app_env \<Rightarrow> int \<Rightarrow> 'g app \<Rightarrow> (user_error, UserWithRole) result" where
  "User_Get en i ap = loadAppUser en i ap"

text \<open>Who acts, from which address, with which client.\<close>

record actor =
  ac_ID :: int
  ac_IP :: string
  ac_UserAgent :: string

definition logUser :: "'g app_env \<Rightarrow> string \<Rightarrow> User \<Rightarrow> actor \<Rightarrow> 'g app \<Rightarrow> 'g app" where
  "logUser en action u ac ap =
     audit en (success_event (ac_ID ac) action ''user'' (Some (us_ID u)) (us_Username u) []
       (ac_IP ac) (ac_UserAgent ac)) ap"

definition assign_role :: "'g app_env \<Rightarrow> int \<Rightarrow> string \<Rightarrow> 'g app \<Rightarrow> 'g app \<times> bool" where
  "assign_role en i role ap =
     (case rm_AssignRole (ae_roles en) (Itoa i) role (ap_roles ap) of
        (g, ok) \<Rightarrow> (ap\<lparr>ap_roles := g\<rparr>, ok))"

definition User_Create :: "'g app_env \<Rightarrow> CreateUserInput \<Rightarrow> actor \<Rightarrow> 'g app \<Rightarrow> ('g, UserWithRole) user_result" where
  "User_Create en inp ac ap =
     (if \<not> List.member validRoles (cu_Role inp) then (ap, Err ErrInvalidRole)
      else case ae_hash en (cu_Password inp) of
        None \<Rightarrow> (ap, Err (UserError ''hash password''))
      | Some h \<Rightarrow>
          let u = \<lparr>us_ID = 0, us_Name = cu_Name inp, us_Username = cu_Username inp, us_Email = cu_Email inp,
                   us_PasswordHash = h, us_Active = True,
                   us_MustChangePassword = cu_MustChangePassword inp, us_LastLoginAt = None\<rparr>
          in case User_Create_repo (ae_flt en) u (ap_db ap) of
               (db1, Some e) \<Rightarrow> (ap\<lparr>ap_db := db1\<rparr>, Err (mapUniqueErr e))
             | (db1, None) \<Rightarrow>
                 let u1 = created_user (ap_db ap) u in
                 (case assign_role en (us_ID u1) (cu_Role inp) (ap\<lparr>ap_db := db1\<rparr>) of
                    (ap2, False) \<Rightarrow>
                      (ap2\<lparr>ap_db := fst (User_Delete_repo (ae_flt en) (us_ID u1) db1)\<rparr>,
                       Err (UserError ''assign role''))
                  | (ap2, True) \<Rightarrow> (logUser en ''user.create'' u1 ac ap2, Ok (u1, cu_Role inp))))"

text \<open>The guards of \<open>Update\<close>, in their order, and the events it logs.\<close>

definition update_guard ::
  "'g app_env \<Rightarrow> int \<Rightarrow> UpdateUserInput \<Rightarrow> actor \<Rightarrow> User \<Rightarrow> string \<Rightarrow> 'g app \<Rightarrow> user_error option" where
  "update_guard en i inp ac u oldRole ap =
     (let losingAdmin = (oldRole = ''admin'' \<and> uu_Role inp \<noteq> ''admin'');
          deactivating = (us_Active u \<and> \<not> uu_Active inp);
          selfGuard = (if i = ac_ID ac \<and> (losingAdmin \<or> deactivating) then Some ErrCannotModifySelf else None)
      in if (losingAdmin \<or> deactivating) \<and> oldRole = ''admin''
         then (case adminCount en ap of
                 Inl e \<Rightarrow> Some e
               | Inr n \<Rightarrow> if n \<le> 1 then Some ErrLastAdmin else selfGuard)
         else selfGuard)"

definition log_update :: "'g app_env \<Rightarrow> UpdateUserInput \<Rightarrow> actor \<Rightarrow> bool \<Rightarrow> User \<Rightarrow> 'g app \<Rightarrow> 'g app" where
  "log_update en inp ac wasActive u ap =
     logUser en ''user.update'' u ac
       (if wasActive \<and> \<not> uu_Active inp then logUser en ''user.deactivate'' u ac ap
        else if \<not> wasActive \<and> uu_Active inp then logUser en ''user.activate'' u ac ap
        else ap)"

definition User_Update ::
  "'g app_env \<Rightarrow> int \<Rightarrow> UpdateUserInput \<Rightarrow> actor \<Rightarrow> 'g app \<Rightarrow> ('g, UserWithRole) user_result" where
  "User_Update en i inp ac ap =
     (if \<not> List.member validRoles (uu_Role inp) then (ap, Err ErrInvalidRole)
      else case loadAppUser en i ap of
        Inl e \<Rightarrow> (ap, Err e)
      | Inr (u, oldRole) \<Rightarrow>
          (case update_guard en i inp ac u oldRole ap of
             Some e \<Rightarrow> (ap, Err e)
           | None \<Rightarrow>
               let u1 = u\<lparr>us_Name := uu_Name inp, us_Email := uu_Email inp, us_Active := uu_Active inp\<rparr> in
               (case User_Update_repo (ae_flt en) u1 (ap_db ap) of
                  (db1, Some e) \<Rightarrow> (ap\<lparr>ap_db := db1\<rparr>, Err (mapUniqueErr e))
                | (db1, None) \<Rightarrow>
                    let ap1 = ap\<lparr>ap_db := db1\<rparr> in
                    if uu_Role inp = oldRole
                    then (log_update en inp ac (us_Active u) u1 ap1, Ok (u1, uu_Role inp))
                    else (case assign_role en i (uu_Role inp) ap1 of
                            (ap2, False) \<Rightarrow> (ap2, Err (UserError ''assign role''))
                          | (ap2, True) \<Rightarrow>
                              (log_update en inp ac (us_Active u) u1 (logUser en ''user.role_change'' u1 ac ap2),
                               Ok (u1, uu_Role inp))))))"

definition ResetPassword ::
  "'g app_env \<Rightarrow> int \<Rightarrow> string \<Rightarrow> bool \<Rightarrow> actor \<Rightarrow> 'g app \<Rightarrow> ('g, unit) user_result" where
  "ResetPassword en i password mustChange ac ap =
     (case loadAppUser en i ap of
        Inl e \<Rightarrow> (ap, Err e)
      | Inr (u, role) \<Rightarrow>
          (case ae_hash en password of
             None \<Rightarrow> (ap, Err (UserError ''hash password''))
           | Some h \<Rightarrow>
               (case UpdatePassword (ae_flt en) i h (ap_db ap) of
                  (db1, Some e) \<Rightarrow> (ap\<lparr>ap_db := db1\<rparr>, Err (UserError e))
                | (db1, None) \<Rightarrow>
                    let u1 = u\<lparr>us_PasswordHash := h, us_MustChangePassword := mustChange\<rparr> in
                    (case User_Update_repo (ae_flt en) u1 db1 of
                       (db2, Some e) \<Rightarrow> (ap\<lparr>ap_db := db2\<rparr>, Err (UserError e))
                     | (db2, None) \<Rightarrow>
                         (logUser en ''user.password_reset'' u1 ac (ap\<lparr>ap_db := db2\<rparr>), Ok ())))))"

text \<open>
  \<open>Delete\<close> in its two phases: the checks, which only read, and the deletion with its log entry.
\<close>

definition delete_check :: "'g app_env \<Rightarrow> int \<Rightarrow> actor \<Rightarrow> 'g app \<Rightarrow> (user_error, User) result" where
  "delete_check en i ac ap =
     (if i = ac_ID ac then Err ErrCannotModifySelf
      else case loadAppUser en i ap of
        Inl e \<Rightarrow> Err e
      | Inr (u, role) \<Rightarrow>
          if role = ''admin'' then
            (case adminCount en ap of
               Inl e \<Rightarrow> Err e
             | Inr n \<Rightarrow> if n \<le> 1 then Err ErrLastAdmin else Ok u)
          else Ok u)"

definition delete_act :: "'g app_env \<Rightarrow> User \<Rightarrow> int \<Rightarrow> actor \<Rightarrow> 'g app \<Rightarrow> ('g, unit) user_result" where
  "delete_act en u i ac ap =
     (case User_Delete_repo (ae_flt en) i (ap_db ap) of
        (db1, Some e) \<Rightarrow> (ap\<lparr>ap_db := db1\<rparr>, Err (UserError e))
      | (db1, None) \<Rightarrow> (logUser en ''user.delete'' u ac (ap\<lparr>ap_db := db1\<rparr>), Ok ()))"

definition User_Delete :: "'g app_env \<Rightarrow> int \<Rightarrow> actor \<Rightarrow> 'g app \<Rightarrow> ('g, unit) user_result" where
  "User_Delete en i ac ap =
     (case delete_check en i ac ap of
        Inl e \<Rightarrow> (ap, Err e)
      | Inr u \<Rightarrow> delete_act en u i ac ap)"

end
