(* ===== verification/User_Integrity.thy ===== *)
theory User_Integrity
  imports User_Service Proxy_Safety
begin

text \<open>
  The operations on users keep the database intact: user names and addresses stay unique, and
  deleting a user leaves no dangling reference, whatever the cascade removes.
\<close>

definition users_ok :: "User table \<Rightarrow> bool" where
  "users_ok t \<longleftrightarrow>
     tb_wf us_ID t \<and> distinct (map us_Username (tb_rows t)) \<and> distinct (map us_Email (tb_rows t))"

definition db_ok :: "app_db \<Rightarrow> bool" where
  "db_ok db \<longleftrightarrow> system_ok (db_acl db) \<and> users_ok (db_users db)"

section \<open>Cascades\<close>

lemma fold_delete_rows:
  "tb_rows (st_proxies (fold delete_proxy_rows ps st)) = filter (\<lambda>p. px_ID p \<notin> set ps) (tb_rows (st_proxies st))"
  "st_groups (fold delete_proxy_rows ps st) = st_groups st"
  "st_proxies (fold delete_group_rows gs st) = st_proxies st"
  "tb_rows (st_groups (fold delete_group_rows gs st)) = filter (\<lambda>g. gr_ID g \<notin> set gs) (tb_rows (st_groups st))"
proof -
  show "tb_rows (st_proxies (fold delete_proxy_rows ps st)) =
      filter (\<lambda>p. px_ID p \<notin> set ps) (tb_rows (st_proxies st))"
    by (induction ps arbitrary: st) (auto simp: delete_proxy_rows_def tb_Delete_def intro: filter_cong)
  show "st_groups (fold delete_proxy_rows ps st) = st_groups st"
    by (induction ps arbitrary: st) (simp_all add: delete_proxy_rows_def)
  show "st_proxies (fold delete_group_rows gs st) = st_proxies st"
    by (induction gs arbitrary: st) (simp_all add: delete_group_rows_def)
  show "tb_rows (st_groups (fold delete_group_rows gs st)) =
      filter (\<lambda>g. gr_ID g \<notin> set gs) (tb_rows (st_groups st))"
    by (induction gs arbitrary: st) (auto simp: delete_group_rows_def tb_Delete_def intro: filter_cong)
qed

lemma delete_group_rows_system: "system_ok st \<Longrightarrow> system_ok (delete_group_rows rid st)"
proof -
  assume st: "system_ok st"
  have "uids (delete_group_rows rid st) = uids st" "st_proxies (delete_group_rows rid st) = st_proxies st"
    by (simp_all add: uids_def delete_group_rows_def)
  with st delete_group_rows_ok[of st rid] show ?thesis by (simp add: system_ok_def)
qed

lemma fold_delete_ok:
  "system_ok st \<Longrightarrow> system_ok (fold delete_proxy_rows ps st)"
  "system_ok st \<Longrightarrow> system_ok (fold delete_group_rows gs st)"
proof -
  show "system_ok st \<Longrightarrow> system_ok (fold delete_proxy_rows ps st)"
    by (induction ps arbitrary: st) (simp_all add: delete_proxy_rows_ok)
  show "system_ok st \<Longrightarrow> system_ok (fold delete_group_rows gs st)"
    by (induction gs arbitrary: st) (simp_all add: delete_group_rows_system)
qed

text \<open>What the deletion of a user leaves: nothing the user created, nothing that refers to the user.\<close>

lemma delete_user_rows_left:
  "set (tb_rows (st_proxies (delete_user_rows i st))) = {p \<in> set (tb_rows (st_proxies st)). px_ID p \<notin>
     px_ID ` {q \<in> set (tb_rows (st_proxies st)). px_CreatedBy q = i}}"
  "set (tb_rows (st_groups (delete_user_rows i st))) = {g \<in> set (tb_rows (st_groups st)). gr_ID g \<notin>
     gr_ID ` {h \<in> set (tb_rows (st_groups st)). gr_CreatedBy h = i}}"
  by (simp_all add: delete_user_rows_def Let_def fold_delete_rows)

lemma drop_user_ok:
  assumes st: "system_ok st"
    and P: "\<forall>p \<in> set (tb_rows (st_proxies st)). px_CreatedBy p \<noteq> i"
    and G: "\<forall>g \<in> set (tb_rows (st_groups st)). gr_CreatedBy g \<noteq> i"
  shows "system_ok (st\<lparr>st_sessions := tb_Delete (\<lambda>s. se_UserID s = Some i) (st_sessions st),
    st_users := tb_Delete (\<lambda>u. us_ID u = i) (st_users st)\<rparr>)" (is "system_ok ?st")
proof -
  note tabs = st[unfolded system_ok_def store_ok_def]
  have u: "uids ?st = uids st - {i}" by (auto simp: uids_def)
  have same: "gids ?st = gids st" "pids ?st = pids st" by (simp_all add: gids_def pids_def)
  have "table_ok px_ID same_hostname proxy_ok (uids st - {i}) (st_proxies st)"
    by (rule proxies_ct.ok_mono[of "uids st"]) (use tabs P in \<open>auto simp: proxy_ok_def\<close>)
  moreover have "table_ok gr_ID same_name group_ok (uids st - {i}) (st_groups st)"
    by (rule groups_ct.ok_mono[of "uids st"]) (use tabs G in \<open>auto simp: group_ok_def\<close>)
  moreover have "table_ok se_ID same_token session_ok (uids st - {i}, pids st)
      (tb_Delete (\<lambda>s. se_UserID s = Some i) (st_sessions st))"
    by (rule sessions_ct.ok_Delete[of "(uids st, pids st)"]) (use tabs in \<open>auto simp: session_ok_def\<close>)
  ultimately show ?thesis
    using tabs by (simp add: system_ok_def store_ok_def u same)
qed

lemma delete_user_rows_ok:
  assumes "system_ok st"
  shows "system_ok (delete_user_rows i st)"
proof -
  define st1 where "st1 = fold delete_group_rows (map gr_ID (tb_Find (\<lambda>g. gr_CreatedBy g = i) (st_groups st)))
    (fold delete_proxy_rows (map px_ID (tb_Find (\<lambda>p. px_CreatedBy p = i) (st_proxies st))) st)"
  have e: "delete_user_rows i st = st1\<lparr>st_sessions := tb_Delete (\<lambda>s. se_UserID s = Some i) (st_sessions st1),
      st_users := tb_Delete (\<lambda>u. us_ID u = i) (st_users st1)\<rparr>"
    by (simp add: delete_user_rows_def st1_def Let_def)
  have "system_ok st1" using assms by (simp add: st1_def fold_delete_ok)
  then show ?thesis unfolding e
    by (rule drop_user_ok) (auto simp: st1_def fold_delete_rows)
qed

section \<open>Writes\<close>

lemma users_ok_Delete: "users_ok t \<Longrightarrow> users_ok (tb_Delete P t)"
  by (auto simp: users_ok_def users_tb.wf_Delete) (simp_all add: tb_Delete_def distinct_map_filter)

lemma User_Delete_repo_ok: "db_ok db \<Longrightarrow> db_ok (fst (User_Delete_repo flt i db))"
  by (simp add: User_Delete_repo_def db_ok_def delete_user_rows_ok users_ok_Delete)

lemma set_users_ok:
  assumes "db_ok db" "users_ok t" "uids (db_acl db) \<subseteq> us_ID ` set (tb_rows t)"
  shows "db_ok (set_users t db)"
proof -
  have "system_ok ((db_acl db)\<lparr>st_users := t\<rparr>)"
  proof -
    let ?st = "(db_acl db)\<lparr>st_users := t\<rparr>"
    have st: "system_ok (db_acl db)" using assms(1) by (simp add: db_ok_def)
    note tabs = st[unfolded system_ok_def store_ok_def]
    have ids: "gids ?st = gids (db_acl db)" "pids ?st = pids (db_acl db)" "uids (db_acl db) \<subseteq> uids ?st"
      using assms(3) by (simp_all add: gids_def pids_def uids_def)
    have "table_ok px_ID same_hostname proxy_ok (uids ?st) (st_proxies (db_acl db))"
      by (rule proxies_ct.ok_mono[of "uids (db_acl db)"]) (use tabs ids in \<open>auto simp: proxy_ok_def\<close>)
    moreover have "table_ok gr_ID same_name group_ok (uids ?st) (st_groups (db_acl db))"
      by (rule groups_ct.ok_mono[of "uids (db_acl db)"]) (use tabs ids in \<open>auto simp: group_ok_def\<close>)
    moreover have "table_ok se_ID same_token session_ok (uids ?st, pids (db_acl db)) (st_sessions (db_acl db))"
      by (rule sessions_ct.ok_mono[of "(uids (db_acl db), pids (db_acl db))"])
         (use tabs ids in \<open>auto simp: session_ok_def\<close>)
    ultimately show ?thesis using tabs by (simp add: system_ok_def store_ok_def ids)
  qed
  with assms(2) show ?thesis by (simp add: db_ok_def set_users_def)
qed

lemma user_clash_None:
  "user_clash u rows = None \<longleftrightarrow> us_Username u \<notin> us_Username ` set rows \<and> us_Email u \<notin> us_Email ` set rows"
proof -
  have "list_ex (\<lambda>x. us_Username x = us_Username u) rows \<longleftrightarrow> us_Username u \<in> us_Username ` set rows"
    "list_ex (\<lambda>x. us_Email x = us_Email u) rows \<longleftrightarrow> us_Email u \<in> us_Email ` set rows"
    by (auto simp: list_ex_iff image_iff eq_commute)
  then show ?thesis by (simp add: user_clash_def)
qed

lemma User_Create_repo_ok:
  assumes "db_ok db"
  shows "db_ok (fst (User_Create_repo flt u db))"
proof (cases "\<not> flt ''User.Create'' \<and> user_clash u (tb_rows (db_users db)) = None")
  case True
  let ?t = "tb_Create set_us_ID (u\<lparr>us_Active := True\<rparr>) (db_users db)"
  have "users_ok ?t"
    using assms True by (auto simp: db_ok_def users_ok_def users_tb.wf_Create user_clash_None)
      (simp_all add: tb_Create_def set_us_ID_def image_iff)
  moreover have "uids (db_acl db) \<subseteq> us_ID ` set (tb_rows ?t)" by (auto simp: uids_def)
  ultimately show ?thesis
    using True set_users_ok[OF assms] by (simp add: User_Create_repo_def)
qed (use assms in \<open>auto simp: User_Create_repo_def split: option.splits\<close>)

lemma modify_user_ok:
  assumes "db_ok db" "users_ok (modify_user i f (db_users db))" "\<And>u. us_ID u = i \<Longrightarrow> us_ID (f u) = i"
  shows "db_ok (set_users (modify_user i f (db_users db)) db)"
proof (rule set_users_ok[OF assms(1,2)])
  show "uids (db_acl db) \<subseteq> us_ID ` set (tb_rows (modify_user i f (db_users db)))"
  proof
    fix k assume "k \<in> uids (db_acl db)"
    then obtain u where u: "u \<in> set (tb_rows (db_users db))" "us_ID u = k" by (auto simp: uids_def)
    then have "us_ID (if us_ID u = i then f u else u) = k" using assms(3) by simp
    with u(1) show "k \<in> us_ID ` set (tb_rows (modify_user i f (db_users db)))"
      by (metis (no_types, lifting) imageI image_set rows_modify_user(1))
  qed
qed

lemma map_modify:
  assumes "\<And>u. key (f u) = key u"
  shows "map key (tb_rows (modify_user i f t)) = map key (tb_rows t)"
  using assms by simp

lemma tb_wf_keys:
  fixes t t' :: "User table"
  assumes "map us_ID (tb_rows t') = map us_ID (tb_rows t)" "tb_next t' = tb_next t"
  shows "tb_wf us_ID t' = tb_wf us_ID t"
proof -
  have "list_all (\<lambda>x. us_ID x < n) ys = (\<forall>k \<in> set (map us_ID ys). k < n)" for n and ys :: "User list"
    by (simp add: list_all_iff)
  then have "tb_wf us_ID t = (sorted_wrt (<) (map us_ID (tb_rows t)) \<and> (\<forall>k \<in> set (map us_ID (tb_rows t)). k < tb_next t))"
    for t :: "User table" unfolding tb_wf_def by blast
  then show ?thesis by (simp only: assms)
qed

lemma tb_wf_modify:
  assumes "\<And>u. us_ID (f u) = us_ID u"
  shows "tb_wf us_ID (modify_user i f t) = tb_wf us_ID t"
  by (rule tb_wf_keys) (use assms in \<open>simp_all\<close>)

lemma distinct_map_replace_key:
  assumes "distinct (map us_ID xs)" "distinct (map key xs)"
    and "\<forall>x \<in> set xs. us_ID x \<noteq> i \<longrightarrow> key x \<noteq> k" "\<And>x. key (f x) = k"
  shows "distinct (map key (map (\<lambda>x. if us_ID x = i then f x else x) xs))"
proof -
  have inj: "inj_on us_ID (set xs)" "inj_on key (set xs)" and d: "distinct xs"
    using assms(1,2) by (simp_all add: distinct_map)
  have "inj_on (\<lambda>x. key (if us_ID x = i then f x else x)) (set xs)"
    by (rule inj_onI) (use inj assms(3) in \<open>auto simp: assms(4) dest: inj_onD split: if_splits\<close>)
  with d show ?thesis by (simp add: distinct_map comp_def)
qed

lemma User_Update_repo_ok:
  assumes "db_ok db"
  shows "db_ok (fst (User_Update_repo flt u db))"
proof (cases "flt ''User.Update'' \<or>
    list_ex (\<lambda>x. us_Email x = us_Email u \<and> us_ID x \<noteq> us_ID u) (tb_rows (db_users db)) \<and>
    list_ex (\<lambda>x. us_ID x = us_ID u) (tb_rows (db_users db))")
  case False
  let ?rows = "tb_rows (db_users db)"
  let ?f = "\<lambda>x. x\<lparr>us_Name := us_Name u, us_Email := us_Email u, us_Active := us_Active u,
    us_MustChangePassword := us_MustChangePassword u\<rparr>"
  have ok: "users_ok (db_users db)" using assms by (simp add: db_ok_def)
  then have d: "distinct (map us_ID ?rows)" by (auto simp: users_ok_def tb_wf_def strict_sorted_iff)
  have "users_ok (modify_user (us_ID u) ?f (db_users db))"
  proof (cases "list_ex (\<lambda>x. us_ID x = us_ID u) ?rows")
    case True
    with False have "\<forall>x \<in> set ?rows. us_ID x \<noteq> us_ID u \<longrightarrow> us_Email x \<noteq> us_Email u"
      by (auto simp: list_ex_iff)
    then have "distinct (map us_Email (map (\<lambda>x. if us_ID x = us_ID u then ?f x else x) ?rows))"
      using d ok by (intro distinct_map_replace_key) (auto simp: users_ok_def)
    moreover have "map us_Username (tb_rows (modify_user (us_ID u) ?f (db_users db))) = map us_Username ?rows"
      by (rule map_modify) simp
    moreover have "tb_wf us_ID (modify_user (us_ID u) ?f (db_users db))"
      using ok by (subst tb_wf_modify) (simp_all add: users_ok_def)
    ultimately show ?thesis using ok unfolding users_ok_def by (simp only: rows_modify_user simp_thms)
  next
    case False
    then have "modify_user (us_ID u) ?f (db_users db) = db_users db"
      by (cases "db_users db") (auto simp: modify_user_def list_ex_iff intro!: map_idI)
    with ok show ?thesis by simp
  qed
  then have "db_ok (set_users (modify_user (us_ID u) ?f (db_users db)) db)"
    by (rule modify_user_ok[OF assms]) simp
  moreover have "fst (User_Update_repo flt u db) = set_users (modify_user (us_ID u) ?f (db_users db)) db"
    using False unfolding User_Update_repo_def by (simp only: de_Morgan_disj if_False fst_conv)
  ultimately show ?thesis by simp
qed (use assms in \<open>auto simp: User_Update_repo_def\<close>)

lemma modify_plain_ok:
  assumes "db_ok db" "\<And>x. us_ID (f x) = us_ID x" "\<And>x. us_Username (f x) = us_Username x"
    "\<And>x. us_Email (f x) = us_Email x"
  shows "db_ok (set_users (modify_user i f (db_users db)) db)"
proof (rule modify_user_ok[OF assms(1)])
  have "users_ok (db_users db)" using assms(1) by (simp add: db_ok_def)
  moreover have "map us_Username (tb_rows (modify_user i f (db_users db))) = map us_Username (tb_rows (db_users db))"
    "map us_Email (tb_rows (modify_user i f (db_users db))) = map us_Email (tb_rows (db_users db))"
    by (rule map_modify, rule assms)+
  ultimately show "users_ok (modify_user i f (db_users db))"
    unfolding users_ok_def by (simp only: tb_wf_modify[where f = f, OF assms(2)] simp_thms)
qed (simp add: assms(2))

lemma UpdatePassword_ok: "db_ok db \<Longrightarrow> db_ok (fst (UpdatePassword flt i h db))"
  by (simp add: UpdatePassword_def modify_plain_ok)

lemma UpdateLastLogin_ok: "db_ok db \<Longrightarrow> db_ok (fst (UpdateLastLogin flt i t db))"
  by (simp add: UpdateLastLogin_def modify_plain_ok)

end
