(* ===== verification/User_Admin.thy ===== *)
theory User_Admin
  imports User_Integrity Caddy_Format
begin

text \<open>
  The administrators: after every sequence of user-management calls an active administrator is left,
  and the database stays intact. The guard reads before it writes, so two calls that overlap can
  remove the last two administrators.
\<close>

lemma Itoa_inj: "Itoa i = Itoa j \<Longrightarrow> i = j"
proof -
  assume e: "Itoa i = Itoa j"
  have minus: "CHR ''-'' \<notin> set (nat_to_string n)" for n
  proof
    assume "CHR ''-'' \<in> set (nat_to_string n)"
    then obtain d where "d < 10" "CHR ''-'' = digit_char d" using nat_to_string_digits by blast
    then have "(of_char CHR ''-'' :: nat) = 48 + d" using of_digit_char by simp
    then show False by simp
  qed
  have "nat_to_string m \<noteq> CHR ''-'' # xs" for m xs
  proof
    assume "nat_to_string m = CHR ''-'' # xs"
    then have "CHR ''-'' \<in> set (nat_to_string m)" by simp
    with minus show False by blast
  qed
  with e show ?thesis
    by (auto simp: Itoa_def dest: nat_to_string_inj split: if_splits) (metis)+
qed

section \<open>What the operations leave alone\<close>

abbreviation ap_users :: "'g app \<Rightarrow> User list" where "ap_users ap \<equiv> tb_rows (db_users (ap_db ap))"

definition is_admin :: "'g role_manager \<Rightarrow> 'g app \<Rightarrow> User \<Rightarrow> bool" where
  "is_admin rm ap u \<longleftrightarrow> us_Active u \<and> rm_RoleLabel rm (Itoa (us_ID u)) (ap_roles ap) = Some ''admin''"

definition has_admin :: "'g role_manager \<Rightarrow> 'g app \<Rightarrow> bool" where
  "has_admin rm ap \<longleftrightarrow> (\<exists>u \<in> set (ap_users ap). is_admin rm ap u)"

text \<open>Only user \<open>i\<close> may have changed.\<close>

definition others_kept :: "'g role_manager \<Rightarrow> int \<Rightarrow> 'g app \<Rightarrow> 'g app \<Rightarrow> bool" where
  "others_kept rm i ap ap' \<longleftrightarrow>
     (\<forall>v \<in> set (ap_users ap). us_ID v \<noteq> i \<longrightarrow> v \<in> set (ap_users ap')) \<and>
     (\<forall>j. j \<noteq> i \<longrightarrow> rm_RoleLabel rm (Itoa j) (ap_roles ap') = rm_RoleLabel rm (Itoa j) (ap_roles ap))"

lemma others_kept_admin:
  "others_kept rm i ap ap' \<Longrightarrow> v \<in> set (ap_users ap) \<Longrightarrow> us_ID v \<noteq> i \<Longrightarrow> is_admin rm ap v \<Longrightarrow> has_admin rm ap'"
  by (auto simp: others_kept_def has_admin_def is_admin_def)

lemma logUser_simps [simp]:
  "ap_db (logUser en a u ac ap) = ap_db ap" "ap_roles (logUser en a u ac ap) = ap_roles ap"
  "ap_db (log_update en inp ac w u ap) = ap_db ap" "ap_roles (log_update en inp ac w u ap) = ap_roles ap"
  by (simp_all add: logUser_def log_update_def)

lemma assign_role_labels:
  assumes "role_laws (ae_roles en)" "assign_role en i role ap = (ap', ok)"
  shows "ap_db ap' = ap_db ap"
    "rm_RoleLabel (ae_roles en) (Itoa j) (ap_roles ap') =
      (if ok \<and> j = i then Some role else rm_RoleLabel (ae_roles en) (Itoa j) (ap_roles ap))"
proof -
  obtain g where g: "rm_AssignRole (ae_roles en) (Itoa i) role (ap_roles ap) = (g, ok)" "ap' = ap\<lparr>ap_roles := g\<rparr>"
    using assms(2) by (auto simp: assign_role_def split: prod.splits)
  have "Itoa j = Itoa i \<longleftrightarrow> j = i" using Itoa_inj by blast
  with assms(1) g show "ap_db ap' = ap_db ap"
    "rm_RoleLabel (ae_roles en) (Itoa j) (ap_roles ap') =
      (if ok \<and> j = i then Some role else rm_RoleLabel (ae_roles en) (Itoa j) (ap_roles ap))"
    by (cases ok; simp add: role_laws_def)+
qed

lemma roleOf_label: "roleOf en ap i = r \<Longrightarrow> r \<noteq> [] \<Longrightarrow> rm_RoleLabel (ae_roles en) (Itoa i) (ap_roles ap) = Some r"
  by (auto simp: roleOf_def split: if_splits option.splits)

lemma loadAppUser_Ok:
  assumes "loadAppUser en i ap = Ok (u, role)"
  shows "u \<in> set (ap_users ap)" "us_ID u = i" "rm_RoleLabel (ae_roles en) (Itoa i) (ap_roles ap) = Some role"
  using assms roleOf_label[of en ap i role]
  by (auto simp: loadAppUser_def User_GetByID_repo_def read_first_def Let_def
      split: sum.splits if_splits option.splits dest: tb_First_Some)

lemma adminCount_other:
  assumes "adminCount en ap = Ok n" "1 < n" "users_ok (db_users (ap_db ap))"
  shows "\<exists>v \<in> set (ap_users ap). us_ID v \<noteq> i \<and> is_admin (ae_roles en) ap v"
proof -
  let ?P = "\<lambda>u. us_Active u \<and> roleOf en ap (us_ID u) = ''admin''"
  have n: "1 < length (filter ?P (ap_users ap))"
    using assms(1,2) by (simp add: adminCount_def User_List_repo_def split: if_splits)
  have "distinct (map us_ID (ap_users ap))" using assms(3) by (auto simp: users_ok_def tb_wf_def strict_sorted_iff)
  then have d: "distinct (map us_ID (filter ?P (ap_users ap)))" by (simp add: distinct_map_filter)
  obtain a b rest where ab: "filter ?P (ap_users ap) = a # b # rest"
    using n by (cases "filter ?P (ap_users ap)"; cases "tl (filter ?P (ap_users ap))") auto
  with d have "us_ID a \<noteq> us_ID b" by simp
  then obtain v where v: "v \<in> {a, b}" "us_ID v \<noteq> i" by auto
  then have "v \<in> set (filter ?P (ap_users ap))" unfolding ab by auto
  with v(2) show ?thesis by (auto simp: is_admin_def dest: roleOf_label)
qed

section \<open>Each operation keeps an administrator\<close>

lemma User_Delete_repo_rows:
  "set (tb_rows (db_users (fst (User_Delete_repo flt i db)))) \<supseteq> {u \<in> set (tb_rows (db_users db)). us_ID u \<noteq> i}"
  by (auto simp: User_Delete_repo_def)

lemma User_Create_admin:
  assumes "role_laws (ae_roles en)" "users_ok (db_users (ap_db ap))" "has_admin (ae_roles en) ap"
  shows "has_admin (ae_roles en) (fst (User_Create en inp ac ap))"
proof -
  let ?k = "tb_next (db_users (ap_db ap))"
  have k: "us_ID v \<noteq> ?k" if "v \<in> set (ap_users ap)" for v
    using that assms(2) by (auto simp: users_ok_def tb_wf_def list_all_iff)
  obtain v where v: "v \<in> set (ap_users ap)" "is_admin (ae_roles en) ap v" using assms(3) by (auto simp: has_admin_def)
  have "others_kept (ae_roles en) ?k ap (fst (User_Create en inp ac ap))"
  proof (cases "ae_hash en (cu_Password inp)")
    case (Some h)
    define u where "u = \<lparr>us_ID = 0, us_Name = cu_Name inp, us_Username = cu_Username inp, us_Email = cu_Email inp,
      us_PasswordHash = h, us_Active = True, us_MustChangePassword = cu_MustChangePassword inp, us_LastLoginAt = None\<rparr>"
    obtain db1 r where c: "User_Create_repo (ae_flt en) u (ap_db ap) = (db1, r)" by fastforce
    then have rows: "set (ap_users ap) \<subseteq> set (tb_rows (db_users db1))"
      by (auto simp: User_Create_repo_def split: if_splits option.splits)
    obtain ap2 ok where a: "assign_role en ?k (cu_Role inp) (ap\<lparr>ap_db := db1\<rparr>) = (ap2, ok)" by fastforce
    note lab = assign_role_labels[OF assms(1) a]
    show ?thesis
      using rows c a lab Some User_Delete_repo_rows[of db1 ?k "ae_flt en"]
      by (cases r; cases ok)
         (auto simp: User_Create_def Let_def others_kept_def created_user_def u_def[symmetric])
  qed (auto simp: User_Create_def others_kept_def)
  from others_kept_admin[OF this v(1) k[OF v(1)] v(2)] show ?thesis .
qed

lemma User_Update_repo_row:
  assumes "User_Update_repo flt u db = (db', None)" "x \<in> set (tb_rows (db_users db))"
  shows "(if us_ID x = us_ID u then x\<lparr>us_Name := us_Name u, us_Email := us_Email u, us_Active := us_Active u,
      us_MustChangePassword := us_MustChangePassword u\<rparr> else x) \<in> set (tb_rows (db_users db'))"
proof -
  let ?f = "\<lambda>x. x\<lparr>us_Name := us_Name u, us_Email := us_Email u, us_Active := us_Active u,
      us_MustChangePassword := us_MustChangePassword u\<rparr>"
  have "tb_rows (db_users db') = map (\<lambda>x. if us_ID x = us_ID u then ?f x else x) (tb_rows (db_users db))"
    using assms(1) by (simp add: User_Update_repo_def split: if_splits) (auto)
  with assms(2) show ?thesis by (simp only: set_map) (rule imageI)
qed

lemma User_Update_repo_err: "User_Update_repo flt u db = (db', Some e) \<Longrightarrow> db' = db"
  by (auto simp: User_Update_repo_def split: if_splits)

text \<open>An update either goes through with its guard passed, or changes nothing but a role that failed.\<close>

lemma User_Update_cases:
  assumes "User_Update en i inp ac ap = (ap', r)"
  obtains "ap' = ap"
  | u oldRole db1 ap2 where "loadAppUser en i ap = Ok (u, oldRole)" "update_guard en i inp ac u oldRole ap = None"
      "User_Update_repo (ae_flt en)
         (u\<lparr>us_Name := uu_Name inp, us_Email := uu_Email inp, us_Active := uu_Active inp\<rparr>) (ap_db ap) = (db1, None)"
      "ap_db ap' = db1" "ap_roles ap' = ap_roles ap2"
      "uu_Role inp = oldRole \<and> ap_roles ap2 = ap_roles ap \<or>
       ap2 = fst (assign_role en i (uu_Role inp) (ap\<lparr>ap_db := db1\<rparr>))"
proof (cases "List.member validRoles (uu_Role inp)")
  case True
  show ?thesis
  proof (cases "loadAppUser en i ap")
    case (Inl e)
    then show ?thesis using that(1) assms True by (simp add: User_Update_def)
  next
    case (Inr ur)
    obtain u oldRole where ur: "ur = (u, oldRole)" by fastforce
    show ?thesis
    proof (cases "update_guard en i inp ac u oldRole ap")
      case (Some e)
      then show ?thesis using that(1) assms True Inr ur by (simp add: User_Update_def)
    next
      case None
      let ?u = "u\<lparr>us_Name := uu_Name inp, us_Email := uu_Email inp, us_Active := uu_Active inp\<rparr>"
      obtain db1 e where w: "User_Update_repo (ae_flt en) ?u (ap_db ap) = (db1, e)" by fastforce
      show ?thesis
      proof (cases e)
        case (Some x)
        then have "ap' = ap" using assms True Inr ur None w User_Update_repo_err[of "ae_flt en" ?u "ap_db ap" db1 x]
          by (simp add: User_Update_def Let_def)
        then show ?thesis by (rule that(1))
      next
        case wn: None
        obtain ap2 ok where a: "assign_role en i (uu_Role inp) (ap\<lparr>ap_db := db1\<rparr>) = (ap2, ok)" by fastforce
        then have "ap_db ap2 = db1" by (auto simp: assign_role_def split: prod.splits)
        with that(2)[OF Inr[unfolded ur] None w[unfolded wn], of ap'] that(2)[OF Inr[unfolded ur] None w[unfolded wn], of ap2]
          assms True Inr ur None w wn a show ?thesis
          by (cases "uu_Role inp = oldRole"; cases ok) (auto simp: User_Update_def Let_def)
      qed
    qed
  qed
qed (use assms that(1) in \<open>simp add: User_Update_def\<close>)

lemma User_Update_admin:
  assumes laws: "role_laws (ae_roles en)" and ok: "users_ok (db_users (ap_db ap))" and adm: "has_admin (ae_roles en) ap"
  shows "has_admin (ae_roles en) (fst (User_Update en i inp ac ap))"
proof -
  obtain ap' r where e: "User_Update en i inp ac ap = (ap', r)" by fastforce
  from e show ?thesis
  proof (cases rule: User_Update_cases)
    case 1
    with e adm show ?thesis by simp
  next
    case (2 u oldRole db1 ap2)
    note ld = loadAppUser_Ok[OF 2(1)]
    let ?u = "u\<lparr>us_Name := uu_Name inp, us_Email := uu_Email inp, us_Active := uu_Active inp\<rparr>"
    note row = User_Update_repo_row[OF 2(3)]
    have lab: "rm_RoleLabel (ae_roles en) (Itoa j) (ap_roles ap') = rm_RoleLabel (ae_roles en) (Itoa j) (ap_roles ap)"
      if "j \<noteq> i \<or> uu_Role inp = oldRole" for j
      using 2(5,6) that assign_role_labels(2)[OF laws, of i "uu_Role inp" "ap\<lparr>ap_db := db1\<rparr>" _ _ j] ld(3)
      by (cases "assign_role en i (uu_Role inp) (ap\<lparr>ap_db := db1\<rparr>)") (auto split: if_splits)
    have kept: "others_kept (ae_roles en) i ap ap'"
      using row ld(2) 2(4) lab by (fastforce simp: others_kept_def)
    show ?thesis
    proof (cases "oldRole = ''admin'' \<and> us_Active u \<and> uu_Role inp = ''admin'' \<and> uu_Active inp")
      case True
      let ?x = "u\<lparr>us_Name := us_Name ?u, us_Email := us_Email ?u, us_Active := us_Active ?u,
        us_MustChangePassword := us_MustChangePassword ?u\<rparr>"
      have "?x \<in> set (ap_users ap')" using row[OF ld(1)] ld(2) 2(4) by simp
      moreover have "is_admin (ae_roles en) ap' ?x" using True lab ld(2,3) by (simp add: is_admin_def)
      ultimately show ?thesis using e by (auto simp: has_admin_def)
    next
      case False
      have "\<exists>v \<in> set (ap_users ap). us_ID v \<noteq> i \<and> is_admin (ae_roles en) ap v"
      proof (cases "oldRole = ''admin'' \<and> us_Active u")
        case True
        with False 2(2) obtain n where "adminCount en ap = Ok n" "1 < n"
          by (auto simp: update_guard_def Let_def split: sum.splits if_splits)
        then show ?thesis by (rule adminCount_other[OF _ _ ok])
      next
        case notadm: False
        obtain v where v: "v \<in> set (ap_users ap)" "is_admin (ae_roles en) ap v" using adm by (auto simp: has_admin_def)
        have "v = u" if "us_ID v = i"
          using users_tb.key_unique[of "db_users (ap_db ap)" v u] ok v(1) ld(1,2) that by (simp add: users_ok_def)
        with notadm v ld(2,3) have "us_ID v \<noteq> i" by (auto simp: is_admin_def)
        with v show ?thesis by blast
      qed
      with others_kept_admin[OF kept] e show ?thesis by auto
    qed
  qed
qed

lemma UpdatePassword_row:
  assumes "UpdatePassword flt i h db = (db', e)" "v \<in> set (tb_rows (db_users db))"
  shows "\<exists>x \<in> set (tb_rows (db_users db')). us_ID x = us_ID v \<and> us_Active x = us_Active v"
proof (cases "flt ''User.UpdatePassword''")
  case False
  then have "tb_rows (db_users db') = map (\<lambda>u. if us_ID u = i then u\<lparr>us_PasswordHash := h\<rparr> else u) (tb_rows (db_users db))"
    using assms(1) by (auto simp: UpdatePassword_def)
  then have "(if us_ID v = i then v\<lparr>us_PasswordHash := h\<rparr> else v) \<in> set (tb_rows (db_users db'))"
    using assms(2) by (simp only: set_map) (rule imageI)
  then show ?thesis by (rule bexI[rotated]) simp
qed (use assms in \<open>auto simp: UpdatePassword_def\<close>)

lemma ResetPassword_admin:
  assumes adm: "has_admin (ae_roles en) ap" and ok: "users_ok (db_users (ap_db ap))"
  shows "has_admin (ae_roles en) (fst (ResetPassword en i pw mc ac ap))"
proof (cases "loadAppUser en i ap")
  case (Inr ur)
  obtain u role where ur: "ur = (u, role)" by fastforce
  note ld = loadAppUser_Ok[OF Inr[unfolded ur]]
  obtain v where v: "v \<in> set (ap_users ap)" "is_admin (ae_roles en) ap v" using adm by (auto simp: has_admin_def)
  have same: "us_Active v = us_Active u" if "us_ID v = i"
    using users_tb.key_unique[of "db_users (ap_db ap)" v u] ok v(1) ld(1,2) that by (simp add: users_ok_def)
  have "\<exists>x \<in> set (ap_users (fst (ResetPassword en i pw mc ac ap))). us_ID x = us_ID v \<and> us_Active x = us_Active v"
  proof (cases "ae_hash en pw")
    case (Some h)
    obtain db1 e1 where w1: "UpdatePassword (ae_flt en) i h (ap_db ap) = (db1, e1)" by fastforce
    obtain x where x: "x \<in> set (tb_rows (db_users db1))" "us_ID x = us_ID v" "us_Active x = us_Active v"
      using UpdatePassword_row[OF w1 v(1)] by blast
    let ?u = "u\<lparr>us_PasswordHash := h, us_MustChangePassword := mc\<rparr>"
    obtain db2 e2 where w2: "User_Update_repo (ae_flt en) ?u db1 = (db2, e2)" by fastforce
    have x2: "\<exists>x \<in> set (tb_rows (db_users db2)). us_ID x = us_ID v \<and> us_Active x = us_Active v"
    proof (cases e2)
      case None
      show ?thesis
        by (rule bexI[OF _ User_Update_repo_row[OF w2[unfolded None] x(1)]]) (use same x(2,3) ld(2) in auto)
    next
      case (Some a)
      with w2 x show ?thesis using User_Update_repo_err by blast
    qed
    show ?thesis
      using Inr ur Some w1 w2 x x2 by (cases e1; cases e2) (auto simp: ResetPassword_def Let_def)
  qed (use v Inr ur in \<open>auto simp: ResetPassword_def\<close>)
  moreover have "ap_roles (fst (ResetPassword en i pw mc ac ap)) = ap_roles ap"
    by (auto simp: ResetPassword_def Let_def split: sum.splits option.splits prod.splits)
  ultimately show ?thesis using v(2) by (auto simp: has_admin_def is_admin_def)
qed (use adm in \<open>simp add: ResetPassword_def\<close>)

lemma delete_act_simps:
  "ap_roles (fst (delete_act en u i ac ap)) = ap_roles ap"
  "ap_db (fst (delete_act en u i ac ap)) = fst (User_Delete_repo (ae_flt en) i (ap_db ap))"
  by (auto simp: delete_act_def split: prod.splits option.splits)

lemma User_Delete_admin:
  assumes adm: "has_admin (ae_roles en) ap" and ok: "users_ok (db_users (ap_db ap))"
  shows "has_admin (ae_roles en) (fst (User_Delete en i ac ap))"
proof (cases "delete_check en i ac ap")
  case (Inr u)
  then obtain role where ld0: "loadAppUser en i ap = Ok (u, role)"
    and cnt: "role = ''admin'' \<Longrightarrow> \<exists>n. adminCount en ap = Ok n \<and> 1 < n"
    by (auto simp: delete_check_def split: if_splits sum.splits)
  note ld = loadAppUser_Ok[OF ld0]
  have "\<exists>v \<in> set (ap_users ap). us_ID v \<noteq> i \<and> is_admin (ae_roles en) ap v"
  proof (cases "role = ''admin''")
    case True
    with cnt adminCount_other[OF _ _ ok] show ?thesis by blast
  next
    case False
    obtain v where v: "v \<in> set (ap_users ap)" "is_admin (ae_roles en) ap v" using adm by (auto simp: has_admin_def)
    with False ld(3) have "us_ID v \<noteq> i" by (auto simp: is_admin_def)
    with v show ?thesis by blast
  qed
  moreover have "others_kept (ae_roles en) i ap (fst (User_Delete en i ac ap))"
    using Inr User_Delete_repo_rows[of "ap_db ap" i "ae_flt en"]
    by (auto simp: others_kept_def User_Delete_def delete_act_simps)
  ultimately show ?thesis using others_kept_admin by blast
qed (use adm in \<open>simp add: User_Delete_def\<close>)

section \<open>The database stays intact\<close>

lemma User_Create_db:
  "ap_db (fst (User_Create en inp ac ap)) = ap_db ap \<or>
   (\<exists>u db1. db1 = fst (User_Create_repo (ae_flt en) u (ap_db ap)) \<and>
      (ap_db (fst (User_Create en inp ac ap)) = db1 \<or>
       ap_db (fst (User_Create en inp ac ap)) = fst (User_Delete_repo (ae_flt en) (tb_next (db_users (ap_db ap))) db1)))"
proof (cases "ae_hash en (cu_Password inp)")
  case (Some h)
  define u where "u = \<lparr>us_ID = 0, us_Name = cu_Name inp, us_Username = cu_Username inp, us_Email = cu_Email inp,
    us_PasswordHash = h, us_Active = True, us_MustChangePassword = cu_MustChangePassword inp, us_LastLoginAt = None\<rparr>"
  obtain db1 r where c: "User_Create_repo (ae_flt en) u (ap_db ap) = (db1, r)" by fastforce
  obtain ap2 ok where a: "assign_role en (tb_next (db_users (ap_db ap))) (cu_Role inp) (ap\<lparr>ap_db := db1\<rparr>) = (ap2, ok)"
    by fastforce
  then have "ap_db ap2 = db1" by (auto simp: assign_role_def split: prod.splits)
  with c a Some have "ap_db (fst (User_Create en inp ac ap)) \<in>
      {ap_db ap, db1, fst (User_Delete_repo (ae_flt en) (tb_next (db_users (ap_db ap))) db1)}"
    by (cases r; cases ok) (auto simp: User_Create_def Let_def created_user_def u_def[symmetric])
  with c show ?thesis by (metis fst_conv insert_iff singletonD)
qed (simp add: User_Create_def)

lemma ResetPassword_db:
  "ap_db (fst (ResetPassword en i pw mc ac ap)) = ap_db ap \<or>
   (\<exists>h u db1. db1 = fst (UpdatePassword (ae_flt en) i h (ap_db ap)) \<and>
      (ap_db (fst (ResetPassword en i pw mc ac ap)) = db1 \<or>
       ap_db (fst (ResetPassword en i pw mc ac ap)) = fst (User_Update_repo (ae_flt en) u db1)))"
proof (cases "loadAppUser en i ap")
  case (Inr ur)
  show ?thesis
  proof (cases "ae_hash en pw")
    case (Some h)
    obtain db1 e1 where w1: "UpdatePassword (ae_flt en) i h (ap_db ap) = (db1, e1)" by fastforce
    let ?u = "(fst ur)\<lparr>us_PasswordHash := h, us_MustChangePassword := mc\<rparr>"
    obtain db2 e2 where w2: "User_Update_repo (ae_flt en) ?u db1 = (db2, e2)" by fastforce
    have "ap_db (fst (ResetPassword en i pw mc ac ap)) \<in> {db1, db2}"
      using Inr Some w1 w2 by (cases ur; cases e1; cases e2) (auto simp: ResetPassword_def Let_def)
    with w1 w2 show ?thesis by (metis fst_conv insert_iff singletonD)
  qed (use Inr in \<open>auto simp: ResetPassword_def\<close>)
qed (simp add: ResetPassword_def)

lemma user_ops_db_ok:
  assumes "db_ok (ap_db ap)"
  shows "db_ok (ap_db (fst (User_Create en inp ac ap)))" "db_ok (ap_db (fst (User_Update en i upd ac ap)))"
    "db_ok (ap_db (fst (ResetPassword en i pw mc ac ap)))" "db_ok (ap_db (fst (User_Delete en i ac ap)))"
proof -
  show "db_ok (ap_db (fst (User_Delete en i ac ap)))"
    using assms by (simp add: User_Delete_def delete_act_simps User_Delete_repo_ok split: sum.splits)
  show "db_ok (ap_db (fst (User_Create en inp ac ap)))"
    using User_Create_db[of en inp ac ap] assms User_Create_repo_ok User_Delete_repo_ok by metis
  show "db_ok (ap_db (fst (ResetPassword en i pw mc ac ap)))"
    using ResetPassword_db[of en i pw mc ac ap] assms UpdatePassword_ok User_Update_repo_ok by metis
  obtain ap' r where e: "User_Update en i upd ac ap = (ap', r)" by fastforce
  then show "db_ok (ap_db (fst (User_Update en i upd ac ap)))"
  proof (cases rule: User_Update_cases)
    case (2 u oldRole db1 ap2)
    with e User_Update_repo_ok[OF assms] show ?thesis by (metis fst_conv)
  qed (use assms e in simp)
qed

section \<open>Sequences of calls\<close>

inductive user_step :: "'g role_manager \<Rightarrow> 'g app \<Rightarrow> 'g app \<Rightarrow> bool" for rm where
  create: "ae_roles en = rm \<Longrightarrow> user_step rm ap (fst (User_Create en inp ac ap))"
| update: "ae_roles en = rm \<Longrightarrow> user_step rm ap (fst (User_Update en i upd ac ap))"
| reset: "ae_roles en = rm \<Longrightarrow> user_step rm ap (fst (ResetPassword en i pw mc ac ap))"
| delete: "ae_roles en = rm \<Longrightarrow> user_step rm ap (fst (User_Delete en i ac ap))"

inductive user_reachable :: "'g role_manager \<Rightarrow> 'g app \<Rightarrow> 'g app \<Rightarrow> bool" for rm ap0 where
  start: "user_reachable rm ap0 ap0"
| step: "user_reachable rm ap0 ap \<Longrightarrow> user_step rm ap ap' \<Longrightarrow> user_reachable rm ap0 ap'"

lemma user_step_keeps:
  assumes "user_step rm ap ap'" "role_laws rm" "db_ok (ap_db ap)" "has_admin rm ap"
  shows "db_ok (ap_db ap') \<and> has_admin rm ap'"
proof -
  have u: "users_ok (db_users (ap_db ap))" using assms(3) by (simp add: db_ok_def)
  from assms(1) show ?thesis
  proof cases
    case (create en inp ac)
    with User_Create_admin[of en ap inp ac] user_ops_db_ok(1)[OF assms(3)] assms(2,4) u show ?thesis by simp
  next
    case (update en i upd ac)
    with User_Update_admin[of en ap i upd ac] user_ops_db_ok(2)[OF assms(3)] assms(2,4) u show ?thesis by simp
  next
    case (reset en i pw mc ac)
    with ResetPassword_admin[of en ap i pw mc ac] user_ops_db_ok(3)[OF assms(3)] assms(4) u show ?thesis by simp
  next
    case (delete en i ac)
    with User_Delete_admin[of en ap i ac] user_ops_db_ok(4)[OF assms(3)] assms(4) u show ?thesis by simp
  qed
qed

text \<open>
  The system is never left without an administrator: starting from an intact database with at
  least one active administrator, every sequence of user-management calls, by whomever and whatever
  database statements and role assignments fail, leaves an active administrator, unique user names
  and addresses, and a database without dangling references.
\<close>

theorem administrator_survives:
  assumes "user_reachable rm ap ap'" "role_laws rm" "db_ok (ap_db ap)" "has_admin rm ap"
  shows "has_admin rm ap' \<and> db_ok (ap_db ap')"
  using assms by (induction rule: user_reachable.induct) (auto dest: user_step_keeps)

end
