(* ===== verification/Demo_App.thy ===== *)
theory Demo_App
  imports User_Admin Sync_Deploy
begin

text \<open>
  A small running backend on which the properties of the handlers are applied: two administrators,
  Alice and Bob, a proxy of Alice, a group of Bob assigned to it, and roles kept as a map.
\<close>

definition demo_roles :: "(string \<Rightarrow> string option) role_manager" where
  "demo_roles =
     \<lparr>rm_AssignRole = (\<lambda>u r g. (g(u := Some r), True)), rm_RoleLabel = (\<lambda>u g. g u)\<rparr>"

definition demo_bob :: User where
  "demo_bob =
     \<lparr>us_ID = 2, us_Name = ''Bob'', us_Username = ''bob'', us_Email = ''bob@example.com'',
      us_PasswordHash = ''hb'', us_Active = True, us_MustChangePassword = False, us_LastLoginAt = None\<rparr>"

definition demo_astore :: acl_store where
  "demo_astore =
     demo_pstore\<lparr>st_users := \<lparr>tb_rows = [demo_user, demo_bob], tb_next = 3\<rparr>,
       st_groups := \<lparr>tb_rows = [(demo_group 1 ''admins'' ''any'')\<lparr>gr_CreatedBy := 2\<rparr>], tb_next = 2\<rparr>\<rparr>"

definition demo_aenv :: "(string \<Rightarrow> string option) app_env" where
  "demo_aenv =
     \<lparr>ae_flt = no_faults, ae_now = 50, ae_rand = (\<lambda>n. Some (replicate n 7)), ae_hash = (\<lambda>p. Some (''h:'' @ p)),
      ae_compare = (\<lambda>h p. h = ''h:'' @ p), ae_roles = demo_roles, ae_perm_fails = (\<lambda>_. False),
      ae_marshal = (\<lambda>_. ''cfg''), ae_unmarshal = (\<lambda>_. Some []),
      ae_sync_conf = demo_sc, ae_sync_env = demo_en True\<rparr>"

definition demo_app :: "(string \<Rightarrow> string option) app" where
  "demo_app =
     \<lparr>ap_db = demo_db\<lparr>db_acl := demo_astore\<rparr>,
      ap_roles = [''1'' \<mapsto> ''admin'', ''2'' \<mapsto> ''admin''],
      ap_audit = \<lparr>au_logs = empty_table, au_cache = None\<rparr>, ap_sync = demo_ss\<rparr>"

definition demo_actor :: "int \<Rightarrow> actor" where
  "demo_actor i = \<lparr>ac_ID = i, ac_IP = ''10.0.0.1'', ac_UserAgent = ''test''\<rparr>"

lemma demo_role_laws: "role_laws demo_roles"
  by (simp add: role_laws_def demo_roles_def)

lemma demo_aenv_simps [simp]:
  "ae_flt demo_aenv = no_faults" "ae_roles demo_aenv = demo_roles" "ae_now demo_aenv = 50"
  "\<not> ae_perm_fails demo_aenv u" "ae_compare demo_aenv h p = (h = ''h:'' @ p)"
  "ae_rand demo_aenv n = Some (replicate n 7)"
  by (simp_all add: demo_aenv_def)

lemma demo_Itoa [simp]: "Itoa 1 = ''1''" "Itoa 2 = ''2''" "Itoa 3 = ''3''"
  by (simp_all add: Itoa_def nat_to_string.simps digit_char_def char_of_def bit_0)

lemma demo_app_users: "ap_users demo_app = [demo_user, demo_bob]"
  by (simp add: demo_app_def demo_astore_def)

lemma demo_app_ok: "db_ok (ap_db demo_app)"
proof -
  have v: "validatePathPattern ''/*'' = None"
    "ACLGroup_Validate ((demo_group 1 ''admins'' ''any'')\<lparr>gr_CreatedBy := 2\<rparr>) = None"
    by code_simp+
  have p: "Proxy_Validate demo_backend = None" by code_simp
  have "store_ok demo_empty" using demo_empty_ok by (simp add: system_ok_def)
  then have "system_ok demo_astore"
    by (simp add: system_ok_def store_ok_def demo_astore_def demo_pstore_def demo_empty_def empty_store_def
        table_ok_def tb_wf_def group_ok_def assignment_ok_def gids_def pids_def uids_def v proxy_ok_def p[unfolded demo_backend_def demo_proxy_def, simplified]
        demo_assignment_def demo_backend_def demo_proxy_def demo_user_def demo_bob_def)
       (simp add: demo_group_def group_row_def)
  then show ?thesis
    by (simp add: db_ok_def demo_app_def) (simp add: users_ok_def demo_astore_def tb_wf_def demo_user_def demo_bob_def)
qed

lemma demo_app_admin: "has_admin demo_roles demo_app"
  by (simp add: has_admin_def demo_app_users)
     (simp add: is_admin_def demo_user_def demo_roles_def demo_app_def)

theorem administrator_survives_witness:
  "user_reachable demo_roles demo_app (fst (User_Delete demo_aenv 2 (demo_actor 1) demo_app)) \<and>
   has_admin demo_roles (fst (User_Delete demo_aenv 2 (demo_actor 1) demo_app))"
proof -
  have r: "user_reachable demo_roles demo_app (fst (User_Delete demo_aenv 2 (demo_actor 1) demo_app))"
    by (rule user_reachable.step[OF user_reachable.start]) (rule user_step.delete, simp)
  with administrator_survives[OF r demo_role_laws demo_app_ok demo_app_admin] show ?thesis by blast
qed

text \<open>A request as it reaches the backend from Caddy, with the given headers and cookies.\<close>

definition demo_http :: "(string \<times> string) list \<Rightarrow> (string \<times> string) list \<Rightarrow> http_request" where
  "demo_http headers cookies =
     \<lparr>hq_Method = ''GET'', hq_Host = ''waygates:8080'', hq_Path = ''/api/auth/acl/verify'', hq_Query = [],
      hq_RemoteAddr = ''172.18.0.2:40000'', hq_Headers = headers, hq_Cookies = cookies, hq_Params = [],
      hq_UserID = []\<rparr>"

end
