(* ===== verification/Acl_Http_Props.thy ===== *)
theory Acl_Http_Props
  imports Acl_Http Acl_Safety Acl_Session_Props Demo_App
begin

text \<open>
  What the forward-authentication endpoint and the login page guarantee, and where they fall short:
  the answer of \<open>Verify\<close> against the policy, the address it trusts, the life of a login session, and
  query strings in the forwarded URI.
\<close>

lemma verify_env_of_simps [simp]:
  "ve_flt (verify_env_of en) = ae_flt en" "ve_now (verify_env_of en) = ae_now en"
  "ve_compare (verify_env_of en) = ae_compare en"
  by (simp_all add: verify_env_of_def)

lemma verify_request_simps [simp]:
  "rq_RemoteIP (verify_request r) = clientIPForACL r"
  "rq_Host (verify_request r) = own_host r"
  "rq_Path (verify_request r) = first_of (Header_Get r ''X-Forwarded-Uri'') (hq_Path r)"
  "rq_SessionToken (verify_request r) = (case request_Cookie r ACLSessionCookieName of None \<Rightarrow> [] | Some v \<Rightarrow> v)"
  by (simp_all add: verify_request_def own_host_def)

abbreviation ap_acl :: "'g app \<Rightarrow> acl_store" where "ap_acl ap \<equiv> db_acl (ap_db ap)"

abbreviation proxy_for :: "http_request \<Rightarrow> 'g app \<Rightarrow> Proxy option" where
  "proxy_for r ap \<equiv> tb_First (\<lambda>p. px_Hostname p = own_host r) (st_proxies (ap_acl ap))"

lemma verify_answer_status:
  "ht_Status (verify_answer rs) = (if rs_Allowed rs then 200 else if rs_RequiresAuth rs then 401 else 403)"
  by (simp add: verify_answer_def)

lemma other_cookies [simp]:
  "Header_Get (r\<lparr>hq_Cookies := cs\<rparr>) n = Header_Get r n"
  "getClientIP (r\<lparr>hq_Cookies := cs\<rparr>) = getClientIP r"
  "clientIPForACL (r\<lparr>hq_Cookies := cs\<rparr>) = clientIPForACL r"
proof -
  show h: "Header_Get (r\<lparr>hq_Cookies := cs\<rparr>) n = Header_Get r n" for n by (simp add: Header_Get_def)
  show g: "getClientIP (r\<lparr>hq_Cookies := cs\<rparr>) = getClientIP r"
    by (simp add: getClientIP_def h Let_def split: option.split)
  show "clientIPForACL (r\<lparr>hq_Cookies := cs\<rparr>) = clientIPForACL r"
    by (simp add: clientIPForACL_def h g)
qed

section \<open>The answer\<close>

lemma Verify_status:
  "ht_Status (snd (Verify en r ap)) =
     (case snd (VerifyAccess (verify_env_of en) (verify_request r) (ap_acl ap)) of
        Inl e \<Rightarrow> 500
      | Inr rs \<Rightarrow> if rs_Allowed rs then 200 else if rs_RequiresAuth rs then 401 else 403)"
  by (simp add: Verify_def verify_answer_status split: prod.splits sum.splits)

lemma VerifyAccess_fault:
  "ve_flt env ''GetByHostname'' \<or> ve_flt env ''GetProxyACLAssignments'' \<Longrightarrow>
   snd (VerifyAccess env rq st) = Ok rs \<Longrightarrow> \<not> rs_Allowed rs"
  by (auto simp: VerifyAccess_def Proxy_GetByHostname_def GetProxyACLAssignments_def read_first_def denied_response_def
      split: option.splits if_splits)


text \<open>
  C2. An address on a deny list stays out: when the address Caddy reports in its own header is hit by
  a deny rule of any group that governs the forwarded path, the answer is 403 without any
  authentication header, whatever session cookie, credentials and other headers the client sends,
  forged \<open>X-Forwarded-For\<close> included.
\<close>

theorem denied_client_gets_403:
  assumes "\<not> ae_flt en ''GetByHostname''" "\<not> ae_flt en ''GetProxyACLAssignments''"
    and "proxy_for r ap = Some p"
    and "g \<in> applicable_groups (ap_acl ap) (px_ID p) (first_of (Header_Get r ''X-Forwarded-Uri'') (hq_Path r))"
    and "rule \<in> set (gr_IPRules g)" "ir_RuleType rule = ''deny''" "rule_hits rule ip"
    and "Header_Get r trustedClientIPHeader \<noteq> []"
    and "parseRemoteIP (TrimSpace (Header_Get r trustedClientIPHeader)) = Some ip"
  shows "Verify en r ap = (ap, WriteHeader 403)"
proof -
  have "VerifyAccess (verify_env_of en) (verify_request r) (ap_acl ap) =
      (ap_acl ap, Ok (denied_response\<lparr>rs_Reason := ''access denied by IP deny rule''\<rparr>))"
    by (rule deny_rule_blocks[of _ _ _ p g rule ip]) (use assms in \<open>simp_all add: clientIPForACL_def\<close>)
  then show ?thesis
    by (simp add: Verify_def verify_answer_def denied_response_def set_acl_def with_headers_def)
qed

section \<open>Query strings\<close>

lemma valid_no_query: "validatePathPattern p = None \<Longrightarrow> CHR ''?'' \<notin> set p"
  by (cases "p = []") (auto simp: validatePathPattern_def ContainsAny_def invalidPathChars_def list_ex_iff split: if_splits)

lemma exact_pattern: "CHR ''*'' \<notin> set p \<Longrightarrow> matchPath p path \<longleftrightarrow> p = path"
  by (auto simp: matchPath_def HasSuffix_iff)

text \<open>
  Exact path patterns protect nothing as soon as the request has a query string: Caddy forwards
  the whole request URI, query included, and the patterns are compared with it as if it were the
  path. If every enabled assignment of a proxy has a valid pattern without a star, then every request
  whose forwarded URI contains a question mark is let through, without session, credentials or regard
  to deny rules.
\<close>

theorem query_string_lifts_protection:
  assumes "\<not> ae_flt en ''GetByHostname''" "\<not> ae_flt en ''GetProxyACLAssignments''"
    and "proxy_for r ap = Some p"
    and "\<forall>a \<in> set (tb_rows (st_assignments (ap_acl ap))). pa_ProxyID a = px_ID p \<and> pa_Enabled a \<longrightarrow>
      validatePathPattern (pa_PathPattern a) = None \<and> CHR ''*'' \<notin> set (pa_PathPattern a)"
    and "CHR ''?'' \<in> set (Header_Get r ''X-Forwarded-Uri'')"
  shows "Verify en r ap = (ap, WriteHeader 200)"
proof -
  let ?uri = "Header_Get r ''X-Forwarded-Uri''"
  have uri: "first_of ?uri (hq_Path r) = ?uri" using assms(5) by (auto simp: first_of_def)
  have "applicable_groups (ap_acl ap) (px_ID p) ?uri = {}"
    using assms(4,5) valid_no_query exact_pattern by (fastforce simp: applicable_groups_def)
  moreover obtain groups where "set groups = applicable_groups (ap_acl ap) (px_ID p) ?uri"
    and "VerifyAccess (verify_env_of en) (verify_request r) (ap_acl ap) =
      (if groups = [] then (ap_acl ap, Ok (denied_response\<lparr>rs_Allowed := True\<rparr>))
       else (fst (evaluateUnionAccess (verify_env_of en) (ap_acl ap) groups (verify_request r)),
             Ok (snd (evaluateUnionAccess (verify_env_of en) (ap_acl ap) groups (verify_request r)))))"
    using VerifyAccess_found[of "verify_env_of en" "verify_request r" "ap_acl ap" p] assms(1-3) uri by auto
  ultimately show ?thesis
    by (simp add: Verify_def verify_answer_def denied_response_def set_acl_def with_headers_def)
qed

section \<open>Login sessions\<close>

lemma acl_cookie_simps [simp]:
  "ck_Value (acl_cookie sec v d e m) = v" "ck_Expires (acl_cookie sec v d e m) = e"
  by (simp_all add: acl_cookie_def)

lemma ACL_Login_success:
  assumes "ACL_Login en tld sec body r ap = (ap1, w)" "ht_Status w = 200"
  obtains req user s where "body = Some req" "GetByUsernameOrEmail (ae_flt en) (lr_Email req) (ap_db ap) = Ok user"
    "ae_compare en (us_PasswordHash user) (lr_Password req)"
    "CreateSession (ae_rand en) (ae_flt en) (ae_now en) (us_ID user) None (getClientIP r) (UserAgent r) 86400 (ap_acl ap)
       = (ap_acl ap1, Ok s)"
    "map ck_Value (ht_Cookies w) = [se_SessionToken s]"
proof -
  obtain req where b: "body = Some req" using assms by (cases body) (auto simp: ACL_Login_def)
  have e: "lr_Email req \<noteq> []" "lr_Password req \<noteq> []"
    using assms b by (auto simp: ACL_Login_def split: if_splits)
  obtain user where g: "GetByUsernameOrEmail (ae_flt en) (lr_Email req) (ap_db ap) = Inr user"
    using assms b e
    by (cases "GetByUsernameOrEmail (ae_flt en) (lr_Email req) (ap_db ap)") (auto simp: ACL_Login_def Let_def)
  have p: "ae_compare en (us_PasswordHash user) (lr_Password req)"
    using assms b e g by (auto simp: ACL_Login_def Let_def split: if_splits)
  obtain st res where c: "CreateSession (ae_rand en) (ae_flt en) (ae_now en) (us_ID user) None (getClientIP r)
      (UserAgent r) 86400 (ap_acl ap) = (st, res)" by fastforce
  obtain s where "res = Inr s"
    using assms b e g p c by (cases res) (auto simp: ACL_Login_def create_session_def Let_def)
  with that[OF b g p] assms b e g p c show ?thesis
    by (auto simp: ACL_Login_def create_session_def Let_def)
qed

lemma CreateSession_repo_users [simp]: "st_users (fst (CreateSession_repo flt x st)) = st_users st"
  by (simp add: CreateSession_repo_def)

lemma CreateSession_users: "st_users (fst (CreateSession rnd flt now u pid ip ua ttl st)) = st_users st"
  by (simp add: CreateSession_def CreateSessionWithParams_def Let_def case_prod_unfold split: option.split)

lemma CreateSession_fields:
  "CreateSession rnd flt now u pid ip ua ttl st = (st', Ok s) \<Longrightarrow> se_UserID s = Some u \<and> se_Email s = None"
  by (auto simp: CreateSession_def CreateSessionWithParams_def Let_def non_empty_def split: option.splits prod.splits)

lemma session_token_nonempty:
  assumes "CreateSession rnd flt now u pid ip ua ttl st = (st', Ok s)" "\<And>bs. rnd 32 = Some bs \<Longrightarrow> length bs = 32"
  shows "se_SessionToken s \<noteq> []"
proof -
  have "generateSecureToken rnd SessionTokenLength = Some (se_SessionToken s)"
    using assms(1) CreateSession_success(1) by (auto simp: CreateSession_def)
  then obtain bs where "rnd 32 = Some bs" "se_SessionToken s = EncodeToString bs"
    by (auto simp: generateSecureToken_def SessionTokenLength_def)
  with assms(2) have "length (se_SessionToken s) = 44" by (simp add: length_EncodeToString)
  then show ?thesis by auto
qed

text \<open>
  C35. What a login is worth: a login that succeeds was made with the password of a stored user and
  sets one cookie. Up to 24 hours later a forward-authentication request with that cookie counts as
  this user for every group that accepts Waygates users and lists the user; afterwards the cookie is
  worth nothing.
\<close>

theorem login_session_admits:
  assumes "ACL_Login en tld sec body r ap = (ap1, w)" "ht_Status w = 200"
    and "users_ok (db_users (ap_db ap))" "\<forall>bs. ae_rand en 32 = Some bs \<longrightarrow> length bs = 32"
  shows "\<exists>token user req. body = Some req \<and> map ck_Value (ht_Cookies w) = [token] \<and> user \<in> set (ap_users ap) \<and>
    ae_compare en (us_PasswordHash user) (lr_Password req) \<and>
    (\<forall>en' r' g wa. request_Cookie r' ACLSessionCookieName = Some token \<longrightarrow>
       \<not> ae_flt en' ''GetSessionByToken'' \<longrightarrow> gr_WaygatesAuth g = Some wa \<longrightarrow> wa_Enabled wa \<longrightarrow>
       isUserAllowedByWaygatesAuth user wa \<longrightarrow>
       (session_admits (verify_env_of en') (ap_acl ap1) g (verify_request r') \<longleftrightarrow>
          ae_now en' \<le> ae_now en + 86400 * second_ns))"
proof -
  obtain req user s where c: "body = Some req" "GetByUsernameOrEmail (ae_flt en) (lr_Email req) (ap_db ap) = Ok user"
    "ae_compare en (us_PasswordHash user) (lr_Password req)"
    "CreateSession (ae_rand en) (ae_flt en) (ae_now en) (us_ID user) None (getClientIP r) (UserAgent r) 86400 (ap_acl ap)
       = (ap_acl ap1, Ok s)"
    "map ck_Value (ht_Cookies w) = [se_SessionToken s]"
    using ACL_Login_success[OF assms(1,2)] .
  have u: "user \<in> set (ap_users ap)"
    using c(2) by (auto simp: GetByUsernameOrEmail_def read_first_def split: if_splits option.splits dest: tb_First_Some)
  then have first: "tb_First (\<lambda>x. us_ID x = us_ID user) (st_users (ap_acl ap1)) = Some user"
    using users_tb.First_key[of "db_users (ap_db ap)" user] assms(3)
      CreateSession_users[of "ae_rand en" "ae_flt en" "ae_now en" "us_ID user" None "getClientIP r" "UserAgent r" 86400
        "ap_acl ap"]
    by (simp add: users_ok_def c(4))
  note f = created_session_found[OF c(4)[unfolded CreateSession_def]]
    CreateSession_success(2)[OF c(4)[unfolded CreateSession_def]] CreateSession_fields[OF c(4)]
  have e: "se_ExpiresAt s = ae_now en + 86400 * second_ns"
    using f(2) by (simp add: effective_ttl_def) (simp add: second_ns_def wrap64_def)
  have ne: "se_SessionToken s \<noteq> []" by (rule session_token_nonempty[OF c(4)]) (use assms(4) in simp)
  have g: "GetSessionByToken flt (se_SessionToken s) (ap_acl ap1) = Ok (s\<lparr>se_User := Some user\<rparr>)"
    if "\<not> flt ''GetSessionByToken''" for flt
    using that f(1,3) first by (simp add: GetSessionByToken_def read_first_def)
  show ?thesis
    by (intro exI[of _ "se_SessionToken s"] exI[of _ user] exI[of _ req])
       (use c u ne g e f(3) in \<open>auto simp: session_admits_def\<close>)
qed


text \<open>
  Deactivating an account does not close the login of protected sites: with the right password a
  deactivated user is logged in like any other, and sessions of the user keep counting.
\<close>

theorem deactivated_user_logs_in:
  assumes "GetByUsernameOrEmail (ae_flt en) (lr_Email req) (ap_db ap) = Ok user" "\<not> us_Active user"
    and "ae_compare en (us_PasswordHash user) (lr_Password req)" "lr_Email req \<noteq> []" "lr_Password req \<noteq> []"
    and "generateSecureToken (ae_rand en) SessionTokenLength = Some token" "\<not> ae_flt en ''CreateSession''"
    and "\<forall>s \<in> set (tb_rows (st_sessions (ap_acl ap))). se_SessionToken s \<noteq> token"
    and "us_ID user \<in> uids (ap_acl ap)"
  shows "\<exists>ap1 w. ACL_Login en tld sec (Some req) r ap = (ap1, w) \<and> ht_Status w = 200 \<and>
    map ck_Value (ht_Cookies w) = [token]"
  using assms
  by (auto simp: ACL_Login_def create_session_def CreateSession_def CreateSessionWithParams_def CreateSession_repo_def
      Let_def list_ex_iff uids_def split: if_splits)

section \<open>Demonstration\<close>

definition demo_fwd :: "string \<Rightarrow> string \<Rightarrow> http_request" where
  "demo_fwd uri ip =
     demo_http [(''X-Forwarded-Host'', ''app.example.com''), (''X-Forwarded-Uri'', uri),
       (''X-Waygates-Client-IP'', ip), (''X-Forwarded-For'', ''1.2.3.4'')] []"

definition demo_admin_app :: "(string \<Rightarrow> string option) app" where
  "demo_admin_app =
     set_acl ((db_acl (ap_db demo_app))\<lparr>st_assignments := \<lparr>tb_rows = [demo_assignment 1 1 ''/admin''], tb_next = 2\<rparr>,
       st_ip_rules := \<lparr>tb_rows = [demo_rule 1 1 ''deny'' ''10.0.0.0/8''], tb_next = 2\<rparr>\<rparr>) demo_app"

theorem query_string_lifts_protection_witness:
  "ht_Status (snd (Verify demo_aenv (demo_fwd ''/admin'' ''8.8.8.8'') demo_admin_app)) = 401 \<and>
   ht_Status (snd (Verify demo_aenv (demo_fwd ''/admin?x=1'' ''8.8.8.8'') demo_admin_app)) = 200"
proof -
  let ?r = "demo_fwd ''/admin?x=1'' ''8.8.8.8''"
  have "ht_Status (snd (Verify demo_aenv (demo_fwd ''/admin'' ''8.8.8.8'') demo_admin_app)) = 401"
    by code_simp
  moreover have p: "proxy_for ?r demo_admin_app = Some demo_backend" by code_simp
  moreover have "Header_Get ?r ''X-Forwarded-Uri'' = ''/admin?x=1''" by code_simp
  moreover have "validatePathPattern ''/admin'' = None" by code_simp
  ultimately show ?thesis
    using query_string_lifts_protection[of demo_aenv ?r demo_admin_app demo_backend]
    by (simp add: demo_admin_app_def demo_assignment_def no_faults_def)
qed

lemma demo_admin_applies:
  "preload_group (ap_acl demo_admin_app) (demo_group 1 ''admins'' ''any''\<lparr>gr_CreatedBy := 2\<rparr>) \<in>
    applicable_groups (ap_acl demo_admin_app) 1 ''/admin''"
  by (auto simp: applicable_groups_def demo_admin_app_def demo_app_def demo_astore_def demo_assignment_def
      demo_group_def tb_First_def matchPath_def intro!: exI[of _ "demo_assignment 1 1 ''/admin''"])

theorem denied_client_gets_403_witness:
  "Verify demo_aenv (demo_fwd ''/admin'' ''10.2.3.4'') demo_admin_app = (demo_admin_app, WriteHeader 403)"
proof (rule denied_client_gets_403)
  let ?r = "demo_fwd ''/admin'' ''10.2.3.4''"
  show "proxy_for ?r demo_admin_app = Some demo_backend" by code_simp
  have "px_ID demo_backend = 1" "first_of (Header_Get ?r ''X-Forwarded-Uri'') (hq_Path ?r) = ''/admin''"
    by code_simp+
  with demo_admin_applies
  show "preload_group (ap_acl demo_admin_app) (demo_group 1 ''admins'' ''any''\<lparr>gr_CreatedBy := 2\<rparr>) \<in>
      applicable_groups (ap_acl demo_admin_app) (px_ID demo_backend)
        (first_of (Header_Get ?r ''X-Forwarded-Uri'') (hq_Path ?r))"
    by simp
  show "demo_rule 1 1 ''deny'' ''10.0.0.0/8'' \<in>
      set (gr_IPRules (preload_group (ap_acl demo_admin_app) (demo_group 1 ''admins'' ''any''\<lparr>gr_CreatedBy := 2\<rparr>)))"
    by (simp add: preload_group_def demo_admin_app_def demo_group_def demo_rule_def)
  show "parseRemoteIP (TrimSpace (Header_Get ?r trustedClientIPHeader)) = Some (IP16 0xffff0a020304)"
    by code_simp
  show "rule_hits (demo_rule 1 1 ''deny'' ''10.0.0.0/8'') (IP16 0xffff0a020304)"
    unfolding rule_hits_case by code_simp
  show "Header_Get ?r trustedClientIPHeader \<noteq> []" by code_simp
qed (simp_all add: no_faults_def demo_rule_def)

definition demo_carol :: User where
  "demo_carol = demo_bob\<lparr>us_PasswordHash := ''h:pw'', us_Active := False\<rparr>"

definition demo_login_app :: "(string \<Rightarrow> string option) app" where
  "demo_login_app =
     set_acl ((db_acl (ap_db demo_app))\<lparr>st_users := \<lparr>tb_rows = [demo_user, demo_carol], tb_next = 3\<rparr>\<rparr>) demo_app"

definition demo_credentials :: ACLLoginRequest where
  "demo_credentials = \<lparr>lr_Email = ''bob@example.com'', lr_Password = ''pw'', lr_Redirect = ''https://app.example.com/''\<rparr>"

definition demo_login :: "(string \<Rightarrow> string option) app \<times> acl_payload http_response" where
  "demo_login = ACL_Login demo_aenv (\<lambda>_. Some ''example.com'') True (Some demo_credentials) (demo_http [] []) demo_login_app"

theorem deactivated_user_logs_in_witness:
  "\<exists>ap1 w. demo_login = (ap1, w) \<and> ht_Status w = 200 \<and> map ck_Value (ht_Cookies w) = [EncodeToString (replicate 32 7)]"
  unfolding demo_login_def
proof (rule deactivated_user_logs_in)
  show "GetByUsernameOrEmail (ae_flt demo_aenv) (lr_Email demo_credentials) (ap_db demo_login_app) = Ok demo_carol"
    by (simp add: GetByUsernameOrEmail_def read_first_def tb_First_def no_faults_def demo_login_app_def
        demo_credentials_def demo_user_def demo_carol_def demo_bob_def)
  show "\<forall>s \<in> set (tb_rows (st_sessions (ap_acl demo_login_app))). se_SessionToken s \<noteq> EncodeToString (replicate 32 7)"
    by (simp add: demo_login_app_def demo_app_def demo_astore_def demo_pstore_def demo_empty_def empty_store_def)
qed (simp_all add: no_faults_def demo_carol_def demo_bob_def demo_credentials_def demo_login_app_def uids_def
      generateSecureToken_def SessionTokenLength_def)

lemma demo_login_ok: "ht_Status (snd demo_login) = 200" by code_simp

theorem login_session_admits_witness:
  "\<exists>token user req. Some demo_credentials = Some req \<and> map ck_Value (ht_Cookies (snd demo_login)) = [token] \<and>
    user \<in> set (ap_users demo_login_app) \<and> ae_compare demo_aenv (us_PasswordHash user) (lr_Password req) \<and>
    (\<forall>en' r' g wa. request_Cookie r' ACLSessionCookieName = Some token \<longrightarrow>
       \<not> ae_flt en' ''GetSessionByToken'' \<longrightarrow> gr_WaygatesAuth g = Some wa \<longrightarrow> wa_Enabled wa \<longrightarrow>
       isUserAllowedByWaygatesAuth user wa \<longrightarrow>
       (session_admits (verify_env_of en') (ap_acl (fst demo_login)) g (verify_request r') \<longleftrightarrow>
          ae_now en' \<le> ae_now demo_aenv + 86400 * second_ns))"
proof (rule login_session_admits)
  show "ACL_Login demo_aenv (\<lambda>_. Some ''example.com'') True (Some demo_credentials) (demo_http [] []) demo_login_app =
      (fst demo_login, snd demo_login)" by (simp add: demo_login_def)
  show "users_ok (db_users (ap_db demo_login_app))"
    by (simp add: users_ok_def tb_wf_def demo_login_app_def demo_user_def demo_carol_def demo_bob_def)
qed (simp_all add: demo_login_ok)


end
