(* ===== verification/User_Races.thy ===== *)
theory User_Races
  imports Acl_Http_Props
begin

text \<open>
  Two ways user management goes wrong although every single call keeps its promises: overlapping
  deletions, whose guards read before either writes, and the cascade of a deletion, which takes the
  groups the user created away from everybody's proxies.
\<close>

section \<open>Overlapping deletions\<close>

lemma delete_act_users:
  assumes "\<not> ae_flt en ''User.Delete''" "\<forall>p \<in> set (tb_rows (db_l4_proxies (ap_db ap))). l4_CreatedBy p \<noteq> i"
  shows "set (ap_users (fst (delete_act en u i ac ap))) = {x \<in> set (ap_users ap). us_ID x \<noteq> i}"
    "db_l4_proxies (ap_db (fst (delete_act en u i ac ap))) = db_l4_proxies (ap_db ap)"
    "snd (delete_act en u i ac ap) = Ok ()"
  using assms by (auto simp: delete_act_def User_Delete_repo_def list_ex_iff)

text \<open>
  The guard against removing the last administrator does not hold for calls that overlap: when
  the only two administrators delete each other and both checks run before either deletion, both
  calls report success and no administrator is left.
\<close>

theorem concurrent_deletes_remove_administrators:
  assumes "delete_check en b acA ap = Ok u" "delete_check en a acB ap = Ok v"
    and "\<forall>x \<in> set (ap_users ap). is_admin rm ap x \<longrightarrow> us_ID x \<in> {a, b}"
    and "\<not> ae_flt en ''User.Delete''" "\<forall>p \<in> set (tb_rows (db_l4_proxies (ap_db ap))). l4_CreatedBy p \<notin> {a, b}"
  shows "snd (delete_act en u b acA ap) = Ok () \<and>
    snd (delete_act en v a acB (fst (delete_act en u b acA ap))) = Ok () \<and>
    \<not> has_admin rm (fst (delete_act en v a acB (fst (delete_act en u b acA ap))))"
proof -
  let ?ap1 = "fst (delete_act en u b acA ap)"
  have l: "\<forall>p \<in> set (tb_rows (db_l4_proxies (ap_db ap))). l4_CreatedBy p \<noteq> b"
    "\<forall>p \<in> set (tb_rows (db_l4_proxies (ap_db ap))). l4_CreatedBy p \<noteq> a" using assms(5) by auto
  note one = delete_act_users[OF assms(4) l(1), of u acA]
  note two = delete_act_users[OF assms(4) l(2)[folded one(2)], of v acB]
  have "ap_roles (fst (delete_act en v a acB ?ap1)) = ap_roles ap" by (simp add: delete_act_simps)
  with assms(3) show ?thesis
    by (auto simp: one two has_admin_def is_admin_def)
qed

theorem concurrent_deletes_remove_administrators_witness:
  "\<exists>u v. delete_check demo_aenv 2 (demo_actor 1) demo_app = Ok u \<and> delete_check demo_aenv 1 (demo_actor 2) demo_app = Ok v \<and>
    \<not> has_admin demo_roles
      (fst (delete_act demo_aenv v 1 (demo_actor 2) (fst (delete_act demo_aenv u 2 (demo_actor 1) demo_app))))"
proof -
  have c: "delete_check demo_aenv 2 (demo_actor 1) demo_app = Ok demo_bob"
    "delete_check demo_aenv 1 (demo_actor 2) demo_app = Ok demo_user"
    by (code_simp, code_simp)
  have "\<forall>x \<in> set (ap_users demo_app). is_admin demo_roles demo_app x \<longrightarrow> us_ID x \<in> {1, 2}"
    by (simp add: demo_app_users demo_user_def demo_bob_def)
  moreover have "db_l4_proxies (ap_db demo_app) = empty_table" by (simp add: demo_app_def demo_db_def)
  ultimately show ?thesis
    using concurrent_deletes_remove_administrators[OF c] c by (simp add: no_faults_def)
qed

section \<open>Deleting the author of a group\<close>

lemma delete_user_assignments:
  "set (tb_rows (st_assignments (delete_user_rows i st))) \<subseteq> set (tb_rows (st_assignments st))"
proof -
  have "set (tb_rows (st_assignments (fold delete_group_rows gs st))) \<subseteq> set (tb_rows (st_assignments st))" for gs st
    by (induction gs arbitrary: st) (fastforce simp: delete_group_rows_def)+
  moreover have "set (tb_rows (st_assignments (fold delete_proxy_rows ps st))) \<subseteq> set (tb_rows (st_assignments st))" for ps st
    by (induction ps arbitrary: st) (fastforce simp: delete_proxy_rows_def)+
  ultimately show ?thesis by (simp add: delete_user_rows_def Let_def) blast
qed

lemma find_filter_kept: "List.find P xs = Some x \<Longrightarrow> Q x \<Longrightarrow> List.find P (filter Q xs) = Some x"
  by (induction xs) (auto split: if_splits)

lemma delete_user_keeps_proxy:
  assumes "system_ok st" "tb_First P (st_proxies st) = Some p" "px_CreatedBy p \<noteq> i"
  shows "tb_First P (st_proxies (delete_user_rows i st)) = Some p"
proof -
  have wf: "tb_wf px_ID (st_proxies st)" using assms(1) by (simp add: system_ok_def table_ok_def)
  have "p \<in> set (tb_rows (st_proxies st))" using assms(2) tb_First_Some by fast
  then have "px_ID p \<notin> px_ID ` {q \<in> set (tb_rows (st_proxies st)). px_CreatedBy q = i}"
    using proxies_tb.key_unique[OF wf] assms(3) by blast
  with assms(2) show ?thesis
    by (simp add: delete_user_rows_def Let_def fold_delete_rows tb_First_def find_filter_kept)
qed

text \<open>
  Deleting a user opens other people's sites: the user's groups go with the account, so a proxy
  of somebody else whose assigned groups were all created by that user answers every request with 200
  afterwards, without any warning at the deletion.
\<close>

theorem deleting_user_unprotects:
  assumes "User_Delete en i ac ap = (ap1, Ok ())" "db_ok (ap_db ap)"
    and "proxy_for r ap = Some p" "px_CreatedBy p \<noteq> i"
    and "\<forall>a \<in> set (tb_rows (st_assignments (ap_acl ap))). pa_ProxyID a = px_ID p \<longrightarrow>
      (\<exists>g \<in> set (tb_rows (st_groups (ap_acl ap))). gr_ID g = pa_ACLGroupID a \<and> gr_CreatedBy g = i)"
    and "\<not> ae_flt en' ''GetByHostname''" "\<not> ae_flt en' ''GetProxyACLAssignments''"
  shows "Verify en' r ap1 = (ap1, WriteHeader 200)"
proof -
  have d: "ap_acl ap1 = delete_user_rows i (ap_acl ap)"
    using assms(1)
    by (auto simp: User_Delete_def delete_act_def User_Delete_repo_def split: sum.splits prod.splits option.splits if_splits)
  have st: "system_ok (ap_acl ap)" using assms(2) by (simp add: db_ok_def)
  have p: "proxy_for r ap1 = Some p" using delete_user_keeps_proxy[OF st assms(3,4)] by (simp add: d)
  have "tb_First (\<lambda>g. gr_ID g = pa_ACLGroupID a) (st_groups (ap_acl ap1)) = None"
    if a: "a \<in> set (tb_rows (st_assignments (ap_acl ap1)))" "pa_ProxyID a = px_ID p" for a
  proof -
    obtain g where "g \<in> set (tb_rows (st_groups (ap_acl ap)))" "gr_ID g = pa_ACLGroupID a" "gr_CreatedBy g = i"
      using a assms(5) delete_user_assignments[of i "ap_acl ap"] by (auto simp: d)
    then show ?thesis unfolding tb_First_None d delete_user_rows_left(2) by force
  qed
  then have none: "applicable_groups (ap_acl ap1) (px_ID p) path = {}" for path
    by (auto simp: applicable_groups_def)
  obtain groups where "set groups = applicable_groups (ap_acl ap1) (px_ID p) (rq_Path (verify_request r))"
    and "VerifyAccess (verify_env_of en') (verify_request r) (ap_acl ap1) =
      (if groups = [] then (ap_acl ap1, Ok (denied_response\<lparr>rs_Allowed := True\<rparr>))
       else (fst (evaluateUnionAccess (verify_env_of en') (ap_acl ap1) groups (verify_request r)),
             Ok (snd (evaluateUnionAccess (verify_env_of en') (ap_acl ap1) groups (verify_request r)))))"
    using VerifyAccess_found[of "verify_env_of en'" "verify_request r" "ap_acl ap1" p] assms(6,7) p by auto
  with none show ?thesis
    by (simp add: Verify_def verify_answer_def denied_response_def set_acl_def with_headers_def)
qed

theorem deleting_user_unprotects_witness:
  "ht_Status (snd (Verify demo_aenv (demo_fwd ''/x'' ''8.8.8.8'') demo_app)) = 401 \<and>
   ht_Status (snd (Verify demo_aenv (demo_fwd ''/x'' ''8.8.8.8'')
     (fst (User_Delete demo_aenv 2 (demo_actor 1) demo_app)))) = 200"
proof -
  let ?r = "demo_fwd ''/x'' ''8.8.8.8''"
  let ?ap1 = "fst (User_Delete demo_aenv 2 (demo_actor 1) demo_app)"
  have "snd (User_Delete demo_aenv 2 (demo_actor 1) demo_app) = Ok ()" by code_simp
  then have d: "User_Delete demo_aenv 2 (demo_actor 1) demo_app = (?ap1, Ok ())"
    by (simp only: prod_eq_iff fst_conv snd_conv)
  have "ht_Status (snd (Verify demo_aenv ?r demo_app)) = 401" by code_simp
  moreover have p: "proxy_for ?r demo_app = Some demo_backend" by code_simp
  moreover have "px_CreatedBy demo_backend \<noteq> 2" "px_ID demo_backend = 1" by code_simp+
  moreover have "\<exists>g \<in> set (tb_rows (st_groups (ap_acl demo_app))). gr_ID g = 1 \<and> gr_CreatedBy g = 2"
    "\<forall>a \<in> set (tb_rows (st_assignments (ap_acl demo_app))). pa_ACLGroupID a = 1"
    by code_simp+
  ultimately show ?thesis
    using deleting_user_unprotects[OF d demo_app_ok p, of demo_aenv] by (simp add: no_faults_def)
qed

end
