(* ===== verification/Auth_Handler.thy ===== *)
theory Auth_Handler
  imports App_State Go_Url
begin

text \<open>
  \<open>backend/internal/api/handlers/auth_handler.go\<close>, \<open>backend/internal/validation/validation.go\<close> for
  the registration request, and \<open>GetUserIDAsUint\<close> of \<open>backend/internal/auth/goauth.go\<close>. The tokens
  are \<open>goauth\<close>'s: its four token operations are parameters. The validator's check of an e-mail
  address is one too.
\<close>

record 'g token_manager =
  tm_GenerateTokenPair :: "string \<Rightarrow> (string \<times> string) list \<Rightarrow> 'g \<Rightarrow> 'g \<times> (string \<times> string) option"
  tm_RefreshTokens :: "string \<Rightarrow> 'g \<Rightarrow> 'g \<times> (string \<times> string) option"
  tm_RevokeAccessToken :: "string \<Rightarrow> 'g \<Rightarrow> 'g"
  tm_RevokeRefreshToken :: "string \<Rightarrow> 'g \<Rightarrow> 'g"
  tm_Permissions :: "string \<Rightarrow> 'g \<Rightarrow> string list"

section \<open>Validation of a registration\<close>

record RegisterRequest =
  rr_Name :: string
  rr_Username :: string
  rr_Email :: string
  rr_Password :: string

text \<open>
  The validator counts characters, not bytes; in a decoded JSON string, which is valid UTF-8, the
  bytes that continue a character are those from 128 to 191.
\<close>

definition rune_count :: "string \<Rightarrow> nat" where
  "rune_count s = length (filter (\<lambda>c. (of_char c :: nat) div 64 \<noteq> 2) s)"

definition validateUsername :: "string \<Rightarrow> bool" where
  "validateUsername s \<longleftrightarrow> s \<noteq> [] \<and> list_all (\<lambda>c. is_alnum c \<or> c = CHR ''_'' \<or> c = CHR ''-'') s"

fun toSnakeCase_from :: "bool \<Rightarrow> string \<Rightarrow> string" where
  "toSnakeCase_from first [] = []"
| "toSnakeCase_from first (c # cs) =
     (if \<not> first \<and> 65 \<le> (of_char c :: nat) \<and> (of_char c :: nat) \<le> 90 then ''_'' else []) @
     c # toSnakeCase_from False cs"

definition toSnakeCase :: "string \<Rightarrow> string" where
  "toSnakeCase s = ToLower (toSnakeCase_from True s)"

datatype tag = Required | Min nat | Max nat | Email | UsernameTag

definition tag_ok :: "(string \<Rightarrow> bool) \<Rightarrow> tag \<Rightarrow> string \<Rightarrow> bool" where
  "tag_ok isEmail t s =
     (case t of
        Required \<Rightarrow> s \<noteq> []
      | Min n \<Rightarrow> n \<le> rune_count s
      | Max n \<Rightarrow> rune_count s \<le> n
      | Email \<Rightarrow> isEmail s
      | UsernameTag \<Rightarrow> validateUsername s)"

definition getErrorMessage :: "string \<Rightarrow> tag \<Rightarrow> string" where
  "getErrorMessage name t =
     (let field = toSnakeCase name in
      case t of
        Required \<Rightarrow> field @ '' is required''
      | Email \<Rightarrow> ''invalid email format''
      | Min n \<Rightarrow> field @ '' must be at least '' @ Itoa (int n) @ '' characters''
      | Max n \<Rightarrow> field @ '' must be at most '' @ Itoa (int n) @ '' characters''
      | UsernameTag \<Rightarrow> ''username can only contain letters, numbers, underscores, and hyphens'')"

definition register_fields :: "RegisterRequest \<Rightarrow> (string \<times> tag list \<times> string) list" where
  "register_fields req =
     [(''Name'', [Required, Min 1, Max 255], rr_Name req),
      (''Username'', [Required, Min 3, Max 50, UsernameTag], rr_Username req),
      (''Email'', [Required, Email, Max 255], rr_Email req),
      (''Password'', [Required, Min 8, Max 128], rr_Password req)]"

text \<open>\<open>ValidateStruct\<close>: the first failing tag of the first failing field, as the text of its error.\<close>

definition ValidateStruct :: "(string \<Rightarrow> bool) \<Rightarrow> (string \<times> tag list \<times> string) list \<Rightarrow> string option" where
  "ValidateStruct isEmail fs =
     (case List.map_filter (\<lambda>(name, tags, s). map_option (\<lambda>t. (name, t)) (List.find (\<lambda>t. \<not> tag_ok isEmail t s) tags)) fs of
        [] \<Rightarrow> None
      | (name, t) # _ \<Rightarrow> Some (toSnakeCase name @ '': '' @ getErrorMessage name t))"

section \<open>Registration\<close>

datatype auth_payload =
  UserPayload User
| OpenPayload bool
| LoginPayload string string bool
| TokenPayload string string
| MePayload User "string option" "string list"

type_synonym 'g auth_result = "'g app \<times> auth_payload http_response"

definition SettingOpenRegistration :: string where
  "SettingOpenRegistration = ''auth.open_registration''"

definition open_registration :: "'g app_env \<Rightarrow> 'g app \<Rightarrow> bool" where
  "open_registration en ap =
     (GetValue (ae_flt en) SettingOpenRegistration ''false'' (db_settings (ap_db ap)) = ''true'')"

text \<open>
  \<open>Register\<close> up to the decision about the role, which only reads; \<open>Count\<close> returns 0 with its error,
  and the error is ignored.
\<close>

definition register_role :: "'g app_env \<Rightarrow> 'g app \<Rightarrow> string option" where
  "register_role en ap =
     (let count = (case User_Count (ae_flt en) (ap_db ap) of Inl _ \<Rightarrow> 0 | Inr n \<Rightarrow> n) in
      if count = 0 then Some ''admin''
      else if open_registration en ap then Some ''viewer''
      else None)"

definition register_check ::
  "'g app_env \<Rightarrow> (string \<Rightarrow> bool) \<Rightarrow> RegisterRequest option \<Rightarrow> 'g app \<Rightarrow> auth_payload http_response + User \<times> string" where
  "register_check en isEmail body ap =
     (case body of
        None \<Rightarrow> Inl (BadRequest ''Invalid request body'')
      | Some req \<Rightarrow>
          (case ValidateStruct isEmail (register_fields req) of
             Some e \<Rightarrow> Inl (BadRequest e)
           | None \<Rightarrow>
          (case GetByUsernameOrEmail (ae_flt en) (rr_Email req) (ap_db ap) of
             Inr _ \<Rightarrow> Inl (Conflict ''User with this email already exists'')
           | Inl e \<Rightarrow>
          if e \<noteq> RecordNotFound then Inl (InternalError ''Failed to check existing user'') else
          (case GetByUsernameOrEmail (ae_flt en) (rr_Username req) (ap_db ap) of
             Inr _ \<Rightarrow> Inl (Conflict ''User with this username already exists'')
           | Inl e \<Rightarrow>
          if e \<noteq> RecordNotFound then Inl (InternalError ''Failed to check existing user'') else
          (case ae_hash en (rr_Password req) of
             None \<Rightarrow> Inl (InternalError ''Failed to process password'')
           | Some h \<Rightarrow>
          (case register_role en ap of
             None \<Rightarrow> Inl (Forbidden ''registration is disabled'')
           | Some role \<Rightarrow>
               Inr (\<lparr>us_ID = 0, us_Name = rr_Name req, us_Username = rr_Username req, us_Email = rr_Email req,
                     us_PasswordHash = h, us_Active = False, us_MustChangePassword = False,
                     us_LastLoginAt = None\<rparr>, role)))))))"

definition createUserAndAssignRole ::
  "'g app_env \<Rightarrow> User \<Rightarrow> string \<Rightarrow> 'g app \<Rightarrow> 'g app \<times> User option" where
  "createUserAndAssignRole en user role ap =
     (case User_Create_repo (ae_flt en) user (ap_db ap) of
        (db1, Some e) \<Rightarrow> (ap\<lparr>ap_db := db1\<rparr>, None)
      | (db1, None) \<Rightarrow>
          let u = created_user (ap_db ap) user in
          (case rm_AssignRole (ae_roles en) (Itoa (us_ID u)) role (ap_roles ap) of
             (g, True) \<Rightarrow> (ap\<lparr>ap_db := db1, ap_roles := g\<rparr>, Some u)
           | (g, False) \<Rightarrow>
               (ap\<lparr>ap_db := fst (User_Delete_repo (ae_flt en) (us_ID u) db1), ap_roles := g\<rparr>, None)))"

definition register_act :: "'g app_env \<Rightarrow> http_request \<Rightarrow> User \<Rightarrow> string \<Rightarrow> 'g app \<Rightarrow> 'g auth_result" where
  "register_act en r user role ap =
     (case createUserAndAssignRole en user role ap of
        (ap1, None) \<Rightarrow> (ap1, InternalError ''Failed to register user'')
      | (ap1, Some u) \<Rightarrow>
          (audit en (LogRegister (us_ID u) (us_Username u) (getClientIP r) (UserAgent r)) ap1,
           Created (Some (UserPayload u)) ''User registered successfully''))"

definition Register ::
  "'g app_env \<Rightarrow> (string \<Rightarrow> bool) \<Rightarrow> RegisterRequest option \<Rightarrow> http_request \<Rightarrow> 'g app \<Rightarrow> 'g auth_result" where
  "Register en isEmail body r ap =
     (case register_check en isEmail body ap of
        Inl w \<Rightarrow> (ap, w)
      | Inr (user, role) \<Rightarrow> register_act en r user role ap)"

definition RegistrationStatus :: "'g app_env \<Rightarrow> 'g app \<Rightarrow> 'g auth_result" where
  "RegistrationStatus en ap = (ap, Success (Some (OpenPayload (open_registration en ap))) [])"

section \<open>Login and tokens\<close>

record LoginRequest =
  li_Identifier :: string
  li_Password :: string

definition login_failed :: "'g app_env \<Rightarrow> string \<Rightarrow> http_request \<Rightarrow> string \<Rightarrow> 'g app \<Rightarrow> 'g app" where
  "login_failed en identifier r reason ap =
     audit en (LogLoginFailed identifier (getClientIP r) (UserAgent r) reason) ap"

definition Login ::
  "'g app_env \<Rightarrow> 'g token_manager \<Rightarrow> LoginRequest option \<Rightarrow> http_request \<Rightarrow> 'g app \<Rightarrow> 'g auth_result" where
  "Login en tm body r ap =
     (case body of
        None \<Rightarrow> (ap, BadRequest ''Invalid request body'')
      | Some req \<Rightarrow>
          if li_Identifier req = [] \<or> li_Password req = []
          then (ap, BadRequest ''Identifier and password are required'')
          else
            (case GetByUsernameOrEmail (ae_flt en) (li_Identifier req) (ap_db ap) of
               Inl RecordNotFound \<Rightarrow>
                 (login_failed en (li_Identifier req) r ''User not found'' ap, Unauthorized ''Invalid credentials'')
             | Inl e \<Rightarrow> (ap, InternalError ''Failed to authenticate'')
             | Inr user \<Rightarrow>
                 if \<not> ae_compare en (us_PasswordHash user) (li_Password req) then
                   (login_failed en (li_Identifier req) r ''Invalid password'' ap, Unauthorized ''Invalid credentials'')
                 else if \<not> us_Active user then
                   (login_failed en (li_Identifier req) r ''disabled'' ap, Forbidden ''account is disabled'')
                 else
                   (case tm_GenerateTokenPair tm (Itoa (us_ID user))
                           [(''username'', us_Username user), (''email'', us_Email user)] (ap_roles ap) of
                      (g, None) \<Rightarrow> (ap\<lparr>ap_roles := g\<rparr>, InternalError ''Failed to generate tokens'')
                    | (g, Some (access, refresh)) \<Rightarrow>
                        let ap1 = ap\<lparr>ap_roles := g,
                                    ap_db := fst (UpdateLastLogin (ae_flt en) (us_ID user) (ae_now en) (ap_db ap))\<rparr>
                        in (audit en (LogLogin (us_ID user) (us_Username user) (getClientIP r) (UserAgent r)) ap1,
                            Success (Some (LoginPayload access refresh (us_MustChangePassword user)))
                              ''Login successful''))))"

definition RefreshToken ::
  "'g token_manager \<Rightarrow> string option \<Rightarrow> 'g app \<Rightarrow> 'g auth_result" where
  "RefreshToken tm body ap =
     (case body of
        None \<Rightarrow> (ap, BadRequest ''Invalid request body'')
      | Some refreshToken \<Rightarrow>
          if refreshToken = [] then (ap, BadRequest ''Refresh token is required'')
          else
            (case tm_RefreshTokens tm refreshToken (ap_roles ap) of
               (g, None) \<Rightarrow> (ap\<lparr>ap_roles := g\<rparr>, Unauthorized ''Invalid or expired refresh token'')
             | (g, Some (access, refresh)) \<Rightarrow>
                 (ap\<lparr>ap_roles := g\<rparr>, Success (Some (TokenPayload access refresh)) ''Token refreshed successfully'')))"

definition GetUserIDAsUint :: "http_request \<Rightarrow> nat option" where
  "GetUserIDAsUint r = (if hq_UserID r = [] then None else ParseUint (hq_UserID r))"

text \<open>The conversion \<open>int(userID)\<close> wraps.\<close>

definition as_int :: "nat \<Rightarrow> int" where
  "as_int n = wrap64 (int n)"

definition Logout ::
  "'g app_env \<Rightarrow> 'g token_manager \<Rightarrow> string \<Rightarrow> http_request \<Rightarrow> 'g app \<Rightarrow> 'g auth_result" where
  "Logout en tm refreshToken r ap =
     (let header = Header_Get r ''Authorization'';
          accessToken = (if 7 < length header \<and> take 7 header = ''Bearer '' then drop 7 header else header)
      in if accessToken = [] then (ap, BadRequest ''No token provided'')
         else
           let userID = (case GetUserIDAsUint r of None \<Rightarrow> 0 | Some n \<Rightarrow> n);
               g1 = tm_RevokeAccessToken tm accessToken (ap_roles ap);
               g2 = (if refreshToken \<noteq> [] then tm_RevokeRefreshToken tm refreshToken g1 else g1);
               ap1 = ap\<lparr>ap_roles := g2\<rparr>;
               ap2 = (if 0 < userID then
                        (case User_GetByID_repo (ae_flt en) (as_int userID) (ap_db ap1) of
                           Inl _ \<Rightarrow> ap1
                         | Inr user \<Rightarrow>
                             audit en (LogLogout (as_int userID) (us_Username user) (getClientIP r) (UserAgent r)) ap1)
                      else ap1)
           in (ap2, Success None ''Logged out successfully''))"

section \<open>The user's own account\<close>

record ChangePasswordRequest =
  cr_CurrentPassword :: string
  cr_NewPassword :: string

definition ChangePassword ::
  "'g app_env \<Rightarrow> ChangePasswordRequest option \<Rightarrow> http_request \<Rightarrow> 'g app \<Rightarrow> 'g auth_result" where
  "ChangePassword en body r ap =
     (case GetUserIDAsUint r of
        None \<Rightarrow> (ap, Unauthorized ''Not authenticated'')
      | Some userID \<Rightarrow>
     (case body of
        None \<Rightarrow> (ap, BadRequest ''Invalid request body'')
      | Some req \<Rightarrow>
          if cr_CurrentPassword req = [] \<or> cr_NewPassword req = []
          then (ap, BadRequest ''Current password and new password are required'')
          else if length (cr_NewPassword req) < 8
          then (ap, BadRequest ''New password must be at least 8 characters'')
          else
     (case User_GetByID_repo (ae_flt en) (as_int userID) (ap_db ap) of
        Inl _ \<Rightarrow> (ap, NotFound ''User not found'')
      | Inr user \<Rightarrow>
          if \<not> ae_compare en (us_PasswordHash user) (cr_CurrentPassword req)
          then (ap, Unauthorized ''Current password is incorrect'')
          else
     (case ae_hash en (cr_NewPassword req) of
        None \<Rightarrow> (ap, InternalError ''Failed to process new password'')
      | Some h \<Rightarrow>
     (case UpdatePassword (ae_flt en) (as_int userID) h (ap_db ap) of
        (db1, Some e) \<Rightarrow> (ap\<lparr>ap_db := db1\<rparr>, InternalError ''Failed to update password'')
      | (db1, None) \<Rightarrow>
          let user1 = user\<lparr>us_PasswordHash := h, us_MustChangePassword := False\<rparr>;
              ap1 = ap\<lparr>ap_db := fst (User_Update_repo (ae_flt en) user1 db1)\<rparr>
          in (audit en (LogPasswordChange (as_int userID) (us_Username user1) (getClientIP r) (UserAgent r)) ap1,
              Success None ''Password changed successfully''))))))"

definition GetMe :: "'g app_env \<Rightarrow> 'g token_manager \<Rightarrow> http_request \<Rightarrow> 'g app \<Rightarrow> 'g auth_result" where
  "GetMe en tm r ap =
     (case GetUserIDAsUint r of
        None \<Rightarrow> (ap, Unauthorized ''Not authenticated'')
      | Some userID \<Rightarrow>
          (case User_GetByID_repo (ae_flt en) (as_int userID) (ap_db ap) of
             Inl _ \<Rightarrow> (ap, NotFound ''User not found'')
           | Inr user \<Rightarrow>
               let uid = nat_to_string userID;
                   role = (if ae_perm_fails en uid then None else rm_RoleLabel (ae_roles en) uid (ap_roles ap));
                   perms = (if role = None then [] else tm_Permissions tm uid (ap_roles ap))
               in (ap, Success (Some (MePayload user role perms)) [])))"

end
