(* ===== verification/Auth_Props.thy ===== *)
theory Auth_Props
  imports Auth_Handler User_Admin Demo_App
begin

text \<open>
  Registration, login and the own password: who can become an administrator by registering, when
  tokens are issued, and what a password change does.
\<close>

section \<open>Registration\<close>

lemma audit_users [simp]: "is_admin rm (audit en ev ap) u = is_admin rm ap u"
  by (simp add: is_admin_def)

lemma register_check_role: "register_check en isEmail body ap = Inr (user, role) \<Longrightarrow> register_role en ap = Some role"
  by (auto simp: register_check_def split: option.splits sum.splits if_splits)

lemma createUser_rows:
  assumes "createUserAndAssignRole en user role ap = (ap', res)" "role_laws (ae_roles en)" "users_ok (db_users (ap_db ap))"
  shows "\<forall>u \<in> set (ap_users ap'). u \<in> set (ap_users ap) \<or> us_ID u = tb_next (db_users (ap_db ap))"
    "set (ap_users ap) \<subseteq> set (ap_users ap')"
    "j \<noteq> tb_next (db_users (ap_db ap)) \<Longrightarrow>
      rm_RoleLabel (ae_roles en) (Itoa j) (ap_roles ap') = rm_RoleLabel (ae_roles en) (Itoa j) (ap_roles ap)"
    "rm_RoleLabel (ae_roles en) (Itoa (tb_next (db_users (ap_db ap)))) (ap_roles ap') \<in>
      {Some role, rm_RoleLabel (ae_roles en) (Itoa (tb_next (db_users (ap_db ap)))) (ap_roles ap)}"
proof -
  let ?k = "tb_next (db_users (ap_db ap))"
  have k: "us_ID v \<noteq> ?k" if "v \<in> set (ap_users ap)" for v
    using that assms(3) by (auto simp: users_ok_def tb_wf_def list_all_iff)
  obtain db1 e where c: "User_Create_repo (ae_flt en) user (ap_db ap) = (db1, e)" by fastforce
  have rows: "set (tb_rows (db_users db1)) \<subseteq> set (ap_users ap) \<union> {u. us_ID u = ?k}"
    "set (ap_users ap) \<subseteq> set (tb_rows (db_users db1))"
    using c by (auto simp: User_Create_repo_def set_us_ID_def split: if_splits option.splits)
  obtain g ok where a: "rm_AssignRole (ae_roles en) (Itoa ?k) role (ap_roles ap) = (g, ok)" by fastforce
  have lab: "rm_RoleLabel (ae_roles en) (Itoa j) g =
      (if ok \<and> j = ?k then Some role else rm_RoleLabel (ae_roles en) (Itoa j) (ap_roles ap))" for j
  proof -
    have "Itoa j = Itoa ?k \<longleftrightarrow> j = ?k" using Itoa_inj by blast
    then show ?thesis using assms(2) a by (cases ok) (simp_all add: role_laws_def)
  qed
  have del: "set (tb_rows (db_users (fst (User_Delete_repo (ae_flt en) ?k db1)))) \<subseteq> set (tb_rows (db_users db1))"
    by (auto simp: User_Delete_repo_def)
  have ap': "ap' = (case e of Some x \<Rightarrow> ap\<lparr>ap_db := db1\<rparr> | None \<Rightarrow>
      if ok then ap\<lparr>ap_db := db1, ap_roles := g\<rparr>
      else ap\<lparr>ap_db := fst (User_Delete_repo (ae_flt en) ?k db1), ap_roles := g\<rparr>)"
    using assms(1) c a by (auto simp: createUserAndAssignRole_def Let_def created_user_def split: option.splits)
  show "\<forall>u \<in> set (ap_users ap'). u \<in> set (ap_users ap) \<or> us_ID u = ?k"
    using rows(1) del by (auto simp: ap' split: option.splits)
  show "set (ap_users ap) \<subseteq> set (ap_users ap')"
    using rows(2) k User_Delete_repo_rows[of db1 ?k "ae_flt en"] by (auto simp: ap' split: option.splits)
  show "j \<noteq> ?k \<Longrightarrow> rm_RoleLabel (ae_roles en) (Itoa j) (ap_roles ap') = rm_RoleLabel (ae_roles en) (Itoa j) (ap_roles ap)"
    by (simp add: ap' lab split: option.split)
  show "rm_RoleLabel (ae_roles en) (Itoa ?k) (ap_roles ap') \<in>
      {Some role, rm_RoleLabel (ae_roles en) (Itoa ?k) (ap_roles ap)}"
    by (simp add: ap' lab split: option.split)
qed

text \<open>
  C16. Nobody registers their way to the top: once there is a user and the count of users can be read,
  no registration, whatever it carries and whatever else fails, adds an administrator or takes one
  away; and while registration is closed it changes nothing at all.
\<close>

theorem registration_adds_no_admin:
  assumes "role_laws (ae_roles en)" "users_ok (db_users (ap_db ap))"
    and "\<not> ae_flt en ''User.Count''" "ap_users ap \<noteq> []"
    and "rm_RoleLabel (ae_roles en) (Itoa (tb_next (db_users (ap_db ap)))) (ap_roles ap) \<noteq> Some ''admin''"
  shows "{u \<in> set (ap_users (fst (Register en isEmail body r ap))). is_admin (ae_roles en) (fst (Register en isEmail body r ap)) u}
      = {u \<in> set (ap_users ap). is_admin (ae_roles en) ap u} \<and>
    (open_registration en ap \<or> fst (Register en isEmail body r ap) = ap)"
proof (cases "register_check en isEmail body ap")
  case (Inl w)
  then show ?thesis by (simp add: Register_def)
next
  case (Inr ur)
  obtain user role where ur: "ur = (user, role)" by fastforce
  have role: "role = ''viewer''" "open_registration en ap"
    using register_check_role[of en isEmail body ap user role] Inr ur assms(3,4)
    by (auto simp: register_role_def User_Count_def split: if_splits)
  obtain ap' res where c: "createUserAndAssignRole en user role ap = (ap', res)" by fastforce
  note rows = createUser_rows[OF c assms(1,2)]
  let ?k = "tb_next (db_users (ap_db ap))"
  have k: "us_ID v \<noteq> ?k" if "v \<in> set (ap_users ap)" for v
    using that assms(2) by (auto simp: users_ok_def tb_wf_def list_all_iff)
  have "{u \<in> set (ap_users ap'). is_admin (ae_roles en) ap' u} = {u \<in> set (ap_users ap). is_admin (ae_roles en) ap u}"
    using rows(1,2,4) rows(3) k assms(5) role(1) unfolding is_admin_def by auto
  moreover have "ap_users (fst (Register en isEmail body r ap)) = ap_users ap' \<and>
      is_admin (ae_roles en) (fst (Register en isEmail body r ap)) = is_admin (ae_roles en) ap'"
    using Inr ur c by (auto simp: Register_def register_act_def fun_eq_iff split: option.splits)
  ultimately show ?thesis using role(2) by simp
qed

text \<open>
  A failing count makes an administrator: the handler ignores the error of counting the users and
  takes the result for zero. With registration closed and administrators present, a request that
  arrives while only that statement fails is answered 201 and its user is an administrator.
\<close>

theorem count_failure_registers_admin:
  assumes "ae_flt en = (\<lambda>c. c = ''User.Count'')" "role_laws (ae_roles en)"
    and "ValidateStruct isEmail (register_fields req) = None" "ae_hash en (rr_Password req) = Some h"
    and "\<forall>u \<in> set (ap_users ap). us_Username u \<notin> {rr_Username req, rr_Email req} \<and> us_Email u \<notin> {rr_Username req, rr_Email req}"
    and "\<And>u ro g. snd (rm_AssignRole (ae_roles en) u ro g)"
  shows "\<exists>ap' w. Register en isEmail (Some req) r ap = (ap', w) \<and> ht_Status w = 201 \<and>
    (\<exists>u \<in> set (ap_users ap'). us_Username u = rr_Username req \<and> is_admin (ae_roles en) ap' u)"
proof -
  let ?u = "\<lparr>us_ID = 0, us_Name = rr_Name req, us_Username = rr_Username req, us_Email = rr_Email req,
    us_PasswordHash = h, us_Active = False, us_MustChangePassword = False, us_LastLoginAt = None\<rparr>"
  let ?k = "tb_next (db_users (ap_db ap))"
  have g: "GetByUsernameOrEmail (ae_flt en) s (ap_db ap) = Inl RecordNotFound" if "s \<in> {rr_Username req, rr_Email req}" for s
  proof -
    have "tb_First (\<lambda>u. us_Username u = s \<or> us_Email u = s) (db_users (ap_db ap)) = None"
      using that assms(5) by (auto simp: tb_First_None)
    then show ?thesis by (simp add: GetByUsernameOrEmail_def read_first_def assms(1))
  qed
  have chk: "register_check en isEmail (Some req) ap = Inr (?u, ''admin'')"
    using g assms(3,4) by (simp add: register_check_def register_role_def User_Count_def assms(1))
  have "user_clash ?u (ap_users ap) = None"
    using assms(5) by (auto simp: user_clash_def list_ex_iff)
  then have c: "User_Create_repo (ae_flt en) ?u (ap_db ap) =
      (set_users (tb_Create set_us_ID (?u\<lparr>us_Active := True\<rparr>) (db_users (ap_db ap))) (ap_db ap), None)"
    by (simp add: User_Create_repo_def assms(1))
  obtain gg where a: "rm_AssignRole (ae_roles en) (Itoa ?k) ''admin'' (ap_roles ap) = (gg, True)"
    using assms(6)[of "Itoa ?k" "''admin''" "ap_roles ap"] by (metis prod.collapse)
  then have lab: "rm_RoleLabel (ae_roles en) (Itoa ?k) gg = Some ''admin''" using assms(2) by (simp add: role_laws_def)
  let ?x = "?u\<lparr>us_ID := ?k, us_Active := True\<rparr>"
  have "?x \<in> set (tb_rows (tb_Create set_us_ID (?u\<lparr>us_Active := True\<rparr>) (db_users (ap_db ap))))"
    by (simp add: tb_Create_def set_us_ID_def)
  with chk c a lab show ?thesis
    by (simp add: Register_def register_act_def createUserAndAssignRole_def created_user_def is_admin_def
        del: set_tb_Create) (rule bexI[of _ ?x], simp_all)
qed

text \<open>
  The bootstrap of the first administrator is not protected by its mutex: the lock is released
  before the user is created, so when two registrations decide before either creates its user, both
  are told they are the first, and both become administrators.
\<close>

theorem concurrent_first_registrations:
  assumes "register_check en isEmail (Some reqA) ap = Inr (userA, roleA)"
    and "register_check en isEmail (Some reqB) ap = Inr (userB, roleB)"
    and "ap_users ap = []" "\<not> ae_flt en ''User.Create''" "role_laws (ae_roles en)"
    and "us_Username userA \<noteq> us_Username userB" "us_Email userA \<noteq> us_Email userB"
    and "\<And>u ro g. snd (rm_AssignRole (ae_roles en) u ro g)"
  shows "length (filter (is_admin (ae_roles en) (fst (register_act en rB userB roleB (fst (register_act en rA userA roleA ap)))))
      (ap_users (fst (register_act en rB userB roleB (fst (register_act en rA userA roleA ap)))))) = 2"
proof -
  have roles: "roleA = ''admin''" "roleB = ''admin''"
    using register_check_role[OF assms(1)] register_check_role[OF assms(2)] assms(3)
    by (auto simp: register_role_def User_Count_def split: if_splits)
  let ?t = "db_users (ap_db ap)" and ?k = "tb_next (db_users (ap_db ap))"
  define dbA where "dbA = set_users (tb_Create set_us_ID (userA\<lparr>us_Active := True\<rparr>) ?t) (ap_db ap)"
  obtain gA where gA: "rm_AssignRole (ae_roles en) (Itoa ?k) ''admin'' (ap_roles ap) = (gA, True)"
    using assms(8)[of "Itoa ?k" "''admin''" "ap_roles ap"] by (metis prod.collapse)
  obtain gB where gB: "rm_AssignRole (ae_roles en) (Itoa (?k + 1)) ''admin'' gA = (gB, True)"
    using assms(8)[of "Itoa (?k + 1)" "''admin''" gA] by (metis prod.collapse)
  define apA where "apA = fst (register_act en rA userA roleA ap)"
  have "user_clash userA [] = None" by (simp add: user_clash_def)
  then have A: "ap_db apA = dbA" "ap_roles apA = gA"
    using assms(3,4) gA
    by (simp_all add: apA_def register_act_def createUserAndAssignRole_def User_Create_repo_def created_user_def roles dbA_def)
  have rowsA: "tb_rows (db_users dbA) = [userA\<lparr>us_ID := ?k, us_Active := True\<rparr>]" "tb_next (db_users dbA) = ?k + 1"
    using assms(3) by (simp_all add: dbA_def tb_Create_def set_us_ID_def)
  have "user_clash userB (tb_rows (db_users dbA)) = None"
    using assms(6,7) by (simp add: user_clash_def rowsA)
  then have B: "ap_users (fst (register_act en rB userB roleB apA)) =
      [userA\<lparr>us_ID := ?k, us_Active := True\<rparr>, userB\<lparr>us_ID := ?k + 1, us_Active := True\<rparr>]"
    "ap_roles (fst (register_act en rB userB roleB apA)) = gB"
    using assms(4) gB A rowsA
    by (simp_all add: register_act_def createUserAndAssignRole_def User_Create_repo_def created_user_def roles
        tb_Create_def set_us_ID_def)
  have n: "Itoa ?k \<noteq> Itoa (?k + 1)" using Itoa_inj[of ?k "?k + 1"] by auto
  have "rm_RoleLabel (ae_roles en) (Itoa ?k) gB = Some ''admin''" "rm_RoleLabel (ae_roles en) (Itoa (?k + 1)) gB = Some ''admin''"
    using gA gB n assms(5) by (simp_all add: role_laws_def)
  with B show ?thesis by (simp add: apA_def[symmetric] is_admin_def)
qed

section \<open>Passwords and tokens\<close>

lemma ChangePassword_success:
  assumes "ChangePassword en (Some req) r ap = (ap', w)" "ht_Status w = 200"
  obtains n user h db1 where "GetUserIDAsUint r = Some n"
    "User_GetByID_repo (ae_flt en) (as_int n) (ap_db ap) = Ok user"
    "ae_compare en (us_PasswordHash user) (cr_CurrentPassword req)" "cr_NewPassword req \<noteq> []"
    "ae_hash en (cr_NewPassword req) = Some h"
    "UpdatePassword (ae_flt en) (as_int n) h (ap_db ap) = (db1, None)"
    "ap_db ap' = fst (User_Update_repo (ae_flt en) (user\<lparr>us_PasswordHash := h, us_MustChangePassword := False\<rparr>) db1)"
    "ap_roles ap' = ap_roles ap"
proof -
  obtain n where n: "GetUserIDAsUint r = Some n"
    using assms by (cases "GetUserIDAsUint r") (auto simp: ChangePassword_def)
  have f: "cr_CurrentPassword req \<noteq> []" "cr_NewPassword req \<noteq> []" "\<not> length (cr_NewPassword req) < 8"
    using assms n by (auto simp: ChangePassword_def split: if_splits)
  obtain user where u: "User_GetByID_repo (ae_flt en) (as_int n) (ap_db ap) = Inr user"
    using assms n f by (cases "User_GetByID_repo (ae_flt en) (as_int n) (ap_db ap)") (auto simp: ChangePassword_def)
  have p: "ae_compare en (us_PasswordHash user) (cr_CurrentPassword req)"
    using assms n f u by (auto simp: ChangePassword_def split: if_splits)
  obtain h where h: "ae_hash en (cr_NewPassword req) = Some h"
    using assms n f u p by (cases "ae_hash en (cr_NewPassword req)") (auto simp: ChangePassword_def)
  obtain db1 e where d: "UpdatePassword (ae_flt en) (as_int n) h (ap_db ap) = (db1, e)" by fastforce
  have "e = None" using assms n f u p h d by (cases e) (auto simp: ChangePassword_def)
  with that[OF n u p f(2) h] assms n f u p h d show ?thesis by (auto simp: ChangePassword_def Let_def)
qed

lemma ChangePassword_hash:
  assumes "ChangePassword en (Some req) r ap = (ap', w)" "ht_Status w = 200"
    and "x \<in> set (ap_users ap')" "GetUserIDAsUint r = Some n" "us_ID x = as_int n"
  shows "ae_hash en (cr_NewPassword req) = Some (us_PasswordHash x)"
proof -
  obtain n' user h db1 where c: "GetUserIDAsUint r = Some n'" "ae_hash en (cr_NewPassword req) = Some h"
    "UpdatePassword (ae_flt en) (as_int n') h (ap_db ap) = (db1, None)"
    "ap_db ap' = fst (User_Update_repo (ae_flt en) (user\<lparr>us_PasswordHash := h, us_MustChangePassword := False\<rparr>) db1)"
    using ChangePassword_success[OF assms(1,2)] by metis
  let ?u = "user\<lparr>us_PasswordHash := h, us_MustChangePassword := False\<rparr>"
  have n: "n' = n" using c(1) assms(4) by simp
  have h1: "us_PasswordHash y = h" if "y \<in> set (tb_rows (db_users db1))" "us_ID y = as_int n" for y
    using that c(3) n by (auto simp: UpdatePassword_def split: if_splits)
  have "\<exists>y \<in> set (tb_rows (db_users db1)). us_ID y = us_ID x \<and> us_PasswordHash y = us_PasswordHash x"
    using assms(3) unfolding c(4) by (auto simp: User_Update_repo_def split: if_splits)
  with h1 assms(5) c(2) show ?thesis by auto
qed


text \<open>
  Deactivating a user does not end the user's sessions: refreshing reads neither the account nor
  its flag, so a refresh token that was good before an administrator deactivated the user gives new
  tokens afterwards, with the very same answer.
\<close>

theorem deactivation_keeps_tokens:
  assumes "User_Update en i inp ac ap = (ap', Ok (u, role))" "\<not> uu_Active inp"
    and "loadAppUser en i ap = Ok (u0, uu_Role inp)"
  shows "\<not> us_Active u \<and> snd (RefreshToken tm body ap') = snd (RefreshToken tm body ap)"
proof -
  have "\<not> us_Active u \<and> ap_roles ap' = ap_roles ap"
    using assms
    by (auto simp: User_Update_def Let_def split: if_splits option.splits prod.splits bool.splits)
  then show ?thesis by (simp add: RefreshToken_def split: option.split prod.split)
qed

section \<open>Demonstration\<close>

definition demo_tokens :: "(string \<Rightarrow> string option) token_manager" where
  "demo_tokens =
     \<lparr>tm_GenerateTokenPair = (\<lambda>u c g. (g, Some (''access'', ''refresh''))),
      tm_RefreshTokens = (\<lambda>t g. (g, if t = ''refresh'' then Some (''access2'', ''refresh2'') else None)),
      tm_RevokeAccessToken = (\<lambda>t g. g), tm_RevokeRefreshToken = (\<lambda>t g. g), tm_Permissions = (\<lambda>u g. [])\<rparr>"

definition demo_register :: RegisterRequest where
  "demo_register = \<lparr>rr_Name = ''Eve'', rr_Username = ''eve'', rr_Email = ''eve@example.com'', rr_Password = ''12345678''\<rparr>"

theorem count_failure_registers_admin_witness:
  "\<exists>ap' w. Register (demo_aenv\<lparr>ae_flt := \<lambda>c. c = ''User.Count''\<rparr>) (\<lambda>_. True) (Some demo_register) (demo_http [] []) demo_app = (ap', w) \<and>
    ht_Status w = 201 \<and> (\<exists>u \<in> set (ap_users ap'). us_Username u = ''eve'' \<and> is_admin demo_roles ap' u)"
proof -
  let ?en = "demo_aenv\<lparr>ae_flt := \<lambda>c. c = ''User.Count''\<rparr>"
  have "ValidateStruct (\<lambda>_. True) (register_fields demo_register) = None" by code_simp
  moreover have "ae_hash ?en (rr_Password demo_register) = Some ''h:12345678''"
    by (simp add: demo_aenv_def demo_register_def)
  moreover have "\<forall>u \<in> set (ap_users demo_app). us_Username u \<notin> {rr_Username demo_register, rr_Email demo_register} \<and>
      us_Email u \<notin> {rr_Username demo_register, rr_Email demo_register}"
    by (simp add: demo_app_users demo_user_def demo_bob_def demo_register_def)
  ultimately show ?thesis
    using count_failure_registers_admin[of ?en "\<lambda>_. True" demo_register "''h:12345678''" demo_app "demo_http [] []"]
      demo_role_laws by (simp add: demo_roles_def demo_register_def)
qed

theorem registration_adds_no_admin_witness:
  "{u \<in> set (ap_users (fst (Register demo_aenv (\<lambda>_. True) (Some demo_register) (demo_http [] []) demo_app))).
      is_admin demo_roles (fst (Register demo_aenv (\<lambda>_. True) (Some demo_register) (demo_http [] []) demo_app)) u}
    = {u \<in> set (ap_users demo_app). is_admin demo_roles demo_app u} \<and>
   (open_registration demo_aenv demo_app \<or>
    fst (Register demo_aenv (\<lambda>_. True) (Some demo_register) (demo_http [] []) demo_app) = demo_app)"
proof -
  have k: "tb_next (db_users (ap_db demo_app)) = 3" by (simp add: demo_app_def demo_astore_def)
  have l: "rm_RoleLabel demo_roles ''3'' (ap_roles demo_app) \<noteq> Some ''admin''" by (simp add: demo_roles_def demo_app_def)
  show ?thesis
    using registration_adds_no_admin[of demo_aenv demo_app "\<lambda>_. True" "Some demo_register" "demo_http [] []"]
      demo_role_laws demo_app_ok k l by (simp add: demo_app_users no_faults_def db_ok_def)
qed

definition demo_fresh :: "(string \<Rightarrow> string option) app" where
  "demo_fresh = set_acl ((db_acl (ap_db demo_app))\<lparr>st_users := empty_table\<rparr>) demo_app"

definition demo_checked :: "string \<Rightarrow> User" where
  "demo_checked name =
     \<lparr>us_ID = 0, us_Name = name, us_Username = name, us_Email = name @ ''@example.com'', us_PasswordHash = ''h:12345678'',
      us_Active = False, us_MustChangePassword = False, us_LastLoginAt = None\<rparr>"

definition demo_registration :: "string \<Rightarrow> RegisterRequest" where
  "demo_registration name =
     \<lparr>rr_Name = name, rr_Username = name, rr_Email = name @ ''@example.com'', rr_Password = ''12345678''\<rparr>"

theorem concurrent_first_registrations_witness:
  "register_check demo_aenv (\<lambda>_. True) (Some (demo_registration ''eve'')) demo_fresh = Inr (demo_checked ''eve'', ''admin'') \<and>
   register_check demo_aenv (\<lambda>_. True) (Some (demo_registration ''mallory'')) demo_fresh = Inr (demo_checked ''mallory'', ''admin'') \<and>
   (let ap2 = fst (register_act demo_aenv (demo_http [] []) (demo_checked ''mallory'') ''admin''
         (fst (register_act demo_aenv (demo_http [] []) (demo_checked ''eve'') ''admin'' demo_fresh)))
    in length (filter (is_admin demo_roles ap2) (ap_users ap2)) = 2)"
proof -
  have c: "register_check demo_aenv (\<lambda>_. True) (Some (demo_registration ''eve'')) demo_fresh = Inr (demo_checked ''eve'', ''admin'')"
    "register_check demo_aenv (\<lambda>_. True) (Some (demo_registration ''mallory'')) demo_fresh = Inr (demo_checked ''mallory'', ''admin'')"
    by (code_simp, code_simp)
  have "ap_users demo_fresh = []" by (simp add: demo_fresh_def)
  moreover have "snd (rm_AssignRole demo_roles u ro g)" for u ro g by (simp add: demo_roles_def)
  moreover have "us_Username (demo_checked ''eve'') \<noteq> us_Username (demo_checked ''mallory'')"
    "us_Email (demo_checked ''eve'') \<noteq> us_Email (demo_checked ''mallory'')" by (simp_all add: demo_checked_def)
  ultimately show ?thesis
    using concurrent_first_registrations[OF c] c demo_role_laws by (simp add: no_faults_def Let_def)
qed

definition demo_self :: http_request where "demo_self = (demo_http [] [])\<lparr>hq_UserID := ''2''\<rparr>"

definition demo_new_password :: ChangePasswordRequest where
  "demo_new_password = \<lparr>cr_CurrentPassword = ''pw'', cr_NewPassword = ''correct horse''\<rparr>"

definition demo_own_app :: "(string \<Rightarrow> string option) app" where
  "demo_own_app =
     set_acl ((db_acl (ap_db demo_app))\<lparr>st_users :=
       \<lparr>tb_rows = [demo_user, demo_bob\<lparr>us_PasswordHash := ''h:pw''\<rparr>], tb_next = 3\<rparr>\<rparr>) demo_app"

definition demo_changed :: "(string \<Rightarrow> string option) app \<times> auth_payload http_response" where
  "demo_changed = ChangePassword demo_aenv (Some demo_new_password) demo_self demo_own_app"

lemma demo_self_id: "GetUserIDAsUint demo_self = Some 2" "as_int 2 = 2"
  by (simp_all add: GetUserIDAsUint_def demo_self_def ParseUint_def is_digit_def decimal_def as_int_def wrap64_def)

lemma demo_changed_self:
  "ht_Status (snd demo_changed) = 200"
  "ap_users (fst demo_changed) = [demo_user, demo_bob\<lparr>us_PasswordHash := ''h:correct horse''\<rparr>]"
proof -
  have u: "User_GetByID_repo no_faults 2 (ap_db demo_own_app) = Inr (demo_bob\<lparr>us_PasswordHash := ''h:pw''\<rparr>)"
    by (simp add: User_GetByID_repo_def read_first_def tb_First_def demo_own_app_def no_faults_def)
       (simp add: demo_user_def demo_bob_def)
  have h: "ae_hash demo_aenv p = Some (''h:'' @ p)" for p by (simp add: demo_aenv_def)
  have rows: "ap_users demo_own_app = [demo_user, demo_bob\<lparr>us_PasswordHash := ''h:pw''\<rparr>]" by (simp add: demo_own_app_def)
  have ids: "us_ID demo_user = 1" "us_ID demo_bob = 2" "us_Email demo_user \<noteq> us_Email demo_bob"
    "us_MustChangePassword demo_bob = False" by (simp_all add: demo_user_def demo_bob_def)
  show "ht_Status (snd demo_changed) = 200"
    "ap_users (fst demo_changed) = [demo_user, demo_bob\<lparr>us_PasswordHash := ''h:correct horse''\<rparr>]"
    by (simp_all add: demo_changed_def ChangePassword_def demo_self_id u h demo_new_password_def UpdatePassword_def
        User_Update_repo_def Let_def rows ids)
       (simp_all add: no_faults_def rows ids demo_bob_def)
qed


definition demo_off :: UpdateUserInput where
  "demo_off = \<lparr>uu_Name = ''Bob'', uu_Email = ''bob@example.com'', uu_Role = ''admin'', uu_Active = False\<rparr>"

theorem deactivation_keeps_tokens_witness:
  "\<exists>ap' u. User_Update demo_aenv 2 demo_off (demo_actor 1) demo_app = (ap', Ok (u, ''admin'')) \<and> \<not> us_Active u \<and>
    snd (RefreshToken demo_tokens (Some ''refresh'') ap') = snd (RefreshToken demo_tokens (Some ''refresh'') demo_app)"
proof -
  have l: "loadAppUser demo_aenv 2 demo_app = Ok (demo_bob, uu_Role demo_off)" by code_simp
  have "snd (User_Update demo_aenv 2 demo_off (demo_actor 1) demo_app) = Ok (demo_bob\<lparr>us_Active := False\<rparr>, ''admin'')"
    by code_simp
  then have u: "User_Update demo_aenv 2 demo_off (demo_actor 1) demo_app =
      (fst (User_Update demo_aenv 2 demo_off (demo_actor 1) demo_app), Ok (demo_bob\<lparr>us_Active := False\<rparr>, ''admin''))"
    by (simp only: prod_eq_iff fst_conv snd_conv)
  have "\<not> uu_Active demo_off" by (simp add: demo_off_def)
  from deactivation_keeps_tokens[OF u this l] u show ?thesis by blast
qed

end
