(* ===== verification/Oauth_Handler.thy ===== *)
theory Oauth_Handler
  imports Acl_Http Caddy_Build
begin

text \<open>
  \<open>backend/internal/auth/oauth_providers.go\<close> and \<open>backend/internal/api/handlers/oauth_handler.go\<close>:
  logging in to protected sites with an account at Google, GitHub, Microsoft or GitLab. The providers
  and the library \<open>oauth2\<close> are parameters: the authorization URL, the exchange of a code for a token,
  the two user-information requests; so are SHA-256, the process environment and \<open>net/url\<close>'s
  rendering of a URL with the query parameter \<open>oauth_error\<close> added.
\<close>

section \<open>Providers\<close>

record OAuthProvider =
  op_ID :: string
  op_Name :: string
  op_ClientID :: string
  op_ClientSecret :: string
  op_Enabled :: bool
  op_AuthURL :: string
  op_TokenURL :: string
  op_UserInfoURL :: string
  op_Scopes :: "string list"
  op_BaseURL :: string
  op_TenantID :: string

record OAuthProviderPublic =
  pp_ID :: string
  pp_Name :: string
  pp_Available :: bool
  pp_Enabled :: bool
  pp_AuthURL :: string

definition AllOAuthProviders :: "string list" where
  "AllOAuthProviders = [''google'', ''github'', ''microsoft'', ''gitlab'']"

definition ToPublic :: "OAuthProvider \<Rightarrow> OAuthProviderPublic" where
  "ToPublic p =
     \<lparr>pp_ID = op_ID p, pp_Name = op_Name p, pp_Available = op_Enabled p, pp_Enabled = False,
      pp_AuthURL = op_AuthURL p\<rparr>"

definition loadGoogleProvider :: "(string \<Rightarrow> string) \<Rightarrow> OAuthProvider" where
  "loadGoogleProvider getenv =
     (let clientID = getenv ''GOOGLE_CLIENT_ID''; clientSecret = getenv ''GOOGLE_CLIENT_SECRET'' in
      \<lparr>op_ID = ''google'', op_Name = ''Google'', op_ClientID = clientID, op_ClientSecret = clientSecret,
       op_Enabled = (clientID \<noteq> [] \<and> clientSecret \<noteq> []),
       op_AuthURL = ''https://accounts.google.com/o/oauth2/v2/auth'',
       op_TokenURL = ''https://oauth2.googleapis.com/token'',
       op_UserInfoURL = ''https://www.googleapis.com/oauth2/v2/userinfo'',
       op_Scopes = [''openid'', ''email'', ''profile''], op_BaseURL = [], op_TenantID = []\<rparr>)"

definition loadGitHubProvider :: "(string \<Rightarrow> string) \<Rightarrow> OAuthProvider" where
  "loadGitHubProvider getenv =
     (let clientID = getenv ''GITHUB_CLIENT_ID''; clientSecret = getenv ''GITHUB_CLIENT_SECRET'' in
      \<lparr>op_ID = ''github'', op_Name = ''GitHub'', op_ClientID = clientID, op_ClientSecret = clientSecret,
       op_Enabled = (clientID \<noteq> [] \<and> clientSecret \<noteq> []),
       op_AuthURL = ''https://github.com/login/oauth/authorize'',
       op_TokenURL = ''https://github.com/login/oauth/access_token'',
       op_UserInfoURL = ''https://api.github.com/user'',
       op_Scopes = [''read:user'', ''user:email''], op_BaseURL = [], op_TenantID = []\<rparr>)"

definition loadMicrosoftProvider :: "(string \<Rightarrow> string) \<Rightarrow> OAuthProvider" where
  "loadMicrosoftProvider getenv =
     (let clientID = getenv ''MICROSOFT_CLIENT_ID''; clientSecret = getenv ''MICROSOFT_CLIENT_SECRET'';
          tenantID = first_of (getenv ''MICROSOFT_TENANT_ID'') ''common'' in
      \<lparr>op_ID = ''microsoft'', op_Name = ''Microsoft'', op_ClientID = clientID, op_ClientSecret = clientSecret,
       op_Enabled = (clientID \<noteq> [] \<and> clientSecret \<noteq> []),
       op_AuthURL = ''https://login.microsoftonline.com/'' @ tenantID @ ''/oauth2/v2.0/authorize'',
       op_TokenURL = ''https://login.microsoftonline.com/'' @ tenantID @ ''/oauth2/v2.0/token'',
       op_UserInfoURL = ''https://graph.microsoft.com/v1.0/me'',
       op_Scopes = [''openid'', ''email'', ''profile'', ''User.Read''], op_BaseURL = [], op_TenantID = tenantID\<rparr>)"

definition loadGitLabProvider :: "(string \<Rightarrow> string) \<Rightarrow> OAuthProvider" where
  "loadGitLabProvider getenv =
     (let clientID = getenv ''GITLAB_CLIENT_ID''; clientSecret = getenv ''GITLAB_CLIENT_SECRET'';
          baseURL = TrimSuffix (first_of (getenv ''GITLAB_BASE_URL'') ''https://gitlab.com'') ''/'' in
      \<lparr>op_ID = ''gitlab'', op_Name = ''GitLab'', op_ClientID = clientID, op_ClientSecret = clientSecret,
       op_Enabled = (clientID \<noteq> [] \<and> clientSecret \<noteq> []),
       op_AuthURL = baseURL @ ''/oauth/authorize'', op_TokenURL = baseURL @ ''/oauth/token'',
       op_UserInfoURL = baseURL @ ''/api/v4/user'',
       op_Scopes = [''openid'', ''read_user'', ''email''], op_BaseURL = baseURL, op_TenantID = []\<rparr>)"

text \<open>The manager's map, as the list of its values; \<open>Reload\<close> loads it again.\<close>

definition loadFromEnvironment :: "(string \<Rightarrow> string) \<Rightarrow> OAuthProvider list" where
  "loadFromEnvironment getenv =
     [loadGoogleProvider getenv, loadGitHubProvider getenv, loadMicrosoftProvider getenv, loadGitLabProvider getenv]"

definition GetProvider :: "OAuthProvider list \<Rightarrow> string \<Rightarrow> OAuthProvider option" where
  "GetProvider providers i = List.find (\<lambda>p. op_ID p = i) providers"

definition provider_IsAvailable :: "OAuthProvider list \<Rightarrow> string \<Rightarrow> bool" where
  "provider_IsAvailable providers i = (case GetProvider providers i of None \<Rightarrow> False | Some p \<Rightarrow> op_Enabled p)"

definition GetAvailableProviders :: "OAuthProvider list \<Rightarrow> OAuthProvider list" where
  "GetAvailableProviders providers = filter op_Enabled providers"

definition GetAllProvidersPublic :: "OAuthProvider list \<Rightarrow> OAuthProviderPublic list" where
  "GetAllProvidersPublic providers = map ToPublic providers"

definition GetAvailableProvidersPublic :: "OAuthProvider list \<Rightarrow> OAuthProviderPublic list" where
  "GetAvailableProvidersPublic providers = map ToPublic (GetAvailableProviders providers)"

definition HasEnabledProviders :: "OAuthProvider list \<Rightarrow> bool" where
  "HasEnabledProviders providers = list_ex op_Enabled providers"

definition ValidateProviderID :: "string \<Rightarrow> bool" where
  "ValidateProviderID i = List.member AllOAuthProviders i"

section \<open>Configuration and environment\<close>

record oauth_conf =
  oc_CookieSecure :: bool
  oc_SessionTTL :: int
  oc_CallbackBaseURL :: string

record OAuth2Config =
  o2_ClientID :: string
  o2_ClientSecret :: string
  o2_AuthURL :: string
  o2_TokenURL :: string
  o2_RedirectURL :: string
  o2_Scopes :: "string list"

record GitHubEmail =
  ge_Email :: string
  ge_Primary :: bool
  ge_Verified :: bool

text \<open>
  A request to a provider fails (\<^term>\<open>None\<close>) or has a status and a body, which decodes or not.
\<close>

record oauth_env =
  oa_AuthCodeURL :: "OAuth2Config \<Rightarrow> string \<Rightarrow> string \<Rightarrow> string"
  oa_Exchange :: "OAuth2Config \<Rightarrow> string \<Rightarrow> string \<Rightarrow> string option"
  oa_UserInfo :: "OAuthProvider \<Rightarrow> string \<Rightarrow> (int \<times> JSONField option) option"
  oa_Emails :: "string \<Rightarrow> (int \<times> GitHubEmail list option) option"
  oa_Sum256 :: "string \<Rightarrow> nat list"
  oa_error_url :: "string \<Rightarrow> string \<Rightarrow> string"
  oa_eTLDPlusOne :: "string \<Rightarrow> string option"

section \<open>Redirects\<close>

text \<open>
  \<open>http.Redirect\<close>: a location without scheme and host is made absolute and cleaned, and bytes outside
  ASCII are escaped.
\<close>

definition hex_digit :: "nat \<Rightarrow> char" where
  "hex_digit n = ''0123456789abcdef'' ! n"

definition hexEscapeNonASCII :: "string \<Rightarrow> string" where
  "hexEscapeNonASCII s =
     concat (map (\<lambda>c. let n = of_char c :: nat in
       if 128 \<le> n then [CHR ''%'', hex_digit (n div 16), hex_digit (n mod 16)] else [c]) s)"

definition redirect_location :: "string \<Rightarrow> string \<Rightarrow> string" where
  "redirect_location oldpath0 url0 =
     hexEscapeNonASCII
       (case url_Parse url0 of
          None \<Rightarrow> url0
        | Some u \<Rightarrow>
            if url_Scheme u \<noteq> [] \<or> url_Host u \<noteq> [] then url0
            else
              let oldpath = first_of oldpath0 ''/'';
                  olddir = (case last_index_char CHR ''/'' oldpath of None \<Rightarrow> [] | Some i \<Rightarrow> take (Suc i) oldpath);
                  url1 = (if url0 = [] \<or> hd url0 \<noteq> CHR ''/'' then olddir @ url0 else url0);
                  k = (case index_char CHR ''?'' url1 of None \<Rightarrow> length url1 | Some i \<Rightarrow> i);
                  path = take k url1; query = drop k url1; cleaned = filepath_Clean path
              in (if HasSuffix path ''/'' \<and> \<not> HasSuffix cleaned ''/'' then cleaned @ ''/'' else cleaned) @ query)"

definition Redirect :: "http_request \<Rightarrow> string \<Rightarrow> int \<Rightarrow> 'd http_response" where
  "Redirect r target status = http_Redirect (redirect_location (hq_Path r) target) status"

definition validateRedirectURL :: "oauth_conf \<Rightarrow> faults \<Rightarrow> acl_store \<Rightarrow> string \<Rightarrow> string" where
  "validateRedirectURL cfg flt st redirectURL =
     (if redirectURL = [] then ''/''
      else if HasPrefix redirectURL ''/'' \<and> \<not> HasPrefix redirectURL ''//'' then redirectURL
      else case url_Parse redirectURL of
        None \<Rightarrow> ''/''
      | Some parsed \<Rightarrow>
          let scheme = ToLower (url_Scheme parsed) in
          if scheme \<noteq> ''http'' \<and> scheme \<noteq> ''https'' then ''/''
          else if oc_CallbackBaseURL cfg \<noteq> [] \<and>
              (case url_Parse (oc_CallbackBaseURL cfg) of None \<Rightarrow> False | Some b \<Rightarrow> url_Host parsed = url_Host b)
            then redirectURL
          else case Proxy_GetByHostname flt (URL_Hostname parsed) st of
              Inr proxy \<Rightarrow> redirectURL
            | Inl e \<Rightarrow> ''/'')"

section \<open>State and PKCE\<close>

definition generateState :: "nat list option \<Rightarrow> string \<Rightarrow> string option" where
  "generateState rnd redirectURL =
     map_option (\<lambda>bs. EncodeToString bs @ ''|'' @ EncodeToString (bytes_of redirectURL)) rnd"

definition extractRedirectFromState :: "string \<Rightarrow> string" where
  "extractRedirectFromState state =
     (case index_char CHR ''|'' state of
        None \<Rightarrow> ''/''
      | Some i \<Rightarrow>
          (case base64_Decode base64_alphabet (drop (Suc i) state) of
             None \<Rightarrow> ''/''
           | Some decoded \<Rightarrow> decoded))"

definition generateCodeVerifier :: "nat list option \<Rightarrow> string option" where
  "generateCodeVerifier rnd = map_option RawEncodeToString rnd"

definition generateCodeChallenge :: "oauth_env \<Rightarrow> string \<Rightarrow> string" where
  "generateCodeChallenge oe verifier = RawEncodeToString (oa_Sum256 oe verifier)"

definition getCallbackURL :: "oauth_conf \<Rightarrow> string \<Rightarrow> string" where
  "getCallbackURL cfg providerID =
     TrimSuffix (first_of (oc_CallbackBaseURL cfg) ''http://localhost:8080'') ''/'' @
       ''/auth/oauth/'' @ providerID @ ''/callback''"

definition buildOAuth2Config :: "oauth_conf \<Rightarrow> OAuthProvider \<Rightarrow> OAuth2Config" where
  "buildOAuth2Config cfg p =
     \<lparr>o2_ClientID = op_ClientID p, o2_ClientSecret = op_ClientSecret p, o2_AuthURL = op_AuthURL p,
      o2_TokenURL = op_TokenURL p, o2_RedirectURL = getCallbackURL cfg (op_ID p), o2_Scopes = op_Scopes p\<rparr>"

section \<open>User information\<close>

record OAuthUserInfo =
  oi_ProviderID :: "json option"
  oi_Email :: string
  oi_Name :: string
  oi_Username :: string
  oi_AvatarURL :: string

definition getString :: "JSONField \<Rightarrow> string \<Rightarrow> string" where
  "getString data key = (case map_of data key of Some (JStr s) \<Rightarrow> s | _ \<Rightarrow> [])"

text \<open>The provider's own identifier is kept as the value it is rendered from; nothing reads it.\<close>

definition parseUserInfo :: "string \<Rightarrow> JSONField option \<Rightarrow> OAuthUserInfo option" where
  "parseUserInfo providerID body =
     (case body of
        None \<Rightarrow> None
      | Some raw \<Rightarrow>
          let info =
            (if providerID = ''google'' then
               Some \<lparr>oi_ProviderID = Some (JStr (getString raw ''id'')), oi_Email = getString raw ''email'',
                     oi_Name = getString raw ''name'', oi_Username = hd (Split CHR ''@'' (getString raw ''email'')),
                     oi_AvatarURL = getString raw ''picture''\<rparr>
             else if providerID = ''github'' then
               Some \<lparr>oi_ProviderID = map_of raw ''id'', oi_Email = getString raw ''email'',
                     oi_Name = getString raw ''name'', oi_Username = getString raw ''login'',
                     oi_AvatarURL = getString raw ''avatar_url''\<rparr>
             else if providerID = ''microsoft'' then
               let email = first_of (getString raw ''mail'') (getString raw ''userPrincipalName'') in
               Some \<lparr>oi_ProviderID = Some (JStr (getString raw ''id'')), oi_Email = email,
                     oi_Name = getString raw ''displayName'', oi_Username = hd (Split CHR ''@'' email),
                     oi_AvatarURL = []\<rparr>
             else if providerID = ''gitlab'' then
               Some \<lparr>oi_ProviderID = map_of raw ''id'', oi_Email = getString raw ''email'',
                     oi_Name = getString raw ''name'', oi_Username = getString raw ''username'',
                     oi_AvatarURL = getString raw ''avatar_url''\<rparr>
             else None)
          in case info of
            None \<Rightarrow> None
          | Some i \<Rightarrow>
              if oi_Email i = [] \<and> providerID \<noteq> ''github'' then None
              else
                let i1 = i\<lparr>oi_Name := first_of (oi_Name i) (oi_Username i)\<rparr> in
                Some (i1\<lparr>oi_Username := first_of (oi_Username i1) (hd (Split CHR ''@'' (oi_Email i1)))\<rparr>))"

definition fetchGitHubPrimaryEmail :: "oauth_env \<Rightarrow> string \<Rightarrow> string option" where
  "fetchGitHubPrimaryEmail oe token =
     (case oa_Emails oe token of
        Some (status, Some emails) \<Rightarrow>
          if status \<noteq> 200 then None
          else
            (case List.find (\<lambda>e. ge_Primary e \<and> ge_Verified e) emails of
               Some e \<Rightarrow> Some (ge_Email e)
             | None \<Rightarrow>
                 (case List.find ge_Verified emails of
                    Some e \<Rightarrow> Some (ge_Email e)
                  | None \<Rightarrow> (case emails of e # _ \<Rightarrow> Some (ge_Email e) | [] \<Rightarrow> None)))
      | _ \<Rightarrow> None)"

definition fetchUserInfo :: "oauth_env \<Rightarrow> OAuthProvider \<Rightarrow> string \<Rightarrow> OAuthUserInfo option" where
  "fetchUserInfo oe p token =
     (case oa_UserInfo oe p token of
        None \<Rightarrow> None
      | Some (status, body) \<Rightarrow>
          if status \<noteq> 200 then None
          else case parseUserInfo (op_ID p) body of
            None \<Rightarrow> None
          | Some info \<Rightarrow>
              if op_ID p = ''github'' \<and> oi_Email info = [] then
                (case fetchGitHubPrimaryEmail oe token of
                   None \<Rightarrow> Some (info\<lparr>oi_Email := oi_Username info @ ''@users.noreply.github.com''\<rparr>)
                 | Some email \<Rightarrow> Some (info\<lparr>oi_Email := email\<rparr>))
              else Some info)"

section \<open>Handlers\<close>

definition oauthStateCookieName :: string where "oauthStateCookieName = ''waygates_oauth_state''"
definition oauthPKCECookieName :: string where "oauthPKCECookieName = ''waygates_oauth_pkce''"
definition stateExpiration :: int where "stateExpiration = 600"

definition oauth_cookie :: "oauth_conf \<Rightarrow> string \<Rightarrow> string \<Rightarrow> int \<Rightarrow> Cookie" where
  "oauth_cookie cfg name value maxAge =
     \<lparr>ck_Name = name, ck_Value = value, ck_Path = ''/'', ck_Domain = [], ck_Expires = None, ck_MaxAge = maxAge,
      ck_HttpOnly = True, ck_Secure = oc_CookieSecure cfg, ck_SameSiteLax = True\<rparr>"

definition cleared_cookies :: "oauth_conf \<Rightarrow> Cookie list" where
  "cleared_cookies cfg = [oauth_cookie cfg oauthStateCookieName [] (-1), oauth_cookie cfg oauthPKCECookieName [] (-1)]"

definition ListProviders :: "OAuthProvider list \<Rightarrow> OAuthProviderPublic list http_response" where
  "ListProviders providers =
     Success (Some (map (\<lambda>p. p\<lparr>pp_Enabled := pp_Available p\<rparr>) (GetAvailableProvidersPublic providers))) []"

text \<open>The two random strings of \<open>StartOAuth\<close> are drawn one after the other.\<close>

definition StartOAuth ::
  "'g app_env \<Rightarrow> oauth_conf \<Rightarrow> oauth_env \<Rightarrow> OAuthProvider list \<Rightarrow> nat list option \<Rightarrow> nat list option \<Rightarrow> http_request \<Rightarrow> 'g app
    \<Rightarrow> acl_payload http_response" where
  "StartOAuth en cfg oe providers rnd1 rnd2 r ap =
     (let providerID = URLParam r ''provider'' in
      if \<not> ValidateProviderID providerID then http_Error ''Invalid OAuth provider'' 400
      else case GetProvider providers providerID of
        None \<Rightarrow> http_Error ''OAuth provider not configured or disabled'' 400
      | Some p \<Rightarrow>
          if \<not> op_Enabled p then http_Error ''OAuth provider not configured or disabled'' 400
          else
            let redirectURL = validateRedirectURL cfg (ae_flt en) (db_acl (ap_db ap)) (Query_Get r ''redirect'') in
            (case generateState rnd1 redirectURL of
               None \<Rightarrow> http_Error ''Internal server error'' 500
             | Some state \<Rightarrow>
                 let stateCookie = oauth_cookie cfg oauthStateCookieName state stateExpiration in
                 (case generateCodeVerifier rnd2 of
                    None \<Rightarrow> with_cookies [stateCookie] (http_Error ''Internal server error'' 500)
                  | Some verifier \<Rightarrow>
                      with_cookies [stateCookie, oauth_cookie cfg oauthPKCECookieName verifier stateExpiration]
                        (Redirect r (oa_AuthCodeURL oe (buildOAuth2Config cfg p) state
                           (generateCodeChallenge oe verifier)) 307))))"

definition handleOAuthError ::
  "'g app_env \<Rightarrow> oauth_conf \<Rightarrow> oauth_env \<Rightarrow> Cookie list \<Rightarrow> http_request \<Rightarrow> string \<Rightarrow> string \<Rightarrow> 'g app
    \<Rightarrow> 'g app \<times> acl_payload http_response" where
  "handleOAuthError en cfg oe cookies r message redirectURL0 ap =
     (let redirectURL = validateRedirectURL cfg (ae_flt en) (db_acl (ap_db ap)) redirectURL0;
          base = (if url_Parse redirectURL = None then ''/'' else redirectURL)
      in (ap, with_cookies (cookies @ cleared_cookies cfg) (Redirect r (oa_error_url oe message base) 307)))"

definition oauth_login_event :: "string \<Rightarrow> string \<Rightarrow> string \<Rightarrow> string \<Rightarrow> AuditEvent" where
  "oauth_login_event email providerID ip ua =
     \<lparr>ev_UserID = None, ev_Action = ''acl.oauth_login'', ev_ResourceType = ''acl_session'', ev_ResourceID = None,
      ev_ResourceName = email @ '' (OAuth:'' @ providerID @ '')'', ev_Details = [], ev_IPAddress = ip,
      ev_UserAgent = ua, ev_Status = ''success'', ev_ErrorMessage = []\<rparr>"

text \<open>The last part of \<open>Callback\<close>, once the provider has said who the user is.\<close>

definition oauth_session ::
  "'g app_env \<Rightarrow> oauth_conf \<Rightarrow> oauth_env \<Rightarrow> string \<Rightarrow> OAuthUserInfo \<Rightarrow> string \<Rightarrow> http_request \<Rightarrow> 'g app
    \<Rightarrow> 'g app \<times> acl_payload http_response" where
  "oauth_session en cfg oe providerID info redirectURL r ap =
     (let clientIP = getClientIP r; userAgent = UserAgent r;
          ttl = (if oc_SessionTTL cfg \<le> 0 then 86400 else oc_SessionTTL cfg) in
      case CreateSessionWithParams (ae_rand en) (ae_flt en) (ae_now en)
             \<lparr>cp_UserID = None, cp_ProxyID = None, cp_IP = clientIP, cp_UserAgent = userAgent, cp_TTL = ttl,
              cp_Email = oi_Email info, cp_Provider = providerID\<rparr> (db_acl (ap_db ap)) of
        (st, Inl e) \<Rightarrow>
          handleOAuthError en cfg oe (cleared_cookies cfg) r ''Failed to create session'' redirectURL (set_acl st ap)
      | (st, Inr session) \<Rightarrow>
          (audit en (oauth_login_event (oi_Email info) providerID clientIP userAgent) (set_acl st ap),
           with_cookies
             (cleared_cookies cfg @
              [acl_cookie (oc_CookieSecure cfg) (se_SessionToken session)
                 (extractCookieDomain (oa_eTLDPlusOne oe) redirectURL) (Some (se_ExpiresAt session)) 0])
             (Redirect r redirectURL 307)))"

definition Callback ::
  "'g app_env \<Rightarrow> oauth_conf \<Rightarrow> oauth_env \<Rightarrow> OAuthProvider list \<Rightarrow> http_request \<Rightarrow> 'g app
    \<Rightarrow> 'g app \<times> acl_payload http_response" where
  "Callback en cfg oe providers r ap =
     (let providerID = URLParam r ''provider''; fail = handleOAuthError en cfg oe in
      if \<not> ValidateProviderID providerID then fail [] r ''Invalid OAuth provider'' [] ap
      else case GetProvider providers providerID of
        None \<Rightarrow> fail [] r ''OAuth provider not configured or disabled'' [] ap
      | Some p \<Rightarrow>
          if \<not> op_Enabled p then fail [] r ''OAuth provider not configured or disabled'' [] ap
          else if Query_Get r ''error'' \<noteq> [] then fail [] r (''Authentication failed: '' @ Query_Get r ''error'') [] ap
          else if Query_Get r ''code'' = [] then fail [] r ''Missing authorization code'' [] ap
          else case request_Cookie r oauthStateCookieName of
            None \<Rightarrow> fail [] r ''Invalid or missing state'' [] ap
          | Some state \<Rightarrow>
              if state = [] then fail [] r ''Invalid or missing state'' [] ap
              else if Query_Get r ''state'' \<noteq> state then fail [] r ''State mismatch - possible CSRF attack'' [] ap
              else
                let redirectURL = validateRedirectURL cfg (ae_flt en) (db_acl (ap_db ap))
                                    (extractRedirectFromState (Query_Get r ''state'')) in
                (case request_Cookie r oauthPKCECookieName of
                   None \<Rightarrow> fail [] r ''Invalid or missing PKCE verifier'' redirectURL ap
                 | Some verifier \<Rightarrow>
                     if verifier = [] then fail [] r ''Invalid or missing PKCE verifier'' redirectURL ap
                     else case oa_Exchange oe (buildOAuth2Config cfg p) (Query_Get r ''code'') verifier of
                       None \<Rightarrow> fail (cleared_cookies cfg) r ''Failed to authenticate with provider'' redirectURL ap
                     | Some token \<Rightarrow>
                         (case fetchUserInfo oe p token of
                            None \<Rightarrow> fail (cleared_cookies cfg) r ''Failed to get user information'' redirectURL ap
                          | Some info \<Rightarrow> oauth_session en cfg oe providerID info redirectURL r ap)))"

end
