(* ===== verification/Oauth_Props.thy ===== *)
theory Oauth_Props
  imports Acl_Http Acl_Session_Props Oauth_Handler Acl_Http_Props
begin

text \<open>
  The base64 encodings of \<open>encoding/base64\<close> read back what they wrote, for the standard and the
  URL-safe alphabet; and with them the credentials of an \<open>Authorization\<close> header.
\<close>

fun encode_with :: "string \<Rightarrow> nat list \<Rightarrow> string" where
  "encode_with al [] = []"
| "encode_with al [a] = [al ! (a div 4), al ! (a mod 4 * 16), CHR ''='', CHR ''='']"
| "encode_with al [a, b] = [al ! (a div 4), al ! (a mod 4 * 16 + b div 16), al ! (b mod 16 * 4), CHR ''='']"
| "encode_with al (a # b # c # bs) =
     al ! (a div 4) # al ! (a mod 4 * 16 + b div 16) # al ! (b mod 16 * 4 + c div 64) # al ! (c mod 64)
       # encode_with al bs"

lemma EncodeToString_with: "EncodeToString bs = encode_with base64_alphabet bs"
  by (induction bs rule: EncodeToString.induct) (simp_all add: b64_def)

definition alphabet_ok :: "string \<Rightarrow> bool" where
  "alphabet_ok al \<longleftrightarrow>
     length al = 64 \<and> list_all (\<lambda>c. c \<noteq> CHR ''='' \<and> (of_char c :: nat) \<notin> {10, 13}) al \<and>
     list_all (\<lambda>n. sextet al (al ! n) = Some n) [0..<64]"

lemma alphabets_ok: "alphabet_ok std_alphabet" "alphabet_ok base64_alphabet"
  unfolding alphabet_ok_def by code_simp+

lemma alphabet_nth:
  assumes "alphabet_ok al" "n < 64"
  shows "sextet al (al ! n) = Some n" "al ! n \<noteq> CHR ''=''" "(of_char (al ! n) :: nat) \<notin> {10, 13}"
  using assms by (auto simp: alphabet_ok_def list_all_length)

lemma decode_encode:
  assumes "alphabet_ok al" "\<forall>b \<in> set bs. b < 256"
  shows "decode_groups al (encode_with al bs) = Some bs"
  using assms(2)
proof (induction bs rule: EncodeToString.induct)
  case (2 a)
  then show ?case using sextets[of a 0 0] by (simp add: alphabet_nth[OF assms(1)])
next
  case (3 a b)
  then show ?case using sextets[of a b 0] by (simp add: alphabet_nth[OF assms(1)])
next
  case (4 a b c bs)
  then show ?case using sextets[of a b c] by (simp add: alphabet_nth[OF assms(1)])
qed simp

lemma encode_chars:
  assumes "length al = 64" "\<forall>b \<in> set bs. b < 256"
  shows "set (encode_with al bs) \<subseteq> insert CHR ''='' (set al)"
  using assms(2)
proof (induction bs rule: EncodeToString.induct)
  case (2 a)
  then show ?case using sextets[of a 0 0] assms(1) by simp
next
  case (3 a b)
  then show ?case using sextets[of a b 0] assms(1) by simp
next
  case (4 a b c bs)
  then show ?case using sextets[of a b c] assms(1) by simp
qed simp

lemma encode_no_breaks:
  assumes "alphabet_ok al" "\<forall>b \<in> set bs. b < 256" "c \<in> set (encode_with al bs)"
  shows "(of_char c :: nat) \<notin> {10, 13}"
proof -
  have "c = CHR ''='' \<or> c \<in> set al" using encode_chars[of al bs] assms by (auto simp: alphabet_ok_def)
  moreover have "\<forall>c \<in> set al. (of_char c :: nat) \<notin> {10, 13}"
    using assms(1) by (simp add: alphabet_ok_def list_all_iff)
  ultimately show ?thesis by (elim disjE) (simp, blast)
qed

lemma base64_roundtrip:
  assumes "alphabet_ok al"
  shows "base64_Decode al (encode_with al (bytes_of s)) = Some s"
proof -
  have b: "\<forall>b \<in> set (bytes_of s). b < 256" by (auto simp: bytes_of_def)
  have "filter (\<lambda>c. (of_char c :: nat) \<notin> {10, 13}) (encode_with al (bytes_of s)) = encode_with al (bytes_of s)"
    using encode_no_breaks[OF assms b] by (simp add: filter_id_conv)
  then show ?thesis
    using decode_encode[OF assms b] by (simp only: base64_Decode_def) (simp add: bytes_of_def comp_def)
qed

text \<open>
  The credentials a client sends are the ones the endpoint checks: for every user name without a
  colon and every password, the header built from their standard base64 encoding is read back as
  exactly these two.
\<close>

definition basic_header :: "string \<Rightarrow> string \<Rightarrow> string" where
  "basic_header user password = ''Basic '' @ encode_with std_alphabet (bytes_of (user @ '':'' @ password))"

theorem parseBasicAuth_roundtrip:
  assumes "CHR '':'' \<notin> set user"
  shows "parseBasicAuth (basic_header user password) = Some \<lparr>bc_Username = user, bc_Password = password\<rparr>"
proof -
  let ?e = "encode_with std_alphabet (bytes_of (user @ '':'' @ password))"
  have t: "TrimPrefix (basic_header user password) ''Basic '' = ?e"
    by (simp add: basic_header_def TrimPrefix_def HasPrefix_def)
  have "takeWhile (\<lambda>d. d \<noteq> CHR '':'') (user @ '':'' @ password) = user"
    using assms by (subst takeWhile_append2) auto
  then have "index_char CHR '':'' (user @ '':'' @ password) = Some (length user)"
    by (simp add: index_char_def)
  moreover have "?e \<noteq> basic_header user password" by (simp add: basic_header_def)
  ultimately show ?thesis
    using base64_roundtrip[OF alphabets_ok(1), of "user @ '':'' @ password"] by (simp add: parseBasicAuth_def t)
qed

theorem parseBasicAuth_roundtrip_witness:
  "parseBasicAuth (basic_header ''alice'' ''a:b'') = Some \<lparr>bc_Username = ''alice'', bc_Password = ''a:b''\<rparr>"
  by (rule parseBasicAuth_roundtrip) simp

text \<open>
  The OAuth login: where a session can come from, where the user can be sent afterwards, and that the
  state parameter carries the redirect unharmed.
\<close>

section \<open>State\<close>

lemma EncodeToString_no_bar: "\<forall>b \<in> set bs. b < 256 \<Longrightarrow> CHR ''|'' \<notin> set (EncodeToString bs)"
proof -
  assume b: "\<forall>b \<in> set bs. b < 256"
  have "CHR ''|'' \<notin> set base64_alphabet" "length base64_alphabet = 64" by (simp_all add: base64_alphabet_def)
  then show ?thesis using encode_chars[of base64_alphabet bs] b by (auto simp: EncodeToString_with)
qed

lemma extract_state:
  assumes "\<forall>b \<in> set bs. b < 256"
  shows "extractRedirectFromState (EncodeToString bs @ CHR ''|'' # EncodeToString (bytes_of target)) = target"
proof -
  let ?r = "EncodeToString bs" and ?e = "EncodeToString (bytes_of target)"
  define state where s: "state = ?r @ CHR ''|'' # ?e"
  have "takeWhile (\<lambda>d. d \<noteq> CHR ''|'') state = ?r"
    using EncodeToString_no_bar[OF assms] unfolding s by (subst takeWhile_append2) auto
  then have "index_char CHR ''|'' state = Some (length ?r)" by (simp add: index_char_def) (simp add: s)
  then show ?thesis
    using base64_roundtrip[OF alphabets_ok(2), of target]
    by (simp add: extractRedirectFromState_def s EncodeToString_with)
qed

section \<open>Redirects\<close>

definition allowed_target :: "oauth_conf \<Rightarrow> acl_store \<Rightarrow> string \<Rightarrow> bool" where
  "allowed_target cfg st u \<longleftrightarrow>
     HasPrefix u ''/'' \<and> \<not> HasPrefix u ''//'' \<or>
     (\<exists>parsed. url_Parse u = Some parsed \<and> ToLower (url_Scheme parsed) \<in> {''http'', ''https''} \<and>
        ((\<exists>b. url_Parse (oc_CallbackBaseURL cfg) = Some b \<and> oc_CallbackBaseURL cfg \<noteq> [] \<and> url_Host parsed = url_Host b) \<or>
         (\<exists>p \<in> set (tb_rows (st_proxies st)). px_Hostname p = URL_Hostname parsed)))"

lemma validateRedirectURL_allowed: "allowed_target cfg st (validateRedirectURL cfg flt st u)"
proof -
  have root: "allowed_target cfg st ''/''" by (simp add: allowed_target_def HasPrefix_def)
  show ?thesis
  proof (cases "u = [] \<or> HasPrefix u ''/'' \<and> \<not> HasPrefix u ''//''")
    case True
    then show ?thesis using root by (auto simp: validateRedirectURL_def) (auto simp: allowed_target_def)
  next
    case False
    show ?thesis
    proof (cases "url_Parse u")
      case None
      with False root show ?thesis by (auto simp: validateRedirectURL_def)
    next
      case (Some parsed)
      have "allowed_target cfg st u"
        if "ToLower (url_Scheme parsed) \<in> {''http'', ''https''}"
          "oc_CallbackBaseURL cfg \<noteq> [] \<and> (case url_Parse (oc_CallbackBaseURL cfg) of None \<Rightarrow> False | Some b \<Rightarrow> url_Host parsed = url_Host b)
           \<or> (\<exists>p. Proxy_GetByHostname flt (URL_Hostname parsed) st = Inr p)"
        using that Some
        by (auto simp: allowed_target_def Proxy_GetByHostname_def read_first_def split: option.splits if_splits
            dest: tb_First_Some)
      with False Some root show ?thesis
        by (auto simp: validateRedirectURL_def Let_def split: sum.splits)
    qed
  qed
qed

lemma validateRedirectURL_idem:
  "validateRedirectURL cfg flt st (validateRedirectURL cfg flt st u) = validateRedirectURL cfg flt st u"
proof -
  have "validateRedirectURL cfg flt st u \<in> {u, ''/''}"
    by (simp add: validateRedirectURL_def Let_def split: option.split sum.split)
  moreover have "validateRedirectURL cfg flt st ''/'' = ''/''" by (simp add: validateRedirectURL_def HasPrefix_def)
  ultimately show ?thesis by auto
qed

section \<open>The callback\<close>

lemma handleOAuthError_app [simp]: "fst (handleOAuthError en cfg oe cs r m u ap) = ap"
  by (simp add: handleOAuthError_def Let_def)

text \<open>Everything that must have happened before the callback reaches its last part.\<close>

definition callback_passed ::
  "oauth_conf \<Rightarrow> oauth_env \<Rightarrow> OAuthProvider list \<Rightarrow> http_request \<Rightarrow> OAuthProvider \<Rightarrow> string \<Rightarrow> OAuthUserInfo \<Rightarrow> bool" where
  "callback_passed cfg oe providers r p token info \<longleftrightarrow>
     GetProvider providers (URLParam r ''provider'') = Some p \<and> op_Enabled p \<and>
     request_Cookie r oauthStateCookieName = Some (Query_Get r ''state'') \<and> Query_Get r ''state'' \<noteq> [] \<and>
     (\<exists>verifier. request_Cookie r oauthPKCECookieName = Some verifier \<and> verifier \<noteq> [] \<and>
        oa_Exchange oe (buildOAuth2Config cfg p) (Query_Get r ''code'') verifier = Some token) \<and>
     fetchUserInfo oe p token = Some info"

definition refused ::
  "'g app_env \<Rightarrow> oauth_conf \<Rightarrow> oauth_env \<Rightarrow> http_request \<Rightarrow> 'g app \<Rightarrow> 'g app \<times> acl_payload http_response \<Rightarrow> bool" where
  "refused en cfg oe r ap x \<longleftrightarrow> (\<exists>cs m u. x = handleOAuthError en cfg oe cs r m u ap)"

lemma refused_error [simp]: "refused en cfg oe r ap (handleOAuthError en cfg oe cs r m u ap)"
  by (auto simp: refused_def)

lemma Callback_refused:
  assumes "\<nexists>p token info. callback_passed cfg oe providers r p token info"
  shows "refused en cfg oe r ap (Callback en cfg oe providers r ap)"
  using assms unfolding Callback_def Let_def callback_passed_def
  by (simp split: if_split option.split) fastforce

lemma Callback_cases:
  obtains "refused en cfg oe r ap (Callback en cfg oe providers r ap)"
  | p token info where "callback_passed cfg oe providers r p token info"
      "Callback en cfg oe providers r ap =
         oauth_session en cfg oe (URLParam r ''provider'') info
           (validateRedirectURL cfg (ae_flt en) (ap_acl ap) (extractRedirectFromState (Query_Get r ''state''))) r ap"
proof (cases "\<exists>p token info. callback_passed cfg oe providers r p token info")
  case True
  then obtain p token info where c: "callback_passed cfg oe providers r p token info" by blast
  then obtain v where v: "request_Cookie r oauthPKCECookieName = Some v" "v \<noteq> []"
    "oa_Exchange oe (buildOAuth2Config cfg p) (Query_Get r ''code'') v = Some token"
    by (auto simp: callback_passed_def)
  show ?thesis
  proof (cases "ValidateProviderID (URLParam r ''provider'') \<and> Query_Get r ''error'' = [] \<and> Query_Get r ''code'' \<noteq> []")
    case True
    then show ?thesis using that(2)[OF c] c v by (simp add: Callback_def Let_def callback_passed_def)
  next
    case False
    then have "refused en cfg oe r ap (Callback en cfg oe providers r ap)"
      using c unfolding Callback_def Let_def callback_passed_def by (simp split: if_split)
    then show ?thesis by (rule that(1))
  qed
qed (use Callback_refused that(1) in blast)

lemma oauth_session_store:
  "\<exists>res. CreateSessionWithParams (ae_rand en) (ae_flt en) (ae_now en)
     \<lparr>cp_UserID = None, cp_ProxyID = None, cp_IP = getClientIP r, cp_UserAgent = UserAgent r,
      cp_TTL = (if oc_SessionTTL cfg \<le> 0 then 86400 else oc_SessionTTL cfg),
      cp_Email = oi_Email info, cp_Provider = pid\<rparr> (ap_acl ap) =
    (ap_acl (fst (oauth_session en cfg oe pid info target r ap)), res)"
  by (simp add: oauth_session_def Let_def split: prod.split sum.split)

lemma CreateSessionWithParams_err:
  "CreateSessionWithParams rnd flt now ps st = (st', Inl e) \<Longrightarrow> st' = st"
  by (auto simp: CreateSessionWithParams_def CreateSession_repo_def Let_def split: option.splits if_splits)

lemma CreateSessionWithParams_identity:
  "CreateSessionWithParams rnd flt now ps st = (st', Inr s) \<Longrightarrow>
   se_Email s = non_empty (cp_Email ps) \<and> se_Provider s = non_empty (cp_Provider ps) \<and> se_UserID s = cp_UserID ps"
  by (auto simp: CreateSessionWithParams_def Let_def split: option.splits prod.splits)

text \<open>
  C14. A session comes only from a completed login: if the callback changes the session table, then
  the state cookie is not empty and equals the state parameter, the PKCE verifier of the same browser
  was accepted by an enabled provider for the code, and exactly one session is added, which carries
  the address that provider reported and the provider's name and belongs to no Waygates user.
\<close>

theorem oauth_session_provenance:
  assumes "tb_rows (st_sessions (ap_acl (fst (Callback en cfg oe providers r ap)))) \<noteq> tb_rows (st_sessions (ap_acl ap))"
  shows "\<exists>p token info s. callback_passed cfg oe providers r p token info \<and>
    tb_rows (st_sessions (ap_acl (fst (Callback en cfg oe providers r ap)))) = tb_rows (st_sessions (ap_acl ap)) @ [s] \<and>
    se_Email s = non_empty (oi_Email info) \<and> se_Provider s = non_empty (URLParam r ''provider'') \<and> se_UserID s = None"
proof (cases rule: Callback_cases[of en cfg oe r ap providers])
  case 1
  then have "fst (Callback en cfg oe providers r ap) = ap" by (auto simp: refused_def)
  with assms show ?thesis by simp
next
  case (2 p token info)
  let ?u = "validateRedirectURL cfg (ae_flt en) (ap_acl ap) (extractRedirectFromState (Query_Get r ''state''))"
  obtain res where res: "CreateSessionWithParams (ae_rand en) (ae_flt en) (ae_now en)
     \<lparr>cp_UserID = None, cp_ProxyID = None, cp_IP = getClientIP r, cp_UserAgent = UserAgent r,
      cp_TTL = (if oc_SessionTTL cfg \<le> 0 then 86400 else oc_SessionTTL cfg),
      cp_Email = oi_Email info, cp_Provider = URLParam r ''provider''\<rparr> (ap_acl ap) =
    (ap_acl (fst (Callback en cfg oe providers r ap)), res)"
    using oauth_session_store[of en r cfg info "URLParam r ''provider''" ap oe ?u] 2(2) by metis
  show ?thesis
  proof (cases res)
    case (Inl e)
    with res assms CreateSessionWithParams_err show ?thesis by metis
  next
    case (Inr s)
    note c = CreateSession_success(4)[OF res[unfolded Inr]] CreateSessionWithParams_identity[OF res[unfolded Inr]]
    from 2(1) c show ?thesis by (intro exI[of _ p] exI[of _ token] exI[of _ info] exI[of _ s]) simp
  qed
qed

text \<open>
  C15. A user is sent where the user wanted to go, and nowhere else: after a login that was started
  with a given redirect, the callback redirects to that target if it is a path of this site, an
  address of the configured callback host or of a proxy, and to the root otherwise.
\<close>

theorem oauth_redirect_target:
  assumes "generateState (Some bs) (validateRedirectURL cfg (ae_flt en) (ap_acl ap) target) = Some state"
    and "\<forall>b \<in> set bs. b < 256" "Query_Get r ''state'' = state"
    and "tb_rows (st_sessions (ap_acl (fst (Callback en cfg oe providers r ap)))) \<noteq> tb_rows (st_sessions (ap_acl ap))"
  shows "allowed_target cfg (ap_acl ap) (validateRedirectURL cfg (ae_flt en) (ap_acl ap) target) \<and>
    (\<exists>cs. snd (Callback en cfg oe providers r ap) =
       with_cookies cs (Redirect r (validateRedirectURL cfg (ae_flt en) (ap_acl ap) target) 307))"
proof (cases rule: Callback_cases[of en cfg oe r ap providers])
  case 1
  then have "fst (Callback en cfg oe providers r ap) = ap" by (auto simp: refused_def)
  with assms(4) show ?thesis by simp
next
  case (2 p token info)
  let ?u = "validateRedirectURL cfg (ae_flt en) (ap_acl ap) target"
  have "EncodeToString bs @ CHR ''|'' # EncodeToString (bytes_of ?u) = state" using assms(1) by (simp add: generateState_def)
  then have e: "validateRedirectURL cfg (ae_flt en) (ap_acl ap) (extractRedirectFromState state) = ?u"
    using extract_state[OF assms(2), of ?u] validateRedirectURL_idem[of cfg "ae_flt en" "ap_acl ap" target] by simp
  define cr where "cr = CreateSessionWithParams (ae_rand en) (ae_flt en) (ae_now en)
     \<lparr>cp_UserID = None, cp_ProxyID = None, cp_IP = getClientIP r, cp_UserAgent = UserAgent r,
      cp_TTL = (if oc_SessionTTL cfg \<le> 0 then 86400 else oc_SessionTTL cfg),
      cp_Email = oi_Email info, cp_Provider = URLParam r ''provider''\<rparr> (ap_acl ap)"
  obtain st res where cr: "cr = (st, res)" by fastforce
  have "res = Inl x \<Longrightarrow> False" for x
    using assms(4) 2(2) CreateSessionWithParams_err[of _ _ _ _ "ap_acl ap" st x] cr
    by (auto simp: oauth_session_def Let_def cr_def[symmetric]) (auto simp: cr_def)
  then obtain s where "res = Inr s" by (cases res) auto
  with 2(2) cr assms(3) e validateRedirectURL_allowed[of cfg "ap_acl ap" "ae_flt en" target] show ?thesis
    by (auto simp: oauth_session_def Let_def cr_def[symmetric])
qed

section \<open>Where the code falls short\<close>

lemma ascii_kept: "list_all (\<lambda>c. (of_char c :: nat) < 128) s \<Longrightarrow> hexEscapeNonASCII s = s"
  by (induction s) (auto simp: hexEscapeNonASCII_def)

text \<open>
  The redirect check can be passed with an address of another site: a target that starts with a
  slash and a backslash counts as a path of this site and is sent to the browser unchanged as the
  location, and browsers read the backslash as a second slash, so what follows is a host name.
\<close>

theorem backslash_redirect_accepted:
  assumes "CHR ''/'' \<notin> set s" "CHR ''?'' \<notin> set s" "list_all (\<lambda>c. (of_char c :: nat) < 128) s"
  shows "validateRedirectURL cfg flt st (CHR ''/'' # CHR 0x5C # s) = CHR ''/'' # CHR 0x5C # s \<and>
    ht_Headers (Redirect r (CHR ''/'' # CHR 0x5C # s) 307 :: 'd http_response) = [(''Location'', CHR ''/'' # CHR 0x5C # s)]"
proof -
  let ?t = "CHR ''/'' # CHR 0x5C # s"
  have v: "validateRedirectURL cfg flt st ?t = ?t" by (simp add: validateRedirectURL_def HasPrefix_def)
  have sp: "Split CHR ''/'' s = [s]" using assms(1) by (rule Split_literal)
  have cl: "filepath_Clean ?t = ?t" by (simp add: filepath_Clean_def sp HasPrefix_def)
  have q: "index_char CHR ''?'' ?t = None" using assms(2) by (simp add: index_char_def)
  have "\<not> HasSuffix ?t ''/''" using assms(1) by (auto simp: HasSuffix_iff Cons_eq_append_conv)
  then have l: "redirect_location (hq_Path r) ?t = ?t"
    using assms(3) by (simp add: redirect_location_def q cl ascii_kept split: option.split)
  with v show ?thesis by (simp add: Redirect_def http_Redirect_def with_headers_def WriteHeader_def)
qed

theorem backslash_redirect_accepted_witness:
  "validateRedirectURL \<lparr>oc_CookieSecure = True, oc_SessionTTL = 0, oc_CallbackBaseURL = []\<rparr> no_faults demo_store
     (CHR ''/'' # CHR 0x5C # ''evil.example'') = CHR ''/'' # CHR 0x5C # ''evil.example'' \<and>
   ht_Headers (Redirect (demo_http [] []) (CHR ''/'' # CHR 0x5C # ''evil.example'') 307 :: acl_payload http_response) =
     [(''Location'', CHR ''/'' # CHR 0x5C # ''evil.example'')]"
  by (rule backslash_redirect_accepted) simp_all

text \<open>
  An address nobody verified is good enough at GitHub: when the account shows no address and has no
  verified one, the first address of the account is taken as the identity of the session.
\<close>

lemma github_unverified_email:
  assumes "op_ID p = ''github''" "oa_UserInfo oe p token = Some (200, Some raw)" "getString raw ''email'' = []"
    and "oa_Emails oe token = Some (200, Some (e # es))" "\<forall>x \<in> set (e # es). \<not> ge_Verified x"
  shows "\<exists>info. fetchUserInfo oe p token = Some info \<and> oi_Email info = ge_Email e"
proof -
  have "List.find (\<lambda>e. ge_Primary e \<and> ge_Verified e) (e # es) = None" "List.find ge_Verified (e # es) = None"
    using assms(5) by (auto simp: find_None_iff)
  then have "fetchGitHubPrimaryEmail oe token = Some (ge_Email e)"
    using assms(4) by (simp only: fetchGitHubPrimaryEmail_def) simp
  then show ?thesis using assms(1-3) by (simp add: fetchUserInfo_def parseUserInfo_def Let_def)
qed

section \<open>Demonstration\<close>

definition demo_oconf :: oauth_conf where
  "demo_oconf = \<lparr>oc_CookieSecure = True, oc_SessionTTL = 3600, oc_CallbackBaseURL = ''https://auth.example.com''\<rparr>"

definition demo_oenv :: oauth_env where
  "demo_oenv =
     \<lparr>oa_AuthCodeURL = (\<lambda>c s ch. o2_AuthURL c @ ''?state='' @ s), oa_Exchange = (\<lambda>c code v. Some ''token''),
      oa_UserInfo = (\<lambda>p t. Some (200, Some [(''email'', JStr ''eve@example.com''), (''name'', JStr ''Eve'')])),
      oa_Emails = (\<lambda>t. None), oa_Sum256 = (\<lambda>s. replicate 32 1), oa_error_url = (\<lambda>m u. u),
      oa_eTLDPlusOne = (\<lambda>_. Some ''example.com'')\<rparr>"

definition demo_providers :: "OAuthProvider list" where
  "demo_providers = loadFromEnvironment (\<lambda>v. if HasPrefix v ''GOOGLE'' then ''x'' else [])"

definition demo_state :: string where
  "demo_state = EncodeToString [1, 2, 250] @ ''|'' @ EncodeToString (bytes_of ''https://app.example.com/x'')"

definition demo_callback :: http_request where
  "demo_callback =
     (demo_http [] [(''waygates_oauth_state'', demo_state), (''waygates_oauth_pkce'', ''verifier'')])
       \<lparr>hq_Params := [(''provider'', ''google'')], hq_Query := [(''code'', ''c''), (''state'', demo_state)]\<rparr>"

lemma demo_callback_session:
  "tb_rows (st_sessions (ap_acl (fst (Callback demo_aenv demo_oconf demo_oenv demo_providers demo_callback demo_app)))) \<noteq>
   tb_rows (st_sessions (ap_acl demo_app))"
  by code_simp

theorem oauth_session_provenance_witness:
  "\<exists>p token info s. callback_passed demo_oconf demo_oenv demo_providers demo_callback p token info \<and>
    tb_rows (st_sessions (ap_acl (fst (Callback demo_aenv demo_oconf demo_oenv demo_providers demo_callback demo_app)))) =
      tb_rows (st_sessions (ap_acl demo_app)) @ [s] \<and>
    se_Email s = non_empty (oi_Email info) \<and> se_Provider s = non_empty (URLParam demo_callback ''provider'') \<and>
    se_UserID s = None"
  by (rule oauth_session_provenance[OF demo_callback_session])

theorem oauth_redirect_target_witness:
  "\<exists>cs. snd (Callback demo_aenv demo_oconf demo_oenv demo_providers demo_callback demo_app) =
     with_cookies cs (Redirect demo_callback ''https://app.example.com/x'' 307)"
proof -
  have v: "validateRedirectURL demo_oconf (ae_flt demo_aenv) (ap_acl demo_app) ''https://app.example.com/x'' =
      ''https://app.example.com/x''" by code_simp
  have g: "generateState (Some [1, 2, 250]) (validateRedirectURL demo_oconf (ae_flt demo_aenv) (ap_acl demo_app)
      ''https://app.example.com/x'') = Some demo_state"
    unfolding v by (simp add: generateState_def demo_state_def)
  have q: "Query_Get demo_callback ''state'' = demo_state" by (simp add: Query_Get_def demo_callback_def)
  show ?thesis
    using oauth_redirect_target[OF g _ q demo_callback_session] unfolding v by simp
qed

end
