(* ===== verification/Sso_Service.thy ===== *)
theory Sso_Service
  imports Auth_Handler Oauth_Handler
begin

text \<open>
  Single sign-on of the administration interface: \<open>backend/internal/service/sso_code_store.go\<close>,
  \<open>sso_config.go\<close> and \<open>sso_service.go\<close>. The OpenID Connect library is a parameter: discovery of a
  provider from its issuer, the authorization URL, the exchange of a code, the verification of an ID
  token and the user-information request; a provider is a value of an arbitrary type.
\<close>

section \<open>One-time codes\<close>

type_synonym token_pair = "string \<times> string"

type_synonym code_store = "string \<rightharpoonup> token_pair \<times> int"

definition code_ttl :: int where "code_ttl = 60 * second_ns"

definition pruneLocked :: "int \<Rightarrow> code_store \<Rightarrow> code_store" where
  "pruneLocked now entries =
     (\<lambda>k. case entries k of None \<Rightarrow> None | Some (pair, expiresAt) \<Rightarrow> if expiresAt < now then None else Some (pair, expiresAt))"

definition Issue :: "nat list option \<Rightarrow> int \<Rightarrow> token_pair \<Rightarrow> code_store \<Rightarrow> code_store \<times> string option" where
  "Issue rnd now pair entries =
     (case rnd of
        None \<Rightarrow> (entries, None)
      | Some bs \<Rightarrow>
          let code = RawEncodeToString bs in
          ((pruneLocked now entries)(code \<mapsto> (pair, now + code_ttl)), Some code))"

definition Consume :: "int \<Rightarrow> string \<Rightarrow> code_store \<Rightarrow> code_store \<times> token_pair option" where
  "Consume now code entries =
     (case entries code of
        None \<Rightarrow> (entries, None)
      | Some (pair, expiresAt) \<Rightarrow>
          (entries(code := None), if expiresAt < now then None else Some pair))"

section \<open>Configuration\<close>

record SSOConfig =
  sc_Enabled :: bool
  sc_Issuer :: string
  sc_ClientID :: string
  sc_ClientSecret :: string
  sc_AutoProvision :: bool
  sc_DefaultRole :: string
  sc_ButtonLabel :: string
  sc_BaseURL :: string

definition SettingSSOEnabled :: string where "SettingSSOEnabled = ''sso.enabled''"
definition SettingSSOOIDCIssuer :: string where "SettingSSOOIDCIssuer = ''sso.oidc_issuer''"
definition SettingSSOOIDCClientID :: string where "SettingSSOOIDCClientID = ''sso.oidc_client_id''"
definition SettingSSOAutoProvision :: string where "SettingSSOAutoProvision = ''sso.auto_provision''"
definition SettingSSODefaultRole :: string where "SettingSSODefaultRole = ''sso.default_role''"
definition SettingSSOButtonLabel :: string where "SettingSSOButtonLabel = ''sso.button_label''"
definition SettingSSOBaseURL :: string where "SettingSSOBaseURL = ''sso.base_url''"

definition LoadSSOConfig :: "faults \<Rightarrow> settings_table \<Rightarrow> SSOConfig" where
  "LoadSSOConfig flt t =
     \<lparr>sc_Enabled = (GetValue flt SettingSSOEnabled ''false'' t = ''true''),
      sc_Issuer = GetValue flt SettingSSOOIDCIssuer [] t,
      sc_ClientID = GetValue flt SettingSSOOIDCClientID [] t,
      sc_ClientSecret = GetValue flt SettingSSOOIDCClientSecret [] t,
      sc_AutoProvision = (GetValue flt SettingSSOAutoProvision ''false'' t = ''true''),
      sc_DefaultRole = GetValue flt SettingSSODefaultRole ''viewer'' t,
      sc_ButtonLabel = GetValue flt SettingSSOButtonLabel ''Sign in with SSO'' t,
      sc_BaseURL = GetValue flt SettingSSOBaseURL [] t\<rparr>"

section \<open>Claims\<close>

record idTokenClaims =
  ic_Email :: string
  ic_EmailVerified :: bool
  ic_Sub :: string
  ic_Name :: string

definition flexBool :: "json \<Rightarrow> bool" where
  "flexBool raw = (case raw of JBool b \<Rightarrow> b | JStr s \<Rightarrow> EqualFold s ''true'' | _ \<Rightarrow> False)"

text \<open>Decoding into the struct: an absent or null string is empty, one of another type is an error.\<close>

definition string_claim :: "JSONField \<Rightarrow> string \<Rightarrow> string option" where
  "string_claim m k =
     (case map_of m k of None \<Rightarrow> Some [] | Some JNull \<Rightarrow> Some [] | Some (JStr s) \<Rightarrow> Some s | _ \<Rightarrow> None)"

definition decode_claims :: "JSONField \<Rightarrow> idTokenClaims option" where
  "decode_claims m =
     (case (string_claim m ''email'', string_claim m ''sub'', string_claim m ''name'') of
        (Some email, Some sub, Some name) \<Rightarrow>
          Some \<lparr>ic_Email = email,
                ic_EmailVerified = (case map_of m ''email_verified'' of None \<Rightarrow> False | Some v \<Rightarrow> flexBool v),
                ic_Sub = sub, ic_Name = name\<rparr>
      | _ \<Rightarrow> None)"

definition mergeUserInfoClaims :: "idTokenClaims \<Rightarrow> idTokenClaims \<Rightarrow> idTokenClaims" where
  "mergeUserInfoClaims primary fallback =
     primary\<lparr>ic_Email := first_of (ic_Email primary) (ic_Email fallback),
             ic_EmailVerified := (ic_EmailVerified primary \<or> ic_EmailVerified fallback),
             ic_Name := first_of (ic_Name primary) (ic_Name fallback)\<rparr>"

section \<open>The service\<close>

datatype sso_error =
  ErrSSODisabled | ErrNoAccount | ErrAccountDisabled | ErrEmailUnverified | SSOError string

record 'p oidc_env =
  od_NewProvider :: "string \<Rightarrow> 'p option"
  od_AuthCodeURL :: "'p \<Rightarrow> SSOConfig \<Rightarrow> string \<Rightarrow> string \<Rightarrow> string \<Rightarrow> string option \<Rightarrow> string"
  od_Exchange :: "'p \<Rightarrow> SSOConfig \<Rightarrow> string \<Rightarrow> string \<Rightarrow> string \<Rightarrow> (string \<times> string option) option"
  od_VerifyID :: "'p \<Rightarrow> string \<Rightarrow> string \<Rightarrow> JSONField option"
  od_UserInfo :: "'p \<Rightarrow> string \<Rightarrow> (string \<times> JSONField) option"

record 'p sso_state =
  ss_codes :: code_store
  ss_provider :: "(string \<times> 'p) option"

definition Invalidate :: "'p sso_state \<Rightarrow> 'p sso_state" where
  "Invalidate s = s\<lparr>ss_provider := None\<rparr>"

definition sso_config :: "'g app_env \<Rightarrow> 'g app \<Rightarrow> SSOConfig" where
  "sso_config en ap = LoadSSOConfig (ae_flt en) (db_settings (ap_db ap))"

definition SSO_Enabled :: "'g app_env \<Rightarrow> 'g app \<Rightarrow> bool" where
  "SSO_Enabled en ap = sc_Enabled (sso_config en ap)"

definition ButtonLabel :: "'g app_env \<Rightarrow> 'g app \<Rightarrow> string" where
  "ButtonLabel en ap = first_of (TrimSpace (sc_ButtonLabel (sso_config en ap))) ''Sign in with SSO''"

definition LookupMethod :: "'g app_env \<Rightarrow> string \<Rightarrow> 'g app \<Rightarrow> string" where
  "LookupMethod en email ap =
     (if \<not> SSO_Enabled en ap then ''password''
      else case GetByEmail (ae_flt en) email (ap_db ap) of
        Inr u \<Rightarrow> if us_PasswordHash u = [] then ''sso'' else ''password''
      | Inl _ \<Rightarrow> ''password'')"

definition providerFor :: "'p oidc_env \<Rightarrow> SSOConfig \<Rightarrow> 'p sso_state \<Rightarrow> 'p sso_state \<times> 'p option" where
  "providerFor oe cfg s =
     (case ss_provider s of
        Some (issuer, p) \<Rightarrow>
          if issuer = sc_Issuer cfg then (s, Some p)
          else (case od_NewProvider oe (sc_Issuer cfg) of
                  None \<Rightarrow> (s, None)
                | Some q \<Rightarrow> (s\<lparr>ss_provider := Some (sc_Issuer cfg, q)\<rparr>, Some q))
      | None \<Rightarrow>
          (case od_NewProvider oe (sc_Issuer cfg) of
             None \<Rightarrow> (s, None)
           | Some q \<Rightarrow> (s\<lparr>ss_provider := Some (sc_Issuer cfg, q)\<rparr>, Some q)))"

definition SSO_AuthCodeURL ::
  "'g app_env \<Rightarrow> 'p oidc_env \<Rightarrow> string \<Rightarrow> string \<Rightarrow> string \<Rightarrow> string \<Rightarrow> 'g app \<Rightarrow> 'p sso_state \<Rightarrow> 'p sso_state \<times> (sso_error, string) result" where
  "SSO_AuthCodeURL en oe redirectURI state codeChallenge loginHint ap s =
     (let cfg = sso_config en ap in
      if \<not> sc_Enabled cfg then (s, Err ErrSSODisabled)
      else case providerFor oe cfg s of
        (s1, None) \<Rightarrow> (s1, Err (SSOError ''oidc discovery''))
      | (s1, Some p) \<Rightarrow>
          (s1, Ok (od_AuthCodeURL oe p cfg redirectURI state codeChallenge
                     (if loginHint = [] then None else Some loginHint))))"

text \<open>
  The search for a free name asks the database until it answers \<open>ErrRecordNotFound\<close>; a database that
  keeps failing is asked forever, which is the result \<^term>\<open>None\<close>.
\<close>

partial_function (option) unique_from :: "faults \<Rightarrow> app_db \<Rightarrow> string \<Rightarrow> nat \<Rightarrow> string \<Rightarrow> string option" where
  "unique_from flt db base i candidate =
     (if GetByUsernameOrEmail flt candidate db = Inl RecordNotFound then Some candidate
      else unique_from flt db base (Suc i) (base @ Itoa (int i)))"

definition uniqueUsername :: "faults \<Rightarrow> string \<Rightarrow> app_db \<Rightarrow> string option" where
  "uniqueUsername flt email db =
     (let base = (case index_char CHR ''@'' email of Some k \<Rightarrow> if 0 < k then take k email else email | None \<Rightarrow> email)
      in unique_from flt db base 1 base)"

text \<open>\<open>matchOrProvision\<close>; the outer \<^term>\<open>None\<close> is the search that does not end.\<close>

definition matchOrProvision ::
  "'g app_env \<Rightarrow> idTokenClaims \<Rightarrow> SSOConfig \<Rightarrow> 'g app \<Rightarrow> ('g app \<times> (sso_error, User) result) option" where
  "matchOrProvision en claims cfg ap =
     (if ic_Email claims = [] \<or> \<not> ic_EmailVerified claims then Some (ap, Err ErrEmailUnverified)
      else case GetByEmail (ae_flt en) (ic_Email claims) (ap_db ap) of
        Inr u \<Rightarrow> Some (ap, if us_Active u then Ok u else Err ErrAccountDisabled)
      | Inl e \<Rightarrow>
          if e \<noteq> RecordNotFound then Some (ap, Err (SSOError ''lookup user''))
          else if \<not> sc_AutoProvision cfg then Some (ap, Err ErrNoAccount)
          else case uniqueUsername (ae_flt en) (ic_Email claims) (ap_db ap) of
            None \<Rightarrow> None
          | Some username \<Rightarrow>
              let newUser = \<lparr>us_ID = 0, us_Name = first_of (ic_Name claims) (ic_Email claims), us_Username = username,
                             us_Email = ic_Email claims, us_PasswordHash = [], us_Active = True,
                             us_MustChangePassword = False, us_LastLoginAt = None\<rparr>
              in Some (case User_Create_repo (ae_flt en) newUser (ap_db ap) of
                   (db1, Some e) \<Rightarrow> (ap\<lparr>ap_db := db1\<rparr>, Err (SSOError ''create user''))
                 | (db1, None) \<Rightarrow>
                     let u = created_user (ap_db ap) newUser in
                     (case rm_AssignRole (ae_roles en) (Itoa (us_ID u)) (first_of (sc_DefaultRole cfg) ''viewer'') (ap_roles ap) of
                        (g, False) \<Rightarrow> (ap\<lparr>ap_db := db1, ap_roles := g\<rparr>, Err (SSOError ''assign role''))
                      | (g, True) \<Rightarrow> (ap\<lparr>ap_db := db1, ap_roles := g\<rparr>, Ok u))))"

definition sso_event :: "int option \<Rightarrow> string \<Rightarrow> JSONField \<Rightarrow> AuditEvent" where
  "sso_event uid status details =
     \<lparr>ev_UserID = uid, ev_Action = ''auth.sso_login'', ev_ResourceType = [], ev_ResourceID = None, ev_ResourceName = [],
      ev_Details = details, ev_IPAddress = [], ev_UserAgent = [], ev_Status = status, ev_ErrorMessage = []\<rparr>"

definition AuditLoginFailure :: "'g app_env \<Rightarrow> string \<Rightarrow> 'g app \<Rightarrow> 'g app" where
  "AuditLoginFailure en reason ap = audit en (sso_event None ''failure'' [(''reason'', JStr reason)]) ap"

definition mint :: "'g app_env \<Rightarrow> 'g token_manager \<Rightarrow> User \<Rightarrow> 'g app \<Rightarrow> 'g app \<times> (sso_error, token_pair) result" where
  "mint en tm user ap =
     (case tm_GenerateTokenPair tm (Itoa (us_ID user)) [(''username'', us_Username user), (''email'', us_Email user)] (ap_roles ap) of
        (g, None) \<Rightarrow> (ap\<lparr>ap_roles := g\<rparr>, Err (SSOError ''generate tokens''))
      | (g, Some pair) \<Rightarrow>
          let ap1 = ap\<lparr>ap_roles := g, ap_db := fst (UpdateLastLogin (ae_flt en) (us_ID user) (ae_now en) (ap_db ap))\<rparr> in
          (audit en (sso_event (Some (us_ID user)) ''success'' [(''email'', JStr (us_Email user))]) ap1, Ok pair))"

text \<open>The claims of \<open>CompleteLogin\<close>: those of the ID token, completed by the user information.\<close>

definition sso_claims :: "'p oidc_env \<Rightarrow> 'p \<Rightarrow> SSOConfig \<Rightarrow> string \<Rightarrow> string \<Rightarrow> (sso_error, idTokenClaims) result" where
  "sso_claims oe p cfg access rawID =
     (case (case od_VerifyID oe p (sc_ClientID cfg) rawID of None \<Rightarrow> None | Some m \<Rightarrow> decode_claims m) of
        None \<Rightarrow> Err (SSOError ''id token verify'')
      | Some claims \<Rightarrow>
          if ic_Email claims \<noteq> [] \<and> ic_EmailVerified claims then Ok claims
          else case od_UserInfo oe p access of
            None \<Rightarrow> Err (SSOError ''userinfo fetch'')
          | Some (subject, m) \<Rightarrow>
              if subject \<noteq> ic_Sub claims then Err (SSOError ''userinfo subject does not match id token subject'')
              else case decode_claims m of
                None \<Rightarrow> Err (SSOError ''userinfo claims'')
              | Some uc \<Rightarrow> Ok (mergeUserInfoClaims claims uc))"

definition CompleteLogin ::
  "'g app_env \<Rightarrow> 'g token_manager \<Rightarrow> 'p oidc_env \<Rightarrow> string \<Rightarrow> string \<Rightarrow> string \<Rightarrow> 'g app \<Rightarrow> 'p sso_state
    \<Rightarrow> ('g app \<times> 'p sso_state \<times> (sso_error, token_pair) result) option" where
  "CompleteLogin en tm oe redirectURI code codeVerifier ap s =
     (let cfg = sso_config en ap in
      if \<not> sc_Enabled cfg then Some (ap, s, Err ErrSSODisabled)
      else case providerFor oe cfg s of
        (s1, None) \<Rightarrow> Some (ap, s1, Err (SSOError ''oidc discovery''))
      | (s1, Some p) \<Rightarrow>
          (case od_Exchange oe p cfg redirectURI code codeVerifier of
             None \<Rightarrow> Some (ap, s1, Err (SSOError ''token exchange''))
           | Some (access, rawID) \<Rightarrow>
               if rawID = None \<or> rawID = Some [] then Some (ap, s1, Err (SSOError ''no id_token in token response''))
               else case sso_claims oe p cfg access (the rawID) of
                 Inl e \<Rightarrow> Some (ap, s1, Err e)
               | Inr claims \<Rightarrow>
                   (case matchOrProvision en claims cfg ap of
                      None \<Rightarrow> None
                    | Some (ap1, Inl e) \<Rightarrow> Some (ap1, s1, Err e)
                    | Some (ap1, Inr user) \<Rightarrow> (case mint en tm user ap1 of (ap2, res) \<Rightarrow> Some (ap2, s1, res)))))"

text \<open>
  \<open>backend/internal/api/handlers/sso_handler.go\<close>: the endpoints of single sign-on and of its
  configuration. Whether the connection to the backend itself uses TLS is an argument; a body that
  does not decode is \<^term>\<open>None\<close>.
\<close>

datatype sso_payload =
  StatusPayload bool string
| MethodPayload string
| PairPayload string string
| ConfigPayload SSOConfig bool string
| TestPayload bool string

type_synonym ('g, 'p) sso_result = "'g app \<times> 'p sso_state \<times> sso_payload http_response"

definition query_safe :: "char \<Rightarrow> bool" where
  "query_safe c \<longleftrightarrow> is_alnum c \<or> List.member ''-_.~'' c"

definition QueryEscape :: "string \<Rightarrow> string" where
  "QueryEscape s =
     concat (map (\<lambda>c. if query_safe c then [c]
       else if c = CHR '' '' then ''+''
       else let n = of_char c :: nat in
         [CHR ''%'', ''0123456789ABCDEF'' ! (n div 16), ''0123456789ABCDEF'' ! (n mod 16)]) s)"

definition generateOpaque :: "nat list option \<Rightarrow> string option" where
  "generateOpaque rnd = map_option RawEncodeToString rnd"

definition trimSlash :: "string \<Rightarrow> string" where
  "trimSlash s = TrimSuffix s ''/''"

definition redirectURI :: "'g app_env \<Rightarrow> bool \<Rightarrow> http_request \<Rightarrow> 'g app \<Rightarrow> string" where
  "redirectURI en tls r ap =
     (let base = GetValue (ae_flt en) SettingSSOBaseURL [] (db_settings (ap_db ap)) in
      if base \<noteq> [] then trimSlash base @ ''/api/auth/sso/callback''
      else
        let scheme = (if Header_Get r ''X-Forwarded-Proto'' \<noteq> [] then Header_Get r ''X-Forwarded-Proto''
                      else if \<not> tls then ''http'' else ''https'')
        in scheme @ ''://'' @ own_host r @ ''/api/auth/sso/callback'')"

definition setFlowCookie :: "bool \<Rightarrow> string \<Rightarrow> string \<Rightarrow> Cookie" where
  "setFlowCookie cookieSecure name value =
     \<lparr>ck_Name = name, ck_Value = value, ck_Path = ''/'', ck_Domain = [], ck_Expires = None, ck_MaxAge = stateExpiration,
      ck_HttpOnly = True, ck_Secure = cookieSecure, ck_SameSiteLax = True\<rparr>"

definition clearFlowCookie :: "bool \<Rightarrow> string \<Rightarrow> Cookie" where
  "clearFlowCookie cookieSecure name =
     \<lparr>ck_Name = name, ck_Value = [], ck_Path = ''/'', ck_Domain = [], ck_Expires = None, ck_MaxAge = -1,
      ck_HttpOnly = True, ck_Secure = cookieSecure, ck_SameSiteLax = True\<rparr>"

definition ssoErrorCode :: "sso_error \<Rightarrow> string" where
  "ssoErrorCode e =
     (case e of
        ErrNoAccount \<Rightarrow> ''no_account''
      | ErrAccountDisabled \<Rightarrow> ''disabled''
      | ErrEmailUnverified \<Rightarrow> ''email_unverified''
      | ErrSSODisabled \<Rightarrow> ''sso_disabled''
      | SSOError _ \<Rightarrow> ''sso_failed'')"

definition sso_fail :: "'g app_env \<Rightarrow> Cookie list \<Rightarrow> http_request \<Rightarrow> string \<Rightarrow> 'g app \<Rightarrow> 'p sso_state \<Rightarrow> ('g, 'p) sso_result" where
  "sso_fail en cookies r code ap s =
     (AuditLoginFailure en code ap, s, with_cookies cookies (Redirect r (''/login?sso_error='' @ code) 302))"

definition SSO_Status :: "'g app_env \<Rightarrow> 'g app \<Rightarrow> sso_payload http_response" where
  "SSO_Status en ap = Success (Some (StatusPayload (SSO_Enabled en ap) (ButtonLabel en ap))) []"

definition SSO_Lookup :: "'g app_env \<Rightarrow> string option \<Rightarrow> 'g app \<Rightarrow> sso_payload http_response" where
  "SSO_Lookup en body ap =
     (case body of
        None \<Rightarrow> BadRequest ''Invalid request body''
      | Some email \<Rightarrow> Success (Some (MethodPayload (LookupMethod en email ap))) [])"

definition SSO_Login ::
  "'g app_env \<Rightarrow> 'p oidc_env \<Rightarrow> oauth_env \<Rightarrow> bool \<Rightarrow> bool \<Rightarrow> nat list option \<Rightarrow> nat list option \<Rightarrow> http_request \<Rightarrow> 'g app
    \<Rightarrow> 'p sso_state \<Rightarrow> ('g, 'p) sso_result" where
  "SSO_Login en oe xe cookieSecure tls rnd1 rnd2 r ap s =
     (if \<not> SSO_Enabled en ap then (ap, s, http_Error ''404 page not found'' 404)
      else case generateOpaque rnd1 of
        None \<Rightarrow> sso_fail en [] r ''sso_failed'' ap s
      | Some state \<Rightarrow>
          (case generateCodeVerifier rnd2 of
             None \<Rightarrow> sso_fail en [] r ''sso_failed'' ap s
           | Some verifier \<Rightarrow>
               let cookies = [setFlowCookie cookieSecure oauthStateCookieName state,
                              setFlowCookie cookieSecure oauthPKCECookieName verifier] in
               (case SSO_AuthCodeURL en oe (redirectURI en tls r ap) state (generateCodeChallenge xe verifier)
                       (Query_Get r ''login_hint'') ap s of
                  (s1, Inl e) \<Rightarrow> sso_fail en cookies r ''sso_failed'' ap s1
                | (s1, Inr authURL) \<Rightarrow> (ap, s1, with_cookies cookies (Redirect r authURL 302)))))"

definition SSO_Callback ::
  "'g app_env \<Rightarrow> 'g token_manager \<Rightarrow> 'p oidc_env \<Rightarrow> bool \<Rightarrow> bool \<Rightarrow> nat list option \<Rightarrow> http_request \<Rightarrow> 'g app \<Rightarrow> 'p sso_state
    \<Rightarrow> ('g, 'p) sso_result option" where
  "SSO_Callback en tm oe cookieSecure tls rnd r ap s =
     (let state = (case request_Cookie r oauthStateCookieName of None \<Rightarrow> [] | Some v \<Rightarrow> v);
          verifier = (case request_Cookie r oauthPKCECookieName of None \<Rightarrow> [] | Some v \<Rightarrow> v);
          cleared = [clearFlowCookie cookieSecure oauthStateCookieName, clearFlowCookie cookieSecure oauthPKCECookieName]
      in if state = [] \<or> state \<noteq> Query_Get r ''state'' then Some (sso_fail en [] r ''state_mismatch'' ap s)
         else if verifier = [] then Some (sso_fail en [] r ''state_mismatch'' ap s)
         else case CompleteLogin en tm oe (redirectURI en tls r ap) (Query_Get r ''code'') verifier ap s of
           None \<Rightarrow> None
         | Some (ap1, s1, Inl e) \<Rightarrow> Some (sso_fail en cleared r (ssoErrorCode e) ap1 s1)
         | Some (ap1, s1, Inr pair) \<Rightarrow>
             (case Issue rnd (ae_now en) pair (ss_codes s1) of
                (codes, None) \<Rightarrow> Some (sso_fail en cleared r ''sso_failed'' ap1 (s1\<lparr>ss_codes := codes\<rparr>))
              | (codes, Some code) \<Rightarrow>
                  Some (ap1, s1\<lparr>ss_codes := codes\<rparr>,
                        with_cookies cleared (Redirect r (''/auth/sso/callback?code='' @ QueryEscape code) 302))))"

definition SSO_Exchange :: "'g app_env \<Rightarrow> string option \<Rightarrow> 'p sso_state \<Rightarrow> 'p sso_state \<times> sso_payload http_response" where
  "SSO_Exchange en body s =
     (case body of
        None \<Rightarrow> (s, BadRequest ''Invalid request body'')
      | Some code \<Rightarrow>
          if code = [] then (s, BadRequest ''Invalid request body'')
          else case Consume (ae_now en) code (ss_codes s) of
            (codes, None) \<Rightarrow> (s\<lparr>ss_codes := codes\<rparr>, Unauthorized ''Invalid or expired code'')
          | (codes, Some (access, refresh)) \<Rightarrow>
              (s\<lparr>ss_codes := codes\<rparr>, Success (Some (PairPayload access refresh)) ''Login successful''))"

section \<open>Configuration\<close>

text \<open>The answer has no field for the secret: it is blank in the configuration that is sent.\<close>

definition SSO_GetConfig :: "'g app_env \<Rightarrow> bool \<Rightarrow> http_request \<Rightarrow> 'g app \<Rightarrow> sso_payload http_response" where
  "SSO_GetConfig en tls r ap =
     (let get = (\<lambda>k d. GetValue (ae_flt en) k d (db_settings (ap_db ap))) in
      Success (Some (ConfigPayload
        \<lparr>sc_Enabled = (get SettingSSOEnabled ''false'' = ''true''), sc_Issuer = get SettingSSOOIDCIssuer [],
         sc_ClientID = get SettingSSOOIDCClientID [], sc_ClientSecret = [],
         sc_AutoProvision = (get SettingSSOAutoProvision ''false'' = ''true''), sc_DefaultRole = get SettingSSODefaultRole [],
         sc_ButtonLabel = get SettingSSOButtonLabel [], sc_BaseURL = get SettingSSOBaseURL []\<rparr>
        (get SettingSSOOIDCClientSecret [] \<noteq> []) (redirectURI en tls r ap))) [])"

definition boolStr :: "bool \<Rightarrow> string" where
  "boolStr b = (if b then ''true'' else ''false'')"

definition sso_sets :: "SSOConfig \<Rightarrow> (string \<times> string) list" where
  "sso_sets body =
     [(SettingSSOEnabled, boolStr (sc_Enabled body)), (SettingSSOOIDCIssuer, sc_Issuer body),
      (SettingSSOOIDCClientID, sc_ClientID body), (SettingSSOAutoProvision, boolStr (sc_AutoProvision body)),
      (SettingSSODefaultRole, sc_DefaultRole body), (SettingSSOButtonLabel, sc_ButtonLabel body),
      (SettingSSOBaseURL, sc_BaseURL body)] @
     (if sc_ClientSecret body \<noteq> [] then [(SettingSSOOIDCClientSecret, sc_ClientSecret body)] else [])"

definition SSO_UpdateConfig ::
  "'g app_env \<Rightarrow> bool \<Rightarrow> SSOConfig option \<Rightarrow> http_request \<Rightarrow> 'g app \<Rightarrow> 'p sso_state \<Rightarrow> ('g, 'p) sso_result" where
  "SSO_UpdateConfig en tls body r ap s =
     (case body of
        None \<Rightarrow> (ap, s, BadRequest ''Invalid request body'')
      | Some b \<Rightarrow>
          (case Set_all (ae_flt en) (sso_sets b) (db_settings (ap_db ap)) of
             (t, Some e) \<Rightarrow> (ap\<lparr>ap_db := (ap_db ap)\<lparr>db_settings := t\<rparr>\<rparr>, s, InternalError ''Failed to save SSO configuration'')
           | (t, None) \<Rightarrow>
               let ap1 = ap\<lparr>ap_db := (ap_db ap)\<lparr>db_settings := t\<rparr>\<rparr> in
               (ap1, Invalidate s, SSO_GetConfig en tls r ap1)))"

definition SSO_Test :: "'g app_env \<Rightarrow> 'p oidc_env \<Rightarrow> string option \<Rightarrow> 'g app \<Rightarrow> sso_payload http_response" where
  "SSO_Test en oe body ap =
     (case body of
        None \<Rightarrow> BadRequest ''Invalid request body''
      | Some given \<Rightarrow>
          let issuer = first_of (TrimSpace given) (GetValue (ae_flt en) SettingSSOOIDCIssuer [] (db_settings (ap_db ap))) in
          if issuer = [] then Success (Some (TestPayload False ''no issuer configured'')) []
          else case od_NewProvider oe issuer of
            None \<Rightarrow> Success (Some (TestPayload False ''discovery failed'')) []
          | Some p \<Rightarrow> Success (Some (TestPayload True [])) [])"

end
