(* ===== verification/Sso_Props.thy ===== *)
theory Sso_Props
  imports Sso_Service Auth_Props
begin

text \<open>
  Single sign-on: a one-time code pays once, the search for a user name ends when the database
  answers, tokens go to active accounts only, and what the merging of claims lets through.
\<close>

section \<open>One-time codes\<close>

text \<open>The requests that reach the store, in any order.\<close>

datatype code_op =
  DoIssue "nat list" token_pair int
| DoConsume string int

text \<open>The outcomes of the requests for one code, in order.\<close>

fun redeemed :: "string \<Rightarrow> code_op list \<Rightarrow> code_store \<Rightarrow> token_pair list" where
  "redeemed c [] st = []"
| "redeemed c (DoIssue bs pair now # ops) st = redeemed c ops (fst (Issue (Some bs) now pair st))"
| "redeemed c (DoConsume code now # ops) st =
     (case Consume now code st of
        (st', Some pair) \<Rightarrow> (if code = c then [pair] else []) @ redeemed c ops st'
      | (st', None) \<Rightarrow> redeemed c ops st')"

lemma Issue_other: "RawEncodeToString bs \<noteq> c \<Longrightarrow> fst (Issue (Some bs) now pair st) c \<in> {None, st c}"
  by (auto simp: Issue_def Let_def pruneLocked_def split: option.splits)

lemma Consume_other: "fst (Consume now code st) c = (if code = c then None else st c)"
  by (auto simp: Consume_def split: option.splits)

lemma redeemed_gone:
  "st c = None \<Longrightarrow> \<forall>bs p n. DoIssue bs p n \<in> set ops \<longrightarrow> RawEncodeToString bs \<noteq> c \<Longrightarrow> redeemed c ops st = []"
proof (induction c ops st rule: redeemed.induct)
  case (2 c bs pair now ops st)
  have "RawEncodeToString bs \<noteq> c" using 2(3) by (metis list.set_intros(1))
  then have "fst (Issue (Some bs) now pair st) c = None" using Issue_other[of bs c now pair st] 2(2) by auto
  then have "redeemed c ops (fst (Issue (Some bs) now pair st)) = []"
    using 2(1,3) by (metis list.set_intros(2))
  then show ?case by simp
next
  case (3 c code now ops st)
  obtain st' res where r: "Consume now code st = (st', res)" by fastforce
  then have "st' c = None" using Consume_other[of now code st c] 3(3) by (auto split: if_splits)
  with 3 r show ?case by (cases res) (auto simp: Consume_def split: option.splits)
qed simp


section \<open>Names\<close>

lemma GetByUsernameOrEmail_free:
  "GetByUsernameOrEmail flt c db = Inl RecordNotFound \<longleftrightarrow>
     \<not> flt ''User.GetByUsernameOrEmail'' \<and> (\<forall>u \<in> set (tb_rows (db_users db)). us_Username u \<noteq> c \<and> us_Email u \<noteq> c)"
  by (auto simp: GetByUsernameOrEmail_def read_first_def tb_First_None dest!: tb_First_Some split: option.splits)

definition taken_names :: "app_db \<Rightarrow> string set" where
  "taken_names db = us_Username ` set (tb_rows (db_users db)) \<union> us_Email ` set (tb_rows (db_users db))"

lemma unique_from_ends:
  assumes "\<not> flt ''User.GetByUsernameOrEmail''"
  shows "base @ Itoa (int k) \<notin> taken_names db \<Longrightarrow> i \<le> Suc k \<Longrightarrow>
    (i = Suc k \<longrightarrow> c \<notin> taken_names db) \<Longrightarrow> \<exists>n. unique_from flt db base i c = Some n \<and> n \<notin> taken_names db"
proof (induction "Suc k - i" arbitrary: i c)
  case 0
  then have "c \<notin> taken_names db" by auto
  then have "GetByUsernameOrEmail flt c db = Inl RecordNotFound"
    using assms by (auto simp: GetByUsernameOrEmail_free taken_names_def)
  with \<open>c \<notin> taken_names db\<close> show ?case by (subst unique_from.simps) simp
next
  case (Suc n)
  show ?case
  proof (cases "c \<in> taken_names db")
    case True
    then have "unique_from flt db base i c = unique_from flt db base (Suc i) (base @ Itoa (int i))"
      by (subst unique_from.simps) (auto simp: GetByUsernameOrEmail_free taken_names_def)
    moreover have "\<exists>m. unique_from flt db base (Suc i) (base @ Itoa (int i)) = Some m \<and> m \<notin> taken_names db"
      using Suc by (intro Suc(1)) auto
    ultimately show ?thesis by simp
  next
    case False
    then have "unique_from flt db base i c = Some c"
      using assms by (subst unique_from.simps) (auto simp: GetByUsernameOrEmail_free taken_names_def)
    with False show ?thesis by simp
  qed
qed

lemma free_suffix: "\<exists>k \<ge> 1. base @ Itoa (int k) \<notin> taken_names db"
proof (rule ccontr)
  assume "\<not> ?thesis"
  then have "(\<lambda>k. base @ Itoa (int k)) ` {1..} \<subseteq> taken_names db" by auto
  moreover have "inj_on (\<lambda>k. base @ Itoa (int k)) {1..}" by (rule inj_onI) (auto dest: Itoa_inj)
  moreover have "finite (taken_names db)" by (simp add: taken_names_def)
  ultimately have "finite {1 :: nat ..}" using finite_imageD finite_subset by blast
  then show False using infinite_Ici by blast
qed

lemma unique_name:
  assumes "\<not> flt ''User.GetByUsernameOrEmail''"
  shows "\<exists>n. uniqueUsername flt email db = Some n \<and> n \<notin> taken_names db"
proof -
  define base where "base = (case index_char CHR ''@'' email of Some k \<Rightarrow> if 0 < k then take k email else email | None \<Rightarrow> email)"
  obtain k where "k \<ge> 1" "base @ Itoa (int k) \<notin> taken_names db" using free_suffix by blast
  then have "\<exists>n. unique_from flt db base 1 base = Some n \<and> n \<notin> taken_names db"
    using unique_from_ends[of flt base k db 1 base] assms by auto
  then show ?thesis by (simp add: uniqueUsername_def base_def Let_def)
qed

text \<open>
  C19. The search for a free user name ends, with a name that is neither the name nor the address of
  any user, as long as the database answers; while it does not, the search never ends.
\<close>

theorem uniqueUsername_terminates:
  "(\<not> flt ''User.GetByUsernameOrEmail'' \<longrightarrow> (\<exists>n. uniqueUsername flt email db = Some n \<and> n \<notin> taken_names db)) \<and>
   (flt ''User.GetByUsernameOrEmail'' \<longrightarrow> uniqueUsername flt email db = None)"
proof (intro conjI impI)
  assume "\<not> flt ''User.GetByUsernameOrEmail''"
  then show "\<exists>n. uniqueUsername flt email db = Some n \<and> n \<notin> taken_names db" by (rule unique_name)
next
  assume bad: "flt ''User.GetByUsernameOrEmail''"
  have "unique_from flt db base i c \<noteq> Some n" for base i c n
  proof
    assume "unique_from flt db base i c = Some n"
    then have "\<not> flt ''User.GetByUsernameOrEmail''"
    proof (rule unique_from.raw_induct[where P = "\<lambda>f d b j x y. \<not> f ''User.GetByUsernameOrEmail''", rotated])
      fix rec :: "faults \<Rightarrow> app_db \<Rightarrow> string \<Rightarrow> nat \<Rightarrow> string \<Rightarrow> string option" and f d b j x y
      assume ih: "\<And>f d b j x y. rec f d b j x = Some y \<Longrightarrow> \<not> f ''User.GetByUsernameOrEmail''"
        and "(if GetByUsernameOrEmail f x d = Inl RecordNotFound then Some x else rec f d b (Suc j) (b @ Itoa (int j))) = Some y"
      then show "\<not> f ''User.GetByUsernameOrEmail''"
        by (auto simp: GetByUsernameOrEmail_free split: if_splits dest: ih)
    qed
    with bad show False by simp
  qed
  then have "unique_from flt db base i c = None" for base i c
    by (metis not_Some_eq)
  then show "uniqueUsername flt email db = None"
    by (simp add: uniqueUsername_def Let_def)
qed

section \<open>Who gets tokens\<close>

lemma matchOrProvision_Ok:
  assumes "matchOrProvision en claims cfg ap = Some (ap', Ok u)"
  shows "ic_EmailVerified claims \<and> ic_Email claims \<noteq> [] \<and> us_Active u \<and>
    (u \<in> set (ap_users ap) \<and> ap' = ap \<and> (us_Username u = ic_Email claims \<or> us_Email u = ic_Email claims) \<or>
     us_Email u = ic_Email claims \<and> us_PasswordHash u = [] \<and> sc_AutoProvision cfg \<and>
     us_Username u \<notin> taken_names (ap_db ap))"
proof -
  have v: "ic_Email claims \<noteq> []" "ic_EmailVerified claims"
    using assms by (auto simp: matchOrProvision_def split: if_splits)
  show ?thesis
  proof (cases "GetByEmail (ae_flt en) (ic_Email claims) (ap_db ap)")
    case (Inr x)
    with assms v have "u = x" "us_Active u" "ap' = ap" by (auto simp: matchOrProvision_def split: if_splits)
    moreover have "x \<in> set (ap_users ap) \<and> (us_Username x = ic_Email claims \<or> us_Email x = ic_Email claims)"
      using Inr by (auto simp: GetByEmail_def GetByUsernameOrEmail_def read_first_def split: if_splits option.splits
          dest: tb_First_Some)
    ultimately show ?thesis using v by blast
  next
    case (Inl e)
    with assms v have e: "e = RecordNotFound" "sc_AutoProvision cfg" by (auto simp: matchOrProvision_def split: if_splits)
    then have ok: "\<not> ae_flt en ''User.GetByUsernameOrEmail''"
      using Inl by (auto simp: GetByEmail_def GetByUsernameOrEmail_free)
    obtain n where n: "uniqueUsername (ae_flt en) (ic_Email claims) (ap_db ap) = Some n" "n \<notin> taken_names (ap_db ap)"
      using unique_name[of "ae_flt en" "ic_Email claims" "ap_db ap"] ok by blast
    show ?thesis
      using assms v Inl e n
      by (auto simp: matchOrProvision_def Let_def created_user_def split: prod.splits option.splits bool.splits if_splits)
  qed
qed


text \<open>
  An address nobody verified is taken for verified: when the ID token names one address, not
  verified, and the user information of the same subject vouches for another one, the merged claims
  say that the first is verified, and the login is that of its owner.
\<close>

theorem merged_claims_verify_foreign_address:
  assumes "od_VerifyID oe p (sc_ClientID cfg) rawID = Some m" "decode_claims m = Some claims"
    and "ic_Email claims \<noteq> []" "\<not> ic_EmailVerified claims"
    and "od_UserInfo oe p access = Some (ic_Sub claims, m')" "decode_claims m' = Some uc" "ic_EmailVerified uc"
    and "ic_Email uc \<noteq> ic_Email claims"
    and "GetByEmail (ae_flt en) (ic_Email claims) (ap_db ap) = Ok victim" "us_Active victim"
  shows "\<exists>merged. sso_claims oe p cfg access rawID = Ok merged \<and> ic_Email merged = ic_Email claims \<and>
    matchOrProvision en merged cfg ap = Some (ap, Ok victim)"
  using assms by (simp add: sso_claims_def mergeUserInfoClaims_def first_of_def matchOrProvision_def)

section \<open>Applied\<close>

text \<open>A provider whose tokens name an address without vouching for it.\<close>

definition demo_sso :: "string \<Rightarrow> bool \<Rightarrow> JSONField \<Rightarrow> unit oidc_env" where
  "demo_sso email verified info =
     \<lparr>od_NewProvider = (\<lambda>_. Some ()), od_AuthCodeURL = (\<lambda>_ _ _ _ _ _. ''https://idp.example/auth''),
      od_Exchange = (\<lambda>_ _ _ c v. if c = ''code'' \<and> v = ''verifier'' then Some (''at'', Some ''it'') else None),
      od_VerifyID = (\<lambda>_ _ _. Some [(''email'', JStr email), (''email_verified'', JBool verified), (''sub'', JStr ''s'')]),
      od_UserInfo = (\<lambda>_ _. Some (''s'', info))\<rparr>"

definition demo_sso_app :: "(string \<Rightarrow> string option) app" where
  "demo_sso_app = demo_app\<lparr>ap_db := (ap_db demo_app)\<lparr>db_settings := [(SettingSSOEnabled, ''true'')]\<rparr>\<rparr>"

definition demo_sso_state :: "unit sso_state" where
  "demo_sso_state = \<lparr>ss_codes = Map.empty, ss_provider = None\<rparr>"


theorem uniqueUsername_terminates_witness:
  "(\<exists>n. uniqueUsername no_faults ''bob@example.org'' (ap_db demo_app) = Some n \<and> n \<notin> taken_names (ap_db demo_app)) \<and>
   uniqueUsername (\<lambda>_. True) ''bob@example.org'' (ap_db demo_app) = None"
  using uniqueUsername_terminates[of no_faults "''bob@example.org''" "ap_db demo_app"]
    uniqueUsername_terminates[of "\<lambda>_. True" "''bob@example.org''" "ap_db demo_app"]
  by (simp add: no_faults_def)


theorem merged_claims_verify_foreign_address_witness:
  "\<exists>merged. sso_claims (demo_sso ''bob@example.com'' False [(''email'', JStr ''eve@example.com''), (''email_verified'', JBool True)])
      () (sso_config demo_aenv demo_sso_app) ''at'' ''it'' = Ok merged \<and> ic_Email merged = ''bob@example.com'' \<and>
    matchOrProvision demo_aenv merged (sso_config demo_aenv demo_sso_app) demo_sso_app = Some (demo_sso_app, Ok demo_bob)"
proof -
  let ?info = "[(''email'', JStr ''eve@example.com''), (''email_verified'', JBool True)]"
  let ?m = "[(''email'', JStr ''bob@example.com''), (''email_verified'', JBool False), (''sub'', JStr ''s'')]"
  let ?oe = "demo_sso ''bob@example.com'' False ?info"
  let ?c = "\<lparr>ic_Email = ''bob@example.com'', ic_EmailVerified = False, ic_Sub = ''s'', ic_Name = []\<rparr>"
  let ?u = "\<lparr>ic_Email = ''eve@example.com'', ic_EmailVerified = True, ic_Sub = [], ic_Name = []\<rparr>"
  have v: "od_VerifyID ?oe () (sc_ClientID (sso_config demo_aenv demo_sso_app)) ''it'' = Some ?m"
    "od_UserInfo ?oe () ''at'' = Some (ic_Sub ?c, ?info)" by (simp_all add: demo_sso_def)
  have d: "decode_claims ?m = Some ?c" "decode_claims ?info = Some ?u" by code_simp+
  have g: "GetByEmail (ae_flt demo_aenv) (ic_Email ?c) (ap_db demo_sso_app) = Ok demo_bob" by code_simp
  have "us_Active demo_bob" by (simp add: demo_bob_def)
  with merged_claims_verify_foreign_address[OF v(1) d(1) _ _ v(2) d(2) _ _ g] show ?thesis by simp
qed

end
