(* ===== verification/Acl_Options.thy ===== *)
theory Acl_Options
  imports Acl_Admin Proxy_Query "HOL-Library.List_Lexorder" "HOL-Library.Char_ord"
begin

text \<open>
  What the login page of a protected site offers: \<open>GetAuthOptionsForProxy\<close>, \<open>formatProviderName\<close>
  and \<open>GetOAuthProviderRestrictions\<close> of \<open>backend/internal/service/acl_service.go\<close>, and the ordered
  listings of \<open>acl_repository.go\<close> they and the handlers read. Which OAuth providers have credentials
  configured is the argument \<open>available\<close>; the order of text columns is the database's and an argument.
  Provider names are ASCII.
\<close>

section \<open>Listings\<close>

definition ListBasicAuthUsers ::
  "faults \<Rightarrow> (ACLBasicAuthUser list \<Rightarrow> ACLBasicAuthUser list) \<Rightarrow> int \<Rightarrow> acl_store \<Rightarrow> (db_error, ACLBasicAuthUser list) result" where
  "ListBasicAuthUsers flt by_username groupID st =
     (if flt ''ListBasicAuthUsers'' then Err DBFault
      else Ok (by_username (tb_Find (\<lambda>r. bu_ACLGroupID r = groupID) (st_basic_users st))))"

definition ListExternalProviders ::
  "faults \<Rightarrow> (ACLExternalProvider list \<Rightarrow> ACLExternalProvider list) \<Rightarrow> int \<Rightarrow> acl_store
    \<Rightarrow> (db_error, ACLExternalProvider list) result" where
  "ListExternalProviders flt by_name groupID st =
     (if flt ''ListExternalProviders'' then Err DBFault
      else Ok (by_name (tb_Find (\<lambda>r. ep_ACLGroupID r = groupID) (st_providers st))))"

definition GetOAuthProviderRestrictions_repo ::
  "faults \<Rightarrow> (ACLOAuthProviderRestriction list \<Rightarrow> ACLOAuthProviderRestriction list) \<Rightarrow> int \<Rightarrow> acl_store
    \<Rightarrow> (db_error, ACLOAuthProviderRestriction list) result" where
  "GetOAuthProviderRestrictions_repo flt by_provider groupID st =
     (if flt ''GetOAuthProviderRestrictions'' then Err DBFault
      else Ok (by_provider (tb_Find (\<lambda>r. or_ACLGroupID r = groupID) (st_restrictions st))))"

definition GetOAuthProviderRestrictions ::
  "faults \<Rightarrow> (ACLOAuthProviderRestriction list \<Rightarrow> ACLOAuthProviderRestriction list) \<Rightarrow> int \<Rightarrow> acl_store
    \<Rightarrow> (acl_error, ACLOAuthProviderRestriction list) result" where
  "GetOAuthProviderRestrictions flt by_provider groupID st =
     (case get_group flt groupID st of
        Inl e \<Rightarrow> Err e
      | Inr _ \<Rightarrow>
          map_sum (Wrapped ''getting OAuth provider restrictions'') (\<lambda>x. x)
            (GetOAuthProviderRestrictions_repo flt by_provider groupID st))"

section \<open>The union of the methods\<close>

record UnionOAuthProvider =
  uo_ID :: string
  uo_Name :: string
  uo_Enabled :: bool

record AuthOptionsResponse =
  ao_Hostname :: string
  ao_ProxyID :: int
  ao_WaygatesAuth :: "bool option"
  ao_OAuthProviders :: "UnionOAuthProvider list"
  ao_BasicAuthEnabled :: bool
  ao_RequiresAuth :: bool

definition formatProviderName :: "string \<Rightarrow> string" where
  "formatProviderName i =
     (let l = ToLower i in
      if l = ''google'' then ''Google''
      else if l = ''github'' then ''GitHub''
      else if l = ''microsoft'' then ''Microsoft''
      else if l = ''gitlab'' then ''GitLab''
      else if l = ''okta'' then ''Okta''
      else if l = ''auth0'' then ''Auth0''
      else if i = [] then i
      else ToUpper (take 1 i) @ ToLower (drop 1 i))"

text \<open>The map of offered providers, by lower-case name; the first entry for a name stays.\<close>

definition offer :: "string \<Rightarrow> (string \<times> UnionOAuthProvider) list \<Rightarrow> (string \<times> UnionOAuthProvider) list" where
  "offer provider m =
     (let pid = ToLower provider in
      if map_of m pid = None
      then (pid, \<lparr>uo_ID = provider, uo_Name = formatProviderName provider, uo_Enabled = True\<rparr>) # m
      else m)"

definition restricted_names :: "ACLGroup \<Rightarrow> string list" where
  "restricted_names g = map (\<lambda>r. ToLower (or_Provider r)) (gr_OAuthProviderRestrictions g)"

definition group_offers :: "(string \<Rightarrow> bool) \<Rightarrow> ACLGroup \<Rightarrow> string list" where
  "group_offers available g =
     map or_Provider (filter (\<lambda>r. or_Enabled r \<and> available (ToLower (or_Provider r))) (gr_OAuthProviderRestrictions g)) @
     (case gr_WaygatesAuth g of
        None \<Rightarrow> []
      | Some wa \<Rightarrow>
          filter (\<lambda>p. ToLower p \<notin> set (restricted_names g) \<and> available (ToLower p)) (wa_AllowedProviders wa))"

definition waygates_on :: "ACLGroup \<Rightarrow> bool" where
  "waygates_on g \<longleftrightarrow> (case gr_WaygatesAuth g of None \<Rightarrow> False | Some wa \<Rightarrow> wa_Enabled wa)"

definition option_groups :: "ProxyACLAssignment list \<Rightarrow> ACLGroup list" where
  "option_groups assignments =
     concat (map (\<lambda>a. if \<not> pa_Enabled a then [] else case pa_ACLGroup a of None \<Rightarrow> [] | Some g \<Rightarrow> [g]) assignments)"

definition GetAuthOptionsForProxy ::
  "faults \<Rightarrow> (string \<Rightarrow> bool) \<Rightarrow> string \<Rightarrow> acl_store \<Rightarrow> (db_error, AuthOptionsResponse) result" where
  "GetAuthOptionsForProxy flt available hostname st =
     (case Proxy_GetByHostname flt hostname st of
        Inl e \<Rightarrow> Err e
      | Inr proxy \<Rightarrow>
          (case GetProxyACLAssignments flt (px_ID proxy) st of
             Inl e \<Rightarrow> Err e
           | Inr assignments \<Rightarrow>
               let groups = option_groups assignments;
                   providers = sort_key uo_ID (map snd (fold (\<lambda>g m. fold offer (group_offers available g) m) groups []));
                   waygates = list_ex waygates_on groups;
                   basic = list_ex (\<lambda>g. gr_BasicAuthUsers g \<noteq> []) groups \<and> \<not> (waygates \<or> providers \<noteq> [])
               in Ok \<lparr>ao_Hostname = hostname, ao_ProxyID = px_ID proxy,
                      ao_WaygatesAuth = (if waygates then Some True else None), ao_OAuthProviders = providers,
                      ao_BasicAuthEnabled = basic, ao_RequiresAuth = (waygates \<or> providers \<noteq> [] \<or> basic)\<rparr>))"

section \<open>What is offered\<close>

lemma offer_keys: "fst ` set (offer p m) = insert (ToLower p) (fst ` set m)"
  by (auto simp: offer_def Let_def map_of_eq_None_iff)

lemma fold_offer_keys: "fst ` set (fold offer ps m) = ToLower ` set ps \<union> fst ` set m"
  by (induction ps arbitrary: m) (auto simp: offer_keys)

lemma groups_offer_keys:
  "fst ` set (fold (\<lambda>g m. fold offer (group_offers av g) m) gs m) = (\<Union>g \<in> set gs. ToLower ` set (group_offers av g)) \<union> fst ` set m"
  by (induction gs arbitrary: m) (auto simp: fold_offer_keys)

text \<open>Every entry stands under the lower-case form of its name, and there is one for each name.\<close>

definition offers_wf :: "(string \<times> UnionOAuthProvider) list \<Rightarrow> bool" where
  "offers_wf m \<longleftrightarrow> distinct (map fst m) \<and> (\<forall>(k, e) \<in> set m. k = ToLower (uo_ID e) \<and> uo_Enabled e)"

lemma offer_wf: "offers_wf m \<Longrightarrow> offers_wf (offer p m)"
  by (auto simp: offers_wf_def offer_def Let_def map_of_eq_None_iff)

lemma fold_offer_wf: "offers_wf m \<Longrightarrow> offers_wf (fold offer ps m)"
  by (induction ps arbitrary: m) (simp_all add: offer_wf)

lemma groups_offer_wf: "offers_wf m \<Longrightarrow> offers_wf (fold (\<lambda>g m. fold offer (group_offers av g) m) gs m)"
  by (induction gs arbitrary: m) (simp_all add: fold_offer_wf)

definition group_has_method :: "(string \<Rightarrow> bool) \<Rightarrow> ACLGroup \<Rightarrow> bool" where
  "group_has_method available g \<longleftrightarrow> waygates_on g \<or> group_offers available g \<noteq> [] \<or> gr_BasicAuthUsers g \<noteq> []"

text \<open>
  The login page is offered exactly what the groups of the proxy have: each provider that some
  enabled group allows, restricts without disabling, or both, once and only if it is configured; the
  Waygates login if some group has it; basic authentication only if there is nothing else; and a
  login is asked for if and only if some group has any method.
\<close>

theorem GetAuthOptions_exact:
  assumes "GetAuthOptionsForProxy flt available hostname st = Ok res"
    and "Proxy_GetByHostname flt hostname st = Ok proxy" "GetProxyACLAssignments flt (px_ID proxy) st = Ok as"
  shows "(\<lambda>p. ToLower (uo_ID p)) ` set (ao_OAuthProviders res) =
           (\<Union>g \<in> set (option_groups as). ToLower ` set (group_offers available g)) \<and>
    distinct (map (\<lambda>p. ToLower (uo_ID p)) (ao_OAuthProviders res)) \<and>
    (ao_WaygatesAuth res \<noteq> None \<longleftrightarrow> (\<exists>g \<in> set (option_groups as). waygates_on g)) \<and>
    (ao_BasicAuthEnabled res \<longleftrightarrow> (\<exists>g \<in> set (option_groups as). gr_BasicAuthUsers g \<noteq> []) \<and>
       (\<forall>g \<in> set (option_groups as). \<not> waygates_on g \<and> group_offers available g = [])) \<and>
    (ao_RequiresAuth res \<longleftrightarrow> (\<exists>g \<in> set (option_groups as). group_has_method available g))"
proof -
  let ?gs = "option_groups as"
  define m where "m = fold (\<lambda>g m. fold offer (group_offers available g) m) ?gs []"
  have e: "sort_key uo_ID (map snd m) = [] \<longleftrightarrow> m = []" by (metis length_0_conv length_map length_sort)
  have res: "res = \<lparr>ao_Hostname = hostname, ao_ProxyID = px_ID proxy,
      ao_WaygatesAuth = (if list_ex waygates_on ?gs then Some True else None), ao_OAuthProviders = sort_key uo_ID (map snd m),
      ao_BasicAuthEnabled = (list_ex (\<lambda>g. gr_BasicAuthUsers g \<noteq> []) ?gs \<and> \<not> (list_ex waygates_on ?gs \<or> m \<noteq> [])),
      ao_RequiresAuth = (list_ex waygates_on ?gs \<or> m \<noteq> [] \<or>
        (list_ex (\<lambda>g. gr_BasicAuthUsers g \<noteq> []) ?gs \<and> \<not> (list_ex waygates_on ?gs \<or> m \<noteq> [])))\<rparr>"
    using assms by (simp add: GetAuthOptionsForProxy_def Let_def e flip: m_def)
  then have ps: "ao_OAuthProviders res = sort_key uo_ID (map snd m)"
    and w: "ao_WaygatesAuth res \<noteq> None \<longleftrightarrow> list_ex waygates_on ?gs"
    and r: "ao_RequiresAuth res \<longleftrightarrow> list_ex waygates_on ?gs \<or> m \<noteq> [] \<or> list_ex (\<lambda>g. gr_BasicAuthUsers g \<noteq> []) ?gs"
    and b: "ao_BasicAuthEnabled res \<longleftrightarrow> list_ex (\<lambda>g. gr_BasicAuthUsers g \<noteq> []) ?gs \<and> \<not> (list_ex waygates_on ?gs \<or> m \<noteq> [])"
    by auto
  have wf: "offers_wf m" unfolding m_def by (rule groups_offer_wf) (simp add: offers_wf_def)
  have keys: "fst ` set m = (\<Union>g \<in> set ?gs. ToLower ` set (group_offers available g))"
    by (simp add: m_def groups_offer_keys)
  have k: "map (\<lambda>p. ToLower (uo_ID p)) (map snd m) = map fst m" using wf by (auto simp: offers_wf_def)
  then have i: "(\<lambda>p. ToLower (uo_ID p)) ` set (map snd m) = fst ` set m" by (metis list.set_map)
  have d: "distinct (map (\<lambda>p. ToLower (uo_ID p)) (sort_key uo_ID (map snd m)))"
    using wf k by (metis mset_sort mset_map mset_eq_imp_distinct_iff offers_wf_def)
  have "m = [] \<longleftrightarrow> fst ` set m = {}" by simp
  then have n: "m = [] \<longleftrightarrow> (\<forall>g \<in> set ?gs. group_offers available g = [])" by (simp add: keys)
  show ?thesis
    using i keys d unfolding w r b n by (auto simp: ps list_ex_iff group_has_method_def)
qed

definition demo_basic_store :: acl_store where
  "demo_basic_store =
     demo_store\<lparr>st_waygates := empty_table, st_basic_users :=
       \<lparr>tb_rows = [\<lparr>bu_ID = 1, bu_ACLGroupID = 1, bu_Username = ''alice'', bu_PasswordHash = ''h''\<rparr>], tb_next = 2\<rparr>\<rparr>"

theorem GetAuthOptions_exact_witness:
  "\<exists>res. GetAuthOptionsForProxy no_faults (\<lambda>_. False) ''app.example.com'' demo_basic_store = Ok res \<and>
    ao_BasicAuthEnabled res \<and> ao_RequiresAuth res"
proof -
  define st where "st = demo_basic_store"
  have "\<not> isl (GetAuthOptionsForProxy no_faults (\<lambda>_. False) ''app.example.com'' st)"
    unfolding st_def by code_simp
  then obtain res where res: "GetAuthOptionsForProxy no_faults (\<lambda>_. False) ''app.example.com'' st = Ok res"
    by (auto simp: isl_def) (metis sum.exhaust)
  have "case (Proxy_GetByHostname no_faults ''app.example.com'' st) of Inl _ \<Rightarrow> False
    | Inr p \<Rightarrow> (case GetProxyACLAssignments no_faults (px_ID p) st of Inl _ \<Rightarrow> False
      | Inr as \<Rightarrow> list_ex (\<lambda>g. gr_BasicAuthUsers g \<noteq> []) (option_groups as) \<and>
          list_all (\<lambda>g. \<not> waygates_on g \<and> group_offers (\<lambda>_. False) g = []) (option_groups as))"
    unfolding st_def by code_simp
  then obtain p as where p: "Proxy_GetByHostname no_faults ''app.example.com'' st = Ok p"
    and as: "GetProxyACLAssignments no_faults (px_ID p) st = Ok as"
    and g: "\<exists>g \<in> set (option_groups as). gr_BasicAuthUsers g \<noteq> []"
      "\<forall>g \<in> set (option_groups as). \<not> waygates_on g \<and> group_offers (\<lambda>_. False) g = []"
    by (auto simp: list_ex_iff list_all_iff split: sum.splits)
  from GetAuthOptions_exact[OF res p as] g have "ao_BasicAuthEnabled res \<and> ao_RequiresAuth res"
    by (auto simp: group_has_method_def)
  with res show ?thesis by (auto simp: st_def)
qed

end
