(* ===== verification/Handler_Base.thy ===== *)
theory Handler_Base
  imports App_State Go_Url Acl_Options Go_Http
begin

text \<open>
  What the handlers of the administration interface share. A handler runs several database
  statements; \<open>stage k\<close> is the part of the fault predicate that speaks about the \<open>k\<close>-th group of
  them, so that a statement a request repeats can succeed once and fail later. The runs of the sync
  service within one request meet the same environment.
\<close>

definition stage :: "nat \<Rightarrow> faults \<Rightarrow> faults" where
  "stage k flt = (\<lambda>c. flt (replicate k CHR ''+'' @ c))"

lemma stage_0 [simp]: "stage 0 flt = flt"
  by (simp add: stage_def)

lemma stage_no_faults [simp]: "stage k no_faults = no_faults"
  by (simp add: stage_def no_faults_def fun_eq_iff)

text \<open>
  \<open>userID, _ := strconv.Atoi(...)\<close>: with the error ignored, a text that is no number reads as 0 and
  one out of range as the nearest bound.
\<close>

definition Atoi_value :: "string \<Rightarrow> int" where
  "Atoi_value s =
     (let neg = HasPrefix s ''-'';
          digits = (if neg \<or> HasPrefix s ''+'' then drop 1 s else s)
      in if digits = [] \<or> \<not> list_all is_digit digits then 0
         else let v = (if neg then - int (decimal digits) else int (decimal digits)) in
           max (- (2 ^ 63)) (min v (2 ^ 63 - 1)))"

definition request_user :: "http_request \<Rightarrow> int" where
  "request_user r = Atoi_value (hq_UserID r)"

lemma Atoi_value_Some: "Atoi s = Some i \<Longrightarrow> Atoi_value s = i"
  by (auto simp: Atoi_def Atoi_value_def Let_def split: if_splits)

text \<open>\<open>SyncProxyByID\<close> called by a handler, which logs its error and goes on.\<close>

definition sync_proxy :: "'g app_env \<Rightarrow> int \<Rightarrow> 'g app \<Rightarrow> 'g app" where
  "sync_proxy en proxyID ap =
     ap\<lparr>ap_sync := fst (SyncProxyByID (ae_sync_conf en) (ae_sync_env en) proxyID (ap_db ap) (ap_sync ap))\<rparr>"

lemma sync_proxy_simps [simp]:
  "ap_db (sync_proxy en i ap) = ap_db ap" "ap_roles (sync_proxy en i ap) = ap_roles ap"
  "ap_audit (sync_proxy en i ap) = ap_audit ap"
  by (simp_all add: sync_proxy_def)

lemma fold_sync_proxy [simp]:
  "ap_db (fold (sync_proxy en) is ap) = ap_db ap" "ap_roles (fold (sync_proxy en) is ap) = ap_roles ap"
  "ap_audit (fold (sync_proxy en) is ap) = ap_audit ap"
  by (induction "is" arbitrary: ap) simp_all

abbreviation ap_acl :: "'g app \<Rightarrow> acl_store" where "ap_acl ap \<equiv> db_acl (ap_db ap)"

text \<open>The messages of the validation errors.\<close>

definition validation_message :: "validation_error \<Rightarrow> string" where
  "validation_message e =
     (case e of
        ErrACLGroupNameRequired \<Rightarrow> ''ACL group name is required''
      | ErrACLGroupNameTooLong \<Rightarrow> ''ACL group name must be at most 255 characters''
      | ErrInvalidCombinationMode \<Rightarrow> ''invalid combination mode''
      | ErrInvalidIPRuleType \<Rightarrow> ''invalid IP rule type''
      | ErrModelInvalidCIDR \<Rightarrow> ''invalid CIDR format''
      | ErrBasicAuthUsernameEmpty \<Rightarrow> ''basic auth username cannot be empty''
      | ErrBasicAuthPasswordEmpty \<Rightarrow> ''basic auth password cannot be empty''
      | ErrInvalidProviderType \<Rightarrow> ''invalid external provider type''
      | ErrProviderNameRequired \<Rightarrow> ''external provider name is required''
      | ErrProviderVerifyURLEmpty \<Rightarrow> ''external provider verify URL is required'')"

text \<open>The changes an update records: a field with its old and new value, if they differ.\<close>

definition change :: "string \<Rightarrow> ('a \<Rightarrow> json) \<Rightarrow> 'a \<Rightarrow> 'a \<Rightarrow> JSONField" where
  "change key enc old new = (if old \<noteq> new then [(key, old_new (enc old) (enc new))] else [])"

definition text_of :: "string option \<Rightarrow> string" where
  "text_of t = (case t of None \<Rightarrow> [] | Some s \<Rightarrow> s)"

definition list_change :: "string \<Rightarrow> string list \<Rightarrow> string list \<Rightarrow> JSONField" where
  "list_change key old new = (if Join old '','' \<noteq> Join new '','' then [(key, old_new (JStrs old) (JStrs new))] else [])"

text \<open>
  The filter parameters of the listing endpoints: \<open>parseFilterParam\<close> and \<open>splitAndTrim\<close> of
  \<open>backend/internal/api/handlers/audit_handler.go\<close> and the two ways the handlers read them. A
  parameter has the form \<open>operator:value\<close>; without a known operator the whole text is the value and
  the operator is \<open>eq\<close>.
\<close>

definition OpEq :: string where "OpEq = ''eq''"
definition OpNot :: string where "OpNot = ''not''"
definition OpIn :: string where "OpIn = ''in''"
definition OpNotIn :: string where "OpNotIn = ''not_in''"
definition OpContains :: string where "OpContains = ''contains''"
definition OpStartsWith :: string where "OpStartsWith = ''starts_with''"
definition OpEndsWith :: string where "OpEndsWith = ''ends_with''"

lemmas op_defs = OpEq_def OpNot_def OpIn_def OpNotIn_def OpContains_def OpStartsWith_def OpEndsWith_def

definition operators :: "string list" where
  "operators = [OpEq, OpNot, OpIn, OpNotIn, OpContains, OpStartsWith, OpEndsWith]"

record filterValue =
  fv_Operator :: string
  fv_Value :: string
  fv_Values :: "string list"

definition splitAndTrim :: "string \<Rightarrow> string list" where
  "splitAndTrim s = filter (\<lambda>p. p \<noteq> []) (map TrimSpace (Split CHR '','' s))"

definition parseFilterParam :: "string \<Rightarrow> filterValue" where
  "parseFilterParam param =
     (if param = [] then \<lparr>fv_Operator = [], fv_Value = [], fv_Values = []\<rparr>
      else
        let default = \<lparr>fv_Operator = OpEq, fv_Value = param, fv_Values = []\<rparr> in
        case index_char CHR '':'' param of
          None \<Rightarrow> default
        | Some colonIdx \<Rightarrow>
            let possibleOp = take colonIdx param; val = drop (colonIdx + 1) param in
            if colonIdx > 0 \<and> List.member operators possibleOp
            then \<lparr>fv_Operator = possibleOp, fv_Value = val,
                  fv_Values = (if possibleOp = OpIn \<or> possibleOp = OpNotIn then splitAndTrim val else [])\<rparr>
            else default)"

text \<open>
  A filter over a list: the included and the excluded values, and \<^term>\<open>None\<close> for an operator that
  makes no sense for it. An absent parameter filters nothing.
\<close>

definition filter_values :: "filterValue \<Rightarrow> string list" where
  "filter_values fv = (if fv_Values fv \<noteq> [] then fv_Values fv else splitAndTrim (fv_Value fv))"

definition list_filter :: "string \<Rightarrow> (string list \<times> string list) option" where
  "list_filter param =
     (if param = [] then Some ([], [])
      else let fv = parseFilterParam param in
        if fv_Operator fv = OpIn \<or> fv_Operator fv = OpEq then Some (filter_values fv, [])
        else if fv_Operator fv = OpNotIn \<or> fv_Operator fv = OpNot then Some ([], filter_values fv)
        else None)"

section \<open>Properties\<close>

lemma splitAndTrim_elems: "x \<in> set (splitAndTrim s) \<Longrightarrow> x \<noteq> []"
  by (simp add: splitAndTrim_def)

lemma operators_no_colon: "List.member operators op \<Longrightarrow> op \<noteq> [] \<and> CHR '':'' \<notin> set op"
  by (auto simp: operators_def op_defs)

lemma index_char_append: "c \<notin> set xs \<Longrightarrow> index_char c (xs @ c # ys) = Some (length xs)"
  by (induction xs) (auto simp: index_char_def)

lemma parseFilterParam_printed:
  assumes "List.member operators op"
  shows "parseFilterParam (op @ CHR '':'' # v) =
    \<lparr>fv_Operator = op, fv_Value = v, fv_Values = (if op = OpIn \<or> op = OpNotIn then splitAndTrim v else [])\<rparr>"
  using operators_no_colon[OF assms] assms
  by (simp add: parseFilterParam_def index_char_append Let_def)

text \<open>
  A filter parameter means what is written: an operator before the first colon is recognised
  exactly when it is one of the seven, whatever follows is the value unchanged, and any other text - a
  URL, an IPv6 address, an unknown operator - is a value to be equal to, as a whole.
\<close>

theorem filter_parameter_exact:
  shows "List.member operators op \<Longrightarrow> parseFilterParam (op @ CHR '':'' # v) =
      \<lparr>fv_Operator = op, fv_Value = v, fv_Values = (if op = OpIn \<or> op = OpNotIn then splitAndTrim v else [])\<rparr> \<and>
      (\<forall>p. p \<noteq> [] \<and> (\<forall>op' v'. List.member operators op' \<longrightarrow> p \<noteq> op' @ CHR '':'' # v') \<longrightarrow>
         parseFilterParam p = \<lparr>fv_Operator = OpEq, fv_Value = p, fv_Values = []\<rparr>)"
proof (intro conjI allI impI)
  assume "List.member operators op"
  then show "parseFilterParam (op @ CHR '':'' # v) =
      \<lparr>fv_Operator = op, fv_Value = v, fv_Values = (if op = OpIn \<or> op = OpNotIn then splitAndTrim v else [])\<rparr>"
    by (rule parseFilterParam_printed)
next
  fix p assume p: "p \<noteq> [] \<and> (\<forall>op' v'. List.member operators op' \<longrightarrow> p \<noteq> op' @ CHR '':'' # v')"
  show "parseFilterParam p = \<lparr>fv_Operator = OpEq, fv_Value = p, fv_Values = []\<rparr>"
  proof (cases "index_char CHR '':'' p")
    case (Some k)
    then have "CHR '':'' \<in> set p" by (auto simp: index_char_def split: if_splits)
    then obtain xs ys where xs: "p = xs @ CHR '':'' # ys" "CHR '':'' \<notin> set xs" by (metis split_list_first)
    with Some have "k = length xs" by (simp add: index_char_append)
    with xs(1) have "p = take k p @ CHR '':'' # drop (k + 1) p" by simp
    with p have "\<not> List.member operators (take k p)" by metis
    with p Some show ?thesis by (simp add: parseFilterParam_def Let_def)
  qed (use p in \<open>simp add: parseFilterParam_def Let_def\<close>)
qed

theorem filter_parameter_exact_witness:
  "parseFilterParam (OpNotIn @ CHR '':'' # ''a, b'') =
     \<lparr>fv_Operator = OpNotIn, fv_Value = ''a, b'', fv_Values = [''a'', ''b'']\<rparr>"
  using filter_parameter_exact[of OpNotIn "''a, b''"]
  by (simp add: operators_def op_defs) (simp add: splitAndTrim_def TrimSpace_def is_space_def)

end
