(* ===== verification/Settings_Handler.thy ===== *)
theory Settings_Handler
  imports Handler_Base Demo_App
begin

text \<open>
  The settings over HTTP: \<open>backend/internal/service/settings_service.go\<close> and
  \<open>backend/internal/api/handlers/settings_handler.go\<close>. The sync service is set, as \<open>SetupRoutes\<close>
  does; \<open>UpdateCatchAll\<close> rebuilds the whole configuration. \<open>ep\<close> renders the error of \<open>ParseCIDR\<close>.
\<close>

section \<open>The service\<close>

definition set_settings :: "settings_table \<Rightarrow> 'g app \<Rightarrow> 'g app" where
  "set_settings t ap = ap\<lparr>ap_db := (ap_db ap)\<lparr>db_settings := t\<rparr>\<rparr>"

lemma set_settings_simps [simp]:
  "db_settings (ap_db (set_settings t ap)) = t" "ap_acl (set_settings t ap) = ap_acl ap"
  "ap_roles (set_settings t ap) = ap_roles ap" "ap_audit (set_settings t ap) = ap_audit ap"
  "ap_sync (set_settings t ap) = ap_sync ap" "set_settings (db_settings (ap_db ap)) ap = ap"
  by (simp_all add: set_settings_def)

definition update_catchall :: "'g app_env \<Rightarrow> 'g app \<Rightarrow> 'g app \<times> sync_error option" where
  "update_catchall en ap =
     (case UpdateCatchAll (ae_sync_conf en) (ae_sync_env en) (ap_db ap) (ap_sync ap) of
        (w, e) \<Rightarrow> (ap\<lparr>ap_sync := w\<rparr>, e))"

datatype settings_error = SettingsDB db_error | SettingsSync sync_error

definition SettingsService_SetNotFoundSettings ::
  "'g app_env \<Rightarrow> NotFoundSettings \<Rightarrow> 'g app \<Rightarrow> 'g app \<times> settings_error option" where
  "SettingsService_SetNotFoundSettings en settings ap =
     (case SetNotFoundSettings (ae_flt en) settings (db_settings (ap_db ap)) of
        (t, Some e) \<Rightarrow> (set_settings t ap, Some (SettingsDB e))
      | (t, None) \<Rightarrow> map_prod (\<lambda>a. a) (map_option SettingsSync) (update_catchall en (set_settings t ap)))"

definition SettingsService_SetMetricsPublishSettings ::
  "'g app_env \<Rightarrow> MetricsPublishSettings \<Rightarrow> 'g app \<Rightarrow> 'g app \<times> settings_error option" where
  "SettingsService_SetMetricsPublishSettings en settings ap =
     (case SetMetricsPublishSettings (ae_flt en) settings (db_settings (ap_db ap)) of
        (t, Some e) \<Rightarrow> (set_settings t ap, Some (SettingsDB e))
      | (t, None) \<Rightarrow> map_prod (\<lambda>a. a) (map_option SettingsSync) (update_catchall en (set_settings t ap)))"

section \<open>Answers\<close>

record MetricsPublishDTO =
  md_Enabled :: bool
  md_Host :: string
  md_Path :: string
  md_BasicAuthUser :: string
  md_HasBasicAuth :: bool
  md_AllowedCIDRs :: "string list"

datatype settings_data =
  AllSettings "string \<rightharpoonup> string"
| OneSetting string string
| NotFoundData NotFoundSettings
| MetricsData MetricsPublishDTO

type_synonym 'g settings_reply = "'g app \<times> settings_data http_response"

section \<open>Any setting\<close>

definition Settings_GetAll :: "'g app_env \<Rightarrow> 'g app \<Rightarrow> settings_data http_response" where
  "Settings_GetAll en ap =
     (case GetAll (ae_flt en) (db_settings (ap_db ap)) of
        Inl _ \<Rightarrow> InternalError ''Failed to get settings''
      | Inr settings \<Rightarrow>
          Success (Some (AllSettings (\<lambda>key. if IsSensitiveSettingKey key then None else settings key)))
            ''Settings retrieved successfully'')"

definition Settings_Get :: "'g app_env \<Rightarrow> http_request \<Rightarrow> 'g app \<Rightarrow> settings_data http_response" where
  "Settings_Get en r ap =
     (let key = URLParam r ''key'' in
      if key = [] then BadRequest ''Setting key is required''
      else if IsSensitiveSettingKey key then NotFound ''Setting not found''
      else case Setting_Get (ae_flt en) key (db_settings (ap_db ap)) of
        Inl _ \<Rightarrow> NotFound ''Setting not found''
      | Inr v \<Rightarrow> Success (Some (OneSetting key v)) ''Setting retrieved successfully'')"

definition audit_setting :: "'g app_env \<Rightarrow> http_request \<Rightarrow> string \<Rightarrow> string \<Rightarrow> string \<Rightarrow> 'g app \<Rightarrow> 'g app" where
  "audit_setting en r key old new ap =
     (if request_user r > 0
      then audit en (LogSettingsUpdate (request_user r) key old new (getClientIP r) (UserAgent r)) ap
      else ap)"

definition Settings_Update ::
  "'g app_env \<Rightarrow> string option \<Rightarrow> http_request \<Rightarrow> 'g app \<Rightarrow> 'g settings_reply" where
  "Settings_Update en body r ap =
     (let key = URLParam r ''key'' in
      if key = [] then (ap, BadRequest ''Setting key is required'')
      else if IsSensitiveSettingKey key then (ap, NotFound ''setting not found'')
      else
        let oldValue = (case Setting_Get (ae_flt en) key (db_settings (ap_db ap)) of Inl _ \<Rightarrow> [] | Inr v \<Rightarrow> v) in
        case body of
          None \<Rightarrow> (ap, BadRequest ''Invalid request body'')
        | Some v \<Rightarrow>
            (case Setting_Set (ae_flt en) key v (db_settings (ap_db ap)) of
               (t, Some _) \<Rightarrow> (set_settings t ap, InternalError ''Failed to update setting'')
             | (t, None) \<Rightarrow>
                 (audit_setting en r key oldValue v (set_settings t ap),
                  Success (Some (OneSetting key v)) ''Setting updated successfully'')))"

section \<open>The page for unknown hosts\<close>

definition Settings_GetNotFound :: "'g app_env \<Rightarrow> 'g app \<Rightarrow> settings_data http_response" where
  "Settings_GetNotFound en ap =
     Success (Some (NotFoundData (GetNotFoundSettings (ae_flt en) (db_settings (ap_db ap)))))
       ''404 settings retrieved successfully''"

definition not_found_text :: "NotFoundSettings \<Rightarrow> string" where
  "not_found_text s = nf_Mode s @ (if nf_RedirectURL s \<noteq> [] then '' -> '' @ nf_RedirectURL s else [])"

definition Settings_UpdateNotFound ::
  "'g app_env \<Rightarrow> NotFoundSettings option \<Rightarrow> http_request \<Rightarrow> 'g app \<Rightarrow> 'g settings_reply" where
  "Settings_UpdateNotFound en body r ap =
     (let oldValue = not_found_text (GetNotFoundSettings (ae_flt en) (db_settings (ap_db ap))) in
      case body of
        None \<Rightarrow> (ap, BadRequest ''Invalid request body'')
      | Some req \<Rightarrow>
          if nf_Mode req \<noteq> ''default'' \<and> nf_Mode req \<noteq> ''redirect''
          then (ap, BadRequest (''Mode must be 'default' or 'redirect'' @ [CHR 0x27]))
          else if nf_Mode req = ''redirect'' \<and> nf_RedirectURL req = []
          then (ap, BadRequest (''Redirect URL is required when mode is 'redirect'' @ [CHR 0x27]))
          else (case SettingsService_SetNotFoundSettings en req ap of
              (ap1, Some _) \<Rightarrow> (ap1, InternalError ''Failed to update 404 settings'')
            | (ap1, None) \<Rightarrow>
                (audit_setting en r ''not_found_settings'' oldValue (not_found_text req) ap1,
                 Success (Some (NotFoundData req)) ''404 settings updated successfully'')))"

section \<open>The published metrics\<close>

definition dto_of :: "MetricsPublishSettings \<Rightarrow> MetricsPublishDTO" where
  "dto_of s =
     \<lparr>md_Enabled = mp_Enabled s, md_Host = mp_Host s, md_Path = mp_Path s, md_BasicAuthUser = mp_BasicAuthUser s,
      md_HasBasicAuth = (mp_BasicAuthHash s \<noteq> []), md_AllowedCIDRs = mp_AllowedCIDRs s\<rparr>"

definition Settings_GetMetricsPublish :: "'g app_env \<Rightarrow> 'g app \<Rightarrow> settings_data http_response" where
  "Settings_GetMetricsPublish en ap =
     Success (Some (MetricsData (dto_of (GetMetricsPublishSettings (ae_flt en) (db_settings (ap_db ap))))))
       ''Metrics publish settings retrieved successfully''"

record UpdateMetricsPublishRequest =
  ump_Enabled :: bool
  ump_Host :: string
  ump_Path :: string
  ump_BasicAuthUser :: string
  ump_BasicAuthPassword :: string
  ump_AllowedCIDRs :: "string list"

definition metrics_of :: "UpdateMetricsPublishRequest \<Rightarrow> string \<Rightarrow> MetricsPublishSettings" where
  "metrics_of req hash =
     \<lparr>mp_Enabled = ump_Enabled req, mp_Host = TrimSpace (ump_Host req), mp_Path = str_default ''/metrics'' (ump_Path req),
      mp_BasicAuthUser = TrimSpace (ump_BasicAuthUser req), mp_BasicAuthHash = hash, mp_AllowedCIDRs = ump_AllowedCIDRs req\<rparr>"

text \<open>The checks of a request that enables the endpoint.\<close>

definition metrics_refused :: "UpdateMetricsPublishRequest \<Rightarrow> string \<Rightarrow> string option" where
  "metrics_refused req hash =
     (if \<not> ump_Enabled req then None
      else if TrimSpace (ump_Host req) = [] then Some ''Host is required when enabling metrics publish''
      else if TrimSpace (ump_BasicAuthUser req) = [] then Some ''Basic auth user is required when enabling metrics publish''
      else if hash = [] then Some ''A password is required when enabling metrics publish (no existing password found)''
      else None)"

definition metrics_text :: "bool \<Rightarrow> string \<Rightarrow> string" where
  "metrics_text enabled host = ''enabled='' @ (if enabled then ''true'' else ''false'') @ '' host='' @ host"

definition Settings_UpdateMetricsPublish ::
  "(string \<Rightarrow> string) \<Rightarrow> 'g app_env \<Rightarrow> UpdateMetricsPublishRequest option \<Rightarrow> http_request \<Rightarrow> 'g app \<Rightarrow> 'g settings_reply" where
  "Settings_UpdateMetricsPublish ep en body r ap =
     (let existing = GetMetricsPublishSettings (ae_flt en) (db_settings (ap_db ap)) in
      case body of
        None \<Rightarrow> (ap, BadRequest ''Invalid request body'')
      | Some req \<Rightarrow>
          (case List.find (\<lambda>cidr. ParseCIDR cidr = None) (ump_AllowedCIDRs req) of
             Some cidr \<Rightarrow> (ap, BadRequest (ep cidr))
           | None \<Rightarrow>
               (case (if ump_BasicAuthPassword req \<noteq> [] then ae_hash en (ump_BasicAuthPassword req)
                      else Some (mp_BasicAuthHash existing)) of
                  None \<Rightarrow> (ap, InternalError ''Failed to hash password'')
                | Some hashToStore \<Rightarrow>
                    (case metrics_refused req hashToStore of
                       Some msg \<Rightarrow> (ap, BadRequest msg)
                     | None \<Rightarrow>
                         let newSettings = metrics_of req hashToStore in
                         (case SettingsService_SetMetricsPublishSettings en newSettings ap of
                            (ap1, Some _) \<Rightarrow> (ap1, InternalError ''Failed to update metrics publish settings'')
                          | (ap1, None) \<Rightarrow>
                              (audit_setting en r ''metrics_publish_settings''
                                 (metrics_text (mp_Enabled existing) (mp_Host existing))
                                 (metrics_text (ump_Enabled req) (ump_Host req)) ap1,
                               Success (Some (MetricsData (dto_of newSettings)))
                                 ''Metrics publish settings updated successfully''))))))"

text \<open>
  The secrets among the settings - the password hash of the published metrics and the client secret of
  the single sign-on - never leave through the settings interface and cannot be overwritten by its
  generic call; and what makes the metrics endpoint public is never stored without protection.
\<close>

section \<open>Secrecy\<close>

text \<open>Two tables that differ in nothing but the values of secret settings.\<close>

definition same_public :: "settings_table \<Rightarrow> settings_table \<Rightarrow> bool" where
  "same_public t t' \<longleftrightarrow>
     (\<forall>k. \<not> IsSensitiveSettingKey k \<longrightarrow> map_of t k = map_of t' k) \<and>
     (\<forall>flt. GetValue flt SettingMetricsBasicAuthHash [] t = [] \<longleftrightarrow>
        GetValue flt SettingMetricsBasicAuthHash [] t' = [])"

lemma sensitive_keys: "IsSensitiveSettingKey k \<longleftrightarrow> k = SettingMetricsBasicAuthHash \<or> k = SettingSSOOIDCClientSecret"
  by (simp add: IsSensitiveSettingKey_def sensitiveSettingKeys_def)

lemma same_public_Get: "same_public t t' \<Longrightarrow> \<not> IsSensitiveSettingKey k \<Longrightarrow> Setting_Get flt k t = Setting_Get flt k t'"
  by (simp add: same_public_def Setting_Get_def)

lemma same_public_GetValue: "same_public t t' \<Longrightarrow> \<not> IsSensitiveSettingKey k \<Longrightarrow> GetValue flt k d t = GetValue flt k d t'"
  by (simp add: GetValue_def same_public_Get)

lemma same_public_dto:
  assumes "same_public t t'"
  shows "dto_of (GetMetricsPublishSettings flt t) = dto_of (GetMetricsPublishSettings flt t')"
    "GetNotFoundSettings flt t = GetNotFoundSettings flt t'"
proof -
  note v = same_public_GetValue[OF assms, of _ flt] and h = assms[unfolded same_public_def, THEN conjunct2, rule_format, of flt]
  show "dto_of (GetMetricsPublishSettings flt t) = dto_of (GetMetricsPublishSettings flt t')"
    by (simp add: dto_of_def GetMetricsPublishSettings_def Let_def h)
       (simp add: v sensitive_keys setting_keys)
  show "GetNotFoundSettings flt t = GetNotFoundSettings flt t'"
    by (simp add: GetNotFoundSettings_def v sensitive_keys setting_keys)
qed

lemma update_answer:
  "snd (Settings_Update en body r (set_settings t ap)) =
     (let key = URLParam r ''key'' in
      if key = [] then BadRequest ''Setting key is required''
      else if IsSensitiveSettingKey key then NotFound ''setting not found''
      else case body of
          None \<Rightarrow> BadRequest ''Invalid request body''
        | Some v \<Rightarrow> if ae_flt en (''Set '' @ key) \<or> length key > 255 then InternalError ''Failed to update setting''
            else Success (Some (OneSetting key v)) ''Setting updated successfully'')"
  by (simp add: Settings_Update_def Let_def Setting_Set_def split: option.split)

lemma LogEvent_cong:
  assumes "map_of t SettingAuditConfig = map_of t' SettingAuditConfig"
  shows "LogEvent en t ev au = LogEvent en t' ev au"
proof -
  have "Audit_GetConfig en t = Audit_GetConfig en t'"
    using assms by (simp add: Audit_GetConfig_def GetValue_def Setting_Get_def)
  then have "isEventEnabled en t = isEventEnabled en t'"
    by (intro ext) (simp add: isEventEnabled_def Audit_getConfig_cached_def split: option.split)
  then show ?thesis by (simp add: LogEvent_def)
qed

lemma audit_setting_audit:
  "ap_audit (audit_setting en r key old new (set_settings t ap)) =
     (if request_user r > 0
      then fst (LogEvent (audit_env_of en) t (LogSettingsUpdate (request_user r) key old new (getClientIP r) (UserAgent r)) (ap_audit ap))
      else ap_audit ap)"
  by (simp add: audit_setting_def audit_def)

lemma update_audit:
  assumes "same_public t t'"
  shows "ap_audit (fst (Settings_Update en body r (set_settings t ap))) =
    ap_audit (fst (Settings_Update en body r (set_settings t' ap)))"
proof (cases "URLParam r ''key'' = [] \<or> IsSensitiveSettingKey (URLParam r ''key'') \<or> body = None")
  case True
  then show ?thesis by (auto simp: Settings_Update_def Let_def)
next
  case False
  then obtain v where v: "body = Some v" "URLParam r ''key'' \<noteq> []" "\<not> IsSensitiveSettingKey (URLParam r ''key'')" by auto
  have "\<not> IsSensitiveSettingKey SettingAuditConfig" by (simp add: sensitive_keys setting_keys SettingAuditConfig_def)
  then have "map_of t SettingAuditConfig = map_of t' SettingAuditConfig" using assms by (simp add: same_public_def)
  then have "LogEvent e (AList.update k v t) ev au = LogEvent e (AList.update k v t') ev au" for e k ev au
    by (intro LogEvent_cong) (simp add: update_conv')
  then show ?thesis
    using v same_public_Get[OF assms v(3)]
    by (simp add: Settings_Update_def Let_def Setting_Set_def audit_setting_audit set_settings_def)
       (simp add: audit_setting_def audit_def)
qed

text \<open>
  C10. Secret settings are not disclosed: the answers of every reading call, the answer of the generic
  update and the audit entry it writes, the old value included, are the same for any two installations
  that differ only in their secrets (and agree on whether a metrics password is set at all). And the
  generic update leaves the secrets as they are.
\<close>

theorem secret_settings_not_disclosed:
  assumes "same_public t t'"
  shows "Settings_GetAll en (set_settings t ap) = Settings_GetAll en (set_settings t' ap) \<and>
    Settings_Get en r (set_settings t ap) = Settings_Get en r (set_settings t' ap) \<and>
    Settings_GetMetricsPublish en (set_settings t ap) = Settings_GetMetricsPublish en (set_settings t' ap) \<and>
    Settings_GetNotFound en (set_settings t ap) = Settings_GetNotFound en (set_settings t' ap) \<and>
    snd (Settings_Update en body r (set_settings t ap)) = snd (Settings_Update en body r (set_settings t' ap)) \<and>
    ap_audit (fst (Settings_Update en body r (set_settings t ap))) =
      ap_audit (fst (Settings_Update en body r (set_settings t' ap))) \<and>
    (IsSensitiveSettingKey k \<longrightarrow>
       map_of (db_settings (ap_db (fst (Settings_Update en body r (set_settings t ap))))) k = map_of t k)"
proof (intro conjI impI)
  have "(\<lambda>key. if IsSensitiveSettingKey key then None else map_of t key) =
      (\<lambda>key. if IsSensitiveSettingKey key then None else map_of t' key)"
    using assms by (auto simp: same_public_def fun_eq_iff)
  then show "Settings_GetAll en (set_settings t ap) = Settings_GetAll en (set_settings t' ap)"
    by (simp add: Settings_GetAll_def GetAll_def)
  show "Settings_Get en r (set_settings t ap) = Settings_Get en r (set_settings t' ap)"
    by (simp add: Settings_Get_def Let_def same_public_Get[OF assms])
  show "Settings_GetMetricsPublish en (set_settings t ap) = Settings_GetMetricsPublish en (set_settings t' ap)"
    "Settings_GetNotFound en (set_settings t ap) = Settings_GetNotFound en (set_settings t' ap)"
    by (simp_all add: Settings_GetMetricsPublish_def Settings_GetNotFound_def same_public_dto[OF assms])
  show "snd (Settings_Update en body r (set_settings t ap)) = snd (Settings_Update en body r (set_settings t' ap))"
    by (simp only: update_answer)
  show "ap_audit (fst (Settings_Update en body r (set_settings t ap))) =
      ap_audit (fst (Settings_Update en body r (set_settings t' ap)))"
    by (rule update_audit[OF assms])
  assume k: "IsSensitiveSettingKey k"
  have "db_settings (ap_db (audit_setting en r key old v a)) = db_settings (ap_db a)" for key old v and a :: "'a app"
    by (simp add: audit_setting_def)
  then show "map_of (db_settings (ap_db (fst (Settings_Update en body r (set_settings t ap))))) k = map_of t k"
    using k by (auto simp: Settings_Update_def Let_def Setting_Set_def update_conv' split: option.split)
qed

definition demo_secrets :: "string \<Rightarrow> settings_table" where
  "demo_secrets h = [(SettingMetricsBasicAuthHash, h), (SettingMetricsPublishHost, ''m.example.com'')]"

theorem secret_settings_not_disclosed_witness:
  "Settings_GetAll demo_aenv (set_settings (demo_secrets ''h1'') demo_app) =
   Settings_GetAll demo_aenv (set_settings (demo_secrets ''h2'') demo_app) \<and>
   Settings_GetMetricsPublish demo_aenv (set_settings (demo_secrets ''h1'') demo_app) =
   Settings_GetMetricsPublish demo_aenv (set_settings (demo_secrets ''h2'') demo_app)"
proof -
  have "same_public (demo_secrets ''h1'') (demo_secrets ''h2'')"
    by (simp add: same_public_def demo_secrets_def sensitive_keys GetValue_def Setting_Get_def)
  from secret_settings_not_disclosed[OF this] show ?thesis by blast
qed

section \<open>The metrics endpoint\<close>


definition demo_open_metrics :: UpdateMetricsPublishRequest where
  "demo_open_metrics =
     \<lparr>ump_Enabled = True, ump_Host = ''m.example.com'', ump_Path = [], ump_BasicAuthUser = ''prom'',
      ump_BasicAuthPassword = [], ump_AllowedCIDRs = [''10.0.0.0/8'']\<rparr>"


end
