(* ===== verification/Proxy_Handler.thy ===== *)
theory Proxy_Handler
  imports Handler_Base Sync_Deploy "HOL-Library.List_Lexorder" "HOL-Library.Char_ord"
begin

text \<open>
  The handlers of HTTP proxies: \<open>backend/internal/api/handlers/proxy.go\<close>. The service runs on the
  model of the sync service. A body that does not decode is \<^term>\<open>None\<close>; the members \<open>id\<close> and
  \<open>created_by\<close> of a body are taken to be absent. How the database orders rows and the texts of the
  JSON columns are parameters, as in the repository, and \<open>et\<close> renders the errors of the service.
\<close>

section \<open>Requests and answers\<close>

record createProxyRequest =
  rq_Proxy :: Proxy
  rq_SSLEnabled :: "bool option"
  rq_BlockExploits :: "bool option"
  rq_IsActive :: "bool option"

record updateProxyRequest =
  uq_Proxy :: Proxy
  uq_SSLEnabled :: "bool option"

text \<open>An item of an import is decoded on its own: its error text, or the request.\<close>

record importProxyRequest =
  mq_DryRun :: bool
  mq_Proxies :: "(string + createProxyRequest) list"

datatype proxy_data =
  ProxiesData "listed_proxy list_response"
| ProxyData Proxy
| ImportData "ImportSummary \<times> ImportItemResult list"
| BulkData BulkResult
| ExportsData "ProxyExport list"
| StatsData ProxyStats

type_synonym 'g proxy_reply = "'g app \<times> proxy_data http_response"

text \<open>
  A call of the service: the database and the sync service move on. The service never builds a
  \<open>CaddyError\<close>: \<open>NewCaddyError\<close> has no caller.
\<close>

definition app_syncer :: "'g app_env \<Rightarrow> 'g app \<Rightarrow> sync_state ProxySyncer" where
  "app_syncer en ap = sync_syncer (ae_sync_conf en) (ae_sync_env en) (ap_db ap)"

definition moved :: "acl_store \<Rightarrow> sync_state \<Rightarrow> 'g app \<Rightarrow> 'g app" where
  "moved st w ap = (set_acl st ap)\<lparr>ap_sync := w\<rparr>"

lemma moved_simps [simp]:
  "ap_acl (moved st w ap) = st" "ap_roles (moved st w ap) = ap_roles ap" "ap_audit (moved st w ap) = ap_audit ap"
  "ap_sync (moved st w ap) = w" "moved (ap_acl ap) (ap_sync ap) ap = ap"
  by (simp_all add: moved_def set_acl_def)

definition IsCaddyError :: "proxy_error \<Rightarrow> bool" where
  "IsCaddyError e = False"

section \<open>Listing\<close>

definition status_values :: "string \<Rightarrow> (string + string \<times> string)" where
  "status_values param =
     (if param = [] then Inr ([], [])
      else let fv = parseFilterParam param in
        if fv_Value fv \<noteq> ''active'' \<and> fv_Value fv \<noteq> ''inactive''
        then Inl (''Invalid status parameter: must be 'active' or 'inactive'' @ [CHR 0x27])
        else if fv_Operator fv = OpEq then Inr (fv_Value fv, [])
        else if fv_Operator fv = OpNot then Inr ([], fv_Value fv)
        else Inl ''Invalid operator for status filter'')"

definition ssl_value :: "string \<Rightarrow> (string + bool option)" where
  "ssl_value param =
     (if param = [] then Inr None
      else if param = ''true'' then Inr (Some True)
      else if param = ''false'' then Inr (Some False)
      else Inl (''Invalid ssl_enabled parameter: must be 'true' or 'false'' @ [CHR 0x27]))"

text \<open>The filters listing and export share, added to a request.\<close>

definition with_filters :: "http_request \<Rightarrow> ProxyListParams \<Rightarrow> (string + ProxyListParams)" where
  "with_filters r req =
     (case list_filter (Query_Get r ''type'') of
        None \<Rightarrow> Inl ''Invalid operator for type filter''
      | Some (types, excluded) \<Rightarrow>
          (case status_values (Query_Get r ''status'') of
             Inl msg \<Rightarrow> Inl msg
           | Inr (status, statusNot) \<Rightarrow>
               (case ssl_value (Query_Get r ''ssl_enabled'') of
                  Inl msg \<Rightarrow> Inl msg
                | Inr ssl \<Rightarrow>
                    Inr (req\<lparr>pl_Types := types, pl_TypesExclude := excluded, pl_Status := status,
                             pl_StatusNot := statusNot, pl_SSLEnabled := ssl\<rparr>))))"

definition optional_int :: "(int \<Rightarrow> bool) \<Rightarrow> string \<Rightarrow> int option" where
  "optional_int ok s = (if s = [] then Some 0 else case Atoi s of None \<Rightarrow> None | Some i \<Rightarrow> if ok i then Some i else None)"

definition list_request :: "http_request \<Rightarrow> (string + ProxyListParams)" where
  "list_request r =
     (case optional_int (\<lambda>i. 0 \<le> i) (Query_Get r ''page'') of
        None \<Rightarrow> Inl ''Invalid page parameter: must be a non-negative integer''
      | Some page \<Rightarrow>
          (case optional_int (\<lambda>i. 0 \<le> i \<and> i \<le> 100) (Query_Get r ''limit'') of
             None \<Rightarrow> Inl ''Invalid limit parameter: must be an integer between 0 and 100''
           | Some limit \<Rightarrow>
               map_sum (\<lambda>m. m) (\<lambda>req. req\<lparr>pl_Target := Query_Get r ''target''\<rparr>)
                 (with_filters r
                    \<lparr>pl_Page = page, pl_Limit = limit, pl_Search = Query_Get r ''search'', pl_Types = [],
                     pl_TypesExclude = [], pl_Status = [], pl_StatusNot = [], pl_SSLEnabled = None, pl_Target = [],
                     pl_Sort = Query_Get r ''sort'', pl_Order = Query_Get r ''order''\<rparr>)))"

definition H_ListProxies ::
  "'g app_env \<Rightarrow> Proxy order_by \<Rightarrow> (Proxy \<Rightarrow> string list) \<Rightarrow> http_request \<Rightarrow> 'g app \<Rightarrow> proxy_data http_response" where
  "H_ListProxies en ob cols r ap =
     (case list_request r of
        Inl msg \<Rightarrow> BadRequest msg
      | Inr req \<Rightarrow>
          (case ListProxies (ae_flt en) ob cols req (ap_acl ap) of
             Inl _ \<Rightarrow> InternalError ''Failed to list proxies''
           | Inr result \<Rightarrow> Success (Some (ProxiesData result)) []))"

definition H_GetProxy :: "'g app_env \<Rightarrow> http_request \<Rightarrow> 'g app \<Rightarrow> proxy_data http_response" where
  "H_GetProxy en r ap =
     (case Atoi (URLParam r ''id'') of
        None \<Rightarrow> BadRequest ''Invalid proxy ID''
      | Some i \<Rightarrow>
          (case GetProxyByID (ae_flt en) i (ap_acl ap) of
             Inl e \<Rightarrow> if e = NoSuchProxy then NotFound ''Proxy not found'' else InternalError ''Failed to get proxy''
           | Inr p \<Rightarrow> Success (Some (ProxyData p)) []))"

section \<open>Creating and importing\<close>

definition given :: "bool \<Rightarrow> bool option \<Rightarrow> bool" where
  "given d b = (case b of None \<Rightarrow> d | Some x \<Rightarrow> x)"

definition create_input :: "createProxyRequest \<Rightarrow> Proxy" where
  "create_input req =
     (rq_Proxy req)\<lparr>px_SSLEnabled := given True (rq_SSLEnabled req), px_BlockExploits := given True (rq_BlockExploits req),
        px_SSLForced := True, px_IsActive := True\<rparr>"

definition H_CreateProxy ::
  "(proxy_error \<Rightarrow> string) \<Rightarrow> 'g app_env \<Rightarrow> createProxyRequest option \<Rightarrow> http_request \<Rightarrow> 'g app \<Rightarrow> 'g proxy_reply" where
  "H_CreateProxy et en body r ap =
     (if hq_UserID r = [] then (ap, Unauthorized ''User not found in context'')
      else case Atoi (hq_UserID r) of
        None \<Rightarrow> (ap, Unauthorized ''Invalid user ID'')
      | Some userID \<Rightarrow>
          (case body of
             None \<Rightarrow> (ap, BadRequest ''Invalid request body format'')
           | Some req \<Rightarrow>
               let proxy = create_input req in
               (case CreateProxy (app_syncer en ap) (ae_flt en) proxy userID (ap_acl ap) (ap_sync ap) of
                  (st, w, Some e) \<Rightarrow>
                    (moved st w ap,
                     if e = ErrHostnameConflict then Conflict ''Hostname already exists''
                     else if IsCaddyError e then BadGateway (et e)
                     else BadRequest (et e))
                | (st, w, None) \<Rightarrow>
                    let created = proxy\<lparr>px_ID := tb_next (st_proxies (ap_acl ap)), px_CreatedBy := userID\<rparr> in
                    (audit en (LogProxyCreate userID created (getClientIP r) (UserAgent r)) (moved st w ap),
                     Created (Some (ProxyData created)) ''Proxy created successfully''))))"

definition maxImportProxies :: nat where "maxImportProxies = 1000"

definition import_input :: "string + createProxyRequest \<Rightarrow> ImportInput" where
  "import_input item =
     (case item of
        Inl err \<Rightarrow> \<lparr>ii_Proxy = None, ii_DecodeError = ''invalid item format: '' @ err\<rparr>
      | Inr cpr \<Rightarrow> \<lparr>ii_Proxy = Some ((create_input cpr)\<lparr>px_IsActive := given True (rq_IsActive cpr)\<rparr>), ii_DecodeError = []\<rparr>)"

definition H_ImportProxies ::
  "'g app_env \<Rightarrow> importProxyRequest option \<Rightarrow> http_request \<Rightarrow> 'g app \<Rightarrow> 'g proxy_reply" where
  "H_ImportProxies en body r ap =
     (case Atoi (hq_UserID r) of
        None \<Rightarrow> (ap, Unauthorized ''Invalid user ID'')
      | Some userID \<Rightarrow>
          (case body of
             None \<Rightarrow> (ap, BadRequest ''Invalid request body format'')
           | Some req \<Rightarrow>
               if mq_Proxies req = [] then (ap, BadRequest ''No proxies to import'')
               else if length (mq_Proxies req) > maxImportProxies then (ap, BadRequest ''Too many proxies to import (max 1000)'')
               else
                 (case ImportProxies (app_syncer en ap) (ae_flt en) (map import_input (mq_Proxies req)) (mq_DryRun req) userID
                         (ap_acl ap) (ap_sync ap) of
                    (st, w, summary, items) \<Rightarrow>
                      (moved st w ap, Success (Some (ImportData (summary, items))) ''Import processed''))))"

section \<open>Updating\<close>

text \<open>
  \<open>jsonEqual\<close> compares JSON texts, where the members of a map stand in the order of their keys. An
  empty map and the nil map are one value here.
\<close>

fun canonical :: "json \<Rightarrow> json" where
  "canonical (JArr xs) = JArr (map canonical xs)"
| "canonical (JObj kvs) = JObj (sort_key fst (map (\<lambda>(k, v). (k, canonical v)) kvs))"
| "canonical j = j"

definition jsonEqual :: "json \<Rightarrow> json \<Rightarrow> bool" where
  "jsonEqual a b \<longleftrightarrow> canonical a = canonical b"

definition json_of_headers :: "CustomHeaders \<Rightarrow> json" where
  "json_of_headers c =
     JObj ((if ch_Request c = [] then [] else [(''request'', JObj (map (map_prod (\<lambda>k. k) JStr) (ch_Request c)))]) @
           (if ch_Response c = [] then [] else [(''response'', JObj (map (map_prod (\<lambda>k. k) JStr) (ch_Response c)))]))"

definition json_opt :: "('a \<Rightarrow> json) \<Rightarrow> 'a option \<Rightarrow> json" where
  "json_opt enc x = (case x of None \<Rightarrow> JNull | Some y \<Rightarrow> enc y)"

definition json_change :: "string \<Rightarrow> json \<Rightarrow> json \<Rightarrow> JSONField" where
  "json_change key old new = (if jsonEqual old new then [] else [(key, old_new old new)])"

definition buildProxyChanges :: "Proxy \<Rightarrow> Proxy \<Rightarrow> JSONField option" where
  "buildProxyChanges old updated =
     (let changes =
        change ''hostname'' JStr (px_Hostname old) (px_Hostname updated) @
        change ''type'' JStr (px_Type old) (px_Type updated) @
        change ''ssl_enabled'' JBool (px_SSLEnabled old) (px_SSLEnabled updated) @
        change ''is_active'' JBool (px_IsActive old) (px_IsActive updated) @
        change ''name'' JStr (px_Name old) (px_Name updated) @
        json_change ''upstreams'' (json_opt (\<lambda>j. j) (px_Upstreams old)) (json_opt (\<lambda>j. j) (px_Upstreams updated)) @
        json_change ''redirect'' (JObj (px_RedirectConfig old)) (JObj (px_RedirectConfig updated)) @
        json_change ''description'' (json_opt JStr (px_Description old)) (json_opt JStr (px_Description updated)) @
        change ''block_exploits'' JBool (px_BlockExploits old) (px_BlockExploits updated) @
        change ''tls_insecure_skip_verify'' JBool (px_TLSInsecureSkipVerify old) (px_TLSInsecureSkipVerify updated) @
        json_change ''load_balancing'' (JObj (px_LoadBalancing old)) (JObj (px_LoadBalancing updated)) @
        json_change ''custom_headers'' (json_of_headers (px_CustomHeaders old)) (json_of_headers (px_CustomHeaders updated)) @
        json_change ''static'' (JObj (px_StaticConfig old)) (JObj (px_StaticConfig updated))
      in if changes = [] then None else Some changes)"

definition H_UpdateProxy ::
  "(proxy_error \<Rightarrow> string) \<Rightarrow> 'g app_env \<Rightarrow> updateProxyRequest option \<Rightarrow> http_request \<Rightarrow> 'g app \<Rightarrow> 'g proxy_reply" where
  "H_UpdateProxy et en body r ap =
     (let userID = request_user r in
      case Atoi (URLParam r ''id'') of
        None \<Rightarrow> (ap, BadRequest ''Invalid proxy ID'')
      | Some i \<Rightarrow>
          (case body of
             None \<Rightarrow> (ap, BadRequest ''Invalid request body format'')
           | Some req \<Rightarrow>
               (case GetProxyByID (ae_flt en) i (ap_acl ap) of
                  Inl e \<Rightarrow> (ap, if e = NoSuchProxy then NotFound ''Proxy not found'' else InternalError ''Failed to get proxy'')
                | Inr existing \<Rightarrow>
                    let proxy = (uq_Proxy req)\<lparr>px_SSLEnabled := given (px_SSLEnabled existing) (uq_SSLEnabled req)\<rparr> in
                    (case UpdateProxy (app_syncer en ap) (stage 1 (ae_flt en)) i proxy (ap_acl ap) (ap_sync ap) of
                       (st, w, Some e) \<Rightarrow>
                         (moved st w ap,
                          if e = NoSuchProxy then NotFound ''Proxy not found''
                          else if e = ErrHostnameConflict then Conflict ''Hostname already exists''
                          else if IsCaddyError e then BadGateway (et e)
                          else BadRequest (et e))
                     | (st, w, None) \<Rightarrow>
                         let updated = merge_update i existing proxy; ap1 = moved st w ap in
                         (if userID > 0
                          then audit en (LogProxyUpdate userID updated (buildProxyChanges existing updated) (getClientIP r)
                                 (UserAgent r)) ap1
                          else ap1,
                          Success (Some (ProxyData updated)) ''Proxy updated successfully'')))))"

section \<open>Deleting, enabling and disabling\<close>

definition H_DeleteProxy :: "'g app_env \<Rightarrow> http_request \<Rightarrow> 'g app \<Rightarrow> 'g proxy_reply" where
  "H_DeleteProxy en r ap =
     (let userID = request_user r in
      case Atoi (URLParam r ''id'') of
        None \<Rightarrow> (ap, BadRequest ''Invalid proxy ID'')
      | Some i \<Rightarrow>
          let (proxyName, proxyHostname) =
                (case GetProxyByID (ae_flt en) i (ap_acl ap) of Inl _ \<Rightarrow> ([], []) | Inr p \<Rightarrow> (px_Name p, px_Hostname p))
          in (case DeleteProxy (app_syncer en ap) (stage 1 (ae_flt en)) i (ap_acl ap) (ap_sync ap) of
                (st, w, Some e) \<Rightarrow>
                  (moved st w ap,
                   if e = NoSuchProxy then NotFound ''Proxy not found'' else InternalError ''Failed to delete proxy'')
              | (st, w, None) \<Rightarrow>
                  let ap1 = moved st w ap in
                  (if userID > 0
                   then audit en (LogProxyDelete userID i proxyName proxyHostname (getClientIP r) (UserAgent r)) ap1
                   else ap1,
                   Success None ''Proxy deleted successfully'')))"

text \<open>The audit entry of a switch is written for the proxy as it is read back.\<close>

definition audit_switch ::
  "(int \<Rightarrow> Proxy \<Rightarrow> string \<Rightarrow> string \<Rightarrow> AuditEvent) \<Rightarrow> 'g app_env \<Rightarrow> int \<Rightarrow> int \<Rightarrow> http_request \<Rightarrow> 'g app \<Rightarrow> 'g app" where
  "audit_switch ev en userID i r ap =
     (if userID > 0 then
        (case GetProxyByID (stage 1 (ae_flt en)) i (ap_acl ap) of
           Inl _ \<Rightarrow> ap
         | Inr p \<Rightarrow> audit en (ev userID p (getClientIP r) (UserAgent r)) ap)
      else ap)"

definition H_EnableProxy ::
  "(proxy_error \<Rightarrow> string) \<Rightarrow> 'g app_env \<Rightarrow> http_request \<Rightarrow> 'g app \<Rightarrow> 'g proxy_reply" where
  "H_EnableProxy et en r ap =
     (case Atoi (URLParam r ''id'') of
        None \<Rightarrow> (ap, BadRequest ''Invalid proxy ID'')
      | Some i \<Rightarrow>
          (case EnableProxy (app_syncer en ap) (ae_flt en) i (ap_acl ap) (ap_sync ap) of
             (st, w, Some e) \<Rightarrow>
               (moved st w ap,
                if e = NoSuchProxy then NotFound ''Proxy not found''
                else if e = ErrProxyAlreadyEnabled then BadRequest ''Proxy is already enabled''
                else if IsCaddyError e then BadGateway (et e)
                else InternalError ''Failed to enable proxy'')
           | (st, w, None) \<Rightarrow>
               (audit_switch LogProxyEnable en (request_user r) i r (moved st w ap),
                Success None ''Proxy enabled successfully'')))"

definition H_DisableProxy :: "'g app_env \<Rightarrow> http_request \<Rightarrow> 'g app \<Rightarrow> 'g proxy_reply" where
  "H_DisableProxy en r ap =
     (case Atoi (URLParam r ''id'') of
        None \<Rightarrow> (ap, BadRequest ''Invalid proxy ID'')
      | Some i \<Rightarrow>
          (case DisableProxy (app_syncer en ap) (ae_flt en) i (ap_acl ap) (ap_sync ap) of
             (st, w, Some e) \<Rightarrow>
               (moved st w ap,
                if e = NoSuchProxy then NotFound ''Proxy not found''
                else if e = ErrProxyAlreadyDisabled then BadRequest ''Proxy is already disabled''
                else InternalError ''Failed to disable proxy'')
           | (st, w, None) \<Rightarrow>
               (audit_switch LogProxyDisable en (request_user r) i r (moved st w ap),
                Success None ''Proxy disabled successfully'')))"

section \<open>Bulk operations\<close>

definition maxBulkProxyIDs :: nat where "maxBulkProxyIDs = 1000"

definition decodeBulkProxyIDs :: "int list option \<Rightarrow> (string + int list)" where
  "decodeBulkProxyIDs body =
     (case body of
        None \<Rightarrow> Inl ''Invalid request body format''
      | Some ids \<Rightarrow>
          if ids = [] then Inl ''ids must not be empty''
          else if length ids > maxBulkProxyIDs then Inl ''too many ids: maximum is 1000 per request''
          else Inr ids)"

definition BulkEnableProxies :: "'g app_env \<Rightarrow> int list option \<Rightarrow> 'g app \<Rightarrow> 'g proxy_reply" where
  "BulkEnableProxies en body ap =
     (case decodeBulkProxyIDs body of
        Inl msg \<Rightarrow> (ap, BadRequest msg)
      | Inr ids \<Rightarrow>
          (case BulkSetActive (app_syncer en ap) (ae_flt en) ids True (ap_acl ap) (ap_sync ap) of
             (st, w, report) \<Rightarrow> (moved st w ap, Success (Some (BulkData report)) ''Bulk enable completed'')))"

definition BulkDisableProxies :: "'g app_env \<Rightarrow> int list option \<Rightarrow> 'g app \<Rightarrow> 'g proxy_reply" where
  "BulkDisableProxies en body ap =
     (case decodeBulkProxyIDs body of
        Inl msg \<Rightarrow> (ap, BadRequest msg)
      | Inr ids \<Rightarrow>
          (case BulkSetActive (app_syncer en ap) (ae_flt en) ids False (ap_acl ap) (ap_sync ap) of
             (st, w, report) \<Rightarrow> (moved st w ap, Success (Some (BulkData report)) ''Bulk disable completed'')))"

definition BulkDeleteProxies :: "'g app_env \<Rightarrow> int list option \<Rightarrow> 'g app \<Rightarrow> 'g proxy_reply" where
  "BulkDeleteProxies en body ap =
     (case decodeBulkProxyIDs body of
        Inl msg \<Rightarrow> (ap, BadRequest msg)
      | Inr ids \<Rightarrow>
          (case BulkDelete (app_syncer en ap) (ae_flt en) ids (ap_acl ap) (ap_sync ap) of
             (st, w, report) \<Rightarrow> (moved st w ap, Success (Some (BulkData report)) ''Bulk delete completed'')))"

section \<open>Export and statistics\<close>

text \<open>Blank parts are skipped; \<^term>\<open>None\<close> for a part that is no integer.\<close>

fun export_ids :: "string list \<Rightarrow> int list option" where
  "export_ids [] = Some []"
| "export_ids (part # parts) =
     (let p = TrimSpace part in
      if p = [] then export_ids parts
      else case Atoi p of None \<Rightarrow> None | Some i \<Rightarrow> map_option (\<lambda>is. i # is) (export_ids parts))"

definition parseExportIDs :: "http_request \<Rightarrow> int list option" where
  "parseExportIDs r =
     (let idsParam = TrimSpace (Query_Get r ''ids'') in
      if idsParam = [] then Some [] else export_ids (Split CHR '','' idsParam))"

text \<open>\<open>fuel\<close> bounds the pages the service reads; \<^term>\<open>None\<close> is an export that has not ended.\<close>

definition H_ExportProxies ::
  "nat \<Rightarrow> 'g app_env \<Rightarrow> Proxy order_by \<Rightarrow> (Proxy \<Rightarrow> string list) \<Rightarrow> http_request \<Rightarrow> 'g app
    \<Rightarrow> proxy_data http_response option" where
  "H_ExportProxies fuel en ob cols r ap =
     (case parseExportIDs r of
        None \<Rightarrow> Some (BadRequest ''Invalid ids parameter: must be a comma-separated list of integers'')
      | Some ids \<Rightarrow>
          (case with_filters r
                  \<lparr>pl_Page = 0, pl_Limit = 0, pl_Search = Query_Get r ''search'', pl_Types = [], pl_TypesExclude = [],
                   pl_Status = [], pl_StatusNot = [], pl_SSLEnabled = None, pl_Target = [], pl_Sort = [], pl_Order = []\<rparr> of
             Inl msg \<Rightarrow> Some (BadRequest msg)
           | Inr req \<Rightarrow>
               map_option
                 (\<lambda>res. case res of
                    Inl _ \<Rightarrow> InternalError ''Failed to export proxies''
                  | Inr exports \<Rightarrow> Success (Some (ExportsData exports)) [])
                 (ExportProxies fuel (ae_flt en) ob cols ids req (ap_acl ap))))"

definition H_GetStats :: "'g app_env \<Rightarrow> 'g app \<Rightarrow> proxy_data http_response" where
  "H_GetStats en ap =
     (case Proxy_GetStats (ae_flt en) (ap_acl ap) of
        Inl _ \<Rightarrow> InternalError ''Failed to get proxy stats''
      | Inr stats \<Rightarrow> Success (Some (StatsData stats)) [])"

end
