(* ===== verification/L4_Handler.thy ===== *)
theory L4_Handler
  imports Handler_Base Auth_Handler Proxy_Handler L4_Service
begin

text \<open>
  Layer 4 proxies over HTTP: \<open>backend/internal/validation/l4_proxy.go\<close> and
  \<open>backend/internal/api/handlers/l4_proxy_handler.go\<close>. The handlers neither write audit entries nor
  synchronise. \<open>et\<close> renders the errors of the service.
\<close>

section \<open>Validation of a request\<close>

record L4RouteDTO =
  rd_Priority :: int
  rd_MatcherType :: string
  rd_SNIHostnames :: "string list"
  rd_AllowedIPRanges :: "string list"
  rd_RegexPattern :: "string option"
  rd_Upstreams :: "L4Upstream list option"
  rd_LoadBalancingPolicy :: string
  rd_TLSTerminate :: bool
  rd_TLSPassthrough :: bool
  rd_ProxyProtocolVersion :: "string option"

record 'a L4ProxyDTO =
  ld_Name :: string
  ld_Description :: "string option"
  ld_ListenPort :: int
  ld_Protocol :: string
  ld_IsActive :: 'a
  ld_Routes :: "L4RouteDTO list"

text \<open>
  The tags these requests use, with whether the field satisfies them. The validator reports the first
  failing tag of each field in the order of the structure, and \<open>dive\<close> goes into the elements.
\<close>

datatype vtag = VRequired | VMin int | VMax int | VOneOf "string list" | VGte int | VCidr

type_synonym field_checks = "string \<times> (vtag \<times> bool) list"

definition field_message :: "string \<Rightarrow> vtag \<Rightarrow> string" where
  "field_message name t =
     (let field = toSnakeCase name in
      case t of
        VRequired \<Rightarrow> field @ '' is required''
      | VMin n \<Rightarrow> field @ '' must be at least '' @ Itoa n @ '' characters''
      | VMax n \<Rightarrow> field @ '' must be at most '' @ Itoa n @ '' characters''
      | VOneOf xs \<Rightarrow> field @ '' must be one of: '' @ Join xs '' ''
      | VGte n \<Rightarrow> field @ '' is invalid''
      | VCidr \<Rightarrow> field @ '' is invalid'')"

definition failing_tag :: "field_checks \<Rightarrow> (string \<times> vtag) option" where
  "failing_tag f = map_option (\<lambda>t. (fst f, fst t)) (List.find (\<lambda>t. \<not> snd t) (snd f))"

definition validator_error :: "field_checks list \<Rightarrow> string option" where
  "validator_error fs =
     (case List.map_filter failing_tag fs of
        [] \<Rightarrow> None
      | (name, t) # _ \<Rightarrow> Some (toSnakeCase name @ '': '' @ field_message name t))"

definition string_between :: "int \<Rightarrow> int \<Rightarrow> string \<Rightarrow> (vtag \<times> bool) list" where
  "string_between lo hi s = [(VMin lo, lo \<le> int (rune_count s)), (VMax hi, int (rune_count s) \<le> hi)]"

definition int_between :: "int \<Rightarrow> int \<Rightarrow> int \<Rightarrow> (vtag \<times> bool) list" where
  "int_between lo hi n = [(VMin lo, lo \<le> n), (VMax hi, n \<le> hi)]"

definition one_of :: "string list \<Rightarrow> string \<Rightarrow> (vtag \<times> bool) list" where
  "one_of xs s = [(VOneOf xs, List.member xs s)]"

definition if_given :: "('a \<Rightarrow> (vtag \<times> bool) list) \<Rightarrow> 'a option \<Rightarrow> (vtag \<times> bool) list" where
  "if_given f x = (case x of None \<Rightarrow> [] | Some y \<Rightarrow> f y)"

text \<open>An element of a list is named after its field and index.\<close>

definition indexed :: "string \<Rightarrow> ('a \<Rightarrow> (vtag \<times> bool) list) \<Rightarrow> 'a list \<Rightarrow> field_checks list" where
  "indexed name f xs = map (\<lambda>(i, x). (name @ ''['' @ Itoa (int i) @ '']'', f x)) (List.enumerate 0 xs)"

definition upstream_checks :: "L4Upstream \<Rightarrow> field_checks list" where
  "upstream_checks u =
     [(''Host'', (VRequired, l4u_Host u \<noteq> []) # string_between 1 255 (l4u_Host u)),
      (''Port'', (VRequired, l4u_Port u \<noteq> 0) # int_between 1 65535 (l4u_Port u)),
      (''Weight'', if_given (int_between 0 100) (l4u_Weight u))]"

definition l4_matchers :: "string list" where
  "l4_matchers =
     [''any'', ''tls'', ''ssh'', ''postgres'', ''http'', ''rdp'', ''socks5'', ''remote_ip'', ''regexp'']"

definition l4_policies :: "string list" where
  "l4_policies = [''round_robin'', ''least_conn'', ''random'', ''first'', ''ip_hash'']"

definition route_checks :: "L4RouteDTO \<Rightarrow> field_checks list" where
  "route_checks d =
     [(''Priority'', [(VGte 0, 0 \<le> rd_Priority d)]),
      (''MatcherType'', (VRequired, rd_MatcherType d \<noteq> []) # one_of l4_matchers (rd_MatcherType d))] @
     indexed ''SNIHostnames'' (\<lambda>h. [(VMin 1, 1 \<le> rune_count h)]) (rd_SNIHostnames d) @
     indexed ''AllowedIPRanges'' (\<lambda>c. [(VCidr, ParseCIDR c \<noteq> None)]) (rd_AllowedIPRanges d) @
     [(''RegexPattern'', if_given (string_between 1 500) (rd_RegexPattern d)),
      (''Upstreams'', case rd_Upstreams d of None \<Rightarrow> [(VRequired, False)] | Some us \<Rightarrow> [(VRequired, True), (VMin 1, us \<noteq> [])])] @
     concat (map upstream_checks (case rd_Upstreams d of None \<Rightarrow> [] | Some us \<Rightarrow> us)) @
     [(''LoadBalancingPolicy'', (VRequired, rd_LoadBalancingPolicy d \<noteq> []) # one_of l4_policies (rd_LoadBalancingPolicy d)),
      (''ProxyProtocolVersion'', if_given (one_of [''v1'', ''v2'']) (rd_ProxyProtocolVersion d))]"

definition proxy_checks :: "'a L4ProxyDTO \<Rightarrow> field_checks list" where
  "proxy_checks d =
     [(''Name'', (VRequired, ld_Name d \<noteq> []) # string_between 1 255 (ld_Name d)),
      (''Description'', if_given (\<lambda>s. [(VMax 1000, rune_count s \<le> 1000)]) (ld_Description d)),
      (''ListenPort'', (VRequired, ld_ListenPort d \<noteq> 0) # int_between 1 65535 (ld_ListenPort d)),
      (''Protocol'', (VRequired, ld_Protocol d \<noteq> []) # one_of [''tcp'', ''udp''] (ld_Protocol d))] @
     concat (map route_checks (ld_Routes d))"

definition l4_refused :: "'a L4ProxyDTO \<Rightarrow> string option" where
  "l4_refused d = validator_error (proxy_checks d)"

section \<open>Conversion\<close>

definition dtoToCreateL4RouteRequest :: "L4RouteDTO \<Rightarrow> CreateL4RouteRequest" where
  "dtoToCreateL4RouteRequest d =
     \<lparr>rr4_Priority = rd_Priority d, rr4_MatcherType = rd_MatcherType d, rr4_SNIHostnames = rd_SNIHostnames d,
      rr4_AllowedIPRanges = rd_AllowedIPRanges d, rr4_RegexPattern = rd_RegexPattern d,
      rr4_Upstreams = (case rd_Upstreams d of None \<Rightarrow> [] | Some us \<Rightarrow> us),
      rr4_LoadBalancingPolicy = rd_LoadBalancingPolicy d, rr4_TLSTerminate = rd_TLSTerminate d,
      rr4_TLSPassthrough = rd_TLSPassthrough d, rr4_ProxyProtocolVersion = rd_ProxyProtocolVersion d\<rparr>"

definition dtoToCreateL4ProxyRequest :: "bool option L4ProxyDTO \<Rightarrow> L4ProxyRequest" where
  "dtoToCreateL4ProxyRequest d =
     \<lparr>rq4_Name = ld_Name d, rq4_Description = ld_Description d, rq4_ListenPort = ld_ListenPort d,
      rq4_Protocol = ld_Protocol d, rq4_IsActive = given True (ld_IsActive d),
      rq4_Routes = map dtoToCreateL4RouteRequest (ld_Routes d)\<rparr>"

definition dtoToUpdateL4ProxyRequest :: "bool L4ProxyDTO \<Rightarrow> L4ProxyRequest" where
  "dtoToUpdateL4ProxyRequest d =
     \<lparr>rq4_Name = ld_Name d, rq4_Description = ld_Description d, rq4_ListenPort = ld_ListenPort d,
      rq4_Protocol = ld_Protocol d, rq4_IsActive = ld_IsActive d,
      rq4_Routes = map dtoToCreateL4RouteRequest (ld_Routes d)\<rparr>"

section \<open>Handlers\<close>

datatype l4_data =
  L4sData "L4Proxy list_response"
| L4Data L4Proxy
| L4StatsData L4ProxyStats
| L4BulkData L4BulkResult
| L4ExportsData "L4ProxyRequest list"

type_synonym 'g l4_reply = "'g app \<times> l4_data http_response"

definition set_db :: "app_db \<Rightarrow> 'g app \<Rightarrow> 'g app" where
  "set_db db ap = ap\<lparr>ap_db := db\<rparr>"

text \<open>The filters of listing and export.\<close>

definition l4_filters :: "http_request \<Rightarrow> (string + string \<times> bool option)" where
  "l4_filters r =
     (let protocol = Query_Get r ''protocol''; isActiveStr = Query_Get r ''is_active'' in
      if protocol \<noteq> [] \<and> protocol \<noteq> ''tcp'' \<and> protocol \<noteq> ''udp''
      then Inl (''Invalid protocol parameter: must be 'tcp' or 'udp'' @ [CHR 0x27])
      else if isActiveStr = [] then Inr (protocol, None)
      else if isActiveStr = ''true'' then Inr (protocol, Some True)
      else if isActiveStr = ''false'' then Inr (protocol, Some False)
      else Inl (''Invalid is_active parameter: must be 'true' or 'false'' @ [CHR 0x27]))"

definition L4H_List :: "'g app_env \<Rightarrow> L4Proxy order_by \<Rightarrow> http_request \<Rightarrow> 'g app \<Rightarrow> l4_data http_response" where
  "L4H_List en ob r ap =
     (case optional_int (\<lambda>i. 0 \<le> i) (Query_Get r ''page'') of
        None \<Rightarrow> BadRequest ''Invalid page parameter: must be a non-negative integer''
      | Some page \<Rightarrow>
          (case optional_int (\<lambda>i. 0 \<le> i \<and> i \<le> 100) (Query_Get r ''limit'') of
             None \<Rightarrow> BadRequest ''Invalid limit parameter: must be an integer between 0 and 100''
           | Some limit \<Rightarrow>
               (case l4_filters r of
                  Inl msg \<Rightarrow> BadRequest msg
                | Inr (protocol, isActive) \<Rightarrow>
                    (case L4_List (ae_flt en) ob
                            \<lparr>ll_Page = page, ll_Limit = limit, ll_Search = Query_Get r ''search'', ll_Protocol = protocol,
                             ll_IsActive = isActive, ll_Sort = Query_Get r ''sort'', ll_Order = Query_Get r ''order''\<rparr> (ap_db ap) of
                       Inl _ \<Rightarrow> InternalError ''Failed to list L4 proxies''
                     | Inr result \<Rightarrow> Success (Some (L4sData result)) []))))"

definition L4H_Create ::
  "(l4_error \<Rightarrow> string) \<Rightarrow> 'g app_env \<Rightarrow> bool option L4ProxyDTO option \<Rightarrow> http_request \<Rightarrow> 'g app \<Rightarrow> 'g l4_reply" where
  "L4H_Create et en body r ap =
     (if hq_UserID r = [] then (ap, Unauthorized ''User not found in context'')
      else case Atoi (hq_UserID r) of
        None \<Rightarrow> (ap, Unauthorized ''Invalid user ID'')
      | Some userID \<Rightarrow>
          (case body of
             None \<Rightarrow> (ap, BadRequest ''Invalid request body format'')
           | Some req \<Rightarrow>
               (case l4_refused req of
                  Some msg \<Rightarrow> (ap, BadRequest msg)
                | None \<Rightarrow>
                    (case L4_Create (ae_flt en) (ae_now en) (dtoToCreateL4ProxyRequest req) userID (ap_db ap) of
                       (db, Inl e) \<Rightarrow>
                         (set_db db ap,
                          if e = ErrL4ProxyPortConflict then Conflict ''Port and protocol combination already in use''
                          else BadRequest (et e))
                     | (db, Inr p) \<Rightarrow> (set_db db ap, Created (Some (L4Data p)) ''L4 proxy created successfully'')))))"

definition L4H_Get :: "'g app_env \<Rightarrow> http_request \<Rightarrow> 'g app \<Rightarrow> l4_data http_response" where
  "L4H_Get en r ap =
     (case Atoi (URLParam r ''id'') of
        None \<Rightarrow> BadRequest ''Invalid L4 proxy ID''
      | Some i \<Rightarrow>
          (case L4_GetByID (ae_flt en) i (ap_db ap) of
             Inl e \<Rightarrow> if e = ErrL4ProxyNotFound then NotFound ''L4 proxy not found'' else InternalError ''Failed to get L4 proxy''
           | Inr p \<Rightarrow> Success (Some (L4Data p)) []))"

definition L4H_Update ::
  "(l4_error \<Rightarrow> string) \<Rightarrow> 'g app_env \<Rightarrow> bool L4ProxyDTO option \<Rightarrow> http_request \<Rightarrow> 'g app \<Rightarrow> 'g l4_reply" where
  "L4H_Update et en body r ap =
     (case Atoi (URLParam r ''id'') of
        None \<Rightarrow> (ap, BadRequest ''Invalid L4 proxy ID'')
      | Some i \<Rightarrow>
          (case body of
             None \<Rightarrow> (ap, BadRequest ''Invalid request body format'')
           | Some req \<Rightarrow>
               (case l4_refused req of
                  Some msg \<Rightarrow> (ap, BadRequest msg)
                | None \<Rightarrow>
                    (case L4_Update (ae_flt en) i (dtoToUpdateL4ProxyRequest req) (ap_db ap) of
                       (db, Inl e) \<Rightarrow>
                         (set_db db ap,
                          if e = ErrL4ProxyNotFound then NotFound ''L4 proxy not found''
                          else if e = ErrL4ProxyPortConflict then Conflict ''Port and protocol combination already in use''
                          else BadRequest (et e))
                     | (db, Inr p) \<Rightarrow> (set_db db ap, Success (Some (L4Data p)) ''L4 proxy updated successfully'')))))"

definition L4H_Delete :: "'g app_env \<Rightarrow> http_request \<Rightarrow> 'g app \<Rightarrow> 'g l4_reply" where
  "L4H_Delete en r ap =
     (case Atoi (URLParam r ''id'') of
        None \<Rightarrow> (ap, BadRequest ''Invalid L4 proxy ID'')
      | Some i \<Rightarrow>
          (case L4_Delete (ae_flt en) i (ap_db ap) of
             (db, Inl e) \<Rightarrow>
               (set_db db ap,
                if e = ErrL4ProxyNotFound then NotFound ''L4 proxy not found'' else InternalError ''Failed to delete L4 proxy'')
           | (db, Inr _) \<Rightarrow> (set_db db ap, Success None ''L4 proxy deleted successfully'')))"

definition L4H_ToggleActive :: "'g app_env \<Rightarrow> http_request \<Rightarrow> 'g app \<Rightarrow> 'g l4_reply" where
  "L4H_ToggleActive en r ap =
     (case Atoi (URLParam r ''id'') of
        None \<Rightarrow> (ap, BadRequest ''Invalid L4 proxy ID'')
      | Some i \<Rightarrow>
          (case ToggleActive (ae_flt en) i (ap_db ap) of
             (db, Inl e) \<Rightarrow>
               (set_db db ap,
                if e = ErrL4ProxyNotFound then NotFound ''L4 proxy not found''
                else InternalError ''Failed to toggle L4 proxy status'')
           | (db, Inr p) \<Rightarrow>
               (set_db db ap,
                Success (Some (L4Data p))
                  (if l4_IsActive p then ''L4 proxy enabled successfully'' else ''L4 proxy disabled successfully''))))"

definition L4H_GetStats :: "'g app_env \<Rightarrow> L4Proxy order_by \<Rightarrow> 'g app \<Rightarrow> l4_data http_response" where
  "L4H_GetStats en ob ap =
     (case L4_GetStats (ae_flt en) ob (ap_db ap) of
        Inl _ \<Rightarrow> InternalError ''Failed to get L4 proxy stats''
      | Inr stats \<Rightarrow> Success (Some (L4StatsData stats)) [])"

definition maxBulkL4ProxyIDs :: nat where "maxBulkL4ProxyIDs = 1000"

definition decodeBulkL4ProxyIDs :: "int list option \<Rightarrow> (string + int list)" where
  "decodeBulkL4ProxyIDs body =
     (case body of
        None \<Rightarrow> Inl ''Invalid request body format''
      | Some ids \<Rightarrow>
          if ids = [] then Inl ''ids must not be empty''
          else if length ids > maxBulkL4ProxyIDs then Inl ''too many ids: maximum is 1000 per request''
          else Inr ids)"

definition L4H_BulkEnable :: "'g app_env \<Rightarrow> int list option \<Rightarrow> 'g app \<Rightarrow> 'g l4_reply" where
  "L4H_BulkEnable en body ap =
     (case decodeBulkL4ProxyIDs body of
        Inl msg \<Rightarrow> (ap, BadRequest msg)
      | Inr ids \<Rightarrow>
          (case L4_BulkSetActive (ae_flt en) ids True (ap_db ap) of
             (db, report) \<Rightarrow> (set_db db ap, Success (Some (L4BulkData report)) ''Bulk enable completed'')))"

definition L4H_BulkDisable :: "'g app_env \<Rightarrow> int list option \<Rightarrow> 'g app \<Rightarrow> 'g l4_reply" where
  "L4H_BulkDisable en body ap =
     (case decodeBulkL4ProxyIDs body of
        Inl msg \<Rightarrow> (ap, BadRequest msg)
      | Inr ids \<Rightarrow>
          (case L4_BulkSetActive (ae_flt en) ids False (ap_db ap) of
             (db, report) \<Rightarrow> (set_db db ap, Success (Some (L4BulkData report)) ''Bulk disable completed'')))"

definition L4H_BulkDelete :: "'g app_env \<Rightarrow> int list option \<Rightarrow> 'g app \<Rightarrow> 'g l4_reply" where
  "L4H_BulkDelete en body ap =
     (case decodeBulkL4ProxyIDs body of
        Inl msg \<Rightarrow> (ap, BadRequest msg)
      | Inr ids \<Rightarrow>
          (case L4_BulkDelete (ae_flt en) ids (ap_db ap) of
             (db, report) \<Rightarrow> (set_db db ap, Success (Some (L4BulkData report)) ''Bulk delete completed'')))"

definition parseL4ExportIDs :: "http_request \<Rightarrow> int list option" where
  "parseL4ExportIDs r =
     (let idsParam = TrimSpace (Query_Get r ''ids'') in
      if idsParam = [] then Some [] else export_ids (Split CHR '','' idsParam))"

definition L4H_Export ::
  "nat \<Rightarrow> 'g app_env \<Rightarrow> L4Proxy order_by \<Rightarrow> http_request \<Rightarrow> 'g app \<Rightarrow> l4_data http_response option" where
  "L4H_Export fuel en ob r ap =
     (case parseL4ExportIDs r of
        None \<Rightarrow> Some (BadRequest ''Invalid ids parameter: must be a comma-separated list of integers'')
      | Some ids \<Rightarrow>
          (case l4_filters r of
             Inl msg \<Rightarrow> Some (BadRequest msg)
           | Inr (protocol, isActive) \<Rightarrow>
               map_option
                 (\<lambda>res. case res of
                    Inl _ \<Rightarrow> InternalError ''Failed to export L4 proxies''
                  | Inr exports \<Rightarrow> Success (Some (L4ExportsData exports)) [])
                 (ExportL4Proxies fuel (ae_flt en) ob ids
                    \<lparr>ll_Page = 0, ll_Limit = 0, ll_Search = Query_Get r ''search'', ll_Protocol = protocol,
                     ll_IsActive = isActive, ll_Sort = [], ll_Order = []\<rparr> (ap_db ap))))"

text \<open>How the two validations of a layer 4 request - of the request and of the model - fit together.\<close>

lemma validator_error_None:
  "validator_error fs = None \<longleftrightarrow> (\<forall>f \<in> set fs. \<forall>t \<in> set (snd f). snd t)"
proof -
  have "failing_tag f = None \<longleftrightarrow> (\<forall>t \<in> set (snd f). snd t)" for f
    unfolding failing_tag_def by (metis (no_types, lifting) find_None_iff map_option_is_None)
  moreover have "List.map_filter failing_tag fs = [] \<longleftrightarrow> (\<forall>f \<in> set fs. failing_tag f = None)"
    by (induction fs) (auto simp: List.map_filter_simps split: option.split)
  ultimately show ?thesis by (auto simp: validator_error_def split: list.split)
qed

lemmas check_defs = string_between_def int_between_def one_of_def if_given_def

definition route_accepted :: "L4RouteDTO \<Rightarrow> bool" where
  "route_accepted d \<longleftrightarrow> (\<forall>f \<in> set (route_checks d). \<forall>t \<in> set (snd f). snd t)"

lemma l4_accepted:
  "l4_refused d = None \<Longrightarrow> ld_Name d \<noteq> [] \<and> 1 \<le> ld_ListenPort d \<and> ld_ListenPort d \<le> 65535 \<and>
     (ld_Protocol d = ''tcp'' \<or> ld_Protocol d = ''udp'') \<and> (\<forall>r \<in> set (ld_Routes d). route_accepted r)"
  by (auto simp: l4_refused_def validator_error_None proxy_checks_def check_defs route_accepted_def)

lemma route_accepted_fields:
  assumes "route_accepted d"
  obtains us where "rd_Upstreams d = Some us" "us \<noteq> []" "\<forall>u \<in> set us. L4Upstream_Validate u = None"
    "List.member l4_matchers (rd_MatcherType d)" "List.member l4_policies (rd_LoadBalancingPolicy d)"
    "rd_RegexPattern d \<noteq> Some []"
proof -
  obtain us where us: "rd_Upstreams d = Some us"
    using assms by (cases "rd_Upstreams d") (auto simp: route_accepted_def route_checks_def)
  have "L4Upstream_Validate u = None" if "u \<in> set us" for u
  proof -
    have "\<forall>f \<in> set (upstream_checks u). \<forall>t \<in> set (snd f). snd t"
      using assms us that by (auto simp: route_accepted_def route_checks_def)
    then show ?thesis by (auto simp: upstream_checks_def check_defs L4Upstream_Validate_def)
  qed
  moreover have "us \<noteq> []" "List.member l4_matchers (rd_MatcherType d)" "List.member l4_policies (rd_LoadBalancingPolicy d)"
    using assms us by (auto simp: route_accepted_def route_checks_def check_defs)
  moreover have "rd_RegexPattern d \<noteq> Some []"
    using assms by (auto simp: route_accepted_def route_checks_def check_defs rune_count_def)
  ultimately show thesis using that us by blast
qed

definition route_consistent :: "L4RouteDTO \<Rightarrow> bool" where
  "route_consistent d \<longleftrightarrow>
     \<not> (rd_TLSTerminate d \<and> rd_TLSPassthrough d) \<and>
     (rd_MatcherType d = ''regexp'' \<longrightarrow> rd_RegexPattern d \<noteq> None) \<and>
     (rd_MatcherType d = ''tls'' \<longrightarrow> rd_SNIHostnames d \<noteq> [])"

lemma route_validators:
  assumes "route_accepted d"
  shows "L4Route_Validate (routeRequestToModel (dtoToCreateL4RouteRequest d)) = None \<longleftrightarrow> route_consistent d"
proof -
  obtain us where us: "rd_Upstreams d = Some us" "us \<noteq> []" "\<forall>u \<in> set us. L4Upstream_Validate u = None"
    "List.member l4_matchers (rd_MatcherType d)" "List.member l4_policies (rd_LoadBalancingPolicy d)"
    "rd_RegexPattern d \<noteq> Some []"
    using route_accepted_fields[OF assms] .
  have m: "List.member validMatcherTypes (rd_MatcherType d)" "List.member validLBPolicies (rd_LoadBalancingPolicy d)"
    using us(4,5) by (auto simp: l4_matchers_def l4_policies_def validMatcherTypes_def validLBPolicies_def)
  have "first_error L4Upstream_Validate us = None" using us(3) by (simp add: first_error_None)
  with us m show ?thesis
    by (simp add: L4Route_Validate_def routeRequestToModel_def dtoToCreateL4RouteRequest_def route_consistent_def)
qed

text \<open>
  C28. The two validations of a layer 4 request fit together: a request that the declarative validation
  lets through is accepted by the model exactly when its name is at most 255 bytes long (the
  declarative check counts characters) and each route is consistent - not both TLS modes, a pattern for
  the regular expression matcher, and host names for the TLS matcher, which no tag expresses.
\<close>

theorem l4_validations_agree:
  assumes "l4_refused d = None"
  shows "L4Proxy_Validate (requestToModel (dtoToCreateL4ProxyRequest d)) = None \<longleftrightarrow>
    length (ld_Name d) \<le> 255 \<and> (\<forall>r \<in> set (ld_Routes d). route_consistent r)"
  using l4_accepted[OF assms] route_validators
  by (auto simp: L4Proxy_Validate_None requestToModel_def dtoToCreateL4ProxyRequest_def IsValidL4Protocol_def
      L4ProtocolTCP_def L4ProtocolUDP_def)

definition demo_l4_dto :: "bool option L4ProxyDTO" where
  "demo_l4_dto =
     \<lparr>ld_Name = ''ssh'', ld_Description = None, ld_ListenPort = 2222, ld_Protocol = ''tcp'', ld_IsActive = None,
      ld_Routes = [\<lparr>rd_Priority = 0, rd_MatcherType = ''tls'', rd_SNIHostnames = [], rd_AllowedIPRanges = [],
        rd_RegexPattern = None, rd_Upstreams = Some [\<lparr>l4u_Host = ''10.0.0.5'', l4u_Port = 22, l4u_Weight = None\<rparr>],
        rd_LoadBalancingPolicy = ''round_robin'', rd_TLSTerminate = False, rd_TLSPassthrough = True,
        rd_ProxyProtocolVersion = None\<rparr>]\<rparr>"

theorem l4_validations_agree_witness:
  "l4_refused demo_l4_dto = None \<and> L4Proxy_Validate (requestToModel (dtoToCreateL4ProxyRequest demo_l4_dto)) \<noteq> None"
proof -
  have a: "l4_refused demo_l4_dto = None" by code_simp
  with l4_validations_agree[OF a] show ?thesis by (simp add: demo_l4_dto_def route_consistent_def)
qed

end
