(* ===== verification/Acl_Handler.thy ===== *)
theory Acl_Handler
  imports Handler_Base
begin

text \<open>
  The handlers of access-control groups: \<open>backend/internal/api/handlers/acl_handler.go\<close>. A body that
  does not decode is \<^term>\<open>None\<close>. Each handler is the sequence of its checks, reads, the service call,
  the audit entry and the synchronisation of the proxies that use the group.
\<close>

section \<open>Requests and answers\<close>

record CreateGroupRequest =
  cq_Name :: string
  cq_Description :: "string option"
  cq_CombinationMode :: string

record AddIPRuleRequest =
  iq_RuleType :: string
  iq_CIDR :: string
  iq_Description :: "string option"
  iq_Priority :: int

record AddBasicAuthUserRequest =
  bq_Username :: string
  bq_Password :: string

record AddExternalProviderRequest =
  eq_ProviderType :: string
  eq_Name :: string
  eq_VerifyURL :: string
  eq_AuthRedirectURL :: "string option"
  eq_HeadersToCopy :: "string list"

record ConfigureWaygatesAuthRequest =
  wq_Enabled :: bool
  wq_AllowedUsers :: "string list"
  wq_AllowedRoles :: "string list"
  wq_AllowedEmailPatterns :: "string list"
  wq_Require2FA :: bool
  wq_SessionTTL :: int
  wq_AllowedEmails :: "string list"
  wq_AllowedDomains :: "string list"
  wq_AllowedProviders :: "string list"

record UpdateBrandingRequest =
  gq_LogoURL :: "string option"
  gq_PrimaryColor :: string
  gq_BackgroundColor :: string
  gq_Title :: string
  gq_Subtitle :: "string option"
  gq_FooterText :: "string option"
  gq_CustomCSS :: "string option"

record SetOAuthProviderRestrictionRequest =
  oq_AllowedEmails :: "string list"
  oq_AllowedDomains :: "string list"
  oq_Enabled :: bool

datatype acl_data =
  GroupsData "ACLGroup list_response"
| GroupData ACLGroup
| RulesData "ACLIPRule list"
| RuleData ACLIPRule
| BasicUsersData "ACLBasicAuthUser list"
| UsernameData string
| ProvidersData "ACLExternalProvider list"
| ProviderData ACLExternalProvider
| WaygatesData ACLWaygatesAuth
| BrandingData ACLBranding
| AssignmentsData "ProxyACLAssignment list"
| OptionsData AuthOptionsResponse
| RestrictionsData "ACLOAuthProviderRestriction list"
| RestrictionData string "string list" "string list" bool

type_synonym 'g acl_reply = "'g app \<times> acl_data http_response"

definition syncProxiesUsingGroup :: "'g app_env \<Rightarrow> int \<Rightarrow> 'g app \<Rightarrow> 'g app" where
  "syncProxiesUsingGroup en groupID ap =
     (case GetGroupUsage (stage 3 (ae_flt en)) groupID (ap_acl ap) of
        Inl _ \<Rightarrow> ap
      | Inr assignments \<Rightarrow> fold (sync_proxy en) (map pa_ProxyID assignments) ap)"

lemma syncProxiesUsingGroup_simps [simp]:
  "ap_db (syncProxiesUsingGroup en g ap) = ap_db ap" "ap_roles (syncProxiesUsingGroup en g ap) = ap_roles ap"
  "ap_audit (syncProxiesUsingGroup en g ap) = ap_audit ap"
  by (simp_all add: syncProxiesUsingGroup_def split: sum.splits)

text \<open>The recurring answers to a group that cannot be read.\<close>

definition group_failed :: "acl_error \<Rightarrow> acl_data http_response" where
  "group_failed e = (if e = ErrACLGroupNotFound then NotFound ''ACL group not found'' else InternalError ''Failed to get ACL group'')"

definition row_failed :: "string \<Rightarrow> string \<Rightarrow> db_error \<Rightarrow> acl_data http_response" where
  "row_failed missing failed e = (if e = RecordNotFound then NotFound missing else InternalError failed)"

definition valid_mode :: "string \<Rightarrow> bool" where
  "valid_mode m \<longleftrightarrow> m = ACLCombinationModeAny \<or> m = ACLCombinationModeAll \<or> m = ACLCombinationModeIPBypass"

definition bad_mode :: string where
  "bad_mode = ''Invalid combination_mode: must be 'any', 'all', or 'ip_bypass'' @ [CHR 0x27]"

section \<open>Groups\<close>

definition group_page :: "http_request \<Rightarrow> (string + ACLGroupListParams)" where
  "group_page r =
     (let pageStr = Query_Get r ''page''; limitStr = Query_Get r ''limit'' in
      case (if pageStr = [] then Some 1 else case Atoi pageStr of Some p \<Rightarrow> if p < 1 then None else Some p | None \<Rightarrow> None) of
        None \<Rightarrow> Inl ''Invalid page parameter: must be a positive integer''
      | Some page \<Rightarrow>
          (case (if limitStr = [] then Some 20
                 else case Atoi limitStr of Some l \<Rightarrow> if l < 1 \<or> l > 100 then None else Some l | None \<Rightarrow> None) of
             None \<Rightarrow> Inl ''Invalid limit parameter: must be an integer between 1 and 100''
           | Some limit \<Rightarrow>
               Inr \<lparr>gl_Page = page, gl_Limit = limit, gl_Search = Query_Get r ''search'', gl_Sort = Query_Get r ''sort'',
                    gl_Order = Query_Get r ''order''\<rparr>))"

definition ACL_ListGroups :: "'g app_env \<Rightarrow> ACLGroup order_by \<Rightarrow> http_request \<Rightarrow> 'g app \<Rightarrow> acl_data http_response" where
  "ACL_ListGroups en ob r ap =
     (case group_page r of
        Inl msg \<Rightarrow> BadRequest msg
      | Inr req \<Rightarrow>
          (case ListGroups (ae_flt en) ob req (ap_acl ap) of
             Inl _ \<Rightarrow> InternalError ''Failed to list ACL groups''
           | Inr result \<Rightarrow> Success (Some (GroupsData result)) []))"

definition new_group :: "string \<Rightarrow> string option \<Rightarrow> string \<Rightarrow> ACLGroup" where
  "new_group name description mode =
     \<lparr>gr_ID = 0, gr_Name = name, gr_Description = description, gr_CombinationMode = mode, gr_CreatedBy = 0,
      gr_IPRules = [], gr_BasicAuthUsers = [], gr_ExternalProviders = [], gr_WaygatesAuth = None,
      gr_OAuthProviderRestrictions = []\<rparr>"

definition CreateGroup_failed :: "acl_error \<Rightarrow> acl_data http_response" where
  "CreateGroup_failed err =
     (case err of
        ErrACLGroupNameExists \<Rightarrow> Conflict ''ACL group with this name already exists''
      | InvalidModel e \<Rightarrow> BadRequest (validation_message e)
      | _ \<Rightarrow> InternalError ''Failed to create ACL group'')"

definition ACL_CreateGroup ::
  "'g app_env \<Rightarrow> CreateGroupRequest option \<Rightarrow> http_request \<Rightarrow> 'g app \<Rightarrow> 'g acl_reply" where
  "ACL_CreateGroup en body r ap =
     (if hq_UserID r = [] then (ap, Unauthorized ''User not found in context'')
      else case Atoi (hq_UserID r) of
        None \<Rightarrow> (ap, Unauthorized ''Invalid user ID'')
      | Some userID \<Rightarrow>
          (case body of
             None \<Rightarrow> (ap, BadRequest ''Invalid request body format'')
           | Some req \<Rightarrow>
               if cq_Name req = [] then (ap, BadRequest ''Name is required'')
               else let mode = str_default ACLCombinationModeAny (cq_CombinationMode req) in
                 if \<not> valid_mode mode
                 then (ap, BadRequest bad_mode)
                 else
                   let grp = new_group (cq_Name req) (cq_Description req) mode
                   in (case CreateGroup (ae_flt en) grp userID (ap_acl ap) of
                         (st, Some e) \<Rightarrow> (set_acl st ap, CreateGroup_failed e)
                       | (st, None) \<Rightarrow>
                           let created = grp\<lparr>gr_ID := tb_next (st_groups (ap_acl ap)), gr_CreatedBy := userID\<rparr> in
                           (audit en (LogACLGroupCreate userID created (getClientIP r) (UserAgent r)) (set_acl st ap),
                            Created (Some (GroupData created)) ''ACL group created successfully''))))"

definition ACL_GetGroup :: "'g app_env \<Rightarrow> http_request \<Rightarrow> 'g app \<Rightarrow> acl_data http_response" where
  "ACL_GetGroup en r ap =
     (case Atoi (URLParam r ''id'') of
        None \<Rightarrow> BadRequest ''Invalid ACL group ID''
      | Some i \<Rightarrow>
          (case GetGroup (ae_flt en) i (ap_acl ap) of
             Inl e \<Rightarrow> group_failed e
           | Inr g \<Rightarrow> Success (Some (GroupData g)) []))"

definition buildACLGroupChanges :: "ACLGroup \<Rightarrow> ACLGroup \<Rightarrow> JSONField" where
  "buildACLGroupChanges old updated =
     change ''name'' JStr (gr_Name old) (gr_Name updated) @
     change ''description'' JStr (text_of (gr_Description old)) (text_of (gr_Description updated)) @
     change ''combination_mode'' JStr (gr_CombinationMode old) (gr_CombinationMode updated)"

definition UpdateGroup_failed :: "acl_error \<Rightarrow> acl_data http_response" where
  "UpdateGroup_failed err =
     (case err of
        ErrACLGroupNotFound \<Rightarrow> NotFound ''ACL group not found''
      | ErrACLGroupNameExists \<Rightarrow> Conflict ''ACL group with this name already exists''
      | InvalidModel e \<Rightarrow> BadRequest (validation_message e)
      | _ \<Rightarrow> InternalError ''Failed to update ACL group'')"

definition ACL_UpdateGroup ::
  "'g app_env \<Rightarrow> CreateGroupRequest option \<Rightarrow> http_request \<Rightarrow> 'g app \<Rightarrow> 'g acl_reply" where
  "ACL_UpdateGroup en body r ap =
     (case Atoi (URLParam r ''id'') of
        None \<Rightarrow> (ap, BadRequest ''Invalid ACL group ID'')
      | Some i \<Rightarrow>
          (case GetGroup (ae_flt en) i (ap_acl ap) of
             Inl e \<Rightarrow> (ap, group_failed e)
           | Inr oldGroup \<Rightarrow>
               (case body of
                  None \<Rightarrow> (ap, BadRequest ''Invalid request body format'')
                | Some req \<Rightarrow>
                    if cq_Name req = [] then (ap, BadRequest ''Name is required'')
                    else if cq_CombinationMode req \<noteq> [] \<and> \<not> valid_mode (cq_CombinationMode req)
                    then (ap, BadRequest bad_mode)
                    else
                      let updates = new_group (cq_Name req) (cq_Description req) (cq_CombinationMode req)
                      in (case UpdateGroup (stage 1 (ae_flt en)) i updates (ap_acl ap) of
                            (st, Some e) \<Rightarrow> (set_acl st ap, UpdateGroup_failed e)
                          | (st, None) \<Rightarrow>
                              (case GetGroup (stage 2 (ae_flt en)) i st of
                                 Inl _ \<Rightarrow> (set_acl st ap, InternalError ''Failed to get updated ACL group'')
                               | Inr g \<Rightarrow>
                                   (audit en (LogACLGroupUpdate (request_user r) g (Some (buildACLGroupChanges oldGroup g))
                                      (getClientIP r) (UserAgent r)) (set_acl st ap),
                                    Success (Some (GroupData g)) ''ACL group updated successfully''))))))"

definition ACL_DeleteGroup :: "'g app_env \<Rightarrow> http_request \<Rightarrow> 'g app \<Rightarrow> 'g acl_reply" where
  "ACL_DeleteGroup en r ap =
     (case Atoi (URLParam r ''id'') of
        None \<Rightarrow> (ap, BadRequest ''Invalid ACL group ID'')
      | Some i \<Rightarrow>
          (case GetGroup (ae_flt en) i (ap_acl ap) of
             Inl e \<Rightarrow> (ap, group_failed e)
           | Inr grp \<Rightarrow>
               (case DeleteGroupWithSync (stage 1 (ae_flt en)) True i (ap_acl ap) of
                  (st, ids, Some e) \<Rightarrow>
                    (set_acl st ap, if e = ErrACLGroupNotFound then NotFound ''ACL group not found''
                                    else InternalError ''Failed to delete ACL group'')
                | (st, ids, None) \<Rightarrow>
                    let ap1 = fold (sync_proxy en) (case ids of None \<Rightarrow> [] | Some l \<Rightarrow> l) (set_acl st ap) in
                    (audit en (LogACLGroupDelete (request_user r) i (gr_Name grp) (getClientIP r) (UserAgent r)) ap1,
                     Success None ''ACL group deleted successfully''))))"

definition ACL_GetGroupUsage :: "'g app_env \<Rightarrow> http_request \<Rightarrow> 'g app \<Rightarrow> acl_data http_response" where
  "ACL_GetGroupUsage en r ap =
     (case Atoi (URLParam r ''id'') of
        None \<Rightarrow> BadRequest ''Invalid ACL group ID''
      | Some i \<Rightarrow>
          (case GetGroup (ae_flt en) i (ap_acl ap) of
             Inl e \<Rightarrow> group_failed e
           | Inr _ \<Rightarrow>
               (case GetGroupUsage (ae_flt en) i (ap_acl ap) of
                  Inl _ \<Rightarrow> InternalError ''Failed to get ACL group usage''
                | Inr as \<Rightarrow> Success (Some (AssignmentsData as)) [])))"

section \<open>IP rules\<close>

definition ACL_ListIPRules :: "'g app_env \<Rightarrow> http_request \<Rightarrow> 'g app \<Rightarrow> acl_data http_response" where
  "ACL_ListIPRules en r ap =
     (case Atoi (URLParam r ''id'') of
        None \<Rightarrow> BadRequest ''Invalid ACL group ID''
      | Some i \<Rightarrow>
          (case GetGroup (ae_flt en) i (ap_acl ap) of
             Inl e \<Rightarrow> group_failed e
           | Inr _ \<Rightarrow>
               (case ListIPRules (ae_flt en) i (ap_acl ap) of
                  Inl _ \<Rightarrow> InternalError ''Failed to list IP rules''
                | Inr rules \<Rightarrow> Success (Some (RulesData rules)) [])))"

text \<open>The checks of a rule's body, which creation and update share: the message of the first that fails.\<close>

definition rule_refused :: "AddIPRuleRequest \<Rightarrow> string option" where
  "rule_refused req =
     (if iq_RuleType req = [] then Some ''rule_type is required''
      else if iq_CIDR req = [] then Some ''cidr is required''
      else if iq_RuleType req \<noteq> ACLIPRuleTypeAllow \<and> iq_RuleType req \<noteq> ACLIPRuleTypeDeny \<and>
              iq_RuleType req \<noteq> ACLIPRuleTypeBypass
      then Some (''Invalid rule_type: must be 'allow', 'deny', or 'bypass'' @ [CHR 0x27])
      else None)"

definition rule_of :: "int \<Rightarrow> AddIPRuleRequest \<Rightarrow> ACLIPRule" where
  "rule_of i req =
     \<lparr>ir_ID = i, ir_ACLGroupID = 0, ir_RuleType = iq_RuleType req, ir_CIDR = iq_CIDR req,
      ir_Description = iq_Description req, ir_Priority = iq_Priority req\<rparr>"

definition AddIPRule_failed :: "acl_error \<Rightarrow> acl_data http_response" where
  "AddIPRule_failed err =
     (case err of
        ErrACLGroupNotFound \<Rightarrow> NotFound ''ACL group not found''
      | ErrInvalidCIDR \<Rightarrow> BadRequest ''Invalid CIDR format''
      | InvalidModel e \<Rightarrow> BadRequest (validation_message e)
      | _ \<Rightarrow> InternalError ''Failed to add IP rule'')"

definition ACL_AddIPRule ::
  "'g app_env \<Rightarrow> AddIPRuleRequest option \<Rightarrow> http_request \<Rightarrow> 'g app \<Rightarrow> 'g acl_reply" where
  "ACL_AddIPRule en body r ap =
     (case Atoi (URLParam r ''id'') of
        None \<Rightarrow> (ap, BadRequest ''Invalid ACL group ID'')
      | Some groupID \<Rightarrow>
          (case GetGroup (ae_flt en) groupID (ap_acl ap) of
             Inl e \<Rightarrow> (ap, group_failed e)
           | Inr grp \<Rightarrow>
               (case body of
                  None \<Rightarrow> (ap, BadRequest ''Invalid request body format'')
                | Some req \<Rightarrow>
                    (case rule_refused req of
                       Some msg \<Rightarrow> (ap, BadRequest msg)
                     | None \<Rightarrow>
                         (case AddIPRule (stage 1 (ae_flt en)) groupID (rule_of 0 req) (ap_acl ap) of
                            (st, Some e) \<Rightarrow> (set_acl st ap, AddIPRule_failed e)
                          | (st, None) \<Rightarrow>
                              let rule = (rule_of (tb_next (st_ip_rules (ap_acl ap))) req)\<lparr>ir_ACLGroupID := groupID\<rparr> in
                              (syncProxiesUsingGroup en groupID
                                 (audit en (LogACLIPRuleAdd (request_user r) groupID (gr_Name grp) rule (getClientIP r)
                                    (UserAgent r)) (set_acl st ap)),
                               Created (Some (RuleData rule)) ''IP rule added successfully''))))))"

definition buildIPRuleChanges :: "ACLIPRule \<Rightarrow> ACLIPRule \<Rightarrow> JSONField" where
  "buildIPRuleChanges old updated =
     change ''rule_type'' JStr (ir_RuleType old) (ir_RuleType updated) @
     change ''cidr'' JStr (ir_CIDR old) (ir_CIDR updated) @
     change ''priority'' JInt (ir_Priority old) (ir_Priority updated) @
     change ''description'' JStr (text_of (ir_Description old)) (text_of (ir_Description updated))"

definition UpdateIPRule_failed :: "acl_error \<Rightarrow> acl_data http_response" where
  "UpdateIPRule_failed err =
     (case err of
        ErrIPRuleNotFound \<Rightarrow> NotFound ''IP rule not found''
      | ErrInvalidCIDR \<Rightarrow> BadRequest ''Invalid CIDR format''
      | InvalidModel e \<Rightarrow> BadRequest (validation_message e)
      | _ \<Rightarrow> InternalError ''Failed to update IP rule'')"

definition ACL_UpdateIPRule ::
  "'g app_env \<Rightarrow> AddIPRuleRequest option \<Rightarrow> http_request \<Rightarrow> 'g app \<Rightarrow> 'g acl_reply" where
  "ACL_UpdateIPRule en body r ap =
     (case Atoi (URLParam r ''id'') of
        None \<Rightarrow> (ap, BadRequest ''Invalid IP rule ID'')
      | Some i \<Rightarrow>
          (case GetIPRuleByID (ae_flt en) i (ap_acl ap) of
             Inl e \<Rightarrow> (ap, row_failed ''IP rule not found'' ''Failed to get IP rule'' e)
           | Inr existingRule \<Rightarrow>
               (case body of
                  None \<Rightarrow> (ap, BadRequest ''Invalid request body format'')
                | Some req \<Rightarrow>
                    (case rule_refused req of
                       Some msg \<Rightarrow> (ap, BadRequest msg)
                     | None \<Rightarrow>
                         let rule = rule_of i req in
                         (case UpdateIPRule (stage 1 (ae_flt en)) i rule (ap_acl ap) of
                            (st, Some e) \<Rightarrow> (set_acl st ap, UpdateIPRule_failed e)
                          | (st, None) \<Rightarrow>
                              (syncProxiesUsingGroup en (ir_ACLGroupID existingRule)
                                 (audit en (LogACLIPRuleUpdate (request_user r) rule (Some (buildIPRuleChanges existingRule rule))
                                    (getClientIP r) (UserAgent r)) (set_acl st ap)),
                               Success (Some (RuleData rule)) ''IP rule updated successfully''))))))"

text \<open>The name of a group for the audit log; it is empty when the group cannot be read.\<close>

definition group_name :: "faults \<Rightarrow> int \<Rightarrow> acl_store \<Rightarrow> string" where
  "group_name flt groupID st = (case GetGroup flt groupID st of Inl _ \<Rightarrow> [] | Inr g \<Rightarrow> gr_Name g)"

definition ACL_DeleteIPRule :: "'g app_env \<Rightarrow> http_request \<Rightarrow> 'g app \<Rightarrow> 'g acl_reply" where
  "ACL_DeleteIPRule en r ap =
     (case Atoi (URLParam r ''id'') of
        None \<Rightarrow> (ap, BadRequest ''Invalid IP rule ID'')
      | Some i \<Rightarrow>
          (case GetIPRuleByID (ae_flt en) i (ap_acl ap) of
             Inl e \<Rightarrow> (ap, row_failed ''IP rule not found'' ''Failed to get IP rule'' e)
           | Inr existingRule \<Rightarrow>
               let groupID = ir_ACLGroupID existingRule; groupName = group_name (ae_flt en) groupID (ap_acl ap) in
               (case DeleteIPRule (stage 1 (ae_flt en)) i (ap_acl ap) of
                  (st, Some e) \<Rightarrow>
                    (set_acl st ap, if e = ErrIPRuleNotFound then NotFound ''IP rule not found''
                                    else InternalError ''Failed to delete IP rule'')
                | (st, None) \<Rightarrow>
                    (syncProxiesUsingGroup en groupID
                       (audit en (LogACLIPRuleDelete (request_user r) i groupName (ir_CIDR existingRule) (ir_RuleType existingRule)
                          (getClientIP r) (UserAgent r)) (set_acl st ap)),
                     Success None ''IP rule deleted successfully''))))"

section \<open>Basic authentication\<close>

text \<open>bcrypt takes the cost \<^term>\<open>BcryptCost\<close>; the environment's hash function stands for it at that cost.\<close>

definition acl_hash :: "'g app_env \<Rightarrow> string \<Rightarrow> nat \<Rightarrow> string option" where
  "acl_hash en password cost = ae_hash en password"

definition ACL_ListBasicAuthUsers ::
  "'g app_env \<Rightarrow> (ACLBasicAuthUser list \<Rightarrow> ACLBasicAuthUser list) \<Rightarrow> http_request \<Rightarrow> 'g app \<Rightarrow> acl_data http_response" where
  "ACL_ListBasicAuthUsers en ob r ap =
     (case Atoi (URLParam r ''id'') of
        None \<Rightarrow> BadRequest ''Invalid ACL group ID''
      | Some i \<Rightarrow>
          (case GetGroup (ae_flt en) i (ap_acl ap) of
             Inl e \<Rightarrow> group_failed e
           | Inr _ \<Rightarrow>
               (case ListBasicAuthUsers (ae_flt en) ob i (ap_acl ap) of
                  Inl _ \<Rightarrow> InternalError ''Failed to list basic auth users''
                | Inr users \<Rightarrow> Success (Some (BasicUsersData users)) [])))"

definition password_refused :: "string \<Rightarrow> string option" where
  "password_refused password =
     (if password = [] then Some ''password is required''
      else if length password < 8 then Some ''password must be at least 8 characters''
      else None)"

definition AddBasicAuthUser_failed :: "acl_error \<Rightarrow> acl_data http_response" where
  "AddBasicAuthUser_failed err =
     (case err of
        ErrACLGroupNotFound \<Rightarrow> NotFound ''ACL group not found''
      | ErrBasicAuthUserExists \<Rightarrow> Conflict ''Basic auth user already exists in this group''
      | InvalidModel e \<Rightarrow> BadRequest (validation_message e)
      | _ \<Rightarrow> InternalError ''Failed to add basic auth user'')"

definition ACL_AddBasicAuthUser ::
  "'g app_env \<Rightarrow> AddBasicAuthUserRequest option \<Rightarrow> http_request \<Rightarrow> 'g app \<Rightarrow> 'g acl_reply" where
  "ACL_AddBasicAuthUser en body r ap =
     (case Atoi (URLParam r ''id'') of
        None \<Rightarrow> (ap, BadRequest ''Invalid ACL group ID'')
      | Some groupID \<Rightarrow>
          (case GetGroup (ae_flt en) groupID (ap_acl ap) of
             Inl e \<Rightarrow> (ap, group_failed e)
           | Inr grp \<Rightarrow>
               (case body of
                  None \<Rightarrow> (ap, BadRequest ''Invalid request body format'')
                | Some req \<Rightarrow>
                    if bq_Username req = [] then (ap, BadRequest ''username is required'')
                    else (case password_refused (bq_Password req) of
                       Some msg \<Rightarrow> (ap, BadRequest msg)
                     | None \<Rightarrow>
                         (case AddBasicAuthUser (acl_hash en) (stage 1 (ae_flt en)) groupID (bq_Username req) (bq_Password req) (ap_acl ap) of
                            (st, Some e) \<Rightarrow> (set_acl st ap, AddBasicAuthUser_failed e)
                          | (st, None) \<Rightarrow>
                              (syncProxiesUsingGroup en groupID
                                 (audit en (LogACLBasicAuthAdd (request_user r) groupID (gr_Name grp) (bq_Username req)
                                    (getClientIP r) (UserAgent r)) (set_acl st ap)),
                               Created (Some (UsernameData (bq_Username req))) ''Basic auth user added successfully''))))))"

definition UpdateBasicAuthUser_failed :: "acl_error \<Rightarrow> acl_data http_response" where
  "UpdateBasicAuthUser_failed err =
     (case err of
        ErrBasicAuthUserNotFound \<Rightarrow> NotFound ''Basic auth user not found''
      | InvalidModel e \<Rightarrow> BadRequest (validation_message e)
      | _ \<Rightarrow> InternalError ''Failed to update basic auth user'')"

definition ACL_UpdateBasicAuthUser ::
  "'g app_env \<Rightarrow> string option \<Rightarrow> http_request \<Rightarrow> 'g app \<Rightarrow> 'g acl_reply" where
  "ACL_UpdateBasicAuthUser en body r ap =
     (case Atoi (URLParam r ''id'') of
        None \<Rightarrow> (ap, BadRequest ''Invalid basic auth user ID'')
      | Some i \<Rightarrow>
          (case GetBasicAuthUserByID (ae_flt en) i (ap_acl ap) of
             Inl e \<Rightarrow> (ap, row_failed ''Basic auth user not found'' ''Failed to get basic auth user'' e)
           | Inr existingUser \<Rightarrow>
               let groupID = bu_ACLGroupID existingUser; groupName = group_name (ae_flt en) groupID (ap_acl ap) in
               (case body of
                  None \<Rightarrow> (ap, BadRequest ''Invalid request body format'')
                | Some password \<Rightarrow>
                    (case password_refused password of
                       Some msg \<Rightarrow> (ap, BadRequest msg)
                     | None \<Rightarrow>
                         (case UpdateBasicAuthPassword (acl_hash en) (stage 1 (ae_flt en)) i password (ap_acl ap) of
                            (st, Some e) \<Rightarrow> (set_acl st ap, UpdateBasicAuthUser_failed e)
                          | (st, None) \<Rightarrow>
                              (syncProxiesUsingGroup en groupID
                                 (audit en (LogACLBasicAuthUpdate (request_user r) i groupName (bu_Username existingUser)
                                    (getClientIP r) (UserAgent r)) (set_acl st ap)),
                               Success None ''Basic auth user password updated successfully''))))))"

definition ACL_DeleteBasicAuthUser :: "'g app_env \<Rightarrow> http_request \<Rightarrow> 'g app \<Rightarrow> 'g acl_reply" where
  "ACL_DeleteBasicAuthUser en r ap =
     (case Atoi (URLParam r ''id'') of
        None \<Rightarrow> (ap, BadRequest ''Invalid basic auth user ID'')
      | Some i \<Rightarrow>
          (case GetBasicAuthUserByID (ae_flt en) i (ap_acl ap) of
             Inl e \<Rightarrow> (ap, row_failed ''Basic auth user not found'' ''Failed to get basic auth user'' e)
           | Inr existingUser \<Rightarrow>
               let groupID = bu_ACLGroupID existingUser; groupName = group_name (ae_flt en) groupID (ap_acl ap) in
               (case DeleteBasicAuthUser (stage 1 (ae_flt en)) i (ap_acl ap) of
                  (st, Some e) \<Rightarrow>
                    (set_acl st ap, if e = ErrBasicAuthUserNotFound then NotFound ''Basic auth user not found''
                                    else InternalError ''Failed to delete basic auth user'')
                | (st, None) \<Rightarrow>
                    (syncProxiesUsingGroup en groupID
                       (audit en (LogACLBasicAuthDelete (request_user r) i groupName (bu_Username existingUser)
                          (getClientIP r) (UserAgent r)) (set_acl st ap)),
                     Success None ''Basic auth user deleted successfully''))))"

end
