(* ===== verification/Acl_Handler_Auth.thy ===== *)
theory Acl_Handler_Auth
  imports Acl_Handler Oauth_Handler
begin

text \<open>
  The rest of \<open>backend/internal/api/handlers/acl_handler.go\<close>: external providers, Waygates
  authentication, branding, the options of the login page and OAuth restrictions.
\<close>

section \<open>External providers\<close>

definition ACL_ListExternalProviders ::
  "'g app_env \<Rightarrow> (ACLExternalProvider list \<Rightarrow> ACLExternalProvider list) \<Rightarrow> http_request \<Rightarrow> 'g app \<Rightarrow> acl_data http_response" where
  "ACL_ListExternalProviders en ob r ap =
     (case Atoi (URLParam r ''id'') of
        None \<Rightarrow> BadRequest ''Invalid ACL group ID''
      | Some i \<Rightarrow>
          (case GetGroup (ae_flt en) i (ap_acl ap) of
             Inl e \<Rightarrow> group_failed e
           | Inr _ \<Rightarrow>
               (case ListExternalProviders (ae_flt en) ob i (ap_acl ap) of
                  Inl _ \<Rightarrow> InternalError ''Failed to list external providers''
                | Inr ps \<Rightarrow> Success (Some (ProvidersData ps)) [])))"

definition provider_refused :: "AddExternalProviderRequest \<Rightarrow> string option" where
  "provider_refused req =
     (if eq_ProviderType req = [] then Some ''provider_type is required''
      else if eq_Name req = [] then Some ''name is required''
      else if eq_VerifyURL req = [] then Some ''verify_url is required''
      else if eq_ProviderType req \<noteq> ACLProviderTypeAuthelia \<and> eq_ProviderType req \<noteq> ACLProviderTypeAuthentik \<and>
              eq_ProviderType req \<noteq> ACLProviderTypeCustom
      then Some (''Invalid provider_type: must be 'authelia', 'authentik', or 'custom'' @ [CHR 0x27])
      else None)"

definition provider_of :: "AddExternalProviderRequest \<Rightarrow> ACLExternalProvider" where
  "provider_of req =
     \<lparr>ep_ID = 0, ep_ACLGroupID = 0, ep_ProviderType = eq_ProviderType req, ep_Name = eq_Name req,
      ep_VerifyURL = eq_VerifyURL req, ep_AuthRedirectURL = eq_AuthRedirectURL req, ep_HeadersToCopy = eq_HeadersToCopy req\<rparr>"

definition AddExternalProvider_failed :: "acl_error \<Rightarrow> acl_data http_response" where
  "AddExternalProvider_failed err =
     (case err of
        ErrACLGroupNotFound \<Rightarrow> NotFound ''ACL group not found''
      | InvalidModel e \<Rightarrow> BadRequest (validation_message e)
      | _ \<Rightarrow> InternalError ''Failed to add external provider'')"

definition ACL_AddExternalProvider ::
  "'g app_env \<Rightarrow> AddExternalProviderRequest option \<Rightarrow> http_request \<Rightarrow> 'g app \<Rightarrow> 'g acl_reply" where
  "ACL_AddExternalProvider en body r ap =
     (case Atoi (URLParam r ''id'') of
        None \<Rightarrow> (ap, BadRequest ''Invalid ACL group ID'')
      | Some groupID \<Rightarrow>
          (case body of
             None \<Rightarrow> (ap, BadRequest ''Invalid request body format'')
           | Some req \<Rightarrow>
               (case provider_refused req of
                  Some msg \<Rightarrow> (ap, BadRequest msg)
                | None \<Rightarrow>
                    (case AddExternalProvider (stage 1 (ae_flt en)) groupID (provider_of req) (ap_acl ap) of
                       (st, Some e) \<Rightarrow> (set_acl st ap, AddExternalProvider_failed e)
                     | (st, None) \<Rightarrow>
                         (syncProxiesUsingGroup en groupID (set_acl st ap),
                          Created (Some (ProviderData ((provider_of req)\<lparr>ep_ID := tb_next (st_providers (ap_acl ap)),
                             ep_ACLGroupID := groupID\<rparr>))) ''External provider added successfully'')))))"

definition UpdateExternalProvider_failed :: "acl_error \<Rightarrow> acl_data http_response" where
  "UpdateExternalProvider_failed err =
     (case err of
        ErrExternalProviderNotFound \<Rightarrow> NotFound ''External provider not found''
      | InvalidModel e \<Rightarrow> BadRequest (validation_message e)
      | _ \<Rightarrow> InternalError ''Failed to update external provider'')"

definition ACL_UpdateExternalProvider ::
  "'g app_env \<Rightarrow> AddExternalProviderRequest option \<Rightarrow> http_request \<Rightarrow> 'g app \<Rightarrow> 'g acl_reply" where
  "ACL_UpdateExternalProvider en body r ap =
     (case Atoi (URLParam r ''id'') of
        None \<Rightarrow> (ap, BadRequest ''Invalid external provider ID'')
      | Some i \<Rightarrow>
          (case GetExternalProviderByID (ae_flt en) i (ap_acl ap) of
             Inl e \<Rightarrow> (ap, row_failed ''External provider not found'' ''Failed to get external provider'' e)
           | Inr existing \<Rightarrow>
               (case body of
                  None \<Rightarrow> (ap, BadRequest ''Invalid request body format'')
                | Some req \<Rightarrow>
                    (case provider_refused req of
                       Some msg \<Rightarrow> (ap, BadRequest msg)
                     | None \<Rightarrow>
                         (case UpdateExternalProvider (stage 1 (ae_flt en)) i (provider_of req) (ap_acl ap) of
                            (st, Some e) \<Rightarrow> (set_acl st ap, UpdateExternalProvider_failed e)
                          | (st, None) \<Rightarrow>
                              (syncProxiesUsingGroup en (ep_ACLGroupID existing) (set_acl st ap),
                               Success (Some (ProviderData (provider_of req))) ''External provider updated successfully''))))))"

definition ACL_DeleteExternalProvider :: "'g app_env \<Rightarrow> http_request \<Rightarrow> 'g app \<Rightarrow> 'g acl_reply" where
  "ACL_DeleteExternalProvider en r ap =
     (case Atoi (URLParam r ''id'') of
        None \<Rightarrow> (ap, BadRequest ''Invalid external provider ID'')
      | Some i \<Rightarrow>
          (case GetExternalProviderByID (ae_flt en) i (ap_acl ap) of
             Inl e \<Rightarrow> (ap, row_failed ''External provider not found'' ''Failed to get external provider'' e)
           | Inr existing \<Rightarrow>
               (case DeleteExternalProvider (stage 1 (ae_flt en)) i (ap_acl ap) of
                  (st, Some e) \<Rightarrow>
                    (set_acl st ap, if e = ErrExternalProviderNotFound then NotFound ''External provider not found''
                                    else InternalError ''Failed to delete external provider'')
                | (st, None) \<Rightarrow>
                    (syncProxiesUsingGroup en (ep_ACLGroupID existing) (set_acl st ap),
                     Success None ''External provider deleted successfully''))))"

section \<open>Waygates authentication\<close>

definition ACL_GetWaygatesAuth :: "'g app_env \<Rightarrow> http_request \<Rightarrow> 'g app \<Rightarrow> acl_data http_response" where
  "ACL_GetWaygatesAuth en r ap =
     (case Atoi (URLParam r ''id'') of
        None \<Rightarrow> BadRequest ''Invalid ACL group ID''
      | Some i \<Rightarrow>
          (case GetWaygatesAuth_service (ae_flt en) i (ap_acl ap) of
             Inl e \<Rightarrow>
               if e = ErrACLGroupNotFound then NotFound ''ACL group not found''
               else if e = ErrWaygatesAuthNotFound then Success None []
               else InternalError ''Failed to get Waygates auth configuration''
           | Inr a \<Rightarrow> Success (Some (WaygatesData a)) []))"

definition waygates_of :: "ConfigureWaygatesAuthRequest \<Rightarrow> ACLWaygatesAuth" where
  "waygates_of req =
     \<lparr>wa_ID = 0, wa_ACLGroupID = 0, wa_Enabled = wq_Enabled req, wa_AllowedUsers = wq_AllowedUsers req,
      wa_AllowedRoles = wq_AllowedRoles req, wa_AllowedEmailPatterns = wq_AllowedEmailPatterns req,
      wa_Require2FA = wq_Require2FA req, wa_SessionTTL = wq_SessionTTL req, wa_CreatedAt = 0,
      wa_AllowedEmails = wq_AllowedEmails req, wa_AllowedDomains = wq_AllowedDomains req,
      wa_AllowedProviders = wq_AllowedProviders req\<rparr>"

definition no_waygates :: ACLWaygatesAuth where
  "no_waygates =
     \<lparr>wa_ID = 0, wa_ACLGroupID = 0, wa_Enabled = False, wa_AllowedUsers = [], wa_AllowedRoles = [],
      wa_AllowedEmailPatterns = [], wa_Require2FA = False, wa_SessionTTL = 0, wa_CreatedAt = 0,
      wa_AllowedEmails = [], wa_AllowedDomains = [], wa_AllowedProviders = []\<rparr>"

definition buildWaygatesAuthChanges :: "ACLWaygatesAuth option \<Rightarrow> ACLWaygatesAuth \<Rightarrow> JSONField" where
  "buildWaygatesAuthChanges old updated =
     (let old = (case old of None \<Rightarrow> no_waygates | Some w \<Rightarrow> w) in
      change ''enabled'' JBool (wa_Enabled old) (wa_Enabled updated) @
      change ''require_2fa'' JBool (wa_Require2FA old) (wa_Require2FA updated) @
      change ''session_ttl'' JInt (wa_SessionTTL old) (wa_SessionTTL updated) @
      list_change ''allowed_roles'' (wa_AllowedRoles old) (wa_AllowedRoles updated) @
      list_change ''allowed_domains'' (wa_AllowedDomains old) (wa_AllowedDomains updated) @
      list_change ''allowed_providers'' (wa_AllowedProviders old) (wa_AllowedProviders updated) @
      list_change ''allowed_emails'' (wa_AllowedEmails old) (wa_AllowedEmails updated) @
      list_change ''allowed_users'' (wa_AllowedUsers old) (wa_AllowedUsers updated))"

text \<open>The service fills the configuration in as it stores it; the answer is what was stored.\<close>

definition stored_waygates :: "int \<Rightarrow> acl_store \<Rightarrow> ACLWaygatesAuth \<Rightarrow> ACLWaygatesAuth" where
  "stored_waygates groupID st config =
     (case tb_First (\<lambda>w. wa_ACLGroupID w = groupID) (st_waygates st) of None \<Rightarrow> config | Some w \<Rightarrow> w)"

definition ACL_ConfigureWaygatesAuth ::
  "'g app_env \<Rightarrow> ConfigureWaygatesAuthRequest option \<Rightarrow> http_request \<Rightarrow> 'g app \<Rightarrow> 'g acl_reply" where
  "ACL_ConfigureWaygatesAuth en body r ap =
     (case Atoi (URLParam r ''id'') of
        None \<Rightarrow> (ap, BadRequest ''Invalid ACL group ID'')
      | Some groupID \<Rightarrow>
          (case GetGroup (ae_flt en) groupID (ap_acl ap) of
             Inl e \<Rightarrow> (ap, group_failed e)
           | Inr grp \<Rightarrow>
               let oldConfig = (case GetWaygatesAuth_service (ae_flt en) groupID (ap_acl ap) of Inl _ \<Rightarrow> None | Inr w \<Rightarrow> Some w) in
               (case body of
                  None \<Rightarrow> (ap, BadRequest ''Invalid request body format'')
                | Some req \<Rightarrow>
                    (case ConfigureWaygatesAuth (stage 1 (ae_flt en)) groupID (waygates_of req) (ap_acl ap) of
                       (st, Some e) \<Rightarrow>
                         (set_acl st ap, if e = ErrACLGroupNotFound then NotFound ''ACL group not found''
                                         else InternalError ''Failed to configure Waygates auth'')
                     | (st, None) \<Rightarrow>
                         let config = stored_waygates groupID st (waygates_of req) in
                         (syncProxiesUsingGroup en groupID
                            (audit en (LogACLWaygatesAuthUpdate (request_user r) groupID (gr_Name grp)
                               (buildWaygatesAuthChanges oldConfig config) (getClientIP r) (UserAgent r)) (set_acl st ap)),
                          Success (Some (WaygatesData config)) ''Waygates auth configured successfully'')))))"

section \<open>Branding\<close>

definition ACL_GetBranding :: "'g app_env \<Rightarrow> 'g app \<Rightarrow> 'g acl_reply" where
  "ACL_GetBranding en ap =
     (case GetBranding (ae_flt en) (ap_acl ap) of
        (st, Inl _) \<Rightarrow> (set_acl st ap, InternalError ''Failed to get branding configuration'')
      | (st, Inr b) \<Rightarrow> (set_acl st ap, Success (Some (BrandingData b)) []))"

definition branding_of :: "UpdateBrandingRequest \<Rightarrow> ACLBranding" where
  "branding_of req =
     \<lparr>br_ID = 0, br_LogoURL = gq_LogoURL req, br_PrimaryColor = str_default ''#3b82f6'' (gq_PrimaryColor req),
      br_BackgroundColor = str_default ''#ffffff'' (gq_BackgroundColor req), br_Title = str_default ''Login Required'' (gq_Title req),
      br_Subtitle = gq_Subtitle req, br_FooterText = gq_FooterText req, br_CustomCSS = gq_CustomCSS req\<rparr>"

definition buildBrandingChanges :: "ACLBranding option \<Rightarrow> ACLBranding \<Rightarrow> JSONField" where
  "buildBrandingChanges old updated =
     (let old_text = (\<lambda>f. case old of None \<Rightarrow> [] | Some b \<Rightarrow> f b);
          old_opt = (\<lambda>f. case old of None \<Rightarrow> [] | Some b \<Rightarrow> text_of (f b)) in
      change ''title'' JStr (old_text br_Title) (br_Title updated) @
      change ''primary_color'' JStr (old_text br_PrimaryColor) (br_PrimaryColor updated) @
      change ''background_color'' JStr (old_text br_BackgroundColor) (br_BackgroundColor updated) @
      change ''subtitle'' JStr (old_opt br_Subtitle) (text_of (br_Subtitle updated)) @
      change ''logo_url'' JStr (old_opt br_LogoURL) (text_of (br_LogoURL updated)))"

definition ACL_UpdateBranding ::
  "'g app_env \<Rightarrow> UpdateBrandingRequest option \<Rightarrow> http_request \<Rightarrow> 'g app \<Rightarrow> 'g acl_reply" where
  "ACL_UpdateBranding en body r ap =
     (case GetBranding (ae_flt en) (ap_acl ap) of
        (st0, old) \<Rightarrow>
          let ap0 = set_acl st0 ap in
          (case body of
             None \<Rightarrow> (ap0, BadRequest ''Invalid request body format'')
           | Some req \<Rightarrow>
               let branding = branding_of req in
               (case UpdateBranding (stage 1 (ae_flt en)) branding st0 of
                  (st, Some e) \<Rightarrow> (set_acl st ap0, InternalError ''Failed to update branding configuration'')
                | (st, None) \<Rightarrow>
                    (audit en (LogACLBrandingUpdate (request_user r)
                       (Some (buildBrandingChanges (case old of Inl _ \<Rightarrow> None | Inr b \<Rightarrow> Some b) branding))
                       (getClientIP r) (UserAgent r)) (set_acl st ap0),
                     Success (Some (BrandingData (branding\<lparr>br_ID := 1\<rparr>))) ''Branding updated successfully''))))"

section \<open>Options and OAuth restrictions\<close>

definition ACL_GetAuthOptions :: "'g app_env \<Rightarrow> OAuthProvider list \<Rightarrow> http_request \<Rightarrow> 'g app \<Rightarrow> acl_data http_response" where
  "ACL_GetAuthOptions en providers r ap =
     (let hostname = Query_Get r ''hostname'' in
      if hostname = [] then BadRequest ''hostname query parameter is required''
      else case GetAuthOptionsForProxy (ae_flt en) (provider_IsAvailable providers) hostname (ap_acl ap) of
        Inl _ \<Rightarrow> NotFound ''proxy not found for hostname''
      | Inr options \<Rightarrow> Success (Some (OptionsData options)) [])"

definition validOAuthProviders :: "string list" where
  "validOAuthProviders = [''google'', ''github'', ''microsoft'', ''gitlab'']"

definition bad_provider :: string where
  "bad_provider = ''Invalid provider: must be one of 'google', 'github', 'microsoft', 'gitlab'' @ [CHR 0x27]"

definition ACL_GetOAuthProviderRestrictions ::
  "'g app_env \<Rightarrow> (ACLOAuthProviderRestriction list \<Rightarrow> ACLOAuthProviderRestriction list) \<Rightarrow> http_request \<Rightarrow> 'g app
    \<Rightarrow> acl_data http_response" where
  "ACL_GetOAuthProviderRestrictions en ob r ap =
     (case Atoi (URLParam r ''id'') of
        None \<Rightarrow> BadRequest ''Invalid ACL group ID''
      | Some i \<Rightarrow>
          (case GetOAuthProviderRestrictions (ae_flt en) ob i (ap_acl ap) of
             Inl e \<Rightarrow> if e = ErrACLGroupNotFound then NotFound ''ACL group not found''
                      else InternalError ''Failed to get OAuth provider restrictions''
           | Inr rs \<Rightarrow> Success (Some (RestrictionsData rs)) []))"

definition ACL_SetOAuthProviderRestriction ::
  "'g app_env \<Rightarrow> (ACLOAuthProviderRestriction list \<Rightarrow> ACLOAuthProviderRestriction list)
    \<Rightarrow> SetOAuthProviderRestrictionRequest option \<Rightarrow> http_request \<Rightarrow> 'g app \<Rightarrow> 'g acl_reply" where
  "ACL_SetOAuthProviderRestriction en ob body r ap =
     (case Atoi (URLParam r ''id'') of
        None \<Rightarrow> (ap, BadRequest ''Invalid ACL group ID'')
      | Some groupID \<Rightarrow>
          let provider = URLParam r ''provider'' in
          if provider = [] then (ap, BadRequest ''Provider is required'')
          else if \<not> List.member validOAuthProviders provider then (ap, BadRequest bad_provider)
          else
            let groupName = group_name (ae_flt en) groupID (ap_acl ap) in
            (case body of
               None \<Rightarrow> (ap, BadRequest ''Invalid request body format'')
             | Some req \<Rightarrow>
                 let oldRestriction = (case GetOAuthProviderRestrictions (ae_flt en) ob groupID (ap_acl ap) of
                                         Inl _ \<Rightarrow> None | Inr rs \<Rightarrow> List.find (\<lambda>x. or_Provider x = provider) rs) in
                 (case SetOAuthProviderRestriction (stage 1 (ae_flt en)) groupID provider (oq_AllowedEmails req)
                         (oq_AllowedDomains req) (oq_Enabled req) (ap_acl ap) of
                    (st, Some e) \<Rightarrow>
                      (set_acl st ap, if e = ErrACLGroupNotFound then NotFound ''ACL group not found''
                                      else InternalError ''Failed to set OAuth provider restriction'')
                  | (st, None) \<Rightarrow>
                      (syncProxiesUsingGroup en groupID
                         (audit en (LogACLOAuthRestrictionSet (request_user r) groupID groupName provider oldRestriction
                            (oq_Enabled req) (oq_AllowedEmails req) (oq_AllowedDomains req) (getClientIP r) (UserAgent r))
                            (set_acl st ap)),
                       Success (Some (RestrictionData provider (oq_AllowedEmails req) (oq_AllowedDomains req) (oq_Enabled req)))
                         ''OAuth provider restriction set successfully''))))"

definition ACL_DeleteOAuthProviderRestriction :: "'g app_env \<Rightarrow> http_request \<Rightarrow> 'g app \<Rightarrow> 'g acl_reply" where
  "ACL_DeleteOAuthProviderRestriction en r ap =
     (case Atoi (URLParam r ''id'') of
        None \<Rightarrow> (ap, BadRequest ''Invalid ACL group ID'')
      | Some groupID \<Rightarrow>
          let provider = URLParam r ''provider'' in
          if provider = [] then (ap, BadRequest ''Provider is required'')
          else if \<not> List.member validOAuthProviders provider then (ap, BadRequest bad_provider)
          else
            let groupName = group_name (ae_flt en) groupID (ap_acl ap) in
            (case DeleteOAuthProviderRestriction (stage 1 (ae_flt en)) groupID provider (ap_acl ap) of
               (st, Some e) \<Rightarrow>
                 (set_acl st ap, if e = ErrACLGroupNotFound then NotFound ''ACL group not found''
                                 else if e = ErrOAuthProviderRestrictionNotFound then NotFound ''OAuth provider restriction not found''
                                 else InternalError ''Failed to delete OAuth provider restriction'')
             | (st, None) \<Rightarrow>
                 (syncProxiesUsingGroup en groupID
                    (audit en (LogACLOAuthRestrictionDelete (request_user r) groupID groupName provider (getClientIP r)
                       (UserAgent r)) (set_acl st ap)),
                  Success None ''OAuth provider restriction deleted successfully'')))"

text \<open>
  The assignment of groups to proxies over HTTP:
  \<open>backend/internal/api/handlers/proxy_acl_handler.go\<close>. The repositories and services the handler is
  constructed with are all present, as \<open>SetupRoutes\<close> passes them.
\<close>

record AssignACLRequest =
  aq_ACLGroupID :: int
  aq_PathPattern :: string
  aq_Priority :: int

record UpdateProxyACLRequest =
  pq_PathPattern :: string
  pq_Priority :: int
  pq_Enabled :: bool

definition PACL_GetProxyACL :: "'g app_env \<Rightarrow> http_request \<Rightarrow> 'g app \<Rightarrow> acl_data http_response" where
  "PACL_GetProxyACL en r ap =
     (case Atoi (URLParam r ''id'') of
        None \<Rightarrow> BadRequest ''Invalid proxy ID''
      | Some proxyID \<Rightarrow>
          (case GetProxyACL (ae_flt en) proxyID (ap_acl ap) of
             Inl e \<Rightarrow> if e = ErrProxyNotFound then NotFound ''Proxy not found''
                      else InternalError ''Failed to get proxy ACL assignments''
           | Inr as \<Rightarrow> Success (Some (AssignmentsData as)) []))"

definition proxy_name :: "faults \<Rightarrow> int \<Rightarrow> acl_store \<Rightarrow> string" where
  "proxy_name flt proxyID st = (case Proxy_GetByID flt proxyID st of Inl _ \<Rightarrow> [] | Inr p \<Rightarrow> px_Name p)"

definition AssignACLToProxy_failed :: "acl_error \<Rightarrow> acl_data http_response" where
  "AssignACLToProxy_failed err =
     (case err of
        ErrProxyNotFound \<Rightarrow> NotFound ''Proxy not found''
      | ErrACLGroupNotFound \<Rightarrow> NotFound ''ACL group not found''
      | ErrProxyACLExists \<Rightarrow> Conflict ''This ACL group is already assigned to this proxy''
      | InvalidPath e \<Rightarrow> BadRequest ''Invalid path pattern''
      | _ \<Rightarrow> InternalError ''Failed to assign ACL to proxy'')"

definition AssignACLToProxy ::
  "'g app_env \<Rightarrow> AssignACLRequest option \<Rightarrow> http_request \<Rightarrow> 'g app \<Rightarrow> 'g acl_reply" where
  "AssignACLToProxy en body r ap =
     (case Atoi (URLParam r ''id'') of
        None \<Rightarrow> (ap, BadRequest ''Invalid proxy ID'')
      | Some proxyID \<Rightarrow>
          (case body of
             None \<Rightarrow> (ap, BadRequest ''Invalid request body format'')
           | Some req \<Rightarrow>
               if aq_ACLGroupID req \<le> 0 then (ap, BadRequest ''acl_group_id is required and must be positive'')
               else
                 let groupID = aq_ACLGroupID req;
                     pathPattern = str_default ''/*'' (aq_PathPattern req);
                     proxyName = proxy_name (ae_flt en) proxyID (ap_acl ap);
                     groupName = group_name (ae_flt en) groupID (ap_acl ap)
                 in (case AssignToProxy (stage 1 (ae_flt en)) proxyID groupID pathPattern (aq_Priority req) (ap_acl ap) of
                       (st, Some e) \<Rightarrow> (set_acl st ap, AssignACLToProxy_failed e)
                     | (st, None) \<Rightarrow>
                         let ap1 = audit en (LogACLAssignmentCreate (request_user r) proxyID proxyName groupID groupName pathPattern
                                     (getClientIP r) (UserAgent r)) (set_acl st ap) in
                         (case GetProxyACL (stage 2 (ae_flt en)) proxyID st of
                            Inl _ \<Rightarrow> (ap1, InternalError ''Failed to get updated ACL assignments'')
                          | Inr as \<Rightarrow>
                              (sync_proxy en proxyID ap1,
                               Created (Some (AssignmentsData as)) ''ACL assigned to proxy successfully'')))))"

definition buildProxyACLAssignmentChanges :: "ProxyACLAssignment option \<Rightarrow> ProxyACLAssignment \<Rightarrow> JSONField" where
  "buildProxyACLAssignmentChanges old updated =
     (case old of
        None \<Rightarrow> []
      | Some a \<Rightarrow>
          change ''path_pattern'' JStr (pa_PathPattern a) (pa_PathPattern updated) @
          change ''priority'' JInt (pa_Priority a) (pa_Priority updated) @
          change ''enabled'' JBool (pa_Enabled a) (pa_Enabled updated))"

text \<open>
  The check that the assignment belongs to the proxy of the path is skipped when the assignment
  cannot be read.
\<close>

definition UpdateProxyACLAssignment_failed :: "acl_error \<Rightarrow> acl_data http_response" where
  "UpdateProxyACLAssignment_failed err =
     (case err of
        ErrProxyACLNotFound \<Rightarrow> NotFound ''ACL assignment not found''
      | InvalidPath e \<Rightarrow> BadRequest ''Invalid path pattern''
      | _ \<Rightarrow> InternalError ''Failed to update ACL assignment'')"

definition UpdateProxyACLAssignment ::
  "'g app_env \<Rightarrow> UpdateProxyACLRequest option \<Rightarrow> http_request \<Rightarrow> 'g app \<Rightarrow> 'g acl_reply" where
  "UpdateProxyACLAssignment en body r ap =
     (case Atoi (URLParam r ''id'') of
        None \<Rightarrow> (ap, BadRequest ''Invalid proxy ID'')
      | Some proxyID \<Rightarrow>
          (case Atoi (URLParam r ''assignmentId'') of
             None \<Rightarrow> (ap, BadRequest ''Invalid assignment ID'')
           | Some assignmentID \<Rightarrow>
               let old = (case GetProxyACLAssignmentByID (ae_flt en) assignmentID (ap_acl ap) of Inl _ \<Rightarrow> None | Inr a \<Rightarrow> Some a) in
               if (case old of None \<Rightarrow> False | Some a \<Rightarrow> pa_ProxyID a \<noteq> proxyID)
               then (ap, NotFound ''ACL assignment not found'')
               else (case body of
                  None \<Rightarrow> (ap, BadRequest ''Invalid request body format'')
                | Some req \<Rightarrow>
                    (case UpdateProxyAssignment (stage 1 (ae_flt en)) assignmentID (pq_PathPattern req) (pq_Priority req)
                            (pq_Enabled req) (ap_acl ap) of
                       (st, Some e) \<Rightarrow> (set_acl st ap, UpdateProxyACLAssignment_failed e)
                     | (st, None) \<Rightarrow>
                         let ap1 = (case GetProxyACLAssignmentByID (stage 2 (ae_flt en)) assignmentID st of
                                      Inl _ \<Rightarrow> set_acl st ap
                                    | Inr a \<Rightarrow>
                                        audit en (LogACLAssignmentUpdate (request_user r) a (Some (buildProxyACLAssignmentChanges old a))
                                          (getClientIP r) (UserAgent r)) (set_acl st ap))
                         in (sync_proxy en proxyID ap1, Success None ''ACL assignment updated successfully'')))))"

definition RemoveACLFromProxy :: "'g app_env \<Rightarrow> http_request \<Rightarrow> 'g app \<Rightarrow> 'g acl_reply" where
  "RemoveACLFromProxy en r ap =
     (case Atoi (URLParam r ''id'') of
        None \<Rightarrow> (ap, BadRequest ''Invalid proxy ID'')
      | Some proxyID \<Rightarrow>
          (case Atoi (URLParam r ''groupId'') of
             None \<Rightarrow> (ap, BadRequest ''Invalid ACL group ID'')
           | Some groupID \<Rightarrow>
               let proxyName = proxy_name (ae_flt en) proxyID (ap_acl ap);
                   groupName = group_name (ae_flt en) groupID (ap_acl ap)
               in (case RemoveFromProxy (stage 1 (ae_flt en)) proxyID groupID (ap_acl ap) of
                     (st, Some e) \<Rightarrow>
                       (set_acl st ap, if e = ErrProxyACLNotFound then NotFound ''ACL assignment not found''
                                       else InternalError ''Failed to remove ACL from proxy'')
                   | (st, None) \<Rightarrow>
                       (sync_proxy en proxyID
                          (audit en (LogACLAssignmentDelete (request_user r) proxyID proxyName groupID groupName (getClientIP r)
                             (UserAgent r)) (set_acl st ap)),
                        Success None ''ACL removed from proxy successfully''))))"

end
