(* ===== verification/Acl_Api.thy ===== *)
theory Acl_Api
  imports Acl_Handler_Auth Acl_Reach Demo_App
begin

text \<open>
  The access-control interface as a whole. A request is one of the calls below; \<open>acl_serve\<close> is the
  handler that answers it and \<open>requested\<close> the operation of the service it asks for, without any of
  the handler's checks. The handlers refine the service: a request is either refused and changes
  nothing, or carries out exactly the operation it asks for.
\<close>

datatype acl_call =
  CallCreateGroup "CreateGroupRequest option"
| CallUpdateGroup "CreateGroupRequest option"
| CallDeleteGroup
| CallAddIPRule "AddIPRuleRequest option"
| CallUpdateIPRule "AddIPRuleRequest option"
| CallDeleteIPRule
| CallAddBasicAuthUser "AddBasicAuthUserRequest option"
| CallUpdateBasicAuthUser "string option"
| CallDeleteBasicAuthUser
| CallAddExternalProvider "AddExternalProviderRequest option"
| CallUpdateExternalProvider "AddExternalProviderRequest option"
| CallDeleteExternalProvider
| CallConfigureWaygatesAuth "ConfigureWaygatesAuthRequest option"
| CallSetOAuthProviderRestriction "SetOAuthProviderRestrictionRequest option"
| CallDeleteOAuthProviderRestriction
| CallAssignACLToProxy "AssignACLRequest option"
| CallUpdateProxyACLAssignment "UpdateProxyACLRequest option"
| CallRemoveACLFromProxy

primrec acl_serve ::
  "(ACLOAuthProviderRestriction list \<Rightarrow> ACLOAuthProviderRestriction list) \<Rightarrow> 'g app_env \<Rightarrow> acl_call
    \<Rightarrow> http_request \<Rightarrow> 'g app \<Rightarrow> 'g acl_reply" where
  "acl_serve ob en (CallCreateGroup b) r ap = ACL_CreateGroup en b r ap"
| "acl_serve ob en (CallUpdateGroup b) r ap = ACL_UpdateGroup en b r ap"
| "acl_serve ob en CallDeleteGroup r ap = ACL_DeleteGroup en r ap"
| "acl_serve ob en (CallAddIPRule b) r ap = ACL_AddIPRule en b r ap"
| "acl_serve ob en (CallUpdateIPRule b) r ap = ACL_UpdateIPRule en b r ap"
| "acl_serve ob en CallDeleteIPRule r ap = ACL_DeleteIPRule en r ap"
| "acl_serve ob en (CallAddBasicAuthUser b) r ap = ACL_AddBasicAuthUser en b r ap"
| "acl_serve ob en (CallUpdateBasicAuthUser b) r ap = ACL_UpdateBasicAuthUser en b r ap"
| "acl_serve ob en CallDeleteBasicAuthUser r ap = ACL_DeleteBasicAuthUser en r ap"
| "acl_serve ob en (CallAddExternalProvider b) r ap = ACL_AddExternalProvider en b r ap"
| "acl_serve ob en (CallUpdateExternalProvider b) r ap = ACL_UpdateExternalProvider en b r ap"
| "acl_serve ob en CallDeleteExternalProvider r ap = ACL_DeleteExternalProvider en r ap"
| "acl_serve ob en (CallConfigureWaygatesAuth b) r ap = ACL_ConfigureWaygatesAuth en b r ap"
| "acl_serve ob en (CallSetOAuthProviderRestriction b) r ap = ACL_SetOAuthProviderRestriction en ob b r ap"
| "acl_serve ob en CallDeleteOAuthProviderRestriction r ap = ACL_DeleteOAuthProviderRestriction en r ap"
| "acl_serve ob en (CallAssignACLToProxy b) r ap = AssignACLToProxy en b r ap"
| "acl_serve ob en (CallUpdateProxyACLAssignment b) r ap = UpdateProxyACLAssignment en b r ap"
| "acl_serve ob en CallRemoveACLFromProxy r ap = RemoveACLFromProxy en r ap"

text \<open>The numbers of the path as the operation gets them.\<close>

definition path_id :: "http_request \<Rightarrow> string \<Rightarrow> int" where
  "path_id r name = (case Atoi (URLParam r name) of None \<Rightarrow> 0 | Some i \<Rightarrow> i)"

primrec requested :: "acl_call \<Rightarrow> http_request \<Rightarrow> acl_op option" where
  "requested (CallCreateGroup b) r =
     map_option (\<lambda>q. OpCreateGroup (new_group (cq_Name q) (cq_Description q) (str_default ACLCombinationModeAny (cq_CombinationMode q)))
       (request_user r)) b"
| "requested (CallUpdateGroup b) r =
     map_option (\<lambda>q. OpUpdateGroup (path_id r ''id'') (new_group (cq_Name q) (cq_Description q) (cq_CombinationMode q))) b"
| "requested CallDeleteGroup r = Some (OpDeleteGroupWithSync True (path_id r ''id''))"
| "requested (CallAddIPRule b) r = map_option (\<lambda>q. OpAddIPRule (path_id r ''id'') (rule_of 0 q)) b"
| "requested (CallUpdateIPRule b) r =
     map_option (\<lambda>q. OpUpdateIPRule (path_id r ''id'') (rule_of (path_id r ''id'') q)) b"
| "requested CallDeleteIPRule r = Some (OpDeleteIPRule (path_id r ''id''))"
| "requested (CallAddBasicAuthUser b) r =
     map_option (\<lambda>q. OpAddBasicAuthUser (path_id r ''id'') (bq_Username q) (bq_Password q)) b"
| "requested (CallUpdateBasicAuthUser b) r = map_option (OpUpdateBasicAuthPassword (path_id r ''id'')) b"
| "requested CallDeleteBasicAuthUser r = Some (OpDeleteBasicAuthUser (path_id r ''id''))"
| "requested (CallAddExternalProvider b) r =
     map_option (\<lambda>q. OpAddExternalProvider (path_id r ''id'') (provider_of q)) b"
| "requested (CallUpdateExternalProvider b) r =
     map_option (\<lambda>q. OpUpdateExternalProvider (path_id r ''id'') (provider_of q)) b"
| "requested CallDeleteExternalProvider r = Some (OpDeleteExternalProvider (path_id r ''id''))"
| "requested (CallConfigureWaygatesAuth b) r =
     map_option (\<lambda>q. OpConfigureWaygatesAuth (path_id r ''id'') (waygates_of q)) b"
| "requested (CallSetOAuthProviderRestriction b) r =
     map_option (\<lambda>q. OpSetOAuthProviderRestriction (path_id r ''id'') (URLParam r ''provider'') (oq_AllowedEmails q)
       (oq_AllowedDomains q) (oq_Enabled q)) b"
| "requested CallDeleteOAuthProviderRestriction r =
     Some (OpDeleteOAuthProviderRestriction (path_id r ''id'') (URLParam r ''provider''))"
| "requested (CallAssignACLToProxy b) r =
     map_option (\<lambda>q. OpAssignToProxy (path_id r ''id'') (aq_ACLGroupID q) (str_default ''/*'' (aq_PathPattern q)) (aq_Priority q)) b"
| "requested (CallUpdateProxyACLAssignment b) r =
     map_option (\<lambda>q. OpUpdateProxyAssignment (path_id r ''assignmentId'') (pq_PathPattern q) (pq_Priority q) (pq_Enabled q)) b"
| "requested CallRemoveACLFromProxy r = Some (OpRemoveFromProxy (path_id r ''id'') (path_id r ''groupId''))"

definition op_env_at :: "nat \<Rightarrow> 'g app_env \<Rightarrow> op_env" where
  "op_env_at k en =
     \<lparr>oe_flt = stage k (ae_flt en), oe_now = ae_now en, oe_rand = ae_rand en, oe_generate = acl_hash en,
      oe_compare = ae_compare en\<rparr>"

lemma op_env_at_simps [simp]:
  "oe_flt (op_env_at k en) = stage k (ae_flt en)" "oe_generate (op_env_at k en) = acl_hash en"
  by (simp_all add: op_env_at_def)

text \<open>A request was refused, or it did what it asked for.\<close>

definition refused :: "'g app \<Rightarrow> 'g acl_reply \<Rightarrow> bool" where
  "refused ap reply \<longleftrightarrow> fst reply = ap \<and> 400 \<le> ht_Status (snd reply)"

definition carried_out :: "op_env \<Rightarrow> acl_op \<Rightarrow> 'g app \<Rightarrow> 'g acl_reply \<Rightarrow> bool" where
  "carried_out env a ap reply \<longleftrightarrow>
     snd (acl_exec env a (ap_acl ap)) = None \<and>
     ap_db (fst reply) = (ap_db ap)\<lparr>db_acl := fst (acl_exec env a (ap_acl ap))\<rparr> \<and>
     ap_roles (fst reply) = ap_roles ap \<and> ht_Status (snd reply) \<in> {200, 201, 500}"

lemma set_acl_same [simp]: "set_acl (ap_acl ap) ap = ap"
  by (simp add: set_acl_def)

lemma ap_db_set_acl: "ap_db (set_acl st ap) = (ap_db ap)\<lparr>db_acl := st\<rparr>"
  by (simp add: set_acl_def)

lemma refused_same [simp]: "refused ap (ap, w) \<longleftrightarrow> 400 \<le> ht_Status w"
  by (simp add: refused_def)

lemma failed_status [simp]:
  "400 \<le> ht_Status (group_failed e)" "400 \<le> ht_Status (row_failed a b e')"
  by (simp_all add: group_failed_def row_failed_def)

text \<open>An operation that fails has changed nothing.\<close>

lemma acl_op_failed:
  "CreateGroup flt g u st = (st', Some e) \<Longrightarrow> st' = st" "UpdateGroup flt i g st = (st', Some e) \<Longrightarrow> st' = st"
  "AddIPRule flt i rl st = (st', Some e) \<Longrightarrow> st' = st" "UpdateIPRule flt i rl st = (st', Some e) \<Longrightarrow> st' = st"
  "DeleteIPRule flt i st = (st', Some e) \<Longrightarrow> st' = st"
  "AddBasicAuthUser gen flt i a b st = (st', Some e) \<Longrightarrow> st' = st"
  "UpdateBasicAuthPassword gen flt i a st = (st', Some e) \<Longrightarrow> st' = st"
  "DeleteBasicAuthUser flt i st = (st', Some e) \<Longrightarrow> st' = st"
  "AddExternalProvider flt i p st = (st', Some e) \<Longrightarrow> st' = st"
  "UpdateExternalProvider flt i p st = (st', Some e) \<Longrightarrow> st' = st"
  "DeleteExternalProvider flt i st = (st', Some e) \<Longrightarrow> st' = st"
  "ConfigureWaygatesAuth flt i c st = (st', Some e) \<Longrightarrow> st' = st"
  "SetOAuthProviderRestriction flt i a es ds en st = (st', Some e) \<Longrightarrow> st' = st"
  "DeleteOAuthProviderRestriction flt i a st = (st', Some e) \<Longrightarrow> st' = st"
  "AssignToProxy flt i j a k st = (st', Some e) \<Longrightarrow> st' = st"
  "UpdateProxyAssignment flt i a k en st = (st', Some e) \<Longrightarrow> st' = st"
  "RemoveFromProxy flt i j st = (st', Some e) \<Longrightarrow> st' = st"
  using acl_ops_atomic(1)[of st flt g u] acl_ops_atomic(2)[of st flt i g] acl_ops_atomic(4)[of st flt i rl]
    acl_ops_atomic(5)[of st flt i rl] acl_ops_atomic(6)[of st flt i] acl_ops_atomic(7)[of st gen flt i a b]
    acl_ops_atomic(8)[of st gen flt i a] acl_ops_atomic(9)[of st flt i] acl_ops_atomic(10)[of st flt i p]
    acl_ops_atomic(11)[of st flt i p] acl_ops_atomic(12)[of st flt i] acl_ops_atomic(13)[of st flt i c]
    acl_ops_atomic(14)[of st flt i a es ds en] acl_ops_atomic(15)[of st flt i a] acl_ops_atomic(16)[of st flt i j a k]
    acl_ops_atomic(17)[of st flt i a k en] acl_ops_atomic(18)[of st flt i j]
  by (simp_all add: atomic_op_def)

lemma DeleteGroupWithSync_failed: "DeleteGroupWithSync flt b i st = (st', x, Some e) \<Longrightarrow> st' = st"
  using session_ops_atomic(3)[of st flt b i] by (simp add: atomic_op_def)

text \<open>A request is refused or carries out the operation.\<close>

definition serves :: "'g app_env \<Rightarrow> acl_op option \<Rightarrow> 'g app \<Rightarrow> 'g acl_reply \<Rightarrow> bool" where
  "serves en req ap reply \<longleftrightarrow> refused ap reply \<or> (\<exists>k a. req = Some a \<and> carried_out (op_env_at k en) a ap reply)"

lemma serves_refused [simp]: "400 \<le> ht_Status w \<Longrightarrow> serves en req ap (ap, w)"
  by (simp add: serves_def)

lemma serves_carried:
  assumes "acl_exec (op_env_at k en) a (ap_acl ap) = (st, None)" "ap_db ap' = (ap_db ap)\<lparr>db_acl := st\<rparr>"
    "ap_roles ap' = ap_roles ap" "ht_Status w \<in> {200, 201, 500}"
  shows "serves en (Some a) ap (ap', w)"
proof -
  have "carried_out (op_env_at k en) a ap (ap', w)" using assms by (simp add: carried_out_def)
  then show ?thesis unfolding serves_def by blast
qed

lemmas serve_splits = option.split sum.split prod.split

lemma path_id_Some: "Atoi (URLParam r n) = Some i \<Longrightarrow> path_id r n = i"
  by (simp add: path_id_def)

lemma request_user_Atoi: "Atoi (hq_UserID r) = Some i \<Longrightarrow> request_user r = i"
  by (simp add: request_user_def Atoi_value_Some)

lemma error_answers [simp]:
  "400 \<le> ht_Status (CreateGroup_failed e)" "400 \<le> ht_Status (UpdateGroup_failed e)"
  "400 \<le> ht_Status (AddIPRule_failed e)" "400 \<le> ht_Status (UpdateIPRule_failed e)"
  "400 \<le> ht_Status (AddBasicAuthUser_failed e)" "400 \<le> ht_Status (UpdateBasicAuthUser_failed e)"
  "400 \<le> ht_Status (AddExternalProvider_failed e)" "400 \<le> ht_Status (UpdateExternalProvider_failed e)"
  "400 \<le> ht_Status (AssignACLToProxy_failed e)" "400 \<le> ht_Status (UpdateProxyACLAssignment_failed e)"
  by (simp_all add: CreateGroup_failed_def UpdateGroup_failed_def AddIPRule_failed_def UpdateIPRule_failed_def
      AddBasicAuthUser_failed_def UpdateBasicAuthUser_failed_def AddExternalProvider_failed_def
      UpdateExternalProvider_failed_def AssignACLToProxy_failed_def UpdateProxyACLAssignment_failed_def split: acl_error.split)

section \<open>Each handler\<close>

lemma ACL_CreateGroup_serves: "serves en (requested (CallCreateGroup b) r) ap (ACL_CreateGroup en b r ap)"
  by (auto simp: ACL_CreateGroup_def Let_def split: serve_splits dest!: acl_op_failed)
     (rule serves_carried[where k = 0]; simp add: ap_db_set_acl path_id_Some request_user_Atoi)+

lemma ACL_UpdateGroup_serves: "serves en (requested (CallUpdateGroup b) r) ap (ACL_UpdateGroup en b r ap)"
  by (auto simp: ACL_UpdateGroup_def Let_def split: serve_splits dest!: acl_op_failed)
     (rule serves_carried[where k = 1]; simp add: ap_db_set_acl path_id_Some request_user_Atoi)+

lemma ACL_DeleteGroup_serves: "serves en (requested CallDeleteGroup r) ap (ACL_DeleteGroup en r ap)"
  by (auto simp: ACL_DeleteGroup_def Let_def split: serve_splits dest!: DeleteGroupWithSync_failed)
     (rule serves_carried[where k = 1]; simp add: ap_db_set_acl path_id_Some request_user_Atoi)+

lemma ACL_AddIPRule_serves: "serves en (requested (CallAddIPRule b) r) ap (ACL_AddIPRule en b r ap)"
  by (auto simp: ACL_AddIPRule_def Let_def split: serve_splits dest!: acl_op_failed)
     (rule serves_carried[where k = 1]; simp add: ap_db_set_acl path_id_Some request_user_Atoi)+

lemma ACL_UpdateIPRule_serves: "serves en (requested (CallUpdateIPRule b) r) ap (ACL_UpdateIPRule en b r ap)"
  by (auto simp: ACL_UpdateIPRule_def Let_def split: serve_splits dest!: acl_op_failed)
     (rule serves_carried[where k = 1]; simp add: ap_db_set_acl path_id_Some request_user_Atoi)+

lemma ACL_DeleteIPRule_serves: "serves en (requested CallDeleteIPRule r) ap (ACL_DeleteIPRule en r ap)"
  by (auto simp: ACL_DeleteIPRule_def Let_def split: serve_splits dest!: acl_op_failed)
     (rule serves_carried[where k = 1]; simp add: ap_db_set_acl path_id_Some request_user_Atoi)+

lemma ACL_AddBasicAuthUser_serves: "serves en (requested (CallAddBasicAuthUser b) r) ap (ACL_AddBasicAuthUser en b r ap)"
  by (auto simp: ACL_AddBasicAuthUser_def Let_def split: serve_splits dest!: acl_op_failed)
     (rule serves_carried[where k = 1]; simp add: ap_db_set_acl path_id_Some request_user_Atoi)+

lemma ACL_UpdateBasicAuthUser_serves: "serves en (requested (CallUpdateBasicAuthUser b) r) ap (ACL_UpdateBasicAuthUser en b r ap)"
  by (auto simp: ACL_UpdateBasicAuthUser_def Let_def split: serve_splits dest!: acl_op_failed)
     (rule serves_carried[where k = 1]; simp add: ap_db_set_acl path_id_Some request_user_Atoi)+

lemma ACL_DeleteBasicAuthUser_serves: "serves en (requested CallDeleteBasicAuthUser r) ap (ACL_DeleteBasicAuthUser en r ap)"
  by (auto simp: ACL_DeleteBasicAuthUser_def Let_def split: serve_splits dest!: acl_op_failed)
     (rule serves_carried[where k = 1]; simp add: ap_db_set_acl path_id_Some request_user_Atoi)+

lemma ACL_AddExternalProvider_serves: "serves en (requested (CallAddExternalProvider b) r) ap (ACL_AddExternalProvider en b r ap)"
  by (auto simp: ACL_AddExternalProvider_def Let_def split: serve_splits dest!: acl_op_failed)
     (rule serves_carried[where k = 1]; simp add: ap_db_set_acl path_id_Some request_user_Atoi)+

lemma ACL_UpdateExternalProvider_serves: "serves en (requested (CallUpdateExternalProvider b) r) ap (ACL_UpdateExternalProvider en b r ap)"
  by (auto simp: ACL_UpdateExternalProvider_def Let_def split: serve_splits dest!: acl_op_failed)
     (rule serves_carried[where k = 1]; simp add: ap_db_set_acl path_id_Some request_user_Atoi)+

lemma ACL_DeleteExternalProvider_serves: "serves en (requested CallDeleteExternalProvider r) ap (ACL_DeleteExternalProvider en r ap)"
  by (auto simp: ACL_DeleteExternalProvider_def Let_def split: serve_splits dest!: acl_op_failed)
     (rule serves_carried[where k = 1]; simp add: ap_db_set_acl path_id_Some request_user_Atoi)+

lemma ACL_ConfigureWaygatesAuth_serves: "serves en (requested (CallConfigureWaygatesAuth b) r) ap (ACL_ConfigureWaygatesAuth en b r ap)"
  by (auto simp: ACL_ConfigureWaygatesAuth_def Let_def split: serve_splits dest!: acl_op_failed)
     (rule serves_carried[where k = 1]; simp add: ap_db_set_acl path_id_Some request_user_Atoi)+

lemma ACL_SetOAuthProviderRestriction_serves: "serves en (requested (CallSetOAuthProviderRestriction b) r) ap (ACL_SetOAuthProviderRestriction en ob b r ap)"
  by (auto simp: ACL_SetOAuthProviderRestriction_def Let_def split: serve_splits dest!: acl_op_failed)
     (rule serves_carried[where k = 1]; simp add: ap_db_set_acl path_id_Some request_user_Atoi)+

lemma ACL_DeleteOAuthProviderRestriction_serves: "serves en (requested CallDeleteOAuthProviderRestriction r) ap (ACL_DeleteOAuthProviderRestriction en r ap)"
  by (auto simp: ACL_DeleteOAuthProviderRestriction_def Let_def split: serve_splits dest!: acl_op_failed)
     (rule serves_carried[where k = 1]; simp add: ap_db_set_acl path_id_Some request_user_Atoi)+

lemma AssignACLToProxy_serves: "serves en (requested (CallAssignACLToProxy b) r) ap (AssignACLToProxy en b r ap)"
  by (auto simp: AssignACLToProxy_def Let_def split: serve_splits dest!: acl_op_failed)
     (rule serves_carried[where k = 1]; simp add: ap_db_set_acl path_id_Some request_user_Atoi)+

lemma UpdateProxyACLAssignment_serves: "serves en (requested (CallUpdateProxyACLAssignment b) r) ap (UpdateProxyACLAssignment en b r ap)"
  by (auto simp: UpdateProxyACLAssignment_def Let_def split: serve_splits dest!: acl_op_failed)
     (rule serves_carried[where k = 1]; simp add: ap_db_set_acl path_id_Some request_user_Atoi)+

lemma RemoveACLFromProxy_serves: "serves en (requested CallRemoveACLFromProxy r) ap (RemoveACLFromProxy en r ap)"
  by (auto simp: RemoveACLFromProxy_def Let_def split: serve_splits dest!: acl_op_failed)
     (rule serves_carried[where k = 1]; simp add: ap_db_set_acl path_id_Some request_user_Atoi)+

text \<open>
  What a client of the access-control interface can rely on: an answer with an error changes nothing,
  a successful one did exactly what was asked, and the audit log says who did it.
\<close>

lemma acl_serve_serves: "serves en (requested c r) ap (acl_serve ob en c r ap)"
  by (cases c) (simp_all only: acl_serve.simps ACL_CreateGroup_serves ACL_UpdateGroup_serves ACL_DeleteGroup_serves
      ACL_AddIPRule_serves ACL_UpdateIPRule_serves ACL_DeleteIPRule_serves ACL_AddBasicAuthUser_serves
      ACL_UpdateBasicAuthUser_serves ACL_DeleteBasicAuthUser_serves ACL_AddExternalProvider_serves
      ACL_UpdateExternalProvider_serves ACL_DeleteExternalProvider_serves ACL_ConfigureWaygatesAuth_serves
      ACL_SetOAuthProviderRestriction_serves ACL_DeleteOAuthProviderRestriction_serves AssignACLToProxy_serves
      UpdateProxyACLAssignment_serves RemoveACLFromProxy_serves)

text \<open>
  C8. The access-control interface refines the service: whatever the request, the parameters of its
  path, its body and the database faults, it either is refused - the answer is an error and nothing
  at all has changed - or it has carried out, completely and without anything else, the operation of
  the service that the call, its path and its body ask for.
\<close>

theorem acl_interface_refines_service:
  "fst (acl_serve ob en c r ap) = ap \<and> ht_Status (snd (acl_serve ob en c r ap)) \<ge> 400 \<or>
   (\<exists>k a. requested c r = Some a \<and> snd (acl_exec (op_env_at k en) a (ap_acl ap)) = None \<and>
      ap_db (fst (acl_serve ob en c r ap)) = (ap_db ap)\<lparr>db_acl := fst (acl_exec (op_env_at k en) a (ap_acl ap))\<rparr> \<and>
      ap_roles (fst (acl_serve ob en c r ap)) = ap_roles ap \<and>
      ht_Status (snd (acl_serve ob en c r ap)) \<in> {200, 201, 500})"
  using acl_serve_serves[of en c r ap ob] unfolding serves_def refused_def carried_out_def by blast

section \<open>The audit trail\<close>

primrec audit_action :: "acl_call \<Rightarrow> string option" where
  "audit_action (CallCreateGroup b) = Some ''acl_group.create''"
| "audit_action (CallUpdateGroup b) = Some ''acl_group.update''"
| "audit_action CallDeleteGroup = Some ''acl_group.delete''"
| "audit_action (CallAddIPRule b) = Some ''acl_ip_rule.add''"
| "audit_action (CallUpdateIPRule b) = Some ''acl_ip_rule.update''"
| "audit_action CallDeleteIPRule = Some ''acl_ip_rule.delete''"
| "audit_action (CallAddBasicAuthUser b) = Some ''acl_basic_auth.add''"
| "audit_action (CallUpdateBasicAuthUser b) = Some ''acl_basic_auth.update''"
| "audit_action CallDeleteBasicAuthUser = Some ''acl_basic_auth.delete''"
| "audit_action (CallAddExternalProvider b) = None"
| "audit_action (CallUpdateExternalProvider b) = None"
| "audit_action CallDeleteExternalProvider = None"
| "audit_action (CallConfigureWaygatesAuth b) = Some ''acl_waygates_auth.update''"
| "audit_action (CallSetOAuthProviderRestriction b) = Some ''acl_oauth_restriction.set''"
| "audit_action CallDeleteOAuthProviderRestriction = Some ''acl_oauth_restriction.delete''"
| "audit_action (CallAssignACLToProxy b) = Some ''acl_assignment.create''"
| "audit_action (CallUpdateProxyACLAssignment b) = Some ''acl_assignment.update''"
| "audit_action CallRemoveACLFromProxy = Some ''acl_assignment.delete''"

definition logged :: "'g app_env \<Rightarrow> string \<Rightarrow> http_request \<Rightarrow> 'g app \<Rightarrow> 'g app \<Rightarrow> bool" where
  "logged en action r ap ap' \<longleftrightarrow>
     (\<exists>ev. ev_Action ev = action \<and> ev_UserID ev = Some (request_user r) \<and> ev_IPAddress ev = getClientIP r \<and>
        ap_audit ap' = fst (LogEvent (audit_env_of en) (db_settings (ap_db ap)) ev (ap_audit ap)))"

text \<open>A successful call is logged under its action; an external provider leaves the log alone.\<close>

definition trail :: "'g app_env \<Rightarrow> acl_call \<Rightarrow> http_request \<Rightarrow> 'g app \<Rightarrow> 'g acl_reply \<Rightarrow> bool" where
  "trail en c r ap reply \<longleftrightarrow>
     (ht_Status (snd reply) < 300 \<longrightarrow>
        (case audit_action c of
           None \<Rightarrow> ap_audit (fst reply) = ap_audit ap
         | Some action \<Rightarrow> logged en action r ap (fst reply)))"

lemma trail_error [simp]: "300 \<le> ht_Status w \<Longrightarrow> trail en c r ap (ap', w)"
  by (simp add: trail_def)

lemma error_answers_300 [simp]:
  "300 \<le> ht_Status (group_failed e)" "300 \<le> ht_Status (row_failed a b e')"
  "300 \<le> ht_Status (CreateGroup_failed e)" "300 \<le> ht_Status (UpdateGroup_failed e)"
  "300 \<le> ht_Status (AddIPRule_failed e)" "300 \<le> ht_Status (UpdateIPRule_failed e)"
  "300 \<le> ht_Status (AddBasicAuthUser_failed e)" "300 \<le> ht_Status (UpdateBasicAuthUser_failed e)"
  "300 \<le> ht_Status (AddExternalProvider_failed e)" "300 \<le> ht_Status (UpdateExternalProvider_failed e)"
  "300 \<le> ht_Status (AssignACLToProxy_failed e)" "300 \<le> ht_Status (UpdateProxyACLAssignment_failed e)"
  using failed_status(1)[of e] failed_status(2)[of a b e'] error_answers(1,2)[of e] error_answers(3,4)[of e]
    error_answers(5,6)[of e] error_answers(7,8)[of e] error_answers(9,10)[of e] by linarith+

lemma trail_logged:
  assumes "audit_action c = Some (ev_Action ev)" "ev_UserID ev = Some (request_user r)" "ev_IPAddress ev = getClientIP r"
    and "ap_audit ap1 = ap_audit ap" "db_settings (ap_db ap1) = db_settings (ap_db ap)"
  shows "trail en c r ap (audit en ev ap1, w)" "trail en c r ap (syncProxiesUsingGroup en g (audit en ev ap1), w)"
    "trail en c r ap (sync_proxy en i (audit en ev ap1), w)"
  using assms by (auto simp: trail_def logged_def audit_def)

lemma trail_none: "audit_action c = None \<Longrightarrow> ap_audit ap' = ap_audit ap \<Longrightarrow> trail en c r ap (ap', w)"
  by (simp add: trail_def)

lemma settings_set_acl [simp]: "db_settings (ap_db (set_acl st ap)) = db_settings (ap_db ap)"
  by (simp add: set_acl_def)

lemmas event_defs =
  success_event_def LogACLGroupCreate_def LogACLGroupUpdate_def LogACLGroupDelete_def LogACLIPRuleAdd_def
  LogACLIPRuleUpdate_def LogACLIPRuleDelete_def LogACLBasicAuthAdd_def basic_auth_event_def LogACLBasicAuthUpdate_def
  LogACLBasicAuthDelete_def LogACLWaygatesAuthUpdate_def LogACLAssignmentCreate_def LogACLAssignmentUpdate_def
  LogACLAssignmentDelete_def LogACLOAuthRestrictionSet_def LogACLOAuthRestrictionDelete_def Let_def

lemma ACL_CreateGroup_trail: "trail en (CallCreateGroup b) r ap (ACL_CreateGroup en b r ap)"
  by (auto simp: ACL_CreateGroup_def Let_def split: serve_splits)
     (rule trail_logged; simp add: event_defs request_user_Atoi)+

lemma ACL_UpdateGroup_trail: "trail en (CallUpdateGroup b) r ap (ACL_UpdateGroup en b r ap)"
  by (auto simp: ACL_UpdateGroup_def Let_def split: serve_splits)
     (rule trail_logged; simp add: event_defs request_user_Atoi)+

lemma ACL_DeleteGroup_trail: "trail en CallDeleteGroup r ap (ACL_DeleteGroup en r ap)"
  by (auto simp: ACL_DeleteGroup_def Let_def split: serve_splits)
     (rule trail_logged; simp add: event_defs request_user_Atoi)+

lemma ACL_AddIPRule_trail: "trail en (CallAddIPRule b) r ap (ACL_AddIPRule en b r ap)"
  by (auto simp: ACL_AddIPRule_def Let_def split: serve_splits)
     (rule trail_logged; simp add: event_defs request_user_Atoi)+

lemma ACL_UpdateIPRule_trail: "trail en (CallUpdateIPRule b) r ap (ACL_UpdateIPRule en b r ap)"
  by (auto simp: ACL_UpdateIPRule_def Let_def split: serve_splits)
     (rule trail_logged; simp add: event_defs request_user_Atoi)+

lemma ACL_DeleteIPRule_trail: "trail en CallDeleteIPRule r ap (ACL_DeleteIPRule en r ap)"
  by (auto simp: ACL_DeleteIPRule_def Let_def split: serve_splits)
     (rule trail_logged; simp add: event_defs request_user_Atoi)+

lemma ACL_AddBasicAuthUser_trail: "trail en (CallAddBasicAuthUser b) r ap (ACL_AddBasicAuthUser en b r ap)"
  by (auto simp: ACL_AddBasicAuthUser_def Let_def split: serve_splits)
     (rule trail_logged; simp add: event_defs request_user_Atoi)+

lemma ACL_UpdateBasicAuthUser_trail: "trail en (CallUpdateBasicAuthUser b) r ap (ACL_UpdateBasicAuthUser en b r ap)"
  by (auto simp: ACL_UpdateBasicAuthUser_def Let_def split: serve_splits)
     (rule trail_logged; simp add: event_defs request_user_Atoi)+

lemma ACL_DeleteBasicAuthUser_trail: "trail en CallDeleteBasicAuthUser r ap (ACL_DeleteBasicAuthUser en r ap)"
  by (auto simp: ACL_DeleteBasicAuthUser_def Let_def split: serve_splits)
     (rule trail_logged; simp add: event_defs request_user_Atoi)+

lemma ACL_AddExternalProvider_trail: "trail en (CallAddExternalProvider b) r ap (ACL_AddExternalProvider en b r ap)"
  by (auto simp: ACL_AddExternalProvider_def Let_def split: serve_splits intro!: trail_none)

lemma ACL_UpdateExternalProvider_trail: "trail en (CallUpdateExternalProvider b) r ap (ACL_UpdateExternalProvider en b r ap)"
  by (auto simp: ACL_UpdateExternalProvider_def Let_def split: serve_splits intro!: trail_none)

lemma ACL_DeleteExternalProvider_trail: "trail en CallDeleteExternalProvider r ap (ACL_DeleteExternalProvider en r ap)"
  by (auto simp: ACL_DeleteExternalProvider_def Let_def split: serve_splits intro!: trail_none)

lemma ACL_ConfigureWaygatesAuth_trail: "trail en (CallConfigureWaygatesAuth b) r ap (ACL_ConfigureWaygatesAuth en b r ap)"
  by (auto simp: ACL_ConfigureWaygatesAuth_def Let_def split: serve_splits)
     (rule trail_logged; simp add: event_defs request_user_Atoi)+

lemma ACL_SetOAuthProviderRestriction_trail: "trail en (CallSetOAuthProviderRestriction b) r ap (ACL_SetOAuthProviderRestriction en ob b r ap)"
  by (auto simp: ACL_SetOAuthProviderRestriction_def Let_def split: serve_splits)
     (rule trail_logged; simp add: event_defs request_user_Atoi)+

lemma ACL_DeleteOAuthProviderRestriction_trail: "trail en CallDeleteOAuthProviderRestriction r ap (ACL_DeleteOAuthProviderRestriction en r ap)"
  by (auto simp: ACL_DeleteOAuthProviderRestriction_def Let_def split: serve_splits)
     (rule trail_logged; simp add: event_defs request_user_Atoi)+

lemma AssignACLToProxy_trail: "trail en (CallAssignACLToProxy b) r ap (AssignACLToProxy en b r ap)"
  by (auto simp: AssignACLToProxy_def Let_def split: serve_splits)
     (rule trail_logged; simp add: event_defs request_user_Atoi)+

lemma RemoveACLFromProxy_trail: "trail en CallRemoveACLFromProxy r ap (RemoveACLFromProxy en r ap)"
  by (auto simp: RemoveACLFromProxy_def Let_def split: serve_splits)
     (rule trail_logged; simp add: event_defs request_user_Atoi)+

lemma UpdateProxyAssignment_reread:
  assumes "UpdateProxyAssignment flt i pat prio enabled st = (st', None)" "\<not> flt' ''GetProxyACLAssignmentByID''"
  obtains a where "GetProxyACLAssignmentByID flt' i st' = Ok a"
proof -
  obtain x where x: "tb_First (\<lambda>r. pa_ID r = i) (st_assignments st) = Some x"
      "st_assignments st' = tb_Save pa_ID (x\<lparr>pa_PathPattern := pat, pa_Priority := prio, pa_Enabled := enabled\<rparr>) (st_assignments st)"
    using assms(1)
    by (auto simp: UpdateProxyAssignment_def UpdateProxyACLAssignment_repo_def GetProxyACLAssignmentByID_def found_or_def
        read_first_def wrap_write_def split: option.splits sum.splits if_splits)
  have i: "pa_ID x = i" "x \<in> set (tb_rows (st_assignments st))" using x(1) by (auto dest: tb_First_Some)
  let ?a = "x\<lparr>pa_PathPattern := pat, pa_Priority := prio, pa_Enabled := enabled\<rparr>"
  have "?a \<in> set (tb_rows (st_assignments st'))"
    using i(2) unfolding x(2) by (auto simp: tb_Save_def intro: rev_image_eqI)
  with i(1) have "\<exists>y \<in> set (tb_rows (st_assignments st')). pa_ID y = i" by (intro bexI[of _ ?a]) simp_all
  then show thesis
    using assms(2) that by (cases "tb_First (\<lambda>r. pa_ID r = i) (st_assignments st')")
      (auto simp: GetProxyACLAssignmentByID_def read_first_def tb_First_None)
qed

lemma UpdateProxyACLAssignment_trail:
  assumes "\<not> stage 2 (ae_flt en) ''GetProxyACLAssignmentByID''"
  shows "trail en (CallUpdateProxyACLAssignment b) r ap (UpdateProxyACLAssignment en b r ap)"
  by (auto simp: UpdateProxyACLAssignment_def Let_def split: serve_splits
      elim!: UpdateProxyAssignment_reread[where flt' = "stage 2 (ae_flt en)", OF _ assms])
     (rule trail_logged; simp add: event_defs request_user_Atoi)+

lemma acl_serve_trail:
  assumes "(\<exists>b. c = CallUpdateProxyACLAssignment b) \<longrightarrow> \<not> stage 2 (ae_flt en) ''GetProxyACLAssignmentByID''"
  shows "trail en c r ap (acl_serve ob en c r ap)"
  using assms
  by (cases c) (simp_all only: acl_serve.simps ACL_CreateGroup_trail ACL_UpdateGroup_trail ACL_DeleteGroup_trail
      ACL_AddIPRule_trail ACL_UpdateIPRule_trail ACL_DeleteIPRule_trail ACL_AddBasicAuthUser_trail
      ACL_UpdateBasicAuthUser_trail ACL_DeleteBasicAuthUser_trail ACL_AddExternalProvider_trail
      ACL_UpdateExternalProvider_trail ACL_DeleteExternalProvider_trail ACL_ConfigureWaygatesAuth_trail
      ACL_SetOAuthProviderRestriction_trail ACL_DeleteOAuthProviderRestriction_trail AssignACLToProxy_trail
      RemoveACLFromProxy_trail, auto intro: UpdateProxyACLAssignment_trail)


definition demo_admin_request :: "(string \<times> string) list \<Rightarrow> http_request" where
  "demo_admin_request params = (demo_http [] [])\<lparr>hq_UserID := ''1'', hq_Params := params\<rparr>"

definition demo_new_group :: acl_call where
  "demo_new_group = CallCreateGroup (Some \<lparr>cq_Name = ''staff'', cq_Description = None, cq_CombinationMode = []\<rparr>)"


end
