(* ===== verification/Users_Handler.thy ===== *)
theory Users_Handler
  imports Handler_Base User_Admin
begin

text \<open>
  The management of users over HTTP: \<open>backend/internal/api/handlers/users_handler.go\<close> around
  \<open>User_Service\<close>.
\<close>

datatype users_data = UsersData "UserWithRole list" | UserData UserWithRole

type_synonym 'g users_reply = "'g app \<times> users_data http_response"

definition user_error_text :: "user_error \<Rightarrow> string" where
  "user_error_text e =
     (case e of
        ErrUserNotFound \<Rightarrow> ''user not found''
      | ErrInvalidRole \<Rightarrow> ''invalid role''
      | ErrCannotModifySelf \<Rightarrow> ''you cannot perform this action on your own account''
      | ErrLastAdmin \<Rightarrow> ''cannot remove or demote the last administrator''
      | ErrUsernameTaken \<Rightarrow> ''username already in use''
      | ErrEmailTaken \<Rightarrow> ''email already in use''
      | UserError s \<Rightarrow> s)"

definition mapUserError :: "user_error \<Rightarrow> users_data http_response" where
  "mapUserError e =
     (case e of
        ErrUserNotFound \<Rightarrow> NotFound (user_error_text e)
      | UserError _ \<Rightarrow> InternalError ''An unexpected error occurred''
      | _ \<Rightarrow> BadRequest (user_error_text e))"

definition validRolesSet :: "string list" where
  "validRolesSet = [''admin'', ''operator'', ''viewer'']"

definition parseUserID :: "http_request \<Rightarrow> int option" where
  "parseUserID r = (case Atoi (URLParam r ''id'') of None \<Rightarrow> None | Some i \<Rightarrow> if i \<le> 0 then None else Some i)"

definition actor_of :: "http_request \<Rightarrow> actor" where
  "actor_of r = \<lparr>ac_ID = request_user r, ac_IP = getClientIP r, ac_UserAgent = UserAgent r\<rparr>"

definition Users_List :: "'g app_env \<Rightarrow> 'g app \<Rightarrow> users_data http_response" where
  "Users_List en ap =
     (case User_List en ap of
        Inl e \<Rightarrow> mapUserError e
      | Inr us \<Rightarrow> Success (Some (UsersData us)) ''Users retrieved successfully'')"

definition Users_Get :: "'g app_env \<Rightarrow> http_request \<Rightarrow> 'g app \<Rightarrow> users_data http_response" where
  "Users_Get en r ap =
     (case parseUserID r of
        None \<Rightarrow> BadRequest ''invalid user id''
      | Some i \<Rightarrow>
          (case User_Get en i ap of
             Inl e \<Rightarrow> mapUserError e
           | Inr u \<Rightarrow> Success (Some (UserData u)) ''User retrieved successfully''))"

text \<open>The request bodies have the fields of the service's inputs.\<close>

definition password_length_refused :: "string \<Rightarrow> string option" where
  "password_length_refused password =
     (if password = [] then Some ''password is required''
      else if length password < 8 \<or> length password > 128 then Some ''password must be at least 8 characters''
      else None)"

definition create_refused :: "CreateUserInput \<Rightarrow> string option" where
  "create_refused req =
     (if TrimSpace (cu_Name req) = [] then Some ''name is required''
      else if TrimSpace (cu_Username req) = [] then Some ''username is required''
      else if TrimSpace (cu_Email req) = [] then Some ''email is required''
      else case password_length_refused (cu_Password req) of
        Some msg \<Rightarrow> Some msg
      | None \<Rightarrow> if \<not> List.member validRolesSet (cu_Role req) then Some (user_error_text ErrInvalidRole) else None)"

definition Users_Create :: "'g app_env \<Rightarrow> CreateUserInput option \<Rightarrow> http_request \<Rightarrow> 'g app \<Rightarrow> 'g users_reply" where
  "Users_Create en body r ap =
     (case body of
        None \<Rightarrow> (ap, BadRequest ''Invalid request body'')
      | Some req \<Rightarrow>
          (case create_refused req of
             Some msg \<Rightarrow> (ap, BadRequest msg)
           | None \<Rightarrow>
               (case User_Create en (req\<lparr>cu_Name := TrimSpace (cu_Name req), cu_Username := TrimSpace (cu_Username req),
                          cu_Email := TrimSpace (cu_Email req)\<rparr>) (actor_of r) ap of
                  (ap1, Inl e) \<Rightarrow> (ap1, mapUserError e)
                | (ap1, Inr u) \<Rightarrow> (ap1, Created (Some (UserData u)) ''User created successfully''))))"

definition update_refused :: "UpdateUserInput \<Rightarrow> string option" where
  "update_refused req =
     (if TrimSpace (uu_Name req) = [] then Some ''name is required''
      else if TrimSpace (uu_Email req) = [] then Some ''email is required''
      else if \<not> List.member validRolesSet (uu_Role req) then Some (user_error_text ErrInvalidRole)
      else None)"

definition Users_Update :: "'g app_env \<Rightarrow> UpdateUserInput option \<Rightarrow> http_request \<Rightarrow> 'g app \<Rightarrow> 'g users_reply" where
  "Users_Update en body r ap =
     (case parseUserID r of
        None \<Rightarrow> (ap, BadRequest ''invalid user id'')
      | Some i \<Rightarrow>
          (case body of
             None \<Rightarrow> (ap, BadRequest ''Invalid request body'')
           | Some req \<Rightarrow>
               (case update_refused req of
                  Some msg \<Rightarrow> (ap, BadRequest msg)
                | None \<Rightarrow>
                    (case User_Update en i (req\<lparr>uu_Name := TrimSpace (uu_Name req), uu_Email := TrimSpace (uu_Email req)\<rparr>)
                            (actor_of r) ap of
                       (ap1, Inl e) \<Rightarrow> (ap1, mapUserError e)
                     | (ap1, Inr u) \<Rightarrow> (ap1, Success (Some (UserData u)) ''User updated successfully'')))))"

record resetPasswordRequest =
  rp_Password :: string
  rp_MustChangePassword :: bool

definition Users_ResetPassword ::
  "'g app_env \<Rightarrow> resetPasswordRequest option \<Rightarrow> http_request \<Rightarrow> 'g app \<Rightarrow> 'g users_reply" where
  "Users_ResetPassword en body r ap =
     (case parseUserID r of
        None \<Rightarrow> (ap, BadRequest ''invalid user id'')
      | Some i \<Rightarrow>
          (case body of
             None \<Rightarrow> (ap, BadRequest ''Invalid request body'')
           | Some req \<Rightarrow>
               (case password_length_refused (rp_Password req) of
                  Some msg \<Rightarrow> (ap, BadRequest msg)
                | None \<Rightarrow>
                    (case ResetPassword en i (rp_Password req) (rp_MustChangePassword req) (actor_of r) ap of
                       (ap1, Inl e) \<Rightarrow> (ap1, mapUserError e)
                     | (ap1, Inr _) \<Rightarrow> (ap1, Success None ''Password reset successfully'')))))"

definition Users_Delete :: "'g app_env \<Rightarrow> http_request \<Rightarrow> 'g app \<Rightarrow> 'g users_reply" where
  "Users_Delete en r ap =
     (case parseUserID r of
        None \<Rightarrow> (ap, BadRequest ''invalid user id'')
      | Some i \<Rightarrow>
          (case User_Delete en i (actor_of r) ap of
             (ap1, Inl e) \<Rightarrow> (ap1, mapUserError e)
           | (ap1, Inr _) \<Rightarrow> (ap1, Success None ''User deleted successfully'')))"

end
