(* ===== verification/Admin_Api.thy ===== *)
theory Admin_Api
  imports Acl_Api Proxy_Handler Settings_Handler Users_Handler L4_Handler L4_Props Demo_App
begin

text \<open>
  The administration interface as one transition system: a step is one request to any of its calls,
  by anybody, with any body, database faults, clock, and outcome of bcrypt, of the file system and of
  Caddy. The parts share one database, one role store, one audit log and one running configuration,
  and each leaves the invariants of the others intact.
\<close>

section \<open>Steps\<close>

inductive admin_step :: "'g role_manager \<Rightarrow> 'g app \<Rightarrow> 'g app \<Rightarrow> bool" for rm where
  acl: "admin_step rm ap (fst (acl_serve ob en c r ap))"
| get_branding: "admin_step rm ap (fst (ACL_GetBranding en ap))"
| update_branding: "admin_step rm ap (fst (ACL_UpdateBranding en br r ap))"
| create_proxy: "admin_step rm ap (fst (H_CreateProxy et en cp r ap))"
| import_proxies: "admin_step rm ap (fst (H_ImportProxies en ip r ap))"
| update_proxy: "admin_step rm ap (fst (H_UpdateProxy et en up r ap))"
| delete_proxy: "admin_step rm ap (fst (H_DeleteProxy en r ap))"
| enable_proxy: "admin_step rm ap (fst (H_EnableProxy et en r ap))"
| disable_proxy: "admin_step rm ap (fst (H_DisableProxy en r ap))"
| bulk_enable: "admin_step rm ap (fst (BulkEnableProxies en ids ap))"
| bulk_disable: "admin_step rm ap (fst (BulkDisableProxies en ids ap))"
| bulk_delete: "admin_step rm ap (fst (BulkDeleteProxies en ids ap))"
| update_setting: "admin_step rm ap (fst (Settings_Update en sv r ap))"
| update_not_found: "admin_step rm ap (fst (Settings_UpdateNotFound en nf r ap))"
| update_metrics: "admin_step rm ap (fst (Settings_UpdateMetricsPublish ep en um r ap))"
| create_user: "ae_roles en = rm \<Longrightarrow> admin_step rm ap (fst (Users_Create en cu r ap))"
| update_user: "ae_roles en = rm \<Longrightarrow> admin_step rm ap (fst (Users_Update en uu r ap))"
| reset_password: "ae_roles en = rm \<Longrightarrow> admin_step rm ap (fst (Users_ResetPassword en rp r ap))"
| delete_user: "ae_roles en = rm \<Longrightarrow> admin_step rm ap (fst (Users_Delete en r ap))"
| create_l4: "admin_step rm ap (fst (L4H_Create e4 en c4 r ap))"
| update_l4: "admin_step rm ap (fst (L4H_Update e4 en u4 r ap))"
| delete_l4: "admin_step rm ap (fst (L4H_Delete en r ap))"
| toggle_l4: "admin_step rm ap (fst (L4H_ToggleActive en r ap))"
| bulk_enable_l4: "admin_step rm ap (fst (L4H_BulkEnable en ids ap))"
| bulk_disable_l4: "admin_step rm ap (fst (L4H_BulkDisable en ids ap))"
| bulk_delete_l4: "admin_step rm ap (fst (L4H_BulkDelete en ids ap))"

inductive admin_reachable :: "'g role_manager \<Rightarrow> 'g app \<Rightarrow> 'g app \<Rightarrow> bool" for rm ap0 where
  start: "admin_reachable rm ap0 ap0"
| step: "admin_reachable rm ap0 ap \<Longrightarrow> admin_step rm ap ap' \<Longrightarrow> admin_reachable rm ap0 ap'"

section \<open>The invariant and what keeps it\<close>

definition app_ok :: "'g role_manager \<Rightarrow> 'g app \<Rightarrow> bool" where
  "app_ok rm ap \<longleftrightarrow> db_ok (ap_db ap) \<and> l4_inv (ap_db ap) \<and> has_admin rm ap"

definition store_move :: "'g app \<Rightarrow> 'g app \<Rightarrow> bool" where
  "store_move ap ap' \<longleftrightarrow>
     ap_roles ap' = ap_roles ap \<and> db_users (ap_db ap') = db_users (ap_db ap) \<and>
     db_l4_proxies (ap_db ap') = db_l4_proxies (ap_db ap) \<and> db_l4_routes (ap_db ap') = db_l4_routes (ap_db ap) \<and>
     (system_ok (ap_acl ap) \<longrightarrow> system_ok (ap_acl ap'))"

lemma l4_inv_cong:
  "db_l4_proxies db' = db_l4_proxies db \<Longrightarrow> db_l4_routes db' = db_l4_routes db \<Longrightarrow> l4_inv db' = l4_inv db"
  by (simp add: l4_inv_def)

lemma has_admin_cong:
  "ap_roles ap' = ap_roles ap \<Longrightarrow> db_users (ap_db ap') = db_users (ap_db ap) \<Longrightarrow> has_admin rm ap' = has_admin rm ap"
  by (simp add: has_admin_def is_admin_def)

lemma store_move_ok: "store_move ap ap' \<Longrightarrow> app_ok rm ap \<Longrightarrow> app_ok rm ap'"
  unfolding app_ok_def store_move_def db_ok_def
  using l4_inv_cong[of "ap_db ap'" "ap_db ap"] has_admin_cong[of ap' ap rm] by metis

lemma store_move_refl [simp]: "store_move ap ap"
  by (simp add: store_move_def)

lemma store_move_audit [simp]: "store_move ap (audit en ev ap') \<longleftrightarrow> store_move ap ap'"
  by (simp add: store_move_def)

definition l4_move :: "'g app \<Rightarrow> 'g app \<Rightarrow> bool" where
  "l4_move ap ap' \<longleftrightarrow>
     ap_roles ap' = ap_roles ap \<and> ap_acl ap' = ap_acl ap \<and> (l4_inv (ap_db ap) \<longrightarrow> l4_inv (ap_db ap'))"

lemma l4_move_ok: "l4_move ap ap' \<Longrightarrow> app_ok rm ap \<Longrightarrow> app_ok rm ap'"
  unfolding app_ok_def l4_move_def db_ok_def using has_admin_cong[of ap' ap rm] by metis

section \<open>Access control\<close>

lemma acl_store_move:
  assumes "ap_db ap' = (ap_db ap)\<lparr>db_acl := fst (acl_exec env a (ap_acl ap))\<rparr>" "ap_roles ap' = ap_roles ap"
  shows "store_move ap ap'"
  using assms acl_exec_keeps[of "ap_acl ap" env a] acl_exec_ok[of "ap_acl ap" env a]
    keeps_system_ok[of "ap_acl ap" "fst (acl_exec env a (ap_acl ap))"]
  by (auto simp: store_move_def keeps_tables_def dest: system_ok_parts(1))

lemma acl_serve_move: "store_move ap (fst (acl_serve ob en c r ap))"
  using acl_serve_serves[of en c r ap ob] unfolding serves_def refused_def carried_out_def
  by (auto intro: acl_store_move)

lemma keeps_move:
  assumes "keeps_tables (ap_acl ap) st" "store_ok (ap_acl ap) \<longrightarrow> store_ok st"
  shows "store_move ap (set_acl st ap)"
  using assms keeps_system_ok[of "ap_acl ap" st]
  by (auto simp: store_move_def set_acl_def keeps_tables_def dest: system_ok_parts(1))

lemma branding_move: "store_move ap (fst (ACL_GetBranding en ap))" "store_move ap (fst (ACL_UpdateBranding en b r ap))"
proof -
  obtain st0 res where g: "GetBranding (ae_flt en) (ap_acl ap) = (st0, res)" by fastforce
  have k0: "keeps_tables (ap_acl ap) st0" and s0: "store_ok (ap_acl ap) \<longrightarrow> store_ok st0"
    using session_ops_keep(5)[of "ap_acl ap" "ae_flt en"] GetBranding_ok[of "ap_acl ap" "ae_flt en"] g by simp_all
  show "store_move ap (fst (ACL_GetBranding en ap))"
    using g keeps_move[OF k0 s0] by (simp add: ACL_GetBranding_def split: sum.split)
  show "store_move ap (fst (ACL_UpdateBranding en b r ap))"
  proof (cases b)
    case None
    with g keeps_move[OF k0 s0] show ?thesis by (simp add: ACL_UpdateBranding_def Let_def)
  next
    case (Some req)
    obtain st e where u: "UpdateBranding (stage 1 (ae_flt en)) (branding_of req) st0 = (st, e)" by fastforce
    have "keeps_tables st0 st" "store_ok st0 \<longrightarrow> store_ok st"
      using acl_ops_keep(19)[of st0 "stage 1 (ae_flt en)" "branding_of req"]
        UpdateBranding_ok[of st0 "stage 1 (ae_flt en)" "branding_of req"] u by simp_all
    with k0 s0 have "store_move ap (set_acl st ap)" by (intro keeps_move) (auto simp: keeps_tables_def)
    moreover have "set_acl st (set_acl st0 ap) = set_acl st ap" by (simp add: set_acl_def)
    ultimately show ?thesis using g Some u by (simp add: ACL_UpdateBranding_def Let_def split: option.split)
  qed
qed

section \<open>Proxies\<close>

lemma proxy_repo_users:
  "st_users (fst (Proxy_Create_repo f p st)) = st_users st" "st_users (fst (Proxy_Update_repo f p st)) = st_users st"
  "st_users (fst (Proxy_Delete_repo f i st)) = st_users st" "st_users (fst (Proxy_UpdateStatus_repo f i b st)) = st_users st"
  by (simp_all add: Proxy_Create_repo_def Proxy_Update_repo_def Proxy_Delete_repo_def Proxy_UpdateStatus_repo_def
      delete_proxy_rows_def Let_def)

lemma proxy_ops_users:
  "st_users (fst (CreateProxy sy flt p u st w)) = st_users st" "st_users (fst (UpdateProxy sy flt i p st w)) = st_users st"
  "st_users (fst (DeleteProxy sy flt i st w)) = st_users st" "st_users (fst (EnableProxy sy flt i st w)) = st_users st"
  "st_users (fst (DisableProxy sy flt i st w)) = st_users st"
proof -
  show "st_users (fst (CreateProxy sy flt p u st w)) = st_users st"
    by (auto simp: CreateProxy_def Let_def split: option.split sum.split bool.split prod.split)
       (metis fst_conv proxy_repo_users)+
  show "st_users (fst (UpdateProxy sy flt i p st w)) = st_users st"
    by (auto simp: UpdateProxy_def Let_def split: option.split sum.split bool.split prod.split)
       (metis fst_conv proxy_repo_users)+
  show "st_users (fst (DeleteProxy sy flt i st w)) = st_users st"
    by (auto simp: DeleteProxy_def split: option.split sum.split prod.split) (metis fst_conv proxy_repo_users)+
  show "st_users (fst (EnableProxy sy flt i st w)) = st_users st"
    by (auto simp: EnableProxy_def split: option.split sum.split prod.split) (metis fst_conv proxy_repo_users)+
  show "st_users (fst (DisableProxy sy flt i st w)) = st_users st"
    by (auto simp: DisableProxy_def split: option.split sum.split prod.split) (metis fst_conv proxy_repo_users)+
qed

lemma bulk_loop_users:
  assumes "\<And>i st w. st_users (fst (f i st w)) = st_users st"
  shows "st_users (fst (bulk_loop f ids res st w)) = st_users st"
proof (induction ids arbitrary: res st w)
  case (Cons i ids)
  obtain st1 w1 e where r: "f i st w = (st1, w1, e)" by (cases "f i st w") auto
  with assms[of i st w] Cons.IH show ?case by (simp split: option.split)
qed simp

lemma import_step_users: "st_users (fst (import_step sy flt dry u ex i seen inp st w)) = st_users st"
proof (cases "ii_Proxy inp")
  case (Some p)
  obtain st1 w1 e where c: "CreateProxy sy flt p u st w = (st1, w1, e)" by (cases "CreateProxy sy flt p u st w") auto
  with proxy_ops_users(1)[of sy flt p u st w] Some show ?thesis
    by (simp add: import_step_def Let_def split: option.split sum.split)
qed (simp add: import_step_def Let_def)

lemma import_loop_users: "st_users (fst (import_loop sy flt dry u ex i seen ins st w)) = st_users st"
proof (induction ins arbitrary: i seen st w)
  case (Cons inp ins)
  obtain st1 w1 seen1 item where r: "import_step sy flt dry u ex i seen inp st w = (st1, w1, seen1, item)"
    by (cases "import_step sy flt dry u ex i seen inp st w") auto
  with import_step_users[of sy flt dry u ex i seen inp st w] Cons.IH[of "Suc i" seen1 st1 w1] show ?case
    by (simp split: prod.split) (metis fst_conv)
qed simp

lemma proxy_exec_users: "st_users (fst (proxy_exec sy flt p st w)) = st_users st"
proof (cases p)
  case (OpImportProxies ins dry u)
  have "fst (ImportProxies sy flt ins dry u st w) =
      fst (import_loop sy flt dry u (ExistingHostnames (flt ''ExistingHostnames'') (map px_Hostname (List.map_filter ii_Proxy ins)) st)
        0 [] ins st w)"
    by (simp add: ImportProxies_def split: prod.split)
  with OpImportProxies import_loop_users show ?thesis by simp
qed (simp_all add: proxy_ops_users BulkSetActive_def BulkDelete_def runBulk_def bulk_loop_users)

text \<open>A handler that runs one operation of the service and perhaps writes an audit entry.\<close>

lemma proxy_move: "fst (proxy_exec sy flt p (ap_acl ap) w) = st \<Longrightarrow> store_move ap (moved st w' ap)"
  using proxy_exec_users[of sy flt p "ap_acl ap" w] proxy_exec_ok[of "ap_acl ap" sy flt p w]
  by (auto simp: store_move_def moved_def set_acl_def)

lemma op_moves:
  "CreateProxy sy flt p u (ap_acl ap) w = (st, w1, e) \<Longrightarrow> store_move ap (moved st w' ap)"
  "UpdateProxy sy flt i p (ap_acl ap) w = (st, w1, e) \<Longrightarrow> store_move ap (moved st w' ap)"
  "DeleteProxy sy flt i (ap_acl ap) w = (st, w1, e) \<Longrightarrow> store_move ap (moved st w' ap)"
  "EnableProxy sy flt i (ap_acl ap) w = (st, w1, e) \<Longrightarrow> store_move ap (moved st w' ap)"
  "DisableProxy sy flt i (ap_acl ap) w = (st, w1, e) \<Longrightarrow> store_move ap (moved st w' ap)"
  "BulkSetActive sy flt ids b (ap_acl ap) w = (st, w1, rep) \<Longrightarrow> store_move ap (moved st w' ap)"
  "BulkDelete sy flt ids (ap_acl ap) w = (st, w1, rep) \<Longrightarrow> store_move ap (moved st w' ap)"
  "ImportProxies sy flt ins dry u (ap_acl ap) w = (st, w1, rp) \<Longrightarrow> store_move ap (moved st w' ap)"
proof -
  note m = proxy_move[where w = w and sy = sy and flt = flt and ap = ap]
  show "CreateProxy sy flt p u (ap_acl ap) w = (st, w1, e) \<Longrightarrow> store_move ap (moved st w' ap)"
    by (rule m[of "OpCreateProxy p u"]) simp
  show "UpdateProxy sy flt i p (ap_acl ap) w = (st, w1, e) \<Longrightarrow> store_move ap (moved st w' ap)"
    by (rule m[of "OpUpdateProxy i p"]) simp
  show "DeleteProxy sy flt i (ap_acl ap) w = (st, w1, e) \<Longrightarrow> store_move ap (moved st w' ap)"
    by (rule m[of "OpDeleteProxy i"]) simp
  show "EnableProxy sy flt i (ap_acl ap) w = (st, w1, e) \<Longrightarrow> store_move ap (moved st w' ap)"
    by (rule m[of "OpEnableProxy i"]) simp
  show "DisableProxy sy flt i (ap_acl ap) w = (st, w1, e) \<Longrightarrow> store_move ap (moved st w' ap)"
    by (rule m[of "OpDisableProxy i"]) simp
  show "BulkSetActive sy flt ids b (ap_acl ap) w = (st, w1, rep) \<Longrightarrow> store_move ap (moved st w' ap)"
    by (rule m[of "OpBulkSetActive ids b"]) simp
  show "BulkDelete sy flt ids (ap_acl ap) w = (st, w1, rep) \<Longrightarrow> store_move ap (moved st w' ap)"
    by (rule m[of "OpBulkDelete ids"]) simp
  show "ImportProxies sy flt ins dry u (ap_acl ap) w = (st, w1, rp) \<Longrightarrow> store_move ap (moved st w' ap)"
    by (rule m[of "OpImportProxies ins dry u"]) simp
qed

lemma audit_switch_move [simp]: "store_move ap (audit_switch ev en u i r ap') \<longleftrightarrow> store_move ap ap'"
  by (simp add: audit_switch_def split: sum.split)

lemma proxy_handlers_move:
  "store_move ap (fst (H_CreateProxy et en cp r ap))" "store_move ap (fst (H_ImportProxies en ip r ap))"
  "store_move ap (fst (H_UpdateProxy et en up r ap))" "store_move ap (fst (H_DeleteProxy en r ap))"
  "store_move ap (fst (H_EnableProxy et en r ap))" "store_move ap (fst (H_DisableProxy en r ap))"
  "store_move ap (fst (BulkEnableProxies en ids ap))" "store_move ap (fst (BulkDisableProxies en ids ap))"
  "store_move ap (fst (BulkDeleteProxies en ids ap))"
  by (auto simp: H_CreateProxy_def H_ImportProxies_def H_UpdateProxy_def H_DeleteProxy_def H_EnableProxy_def
      H_DisableProxy_def BulkEnableProxies_def BulkDisableProxies_def BulkDeleteProxies_def Let_def
      split: option.split sum.split prod.split elim: op_moves)

section \<open>Settings\<close>

lemma settings_move [simp]: "store_move ap (set_settings t ap') \<longleftrightarrow> store_move ap ap'"
  by (simp add: store_move_def set_settings_def)

lemma audit_setting_move [simp]: "store_move ap (audit_setting en r k o' n ap') \<longleftrightarrow> store_move ap ap'"
  by (simp add: audit_setting_def)

lemma update_catchall_move: "update_catchall en ap' = (ap'', e) \<Longrightarrow> store_move ap ap'' = store_move ap ap'"
  by (auto simp: update_catchall_def store_move_def split: prod.splits)

lemma catchall_after_move:
  "map_prod (\<lambda>a. a) f (update_catchall en (set_settings t ap)) = (ap', e) \<Longrightarrow> store_move ap ap'"
  by (cases "update_catchall en (set_settings t ap)") (auto dest!: update_catchall_move[where ap = ap])

lemma service_moves:
  "SettingsService_SetNotFoundSettings en s ap = (ap', e) \<Longrightarrow> store_move ap ap'"
  "SettingsService_SetMetricsPublishSettings en m ap = (ap', e) \<Longrightarrow> store_move ap ap'"
  by (auto simp: SettingsService_SetNotFoundSettings_def SettingsService_SetMetricsPublishSettings_def
      split: prod.splits option.splits dest: catchall_after_move)

lemma settings_handlers_move:
  "store_move ap (fst (Settings_Update en sv r ap))" "store_move ap (fst (Settings_UpdateNotFound en nf r ap))"
  "store_move ap (fst (Settings_UpdateMetricsPublish ep en um r ap))"
  by (auto simp: Settings_Update_def Settings_UpdateNotFound_def Settings_UpdateMetricsPublish_def Let_def
      split: option.split sum.split prod.split dest: service_moves)

section \<open>Layer 4\<close>

lemma l4_repo_acl:
  "db_acl (fst (L4_Create_repo flt p db)) = db_acl db" "db_acl (fst (L4_Update_repo flt p db)) = db_acl db"
  "db_acl (fst (L4_Delete_repo flt i db)) = db_acl db"
  by (simp_all add: L4_Create_repo_def L4_Update_repo_def L4_Delete_repo_def Let_def)

lemma l4_ops_acl:
  "db_acl (fst (L4_Create flt now req u db)) = db_acl db" "db_acl (fst (L4_Update flt i req db)) = db_acl db"
  "db_acl (fst (L4_Delete flt i db)) = db_acl db" "db_acl (fst (set_active m flt i f db)) = db_acl db"
proof -
  show "db_acl (fst (L4_Create flt now req u db)) = db_acl db"
    by (auto simp: L4_Create_def Let_def split: option.split prod.split) (metis fst_conv l4_repo_acl)+
  show "db_acl (fst (L4_Update flt i req db)) = db_acl db"
    by (auto simp: L4_Update_def Let_def split: option.split prod.split sum.split) (metis fst_conv l4_repo_acl)+
  show "db_acl (fst (L4_Delete flt i db)) = db_acl db"
    by (auto simp: L4_Delete_def split: option.split prod.split sum.split) (metis fst_conv l4_repo_acl)+
  show "db_acl (fst (set_active m flt i f db)) = db_acl db"
    by (auto simp: set_active_def Let_def split: option.split prod.split sum.split) (metis fst_conv l4_repo_acl)+
qed

definition l4_kept :: "app_db \<Rightarrow> app_db \<Rightarrow> bool" where
  "l4_kept db db' \<longleftrightarrow> db_acl db' = db_acl db \<and> (l4_inv db \<longrightarrow> l4_inv db')"

lemma l4_kept_move [simp]: "l4_move ap (set_db db ap) \<longleftrightarrow> l4_kept (ap_db ap) db"
  by (simp add: l4_move_def set_db_def l4_kept_def)

lemma l4_bulk_kept:
  assumes "\<And>i db. l4_kept db (fst (op i db))" "runL4Bulk ids op db = (db', rep)"
  shows "l4_kept db db'"
proof -
  have "l4_kept db (fst (runL4Bulk_loop op ids res db))" for res
  proof (induction ids arbitrary: res db)
    case (Cons i ids)
    obtain db1 x where r: "op i db = (db1, x)" by fastforce
    have "l4_kept db db1" using assms(1)[of db i] r by simp
    with Cons.IH r show ?case by (auto simp: l4_kept_def split: sum.split)
  qed (simp add: l4_kept_def)
  with assms(2) show ?thesis unfolding runL4Bulk_def by (metis fst_conv)
qed

lemma l4_ops_kept:
  "L4_Create flt now req u db = (db', x) \<Longrightarrow> l4_kept db db'" "L4_Update flt i req db = (db', x) \<Longrightarrow> l4_kept db db'"
  "L4_Delete flt i db = (db', y) \<Longrightarrow> l4_kept db db'" "ToggleActive flt i db = (db', x) \<Longrightarrow> l4_kept db db'"
  "L4_BulkSetActive flt ids b db = (db', rep) \<Longrightarrow> l4_kept db db'" "L4_BulkDelete flt ids db = (db', rep) \<Longrightarrow> l4_kept db db'"
proof -
  have s: "l4_kept db (fst (set_active m flt i f db))" for m i f db
    by (simp add: l4_kept_def l4_ops_acl l4_inv_set_active)
  have d: "l4_kept db (fst (L4_Delete flt i db))" for i db by (simp add: l4_kept_def l4_ops_acl l4_inv_L4_Delete)
  have a: "l4_kept db (fst (map_prod (\<lambda>d. d) (map_sum (\<lambda>e. e) (\<lambda>_. ())) (SetActive flt i b db)))" for i db
    using s by (simp add: SetActive_def)
  show "L4_Create flt now req u db = (db', x) \<Longrightarrow> l4_kept db db'"
    using l4_ops_acl(1)[of flt now req u db] l4_inv_L4_Create[of db flt now req u] by (simp add: l4_kept_def)
  show "L4_Update flt i req db = (db', x) \<Longrightarrow> l4_kept db db'"
    using l4_ops_acl(2)[of flt i req db] l4_inv_L4_Update[of db flt i req] by (simp add: l4_kept_def)
  show "L4_Delete flt i db = (db', y) \<Longrightarrow> l4_kept db db'" using d[of db i] by simp
  show "ToggleActive flt i db = (db', x) \<Longrightarrow> l4_kept db db'" using s by (metis ToggleActive_def fst_conv)
  show "L4_BulkSetActive flt ids b db = (db', rep) \<Longrightarrow> l4_kept db db'"
    unfolding L4_BulkSetActive_def by (rule l4_bulk_kept[OF a])
  show "L4_BulkDelete flt ids db = (db', rep) \<Longrightarrow> l4_kept db db'"
    unfolding L4_BulkDelete_def by (rule l4_bulk_kept[OF d])
qed

lemma l4_move_refl [simp]: "l4_move ap ap"
  by (simp add: l4_move_def)

lemma l4_handlers_move:
  "l4_move ap (fst (L4H_Create e4 en c4 r ap))" "l4_move ap (fst (L4H_Update e4 en u4 r ap))"
  "l4_move ap (fst (L4H_Delete en r ap))" "l4_move ap (fst (L4H_ToggleActive en r ap))"
  "l4_move ap (fst (L4H_BulkEnable en ids ap))" "l4_move ap (fst (L4H_BulkDisable en ids ap))"
  "l4_move ap (fst (L4H_BulkDelete en ids ap))"
  by (auto simp: L4H_Create_def L4H_Update_def L4H_Delete_def L4H_ToggleActive_def L4H_BulkEnable_def
      L4H_BulkDisable_def L4H_BulkDelete_def split: option.split sum.split prod.split dest: l4_ops_kept)

section \<open>Users\<close>

lemma user_repo_l4:
  "l4_inv (fst (User_Create_repo flt u db)) = l4_inv db" "l4_inv (fst (User_Update_repo flt u db)) = l4_inv db"
  "l4_inv (fst (UpdatePassword flt i h db)) = l4_inv db" "l4_inv (fst (User_Delete_repo flt i db)) = l4_inv db"
  by (rule l4_inv_cong; simp add: User_Create_repo_def User_Update_repo_def UpdatePassword_def User_Delete_repo_def
      split: option.split)+

lemma user_ops_l4:
  "l4_inv (ap_db (fst (User_Create en inp ac ap))) = l4_inv (ap_db ap)"
  "l4_inv (ap_db (fst (User_Update en i upd ac ap))) = l4_inv (ap_db ap)"
  "l4_inv (ap_db (fst (ResetPassword en i pw mc ac ap))) = l4_inv (ap_db ap)"
  "l4_inv (ap_db (fst (User_Delete en i ac ap))) = l4_inv (ap_db ap)"
proof -
  show "l4_inv (ap_db (fst (User_Create en inp ac ap))) = l4_inv (ap_db ap)"
    using User_Create_db[of en inp ac ap] by (auto simp: user_repo_l4)
  show "l4_inv (ap_db (fst (ResetPassword en i pw mc ac ap))) = l4_inv (ap_db ap)"
    using ResetPassword_db[of en i pw mc ac ap] by (auto simp: user_repo_l4)
  show "l4_inv (ap_db (fst (User_Delete en i ac ap))) = l4_inv (ap_db ap)"
    by (simp add: User_Delete_def delete_act_simps user_repo_l4 split: sum.splits)
  obtain ap' r where e: "User_Update en i upd ac ap = (ap', r)" by fastforce
  then show "l4_inv (ap_db (fst (User_Update en i upd ac ap))) = l4_inv (ap_db ap)"
  proof (cases rule: User_Update_cases)
    case (2 u oldRole db1 ap2)
    with e user_repo_l4(2) show ?thesis by (metis fst_conv)
  qed (use e in simp)
qed

lemma user_op_ok:
  assumes "role_laws (ae_roles en)" "app_ok (ae_roles en) ap"
  shows "User_Create en inp ac ap = (ap', x) \<Longrightarrow> app_ok (ae_roles en) ap'"
    "User_Update en i upd ac ap = (ap', x) \<Longrightarrow> app_ok (ae_roles en) ap'"
    "ResetPassword en i pw mc ac ap = (ap', y) \<Longrightarrow> app_ok (ae_roles en) ap'"
    "User_Delete en i ac ap = (ap', y) \<Longrightarrow> app_ok (ae_roles en) ap'"
proof -
  have o: "db_ok (ap_db ap)" "l4_inv (ap_db ap)" "has_admin (ae_roles en) ap" "users_ok (db_users (ap_db ap))"
    using assms(2) by (simp_all add: app_ok_def db_ok_def)
  show "User_Create en inp ac ap = (ap', x) \<Longrightarrow> app_ok (ae_roles en) ap'"
    using user_ops_db_ok(1)[OF o(1), of en inp ac] user_ops_l4(1)[of en inp ac ap] o(2)
      User_Create_admin[OF assms(1) o(4,3), of inp ac] by (simp add: app_ok_def)
  show "User_Update en i upd ac ap = (ap', x) \<Longrightarrow> app_ok (ae_roles en) ap'"
    using user_ops_db_ok(2)[OF o(1), of en i upd ac] user_ops_l4(2)[of en i upd ac ap] o(2)
      User_Update_admin[of en ap i upd ac] assms(1) o by (simp add: app_ok_def)
  show "ResetPassword en i pw mc ac ap = (ap', y) \<Longrightarrow> app_ok (ae_roles en) ap'"
    using user_ops_db_ok(3)[OF o(1), of en i pw mc ac] user_ops_l4(3)[of en i pw mc ac ap] o(2)
      ResetPassword_admin[of en ap i pw mc ac] o by (simp add: app_ok_def)
  show "User_Delete en i ac ap = (ap', y) \<Longrightarrow> app_ok (ae_roles en) ap'"
    using user_ops_db_ok(4)[OF o(1), of en i ac] user_ops_l4(4)[of en i ac ap] o(2)
      User_Delete_admin[OF o(3,4), of i ac] by (simp add: app_ok_def)
qed

lemma users_handlers_ok:
  assumes "ae_roles en = rm" "role_laws rm" "app_ok rm ap"
  shows "app_ok rm (fst (Users_Create en cu r ap))" "app_ok rm (fst (Users_Update en uu r ap))"
    "app_ok rm (fst (Users_ResetPassword en rp r ap))" "app_ok rm (fst (Users_Delete en r ap))"
proof -
  have a: "role_laws (ae_roles en)" "app_ok (ae_roles en) ap" using assms by simp_all
  show "app_ok rm (fst (Users_Create en cu r ap))" "app_ok rm (fst (Users_Update en uu r ap))"
    "app_ok rm (fst (Users_ResetPassword en rp r ap))" "app_ok rm (fst (Users_Delete en r ap))"
    using a(2) unfolding assms(1)[symmetric]
    by (auto simp: Users_Create_def Users_Update_def Users_ResetPassword_def Users_Delete_def
        split: option.split sum.split prod.split dest: user_op_ok[OF a])
qed

section \<open>Sequences of requests\<close>

lemma admin_step_ok:
  assumes "admin_step rm ap ap'" "role_laws rm" "app_ok rm ap"
  shows "app_ok rm ap'"
  using assms(1)
proof cases
  case acl
  then show ?thesis using store_move_ok[OF acl_serve_move assms(3)] by simp
qed (use assms(2,3) in \<open>simp_all add: store_move_ok[OF branding_move(1)] store_move_ok[OF branding_move(2)]
    store_move_ok[OF proxy_handlers_move(1)] store_move_ok[OF proxy_handlers_move(2)]
    store_move_ok[OF proxy_handlers_move(3)] store_move_ok[OF proxy_handlers_move(4)]
    store_move_ok[OF proxy_handlers_move(5)] store_move_ok[OF proxy_handlers_move(6)]
    store_move_ok[OF proxy_handlers_move(7)] store_move_ok[OF proxy_handlers_move(8)]
    store_move_ok[OF proxy_handlers_move(9)] store_move_ok[OF settings_handlers_move(1)]
    store_move_ok[OF settings_handlers_move(2)] store_move_ok[OF settings_handlers_move(3)]
    l4_move_ok[OF l4_handlers_move(1)] l4_move_ok[OF l4_handlers_move(2)] l4_move_ok[OF l4_handlers_move(3)]
    l4_move_ok[OF l4_handlers_move(4)] l4_move_ok[OF l4_handlers_move(5)] l4_move_ok[OF l4_handlers_move(6)]
    l4_move_ok[OF l4_handlers_move(7)] users_handlers_ok\<close>)



end
