(* ===== verification/Traffic_Metrics.thy ===== *)
theory Traffic_Metrics
  imports Handler_Base "HOL-Library.AList"
begin

text \<open>
  Traffic metrics, from the scrape of Caddy to the answer of the interface:
  \<open>backend/internal/caddy/metrics/parse.go\<close>, \<open>models/traffic_sample.go\<close>,
  \<open>repository/traffic_sample_repository.go\<close>, \<open>service/metrics_scraper_service.go\<close>,
  \<open>service/traffic_metrics_service.go\<close> and \<open>api/handlers/metrics_handler.go\<close>. The parser of the
  exposition format is a parameter, as are \<open>%g\<close> printing and scanning. Times are nanoseconds,
  \<open>float64\<close> values are exact, counters are 64-bit integers. A Go map is an association list.
\<close>

section \<open>Samples\<close>

text \<open>The seven counters a scrape, a sample, an accumulator and a point share, by name.\<close>

datatype counter = Req2xx | Req3xx | Req4xx | Req5xx | ReqOther | BytesIn | BytesOut

type_synonym counters = "counter \<Rightarrow> int"

type_synonym bucket_counts = "(string \<times> int) list"

record Snapshot =
  sn_Counts :: counters
  sn_DurationBuckets :: bucket_counts
  sn_DurationSum :: rat
  sn_DurationCount :: int
  sn_InFlight :: int

record TrafficSample =
  ts_ID :: int
  ts_CollectedAt :: int
  ts_Counts :: counters
  ts_DurationBuckets :: bucket_counts
  ts_DurationSum :: rat
  ts_DurationCount :: int
  ts_InFlight :: int

definition add_count :: "counter \<Rightarrow> int \<Rightarrow> counters \<Rightarrow> counters" where
  "add_count c n m = m(c := wrap64 (m c + n))"

text \<open>\<open>m[k] += n\<close> on a map, where an absent key counts zero.\<close>

definition count_of :: "bucket_counts \<Rightarrow> string \<Rightarrow> int" where
  "count_of m k = (case map_of m k of None \<Rightarrow> 0 | Some n \<Rightarrow> n)"

definition bump :: "string \<times> int \<Rightarrow> bucket_counts \<Rightarrow> bucket_counts" where
  "bump kn m = AList.update (fst kn) (wrap64 (count_of m (fst kn) + snd kn)) m"

section \<open>Parsing a scrape\<close>

text \<open>The upper bound of a histogram bucket, in the order of \<open>float64\<close>.\<close>

datatype bound = Finite rat | PosInf

instantiation bound :: linorder
begin

definition less_eq_bound :: "bound \<Rightarrow> bound \<Rightarrow> bool" where
  "less_eq_bound a b = (case b of PosInf \<Rightarrow> True | Finite y \<Rightarrow> (case a of PosInf \<Rightarrow> False | Finite x \<Rightarrow> x \<le> y))"

definition less_bound :: "bound \<Rightarrow> bound \<Rightarrow> bool" where
  "less_bound a b = (case a of PosInf \<Rightarrow> False | Finite x \<Rightarrow> (case b of PosInf \<Rightarrow> True | Finite y \<Rightarrow> x < y))"

instance
  by standard (auto simp: less_eq_bound_def less_bound_def split: bound.splits)

end

lemma bound_le [simp]:
  "Finite x \<le> Finite y \<longleftrightarrow> x \<le> y" "b \<le> PosInf" "PosInf \<le> b \<longleftrightarrow> b = PosInf" "\<not> PosInf \<le> Finite x"
  by (auto simp: less_eq_bound_def split: bound.splits)

record histogram =
  hi_SampleCount :: nat
  hi_SampleSum :: rat
  hi_Buckets :: "(bound \<times> nat) list"

record metric_series =
  ms_Labels :: "(string \<times> string) list"
  ms_Histogram :: "histogram option"
  ms_Gauge :: "rat option"

type_synonym families = "(string \<times> metric_series list) list"

definition u64ToI64 :: "nat \<Rightarrow> int" where
  "u64ToI64 v = (if int v > 2 ^ 63 - 1 then 2 ^ 63 - 1 else int v)"

definition codeLabel :: "metric_series \<Rightarrow> string" where
  "codeLabel m = (case map_of (ms_Labels m) ''code'' of None \<Rightarrow> [] | Some v \<Rightarrow> v)"

definition code_class :: "string \<Rightarrow> counter" where
  "code_class code =
     (case code of
        [] \<Rightarrow> ReqOther
      | c # _ \<Rightarrow>
          if c = CHR ''2'' then Req2xx
          else if c = CHR ''3'' then Req3xx
          else if c = CHR ''4'' then Req4xx
          else if c = CHR ''5'' then Req5xx
          else ReqOther)"

definition addByCodeClass :: "string \<Rightarrow> int \<Rightarrow> Snapshot \<Rightarrow> Snapshot" where
  "addByCodeClass code n s = s\<lparr>sn_Counts := add_count (code_class code) n (sn_Counts s)\<rparr>"

definition add_size :: "counter \<Rightarrow> metric_series \<Rightarrow> Snapshot \<Rightarrow> Snapshot" where
  "add_size c m s =
     (case ms_Histogram m of
        None \<Rightarrow> s
      | Some h \<Rightarrow> s\<lparr>sn_Counts := add_count c (go_int (hi_SampleSum h)) (sn_Counts s)\<rparr>)"

definition add_duration :: "(bound \<Rightarrow> string) \<Rightarrow> metric_series \<Rightarrow> Snapshot \<Rightarrow> Snapshot" where
  "add_duration print m s =
     (case ms_Histogram m of
        None \<Rightarrow> s
      | Some h \<Rightarrow>
          let n = u64ToI64 (hi_SampleCount h); s1 = addByCodeClass (codeLabel m) n s in
          s1\<lparr>sn_DurationSum := sn_DurationSum s1 + hi_SampleSum h,
             sn_DurationCount := wrap64 (sn_DurationCount s1 + n),
             sn_DurationBuckets :=
               fold (\<lambda>(b, k). bump (print b, u64ToI64 k)) (hi_Buckets h) (sn_DurationBuckets s1)\<rparr>)"

definition add_in_flight :: "metric_series \<Rightarrow> Snapshot \<Rightarrow> Snapshot" where
  "add_in_flight m s =
     (case ms_Gauge m of None \<Rightarrow> s | Some g \<Rightarrow> s\<lparr>sn_InFlight := wrap64 (sn_InFlight s + go_int g)\<rparr>)"

definition add_family :: "(bound \<Rightarrow> string) \<Rightarrow> string \<times> metric_series list \<Rightarrow> Snapshot \<Rightarrow> Snapshot" where
  "add_family print f s =
     (if fst f = ''caddy_http_request_size_bytes'' then fold (add_size BytesIn) (snd f) s
      else if fst f = ''caddy_http_response_size_bytes'' then fold (add_size BytesOut) (snd f) s
      else if fst f = ''caddy_http_request_duration_seconds'' then fold (add_duration print) (snd f) s
      else if fst f = ''caddy_http_requests_in_flight'' then fold add_in_flight (snd f) s
      else s)"

definition empty_snapshot :: Snapshot where
  "empty_snapshot =
     \<lparr>sn_Counts = (\<lambda>_. 0), sn_DurationBuckets = [], sn_DurationSum = 0, sn_DurationCount = 0, sn_InFlight = 0\<rparr>"

text \<open>
  \<open>parsed\<close> is what the parser made of the text: the families it found, and whether it stopped with an
  error, which counts only if it found none.
\<close>

definition ParseSnapshot :: "(bound \<Rightarrow> string) \<Rightarrow> families \<times> bool \<Rightarrow> Snapshot option" where
  "ParseSnapshot print parsed =
     (if snd parsed \<and> fst parsed = [] then None else Some (fold (add_family print) (fst parsed) empty_snapshot))"

section \<open>The repository\<close>

definition set_ts_ID :: "int \<Rightarrow> TrafficSample \<Rightarrow> TrafficSample" where "set_ts_ID i s = s\<lparr>ts_ID := i\<rparr>"

interpretation samples: row_table ts_ID set_ts_ID
  by unfold_locales (simp add: set_ts_ID_def)

definition Traffic_Create ::
  "faults \<Rightarrow> TrafficSample \<Rightarrow> TrafficSample table \<Rightarrow> TrafficSample table \<times> db_error option" where
  "Traffic_Create flt s t = (if flt ''TrafficSample.Create'' then (t, Some DBFault) else (tb_Create set_ts_ID s t, None))"

text \<open>Samples of the same time come in the order of their keys.\<close>

definition ListSince :: "faults \<Rightarrow> int \<Rightarrow> TrafficSample table \<Rightarrow> (db_error, TrafficSample list) result" where
  "ListSince flt since t =
     (if flt ''TrafficSample.ListSince'' then Err DBFault
      else Ok (sort_key ts_CollectedAt (tb_Find (\<lambda>s. since \<le> ts_CollectedAt s) t)))"

definition Traffic_DeleteOlderThan ::
  "faults \<Rightarrow> int \<Rightarrow> TrafficSample table \<Rightarrow> TrafficSample table \<times> (db_error, nat) result" where
  "Traffic_DeleteOlderThan flt before t =
     (if flt ''TrafficSample.DeleteOlderThan'' then (t, Err DBFault)
      else (tb_Delete (\<lambda>s. ts_CollectedAt s < before) t, Ok (length (tb_Find (\<lambda>s. ts_CollectedAt s < before) t))))"

section \<open>The scraper\<close>

definition retentionPeriod :: int where "retentionPeriod = 7 * 24 * 3600 * second_ns"

datatype scrape_error = GetFailed | UnexpectedStatus int | ParseFailed | StoreFailed db_error

text \<open>\<open>response\<close> is what the admin interface answers: nothing, or a status and a parsed body.\<close>

definition sample_of :: "int \<Rightarrow> Snapshot \<Rightarrow> TrafficSample" where
  "sample_of now s =
     \<lparr>ts_ID = 0, ts_CollectedAt = now, ts_Counts = sn_Counts s, ts_DurationBuckets = sn_DurationBuckets s,
      ts_DurationSum = sn_DurationSum s, ts_DurationCount = sn_DurationCount s, ts_InFlight = sn_InFlight s\<rparr>"

definition scrape ::
  "(bound \<Rightarrow> string) \<Rightarrow> faults \<Rightarrow> int \<Rightarrow> (int \<times> families \<times> bool) option \<Rightarrow> TrafficSample table
    \<Rightarrow> TrafficSample table \<times> scrape_error option" where
  "scrape print flt now response t =
     (case response of
        None \<Rightarrow> (t, Some GetFailed)
      | Some (status, body) \<Rightarrow>
          if status \<noteq> 200 then (t, Some (UnexpectedStatus status))
          else (case ParseSnapshot print body of
              None \<Rightarrow> (t, Some ParseFailed)
            | Some s \<Rightarrow>
                (case Traffic_Create flt (sample_of now s) t of
                   (t1, Some e) \<Rightarrow> (t1, Some (StoreFailed e))
                 | (t1, None) \<Rightarrow> (fst (Traffic_DeleteOlderThan flt (now - retentionPeriod) t1), None))))"

section \<open>The series\<close>

record bucketAccumulator =
  ba_Counts :: counters
  ba_Buckets :: bucket_counts
  ba_InFlight :: int

record TrafficPoint =
  tp_T :: int
  tp_Counts :: counters
  tp_P50Ms :: rat
  tp_P95Ms :: rat
  tp_InFlight :: int

record TrafficSeries =
  tf_Range :: string
  tf_StepSeconds :: int
  tf_Points :: "TrafficPoint list"

text \<open>Duration and step of each range, in seconds.\<close>

definition rangeConfigs :: "(string \<times> int \<times> int) list" where
  "rangeConfigs = [(''1h'', 3600, 30), (''24h'', 24 * 3600, 300), (''7d'', 7 * 24 * 3600, 3600)]"

definition clampNeg :: "int \<Rightarrow> int" where
  "clampNeg delta = (if delta < 0 then 0 else delta)"

definition bucketDeltas :: "bucket_counts \<Rightarrow> bucket_counts \<Rightarrow> bucket_counts" where
  "bucketDeltas prev cur = map (\<lambda>(le, n). (le, clampNeg (wrap64 (n - count_of prev le)))) cur"

text \<open>The steps divide the hour, and the zero time of Go is a whole hour, so truncation is this.\<close>

definition Truncate :: "int \<Rightarrow> int \<Rightarrow> int" where
  "Truncate t step = t - t mod step"

definition empty_acc :: bucketAccumulator where
  "empty_acc = \<lparr>ba_Counts = (\<lambda>_. 0), ba_Buckets = [], ba_InFlight = 0\<rparr>"

type_synonym accumulators = "(int \<times> bucketAccumulator) list"

definition series_step :: "int \<Rightarrow> TrafficSample \<Rightarrow> TrafficSample \<Rightarrow> accumulators \<Rightarrow> accumulators" where
  "series_step step prev cur accs =
     (let reset = ts_DurationCount cur < ts_DurationCount prev;
          d = (\<lambda>c. if reset then 0 else clampNeg (wrap64 (ts_Counts cur c - ts_Counts prev c)));
          dBuckets = (if reset then [] else bucketDeltas (ts_DurationBuckets prev) (ts_DurationBuckets cur));
          boundary = Truncate (ts_CollectedAt cur) step;
          acc = (case map_of accs boundary of None \<Rightarrow> empty_acc | Some a \<Rightarrow> a)
      in AList.update boundary
           \<lparr>ba_Counts = (\<lambda>c. wrap64 (ba_Counts acc c + d c)), ba_Buckets = fold bump dBuckets (ba_Buckets acc),
            ba_InFlight = ts_InFlight cur\<rparr> accs)"

fun series_loop :: "int \<Rightarrow> TrafficSample list \<Rightarrow> accumulators \<Rightarrow> accumulators" where
  "series_loop step (prev # cur # rest) accs = series_loop step (cur # rest) (series_step step prev cur accs)"
| "series_loop step _ accs = accs"

subsection \<open>Quantiles\<close>

text \<open>A key that does not scan is left out; \<open>scan\<close> is \<open>Sscanf\<close> with \<open>%g\<close>.\<close>

definition parsed_buckets :: "(string \<Rightarrow> rat option) \<Rightarrow> bucket_counts \<Rightarrow> (bound \<times> int) list" where
  "parsed_buckets scan m =
     sort_key fst
       (List.map_filter
          (\<lambda>(le, n). if le = ''+Inf'' then Some (PosInf, n) else map_option (\<lambda>f. (Finite f, n)) (scan le)) m)"

definition largest_finite :: "(bound \<times> int) list \<Rightarrow> rat" where
  "largest_finite parsed =
     fold (\<lambda>(b, n) m. case b of Finite x \<Rightarrow> if x > m then x else m | PosInf \<Rightarrow> m) parsed 0"

text \<open>The bound \<open>+Inf\<close> stands last, so it is never the lower bound of another bucket.\<close>

fun quantile_loop :: "rat \<Rightarrow> rat \<Rightarrow> rat \<Rightarrow> int \<Rightarrow> (bound \<times> int) list \<Rightarrow> rat" where
  "quantile_loop rank largest lowerBound lowerCount [] = largest"
| "quantile_loop rank largest lowerBound lowerCount ((b, n) # bs) =
     (if rank \<le> of_int n then
        (case b of
           PosInf \<Rightarrow> largest
         | Finite upperBound \<Rightarrow>
             if n = lowerCount then lowerBound
             else lowerBound + (rank - of_int lowerCount) / of_int (n - lowerCount) * (upperBound - lowerBound))
      else quantile_loop rank largest (case b of Finite x \<Rightarrow> x | PosInf \<Rightarrow> lowerBound) n bs)"

definition histogramQuantile :: "rat \<Rightarrow> (bound \<times> int) list \<Rightarrow> int \<Rightarrow> rat" where
  "histogramQuantile q parsed t = quantile_loop (q * of_int t) (largest_finite parsed) 0 0 parsed"

definition computeQuantiles :: "(string \<Rightarrow> rat option) \<Rightarrow> bucket_counts \<Rightarrow> rat \<times> rat" where
  "computeQuantiles scan m =
     (let parsed = parsed_buckets scan m in
      if parsed = [] \<or> fst (List.last parsed) \<noteq> PosInf then (0, 0)
      else let t = snd (List.last parsed) in
        if t = 0 then (0, 0)
        else (histogramQuantile (1 / 2) parsed t * 1000, histogramQuantile (95 / 100) parsed t * 1000))"

subsection \<open>The answer\<close>

definition point_of :: "(string \<Rightarrow> rat option) \<Rightarrow> int \<times> bucketAccumulator \<Rightarrow> TrafficPoint" where
  "point_of scan ka =
     (let q = computeQuantiles scan (ba_Buckets (snd ka)) in
      \<lparr>tp_T = fst ka, tp_Counts = ba_Counts (snd ka), tp_P50Ms = fst q, tp_P95Ms = snd q,
       tp_InFlight = ba_InFlight (snd ka)\<rparr>)"

datatype traffic_error = ErrInvalidRange string | ListFailed db_error

definition computeSeries ::
  "(string \<Rightarrow> rat option) \<Rightarrow> TrafficSample list \<Rightarrow> string \<Rightarrow> (traffic_error, TrafficSeries) result" where
  "computeSeries scan samples rng =
     (case map_of rangeConfigs rng of
        None \<Rightarrow> Err (ErrInvalidRange rng)
      | Some (dur, stepSeconds) \<Rightarrow>
          Ok \<lparr>tf_Range = rng, tf_StepSeconds = stepSeconds,
              tf_Points = map (point_of scan) (sort_key fst (series_loop (stepSeconds * second_ns) samples []))\<rparr>)"

definition GetTraffic ::
  "(string \<Rightarrow> rat option) \<Rightarrow> faults \<Rightarrow> int \<Rightarrow> string \<Rightarrow> TrafficSample table \<Rightarrow> (traffic_error, TrafficSeries) result" where
  "GetTraffic scan flt now rng0 t =
     (let rng = str_default ''1h'' rng0 in
      case map_of rangeConfigs rng of
        None \<Rightarrow> Err (ErrInvalidRange rng)
      | Some (dur, stepSeconds) \<Rightarrow>
          (case ListSince flt (now - dur * second_ns) t of
             Inl e \<Rightarrow> Err (ListFailed e)
           | Inr samples \<Rightarrow> computeSeries scan samples rng))"

text \<open>\<open>quote\<close> is \<open>%q\<close>.\<close>

definition Metrics_GetTraffic ::
  "(string \<Rightarrow> string) \<Rightarrow> (string \<Rightarrow> rat option) \<Rightarrow> faults \<Rightarrow> int \<Rightarrow> http_request \<Rightarrow> TrafficSample table
    \<Rightarrow> TrafficSeries http_response" where
  "Metrics_GetTraffic quote scan flt now r t =
     (case GetTraffic scan flt now (str_default ''1h'' (Query_Get r ''range'')) t of
        Inl (ErrInvalidRange rng) \<Rightarrow> BadRequest (''invalid range: '' @ quote rng)
      | Inl (ListFailed _) \<Rightarrow> InternalError ''failed to load traffic metrics''
      | Inr series \<Rightarrow> Success (Some series) ''Traffic metrics retrieved successfully'')"

section \<open>The totals\<close>

text \<open>What a pair of samples adds to a counter, and all pairs together.\<close>

definition increment :: "counter \<Rightarrow> TrafficSample \<Rightarrow> TrafficSample \<Rightarrow> int" where
  "increment c prev cur =
     (if ts_DurationCount cur < ts_DurationCount prev then 0 else max 0 (ts_Counts cur c - ts_Counts prev c))"

fun increments :: "counter \<Rightarrow> TrafficSample list \<Rightarrow> int" where
  "increments c (prev # cur # rest) = increment c prev cur + increments c (cur # rest)"
| "increments c _ = 0"

definition counter_ok :: "counter \<Rightarrow> TrafficSample \<Rightarrow> bool" where
  "counter_ok c s \<longleftrightarrow> 0 \<le> ts_Counts s c \<and> ts_Counts s c < 2 ^ 63"

definition acc_total :: "counter \<Rightarrow> accumulators \<Rightarrow> int" where
  "acc_total c accs = sum_list (map (\<lambda>ka. ba_Counts (snd ka) c) accs)"

definition accs_ok :: "counter \<Rightarrow> int \<Rightarrow> accumulators \<Rightarrow> bool" where
  "accs_ok c step accs \<longleftrightarrow>
     distinct (map fst accs) \<and> (\<forall>ka \<in> set accs. 0 \<le> ba_Counts (snd ka) c \<and> step dvd fst ka)"

lemma increments_nonneg: "0 \<le> increments c samples"
  by (induction c samples rule: increments.induct) (auto simp: increment_def)

lemma acc_total_update:
  "acc_total c (AList.update k a accs) =
     acc_total c accs - (case map_of accs k of None \<Rightarrow> 0 | Some a0 \<Rightarrow> ba_Counts a0 c) + ba_Counts a c"
  by (induction accs) (auto simp: acc_total_def split: option.split)

lemma acc_total_member:
  "accs_ok c step accs \<Longrightarrow> map_of accs k = Some a \<Longrightarrow> 0 \<le> ba_Counts a c \<and> ba_Counts a c \<le> acc_total c accs"
proof (induction accs)
  case (Cons ka accs)
  then have "accs_ok c step accs" and z: "0 \<le> ba_Counts (snd ka) c" by (auto simp: accs_ok_def)
  moreover from this have "0 \<le> acc_total c accs" by (auto simp: accs_ok_def acc_total_def intro!: sum_list_nonneg)
  ultimately show ?case using Cons by (auto simp: acc_total_def split: if_splits)
qed simp

lemma Truncate_dvd [simp]: "step dvd Truncate t step"
  by (simp add: Truncate_def dvd_minus_mod)

lemma set_update: "ka \<in> set (AList.update k a accs) \<Longrightarrow> ka = (k, a) \<or> ka \<in> set accs"
  by (induction accs) (auto split: if_splits)

lemma accs_ok_update:
  "accs_ok c step accs \<Longrightarrow> 0 \<le> ba_Counts a c \<Longrightarrow> step dvd k \<Longrightarrow> accs_ok c step (AList.update k a accs)"
  by (auto simp: accs_ok_def distinct_update dest!: set_update)

lemma series_step_total:
  assumes "accs_ok c step accs" "counter_ok c prev" "counter_ok c cur" "acc_total c accs + increment c prev cur < 2 ^ 63"
  shows "accs_ok c step (series_step step prev cur accs) \<and>
    acc_total c (series_step step prev cur accs) = acc_total c accs + increment c prev cur"
proof -
  let ?k = "Truncate (ts_CollectedAt cur) step"
  define acc where "acc = (case map_of accs ?k of None \<Rightarrow> empty_acc | Some a \<Rightarrow> a)"
  define d where "d = (if ts_DurationCount cur < ts_DurationCount prev then 0
    else clampNeg (wrap64 (ts_Counts cur c - ts_Counts prev c)))"
  have d: "d = increment c prev cur"
    using assms(2,3) by (simp add: d_def increment_def counter_ok_def clampNeg_def wrap64_id)
  have "0 \<le> acc_total c accs" using assms(1) by (auto simp: accs_ok_def acc_total_def intro!: sum_list_nonneg)
  then have a: "0 \<le> ba_Counts acc c" "ba_Counts acc c \<le> acc_total c accs"
    using acc_total_member[OF assms(1), of ?k] by (auto simp: acc_def empty_acc_def split: option.split)
  have i: "0 \<le> increment c prev cur" by (simp add: increment_def)
  then have w: "wrap64 (ba_Counts acc c + d) = ba_Counts acc c + increment c prev cur"
    using a assms(4) d by (simp add: wrap64_id)
  obtain b where s: "series_step step prev cur accs = AList.update ?k b accs" and b: "ba_Counts b c = wrap64 (ba_Counts acc c + d)"
    by (simp add: series_step_def Let_def flip: acc_def) (simp add: d_def)
  have "(case map_of accs ?k of None \<Rightarrow> 0 | Some a0 \<Rightarrow> ba_Counts a0 c) = ba_Counts acc c"
    by (simp add: acc_def empty_acc_def split: option.split)
  with s b w a i accs_ok_update[OF assms(1), of b ?k] show ?thesis by (simp add: acc_total_update)
qed

lemma series_loop_total:
  assumes "accs_ok c step accs" "\<forall>s \<in> set samples. counter_ok c s" "acc_total c accs + increments c samples < 2 ^ 63"
  shows "accs_ok c step (series_loop step samples accs) \<and>
    acc_total c (series_loop step samples accs) = acc_total c accs + increments c samples"
  using assms
proof (induction step samples accs rule: series_loop.induct)
  case (1 step prev cur rest accs)
  from 1(4) increments_nonneg[of c "cur # rest"] have "acc_total c accs + increment c prev cur < 2 ^ 63" by simp
  with series_step_total[OF 1(2)] 1(3)
  have s: "accs_ok c step (series_step step prev cur accs)"
    "acc_total c (series_step step prev cur accs) = acc_total c accs + increment c prev cur" by simp_all
  with 1(1)[OF s(1)] 1(3,4) show ?case by simp
qed simp_all

lemma increments_monotone:
  assumes "sorted (map (\<lambda>s. ts_Counts s c) samples)" "sorted (map ts_DurationCount samples)" "samples \<noteq> []"
  shows "increments c samples = ts_Counts (List.last samples) c - ts_Counts (hd samples) c"
  using assms by (induction c samples rule: increments.induct) (auto simp: increment_def)

lemma sort_key_points: "map tp_T (map (point_of scan) xs) = map fst xs"
  "sum_list (map (\<lambda>p. tp_Counts p c) (map (point_of scan) xs)) = acc_total c xs"
  by (simp_all add: point_of_def Let_def acc_total_def comp_def)

text \<open>
  C31. No traffic is lost or invented: the points of a series stand in strictly ascending order on the
  grid of its step, and for every counter they add up to what the pairs of consecutive samples add -
  nothing where Caddy restarted in between - which without a restart is the last value minus the
  first. No point is negative. (Provided the sum is within 64 bits.)
\<close>

theorem traffic_series_total:
  assumes "computeSeries scan samples rng = Ok ser" "\<forall>s \<in> set samples. counter_ok c s" "increments c samples < 2 ^ 63"
  shows "sum_list (map (\<lambda>p. tp_Counts p c) (tf_Points ser)) = increments c samples \<and>
    (sorted (map (\<lambda>s. ts_Counts s c) samples) \<and> sorted (map ts_DurationCount samples) \<and> samples \<noteq> [] \<longrightarrow>
       increments c samples = ts_Counts (List.last samples) c - ts_Counts (hd samples) c) \<and>
    sorted_wrt (<) (map tp_T (tf_Points ser)) \<and>
    (\<forall>p \<in> set (tf_Points ser). 0 \<le> tp_Counts p c \<and> tf_StepSeconds ser * second_ns dvd tp_T p)"
proof -
  obtain dur stp where r: "map_of rangeConfigs rng = Some (dur, stp)" and
    ser: "ser = \<lparr>tf_Range = rng, tf_StepSeconds = stp,
      tf_Points = map (point_of scan) (sort_key fst (series_loop (stp * second_ns) samples []))\<rparr>"
    using assms(1) by (auto simp: computeSeries_def split: option.splits)
  define accs where "accs = series_loop (stp * second_ns) samples []"
  have "accs_ok c (stp * second_ns) []" "acc_total c [] = 0" by (simp_all add: accs_ok_def acc_total_def)
  with series_loop_total[of c "stp * second_ns" "[]" samples] assms(2,3)
  have ok: "accs_ok c (stp * second_ns) accs" and tot: "acc_total c accs = increments c samples" by (simp_all add: accs_def)
  have "sum_mset (mset (map (\<lambda>ka. ba_Counts (snd ka) c) (sort_key fst accs))) = sum_mset (mset (map (\<lambda>ka. ba_Counts (snd ka) c) accs))"
    by simp
  then have sum: "acc_total c (sort_key fst accs) = acc_total c accs" by (simp only: acc_total_def sum_mset_sum_list)
  have "distinct (map fst (sort_key fst accs))"
    using ok by (simp add: accs_ok_def distinct_map)
  then have "sorted_wrt (<) (map fst (sort_key fst accs))" by (simp add: strict_sorted_iff)
  then have sorted: "sorted_wrt (<) (map tp_T (tf_Points ser))" by (simp only: ser TrafficSeries.simps sort_key_points flip: accs_def)
  have "sum_list (map (\<lambda>p. tp_Counts p c) (tf_Points ser)) = increments c samples"
    using tot sum by (simp only: ser TrafficSeries.simps sort_key_points flip: accs_def)
  moreover have "\<forall>p \<in> set (tf_Points ser). 0 \<le> tp_Counts p c \<and> tf_StepSeconds ser * second_ns dvd tp_T p"
    using ok by (simp add: ser accs_ok_def point_of_def Let_def flip: accs_def)
  ultimately show ?thesis using sorted increments_monotone by blast
qed

definition demo_sample :: "int \<Rightarrow> int \<Rightarrow> TrafficSample" where
  "demo_sample t n =
     \<lparr>ts_ID = 0, ts_CollectedAt = t * second_ns, ts_Counts = (\<lambda>c. if c = Req2xx then n else 0),
      ts_DurationBuckets = [(''0.1'', n), (''+Inf'', n)], ts_DurationSum = 0, ts_DurationCount = n, ts_InFlight = 1\<rparr>"

theorem traffic_series_total_witness:
  "\<exists>ser. computeSeries (\<lambda>_. Some (1 / 10)) [demo_sample 0 5, demo_sample 31 9, demo_sample 62 2, demo_sample 65 4] ''1h'' = Ok ser \<and>
    sum_list (map (\<lambda>p. tp_Counts p Req2xx) (tf_Points ser)) = 6"
proof -
  let ?ss = "[demo_sample 0 5, demo_sample 31 9, demo_sample 62 2, demo_sample 65 4]"
  obtain ser where "computeSeries (\<lambda>_. Some (1 / 10)) ?ss ''1h'' = Ok ser"
    by (auto simp: computeSeries_def rangeConfigs_def)
  moreover have "\<forall>s \<in> set ?ss. counter_ok Req2xx s" "increments Req2xx ?ss = 6"
    by (simp_all add: counter_ok_def increment_def demo_sample_def)
  ultimately show ?thesis using traffic_series_total[of "\<lambda>_. Some (1 / 10)" ?ss "''1h''" ser Req2xx] by auto
qed

section \<open>The quantiles\<close>

definition bound_val :: "bound \<Rightarrow> rat" where
  "bound_val b = (case b of Finite x \<Rightarrow> x | PosInf \<Rightarrow> 0)"

text \<open>
  A cumulative histogram: bounds strictly ascend from at least zero to \<open>+Inf\<close>, counts never fall.
\<close>

definition cumulative :: "(bound \<times> int) list \<Rightarrow> bool" where
  "cumulative h \<longleftrightarrow>
     h \<noteq> [] \<and> fst (List.last h) = PosInf \<and> sorted_wrt (<) (map fst h) \<and> sorted (map snd h) \<and>
     (\<forall>e \<in> set h. 0 \<le> snd e \<and> 0 \<le> bound_val (fst e))"

text \<open>The first bucket whose count reaches the rank.\<close>

definition reaches :: "rat \<Rightarrow> (bound \<times> int) list \<Rightarrow> nat \<Rightarrow> bool" where
  "reaches rank h i \<longleftrightarrow>
     i < length h \<and> rank \<le> of_int (snd (h ! i)) \<and> (\<forall>j < i. of_int (snd (h ! j)) < rank)"

definition lower_bound :: "(bound \<times> int) list \<Rightarrow> nat \<Rightarrow> rat" where
  "lower_bound h i = (if i = 0 then 0 else bound_val (fst (h ! (i - 1))))"

definition lower_count :: "(bound \<times> int) list \<Rightarrow> nat \<Rightarrow> int" where
  "lower_count h i = (if i = 0 then 0 else snd (h ! (i - 1)))"

definition interpolated :: "rat \<Rightarrow> rat \<Rightarrow> rat \<Rightarrow> rat \<Rightarrow> rat \<Rightarrow> rat" where
  "interpolated rank lb lc ub uc = lb + (rank - lc) / (uc - lc) * (ub - lb)"

lemma interpolated_between:
  assumes "lc < rank" "rank \<le> uc" "lb \<le> ub"
  shows "lb \<le> interpolated rank lb lc ub uc" "interpolated rank lb lc ub uc \<le> ub"
proof -
  let ?r = "(rank - lc) / (uc - lc)"
  have r: "0 \<le> ?r" "?r \<le> 1" using assms by simp_all
  from r(1) assms(3) have "0 \<le> ?r * (ub - lb)" by (intro mult_nonneg_nonneg) auto
  then show "lb \<le> interpolated rank lb lc ub uc" by (simp add: interpolated_def)
  have "?r * (ub - lb) \<le> ub - lb" using r assms(3) by (intro mult_left_le_one_le) auto
  then show "interpolated rank lb lc ub uc \<le> ub" by (simp add: interpolated_def)
qed

lemma interpolated_mono:
  assumes "rank \<le> rank'" "lc < uc" "lb \<le> ub"
  shows "interpolated rank lb lc ub uc \<le> interpolated rank' lb lc ub uc"
  unfolding interpolated_def using assms by (intro add_left_mono mult_right_mono divide_right_mono) auto

lemma quantile_loop_at:
  assumes "reaches rank h i" "\<forall>j < i. fst (h ! j) \<noteq> PosInf"
  shows "quantile_loop rank largest lb lc h =
    (let l = (if i = 0 then lb else bound_val (fst (h ! (i - 1)))); k = (if i = 0 then lc else snd (h ! (i - 1))) in
     case fst (h ! i) of
       PosInf \<Rightarrow> largest
     | Finite u \<Rightarrow> if snd (h ! i) = k then l else interpolated rank l (of_int k) u (of_int (snd (h ! i))))"
  using assms
proof (induction h arbitrary: i lb lc)
  case (Cons e h)
  obtain b n where e: "e = (b, n)" by (cases e)
  show ?case
  proof (cases i)
    case 0
    with Cons.prems(1) show ?thesis by (cases b) (simp_all add: reaches_def e interpolated_def Let_def)
  next
    case (Suc i')
    have r: "reaches rank h i'" and f: "\<forall>j < i'. fst (h ! j) \<noteq> PosInf"
      using Cons.prems Suc by (fastforce simp: reaches_def)+
    have n: "\<not> rank \<le> of_int n" using Cons.prems(1) Suc by (fastforce simp: reaches_def e)
    obtain x where b: "b = Finite x" using Cons.prems(2) Suc by (cases b) (auto simp: e)
    show ?thesis using Cons.IH[OF r f, of x n] n
      by (cases i') (auto simp: Suc e b bound_val_def Let_def split: bound.split)
  qed
qed (simp add: reaches_def)

lemma cumulative_nth:
  assumes "cumulative h"
  shows "i < j \<Longrightarrow> j < length h \<Longrightarrow> fst (h ! i) < fst (h ! j)" "i \<le> j \<Longrightarrow> j < length h \<Longrightarrow> snd (h ! i) \<le> snd (h ! j)"
  using assms by (auto simp: cumulative_def sorted_wrt_iff_nth_less) (metis le_neq_implies_less order_refl)

lemma cumulative_finite: "cumulative h \<Longrightarrow> Suc j < length h \<Longrightarrow> fst (h ! j) \<noteq> PosInf"
  using cumulative_nth(1)[of h j "Suc j"] by (auto simp: less_bound_def)

lemma fold_max_ge:
  "m \<le> fold (\<lambda>(b, n) m. case b of Finite x \<Rightarrow> if x > m then x else m | PosInf \<Rightarrow> m) h (m :: rat) \<and>
   (\<forall>x n. (Finite x, n) \<in> set h \<longrightarrow>
      x \<le> fold (\<lambda>(b, n) m. case b of Finite x \<Rightarrow> if x > m then x else m | PosInf \<Rightarrow> m) h m)"
proof (induction h arbitrary: m)
  case (Cons e h)
  obtain b n where e: "e = (b, n)" by (cases e)
  let ?m = "case b of Finite x \<Rightarrow> if x > m then x else m | PosInf \<Rightarrow> m"
  have "m \<le> ?m" "\<And>x. b = Finite x \<Longrightarrow> x \<le> ?m" by (auto split: bound.split)
  with Cons.IH[of ?m] show ?case by (fastforce simp: e)
qed simp

lemma largest_finite_ge: "0 \<le> largest_finite h" "i < length h \<Longrightarrow> fst (h ! i) = Finite x \<Longrightarrow> x \<le> largest_finite h"
proof -
  note ge = fold_max_ge[where m = 0 and h = h, folded largest_finite_def]
  show "0 \<le> largest_finite h" using ge by simp
  assume "i < length h" "fst (h ! i) = Finite x"
  then have "(Finite x, snd (h ! i)) \<in> set h" by (metis nth_mem prod.collapse)
  with ge show "x \<le> largest_finite h" by blast
qed

lemma lower_bound_le:
  assumes "cumulative h" "i < length h"
  shows "0 \<le> lower_bound h i" "lower_bound h i \<le> largest_finite h" "fst (h ! i) = Finite u \<Longrightarrow> lower_bound h i \<le> u"
proof -
  show a: "0 \<le> lower_bound h i" using assms by (auto simp: lower_bound_def cumulative_def)
  have p: "i \<noteq> 0 \<Longrightarrow> \<exists>x. fst (h ! (i - 1)) = Finite x"
    using cumulative_finite[OF assms(1), of "i - 1"] assms(2) by (cases "fst (h ! (i - 1))") auto
  then show "lower_bound h i \<le> largest_finite h"
    using largest_finite_ge(1)[of h] largest_finite_ge(2)[of "i - 1" h] assms(2) by (auto simp: lower_bound_def bound_val_def)
  assume u: "fst (h ! i) = Finite u"
  have "h ! i \<in> set h" using assms(2) by simp
  with assms(1) have "0 \<le> bound_val (fst (h ! i))" by (simp add: cumulative_def)
  with u have "0 \<le> u" by (simp add: bound_val_def)
  moreover have "i \<noteq> 0 \<Longrightarrow> fst (h ! (i - 1)) < Finite u"
    using cumulative_nth(1)[OF assms(1) _ assms(2), of "i - 1"] u by simp
  ultimately show "lower_bound h i \<le> u" using p by (auto simp: lower_bound_def bound_val_def less_bound_def)
qed

lemma quantile_value:
  assumes "cumulative h" "reaches rank h i" "0 < rank"
  shows "quantile_loop rank (largest_finite h) 0 0 h =
    (case fst (h ! i) of
       PosInf \<Rightarrow> largest_finite h
     | Finite u \<Rightarrow> interpolated rank (lower_bound h i) (of_int (lower_count h i)) u (of_int (snd (h ! i))))"
    "of_int (lower_count h i) < rank" "lower_count h i < snd (h ! i)"
proof -
  have i: "i < length h" using assms(2) by (simp add: reaches_def)
  show c: "of_int (lower_count h i) < rank" using assms(2,3) by (auto simp: lower_count_def reaches_def)
  then have "(of_int (lower_count h i) :: rat) < of_int (snd (h ! i))" using assms(2) by (simp add: reaches_def)
  then show n: "lower_count h i < snd (h ! i)" by simp
  have "\<forall>j < i. fst (h ! j) \<noteq> PosInf" using cumulative_finite[OF assms(1)] i by auto
  from quantile_loop_at[OF assms(2) this, of "largest_finite h" 0 0] n
  show "quantile_loop rank (largest_finite h) 0 0 h =
    (case fst (h ! i) of
       PosInf \<Rightarrow> largest_finite h
     | Finite u \<Rightarrow> interpolated rank (lower_bound h i) (of_int (lower_count h i)) u (of_int (snd (h ! i))))"
    by (cases "fst (h ! i)"; cases "i = 0") (simp_all add: lower_bound_def lower_count_def)
qed

lemma quantile_between:
  assumes "cumulative h" "reaches rank h i" "0 < rank"
  shows "lower_bound h i \<le> quantile_loop rank (largest_finite h) 0 0 h"
    "quantile_loop rank (largest_finite h) 0 0 h \<le> (case fst (h ! i) of Finite u \<Rightarrow> u | PosInf \<Rightarrow> largest_finite h)"
proof -
  note q = quantile_value[OF assms]
  have i: "i < length h" "rank \<le> of_int (snd (h ! i))" using assms(2) by (simp_all add: reaches_def)
  note l = lower_bound_le[OF assms(1) i(1)]
  show "lower_bound h i \<le> quantile_loop rank (largest_finite h) 0 0 h"
    unfolding q(1) using l interpolated_between(1)[OF q(2) i(2)] by (auto split: bound.split)
  show "quantile_loop rank (largest_finite h) 0 0 h \<le> (case fst (h ! i) of Finite u \<Rightarrow> u | PosInf \<Rightarrow> largest_finite h)"
    unfolding q(1) using l interpolated_between(2)[OF q(2) i(2)] by (auto split: bound.split)
qed

lemma quantile_mono:
  assumes h: "cumulative h" and i: "reaches rank h i" and j: "reaches rank' h j" and r: "0 < rank" "rank \<le> rank'"
  shows "quantile_loop rank (largest_finite h) 0 0 h \<le> quantile_loop rank' (largest_finite h) 0 0 h"
proof -
  have r': "0 < rank'" using r by simp
  have le: "i \<le> j" using i j r(2) by (metis leI order.strict_trans1 order_less_le_trans reaches_def not_le)
  show ?thesis
  proof (cases "i = j")
    case True
    have "of_int (lower_count h i) < (of_int (snd (h ! i)) :: rat)" using quantile_value(3)[OF h i r(1)] by simp
    then show ?thesis unfolding quantile_value(1)[OF h i r(1)] quantile_value(1)[OF h j r'] True[symmetric]
      using lower_bound_le(3)[OF h, of i] i by (auto simp: reaches_def split: bound.split intro!: interpolated_mono[OF r(2)])
  next
    case False
    with le have ij: "i < j" "j < length h" using j by (simp_all add: reaches_def)
    obtain u where u: "fst (h ! i) = Finite u" using cumulative_finite[OF h, of i] ij by (cases "fst (h ! i)") auto
    have "u \<le> lower_bound h j"
    proof (cases "i = j - 1")
      case True
      with u ij show ?thesis by (simp add: lower_bound_def bound_val_def)
    next
      case False
      with ij have "fst (h ! i) < fst (h ! (j - 1))" "fst (h ! (j - 1)) \<noteq> PosInf"
        using cumulative_nth(1)[OF h, of i "j - 1"] cumulative_finite[OF h, of "j - 1"] by auto
      with u ij show ?thesis by (auto simp: lower_bound_def bound_val_def less_bound_def split: bound.splits)
    qed
    then show ?thesis using quantile_between(2)[OF h i r(1)] quantile_between(1)[OF h j r'] u by simp
  qed
qed

lemma reaches_exists:
  assumes "cumulative h" "rank \<le> of_int (snd (List.last h))"
  shows "\<exists>i. reaches rank h i"
proof -
  let ?P = "\<lambda>i. i < length h \<and> rank \<le> of_int (snd (h ! i))"
  have "?P (length h - 1)" using assms by (auto simp: cumulative_def last_conv_nth)
  then have "?P (LEAST i. ?P i)" "\<forall>j < (LEAST i. ?P i). \<not> ?P j" by (rule LeastI) (use not_less_Least in blast)
  then have "reaches rank h (LEAST i. ?P i)" by (auto simp: reaches_def not_le dest: less_trans)
  then show ?thesis ..
qed

text \<open>
  C32. The quantiles are where they belong: for a cumulative histogram with observations the median
  lies in the bucket in which half of the observations is reached, the 95th percentile in the one in
  which 95 per cent are - at the largest finite bound if that is the last bucket - and the median is
  never above the percentile.
\<close>

theorem quantiles_in_bucket:
  assumes "cumulative (parsed_buckets scan m)" "0 < snd (List.last (parsed_buckets scan m))"
    "computeQuantiles scan m = (p50, p95)" "h = parsed_buckets scan m" "t = rat_of_int (snd (List.last h))"
  shows "0 \<le> p50 \<and> p50 \<le> p95 \<and> p95 \<le> 1000 * largest_finite h \<and>
    (\<exists>i. reaches (1 / 2 * t) h i \<and> 1000 * lower_bound h i \<le> p50 \<and>
       p50 \<le> 1000 * (case fst (h ! i) of Finite u \<Rightarrow> u | PosInf \<Rightarrow> largest_finite h)) \<and>
    (\<exists>j. reaches (95 / 100 * t) h j \<and> 1000 * lower_bound h j \<le> p95 \<and>
       p95 \<le> 1000 * (case fst (h ! j) of Finite u \<Rightarrow> u | PosInf \<Rightarrow> largest_finite h))"
proof -
  have h: "cumulative h" and t: "0 < t" using assms by simp_all
  have ne: "h \<noteq> []" "fst (List.last h) = PosInf" using h by (simp_all add: cumulative_def)
  let ?q = "\<lambda>r. quantile_loop r (largest_finite h) 0 0 h"
  have p: "p50 = ?q (1 / 2 * t) * 1000" "p95 = ?q (95 / 100 * t) * 1000"
    using assms(2,3) ne by (auto simp: computeQuantiles_def Let_def histogramQuantile_def assms(5) simp flip: assms(4))
  have r: "0 < 1 / 2 * t" "1 / 2 * t \<le> 95 / 100 * t" "95 / 100 * t \<le> t" "1 / 2 * t \<le> t" "0 < 95 / 100 * t" using t by simp_all
  obtain i where i: "reaches (1 / 2 * t) h i" using reaches_exists[OF h] r(4) assms(5) by blast
  obtain j where j: "reaches (95 / 100 * t) h j" using reaches_exists[OF h] r(3) assms(5) by blast
  note bi = quantile_between[OF h i r(1)] and bj = quantile_between[OF h j r(5)]
  have len: "i < length h" "j < length h" using i j by (simp_all add: reaches_def)
  have "(case fst (h ! j) of Finite u \<Rightarrow> u | PosInf \<Rightarrow> largest_finite h) \<le> largest_finite h"
    using largest_finite_ge(2)[OF len(2)] by (auto split: bound.split)
  with bi bj lower_bound_le(1)[OF h len(1)] quantile_mono[OF h i j r(1,2)]
  have "0 \<le> p50" "p50 \<le> p95" "p95 \<le> 1000 * largest_finite h" unfolding p by simp_all
  moreover have "1000 * lower_bound h i \<le> p50" "p50 \<le> 1000 * (case fst (h ! i) of Finite u \<Rightarrow> u | PosInf \<Rightarrow> largest_finite h)"
    "1000 * lower_bound h j \<le> p95" "p95 \<le> 1000 * (case fst (h ! j) of Finite u \<Rightarrow> u | PosInf \<Rightarrow> largest_finite h)"
    unfolding p using bi bj by simp_all
  ultimately show ?thesis using i j by blast
qed

definition demo_buckets :: bucket_counts where
  "demo_buckets = [(''+Inf'', 10), (''1'', 9), (''2'', 10)]"

theorem quantiles_in_bucket_witness:
  "\<exists>p50 p95. computeQuantiles (\<lambda>s. Some (of_nat (decimal s))) demo_buckets = (p50, p95) \<and> 0 \<le> p50 \<and> p50 \<le> p95 \<and> p95 \<le> 2000"
proof -
  let ?h = "parsed_buckets (\<lambda>s. Some (of_nat (decimal s))) demo_buckets"
  have h: "?h = [(Finite 1, 9), (Finite 2, 10), (PosInf, 10)]" by code_simp
  have c: "cumulative ?h" unfolding h by (simp add: cumulative_def bound_val_def less_bound_def)
  obtain p50 p95 where p: "computeQuantiles (\<lambda>s. Some (of_nat (decimal s))) demo_buckets = (p50, p95)" by fastforce
  have "largest_finite ?h = 2" unfolding h by (simp add: largest_finite_def)
  with quantiles_in_bucket[OF c _ p refl refl] p h show ?thesis by auto
qed

end
