(* ===== verification/Go_Time.thy ===== *)
theory Go_Time
  imports Go_Url
begin

text \<open>
  \<open>time.Parse\<close> with the layouts \<open>RFC3339\<close> and \<open>2006-01-02\<close>, and \<open>Time.Format\<close> with
  \<open>RFC3339\<close> for times in UTC. A time is the number of nanoseconds since 1970. What the parser of Go
  accepts beyond the standard is part of it: an hour of one digit, a comma before the fraction, and
  offsets of up to 24 hours and 60 minutes.
\<close>

section \<open>The calendar\<close>

definition is_leap :: "int \<Rightarrow> bool" where
  "is_leap y \<longleftrightarrow> y mod 4 = 0 \<and> (y mod 100 \<noteq> 0 \<or> y mod 400 = 0)"

definition month_lengths :: "int \<Rightarrow> int list" where
  "month_lengths y = [31, if is_leap y then 29 else 28, 31, 30, 31, 30, 31, 31, 30, 31, 30, 31]"

text \<open>Days since 1 January of the year 1.\<close>

definition days_before_year :: "int \<Rightarrow> int" where
  "days_before_year y = 365 * (y - 1) + (y - 1) div 4 - (y - 1) div 100 + (y - 1) div 400"

definition day_number :: "int \<Rightarrow> int \<Rightarrow> int \<Rightarrow> int" where
  "day_number y m d = days_before_year y + sum_list (take (nat (m - 1)) (month_lengths y)) + (d - 1)"

definition days_in :: "int \<Rightarrow> int \<Rightarrow> int" where
  "days_in y m = month_lengths y ! nat (m - 1)"

text \<open>The year a day falls into and its number within the year.\<close>

definition year_of :: "int \<Rightarrow> int \<times> int" where
  "year_of n =
     (let a = n div 146097; n1 = n mod 146097;
          b = min 3 (n1 div 36524); n2 = n1 - 36524 * b;
          c = n2 div 1461; n3 = n2 mod 1461;
          d = min 3 (n3 div 365)
      in (400 * a + 100 * b + 4 * c + d + 1, n3 - 365 * d))"

fun month_of :: "int list \<Rightarrow> int \<Rightarrow> int \<times> int" where
  "month_of [] n = (1, n + 1)"
| "month_of (l # ls) n = (if n < l then (1, n + 1) else map_prod (\<lambda>m. m + 1) (\<lambda>d. d) (month_of ls (n - l)))"

definition civil :: "int \<Rightarrow> int \<times> int \<times> int" where
  "civil n = (case year_of n of (y, k) \<Rightarrow> (y, month_of (month_lengths y) k))"

definition unix_epoch_day :: int where "unix_epoch_day = 719162"

definition nano :: int where "nano = 1000000000"

definition unix_time :: "int \<Rightarrow> int \<Rightarrow> int \<Rightarrow> int \<Rightarrow> int \<Rightarrow> int" where
  "unix_time y m d secs nsec = ((day_number y m d - unix_epoch_day) * 86400 + secs) * nano + nsec"

section \<open>Parsing\<close>

text \<open>\<open>getnum\<close>: two digits, or one where that is allowed; \<open>year_num\<close>: four.\<close>

definition getnum :: "bool \<Rightarrow> string \<Rightarrow> (int \<times> string) option" where
  "getnum fixed s =
     (case s of
        a # b # rest \<Rightarrow>
          if \<not> is_digit a then None
          else if is_digit b then Some (int (decimal [a, b]), rest)
          else if fixed then None
          else Some (int (decimal [a]), b # rest)
      | [a] \<Rightarrow> if is_digit a \<and> \<not> fixed then Some (int (decimal [a]), []) else None
      | [] \<Rightarrow> None)"

definition year_num :: "string \<Rightarrow> (int \<times> string) option" where
  "year_num s =
     (if length s < 4 \<or> \<not> list_all is_digit (take 4 s) then None else Some (int (decimal (take 4 s)), drop 4 s))"

definition literal :: "char \<Rightarrow> string \<Rightarrow> string option" where
  "literal c s = (case s of [] \<Rightarrow> None | x # rest \<Rightarrow> if x = c then Some rest else None)"

definition ranged :: "(int \<Rightarrow> bool) \<Rightarrow> (int \<times> string) option \<Rightarrow> (int \<times> string) option" where
  "ranged P r = (case r of None \<Rightarrow> None | Some (n, rest) \<Rightarrow> if P n then Some (n, rest) else None)"

definition parse_date :: "string \<Rightarrow> ((int \<times> int \<times> int) \<times> string) option" where
  "parse_date s =
     Option.bind (year_num s) (\<lambda>(y, s1).
     Option.bind (literal CHR ''-'' s1) (\<lambda>s2.
     Option.bind (ranged (\<lambda>m. 1 \<le> m \<and> m \<le> 12) (getnum True s2)) (\<lambda>(m, s3).
     Option.bind (literal CHR ''-'' s3) (\<lambda>s4.
     Option.bind (ranged (\<lambda>d. 1 \<le> d \<and> d \<le> days_in y m) (getnum True s4)) (\<lambda>(d, s5). Some ((y, m, d), s5))))))"

text \<open>A fraction of at least one digit after a dot or a comma; digits beyond the ninth are ignored.\<close>

definition parse_fraction :: "string \<Rightarrow> int \<times> string" where
  "parse_fraction s =
     (case s of
        sep # d # rest \<Rightarrow>
          if (sep = CHR ''.'' \<or> sep = CHR '','') \<and> is_digit d
          then let ds = takeWhile is_digit (d # rest); digits = take 9 ds in
            (int (decimal digits) * 10 ^ (9 - length digits), dropWhile is_digit (d # rest))
          else (0, s)
      | _ \<Rightarrow> (0, s))"

definition parse_clock :: "string \<Rightarrow> ((int \<times> int) \<times> string) option" where
  "parse_clock s =
     Option.bind (ranged (\<lambda>h. h < 24) (getnum False s)) (\<lambda>(h, s1).
     Option.bind (literal CHR '':'' s1) (\<lambda>s2.
     Option.bind (ranged (\<lambda>m. m < 60) (getnum True s2)) (\<lambda>(m, s3).
     Option.bind (literal CHR '':'' s3) (\<lambda>s4.
     Option.bind (ranged (\<lambda>k. k < 60) (getnum True s4)) (\<lambda>(k, s5).
       case parse_fraction s5 of (nsec, s6) \<Rightarrow> Some ((h * 3600 + m * 60 + k, nsec), s6))))))"

text \<open>The offset in seconds.\<close>

definition parse_zone :: "string \<Rightarrow> (int \<times> string) option" where
  "parse_zone s =
     (if HasPrefix s ''Z'' then Some (0, drop 1 s)
      else if length s < 6 \<or> s ! 3 \<noteq> CHR '':'' then None
      else
        (case (getnum True (take 2 (drop 1 s)), getnum True (take 2 (drop 4 s))) of
           (Some (h, _), Some (m, _)) \<Rightarrow>
             if h > 24 \<or> m > 60 then None
             else if s ! 0 = CHR ''+'' then Some ((h * 60 + m) * 60, drop 6 s)
             else if s ! 0 = CHR ''-'' then Some (- ((h * 60 + m) * 60), drop 6 s)
             else None
         | _ \<Rightarrow> None))"

definition Parse_RFC3339 :: "string \<Rightarrow> int option" where
  "Parse_RFC3339 s =
     Option.bind (parse_date s) (\<lambda>((y, m, d), s1).
     Option.bind (literal CHR ''T'' s1) (\<lambda>s2.
     Option.bind (parse_clock s2) (\<lambda>((secs, nsec), s3).
     Option.bind (parse_zone s3) (\<lambda>(off, s4).
       if s4 = [] then Some (unix_time y m d (secs - off) nsec) else None))))"

definition Parse_date :: "string \<Rightarrow> int option" where
  "Parse_date s =
     Option.bind (parse_date s) (\<lambda>((y, m, d), rest). if rest = [] then Some (unix_time y m d 0 0) else None)"

section \<open>Formatting\<close>

definition padded :: "nat \<Rightarrow> int \<Rightarrow> string" where
  "padded w n = (let ds = nat_to_string (nat n) in replicate (w - length ds) CHR ''0'' @ ds)"

definition Format_RFC3339 :: "int \<Rightarrow> string" where
  "Format_RFC3339 t =
     (let total_secs = t div nano; s = total_secs mod 86400 in
      case civil (total_secs div 86400 + unix_epoch_day) of
        (y, m, d) \<Rightarrow>
          padded 4 y @ ''-'' @ padded 2 m @ ''-'' @ padded 2 d @ ''T'' @
          padded 2 (s div 3600) @ '':'' @ padded 2 (s mod 3600 div 60) @ '':'' @ padded 2 (s mod 60) @ ''Z'')"

section \<open>The calendar is right\<close>

lemma year_of_parts:
  assumes "year_of n = (y, k)"
  obtains a b c d where "y = 400 * a + 100 * b + 4 * c + d + 1" "n = 146097 * a + 36524 * b + 1461 * c + 365 * d + k"
    "0 \<le> b" "b \<le> 3" "0 \<le> c" "c \<le> 24" "0 \<le> d" "d \<le> 3" "0 \<le> k"
    "k < 365 \<or> k = 365 \<and> d = 3 \<and> (c \<noteq> 24 \<or> b = 3)"
proof -
  define a where "a = n div 146097"
  define n1 where "n1 = n mod 146097"
  define b where "b = min 3 (n1 div 36524)"
  define n2 where "n2 = n1 - 36524 * b"
  define c where "c = n2 div 1461"
  define n3 where "n3 = n2 mod 1461"
  define d where "d = min 3 (n3 div 365)"
  have yk: "y = 400 * a + 100 * b + 4 * c + d + 1" "k = n3 - 365 * d"
    using assms by (simp_all add: year_of_def Let_def a_def n1_def b_def n2_def c_def n3_def d_def)
  have n1: "0 \<le> n1" "n1 < 146097" "n = 146097 * a + n1" by (simp_all add: n1_def a_def)
  have b: "0 \<le> b" "b \<le> 3" "36524 * b \<le> n1" "b < 3 \<longrightarrow> n1 < 36524 * b + 36524" using n1 by (auto simp: b_def min_def)
  have n2: "0 \<le> n2" "n2 \<le> 36524" "n2 = 36524 \<longrightarrow> b = 3" using n1 b by (auto simp: n2_def)
  have n3: "0 \<le> n3" "n3 < 1461" "n2 = 1461 * c + n3" by (simp_all add: n3_def c_def)
  have c: "0 \<le> c" "c \<le> 24" using n2 n3 by linarith+
  have d: "0 \<le> d" "d \<le> 3" "365 * d \<le> n3" "d < 3 \<longrightarrow> n3 < 365 * d + 365" using n3 by (auto simp: d_def min_def)
  have "n = 146097 * a + 36524 * b + 1461 * c + 365 * d + k" using n1(3) n3(3) yk(2) by (simp add: n2_def)
  moreover have "0 \<le> k" using d yk by simp
  moreover have "k < 365 \<or> k = 365 \<and> d = 3 \<and> (c \<noteq> 24 \<or> b = 3)" using d n3 n2 yk(2) by linarith
  ultimately show ?thesis using that yk b c d by blast
qed

lemma year_of_correct:
  assumes "year_of n = (y, k)"
  shows "n = days_before_year y + k" "0 \<le> k" "k < sum_list (month_lengths y)"
proof -
  from assms obtain a b c d where p: "y = 400 * a + 100 * b + 4 * c + d + 1"
    "n = 146097 * a + 36524 * b + 1461 * c + 365 * d + k" "0 \<le> b" "b \<le> 3" "0 \<le> c" "c \<le> 24" "0 \<le> d" "d \<le> 3" "0 \<le> k"
    "k < 365 \<or> k = 365 \<and> d = 3 \<and> (c \<noteq> 24 \<or> b = 3)"
    by (rule year_of_parts)
  have q: "(y - 1) div 4 = 100 * a + 25 * b + c" "(y - 1) div 100 = 4 * a + b" "(y - 1) div 400 = a"
    by (rule int_div_pos_eq[where r = d] int_div_pos_eq[where r = "4 * c + d"] int_div_pos_eq[where r = "100 * b + 4 * c + d"];
        use p(1,3-8) in simp)+
  show "n = days_before_year y + k" unfolding days_before_year_def q using p(1,2) by simp
  show "0 \<le> k" by fact
  have "is_leap y" if d: "d = 3" and cb: "c \<noteq> 24 \<or> b = 3"
  proof -
    have "y = 4 * (100 * a + 25 * b + c + 1)" using p(1) d by simp
    then have "y mod 4 = 0" by simp
    moreover have "y mod 100 \<noteq> 0 \<or> y mod 400 = 0"
    proof (cases "c = 24")
      case True
      with cb p(1) d have "y = 400 * (a + 1)" by simp
      then show ?thesis by simp
    next
      case False
      have "y mod 100 = 4 * c + 4"
        by (rule int_mod_pos_eq[where q = "4 * a + b"]) (use p(1,5,6) d False in simp_all)
      with p(5) show ?thesis by simp
    qed
    ultimately show ?thesis by (simp add: is_leap_def)
  qed
  with p(10) show "k < sum_list (month_lengths y)" by (auto simp: month_lengths_def)
qed

lemma month_of_correct:
  assumes "0 \<le> n" "n < sum_list ls" "\<forall>l \<in> set ls. 0 < l" "month_of ls n = (m, d)"
  shows "1 \<le> m \<and> m \<le> int (length ls) \<and> 1 \<le> d \<and> d \<le> ls ! nat (m - 1) \<and> n = sum_list (take (nat (m - 1)) ls) + (d - 1)"
  using assms
proof (induction ls arbitrary: n m d)
  case (Cons l ls)
  show ?case
  proof (cases "n < l")
    case False
    obtain m' where m: "m = m' + 1" "month_of ls (n - l) = (m', d)"
      using Cons.prems(4) False by (cases "month_of ls (n - l)") auto
    have "1 \<le> m' \<and> m' \<le> int (length ls) \<and> 1 \<le> d \<and> d \<le> ls ! nat (m' - 1) \<and> n - l = sum_list (take (nat (m' - 1)) ls) + (d - 1)"
      using Cons.IH[OF _ _ _ m(2)] Cons.prems(1-3) False by simp
    moreover from this have "nat m' = Suc (nat (m' - 1))" by linarith
    ultimately show ?thesis using m(1) by simp
  qed (use Cons.prems in auto)
qed simp

lemma civil_correct:
  assumes "civil n = (y, m, d)"
  shows "day_number y m d = n" "1 \<le> m" "m \<le> 12" "1 \<le> d" "d \<le> days_in y m" "d \<le> 31"
proof -
  obtain k where y: "year_of n = (y, k)" and m: "month_of (month_lengths y) k = (m, d)"
    using assms by (auto simp: civil_def split: prod.splits)
  note yc = year_of_correct[OF y]
  have "\<forall>l \<in> set (month_lengths y). 0 < l \<and> l \<le> 31" "length (month_lengths y) = 12" by (simp_all add: month_lengths_def)
  with month_of_correct[OF yc(2,3) _ m] have "1 \<le> m \<and> m \<le> 12 \<and> 1 \<le> d \<and> d \<le> month_lengths y ! nat (m - 1) \<and>
      k = sum_list (take (nat (m - 1)) (month_lengths y)) + (d - 1)" by simp
  moreover from this have "nat (m - 1) < length (month_lengths y)" using \<open>length (month_lengths y) = 12\<close> by linarith
  then have "month_lengths y ! nat (m - 1) \<le> 31" using \<open>\<forall>l \<in> set (month_lengths y). 0 < l \<and> l \<le> 31\<close> nth_mem by blast
  ultimately show "day_number y m d = n" "1 \<le> m" "m \<le> 12" "1 \<le> d" "d \<le> days_in y m" "d \<le> 31"
    using yc(1) by (simp_all add: day_number_def days_in_def)
qed

section \<open>What is formatted is parsed\<close>

lemma decimal_zeros: "decimal (replicate k CHR ''0'' @ ds) = decimal ds"
proof -
  have "foldl (\<lambda>n c. 10 * n + (of_char c - 48 :: nat)) 0 (replicate k CHR ''0'') = 0" by (induction k) simp_all
  then show ?thesis by (simp add: decimal_def)
qed

lemma padded_decimal:
  assumes "0 \<le> n" shows "decimal (padded w n) = nat n" "list_all is_digit (padded w n)"
  using nat_to_string_decimal[of "nat n"] by (auto simp: padded_def Let_def decimal_zeros list_all_iff is_digit_def)

lemma length_decimal_text: "n < 10 ^ Suc k \<Longrightarrow> length (nat_to_string n) \<le> Suc k"
proof (induction k arbitrary: n)
  case (Suc k)
  show ?case
  proof (cases "n < 10")
    case False
    then have "length (nat_to_string n) = Suc (length (nat_to_string (n div 10)))" by (simp add: nat_to_string.simps[of n])
    with Suc.IH[of "n div 10"] Suc.prems show ?thesis by (simp add: less_mult_imp_div_less)
  qed (simp add: nat_to_string.simps[of n])
qed (subst nat_to_string.simps, simp)

lemma length_padded: "0 \<le> n \<Longrightarrow> n < 10 ^ w \<Longrightarrow> 0 < w \<Longrightarrow> length (padded w n) = w"
  using length_decimal_text[of "nat n" "w - 1"] by (simp add: padded_def Let_def nat_less_iff)

lemma padded2:
  assumes "0 \<le> n" "n < 100"
  obtains a b where "padded 2 n = [a, b]" "is_digit a" "is_digit b" "int (decimal [a, b]) = n"
proof -
  have "length (padded 2 n) = 2" using assms length_padded[of n 2] by simp
  then obtain a b where "padded 2 n = [a, b]" by (auto simp: length_Suc_conv numeral_2_eq_2)
  with padded_decimal[OF assms(1), of 2] assms(1) show ?thesis by (intro that[of a b]) auto
qed

lemma getnum_padded: "0 \<le> n \<Longrightarrow> n < 100 \<Longrightarrow> getnum fixed (padded 2 n @ rest) = Some (n, rest)"
  by (erule (1) padded2) (simp add: getnum_def)

lemma year_num_padded: "0 \<le> n \<Longrightarrow> n < 10000 \<Longrightarrow> year_num (padded 4 n @ rest) = Some (n, rest)"
  using length_padded[of n 4] padded_decimal[of n 4] by (simp add: year_num_def)

lemma parse_date_formatted:
  assumes "civil n = (y, m, d)" "0 \<le> y" "y < 10000"
  shows "parse_date (padded 4 y @ ''-'' @ padded 2 m @ ''-'' @ padded 2 d @ rest) = Some ((y, m, d), rest)"
  using civil_correct[OF assms(1)] assms(2,3)
  by (simp add: parse_date_def year_num_padded getnum_padded literal_def ranged_def)

lemma parse_clock_parts:
  assumes "0 \<le> h" "h < 24" "0 \<le> m" "m < 60" "0 \<le> k" "k < 60"
  shows "parse_clock (padded 2 h @ '':'' @ padded 2 m @ '':'' @ padded 2 k @ ''Z'') = Some ((h * 3600 + m * 60 + k, 0), ''Z'')"
proof -
  have "getnum True (padded 2 k @ ''Z'') = Some (k, ''Z'')" using assms by (intro getnum_padded) simp_all
  with assms show ?thesis by (simp add: parse_clock_def getnum_padded literal_def ranged_def parse_fraction_def)
qed

lemma parse_clock_formatted:
  assumes "0 \<le> s" "s < 86400"
  shows "parse_clock (padded 2 (s div 3600) @ '':'' @ padded 2 (s mod 3600 div 60) @ '':'' @ padded 2 (s mod 60) @ ''Z'') =
    Some ((s, 0), ''Z'')"
proof -
  have h: "0 \<le> s div 3600" "s div 3600 < 24" "0 \<le> s mod 3600 div 60" "s mod 3600 div 60 < 60" "0 \<le> s mod 60" "s mod 60 < 60"
    using assms by (auto simp: div_less_iff_less_mult)
  have "s div 3600 * 3600 + s mod 3600 div 60 * 60 + s mod 60 = s"
    using div_mult_mod_eq[of "s mod 3600" 60] mod_mod_cancel[of 60 3600 s] by (simp add: add.assoc)
  with parse_clock_parts[OF h] show ?thesis by simp
qed

lemma Parse_Format_RFC3339:
  assumes "civil (t div nano div 86400 + unix_epoch_day) = (y, m, d)" "0 \<le> y" "y < 10000"
  shows "Parse_RFC3339 (Format_RFC3339 t) = Some (t div nano * nano)"
proof -
  let ?s = "t div nano mod 86400"
  have s: "0 \<le> ?s" "?s < 86400" by simp_all
  have "unix_time y m d ?s 0 = t div nano * nano"
    using civil_correct(1)[OF assms(1)] by (simp add: unix_time_def)
  with parse_date_formatted[OF assms] parse_clock_formatted[OF s] assms(1) show ?thesis
    by (simp add: Format_RFC3339_def Parse_RFC3339_def Let_def literal_def parse_zone_def HasPrefix_def)
qed

end
