(* ===== verification/Audit_Handler.thy ===== *)
theory Audit_Handler
  imports Handler_Base Go_Time Demo_App
begin

text \<open>
  The audit log over HTTP: \<open>backend/internal/api/handlers/audit_handler.go\<close> around \<open>Audit_Log\<close>.
  A listing orders its rows as the database does, an argument. The CSV export is the list of its
  records; quoting them is \<open>encoding/csv\<close>. Times of the database are in UTC.
\<close>

section \<open>Parameters of a listing\<close>

type_synonym params_result = "(string, AuditLogListParams) result"

definition and_then :: "params_result \<Rightarrow> (AuditLogListParams \<Rightarrow> params_result) \<Rightarrow> params_result" where
  "and_then p f = (case p of Inl e \<Rightarrow> Err e | Inr q \<Rightarrow> f q)"

definition default_params :: AuditLogListParams where
  "default_params =
     \<lparr>ql_Page = 1, ql_Limit = 20, ql_Search = [], ql_Actions = [], ql_ActionsExclude = [], ql_ResourceTypes = [],
      ql_ResourceTypesExclude = [], ql_UserID = None, ql_Status = [], ql_StatusExclude = [], ql_IPAddress = [],
      ql_IPAddressContains = [], ql_IPAddressStartsWith = [], ql_IPAddressEndsWith = [], ql_IPAddressNot = [],
      ql_DateFrom = None, ql_DateTo = None, ql_Sort = [], ql_Order = []\<rparr>"

definition page_param :: "http_request \<Rightarrow> AuditLogListParams \<Rightarrow> params_result" where
  "page_param r q =
     (let s = Query_Get r ''page'' in
      if s = [] then Ok q
      else case Atoi s of
        None \<Rightarrow> Err ''invalid page number''
      | Some n \<Rightarrow> if n < 1 then Err ''invalid page number'' else Ok (q\<lparr>ql_Page := n\<rparr>))"

definition limit_param :: "http_request \<Rightarrow> AuditLogListParams \<Rightarrow> params_result" where
  "limit_param r q =
     (let s = Query_Get r ''limit'' in
      if s = [] then Ok q
      else case Atoi s of
        None \<Rightarrow> Err ''limit must be between 1 and 100''
      | Some n \<Rightarrow> if n < 1 \<or> n > 100 then Err ''limit must be between 1 and 100'' else Ok (q\<lparr>ql_Limit := n\<rparr>))"

definition bad_operator :: "string \<Rightarrow> string \<Rightarrow> string" where
  "bad_operator op field = ''invalid operator '' @ [CHR 0x27] @ op @ [CHR 0x27] @ '' for '' @ field @ '' filter''"

definition action_param :: "http_request \<Rightarrow> AuditLogListParams \<Rightarrow> params_result" where
  "action_param r q =
     (let p = Query_Get r ''action'' in
      case list_filter p of
        None \<Rightarrow> Err (bad_operator (fv_Operator (parseFilterParam p)) ''action'')
      | Some (incl, excl) \<Rightarrow> Ok (q\<lparr>ql_Actions := incl, ql_ActionsExclude := excl\<rparr>))"

definition resource_type_param :: "http_request \<Rightarrow> AuditLogListParams \<Rightarrow> params_result" where
  "resource_type_param r q =
     (let p = Query_Get r ''resource_type'' in
      case list_filter p of
        None \<Rightarrow> Err (bad_operator (fv_Operator (parseFilterParam p)) ''resource_type'')
      | Some (incl, excl) \<Rightarrow> Ok (q\<lparr>ql_ResourceTypes := incl, ql_ResourceTypesExclude := excl\<rparr>))"

definition ip_param :: "http_request \<Rightarrow> AuditLogListParams \<Rightarrow> params_result" where
  "ip_param r q =
     (let p = Query_Get r ''ip_address''; fv = parseFilterParam p in
      if p = [] then Ok q
      else if fv_Operator fv = OpEq then Ok (q\<lparr>ql_IPAddress := fv_Value fv\<rparr>)
      else if fv_Operator fv = OpNot then Ok (q\<lparr>ql_IPAddressNot := fv_Value fv\<rparr>)
      else if fv_Operator fv = OpContains then Ok (q\<lparr>ql_IPAddressContains := fv_Value fv\<rparr>)
      else if fv_Operator fv = OpStartsWith then Ok (q\<lparr>ql_IPAddressStartsWith := fv_Value fv\<rparr>)
      else if fv_Operator fv = OpEndsWith then Ok (q\<lparr>ql_IPAddressEndsWith := fv_Value fv\<rparr>)
      else Err (bad_operator (fv_Operator fv) ''ip_address''))"

definition user_param :: "http_request \<Rightarrow> AuditLogListParams \<Rightarrow> params_result" where
  "user_param r q =
     (let p = Query_Get r ''user_id''; fv = parseFilterParam p in
      if p = [] then Ok q
      else if fv_Operator fv \<noteq> OpEq then Err (''user_id only supports 'eq'' @ [CHR 0x27] @ '' operator'')
      else case Atoi (fv_Value fv) of
        None \<Rightarrow> Err ''invalid user_id''
      | Some u \<Rightarrow> Ok (q\<lparr>ql_UserID := Some u\<rparr>))"

definition status_param :: "http_request \<Rightarrow> AuditLogListParams \<Rightarrow> params_result" where
  "status_param r q =
     (let p = Query_Get r ''status''; fv = parseFilterParam p in
      if p = [] then Ok q
      else if fv_Value fv \<noteq> ''success'' \<and> fv_Value fv \<noteq> ''failure''
      then Err (''status must be 'success'' @ [CHR 0x27] @ '' or 'failure'' @ [CHR 0x27])
      else if fv_Operator fv = OpEq then Ok (q\<lparr>ql_Status := fv_Value fv\<rparr>)
      else if fv_Operator fv = OpNot then Ok (q\<lparr>ql_StatusExclude := fv_Value fv\<rparr>)
      else Err (bad_operator (fv_Operator fv) ''status''))"

definition date_from_param :: "http_request \<Rightarrow> AuditLogListParams \<Rightarrow> params_result" where
  "date_from_param r q =
     (let s = Query_Get r ''date_from'' in
      if s = [] then Ok q
      else case Parse_RFC3339 s of
        Some t \<Rightarrow> Ok (q\<lparr>ql_DateFrom := Some t\<rparr>)
      | None \<Rightarrow>
          (case Parse_date s of
             None \<Rightarrow> Err ''invalid date_from format (use ISO 8601 or YYYY-MM-DD)''
           | Some t \<Rightarrow> Ok (q\<lparr>ql_DateFrom := Some t\<rparr>)))"

definition date_to_param :: "http_request \<Rightarrow> AuditLogListParams \<Rightarrow> params_result" where
  "date_to_param r q =
     (let s = Query_Get r ''date_to'' in
      if s = [] then Ok q
      else case Parse_RFC3339 s of
        Some t \<Rightarrow> Ok (q\<lparr>ql_DateTo := Some t\<rparr>)
      | None \<Rightarrow>
          (case Parse_date s of
             None \<Rightarrow> Err ''invalid date_to format (use ISO 8601 or YYYY-MM-DD)''
           | Some t \<Rightarrow> Ok (q\<lparr>ql_DateTo := Some (t + (24 * 3600 * second_ns - second_ns))\<rparr>)))"

definition parseAuditListParams :: "http_request \<Rightarrow> params_result" where
  "parseAuditListParams r =
     and_then (page_param r default_params) (\<lambda>q1.
     and_then (limit_param r q1) (\<lambda>q2.
     and_then (action_param r (q2\<lparr>ql_Search := Query_Get r ''search''\<rparr>)) (\<lambda>q3.
     and_then (resource_type_param r q3) (\<lambda>q4.
     and_then (ip_param r q4) (\<lambda>q5.
     and_then (user_param r q5) (\<lambda>q6.
     and_then (status_param r q6) (\<lambda>q7.
     and_then (date_from_param r q7) (\<lambda>q8.
     and_then (date_to_param r q8) (\<lambda>q9.
       Ok (q9\<lparr>ql_Sort := Query_Get r ''sort'', ql_Order := Query_Get r ''order''\<rparr>))))))))))"

section \<open>Handlers\<close>

datatype audit_data =
  LogsData "(AuditLog \<times> User option) list \<times> int \<times> int"
| LogData "AuditLog \<times> User option"
| AuditStatsData AuditLogStats
| CsvData "string list list"
| AuditConfigData AuditConfig
| EventGroupsData "(string \<times> string \<times> string \<times> (string \<times> string) list) list"

definition Audit_List :: "'g app_env \<Rightarrow> AuditLog order_by \<Rightarrow> http_request \<Rightarrow> 'g app \<Rightarrow> audit_data http_response" where
  "Audit_List en ob r ap =
     (case parseAuditListParams r of
        Inl e \<Rightarrow> BadRequest e
      | Inr q \<Rightarrow>
          (case ListAuditLogs (ae_flt en) ob q (ap_acl ap) (ap_audit ap) of
             Inl _ \<Rightarrow> InternalError ''Failed to retrieve audit logs''
           | Inr res \<Rightarrow> Success (Some (LogsData res)) ''Audit logs retrieved successfully''))"

definition Audit_GetByID :: "'g app_env \<Rightarrow> http_request \<Rightarrow> 'g app \<Rightarrow> audit_data http_response" where
  "Audit_GetByID en r ap =
     (case Atoi (URLParam r ''id'') of
        None \<Rightarrow> BadRequest ''Invalid audit log ID''
      | Some i \<Rightarrow>
          (case Audit_GetByID_repo (ae_flt en) i (ap_acl ap) (ap_audit ap) of
             Inl _ \<Rightarrow> NotFound ''Audit log not found''
           | Inr l \<Rightarrow> Success (Some (LogData l)) ''Audit log retrieved successfully''))"

definition Audit_GetStats :: "'g app_env \<Rightarrow> AuditLog order_by \<Rightarrow> 'g app \<Rightarrow> audit_data http_response" where
  "Audit_GetStats en ob ap =
     (case Audit_GetStats_repo (ae_flt en) ob (ap_acl ap) (ap_audit ap) of
        Inl _ \<Rightarrow> InternalError ''Failed to retrieve audit log statistics''
      | Inr stats \<Rightarrow> Success (Some (AuditStatsData stats)) ''Audit log statistics retrieved successfully'')"

definition stringOrEmpty :: "string option \<Rightarrow> string" where
  "stringOrEmpty s = (case s of None \<Rightarrow> [] | Some x \<Rightarrow> x)"

definition intPtrToString :: "int option \<Rightarrow> string" where
  "intPtrToString i = (case i of None \<Rightarrow> [] | Some x \<Rightarrow> Itoa x)"

definition csv_header :: "string list" where
  "csv_header =
     [''ID'', ''Timestamp'', ''Action'', ''Resource Type'', ''Resource ID'', ''Resource Name'', ''User ID'', ''Status'',
      ''IP Address'', ''User Agent'', ''Error Message'']"

definition csv_row :: "AuditLog \<Rightarrow> string list" where
  "csv_row l =
     [Itoa (al_ID l), Format_RFC3339 (al_CreatedAt l), al_Action l, stringOrEmpty (al_ResourceType l),
      intPtrToString (al_ResourceID l), stringOrEmpty (al_ResourceName l), intPtrToString (al_UserID l), al_Status l,
      stringOrEmpty (al_IPAddress l), stringOrEmpty (al_UserAgent l), stringOrEmpty (al_ErrorMessage l)]"

definition Audit_Export :: "'g app_env \<Rightarrow> AuditLog order_by \<Rightarrow> http_request \<Rightarrow> 'g app \<Rightarrow> audit_data http_response" where
  "Audit_Export en ob r ap =
     (case parseAuditListParams r of
        Inl e \<Rightarrow> BadRequest e
      | Inr q \<Rightarrow>
          (case ListAuditLogs (ae_flt en) ob (q\<lparr>ql_Limit := 10000, ql_Page := 1\<rparr>) (ap_acl ap) (ap_audit ap) of
             Inl _ \<Rightarrow> InternalError ''Failed to retrieve audit logs for export''
           | Inr (logs, _, _) \<Rightarrow> Success (Some (CsvData (csv_header # map (\<lambda>l. csv_row (fst l)) logs))) []))"

definition Audit_GetConfig_handler :: "'g app_env \<Rightarrow> 'g app \<Rightarrow> audit_data http_response" where
  "Audit_GetConfig_handler en ap =
     Success (Some (AuditConfigData (Audit_GetConfig (audit_env_of en) (db_settings (ap_db ap)))))
       ''Audit configuration retrieved successfully''"

text \<open>The body is decoded into the zero value: a switch the text does not mention is off.\<close>

definition Audit_UpdateConfig ::
  "'g app_env \<Rightarrow> (string \<times> bool) list option \<Rightarrow> 'g app \<Rightarrow> 'g app \<times> audit_data http_response" where
  "Audit_UpdateConfig en body ap =
     (case body of
        None \<Rightarrow> (ap, BadRequest ''Invalid request body'')
      | Some kvs \<Rightarrow>
          let config = overlay kvs (\<lambda>_. False) in
          (case Audit_SetConfig (audit_env_of en) config (db_settings (ap_db ap)) (ap_audit ap) of
             (t, au, Some _) \<Rightarrow>
               (ap\<lparr>ap_db := (ap_db ap)\<lparr>db_settings := t\<rparr>, ap_audit := au\<rparr>, InternalError ''Failed to update audit configuration'')
           | (t, au, None) \<Rightarrow>
               (ap\<lparr>ap_db := (ap_db ap)\<lparr>db_settings := t\<rparr>, ap_audit := au\<rparr>,
                Success (Some (AuditConfigData config)) ''Audit configuration updated successfully'')))"

definition Audit_GetEventGroups :: "audit_data http_response" where
  "Audit_GetEventGroups = Success (Some (EventGroupsData GetAuditEventGroups)) ''Audit event groups retrieved successfully''"

section \<open>Bounds\<close>

lemma and_then_Ok: "and_then p f = Ok x \<longleftrightarrow> (\<exists>q. p = Ok q \<and> f q = Ok x)"
  by (simp add: and_then_def split: sum.split)

lemmas param_defs = page_param_def limit_param_def action_param_def resource_type_param_def ip_param_def user_param_def
  status_param_def date_from_param_def date_to_param_def

text \<open>Every parameter touches its own fields only.\<close>

lemma param_page: "page_param r q = Ok q' \<Longrightarrow> 1 \<le> ql_Page q \<Longrightarrow> 1 \<le> ql_Page q' \<and> ql_Limit q' = ql_Limit q"
  by (auto simp: page_param_def Let_def split: if_splits option.splits)

lemma param_limit: "limit_param r q = Ok q' \<Longrightarrow> 1 \<le> ql_Limit q \<and> ql_Limit q \<le> 100 \<Longrightarrow>
    1 \<le> ql_Limit q' \<and> ql_Limit q' \<le> 100 \<and> ql_Page q' = ql_Page q"
  by (auto simp: limit_param_def Let_def split: if_splits option.splits)

lemma params_keep:
  "action_param r q = Ok q' \<Longrightarrow> ql_Page q' = ql_Page q \<and> ql_Limit q' = ql_Limit q"
  "resource_type_param r q = Ok q' \<Longrightarrow> ql_Page q' = ql_Page q \<and> ql_Limit q' = ql_Limit q"
  "ip_param r q = Ok q' \<Longrightarrow> ql_Page q' = ql_Page q \<and> ql_Limit q' = ql_Limit q"
  "user_param r q = Ok q' \<Longrightarrow> ql_Page q' = ql_Page q \<and> ql_Limit q' = ql_Limit q"
  "status_param r q = Ok q' \<Longrightarrow> ql_Page q' = ql_Page q \<and> ql_Limit q' = ql_Limit q"
  "date_from_param r q = Ok q' \<Longrightarrow> ql_Page q' = ql_Page q \<and> ql_Limit q' = ql_Limit q"
  "date_to_param r q = Ok q' \<Longrightarrow> ql_Page q' = ql_Page q \<and> ql_Limit q' = ql_Limit q"
  by (auto simp: param_defs Let_def split: if_splits option.splits)

lemma params_dates:
  "date_from_param r q = Ok q' \<Longrightarrow> Query_Get r ''date_from'' = s \<Longrightarrow> s \<noteq> [] \<Longrightarrow>
     ql_DateFrom q' = (case Parse_RFC3339 s of Some t \<Rightarrow> Some t | None \<Rightarrow> Parse_date s)"
  "date_to_param r q = Ok q' \<Longrightarrow> ql_DateFrom q' = ql_DateFrom q"
  "date_to_param r q = Ok q' \<Longrightarrow> Query_Get r ''date_to'' = s \<Longrightarrow> s \<noteq> [] \<Longrightarrow>
     ql_DateTo q' = (case Parse_RFC3339 s of Some t \<Rightarrow> Some t
                     | None \<Rightarrow> map_option (\<lambda>t. t + 86399 * second_ns) (Parse_date s))"
  by (auto simp: date_from_param_def date_to_param_def Let_def second_ns_def split: if_splits option.splits)

lemma parseAuditListParams_Ok:
  assumes "parseAuditListParams r = Ok q"
  shows "1 \<le> ql_Page q" "1 \<le> ql_Limit q" "ql_Limit q \<le> 100"
    "Query_Get r ''date_from'' = s \<Longrightarrow> s \<noteq> [] \<Longrightarrow>
       ql_DateFrom q = (case Parse_RFC3339 s of Some t \<Rightarrow> Some t | None \<Rightarrow> Parse_date s)"
    "Query_Get r ''date_to'' = s' \<Longrightarrow> s' \<noteq> [] \<Longrightarrow>
       ql_DateTo q = (case Parse_RFC3339 s' of Some t \<Rightarrow> Some t
                      | None \<Rightarrow> map_option (\<lambda>t. t + 86399 * second_ns) (Parse_date s'))"
proof -
  obtain q1 q2 q3 q4 q5 q6 q7 q8 q9 where
    q: "page_param r default_params = Ok q1" "limit_param r q1 = Ok q2" "action_param r (q2\<lparr>ql_Search := Query_Get r ''search''\<rparr>) = Ok q3"
    "resource_type_param r q3 = Ok q4" "ip_param r q4 = Ok q5" "user_param r q5 = Ok q6" "status_param r q6 = Ok q7"
    "date_from_param r q7 = Ok q8" "date_to_param r q8 = Ok q9"
    and e: "q = q9\<lparr>ql_Sort := Query_Get r ''sort'', ql_Order := Query_Get r ''order''\<rparr>"
    using assms by (auto simp: parseAuditListParams_def and_then_Ok)
  have "1 \<le> ql_Page q1" "1 \<le> ql_Limit q1 \<and> ql_Limit q1 \<le> 100" using param_page[OF q(1)] by (simp_all add: default_params_def)
  with param_limit[OF q(2)] params_keep(1)[OF q(3)] params_keep(2)[OF q(4)] params_keep(3)[OF q(5)] params_keep(4)[OF q(6)]
    params_keep(5)[OF q(7)] params_keep(6)[OF q(8)] params_keep(7)[OF q(9)]
  show "1 \<le> ql_Page q" "1 \<le> ql_Limit q" "ql_Limit q \<le> 100" by (simp_all add: e)
  show "Query_Get r ''date_from'' = s \<Longrightarrow> s \<noteq> [] \<Longrightarrow>
       ql_DateFrom q = (case Parse_RFC3339 s of Some t \<Rightarrow> Some t | None \<Rightarrow> Parse_date s)"
    using params_dates(1)[OF q(8)] params_dates(2)[OF q(9)] by (simp add: e)
  show "Query_Get r ''date_to'' = s' \<Longrightarrow> s' \<noteq> [] \<Longrightarrow>
       ql_DateTo q = (case Parse_RFC3339 s' of Some t \<Rightarrow> Some t
                      | None \<Rightarrow> map_option (\<lambda>t. t + 86399 * second_ns) (Parse_date s'))"
    using params_dates(3)[OF q(9)] by (simp add: e)
qed


section \<open>Exported timestamps\<close>

lemma only_dates:
  assumes "\<forall>k. k \<noteq> ''date_from'' \<and> k \<noteq> ''date_to'' \<longrightarrow> Query_Get r k = []"
  shows "parseAuditListParams r = and_then (date_from_param r default_params) (date_to_param r)"
proof -
  have z: "Query_Get r ''page'' = []" "Query_Get r ''limit'' = []" "Query_Get r ''action'' = []" "Query_Get r ''resource_type'' = []"
    "Query_Get r ''ip_address'' = []" "Query_Get r ''user_id'' = []" "Query_Get r ''status'' = []" "Query_Get r ''search'' = []"
    "Query_Get r ''sort'' = []" "Query_Get r ''order'' = []"
    using assms by simp_all
  have s: "page_param r default_params = Ok default_params" "limit_param r default_params = Ok default_params"
    "action_param r (default_params\<lparr>ql_Search := []\<rparr>) = Ok default_params"
    "resource_type_param r default_params = Ok default_params" "ip_param r default_params = Ok default_params"
    "user_param r default_params = Ok default_params" "status_param r default_params = Ok default_params"
    by (simp_all add: param_defs z Let_def list_filter_def default_params_def)
  have o: "q\<lparr>ql_Sort := [], ql_Order := []\<rparr> = q" if "date_from_param r default_params = Ok p" "date_to_param r p = Ok q" for p q
    using that by (auto simp: param_defs default_params_def Let_def split: if_splits option.splits)
  show ?thesis
    using o by (auto simp: parseAuditListParams_def s z and_then_def split: sum.split)
qed

lemma default_matches:
  "audit_matches default_params l" "audit_matches (default_params\<lparr>ql_DateFrom := Some t\<rparr>) l \<longleftrightarrow> t \<le> al_CreatedAt l"
  "audit_matches (default_params\<lparr>ql_DateTo := Some t\<rparr>) l \<longleftrightarrow> al_CreatedAt l \<le> t"
  by (simp_all add: audit_matches_def default_params_def)

text \<open>
  C34. What the export prints can be asked for again: the timestamp of an entry is accepted by both date
  filters. As \<open>date_from\<close> it finds the entry; as \<open>date_to\<close> it does exactly when the entry was written
  on a whole second, because the export drops the fraction. (Years have four digits.)
\<close>

theorem audit_export_timestamp:
  assumes "civil (al_CreatedAt l div nano div 86400 + unix_epoch_day) = (y, m, d)" "0 \<le> y" "y < 10000"
    and "hq_Query r = [(''date_from'', csv_row l ! 1)]" "hq_Query r' = [(''date_to'', csv_row l ! 1)]"
  shows "\<exists>q q'. parseAuditListParams r = Ok q \<and> parseAuditListParams r' = Ok q' \<and> audit_matches q l \<and>
    (audit_matches q' l \<longleftrightarrow> al_CreatedAt l mod nano = 0)"
proof -
  let ?t = "al_CreatedAt l div nano * nano"
  note p = Parse_Format_RFC3339[OF assms(1-3)]
  have ne: "Format_RFC3339 (al_CreatedAt l) \<noteq> []" by (simp add: Format_RFC3339_def Let_def split: prod.split)
  have "date_from_param r default_params = Ok (default_params\<lparr>ql_DateFrom := Some ?t\<rparr>)"
    "date_to_param r (default_params\<lparr>ql_DateFrom := Some ?t\<rparr>) = Ok (default_params\<lparr>ql_DateFrom := Some ?t\<rparr>)"
    "date_from_param r' default_params = Ok default_params" "date_to_param r' default_params = Ok (default_params\<lparr>ql_DateTo := Some ?t\<rparr>)"
    using p ne by (simp_all add: date_from_param_def date_to_param_def Query_Get_def assms(4,5) csv_row_def Let_def)
  then have "parseAuditListParams r = Ok (default_params\<lparr>ql_DateFrom := Some ?t\<rparr>)"
    "parseAuditListParams r' = Ok (default_params\<lparr>ql_DateTo := Some ?t\<rparr>)"
    using only_dates[of r] only_dates[of r'] by (simp_all add: and_then_def Query_Get_def assms(4,5))
  moreover have "?t = al_CreatedAt l - al_CreatedAt l mod nano" "0 \<le> al_CreatedAt l mod nano"
    by (simp_all add: minus_mod_eq_div_mult nano_def)
  ultimately show ?thesis by (simp add: default_matches)
qed

definition demo_log :: "int \<Rightarrow> AuditLog" where
  "demo_log t =
     \<lparr>al_ID = 1, al_UserID = Some 1, al_Action = ''proxy.create'', al_ResourceType = None, al_ResourceID = None,
      al_ResourceName = None, al_Details = [], al_IPAddress = None, al_UserAgent = None, al_Status = ''success'',
      al_ErrorMessage = None, al_CreatedAt = t\<rparr>"

definition demo_query :: "(string \<times> string) list \<Rightarrow> http_request" where
  "demo_query q = (demo_http [] [])\<lparr>hq_Query := q\<rparr>"


theorem audit_export_timestamp_witness:
  "\<exists>q q'. parseAuditListParams (demo_query [(''date_from'', csv_row (demo_log 1500000000) ! 1)]) = Ok q \<and>
     parseAuditListParams (demo_query [(''date_to'', csv_row (demo_log 1500000000) ! 1)]) = Ok q' \<and>
     audit_matches q (demo_log 1500000000) \<and> \<not> audit_matches q' (demo_log 1500000000)"
proof -
  have "civil (al_CreatedAt (demo_log 1500000000) div nano div 86400 + unix_epoch_day) = (1970, 1, 1)" by code_simp
  from audit_export_timestamp[OF this, of "demo_query [(''date_from'', csv_row (demo_log 1500000000) ! 1)]"
      "demo_query [(''date_to'', csv_row (demo_log 1500000000) ! 1)]"]
  show ?thesis by (simp add: demo_query_def) (simp add: demo_log_def nano_def)
qed

end
