(* ===== verification/Server.thy ===== *)
theory Server
  imports Users_Handler Auth_Handler Demo_App
begin

text \<open>
  The HTTP server around the handlers: the route table with its access rules, the choice of a route,
  CORS and the files of the user interface (\<open>backend/internal/api/routes/routes.go\<close>), the answers of the
  authentication middleware (\<open>auth/goauth.go\<close>), the limit of bodies (\<open>middleware/bodylimit.go\<close>) and the
  first administrator (\<open>cmd/server/main.go\<close>). Handlers are named as in the source. Whether a request
  is authenticated and what a user may do is the authentication library, a parameter; the roles are
  those of \<open>backend/rbac.yaml\<close>.
\<close>

section \<open>The route table\<close>

datatype access = Public | RateLimited | Authenticated | Requires string

record route =
  rt_Method :: string
  rt_Pattern :: string
  rt_Access :: access
  rt_Handler :: string

text \<open>A group mounted at a prefix; its root is reached with and without the final slash.\<close>

definition mounted :: "string \<Rightarrow> (string \<times> string \<times> access \<times> string) list \<Rightarrow> route list" where
  "mounted prefix es =
     concat (map (\<lambda>(m, p, a, h).
       map (\<lambda>q. \<lparr>rt_Method = m, rt_Pattern = q, rt_Access = a, rt_Handler = h\<rparr>)
         (if p = ''/'' then [prefix, prefix @ ''/''] else [prefix @ p])) es)"

definition public_routes :: "route list" where
  "public_routes =
     mounted []
     [
      (''GET'', ''/api/health'', Public, ''healthHandler.HealthCheck''),
      (''GET'', ''/api/status'', Public, ''statusHandler.GetStatus''),
      (''POST'', ''/api/auth/register'', RateLimited, ''authHandler.Register''),
      (''POST'', ''/api/auth/login'', RateLimited, ''authHandler.Login''),
      (''POST'', ''/api/auth/acl/login'', RateLimited, ''aclVerifyHandler.Login''),
      (''POST'', ''/api/auth/sso/lookup'', RateLimited, ''ssoHandler.Lookup''),
      (''POST'', ''/api/auth/refresh'', Public, ''authHandler.RefreshToken''),
      (''GET'', ''/api/auth/registration-status'', Public, ''authHandler.RegistrationStatus''),
      (''GET'', ''/api/auth/acl/verify'', Public, ''aclVerifyHandler.Verify''),
      (''POST'', ''/api/auth/acl/logout'', Public, ''aclVerifyHandler.Logout''),
      (''GET'', ''/api/auth/acl/session'', Public, ''aclVerifyHandler.GetSession''),
      (''GET'', ''/api/auth/oauth/providers'', Public, ''oauthHandler.ListProviders''),
      (''GET'', ''/auth/oauth/{provider}'', Public, ''oauthHandler.StartOAuth''),
      (''GET'', ''/auth/oauth/{provider}/callback'', Public, ''oauthHandler.Callback''),
      (''GET'', ''/api/auth/sso/status'', Public, ''ssoHandler.Status''),
      (''GET'', ''/api/auth/sso/login'', Public, ''ssoHandler.Login''),
      (''GET'', ''/api/auth/sso/callback'', Public, ''ssoHandler.Callback''),
      (''POST'', ''/api/auth/sso/exchange'', Public, ''ssoHandler.Exchange''),
      (''GET'', ''/api/acl/branding'', Public, ''aclHandler.GetBranding''),
      (''GET'', ''/api/acl/options'', Public, ''aclHandler.GetAuthOptions'')]"

definition account_routes :: "route list" where
  "account_routes =
     mounted []
     [
      (''POST'', ''/api/auth/logout'', Authenticated, ''authHandler.Logout''),
      (''GET'', ''/api/auth/me'', Authenticated, ''authHandler.GetMe''),
      (''POST'', ''/api/auth/change-password'', Authenticated, ''authHandler.ChangePassword''),
      (''GET'', ''/api/auth/sso/config'', Requires ''settings:read'', ''ssoHandler.GetConfig''),
      (''PUT'', ''/api/auth/sso/config'', Requires ''settings:write'', ''ssoHandler.UpdateConfig''),
      (''POST'', ''/api/auth/sso/test'', Requires ''settings:write'', ''ssoHandler.Test'')]"

definition proxy_routes :: "route list" where
  "proxy_routes =
     mounted ''/api/proxies''
     [
      (''GET'', ''/'', Requires ''proxies:read'', ''proxyHandler.ListProxies''),
      (''GET'', ''/stats'', Requires ''proxies:read'', ''proxyHandler.GetStats''),
      (''GET'', ''/export'', Requires ''proxies:read'', ''proxyHandler.ExportProxies''),
      (''GET'', ''/{id}'', Requires ''proxies:read'', ''proxyHandler.GetProxy''),
      (''POST'', ''/'', Requires ''proxies:create'', ''proxyHandler.CreateProxy''),
      (''POST'', ''/import'', Requires ''proxies:create'', ''proxyHandler.ImportProxies''),
      (''PUT'', ''/{id}'', Requires ''proxies:update'', ''proxyHandler.UpdateProxy''),
      (''POST'', ''/{id}/enable'', Requires ''proxies:update'', ''proxyHandler.EnableProxy''),
      (''POST'', ''/{id}/disable'', Requires ''proxies:update'', ''proxyHandler.DisableProxy''),
      (''POST'', ''/bulk/enable'', Requires ''proxies:update'', ''proxyHandler.BulkEnableProxies''),
      (''POST'', ''/bulk/disable'', Requires ''proxies:update'', ''proxyHandler.BulkDisableProxies''),
      (''DELETE'', ''/{id}'', Requires ''proxies:delete'', ''proxyHandler.DeleteProxy''),
      (''POST'', ''/bulk/delete'', Requires ''proxies:delete'', ''proxyHandler.BulkDeleteProxies'')]"

definition settings_routes :: "route list" where
  "settings_routes =
     mounted ''/api/settings''
     [
      (''GET'', ''/'', Requires ''settings:read'', ''settingsHandler.GetAll''),
      (''GET'', ''/404'', Requires ''settings:read'', ''settingsHandler.GetNotFound''),
      (''GET'', ''/metrics-publish'', Requires ''settings:read'', ''settingsHandler.GetMetricsPublish''),
      (''GET'', ''/{key}'', Requires ''settings:read'', ''settingsHandler.Get''),
      (''PUT'', ''/404'', Requires ''settings:write'', ''settingsHandler.UpdateNotFound''),
      (''PUT'', ''/metrics-publish'', Requires ''settings:write'', ''settingsHandler.UpdateMetricsPublish''),
      (''PUT'', ''/{key}'', Requires ''settings:write'', ''settingsHandler.Update'')]"

definition sync_routes :: "route list" where
  "sync_routes =
     mounted ''/api/sync''
     [
      (''GET'', ''/status'', Requires ''sync:read'', ''syncHandler.GetStatus''),
      (''POST'', ''/trigger'', Requires ''sync:trigger'', ''syncHandler.Trigger'')]"

definition audit_routes :: "route list" where
  "audit_routes =
     mounted ''/api/audit-logs''
     [
      (''GET'', ''/'', Requires ''audit_logs:read'', ''auditHandler.List''),
      (''GET'', ''/stats'', Requires ''audit_logs:read'', ''auditHandler.GetStats''),
      (''GET'', ''/export'', Requires ''audit_logs:read'', ''auditHandler.Export''),
      (''GET'', ''/config'', Requires ''settings:read'', ''auditHandler.GetConfig''),
      (''PUT'', ''/config'', Requires ''settings:write'', ''auditHandler.UpdateConfig''),
      (''GET'', ''/event-groups'', Requires ''settings:read'', ''auditHandler.GetEventGroups''),
      (''GET'', ''/{id}'', Requires ''audit_logs:read'', ''auditHandler.GetByID'')]"

definition group_routes :: "route list" where
  "group_routes =
     mounted ''/api/acl/groups''
     [
      (''GET'', ''/'', Requires ''acl:read'', ''aclHandler.ListGroups''),
      (''POST'', ''/'', Requires ''acl:create'', ''aclHandler.CreateGroup''),
      (''GET'', ''/{id}'', Requires ''acl:read'', ''aclHandler.GetGroup''),
      (''PUT'', ''/{id}'', Requires ''acl:update'', ''aclHandler.UpdateGroup''),
      (''DELETE'', ''/{id}'', Requires ''acl:delete'', ''aclHandler.DeleteGroup''),
      (''GET'', ''/{id}/usage'', Requires ''acl:read'', ''aclHandler.GetGroupUsage''),
      (''GET'', ''/{id}/ip-rules'', Requires ''acl:read'', ''aclHandler.ListIPRules''),
      (''POST'', ''/{id}/ip-rules'', Requires ''acl:update'', ''aclHandler.AddIPRule''),
      (''GET'', ''/{id}/basic-auth'', Requires ''acl:read'', ''aclHandler.ListBasicAuthUsers''),
      (''POST'', ''/{id}/basic-auth'', Requires ''acl:update'', ''aclHandler.AddBasicAuthUser''),
      (''GET'', ''/{id}/providers'', Requires ''acl:read'', ''aclHandler.ListExternalProviders''),
      (''POST'', ''/{id}/providers'', Requires ''acl:update'', ''aclHandler.AddExternalProvider''),
      (''GET'', ''/{id}/waygates-auth'', Requires ''acl:read'', ''aclHandler.GetWaygatesAuth''),
      (''PUT'', ''/{id}/waygates-auth'', Requires ''acl:update'', ''aclHandler.ConfigureWaygatesAuth''),
      (''GET'', ''/{id}/oauth-restrictions'', Requires ''acl:read'', ''aclHandler.GetOAuthProviderRestrictions''),
      (''PUT'', ''/{id}/oauth-restrictions/{provider}'', Requires ''acl:update'', ''aclHandler.SetOAuthProviderRestriction''),
      (''DELETE'', ''/{id}/oauth-restrictions/{provider}'', Requires ''acl:delete'', ''aclHandler.DeleteOAuthProviderRestriction'')]"

definition access_routes :: "route list" where
  "access_routes =
     mounted ''/api/acl''
     [
      (''PUT'', ''/ip-rules/{id}'', Requires ''acl:update'', ''aclHandler.UpdateIPRule''),
      (''DELETE'', ''/ip-rules/{id}'', Requires ''acl:delete'', ''aclHandler.DeleteIPRule''),
      (''PUT'', ''/basic-auth/{id}'', Requires ''acl:update'', ''aclHandler.UpdateBasicAuthUser''),
      (''DELETE'', ''/basic-auth/{id}'', Requires ''acl:delete'', ''aclHandler.DeleteBasicAuthUser''),
      (''PUT'', ''/providers/{id}'', Requires ''acl:update'', ''aclHandler.UpdateExternalProvider''),
      (''DELETE'', ''/providers/{id}'', Requires ''acl:delete'', ''aclHandler.DeleteExternalProvider''),
      (''PUT'', ''/branding'', Requires ''acl:update'', ''aclHandler.UpdateBranding'')]"

definition assignment_routes :: "route list" where
  "assignment_routes =
     mounted ''/api/proxies/{id}/acl''
     [
      (''GET'', ''/'', Requires ''acl:read'', ''proxyACLHandler.GetProxyACL''),
      (''POST'', ''/'', Requires ''acl:update'', ''proxyACLHandler.AssignACLToProxy''),
      (''PUT'', ''/{assignmentId}'', Requires ''acl:update'', ''proxyACLHandler.UpdateProxyACLAssignment''),
      (''DELETE'', ''/{groupId}'', Requires ''acl:delete'', ''proxyACLHandler.RemoveACLFromProxy'')]"

definition caddy_log_routes :: "route list" where
  "caddy_log_routes =
     mounted ''/api/caddy-logs''
     [
      (''GET'', ''/'', Requires ''caddy_logs:read'', ''caddyLogsHandler.List''),
      (''GET'', ''/stream'', Requires ''caddy_logs:read'', ''caddyLogsHandler.Stream'')]"

definition caddy_config_routes :: "route list" where
  "caddy_config_routes =
     mounted ''/api/caddy-config''
     [
      (''GET'', ''/'', Requires ''caddy_config:read'', ''configPreviewHandler.GetFull'')]"

definition preview_routes :: "route list" where
  "preview_routes =
     mounted ''/api/proxies/{id}/config-preview''
     [
      (''GET'', ''/'', Requires ''caddy_config:read'', ''configPreviewHandler.GetForProxy'')]"

definition metrics_routes :: "route list" where
  "metrics_routes =
     mounted ''/api/metrics''
     [
      (''GET'', ''/traffic'', Requires ''metrics:read'', ''metricsHandler.GetTraffic'')]"

definition user_routes :: "route list" where
  "user_routes =
     mounted ''/api/users''
     [
      (''GET'', ''/'', Requires ''users:read'', ''usersHandler.List''),
      (''GET'', ''/{id}'', Requires ''users:read'', ''usersHandler.Get''),
      (''POST'', ''/'', Requires ''users:manage'', ''usersHandler.Create''),
      (''PUT'', ''/{id}'', Requires ''users:manage'', ''usersHandler.Update''),
      (''POST'', ''/{id}/password'', Requires ''users:manage'', ''usersHandler.ResetPassword''),
      (''DELETE'', ''/{id}'', Requires ''users:manage'', ''usersHandler.Delete'')]"

definition l4_routes :: "route list" where
  "l4_routes =
     mounted ''/api/l4-proxies''
     [
      (''GET'', ''/'', Requires ''l4proxies:read'', ''l4ProxyHandler.List''),
      (''GET'', ''/stats'', Requires ''l4proxies:read'', ''l4ProxyHandler.GetStats''),
      (''GET'', ''/export'', Requires ''l4proxies:read'', ''l4ProxyHandler.ExportL4Proxies''),
      (''GET'', ''/{id}'', Requires ''l4proxies:read'', ''l4ProxyHandler.Get''),
      (''POST'', ''/'', Requires ''l4proxies:create'', ''l4ProxyHandler.Create''),
      (''PUT'', ''/{id}'', Requires ''l4proxies:update'', ''l4ProxyHandler.Update''),
      (''PATCH'', ''/{id}/toggle'', Requires ''l4proxies:update'', ''l4ProxyHandler.ToggleActive''),
      (''POST'', ''/bulk/enable'', Requires ''l4proxies:update'', ''l4ProxyHandler.BulkEnable''),
      (''POST'', ''/bulk/disable'', Requires ''l4proxies:update'', ''l4ProxyHandler.BulkDisable''),
      (''DELETE'', ''/{id}'', Requires ''l4proxies:delete'', ''l4ProxyHandler.Delete''),
      (''POST'', ''/bulk/delete'', Requires ''l4proxies:delete'', ''l4ProxyHandler.BulkDelete'')]"

definition routes :: "route list" where
  "routes =
     public_routes @ account_routes @ proxy_routes @ settings_routes @ sync_routes @ audit_routes @ group_routes @
     access_routes @ assignment_routes @ caddy_log_routes @ caddy_config_routes @ preview_routes @ metrics_routes @
     user_routes @ l4_routes"

section \<open>Choosing a route\<close>

text \<open>
  The router compares segment by segment; a placeholder takes any segment but an empty last one. Where
  several patterns match, the literal segment wins at the first difference.
\<close>

definition is_param :: "string \<Rightarrow> bool" where
  "is_param seg \<longleftrightarrow> HasPrefix seg ''{''"

fun segs_match :: "string list \<Rightarrow> string list \<Rightarrow> bool" where
  "segs_match [] [] = True"
| "segs_match (p # ps) (s # ss) = ((if is_param p then s \<noteq> [] \<or> ss \<noteq> [] else p = s) \<and> segs_match ps ss)"
| "segs_match _ _ = False"

fun more_literal :: "string list \<Rightarrow> string list \<Rightarrow> bool" where
  "more_literal (p # ps) (q # qs) =
     (if is_param p = is_param q then more_literal ps qs else \<not> is_param p)"
| "more_literal _ _ = False"

definition rt_matches :: "string \<Rightarrow> string \<Rightarrow> route \<Rightarrow> bool" where
  "rt_matches method path rt \<longleftrightarrow>
     rt_Method rt = method \<and> segs_match (Split CHR ''/'' (rt_Pattern rt)) (Split CHR ''/'' path)"

definition route_for :: "string \<Rightarrow> string \<Rightarrow> route option" where
  "route_for method path =
     fold (\<lambda>rt best.
       case best of
         None \<Rightarrow> Some rt
       | Some b \<Rightarrow>
           if more_literal (Split CHR ''/'' (rt_Pattern rt)) (Split CHR ''/'' (rt_Pattern b)) then Some rt else best)
       (filter (rt_matches method path) routes) None"

section \<open>Access\<close>

definition ErrorHandler :: "int \<Rightarrow> string \<Rightarrow> unit http_response" where
  "ErrorHandler code msg =
     (if code = 401 then Unauthorized msg
      else if code = 403 then NotFound ''Not found''
      else Unauthorized ''Authentication failed'')"

text \<open>
  What the middleware in front of a handler does: \<open>limited\<close> is the rate limiter, \<open>who\<close> the
  authentication, which yields the user or an error with its status, and \<open>denied\<close> the check of a
  permission, with the status and text of its error.
\<close>

datatype verdict = NoRoute | TooManyRequests | Refused "unit http_response" | Reached route "string option"

definition pass_access ::
  "bool \<Rightarrow> (int \<times> string, string) result \<Rightarrow> (string \<Rightarrow> string \<Rightarrow> (int \<times> string) option) \<Rightarrow> route \<Rightarrow> verdict" where
  "pass_access limited who denied rt =
     (case rt_Access rt of
        Public \<Rightarrow> Reached rt None
      | RateLimited \<Rightarrow> if limited then TooManyRequests else Reached rt None
      | Authenticated \<Rightarrow>
          (case who of Inl (code, msg) \<Rightarrow> Refused (ErrorHandler code msg) | Inr u \<Rightarrow> Reached rt (Some u))
      | Requires p \<Rightarrow>
          (case who of
             Inl (code, msg) \<Rightarrow> Refused (ErrorHandler code msg)
           | Inr u \<Rightarrow>
               (case denied u p of
                  Some (code, msg) \<Rightarrow> Refused (ErrorHandler code msg)
                | None \<Rightarrow> Reached rt (Some u))))"

definition serve_route ::
  "(http_request \<Rightarrow> bool) \<Rightarrow> (http_request \<Rightarrow> (int \<times> string, string) result)
    \<Rightarrow> (string \<Rightarrow> string \<Rightarrow> (int \<times> string) option) \<Rightarrow> http_request \<Rightarrow> verdict" where
  "serve_route limited who denied r =
     (case route_for (hq_Method r) (hq_Path r) of
        None \<Rightarrow> NoRoute
      | Some rt \<Rightarrow> pass_access (limited r) (who r) denied rt)"

text \<open>The roles of the access-control file.\<close>

definition role_templates :: "(string \<times> string list) list" where
  "role_templates =
     [(''admin'', [''*'']),
      (''operator'',
         [''proxies:*'', ''l4proxies:*'', ''acl:*'', ''settings:read'', ''settings:write'', ''sync:read'', ''sync:trigger'',
          ''system:status'', ''audit_logs:read'', ''metrics:read'']),
      (''viewer'',
         [''proxies:read'', ''l4proxies:read'', ''acl:read'', ''settings:read'', ''sync:read'', ''system:status'',
          ''metrics:read''])]"

definition permission_keys :: "string list" where
  "permission_keys =
     [''proxies:read'', ''proxies:create'', ''proxies:update'', ''proxies:delete'', ''users:read'', ''users:manage'',
      ''settings:read'', ''settings:write'', ''sync:read'', ''sync:trigger'', ''system:status'', ''audit_logs:read'',
      ''acl:read'', ''acl:create'', ''acl:update'', ''acl:delete'', ''caddy_logs:read'', ''caddy_config:read'',
      ''metrics:read'', ''l4proxies:read'', ''l4proxies:create'', ''l4proxies:update'', ''l4proxies:delete'']"

section \<open>CORS, bodies, environment\<close>

definition resolveCORSOptions :: "string list \<Rightarrow> string list \<times> bool" where
  "resolveCORSOptions origins = (if List.member origins ''*'' then ([''*''], False) else (origins, True))"

definition getEnvOrDefault :: "(string \<Rightarrow> string option) \<Rightarrow> string \<Rightarrow> string \<Rightarrow> string" where
  "getEnvOrDefault env key defaultValue =
     (case env key of None \<Rightarrow> defaultValue | Some v \<Rightarrow> if v \<noteq> [] then v else defaultValue)"

definition DefaultBodyLimit :: nat where "DefaultBodyLimit = 1024 * 1024"

text \<open>
  The declared length of a body is negative when it is unknown; what a handler can read of a body of
  \<open>n\<close> bytes is \<^term>\<open>None\<close> if that exceeds the limit.
\<close>

definition BodyLimit :: "nat \<Rightarrow> int \<Rightarrow> nat \<Rightarrow> (unit http_response, nat option) result" where
  "BodyLimit maxBytes declared n =
     (if declared > int maxBytes then Err (BadRequest ''Request body too large'')
      else Ok (if n \<le> maxBytes then Some n else None))"

section \<open>Files of the user interface\<close>

text \<open>\<open>filepath.Clean\<close> of a rooted path.\<close>

fun clean_segs :: "string list \<Rightarrow> string list \<Rightarrow> string list" where
  "clean_segs st [] = rev st"
| "clean_segs st (s # ss) =
     (if s = [] \<or> s = ''.'' then clean_segs st ss
      else if s = ''..'' then clean_segs (tl st) ss
      else clean_segs (s # st) ss)"

definition Clean :: "string \<Rightarrow> string" where
  "Clean s = ''/'' @ Join (clean_segs [] (Split CHR ''/'' s)) ''/''"

datatype file_kind = Missing | Directory bool | RegularFile | StatError

text \<open>
  \<open>stat\<close> is the file system; a directory says whether it has an \<open>index.html\<close>. \<open>FileServer\<close> is
  \<open>http.FileServer\<close> on the path it is given.
\<close>

datatype served_file = ApiNotFound | IndexFile | FileServer string

definition serve_static :: "(string \<Rightarrow> file_kind) \<Rightarrow> string \<Rightarrow> string \<Rightarrow> served_file" where
  "serve_static stat absPath urlPath =
     (if HasPrefix urlPath ''/api'' then ApiNotFound
      else
        let cleaned = Clean (''/'' @ urlPath); path = Clean (absPath @ ''/'' @ cleaned) in
        if path \<noteq> absPath \<and> \<not> HasPrefix path (absPath @ ''/'') then IndexFile
        else case stat path of
            Missing \<Rightarrow> IndexFile
          | Directory has_index \<Rightarrow> if has_index then FileServer path else IndexFile
          | _ \<Rightarrow> FileServer path)"

section \<open>The first administrator\<close>

record DefaultUserConfig =
  du_Name :: string
  du_Username :: string
  du_Email :: string
  du_Password :: string

definition createDefaultUserIfNeeded :: "'g app_env \<Rightarrow> DefaultUserConfig \<Rightarrow> 'g app \<Rightarrow> 'g app" where
  "createDefaultUserIfNeeded en cfg ap =
     (if du_Username cfg = [] \<or> du_Email cfg = [] \<or> du_Password cfg = [] then ap
      else case User_Count (ae_flt en) (ap_db ap) of
        Inl _ \<Rightarrow> ap
      | Inr n \<Rightarrow>
          if n \<noteq> 0 then ap
          else
            (case ae_hash en (du_Password cfg) of
               None \<Rightarrow> ap
             | Some h \<Rightarrow>
                 let user = \<lparr>us_ID = 0, us_Name = str_default (du_Username cfg) (du_Name cfg), us_Username = du_Username cfg,
                             us_Email = du_Email cfg, us_PasswordHash = h, us_Active = False, us_MustChangePassword = False,
                             us_LastLoginAt = None\<rparr> in
                 (case User_Create_repo (ae_flt en) user (ap_db ap) of
                    (db1, Some _) \<Rightarrow> ap\<lparr>ap_db := db1\<rparr>
                  | (db1, None) \<Rightarrow>
                      ap\<lparr>ap_db := db1,
                         ap_roles := fst (rm_AssignRole (ae_roles en) (Itoa (us_ID (created_user (ap_db ap) user)))
                           ''admin'' (ap_roles ap))\<rparr>)))"

section \<open>What the routes admit\<close>

definition template_grants :: "string \<Rightarrow> string \<Rightarrow> bool" where
  "template_grants role p \<longleftrightarrow>
     (case map_of role_templates role of
        None \<Rightarrow> False
      | Some gs \<Rightarrow> list_ex (\<lambda>g. g = p \<or> g = ''*'' \<or> (HasSuffix g '':*'' \<and> HasPrefix p (butlast g))) gs)"

definition own_account :: "string list" where
  "own_account = [''authHandler.Logout'', ''authHandler.ChangePassword'']"

lemma routes_read_only:
  "list_all (\<lambda>rt. case rt_Access rt of
       Requires p \<Rightarrow> template_grants ''viewer'' p \<longrightarrow> rt_Method rt = ''GET''
     | Authenticated \<Rightarrow> rt_Method rt = ''GET'' \<or> List.member own_account (rt_Handler rt)
     | _ \<Rightarrow> True) routes"
  by code_simp

lemma routes_declared:
  "list_all (\<lambda>rt. case rt_Access rt of Requires p \<Rightarrow> List.member permission_keys p | _ \<Rightarrow> True) routes"
  by code_simp

lemma routes_users:
  "list_all (\<lambda>rt. case rt_Access rt of
       Requires p \<Rightarrow> template_grants ''operator'' p \<longrightarrow> \<not> HasPrefix (rt_Handler rt) ''usersHandler.''
     | _ \<Rightarrow> \<not> HasPrefix (rt_Handler rt) ''usersHandler.'') routes"
  by code_simp

lemma route_for_Some: "route_for m path = Some rt \<Longrightarrow> rt \<in> set routes \<and> rt_matches m path rt"
proof -
  define f :: "route \<Rightarrow> route option \<Rightarrow> route option" where "f = (\<lambda>rt best. case best of None \<Rightarrow> Some rt
       | Some b \<Rightarrow> if more_literal (Split CHR ''/'' (rt_Pattern rt)) (Split CHR ''/'' (rt_Pattern b)) then Some rt else best)"
  have inv: "fold f xs best = Some rt \<Longrightarrow> rt \<in> set xs \<or> best = Some rt" for xs best rt
    by (induction xs arbitrary: best) (fastforce simp: f_def split: option.splits if_splits)+
  assume "route_for m path = Some rt"
  then have "fold f (filter (rt_matches m path) routes) None = Some rt" by (simp add: route_for_def f_def)
  from inv[OF this] show ?thesis by auto
qed

lemma serve_route_Reached:
  assumes "serve_route limited who denied r = Reached rt v"
  shows "rt \<in> set routes" "rt_Method rt = hq_Method r"
    "case rt_Access rt of
       Requires p \<Rightarrow> \<exists>u. who r = Inr u \<and> v = Some u \<and> denied u p = None
     | Authenticated \<Rightarrow> \<exists>u. who r = Inr u \<and> v = Some u
     | RateLimited \<Rightarrow> \<not> limited r \<and> v = None
     | Public \<Rightarrow> v = None"
proof -
  obtain rt' where rt': "route_for (hq_Method r) (hq_Path r) = Some rt'" "pass_access (limited r) (who r) denied rt' = Reached rt v"
    using assms by (auto simp: serve_route_def split: option.splits)
  then have e: "rt' = rt" by (auto simp: pass_access_def split: access.splits sum.splits option.splits if_splits)
  from route_for_Some rt'(1) e show "rt \<in> set routes" "rt_Method rt = hq_Method r" by (auto simp: rt_matches_def)
  from rt'(2) e show "case rt_Access rt of
       Requires p \<Rightarrow> \<exists>u. who r = Inr u \<and> v = Some u \<and> denied u p = None
     | Authenticated \<Rightarrow> \<exists>u. who r = Inr u \<and> v = Some u
     | RateLimited \<Rightarrow> \<not> limited r \<and> v = None
     | Public \<Rightarrow> v = None"
    by (auto simp: pass_access_def split: access.splits sum.splits option.splits if_splits)
qed



text \<open>Whoever may change settings may also point the single sign-on at another identity provider.\<close>

lemma operator_configures_sso:
  "route_for ''PUT'' ''/api/auth/sso/config'' = Some
     \<lparr>rt_Method = ''PUT'', rt_Pattern = ''/api/auth/sso/config'', rt_Access = Requires ''settings:write'',
      rt_Handler = ''ssoHandler.UpdateConfig''\<rparr> \<and> template_grants ''operator'' ''settings:write''"
  by code_simp

section \<open>Served files\<close>

definition plain_seg :: "string \<Rightarrow> bool" where
  "plain_seg x \<longleftrightarrow> x \<noteq> [] \<and> x \<noteq> ''.'' \<and> x \<noteq> ''..'' \<and> CHR ''/'' \<notin> set x"

lemma clean_segs_append: "clean_segs st (xs @ ys) = clean_segs (rev (clean_segs st xs)) ys"
  by (induction xs arbitrary: st) simp_all

lemma clean_segs_plain: "list_all plain_seg xs \<Longrightarrow> clean_segs st xs = rev st @ xs"
  by (induction xs arbitrary: st) (auto simp: plain_seg_def)

lemma clean_segs_result:
  "list_all plain_seg st \<Longrightarrow> \<forall>x \<in> set ss. CHR ''/'' \<notin> set x \<Longrightarrow> list_all plain_seg (clean_segs st ss)"
proof (induction ss arbitrary: st)
  case (Cons s ss)
  have "list_all plain_seg (tl st)" using Cons.prems(1) by (cases st) auto
  with Cons have "list_all plain_seg (clean_segs (tl st) ss)" "list_all plain_seg (clean_segs st ss)"
    "plain_seg s \<Longrightarrow> list_all plain_seg (clean_segs (s # st) ss)" by simp_all
  moreover have "s = [] \<or> s = ''.'' \<or> s = ''..'' \<or> plain_seg s" using Cons.prems(2) by (auto simp: plain_seg_def)
  ultimately show ?case by auto
qed simp

definition rooted :: "string list \<Rightarrow> string" where "rooted xs = ''/'' @ Join xs ''/''"

lemma Clean_rooted: "Clean s = rooted (clean_segs [] (Split CHR ''/'' s))" "list_all plain_seg (clean_segs [] (Split CHR ''/'' s))"
  using clean_segs_result[of "[]" "Split CHR ''/'' s"] Split_sound[of _ "CHR ''/''" s] by (auto simp: Clean_def rooted_def)

lemma Split_slash: "Split c (x @ c # y) = Split c x @ Split c y"
  by (induction x) (auto split: list.splits)

lemma Split_Join_plain: "list_all plain_seg xs \<Longrightarrow> xs \<noteq> [] \<Longrightarrow> Split CHR ''/'' (Join xs ''/'') = xs"
proof (induction xs)
  case (Cons x xs)
  show ?case
  proof (cases xs)
    case Nil
    with Cons.prems show ?thesis by (simp add: plain_seg_def Split_literal)
  next
    case (Cons y ys)
    with Cons.prems Cons.IH show ?thesis by (simp add: plain_seg_def Split_append)
  qed
qed simp

lemma clean_segs_rooted: "list_all plain_seg xs \<Longrightarrow> clean_segs st (Split CHR ''/'' (rooted xs)) = rev st @ xs"
  by (cases "xs = []") (simp_all add: rooted_def Split_Join_plain clean_segs_plain)

lemma Join_append: "xs \<noteq> [] \<Longrightarrow> ys \<noteq> [] \<Longrightarrow> Join (xs @ ys) sep = Join xs sep @ sep @ Join ys sep"
proof (induction xs)
  case (Cons x xs)
  then show ?case by (cases xs; cases ys) auto
qed simp

lemma Clean_below:
  assumes "Clean dir = dir" "dir \<noteq> ''/''"
  obtains xs where "list_all plain_seg xs"
    "Clean (dir @ ''/'' @ Clean t) = (if xs = [] then dir else dir @ ''/'' @ Join xs ''/'')"
proof -
  let ?d = "clean_segs [] (Split CHR ''/'' dir)" and ?x = "clean_segs [] (Split CHR ''/'' t)"
  have d: "dir = rooted ?d" "list_all plain_seg ?d" "?d \<noteq> []"
    using Clean_rooted[of dir] assms by (auto simp: rooted_def)
  have x: "Clean t = rooted ?x" "list_all plain_seg ?x" using Clean_rooted by auto
  have "clean_segs [] (Split CHR ''/'' (dir @ ''/'' @ Clean t)) = ?d @ ?x"
    using x by (simp add: Split_slash clean_segs_append clean_segs_rooted)
  then have c: "Clean (dir @ ''/'' @ Clean t) = rooted (?d @ ?x)" using Clean_rooted(1) by metis
  show thesis
  proof (rule that[OF x(2)])
    show "Clean (dir @ ''/'' @ Clean t) = (if ?x = [] then dir else dir @ ''/'' @ Join ?x ''/'')"
    proof (cases "?x = []")
      case False
      have "rooted (?d @ ?x) = rooted ?d @ ''/'' @ Join ?x ''/''"
        using False d(3) by (simp add: rooted_def Join_append)
      with False c d(1) show ?thesis by simp
    qed (use c d(1) in simp)
  qed
qed

text \<open>
  C13. No request escapes the directory of the user interface. For a clean absolute directory other
  than the root, whatever path is requested: the file that is looked up is the directory itself or
  lies below it, along names that are neither empty nor dots; the check behind the cleaning therefore
  never fires, an existing regular file is served_file, and what does not exist is answered with the index
  page, unless the path is one of the API.
\<close>

theorem static_files_contained:
  assumes "Clean absPath = absPath" "absPath \<noteq> ''/''"
  shows "\<exists>xs. list_all plain_seg xs \<and>
    (let path = (if xs = [] then absPath else absPath @ ''/'' @ Join xs ''/'') in
     serve_static stat absPath u =
       (if HasPrefix u ''/api'' then ApiNotFound
        else case stat path of
            Missing \<Rightarrow> IndexFile
          | Directory has_index \<Rightarrow> if has_index then FileServer path else IndexFile
          | RegularFile \<Rightarrow> FileServer path
          | StatError \<Rightarrow> FileServer path))"
proof -
  obtain xs where xs: "list_all plain_seg xs"
    "Clean (absPath @ ''/'' @ Clean (''/'' @ u)) = (if xs = [] then absPath else absPath @ ''/'' @ Join xs ''/'')"
    using Clean_below[OF assms] by blast
  then have "HasPrefix (Clean (absPath @ ''/'' @ Clean (''/'' @ u))) (absPath @ ''/'') \<or>
      Clean (absPath @ ''/'' @ Clean (''/'' @ u)) = absPath"
    by (simp add: HasPrefix_def)
  with xs show ?thesis
    by (intro exI[of _ xs]) (auto simp: serve_static_def Let_def split: file_kind.splits)
qed

theorem static_files_contained_witness:
  "\<exists>xs. list_all plain_seg xs \<and>
    (let path = (if xs = [] then ''/app/ui'' else ''/app/ui'' @ ''/'' @ Join xs ''/'') in
     serve_static (\<lambda>_. RegularFile) ''/app/ui'' ''/../../etc/passwd'' = FileServer path) \<and>
     serve_static (\<lambda>_. RegularFile) ''/app/ui'' ''/../../etc/passwd'' = FileServer ''/app/ui/etc/passwd''"
proof -
  have c: "Clean ''/app/ui'' = ''/app/ui''" "\<not> HasPrefix ''/../../etc/passwd'' ''/api''"
    "serve_static (\<lambda>_. RegularFile) ''/app/ui'' ''/../../etc/passwd'' = FileServer ''/app/ui/etc/passwd''" by code_simp+
  with static_files_contained[OF c(1), of "\<lambda>_. RegularFile" "''/../../etc/passwd''"] show ?thesis by (auto simp: Let_def)
qed

section \<open>The configured administrator\<close>

definition default_user :: "DefaultUserConfig \<Rightarrow> string \<Rightarrow> int \<Rightarrow> User" where
  "default_user cfg h i =
     \<lparr>us_ID = i, us_Name = str_default (du_Username cfg) (du_Name cfg), us_Username = du_Username cfg,
      us_Email = du_Email cfg, us_PasswordHash = h, us_Active = True, us_MustChangePassword = False,
      us_LastLoginAt = None\<rparr>"

definition configured :: "DefaultUserConfig \<Rightarrow> bool" where
  "configured cfg \<longleftrightarrow> du_Username cfg \<noteq> [] \<and> du_Email cfg \<noteq> [] \<and> du_Password cfg \<noteq> []"

lemma createDefaultUser_first:
  assumes "configured cfg" "ap_users ap = []" "ae_flt en = no_faults" "ae_hash en (du_Password cfg) = Some h"
  shows "ap_users (createDefaultUserIfNeeded en cfg ap) = [default_user cfg h (tb_next (db_users (ap_db ap)))]"
    "ap_roles (createDefaultUserIfNeeded en cfg ap) =
       fst (rm_AssignRole (ae_roles en) (Itoa (tb_next (db_users (ap_db ap)))) ''admin'' (ap_roles ap))"
    "db_ok (ap_db ap) \<Longrightarrow> db_ok (ap_db (createDefaultUserIfNeeded en cfg ap))"
proof -
  let ?u = "\<lparr>us_ID = 0, us_Name = str_default (du_Username cfg) (du_Name cfg), us_Username = du_Username cfg,
     us_Email = du_Email cfg, us_PasswordHash = h, us_Active = False, us_MustChangePassword = False,
     us_LastLoginAt = None\<rparr>"
  obtain db1 where w: "User_Create_repo no_faults ?u (ap_db ap) = (db1, None)"
    "tb_rows (db_users db1) = [default_user cfg h (tb_next (db_users (ap_db ap)))]"
    using assms(2) by (simp_all add: User_Create_repo_def user_clash_def no_faults_def set_users_def tb_Create_def
        set_us_ID_def default_user_def)
  have e: "createDefaultUserIfNeeded en cfg ap = ap\<lparr>ap_db := db1,
      ap_roles := fst (rm_AssignRole (ae_roles en) (Itoa (tb_next (db_users (ap_db ap)))) ''admin'' (ap_roles ap))\<rparr>"
    using assms(1-4) w(1) by (simp add: createDefaultUserIfNeeded_def configured_def User_Count_def no_faults_def
        created_user_def Let_def)
  from e w(2) show "ap_users (createDefaultUserIfNeeded en cfg ap) = [default_user cfg h (tb_next (db_users (ap_db ap)))]"
    "ap_roles (createDefaultUserIfNeeded en cfg ap) =
       fst (rm_AssignRole (ae_roles en) (Itoa (tb_next (db_users (ap_db ap)))) ''admin'' (ap_roles ap))" by simp_all
  assume "db_ok (ap_db ap)"
  with User_Create_repo_ok[of "ap_db ap" no_faults ?u] w(1) e
  show "db_ok (ap_db (createDefaultUserIfNeeded en cfg ap))" by simp
qed

lemma createDefaultUser_later: "ap_users ap \<noteq> [] \<Longrightarrow> createDefaultUserIfNeeded en cfg ap = ap"
  by (simp add: createDefaultUserIfNeeded_def User_Count_def split: sum.splits)

text \<open>
  C12. The configured administrator. Started on an empty database with a complete configuration, and
  when the statements, the hashing and the assignment of the role succeed, the program creates exactly
  the configured user and makes it an administrator; a restart changes nothing as long as there are
  users, and whatever calls to manage users follow, an active administrator is left.
\<close>

theorem default_administrator:
  assumes "configured cfg" "ap_users ap = []" "db_ok (ap_db ap)" "ae_flt en = no_faults"
    "ae_hash en (du_Password cfg) = Some h" "role_laws (ae_roles en)"
    "snd (rm_AssignRole (ae_roles en) (Itoa (tb_next (db_users (ap_db ap)))) ''admin'' (ap_roles ap))"
    "user_reachable (ae_roles en) (createDefaultUserIfNeeded en cfg ap) ap'"
  shows "ap_users (createDefaultUserIfNeeded en cfg ap) = [default_user cfg h (tb_next (db_users (ap_db ap)))] \<and>
    has_admin (ae_roles en) ap' \<and> db_ok (ap_db ap') \<and> createDefaultUserIfNeeded en2 cfg2 ap' = ap'"
proof -
  let ?ap1 = "createDefaultUserIfNeeded en cfg ap" and ?rm = "ae_roles en"
  note F = createDefaultUser_first[OF assms(1,2,4,5)]
  obtain g where g: "rm_AssignRole ?rm (Itoa (tb_next (db_users (ap_db ap)))) ''admin'' (ap_roles ap) = (g, True)"
    using assms(7) by (cases "rm_AssignRole ?rm (Itoa (tb_next (db_users (ap_db ap)))) ''admin'' (ap_roles ap)") simp
  then have r: "rm_RoleLabel ?rm (Itoa (tb_next (db_users (ap_db ap)))) (ap_roles ?ap1) = Some ''admin''"
    using assms(6) F(2) by (simp add: role_laws_def)
  then have "has_admin ?rm ?ap1" by (simp add: has_admin_def is_admin_def F(1) default_user_def)
  with assms(8) F(3)[OF assms(3)] have "has_admin ?rm ap' \<and> db_ok (ap_db ap')"
    by (induction rule: user_reachable.induct) (auto dest: user_step_keeps[OF _ assms(6)])
  moreover from this have "ap_users ap' \<noteq> []" by (auto simp: has_admin_def)
  ultimately show ?thesis using F(1) createDefaultUser_later by blast
qed

definition demo_new_app :: "(string \<Rightarrow> string option) app" where
  "demo_new_app =
     demo_app\<lparr>ap_db := demo_db\<lparr>db_acl := empty_store\<rparr>, ap_roles := (\<lambda>_. None)\<rparr>"

definition demo_default :: DefaultUserConfig where
  "demo_default = \<lparr>du_Name = [], du_Username = ''root'', du_Email = ''root@example.com'', du_Password = ''secret''\<rparr>"

theorem default_administrator_witness:
  "has_admin demo_roles (createDefaultUserIfNeeded demo_aenv demo_default demo_new_app) \<and>
   map us_Username (ap_users (createDefaultUserIfNeeded demo_aenv demo_default demo_new_app)) = [''root'']"
proof -
  have "configured demo_default" "ap_users demo_new_app = []" "ae_hash demo_aenv (du_Password demo_default) = Some ''h:secret''"
    by (simp_all add: configured_def demo_default_def demo_new_app_def empty_store_def demo_aenv_def)
  moreover have "db_ok (ap_db demo_new_app)"
    using store_ok_empty by (simp add: db_ok_def demo_new_app_def system_ok_def)
      (simp add: users_ok_def tb_wf_def empty_store_def proxies_ct.ok_empty)
  moreover have "snd (rm_AssignRole demo_roles (Itoa (tb_next (db_users (ap_db demo_new_app)))) ''admin'' (ap_roles demo_new_app))"
    by (simp add: demo_roles_def)
  ultimately have "ap_users (createDefaultUserIfNeeded demo_aenv demo_default demo_new_app) =
        [default_user demo_default ''h:secret'' (tb_next (db_users (ap_db demo_new_app)))] \<and>
     has_admin demo_roles (createDefaultUserIfNeeded demo_aenv demo_default demo_new_app)"
    using default_administrator[of demo_default demo_new_app demo_aenv "''h:secret''"
        "createDefaultUserIfNeeded demo_aenv demo_default demo_new_app"] demo_role_laws user_reachable.start by auto
  then show ?thesis by (simp add: default_user_def demo_default_def)
qed

text \<open>
  If the assignment fails, the user stays without a role, and since there is a user nobody becomes an
  administrator later by this way.
\<close>

lemma default_user_without_role:
  assumes "configured cfg" "ap_users ap = []" "ae_flt en = no_faults"
    "ae_hash en (du_Password cfg) = Some h" "role_laws (ae_roles en)"
    "\<And>u. rm_RoleLabel (ae_roles en) u (ap_roles ap) = None"
    "rm_AssignRole (ae_roles en) (Itoa (tb_next (db_users (ap_db ap)))) ''admin'' (ap_roles ap) = (g, False)"
  shows "\<not> has_admin (ae_roles en) (createDefaultUserIfNeeded en cfg ap) \<and>
    createDefaultUserIfNeeded en cfg (createDefaultUserIfNeeded en cfg ap) = createDefaultUserIfNeeded en cfg ap"
proof -
  note F = createDefaultUser_first[OF assms(1-4)]
  have "rm_RoleLabel (ae_roles en) u g = None" for u using assms(5-7) by (simp add: role_laws_def)
  with F(2) assms(7) have "\<not> has_admin (ae_roles en) (createDefaultUserIfNeeded en cfg ap)"
    by (simp add: has_admin_def is_admin_def)
  with F(1) createDefaultUser_later show ?thesis by force
qed

end
