(* ===== verification/Server_Config.thy ===== *)
theory Server_Config
  imports Server
begin

text \<open>
  The configuration of the program and the handlers that report its state: \<open>internal/config/config.go\<close>,
  \<open>parseLogLevel\<close> of \<open>cmd/server/main.go\<close>, the configuration \<open>SetupRoutes\<close> hands to the sync service, and
  the handlers of status, health, synchronisation and the preview of the Caddy configuration. Package
  viper is a parameter: \<open>vi_lookup\<close> is the text a key has in the environment or the \<open>.env\<close> file, the other
  fields are its conversions.
\<close>

section \<open>Reading values\<close>

datatype viper_value = VString string | VInt int | VDuration int | VBool bool | VStrings "string list"

record viper =
  vi_lookup :: "string \<Rightarrow> string option"
  vi_ToInt :: "string \<Rightarrow> int"
  vi_ToDuration :: "string \<Rightarrow> int"
  vi_ToBool :: "string \<Rightarrow> bool"
  vi_ToSlice :: "string \<Rightarrow> string list"

definition Minute :: int where "Minute = 60 * 1000000000"
definition Hour :: int where "Hour = 60 * Minute"

definition setDefaults :: "(string \<times> viper_value) list" where
  "setDefaults =
     [(''SERVER_HOST'', VString ''0.0.0.0''), (''SERVER_PORT'', VInt 8080),
      (''DB_HOST'', VString ''postgres''), (''DB_PORT'', VInt 5432), (''DB_USER'', VString ''waygates''),
      (''DB_PASSWORD'', VString ''waygates''), (''DB_NAME'', VString ''waygates''),
      (''CADDY_EMAIL'', VString []), (''CADDY_ACME_PROVIDER'', VString ''off''), (''CADDY_ACME_RESOLVERS'', VString []),
      (''CADDY_STORAGE_PATH'', VString ''/data''), (''CADDY_LOG_PATH'', VString ''/var/log/caddy''),
      (''WAYGATES_CADDY_CONFIG_RETENTION_DAYS'', VInt 7),
      (''JWT_ACCESS_EXPIRY'', VDuration (15 * Minute)), (''JWT_REFRESH_EXPIRY'', VDuration (7 * 24 * Hour)),
      (''BCRYPT_COST'', VInt 12), (''CORS_ORIGINS'', VStrings []), (''RBAC_PATH'', VString ''./backend/rbac.yaml''),
      (''LOG_LEVEL'', VString ''info''), (''LOG_FORMAT'', VString ''json''),
      (''UI_ENABLED'', VBool True), (''UI_PATH'', VString ''./ui''),
      (''ACL_COOKIE_DOMAIN'', VString []), (''ACL_COOKIE_SECURE'', VBool True), (''ACL_SESSION_TTL'', VDuration (24 * Hour)),
      (''ACL_OAUTH_CALLBACK_BASE_URL'', VString []), (''ACL_WAYGATES_VERIFY_URL'', VString ''http://waygates:8080''),
      (''ACL_WAYGATES_LOGIN_URL'', VString [])]"

definition GetString :: "viper \<Rightarrow> string \<Rightarrow> string" where
  "GetString v key =
     (case vi_lookup v key of
        Some s \<Rightarrow> s
      | None \<Rightarrow> (case map_of setDefaults key of Some (VString s) \<Rightarrow> s | _ \<Rightarrow> []))"

definition GetInt :: "viper \<Rightarrow> string \<Rightarrow> int" where
  "GetInt v key =
     (case vi_lookup v key of
        Some s \<Rightarrow> vi_ToInt v s
      | None \<Rightarrow> (case map_of setDefaults key of Some (VInt i) \<Rightarrow> i | _ \<Rightarrow> 0))"

definition GetDuration :: "viper \<Rightarrow> string \<Rightarrow> int" where
  "GetDuration v key =
     (case vi_lookup v key of
        Some s \<Rightarrow> vi_ToDuration v s
      | None \<Rightarrow> (case map_of setDefaults key of Some (VDuration i) \<Rightarrow> i | _ \<Rightarrow> 0))"

definition GetBool :: "viper \<Rightarrow> string \<Rightarrow> bool" where
  "GetBool v key =
     (case vi_lookup v key of
        Some s \<Rightarrow> vi_ToBool v s
      | None \<Rightarrow> (case map_of setDefaults key of Some (VBool b) \<Rightarrow> b | _ \<Rightarrow> False))"

definition GetStringSlice :: "viper \<Rightarrow> string \<Rightarrow> string list" where
  "GetStringSlice v key =
     (case vi_lookup v key of
        Some s \<Rightarrow> vi_ToSlice v s
      | None \<Rightarrow> (case map_of setDefaults key of Some (VStrings l) \<Rightarrow> l | _ \<Rightarrow> []))"

definition splitAndTrimCSV :: "string \<Rightarrow> string list" where
  "splitAndTrimCSV s =
     (if TrimSpace s = [] then [] else filter (\<lambda>p. p \<noteq> []) (map TrimSpace (Split CHR '','' s)))"

section \<open>The configuration\<close>

record ServerConfig = sv_Host :: string sv_Port :: int

record DatabaseConfig =
  dbc_Host :: string
  dbc_Port :: int
  dbc_User :: string
  dbc_Password :: string
  dbc_Name :: string

record EnvCaddyConfig =
  ca_Email :: string
  ca_ACMEProvider :: string
  ca_ACMEResolvers :: "string list"
  ca_StoragePath :: string
  ca_LogPath :: string
  ca_TrustedProxies :: "string list"
  ca_ClientIPHeaders :: "string list"
  ca_ConfigRetentionDays :: int

record JWTConfig = jw_Secret :: string jw_AccessExpiry :: int jw_RefreshExpiry :: int

record SecurityConfig = sec_BcryptCost :: int sec_CORSOrigins :: "string list" sec_RBACPath :: string

record LoggingConfig = lo_Level :: string lo_Format :: string

record UIConfig = ui_Enabled :: bool ui_Path :: string

record ACLConfig =
  aclc_CookieDomain :: string
  aclc_CookieSecure :: bool
  aclc_SessionTTL :: int
  aclc_WaygatesVerifyURL :: string
  aclc_WaygatesLoginURL :: string
  aclc_CallbackBaseURL :: string

record Config =
  cn_Server :: ServerConfig
  cn_Database :: DatabaseConfig
  cn_Caddy :: EnvCaddyConfig
  cn_JWT :: JWTConfig
  cn_Security :: SecurityConfig
  cn_Logging :: LoggingConfig
  cn_DefaultUser :: DefaultUserConfig
  cn_UI :: UIConfig
  cn_ACL :: ACLConfig

definition ACMEProviderEnvVars :: "(string \<times> string list) list" where
  "ACMEProviderEnvVars =
     [(''cloudflare'', [''CLOUDFLARE_API_TOKEN'']),
      (''route53'', [''AWS_ACCESS_KEY_ID'', ''AWS_SECRET_ACCESS_KEY'']),
      (''duckdns'', [''DUCKDNS_API_TOKEN'']),
      (''digitalocean'', [''DO_AUTH_TOKEN'']),
      (''hetzner'', [''HETZNER_API_TOKEN'']),
      (''porkbun'', [''PORKBUN_API_KEY'', ''PORKBUN_API_SECRET_KEY'']),
      (''azure'', [''AZURE_TENANT_ID'', ''AZURE_CLIENT_ID'', ''AZURE_CLIENT_SECRET'', ''AZURE_SUBSCRIPTION_ID'',
                   ''AZURE_RESOURCE_GROUP'']),
      (''vultr'', [''VULTR_API_KEY'']),
      (''namecheap'', [''NAMECHEAP_API_USER'', ''NAMECHEAP_API_KEY'']),
      (''ovh'', [''OVH_ENDPOINT'', ''OVH_APPLICATION_KEY'', ''OVH_APPLICATION_SECRET'', ''OVH_CONSUMER_KEY'']),
      (''http'', []), (''off'', [])]"

datatype config_error =
  SecretRequired | SecretTooShort | DatabaseRequired | InvalidACMEProvider string | MissingVariable string string

definition validateACMEProvider :: "viper \<Rightarrow> string \<Rightarrow> config_error option" where
  "validateACMEProvider v provider =
     (case map_of ACMEProviderEnvVars provider of
        None \<Rightarrow> Some (InvalidACMEProvider provider)
      | Some requiredVars \<Rightarrow> map_option (MissingVariable provider) (find (\<lambda>x. GetString v x = []) requiredVars))"

definition MinJWTSecretLength :: nat where "MinJWTSecretLength = 32"

definition config_validate :: "viper \<Rightarrow> Config \<Rightarrow> config_error option" where
  "config_validate v cfg =
     (if jw_Secret (cn_JWT cfg) = [] then Some SecretRequired
      else if length (jw_Secret (cn_JWT cfg)) < MinJWTSecretLength then Some SecretTooShort
      else if dbc_Host (cn_Database cfg) = [] \<or> dbc_Name (cn_Database cfg) = [] then Some DatabaseRequired
      else validateACMEProvider v (ca_ACMEProvider (cn_Caddy cfg)))"

definition read_config :: "viper \<Rightarrow> Config" where
  "read_config v =
     \<lparr>cn_Server = \<lparr>sv_Host = GetString v ''SERVER_HOST'', sv_Port = GetInt v ''SERVER_PORT''\<rparr>,
      cn_Database =
        \<lparr>dbc_Host = GetString v ''DB_HOST'', dbc_Port = GetInt v ''DB_PORT'', dbc_User = GetString v ''DB_USER'',
         dbc_Password = GetString v ''DB_PASSWORD'', dbc_Name = GetString v ''DB_NAME''\<rparr>,
      cn_Caddy =
        \<lparr>ca_Email = GetString v ''CADDY_EMAIL'', ca_ACMEProvider = GetString v ''CADDY_ACME_PROVIDER'',
         ca_ACMEResolvers = splitAndTrimCSV (GetString v ''CADDY_ACME_RESOLVERS''),
         ca_StoragePath = GetString v ''CADDY_STORAGE_PATH'', ca_LogPath = GetString v ''CADDY_LOG_PATH'',
         ca_TrustedProxies = splitAndTrimCSV (GetString v ''CADDY_TRUSTED_PROXIES''),
         ca_ClientIPHeaders = splitAndTrimCSV (GetString v ''CADDY_CLIENT_IP_HEADERS''),
         ca_ConfigRetentionDays = GetInt v ''WAYGATES_CADDY_CONFIG_RETENTION_DAYS''\<rparr>,
      cn_JWT =
        \<lparr>jw_Secret = GetString v ''JWT_SECRET'', jw_AccessExpiry = GetDuration v ''JWT_ACCESS_EXPIRY'',
         jw_RefreshExpiry = GetDuration v ''JWT_REFRESH_EXPIRY''\<rparr>,
      cn_Security =
        \<lparr>sec_BcryptCost = GetInt v ''BCRYPT_COST'', sec_CORSOrigins = GetStringSlice v ''CORS_ORIGINS'',
         sec_RBACPath = GetString v ''RBAC_PATH''\<rparr>,
      cn_Logging = \<lparr>lo_Level = GetString v ''LOG_LEVEL'', lo_Format = GetString v ''LOG_FORMAT''\<rparr>,
      cn_DefaultUser =
        \<lparr>du_Name = GetString v ''DEFAULT_USER_NAME'', du_Username = GetString v ''DEFAULT_USER_USERNAME'',
         du_Email = GetString v ''DEFAULT_USER_EMAIL'', du_Password = GetString v ''DEFAULT_USER_PASSWORD''\<rparr>,
      cn_UI = \<lparr>ui_Enabled = GetBool v ''UI_ENABLED'', ui_Path = GetString v ''UI_PATH''\<rparr>,
      cn_ACL =
        \<lparr>aclc_CookieDomain = GetString v ''ACL_COOKIE_DOMAIN'', aclc_CookieSecure = GetBool v ''ACL_COOKIE_SECURE'',
         aclc_SessionTTL = GetDuration v ''ACL_SESSION_TTL'',
         aclc_WaygatesVerifyURL = GetString v ''ACL_WAYGATES_VERIFY_URL'',
         aclc_WaygatesLoginURL = GetString v ''ACL_WAYGATES_LOGIN_URL'',
         aclc_CallbackBaseURL = GetString v ''ACL_OAUTH_CALLBACK_BASE_URL''\<rparr>\<rparr>"

definition Load :: "viper \<Rightarrow> (config_error, Config) result" where
  "Load v =
     (let cfg = read_config v in
      case config_validate v cfg of Some e \<Rightarrow> Err e | None \<Rightarrow> Ok cfg)"

section \<open>What the program does with it\<close>

definition GetDatabaseDSN :: "Config \<Rightarrow> string" where
  "GetDatabaseDSN c =
     (let d = cn_Database c in
      ''host='' @ dbc_Host d @ '' port='' @ Itoa (dbc_Port d) @ '' user='' @ dbc_User d @ '' password='' @ dbc_Password d @
      '' dbname='' @ dbc_Name d @ '' sslmode=disable'')"

definition GetDatabaseURL :: "Config \<Rightarrow> string" where
  "GetDatabaseURL c =
     (let d = cn_Database c in
      ''postgres://'' @ dbc_User d @ '':'' @ dbc_Password d @ ''@'' @ dbc_Host d @ '':'' @ Itoa (dbc_Port d) @ ''/'' @
      dbc_Name d @ ''?sslmode=disable'')"

definition GetServerAddr :: "Config \<Rightarrow> string" where
  "GetServerAddr c = sv_Host (cn_Server c) @ '':'' @ Itoa (sv_Port (cn_Server c))"

datatype log_level = DebugLevel | InfoLevel | WarnLevel | ErrorLevel

definition parseLogLevel :: "string \<Rightarrow> log_level" where
  "parseLogLevel level =
     (if level = ''debug'' then DebugLevel
      else if level = ''info'' then InfoLevel
      else if level = ''warn'' then WarnLevel
      else if level = ''error'' then ErrorLevel
      else InfoLevel)"

text \<open>The configuration of the sync service, and whether the files of the user interface are served.\<close>

definition sync_service_config :: "Config \<Rightarrow> SyncServiceConfig" where
  "sync_service_config cfg =
     (let c = cn_Caddy cfg; a = cn_ACL cfg in
      \<lparr>cg_Email = ca_Email c, cg_ACMEProvider = ca_ACMEProvider c, cg_ACMEResolvers = ca_ACMEResolvers c,
       cg_WaygatesVerifyURL = aclc_WaygatesVerifyURL a, cg_WaygatesLoginURL = aclc_WaygatesLoginURL a,
       cg_StoragePath = ca_StoragePath c, cg_LogPath = ca_LogPath c, cg_TrustedProxies = ca_TrustedProxies c,
       cg_ClientIPHeaders = ca_ClientIPHeaders c\<rparr>)"

definition serves_ui :: "Config \<Rightarrow> bool" where
  "serves_ui cfg \<longleftrightarrow> ui_Enabled (cn_UI cfg) \<and> ui_Path (cn_UI cfg) \<noteq> []"

section \<open>Handlers that report\<close>

record app_status = as_caddy_status :: string as_user_setup_complete :: bool

text \<open>\<open>version_fails\<close>: running the Caddy binary for its version fails.\<close>

definition GetStatus_handler :: "faults \<Rightarrow> bool \<Rightarrow> app_db \<Rightarrow> app_status http_response" where
  "GetStatus_handler flt version_fails db =
     (let caddyStatus = (if version_fails then ''unhealthy'' else ''healthy'') in
      case User_Count flt db of
        Inl _ \<Rightarrow> InternalError ''Failed to check user status''
      | Inr n \<Rightarrow>
          Success (Some \<lparr>as_caddy_status = caddyStatus, as_user_setup_complete = 0 < n\<rparr>)
            ''Status retrieved successfully'')"

record health = he_status :: string he_service :: string he_version :: string he_uptime :: string he_time :: string
  he_database :: string

definition HealthCheck :: "bool \<Rightarrow> string \<Rightarrow> string \<Rightarrow> string \<Rightarrow> health http_response" where
  "HealthCheck ping_fails version uptime now =
     (let dbStatus = (if ping_fails then ''unhealthy'' else ''healthy'') in
      Success (Some
        \<lparr>he_status = (if dbStatus = ''unhealthy'' then ''degraded'' else ''healthy''),
         he_service = ''caddy-manager-backend'', he_version = version, he_uptime = uptime, he_time = now,
         he_database = dbStatus\<rparr>) [])"

definition Sync_GetStatus_handler :: "'g app \<Rightarrow> SyncStatus http_response" where
  "Sync_GetStatus_handler ap = Success (Some (ss_status (ap_sync ap))) ''Sync status retrieved successfully''"

text \<open>Of the text of a failed synchronisation the reply keeps what \<^term>\<open>error_text\<close> says, without the cause.\<close>

definition Sync_Trigger :: "'g app_env \<Rightarrow> 'g app \<Rightarrow> 'g app \<times> SyncStatus http_response" where
  "Sync_Trigger en ap =
     (case FullSync (ae_sync_conf en) (ae_sync_env en) (ap_db ap) (ap_sync ap) of
        (s, Some e) \<Rightarrow> (ap\<lparr>ap_sync := s\<rparr>, InternalError (''Sync failed: '' @ error_text e))
      | (s, None) \<Rightarrow> (ap\<lparr>ap_sync := s\<rparr>, Success (Some (ss_status s)) ''Sync completed successfully''))"

definition Preview_GetFull :: "'g app_env \<Rightarrow> 'g app \<Rightarrow> 'g app \<times> string http_response" where
  "Preview_GetFull en ap =
     (case GenerateConfigJSON (ae_sync_conf en) (ae_sync_env en) (ap_db ap) (ap_sync ap) of
        (s, Inl _) \<Rightarrow> (ap\<lparr>ap_sync := s\<rparr>, InternalError ''failed to generate Caddy config'')
      | (s, Inr cfg) \<Rightarrow> (ap\<lparr>ap_sync := s\<rparr>, Success (Some cfg) ''Caddy config generated successfully''))"

definition Preview_GetForProxy ::
  "'g app_env \<Rightarrow> http_request \<Rightarrow> 'g app \<Rightarrow> (HTTPServer \<times> TLSApp option) http_response" where
  "Preview_GetForProxy en r ap =
     (case Atoi (URLParam r ''id'') of
        None \<Rightarrow> BadRequest ''invalid proxy id''
      | Some i \<Rightarrow>
          (case GenerateProxyConfigJSON (ae_sync_conf en) (ae_sync_env en) (ap_db ap) i of
             Inl SyncProxyNotFound \<Rightarrow> NotFound ''proxy not found''
           | Inl _ \<Rightarrow> InternalError ''failed to generate proxy config''
           | Inr cfg \<Rightarrow> Success (Some cfg) ''Proxy config generated successfully''))"

section \<open>Accepted configurations\<close>

lemma Load_Ok:
  assumes "Load v = Ok cfg"
  shows "cfg = read_config v" "MinJWTSecretLength \<le> length (jw_Secret (cn_JWT cfg))"
    "dbc_Host (cn_Database cfg) \<noteq> []" "dbc_Name (cn_Database cfg) \<noteq> []"
    "validateACMEProvider v (ca_ACMEProvider (cn_Caddy cfg)) = None"
  using assms by (auto simp: Load_def Let_def config_validate_def split: option.splits if_splits)

lemma validateACMEProvider_None:
  assumes "validateACMEProvider v p = None"
  obtains vars where "map_of ACMEProviderEnvVars p = Some vars" "\<forall>x \<in> set vars. GetString v x \<noteq> []"
  using assms by (auto simp: validateACMEProvider_def find_None_iff split: option.splits)

lemma accepted_issuer:
  assumes "validateACMEProvider v p = None" "\<And>key. getenv key = GetString v key" "cf_ACMEProvider s = p" "cf_DNSCredentials s = []"
  shows "if p = ''off'' then buildIssuer getenv s = None
    else if p = ''http'' then buildIssuer getenv s = Some (http_issuer s)
    else \<exists>d. buildIssuer getenv s = Some (newDNSIssuer s d) \<and> [] \<notin> set (provider_secrets d)"
proof -
  obtain vars where v: "map_of ACMEProviderEnvVars p = Some vars" "\<forall>x \<in> set vars. getenv x \<noteq> []"
    using validateACMEProvider_None[OF assms(1)] assms(2) by metis
  have c: "getCredential getenv s k = getenv k" for k by (simp add: getCredential_def assms(4))
  from v(1) have "p \<in> {''cloudflare'', ''route53'', ''duckdns'', ''digitalocean'', ''hetzner'', ''porkbun'', ''azure'', ''vultr'', ''namecheap'',
      ''ovh'', ''http'', ''off''}"
    by (auto simp: ACMEProviderEnvVars_def split: if_splits)
  then show ?thesis
    using v unfolding buildIssuer_def assms(3) Let_def
    by (elim insertE) (auto simp: ACMEProviderEnvVars_def buildCloudflareIssuer_def buildRoute53Issuer_def buildDuckDNSIssuer_def
      buildDigitalOceanIssuer_def buildHetznerIssuer_def buildPorkbunIssuer_def buildAzureIssuer_def
      buildVultrIssuer_def buildNamecheapIssuer_def buildOVHIssuer_def c Let_def)
qed


definition demo_viper :: viper where
  "demo_viper =
     \<lparr>vi_lookup = [''JWT_SECRET'' \<mapsto> replicate 40 CHR ''k'', ''CADDY_ACME_PROVIDER'' \<mapsto> ''hetzner'',
        ''HETZNER_API_TOKEN'' \<mapsto> ''tok''],
      vi_ToInt = (\<lambda>_. 0), vi_ToDuration = (\<lambda>_. 0), vi_ToBool = (\<lambda>_. False), vi_ToSlice = (\<lambda>_. [])\<rparr>"

lemma demo_Load: "Load demo_viper = Ok (read_config demo_viper)"
  by (simp add: Load_def config_validate_def validateACMEProvider_def read_config_def GetString_def demo_viper_def
      setDefaults_def MinJWTSecretLength_def ACMEProviderEnvVars_def)


text \<open>
  The builder reads the environment of the process, not the \<open>.env\<close> file: credentials that are only in
  the file pass the check, and the DNS challenge is then silently left out.
\<close>

lemma dotenv_credentials_ignored:
  "Load demo_viper = Ok (read_config demo_viper) \<and>
   TLSBuilder_Build (\<lambda>_. []) (Some (builder_settings (sync_service_config (read_config demo_viper)))) [''a.example.com''] =
     Some \<lparr>ta_Automate = [''a.example.com''], ta_Policies = None\<rparr>"
  using demo_Load
  by (simp add: TLSBuilder_Build_def buildIssuer_def buildHetznerIssuer_def getCredential_def builder_settings_def
      sync_service_config_def read_config_def GetString_def demo_viper_def Let_def)

text \<open>Values are not quoted in the connection string: a password with a space is read as further parameters.\<close>

lemma dsn_ambiguous:
  "GetDatabaseDSN (c\<lparr>cn_Database := d\<lparr>dbc_Password := ''a dbname=b'', dbc_Name := ''c''\<rparr>\<rparr>) =
   GetDatabaseDSN (c\<lparr>cn_Database := d\<lparr>dbc_Password := ''a'', dbc_Name := ''b dbname=c''\<rparr>\<rparr>)"
  by (simp add: GetDatabaseDSN_def)

text \<open>The preview of the configuration deploys nothing, and a triggered synchronisation changes no table.\<close>

lemma reports_change_nothing:
  "ap_db (fst (Sync_Trigger en ap)) = ap_db ap" "ap_db (fst (Preview_GetFull en ap)) = ap_db ap"
  "ss_fs (ap_sync (fst (Preview_GetFull en ap))) = ss_fs (ap_sync ap)"
  "ss_running (ap_sync (fst (Preview_GetFull en ap))) = ss_running (ap_sync ap)"
  by (auto simp: Sync_Trigger_def Preview_GetFull_def GenerateConfigJSON_def split: prod.splits sum.splits option.splits)

end
