(* ===== verification/Caddy_Logs.thy ===== *)
theory Caddy_Logs
  imports Server "HOL-Library.Sublist"
begin

text \<open>
  The logs of Caddy: reading the last lines of a file and following it (\<open>caddy/logtail/tailer.go\<close>), the
  log files the service knows (\<open>service/caddy_logs_service.go\<close>) and the handlers of the snapshot and of the
  event stream (\<open>handlers/caddy_logs_handler.go\<close>). Files are strings of bytes. The log directory is an
  absolute path. What the tailer finds at each tick of its timer is an argument; cancelling the request
  cuts its output, so that what a client receives is a prefix of what is computed here.
\<close>

abbreviation newline :: char where "newline \<equiv> CHR 0x0A"

section \<open>The last lines of a file\<close>

text \<open>What opening a log file gives; reading a broken one ends in an error after the given bytes.\<close>

datatype opened = LogMissing | LogOpenFails | LogFile string | LogBroken string

datatype log_error = OpenFailed | LineTooLong | ReadFailed

definition max_token :: nat where "max_token = 1024 * 1024"

text \<open>
  \<open>bufio.Scanner\<close> with \<open>ScanLines\<close>: a carriage return before the end of the line is dropped, a last line
  without newline counts unless it is empty, and a line that does not fit the buffer ends the scan.
\<close>

definition drop_cr :: "string \<Rightarrow> string" where
  "drop_cr l = (if l \<noteq> [] \<and> List.last l = CHR 0x0D then butlast l else l)"

definition raw_lines :: "string \<Rightarrow> string list" where
  "raw_lines s = (let ps = Split newline s in if List.last ps = [] then butlast ps else ps)"

fun scan_loop :: "nat \<Rightarrow> string list \<Rightarrow> string list \<Rightarrow> string list \<times> bool" where
  "scan_loop n lines [] = (lines, False)"
| "scan_loop n lines (l # ls) =
     (if max_token \<le> length l then (lines, True)
      else
        let lines' = lines @ [drop_cr l] in
        scan_loop n (if n < length lines' then tl lines' else lines') ls)"

definition LastLines :: "opened \<Rightarrow> nat \<Rightarrow> string list \<times> log_error option" where
  "LastLines f n =
     (case f of
        LogMissing \<Rightarrow> ([], None)
      | LogOpenFails \<Rightarrow> ([], Some OpenFailed)
      | LogFile s \<Rightarrow> (case scan_loop n [] (raw_lines s) of (ls, long) \<Rightarrow> (ls, if long then Some LineTooLong else None))
      | LogBroken s \<Rightarrow>
          (case scan_loop n [] (raw_lines s) of (ls, long) \<Rightarrow> (ls, Some (if long then LineTooLong else ReadFailed))))"

section \<open>Following a file\<close>

text \<open>
  One tick: \<open>Stat\<close> fails, or reports a len and the file cannot be opened or positioned, or it is read:
  the content then, of which one call of \<open>Read\<close> returns at most \<open>k\<close> bytes. The state is the offset and the
  incomplete line carried over.
\<close>

datatype tick = TickStatFails | TickOpenFails nat | TickRead nat string nat

type_synonym tail = "nat \<times> string"

definition stat_tail :: "nat \<Rightarrow> tail \<Rightarrow> tail" where
  "stat_tail len t = (if len < fst t then (0, []) else t)"

fun stream_tick :: "tail \<Rightarrow> tick \<Rightarrow> tail \<times> string list" where
  "stream_tick t TickStatFails = (t, [])"
| "stream_tick t (TickOpenFails len) = (stat_tail len t, [])"
| "stream_tick t (TickRead len content k) =
     (case stat_tail len t of (offset, carry) \<Rightarrow>
        if len = offset then ((offset, carry), [])
        else
          let buf = take (min k (len - offset)) (drop offset content);
              ps = Split newline (carry @ buf)
          in ((offset + length buf, List.last ps), butlast ps))"

fun stream_run :: "tail \<Rightarrow> tick list \<Rightarrow> tail \<times> string list" where
  "stream_run t [] = (t, [])"
| "stream_run t (x # xs) =
     (case stream_tick t x of (t1, ls1) \<Rightarrow> (case stream_run t1 xs of (t2, ls2) \<Rightarrow> (t2, ls1 @ ls2)))"

text \<open>\<open>size0\<close> is what \<open>Stat\<close> reports after the backfill, if it succeeds.\<close>

definition Tailer_Stream :: "nat \<Rightarrow> opened \<Rightarrow> nat option \<Rightarrow> tick list \<Rightarrow> string list \<times> log_error option" where
  "Tailer_Stream backfill f size0 ticks =
     (case (if backfill > 0 then LastLines f backfill else ([], None)) of
        (_, Some e) \<Rightarrow> ([], Some e)
      | (lines, None) \<Rightarrow> (lines @ snd (stream_run (case size0 of None \<Rightarrow> 0 | Some n \<Rightarrow> n, []) ticks), None))"

section \<open>The service\<close>

definition FilePath :: "string \<Rightarrow> string \<Rightarrow> string option" where
  "FilePath logPath source =
     (if source = ''runtime'' then Some (Clean (logPath @ ''/'' @ ''runtime.log''))
      else if source = ''access'' then Some (Clean (logPath @ ''/'' @ ''access.log''))
      else None)"

text \<open>A message is the line itself if it is JSON, otherwise the line encoded as a JSON string.\<close>

datatype log_message = RawMessage string | Encoded string

definition log_message_of :: "(string \<Rightarrow> bool) \<Rightarrow> string \<Rightarrow> log_message option" where
  "log_message_of valid line =
     (if line = [] then None else Some (if valid line then RawMessage line else Encoded line))"

datatype snapshot_error = UnknownSource | SnapshotFailed log_error

definition Snapshot_logs ::
  "(string \<Rightarrow> bool) \<Rightarrow> string \<Rightarrow> (string \<Rightarrow> opened) \<Rightarrow> string \<Rightarrow> nat \<Rightarrow> (snapshot_error, log_message list) result" where
  "Snapshot_logs valid logPath fs source limit =
     (case FilePath logPath source of
        None \<Rightarrow> Err UnknownSource
      | Some path \<Rightarrow>
          (case LastLines (fs path) limit of
             (_, Some e) \<Rightarrow> Err (SnapshotFailed e)
           | (lines, None) \<Rightarrow> Ok (List.map_filter (log_message_of valid) lines)))"

section \<open>The handlers\<close>

definition source_param :: "http_request \<Rightarrow> string" where
  "source_param r = (if Query_Get r ''source'' = [] then ''runtime'' else Query_Get r ''source'')"

definition log_limit :: "http_request \<Rightarrow> nat option" where
  "log_limit r =
     (let limitStr = Query_Get r ''limit'' in
      if limitStr = [] then Some 200
      else case Atoi limitStr of
          None \<Rightarrow> None
        | Some parsed \<Rightarrow> if parsed < 1 then None else Some (nat (if parsed > 1000 then 1000 else parsed)))"

definition CaddyLogs_List ::
  "(string \<Rightarrow> bool) \<Rightarrow> string \<Rightarrow> (string \<Rightarrow> opened) \<Rightarrow> http_request \<Rightarrow> log_message list http_response" where
  "CaddyLogs_List valid logPath fs r =
     (let source = source_param r in
      if source \<noteq> ''runtime'' \<and> source \<noteq> ''access''
      then BadRequest (''invalid source: must be '' @ [CHR 0x22] @ ''runtime'' @ [CHR 0x22] @ '' or '' @ [CHR 0x22] @ ''access'' @ [CHR 0x22])
      else case log_limit r of
          None \<Rightarrow> BadRequest ''limit must be a positive integer''
        | Some limit \<Rightarrow>
            (case Snapshot_logs valid logPath fs source limit of
               Inl _ \<Rightarrow> InternalError ''failed to read log snapshot''
             | Inr msgs \<Rightarrow> Success (Some msgs) ''Caddy logs retrieved successfully''))"

text \<open>A refusal, or the headers of an event stream and its frames.\<close>

datatype event_stream = StreamRefused "unit http_response" | EventStream "(string \<times> string) list" "string list"

definition CaddyLogs_Stream ::
  "string \<Rightarrow> (string \<Rightarrow> opened) \<Rightarrow> (string \<Rightarrow> nat option) \<Rightarrow> (string \<Rightarrow> tick list) \<Rightarrow> http_request \<Rightarrow> event_stream" where
  "CaddyLogs_Stream logPath fs stat ticks r =
     (case FilePath logPath (source_param r) of
        None \<Rightarrow> StreamRefused (BadRequest ''invalid log source'')
      | Some path \<Rightarrow>
          EventStream
            [(''Content-Type'', ''text/event-stream''), (''Cache-Control'', ''no-cache''), (''Connection'', ''keep-alive''),
             (''X-Accel-Buffering'', ''no'')]
            (map (\<lambda>line. ''data: '' @ line @ [newline, newline])
              (fst (Tailer_Stream 500 (fs path) (stat path) (ticks path)))))"

section \<open>The snapshot is the end of the file\<close>

lemma scan_loop_last:
  assumes "\<forall>l \<in> set ls. length l < max_token" "length lines \<le> n"
  shows "scan_loop n lines ls = (drop (length lines + length ls - n) (lines @ map drop_cr ls), False)"
  using assms
proof (induction ls arbitrary: lines)
  case (Cons l ls)
  show ?case
  proof (cases "n < length (lines @ [drop_cr l])")
    case True
    with Cons.prems have n: "length lines = n" by simp
    show ?thesis
    proof (cases "n = 0")
      case False
      then have ne: "lines \<noteq> []" using n by auto
      have "scan_loop n lines (l # ls) = scan_loop n (tl lines @ [drop_cr l]) ls"
        using Cons.prems True ne by (simp add: Let_def)
      also have "\<dots> = (drop (length ls) (tl lines @ [drop_cr l] @ map drop_cr ls), False)"
      proof -
        have "length (tl lines @ [drop_cr l]) = n" using n ne by (cases lines) auto
        with Cons.IH[of "tl lines @ [drop_cr l]"] Cons.prems(1) show ?thesis by auto
      qed
      also have "\<dots> = (drop (length lines + length (l # ls) - n) (lines @ map drop_cr (l # ls)), False)"
        using n ne by (cases lines) auto
      finally show ?thesis .
    next
      case True
      with n Cons.prems Cons.IH[of "[]"] show ?thesis by (simp add: Let_def)
    qed
  next
    case False
    with Cons.prems Cons.IH[of "lines @ [drop_cr l]"] show ?thesis by (simp add: Let_def)
  qed
qed simp

section \<open>Following delivers every line once\<close>

lemma Split_append_last: "Split c (a @ b) = butlast (Split c a) @ Split c (List.last (Split c a) @ b)"
proof (induction a)
  case (Cons x a)
  have "Split c a \<noteq> []" by simp
  then obtain p ps where p: "Split c a = p # ps" by (cases "Split c a") auto
  show ?case
  proof (cases "x = c")
    case False
    show ?thesis
    proof (cases ps)
      case Nil
      with p Cons.IH False show ?thesis by (auto split: list.split)
    next
      case (Cons q qs)
      with p Cons.IH False show ?thesis by simp
    qed
  qed (use Cons.IH p in simp)
qed simp

text \<open>
  \<open>growing c ts\<close>: the file holds \<open>c\<close> and only grows; a size that is reported lies between what it held
  before and what it holds when it is read.
\<close>

fun growing :: "string \<Rightarrow> tick list \<Rightarrow> bool" where
  "growing c [] = True"
| "growing c (TickStatFails # ts) = growing c ts"
| "growing c (TickOpenFails len # ts) = (length c \<le> len \<and> growing c ts)"
| "growing c (TickRead len d k # ts) = (prefix c d \<and> length c \<le> len \<and> len \<le> length d \<and> growing d ts)"

fun final_content :: "string \<Rightarrow> tick list \<Rightarrow> string" where
  "final_content c [] = c"
| "final_content c (TickRead len d k # ts) = final_content d ts"
| "final_content c (_ # ts) = final_content c ts"

lemma final_content_prefix: "growing c ts \<Longrightarrow> prefix c (final_content c ts)"
  by (induction c ts rule: growing.induct) (auto intro: prefix_order.trans)

lemma stream_run_lines:
  assumes "growing c ts" "stream_run (off, carry) ts = ((off', carry'), ls')" "off \<le> length c"
    "Split newline (take (off - o0) (drop o0 c)) = ls @ [carry]" "o0 \<le> off"
  shows "off' \<le> length (final_content c ts) \<and> o0 \<le> off' \<and>
    Split newline (take (off' - o0) (drop o0 (final_content c ts))) = (ls @ ls') @ [carry']"
  using assms
proof (induction c ts arbitrary: off carry ls ls' rule: growing.induct)
  case (3 c len ts)
  then have "stat_tail len (off, carry) = (off, carry)" by (auto simp: stat_tail_def)
  with 3 show ?case by (auto split: prod.splits)
next
  case (4 c len d k ts)
  obtain e where d: "d = c @ e" using 4(2) by (auto simp: prefix_def)
  have st: "stat_tail len (off, carry) = (off, carry)" using 4(2,4) by (auto simp: stat_tail_def)
  have same: "take (off - o0) (drop o0 d) = take (off - o0) (drop o0 c)" using d 4(4) 4(6) by simp
  obtain t1 ls1 where tick: "stream_tick (off, carry) (TickRead len d k) = (t1, ls1)" by fastforce
  obtain off1 carry1 where t1: "t1 = (off1, carry1)" by (cases t1)
  obtain ls2 where rest: "stream_run (off1, carry1) ts = ((off', carry'), ls2)" "ls' = ls1 @ ls2"
    using 4(3) tick t1 by (auto split: prod.splits)
  have step: "off1 \<le> length d \<and> o0 \<le> off1 \<and> Split newline (take (off1 - o0) (drop o0 d)) = (ls @ ls1) @ [carry1]"
  proof (cases "len = off")
    case True
    with tick st t1 same 4(2,4,5,6) d show ?thesis by auto
  next
    case False
    define buf where "buf = take (min k (len - off)) (drop off d)"
    have r: "off1 = off + length buf" "ls1 = butlast (Split newline (carry @ buf))" "carry1 = List.last (Split newline (carry @ buf))"
      using tick st t1 False by (auto simp: buf_def Let_def)
    have "length buf \<le> length d - off" by (simp add: buf_def)
    then have o1: "off1 \<le> length d" using r(1) 4(4) d by simp
    have "take (off1 - o0) (drop o0 d) = take (off - o0) (drop o0 d) @ buf"
    proof -
      have e: "off1 - o0 = (off - o0) + length buf" using r(1) 4(6) by simp
      have "drop (off - o0) (drop o0 d) = drop off d" using 4(6) by simp
      moreover have "take (length (take m xs)) xs = take m xs" for m and xs :: string
        by (metis append_eq_conv_conj append_take_drop_id)
      then have "take (length buf) (drop off d) = buf" unfolding buf_def .
      ultimately have "take (length buf) (drop (off - o0) (drop o0 d)) = buf" by simp
      with e show ?thesis by (simp add: take_add)
    qed
    then have "Split newline (take (off1 - o0) (drop o0 d)) = ls @ Split newline (carry @ buf)"
      using Split_append_last[of newline "take (off - o0) (drop o0 d)" buf] 4(5) same by simp
    moreover have "Split newline (carry @ buf) = ls1 @ [carry1]" using r(2,3) by simp
    ultimately show ?thesis using o1 r(1) 4(6) by simp
  qed
  have "growing d ts" using 4(2) by simp
  from 4(1)[OF this rest(1)] step rest(2) show ?case by auto
qed (auto split: prod.splits)

text \<open>
  C30. The log stream delivers every line exactly once. While the file only grows - whatever ticks find it
  missing or unreadable and however short the reads are - the lines delivered after the backfill are
  exactly the complete lines of what was read since the start of following, in order, and the carried
  rest is what follows the last newline; as soon as the reader has caught up these are all complete
  lines that were appended.
\<close>

theorem stream_delivers_lines:
  assumes "growing c ticks" "start \<le> length c" "stream_run (start, []) ticks = ((off, carry), ls)"
  shows "start \<le> off \<and> off \<le> length (final_content c ticks) \<and>
    Split newline (take (off - start) (drop start (final_content c ticks))) = ls @ [carry] \<and>
    (off = length (final_content c ticks) \<longrightarrow> ls = butlast (Split newline (drop start (final_content c ticks))))"
proof -
  have *: "off \<le> length (final_content c ticks) \<and> start \<le> off \<and>
    Split newline (take (off - start) (drop start (final_content c ticks))) = ([] @ ls) @ [carry]"
    by (rule stream_run_lines[OF assms(1,3,2)]) auto
  moreover have "ls = butlast (Split newline (drop start (final_content c ticks)))" if "off = length (final_content c ticks)"
    using * that by (metis butlast_snoc append_Nil length_drop order_refl take_all)
  ultimately show ?thesis by auto
qed

definition demo_ticks :: "tick list" where
  "demo_ticks =
     [TickStatFails, TickRead 5 (''ab'' @ [newline] @ ''cd'') 1, TickRead 7 (''ab'' @ [newline] @ ''cd'' @ [newline] @ ''e'') 100]"

theorem stream_delivers_lines_witness:
  "stream_run (1, []) demo_ticks = ((7, ''e''), [''b'', ''cd'']) \<and>
   [''b'', ''cd''] = butlast (Split newline (drop 1 (''ab'' @ [newline] @ ''cd'' @ [newline] @ ''e'')))"
proof -
  have r: "stream_run (1, []) demo_ticks = ((7, ''e''), [''b'', ''cd''])" by code_simp
  have g: "growing ''a'' demo_ticks" by (simp add: demo_ticks_def)
  have f: "final_content ''a'' demo_ticks = ''ab'' @ [newline] @ ''cd'' @ [newline] @ ''e''" by (simp add: demo_ticks_def)
  from stream_delivers_lines[OF g _ r] r show ?thesis unfolding f by simp
qed

text \<open>
  The snapshot of a log is its end. A request for the logs is answered with messages only for the two
  known sources, from the file of that source, and with at most the requested number of lines, never
  more than a thousand: the non-empty ones among the last lines of the file, in order, each as it stands
  if it is JSON and encoded otherwise.
\<close>

theorem log_snapshot_is_tail:
  assumes "CaddyLogs_List valid logPath fs r = Success (Some msgs) m" "fs p = LogFile s"
    "FilePath logPath (source_param r) = Some p"
    "\<forall>l \<in> set (raw_lines s). length l < max_token"
  shows "source_param r \<in> {''runtime'', ''access''} \<and>
    (\<exists>n \<le> 1000. log_limit r = Some n \<and> length msgs \<le> n \<and>
       msgs = List.map_filter (log_message_of valid) (drop (length (raw_lines s) - n) (map drop_cr (raw_lines s))))"
proof -
  obtain n where n: "log_limit r = Some n" "Snapshot_logs valid logPath fs (source_param r) n = Ok msgs"
    "source_param r \<in> {''runtime'', ''access''}"
    using assms(1) by (auto simp: CaddyLogs_List_def Let_def response_defs split: if_splits option.splits sum.splits)
  have "n \<le> 1000" using n(1) by (auto simp: log_limit_def Let_def split: if_splits option.splits)
  moreover have e: "msgs = List.map_filter (log_message_of valid) (drop (length (raw_lines s) - n) (map drop_cr (raw_lines s)))"
    using n(2) assms(2,3) scan_loop_last[OF assms(4), of "[]" n] by (simp add: Snapshot_logs_def LastLines_def)
  moreover have "length (List.map_filter f xs) \<le> length xs" for f :: "string \<Rightarrow> log_message option" and xs
    by (simp add: List.map_filter_def)
  then have "length msgs \<le> length (drop (length (raw_lines s) - n) (map drop_cr (raw_lines s)))" unfolding e .
  then have "length msgs \<le> n" by simp
  ultimately show ?thesis using n(1,3) by blast
qed

definition demo_log_file :: string where
  "demo_log_file = ''ab'' @ [newline] @ ''cd'' @ [newline]"

theorem log_snapshot_is_tail_witness:
  "CaddyLogs_List (\<lambda>_. False) ''/var/log/caddy'' (\<lambda>_. LogFile demo_log_file)
     ((demo_http [] [])\<lparr>hq_Query := [(''limit'', ''1'')]\<rparr>)
     = Success (Some [Encoded ''cd'']) ''Caddy logs retrieved successfully'' \<and> length [Encoded ''cd''] \<le> 1000"
proof -
  let ?r = "(demo_http [] [])\<lparr>hq_Query := [(''limit'', ''1'')]\<rparr>"
  have l: "raw_lines demo_log_file = [''ab'', ''cd'']" by code_simp
  have q: "source_param ?r = ''runtime''" "log_limit ?r = Some 1" by code_simp+
  have lines: "LastLines (LogFile demo_log_file) (Suc 0) = ([''cd''], None)"
    by (simp add: LastLines_def l max_token_def drop_cr_def)
  obtain p where f: "FilePath ''/var/log/caddy'' (source_param ?r) = Some p" by (simp add: q FilePath_def)
  have e: "CaddyLogs_List (\<lambda>_. False) ''/var/log/caddy'' (\<lambda>_. LogFile demo_log_file) ?r
     = Success (Some [Encoded ''cd'']) ''Caddy logs retrieved successfully''"
    using f by (simp add: CaddyLogs_List_def q Snapshot_logs_def lines List.map_filter_def log_message_of_def)
  have "\<forall>l \<in> set (raw_lines demo_log_file). length l < max_token" by (simp add: l max_token_def)
  with log_snapshot_is_tail[OF e _ f, of demo_log_file] e show ?thesis by force
qed

section \<open>Where following goes wrong\<close>

text \<open>
  A line that is incomplete at the backfill is delivered in two pieces, and a rotation after which the
  new file is already as long as the old one is not noticed: its beginning is skipped.
\<close>

lemma backfill_splits_line:
  "Tailer_Stream 500 (LogFile ''ab'') (Some 2) [TickRead 4 (''abc'' @ [newline]) 10] = ([''ab'', ''c''], None)"
  by (simp add: Tailer_Stream_def LastLines_def raw_lines_def max_token_def drop_cr_def stat_tail_def)

lemma rotation_unnoticed:
  "stream_run (3, []) [TickRead 6 (''new12'' @ [newline]) 10] = ((6, []), [''12''])"
  by code_simp

text \<open>A line longer than the buffer ends the stream before anything is sent, without an answer.\<close>

lemma long_line_silences:
  assumes "raw_lines s = l # ls" "max_token \<le> length l"
  shows "CaddyLogs_Stream logPath (\<lambda>_. LogFile s) stat ticks r = StreamRefused (BadRequest ''invalid log source'') \<or>
    (\<exists>hs. CaddyLogs_Stream logPath (\<lambda>_. LogFile s) stat ticks r = EventStream hs [])"
  using assms by (auto simp: CaddyLogs_Stream_def Tailer_Stream_def LastLines_def split: option.splits)

end
