(* ===== verification/Spec2Isabelle.thy ===== *)
theory Spec2Isabelle
  imports Acl_Session_Props Caddy_Config_Props Caddy_Format Caddy_Dial L4_Props Sync_Names Sync_Deploy User_Races Auth_Props Oauth_Props Sso_Props Settings_Handler L4_Handler Admin_Api Traffic_Metrics Audit_Handler Server_Config Caddy_Logs
begin

text \<open>
  Verification of the Waygates backend (\<open>src/backend\<close>), the Go program that administers a Caddy
  reverse proxy: it keeps proxies, access-control groups, sessions and settings in a database, decides
  access requests of Caddy's forward authentication, and generates, writes, validates and loads the
  Caddy configuration.

  \<^bold>\<open>The program's parts and how they interact.\<close>  HTTP handlers call the services
  (\<open>internal/service\<close>), which validate models (\<open>internal/models\<close>) and read and
  write tables through repositories (\<open>internal/repository\<close>).  After a change the proxy service
  calls the sync service, which loads the whole database, lets \<open>internal/caddy/config\<close> build
  the configuration, writes it with the file manager and reloads Caddy (\<open>internal/caddy\<close>).
  Caddy asks \<open>VerifyAccess\<close> for every request to a proxy that is protected by Waygates
  authentication.

  \<^bold>\<open>Theories and the code they model.\<close>
  \<^item> Library: \<open>Waygates_Prelude\<close> (the functions of package strings and strconv the code uses,
    64-bit integers, results and faults), \<open>Go_Net\<close> (net.IP, CIDR), \<open>Go_Url\<close> (net/url, integers of
    strconv), \<open>Go_Http\<close> (requests, cookies, the envelopes of utils/response.go, base64),
    \<open>Go_Time\<close> (calendar, RFC 3339), \<open>Gorm_Table\<close> (tables with auto-increment keys and
    their children, the locales that give every table its laws), \<open>Repo_Query\<close> (LIKE, whitelists,
    paging and the export loop).
  \<^item> Access control: \<open>Acl_Models\<close> (models/acl.go), \<open>Acl_Store\<close>
    (repository/acl_repository.go), \<open>Path_Match\<close> (matchPath, matchEmailPattern,
    validatePathPattern), \<open>Acl_Verify\<close> (VerifyAccess and all it calls), \<open>Acl_Admin\<close> (the
    administrative operations of acl_service.go), \<open>Acl_Session\<close> (sessions).
    \<open>Acl_Policy\<close> states the abstract policy and shows that VerifyAccess refines it;
    \<open>Acl_Invariant\<close>, \<open>Acl_Reach\<close>, \<open>Acl_Admin_Props\<close>,
    \<open>Acl_Session_Props\<close> and \<open>Acl_Safety\<close> hold the invariant of the store, its
    preservation by every operation and the properties of the single operations.
  \<^item> Proxies: \<open>Proxy_Model\<close> (models/proxy.go, both host name checks), \<open>Proxy_Service\<close>
    (proxy_service.go, proxy_bulk.go, proxy_import.go, proxy_repository.go), \<open>Proxy_Query\<close>
    (listing, statistics, proxy_export.go, and the listing of groups), \<open>Proxy_Safety\<close>.
  \<^item> Caddy configuration (internal/caddy/config): \<open>Caddy_Types\<close>, \<open>Caddy_Handlers\<close>,
    \<open>Caddy_Acl\<close> (acl_builder.go), \<open>Caddy_Http\<close> (http_builder.go, security.go),
    \<open>Caddy_Tls\<close> (tls.go, tls_builder.go), \<open>Caddy_L4\<close> (layer4*.go),
    \<open>Caddy_Build\<close> (builder.go).  \<open>Caddy_Decision\<close> says which route of a server serves a
    request and gives the decision list the generated access-control routes implement; \<open>Caddy_Acl_Props\<close>, \<open>Caddy_Config_Props\<close>, \<open>Caddy_Format\<close> and
    \<open>Caddy_Dial\<close> hold the properties.
  \<^item> Layer 4 proxies: \<open>L4_Model\<close> (models/l4_proxy.go), \<open>L4_Store\<close>
    (l4_proxy_repository.go), \<open>L4_Service\<close> (l4_proxy_service.go, l4_proxy_bulk.go,
    l4_proxy_export.go), \<open>L4_Props\<close>.
  \<^item> Settings: \<open>Settings_Store\<close> (models/setting.go, settings_repository.go).
  \<^item> Deployment: \<open>Caddy_Files\<close> (file_manager.go, each operation as its sequence of system calls,
    and reloader.go), \<open>Sync_Service\<close> (sync_service.go), \<open>Sync_Names\<close>
    (sanitizeFilename).  \<open>Sync_Atomic\<close>, \<open>Sync_Props\<close>, \<open>Sync_Live\<close> and
    \<open>Sync_Deploy\<close> hold the properties; the last one composes the proxy service, the sync
    service and the configuration builder.
  \<^item> Users and audit log: \<open>App_State\<close> (user_repository.go and the state of the whole program),
    \<open>User_Service\<close> (user_service.go), \<open>Audit_Log\<close> (audit_log.go, audit_log_repository.go,
    the configuration in audit_service.go), \<open>Audit_Events\<close> (the logging methods).
    \<open>User_Integrity\<close>, \<open>User_Admin\<close> and \<open>User_Races\<close> hold the properties: the
    database stays intact, an administrator is always left, and what overlapping calls can do.
  \<^item> Login: \<open>Acl_Http\<close> (acl_verify_handler.go), \<open>Auth_Handler\<close> (auth_handler.go,
    validation.go), \<open>Oauth_Handler\<close> (oauth_handler.go, oauth_providers.go), \<open>Sso_Service\<close>
    (sso_service.go, sso_config.go, sso_code_store.go, sso_handler.go; keys of JSON objects are compared
    exactly), with the properties in \<open>Acl_Http_Props\<close>, \<open>Auth_Props\<close>,
    \<open>Oauth_Props\<close> and \<open>Sso_Props\<close>.
  \<^item> Administration interface (internal/api/handlers): \<open>Handler_Base\<close> (what handlers share, filter
    parameters), \<open>Acl_Options\<close> (the login page), \<open>Acl_Handler\<close> and
    \<open>Acl_Handler_Auth\<close> (acl_handler.go, proxy_acl_handler.go), \<open>Proxy_Handler\<close> (proxy.go),
    \<open>Settings_Handler\<close> (settings_service.go, settings_handler.go), \<open>Users_Handler\<close>,
    \<open>L4_Handler\<close> (l4_proxy_handler.go, validation/l4_proxy.go), \<open>Audit_Handler\<close>,
    \<open>Traffic_Metrics\<close> (from the parsed scrape to metrics_handler.go), \<open>Caddy_Logs\<close> (logtail,
    caddy_logs_service.go, caddy_logs_handler.go). \<open>Acl_Api\<close> relates the access-control requests to
    the operations of the service and to the audit log, \<open>Admin_Api\<close> proves the invariants over all
    administrative requests. \<open>Demo_Store\<close> and \<open>Demo_App\<close> are concrete states on which
    properties are applied.
  \<^item> The server: \<open>Server\<close> (the route table of routes.go with its access rules, roles of rbac.yaml, the
    files of the user interface, bodylimit.go, the first administrator of main.go),
    \<open>Server_Config\<close> (config.go, the handlers of status, health, synchronisation and preview).

  \<^bold>\<open>What the properties show.\<close>  The decision refines an abstract policy, and so does the endpoint
  Caddy asks; deny rules come first, dead sessions count for nothing; sessions of the three kinds of login
  have the provenance they claim. The generated routes serve exactly what the stored groups say, one
  proxy's routes do not touch another's hosts, and the metrics endpoint is never open. A sync that
  succeeds has deployed the database, Caddy only ever loads what it validated, and the configuration
  file is replaced atomically. Any sequence of administrative requests keeps the integrity of all tables
  and an administrator; access-control requests are refused without effect or carry out exactly one
  operation, which is recorded; the routes enforce the roles, secrets are not disclosed, and an accepted
  configuration gets the certificates it asks for. Logs, traffic series and the audit log are delivered
  completely.  Behaviour that is at odds with the intent of the code is listed as findings in the manifest.

  \<^bold>\<open>Parameters.\<close>  What the program does not contain is an argument of the definitions:
  bcrypt, SHA-256, crypto/rand, the clock, the environment, sort.Slice on equal keys, the order of map
  iteration and of rows the database may choose, the outcome of every database call, system call and
  Caddy command, the JSON encoder of the finished configuration, Caddy's evaluation of path
  patterns, the authentication library (tokens, permissions and the role store with its laws), the oauth2
  and OpenID Connect libraries and providers, the public suffix list, rendering of URLs, texts of errors,
  the parser of the Prometheus format, printing of floating-point numbers (which are rationals) and the
  values and conversions of viper.  Hypotheses on them are stated in the theorems and are documented
  behaviour (a sort returns a permutation in order, the encoder is a function, a role that is assigned is
  what is read).

  \<^bold>\<open>Conventions.\<close>  A request is a record with its decoded body, or its decoding error, beside it;
  fields of bodies the source never reads (\<open>id\<close>, \<open>created_by\<close> of a proxy) are left out. A handler runs
  several groups of statements; \<open>stage\<close> separates their faults. One request sees one environment of the
  sync service. Strings are lists of bytes, and changing the case of letters is modelled for ASCII.

  \<^bold>\<open>Bounds and fuel.\<close>  Go's int is the 64-bit integer \<open>wrap64\<close> wherever it can overflow.
  The export loop has fuel, and completeness is proved for as much fuel as there are rows plus one
  (\<open>ExportProxies_complete\<close>), up to 2^40 rows, where offsets are far from overflowing.  The search
  for a free user name is a partial function whose undefined value is a search that never ends, and both
  cases are characterised.  The sync lists at most 10000 rows of each kind, as the code does, and theorems
  that need all of them say so.  All other recursions are structural or have a termination proof.

  \<^bold>\<open>Not modelled.\<close>  Logging; locks and goroutines (each call is one step, so theorems speak about
  sequences of complete calls; the overlaps that matter for administrators are modelled as sequences of
  their database steps); SQL and JSON codecs of single columns; constructors of the Caddy configuration no
  builder calls; opening of the database, migrations, shutdown, the middleware of the router library and
  request logging, which only call libraries; the background loops of the metrics scraper.
\<close>

end
